(* ===== verification/Prelude.thy ===== *)
theory Prelude
  imports Main "HOL-Library.Word"
begin

text \<open>
  Shared vocabulary of the development: the machine types of the Go sources, the
  result type of code that may panic, the big-endian byte conversions, and the
  generic lemmas the component theories rest on.

  Conventions used throughout.
  \<^item> A Go \<open>uintN\<close> is an \<open>N word\<close>; \<open>uint256.Int\<close> (four 64-bit limbs) is a
    \<open>256 word\<close>; \<open>types.Address\<close> and \<open>types.Hash\<close> (byte arrays of length 20 and 32,
    read as big-endian numbers) are a \<open>160 word\<close> and a \<open>256 word\<close>.
  \<^item> A byte slice is a list. A Go slice never has \<open>2^63\<close> elements, so a comparison
    with \<open>uint64(len(x))\<close> is written as the comparison of natural numbers.
  \<^item> Code that can panic returns a \<open>res\<close>: \<open>Ok\<close> of the result, or \<open>Panic\<close> with the kind
    of run-time panic. \<open>NoFuel\<close> is not a behaviour of the code: it marks a run of a
    fuelled loop that was given too little fuel.
  \<^item> Allocation is assumed to succeed (no out-of-memory).
\<close>

type_synonym u8 = "8 word"
type_synonym u16 = "16 word"
type_synonym u32 = "32 word"
type_synonym u64 = "64 word"
type_synonym u256 = "256 word"
type_synonym bytes = "u8 list"
type_synonym address = "160 word"
type_synonym hash = "256 word"

named_theorems opcode_defs \<open>the byte values of the opcodes\<close>
named_theorems param_defs \<open>the protocol parameters\<close>
named_theorems go_defs \<open>definitions unfolded in proofs about straight-line code\<close>

section \<open>Results of code that may panic\<close>

datatype panic =
    StackIndex       \<comment> \<open>index out of range on the EVM stack\<close>
  | MemoryIndex      \<comment> \<open>slice bounds of the memory, or \<open>invalid memory: store empty\<close>\<close>
  | SliceBounds      \<comment> \<open>any other slice or index out of range\<close>
  | NilDereference   \<comment> \<open>nil pointer dereference\<close>
  | BadRevision      \<comment> \<open>revision id cannot be reverted\<close>
  | DivideByZero     \<comment> \<open>integer division by zero\<close>
  | Impossible       \<comment> \<open>an explicit panic call guarding an "impossible" case\<close>

datatype 'a res = Ok 'a | Panic panic | NoFuel

definition bnd :: "'a res \<Rightarrow> ('a \<Rightarrow> 'b res) \<Rightarrow> 'b res" where
  "bnd m f = (case m of Ok x \<Rightarrow> f x | Panic p \<Rightarrow> Panic p | NoFuel \<Rightarrow> NoFuel)"

definition of_opt :: "panic \<Rightarrow> 'a option \<Rightarrow> 'a res" where
  "of_opt p x = (case x of None \<Rightarrow> Panic p | Some a \<Rightarrow> Ok a)"

definition panics :: "panic \<Rightarrow> 'a res \<Rightarrow> bool" where
  "panics p m \<longleftrightarrow> m = Panic p"

lemma bnd_simps [simp]:
  "bnd (Ok x) f = f x"
  "bnd (Panic p) f = Panic p"
  "bnd NoFuel f = NoFuel"
  by (simp_all add: bnd_def)

lemma bnd_Ok_right [simp]: "bnd m Ok = m"
  by (cases m) simp_all

lemma bnd_assoc: "bnd (bnd m f) g = bnd m (\<lambda>x. bnd (f x) g)"
  by (cases m) simp_all

lemma bnd_eq_Ok: "bnd m f = Ok y \<longleftrightarrow> (\<exists>x. m = Ok x \<and> f x = Ok y)"
  by (cases m) simp_all

lemma bnd_eq_Panic: "bnd m f = Panic p \<longleftrightarrow> m = Panic p \<or> (\<exists>x. m = Ok x \<and> f x = Panic p)"
  by (cases m) simp_all

lemma bnd_eq_NoFuel: "bnd m f = NoFuel \<longleftrightarrow> m = NoFuel \<or> (\<exists>x. m = Ok x \<and> f x = NoFuel)"
  by (cases m) simp_all

lemma bnd_cong [fundef_cong]:
  "m = m' \<Longrightarrow> (\<And>x. m' = Ok x \<Longrightarrow> f x = f' x) \<Longrightarrow> bnd m f = bnd m' f'"
  by (cases m') simp_all

lemma of_opt_simps [simp]:
  "of_opt p None = Panic p"
  "of_opt p (Some a) = Ok a"
  by (simp_all add: of_opt_def)

lemma of_opt_not_NoFuel [simp]: "of_opt p x \<noteq> NoFuel"
  by (cases x) simp_all

lemma of_opt_eq_Ok [simp]: "of_opt p x = Ok a \<longleftrightarrow> x = Some a"
  by (cases x) simp_all

lemma of_opt_eq_Panic [simp]: "of_opt p x = Panic q \<longleftrightarrow> x = None \<and> p = q"
  by (cases x) auto

lemma bnd_Inr:
  "bnd m (\<lambda>r. case r of Inl e \<Rightarrow> Ok (Inl e) | Inr x \<Rightarrow> f x) = Ok (Inr y) \<longleftrightarrow> (\<exists>x. m = Ok (Inr x) \<and> f x = Ok (Inr y))"
  by (auto simp: bnd_eq_Ok split: sum.splits) (metis Inr_not_Inl obj_sumE)

text \<open>A property of the result of a computation that returns.\<close>

definition when_ok :: "('a \<Rightarrow> bool) \<Rightarrow> 'a res \<Rightarrow> bool" where
  "when_ok P r \<longleftrightarrow> (case r of Ok x \<Rightarrow> P x | _ \<Rightarrow> True)"

lemma when_ok_simps [simp]:
  "when_ok P (Ok x) = P x" "when_ok P (Panic p)" "when_ok P NoFuel"
  "when_ok Q (bnd m f) = when_ok (\<lambda>x. when_ok Q (f x)) m"
  "when_ok P (of_opt p y) = (\<forall>x. y = Some x \<longrightarrow> P x)"
  by (simp_all add: when_ok_def bnd_def of_opt_def split: res.split option.split)

lemma when_ok_all: "(\<And>x. P x) \<Longrightarrow> when_ok P r"
  by (cases r) simp_all

lemma when_okI: "(\<And>x. r = Ok x \<Longrightarrow> P x) \<Longrightarrow> when_ok P r"
  by (cases r) simp_all

lemma when_okD: "when_ok P r \<Longrightarrow> r = Ok x \<Longrightarrow> P x"
  by simp

lemma when_ok_mono: "when_ok P r \<Longrightarrow> (\<And>x. P x \<Longrightarrow> Q x) \<Longrightarrow> when_ok Q r"
  by (cases r) simp_all

section \<open>Words\<close>

text \<open>\<open>IsUint64\<close>, \<open>Uint64\<close> and \<open>Uint64WithOverflow\<close> read the low limb of a 256-bit
  value and say whether the others are zero.\<close>

definition IsUint64 :: "u256 \<Rightarrow> bool" where
  "IsUint64 x \<longleftrightarrow> unat x < 2 ^ 64"

definition Uint64 :: "u256 \<Rightarrow> u64" where
  "Uint64 x = ucast x"

definition Uint64WithOverflow :: "u256 \<Rightarrow> u64 \<times> bool" where
  "Uint64WithOverflow x = (Uint64 x, \<not> IsUint64 x)"

definition SetUint64 :: "u64 \<Rightarrow> u256" where
  "SetUint64 x = ucast x"

text \<open>\<open>int(x)\<close> and \<open>int64(x)\<close> of a \<open>uint64\<close>.\<close>

definition go_int :: "u64 \<Rightarrow> int" where
  "go_int x = sint x"

lemma unat_word_bound: "unat (x :: 'a::len word) < 2 ^ LENGTH('a)"
  by simp

lemma unat_u64_bound: "unat (x :: u64) < 2 ^ 64"
  using unat_word_bound [of x] by simp

lemma unat_Uint64: "IsUint64 x \<Longrightarrow> unat (Uint64 x) = unat x"
  by (simp add: IsUint64_def Uint64_def unsigned_ucast_eq take_bit_nat_eq_self)

lemma unat_SetUint64 [simp]: "unat (SetUint64 x) = unat x"
proof -
  have "unat x < 2 ^ 64" by (rule unat_u64_bound)
  then have "unat x < 2 ^ 256" by (rule less_trans) simp
  then show ?thesis by (simp add: SetUint64_def unsigned_ucast_eq take_bit_nat_eq_self)
qed

lemma Uint64_SetUint64 [simp]: "Uint64 (SetUint64 x) = x"
  by (rule bit_word_eqI) (simp add: Uint64_def SetUint64_def bit_ucast_iff)

lemma go_int_small:
  assumes "unat x < 2 ^ 63"
  shows "go_int x = int (unat x)"
proof -
  have "uint x < 2 ^ 63" using assms by (metis of_nat_less_numeral_power_cancel_iff uint_nat)
  then have "signed_take_bit 63 (uint x) = uint x"
    by (intro signed_take_bit_int_eq_self) (auto intro: order_trans [of _ 0])
  then show ?thesis by (simp add: go_int_def sint_uint)
qed

lemma unat_add_no_wrap:
  fixes a b :: "'a::len word"
  assumes "unat a + unat b < 2 ^ LENGTH('a)"
  shows "unat (a + b) = unat a + unat b"
  using assms by (simp add: unat_word_ariths)

lemma unat_of_nat64: "n < 2 ^ 64 \<Longrightarrow> unat (of_nat n :: u64) = n"
  by (simp add: unat_of_nat take_bit_nat_eq_self)

lemma unat_of_nat256: "m < 2 ^ 256 \<Longrightarrow> unat (of_nat m :: u256) = m"
  by (simp add: unat_of_nat)

lemma Uint64_of_nat: "Uint64 (of_nat k) = of_nat k"
  by (rule bit_word_eqI) (simp add: Uint64_def bit_simps)

section \<open>Big-endian bytes\<close>

text \<open>\<open>be_val\<close> is the number a byte string denotes; \<open>be_bytes n v\<close> the \<open>n\<close> low bytes of \<open>v\<close>.\<close>

fun be_val_acc :: "nat \<Rightarrow> bytes \<Rightarrow> nat" where
  "be_val_acc a [] = a"
| "be_val_acc a (b # bs) = be_val_acc (a * 256 + unat b) bs"

definition be_val :: "bytes \<Rightarrow> nat" where
  "be_val bs = be_val_acc 0 bs"

fun be_bytes :: "nat \<Rightarrow> nat \<Rightarrow> bytes" where
  "be_bytes 0 v = []"
| "be_bytes (Suc n) v = be_bytes n (v div 256) @ [of_nat v]"

definition SetBytes :: "bytes \<Rightarrow> u256" where
  "SetBytes bs = of_nat (be_val bs)"

definition Bytes20 :: "u256 \<Rightarrow> address" where
  "Bytes20 x = ucast x"

definition address_word :: "address \<Rightarrow> u256" where
  "address_word a = ucast a"

definition address_bytes :: "address \<Rightarrow> bytes" where
  "address_bytes a = be_bytes 20 (unat a)"

definition hash_bytes :: "hash \<Rightarrow> bytes" where
  "hash_bytes h = be_bytes 32 (unat h)"

definition BytesToAddress :: "bytes \<Rightarrow> address" where
  "BytesToAddress bs = of_nat (be_val bs)"

lemma length_be_bytes [simp]: "length (be_bytes n v) = n"
  by (induction n arbitrary: v) simp_all

lemma be_val_acc_append: "be_val_acc a (xs @ ys) = be_val_acc (be_val_acc a xs) ys"
  by (induction xs arbitrary: a) simp_all

lemma unat_of_nat_u8 [simp]: "unat (of_nat v :: u8) = v mod 256"
  by (simp add: unat_of_nat)

lemma be_val_be_bytes: "be_val (be_bytes n v) = v mod 256 ^ n"
proof (induction n arbitrary: v)
  case 0
  then show ?case by (simp add: be_val_def)
next
  case (Suc n)
  have "be_val (be_bytes (Suc n) v) = (v div 256) mod 256 ^ n * 256 + v mod 256"
    using Suc.IH [of "v div 256"] by (simp add: be_val_def be_val_acc_append)
  also have "\<dots> = v mod (256 * 256 ^ n)"
    by (simp add: mod_mult2_eq mult.commute)
  finally show ?case by simp
qed

lemma SetBytes_be_bytes: "SetBytes (be_bytes 32 (unat w)) = w"
proof -
  have "unat w < 256 ^ 32" using unat_word_bound [of w] by simp
  then show ?thesis by (simp add: SetBytes_def be_val_be_bytes)
qed

lemma BytesToAddress_address_bytes [simp]: "BytesToAddress (address_bytes a) = a"
proof -
  have "unat a < 256 ^ 20" using unat_word_bound [of a] by simp
  then show ?thesis by (simp add: BytesToAddress_def address_bytes_def be_val_be_bytes)
qed

lemma Bytes20_address_word [simp]: "Bytes20 (address_word a) = a"
  by (rule bit_word_eqI) (simp add: Bytes20_def address_word_def bit_ucast_iff)

section \<open>Slices\<close>

text \<open>\<open>xs[lo:hi]\<close> of a Go slice of length equal to its capacity.\<close>

definition slice :: "'a list \<Rightarrow> nat \<Rightarrow> nat \<Rightarrow> 'a list option" where
  "slice xs lo hi = (if lo \<le> hi \<and> hi \<le> length xs then Some (take (hi - lo) (drop lo xs)) else None)"

text \<open>\<open>copy(dst[lo:lo+n], src)\<close> for a destination range inside \<open>dst\<close>: the first
  \<open>min n (length src)\<close> elements are overwritten.\<close>

definition copy_at :: "'a list \<Rightarrow> nat \<Rightarrow> nat \<Rightarrow> 'a list \<Rightarrow> 'a list" where
  "copy_at dst lo n src =
     (let k = min n (length src)
      in take lo dst @ take k src @ drop (lo + k) dst)"

lemma length_slice: "slice xs lo hi = Some ys \<Longrightarrow> length ys = hi - lo"
  by (auto simp: slice_def split: if_splits)

lemma length_copy_at [simp]: "lo + n \<le> length dst \<Longrightarrow> length (copy_at dst lo n src) = length dst"
  by (simp add: copy_at_def Let_def)

lemma copy_at_read:
  assumes "lo + n \<le> length dst" and "length src = n"
  shows "take n (drop lo (copy_at dst lo n src)) = src"
  using assms by (simp add: copy_at_def)

lemma copy_at_nth_outside:
  assumes "lo + n \<le> length dst" and "i < lo \<or> lo + n \<le> i" and "i < length dst"
  shows "copy_at dst lo n src ! i = dst ! i"
  using assms by (auto simp: copy_at_def Let_def nth_append)

end
