(* ===== verification/Opcodes.thy ===== *)
theory Opcodes
  imports Prelude
begin

text \<open>
  The opcodes of \<open>internal/vm/opcodes.go\<close>. The runs \<open>PUSH1\<close> to \<open>PUSH32\<close>, \<open>DUP1\<close> to \<open>DUP16\<close>,
  \<open>SWAP1\<close> to \<open>SWAP16\<close> and \<open>LOG0\<close> to \<open>LOG4\<close> are functions of their number.
\<close>

type_synonym OpCode = u8

definition STOP :: OpCode where
  [opcode_defs]: "STOP = 0x0"

definition ADD :: OpCode where
  [opcode_defs]: "ADD = 0x1"

definition MUL :: OpCode where
  [opcode_defs]: "MUL = 0x2"

definition SUB :: OpCode where
  [opcode_defs]: "SUB = 0x3"

definition DIV :: OpCode where
  [opcode_defs]: "DIV = 0x4"

definition SDIV :: OpCode where
  [opcode_defs]: "SDIV = 0x5"

definition MOD :: OpCode where
  [opcode_defs]: "MOD = 0x6"

definition SMOD :: OpCode where
  [opcode_defs]: "SMOD = 0x7"

definition ADDMOD :: OpCode where
  [opcode_defs]: "ADDMOD = 0x8"

definition MULMOD :: OpCode where
  [opcode_defs]: "MULMOD = 0x9"

definition EXP :: OpCode where
  [opcode_defs]: "EXP = 0xa"

definition SIGNEXTEND :: OpCode where
  [opcode_defs]: "SIGNEXTEND = 0xb"

definition LT :: OpCode where
  [opcode_defs]: "LT = 0x10"

definition GT :: OpCode where
  [opcode_defs]: "GT = 0x11"

definition SLT :: OpCode where
  [opcode_defs]: "SLT = 0x12"

definition SGT :: OpCode where
  [opcode_defs]: "SGT = 0x13"

definition EQ :: OpCode where
  [opcode_defs]: "EQ = 0x14"

definition ISZERO :: OpCode where
  [opcode_defs]: "ISZERO = 0x15"

definition AND :: OpCode where
  [opcode_defs]: "AND = 0x16"

definition OR :: OpCode where
  [opcode_defs]: "OR = 0x17"

definition XOR :: OpCode where
  [opcode_defs]: "XOR = 0x18"

definition NOT :: OpCode where
  [opcode_defs]: "NOT = 0x19"

definition BYTE :: OpCode where
  [opcode_defs]: "BYTE = 0x1a"

definition SHL :: OpCode where
  [opcode_defs]: "SHL = 0x1b"

definition SHR :: OpCode where
  [opcode_defs]: "SHR = 0x1c"

definition SAR :: OpCode where
  [opcode_defs]: "SAR = 0x1d"

definition KECCAK256 :: OpCode where
  [opcode_defs]: "KECCAK256 = 0x20"

definition ADDRESS :: OpCode where
  [opcode_defs]: "ADDRESS = 0x30"

definition BALANCE :: OpCode where
  [opcode_defs]: "BALANCE = 0x31"

definition ORIGIN :: OpCode where
  [opcode_defs]: "ORIGIN = 0x32"

definition CALLER :: OpCode where
  [opcode_defs]: "CALLER = 0x33"

definition CALLVALUE :: OpCode where
  [opcode_defs]: "CALLVALUE = 0x34"

definition CALLDATALOAD :: OpCode where
  [opcode_defs]: "CALLDATALOAD = 0x35"

definition CALLDATASIZE :: OpCode where
  [opcode_defs]: "CALLDATASIZE = 0x36"

definition CALLDATACOPY :: OpCode where
  [opcode_defs]: "CALLDATACOPY = 0x37"

definition CODESIZE :: OpCode where
  [opcode_defs]: "CODESIZE = 0x38"

definition CODECOPY :: OpCode where
  [opcode_defs]: "CODECOPY = 0x39"

definition GASPRICE :: OpCode where
  [opcode_defs]: "GASPRICE = 0x3a"

definition EXTCODESIZE :: OpCode where
  [opcode_defs]: "EXTCODESIZE = 0x3b"

definition EXTCODECOPY :: OpCode where
  [opcode_defs]: "EXTCODECOPY = 0x3c"

definition RETURNDATASIZE :: OpCode where
  [opcode_defs]: "RETURNDATASIZE = 0x3d"

definition RETURNDATACOPY :: OpCode where
  [opcode_defs]: "RETURNDATACOPY = 0x3e"

definition EXTCODEHASH :: OpCode where
  [opcode_defs]: "EXTCODEHASH = 0x3f"

definition BLOCKHASH :: OpCode where
  [opcode_defs]: "BLOCKHASH = 0x40"

definition COINBASE :: OpCode where
  [opcode_defs]: "COINBASE = 0x41"

definition TIMESTAMP :: OpCode where
  [opcode_defs]: "TIMESTAMP = 0x42"

definition NUMBER :: OpCode where
  [opcode_defs]: "NUMBER = 0x43"

definition DIFFICULTY :: OpCode where
  [opcode_defs]: "DIFFICULTY = 0x44"

definition GASLIMIT :: OpCode where
  [opcode_defs]: "GASLIMIT = 0x45"

definition CHAINID :: OpCode where
  [opcode_defs]: "CHAINID = 0x46"

definition SELFBALANCE :: OpCode where
  [opcode_defs]: "SELFBALANCE = 0x47"

definition BASEFEE :: OpCode where
  [opcode_defs]: "BASEFEE = 0x48"

definition POP :: OpCode where
  [opcode_defs]: "POP = 0x50"

definition MLOAD :: OpCode where
  [opcode_defs]: "MLOAD = 0x51"

definition MSTORE :: OpCode where
  [opcode_defs]: "MSTORE = 0x52"

definition MSTORE8 :: OpCode where
  [opcode_defs]: "MSTORE8 = 0x53"

definition SLOAD :: OpCode where
  [opcode_defs]: "SLOAD = 0x54"

definition SSTORE :: OpCode where
  [opcode_defs]: "SSTORE = 0x55"

definition JUMP :: OpCode where
  [opcode_defs]: "JUMP = 0x56"

definition JUMPI :: OpCode where
  [opcode_defs]: "JUMPI = 0x57"

definition PC :: OpCode where
  [opcode_defs]: "PC = 0x58"

definition MSIZE :: OpCode where
  [opcode_defs]: "MSIZE = 0x59"

definition GAS :: OpCode where
  [opcode_defs]: "GAS = 0x5a"

definition JUMPDEST :: OpCode where
  [opcode_defs]: "JUMPDEST = 0x5b"

definition PUSH0 :: OpCode where
  [opcode_defs]: "PUSH0 = 0x5f"

definition CREATE :: OpCode where
  [opcode_defs]: "CREATE = 0xf0"

definition CALL :: OpCode where
  [opcode_defs]: "CALL = 0xf1"

definition CALLCODE :: OpCode where
  [opcode_defs]: "CALLCODE = 0xf2"

definition RETURN :: OpCode where
  [opcode_defs]: "RETURN = 0xf3"

definition DELEGATECALL :: OpCode where
  [opcode_defs]: "DELEGATECALL = 0xf4"

definition CREATE2 :: OpCode where
  [opcode_defs]: "CREATE2 = 0xf5"

definition STATICCALL :: OpCode where
  [opcode_defs]: "STATICCALL = 0xfa"

definition REVERT :: OpCode where
  [opcode_defs]: "REVERT = 0xfd"

definition INVALID :: OpCode where
  [opcode_defs]: "INVALID = 0xfe"

definition SELFDESTRUCT :: OpCode where
  [opcode_defs]: "SELFDESTRUCT = 0xff"

definition PUSH :: "nat \<Rightarrow> OpCode" where
  [opcode_defs]: "PUSH n = 0x60 + of_nat (n - 1)"

definition DUP :: "nat \<Rightarrow> OpCode" where
  [opcode_defs]: "DUP n = 0x80 + of_nat (n - 1)"

definition SWAP :: "nat \<Rightarrow> OpCode" where
  [opcode_defs]: "SWAP n = 0x90 + of_nat (n - 1)"

definition LOG :: "nat \<Rightarrow> OpCode" where
  [opcode_defs]: "LOG n = 0xa0 + of_nat n"

definition IsPush :: "OpCode \<Rightarrow> bool" where
  "IsPush op \<longleftrightarrow> op \<in> set (map PUSH [1 ..< 33])"

definition IsStaticJump :: "OpCode \<Rightarrow> bool" where
  "IsStaticJump op \<longleftrightarrow> op = JUMP"

lemma unat_PUSH: "1 \<le> n \<Longrightarrow> n < 33 \<Longrightarrow> unat (PUSH n) = 0x5f + n"
  by (simp add: opcode_defs unat_word_ariths unat_of_nat)

lemma IsPush_range: "IsPush op \<longleftrightarrow> PUSH 1 \<le> op \<and> op \<le> PUSH 32"
proof
  assume "IsPush op"
  then obtain n where "op = PUSH n" "1 \<le> n" "n < 33" by (auto simp: IsPush_def)
  then show "PUSH 1 \<le> op \<and> op \<le> PUSH 32"
    using unat_PUSH [of n] unat_PUSH [of 1] unat_PUSH [of 32] by (simp add: word_le_nat_alt)
next
  assume "PUSH 1 \<le> op \<and> op \<le> PUSH 32"
  then have n: "1 \<le> unat op - 0x5f" "unat op - 0x5f < 33" "0x60 \<le> unat op"
    using unat_PUSH [of 1] unat_PUSH [of 32] by (auto simp: word_le_nat_alt)
  then have "unat (PUSH (unat op - 0x5f)) = unat op" by (subst unat_PUSH) auto
  then have "op = PUSH (unat op - 0x5f)" by (metis word_unat_eq_iff)
  then show "IsPush op" unfolding IsPush_def using n by (metis atLeastLessThan_iff image_eqI list.set_map set_upt)
qed

end
