(* ===== verification/Params.thy ===== *)
theory Params
  imports Prelude
begin

text \<open>
  The protocol parameters of \<open>params/protocol_params.go\<close> that the modelled code reads,
  with the widths of the source. \<open>MaxCodeSize\<close> and \<open>MaxInitCodeSize\<close> are untyped Go
  constants, compared with lengths.
\<close>

definition MinGasLimit :: u64 where
  [param_defs]: "MinGasLimit = 5000"

definition MaxGasLimit :: u64 where
  [param_defs]: "MaxGasLimit = 0x7fffffffffffffff"

definition CallValueTransferGas :: u64 where
  [param_defs]: "CallValueTransferGas = 9000"

definition CallNewAccountGas :: u64 where
  [param_defs]: "CallNewAccountGas = 25000"

definition TxGas :: u64 where
  [param_defs]: "TxGas = 21000"

definition TxGasContractCreation :: u64 where
  [param_defs]: "TxGasContractCreation = 53000"

definition TxDataZeroGas :: u64 where
  [param_defs]: "TxDataZeroGas = 4"

definition QuadCoeffDiv :: u64 where
  [param_defs]: "QuadCoeffDiv = 512"

definition LogDataGas :: u64 where
  [param_defs]: "LogDataGas = 8"

definition CallStipend :: u64 where
  [param_defs]: "CallStipend = 2300"

definition SstoreSetGas :: u64 where
  [param_defs]: "SstoreSetGas = 20000"

definition SstoreResetGas :: u64 where
  [param_defs]: "SstoreResetGas = 5000"

definition SstoreClearGas :: u64 where
  [param_defs]: "SstoreClearGas = 5000"

definition SstoreRefundGas :: u64 where
  [param_defs]: "SstoreRefundGas = 15000"

definition NetSstoreNoopGas :: u64 where
  [param_defs]: "NetSstoreNoopGas = 200"

definition NetSstoreInitGas :: u64 where
  [param_defs]: "NetSstoreInitGas = 20000"

definition NetSstoreCleanGas :: u64 where
  [param_defs]: "NetSstoreCleanGas = 5000"

definition NetSstoreDirtyGas :: u64 where
  [param_defs]: "NetSstoreDirtyGas = 200"

definition NetSstoreClearRefund :: u64 where
  [param_defs]: "NetSstoreClearRefund = 15000"

definition NetSstoreResetRefund :: u64 where
  [param_defs]: "NetSstoreResetRefund = 4800"

definition NetSstoreResetClearRefund :: u64 where
  [param_defs]: "NetSstoreResetClearRefund = 19800"

definition Keccak256Gas :: u64 where
  [param_defs]: "Keccak256Gas = 30"

definition Keccak256WordGas :: u64 where
  [param_defs]: "Keccak256WordGas = 6"

definition InitCodeWordGas :: u64 where
  [param_defs]: "InitCodeWordGas = 2"

definition SstoreSentryGasEIP2200 :: u64 where
  [param_defs]: "SstoreSentryGasEIP2200 = 2300"

definition SstoreSetGasEIP2200 :: u64 where
  [param_defs]: "SstoreSetGasEIP2200 = 20000"

definition SstoreResetGasEIP2200 :: u64 where
  [param_defs]: "SstoreResetGasEIP2200 = 5000"

definition SstoreClearsScheduleRefundEIP2200 :: u64 where
  [param_defs]: "SstoreClearsScheduleRefundEIP2200 = 15000"

definition ColdAccountAccessCostEIP2929 :: u64 where
  [param_defs]: "ColdAccountAccessCostEIP2929 = 2600"

definition ColdSloadCostEIP2929 :: u64 where
  [param_defs]: "ColdSloadCostEIP2929 = 2100"

definition WarmStorageReadCostEIP2929 :: u64 where
  [param_defs]: "WarmStorageReadCostEIP2929 = 100"

definition TxAccessListAddressGas :: u64 where
  [param_defs]: "TxAccessListAddressGas = 2400"

definition TxAccessListStorageKeyGas :: u64 where
  [param_defs]: "TxAccessListStorageKeyGas = 1900"

definition SstoreClearsScheduleRefundEIP3529 :: u64 where
  [param_defs]: "SstoreClearsScheduleRefundEIP3529 = SstoreResetGasEIP2200 - ColdSloadCostEIP2929 + TxAccessListStorageKeyGas"

definition JumpdestGas :: u64 where
  [param_defs]: "JumpdestGas = 1"

definition CreateDataGas :: u64 where
  [param_defs]: "CreateDataGas = 200"

definition CallCreateDepth :: u64 where
  [param_defs]: "CallCreateDepth = 1024"

definition ExpGas :: u64 where
  [param_defs]: "ExpGas = 10"

definition LogGas :: u64 where
  [param_defs]: "LogGas = 375"

definition CopyGas :: u64 where
  [param_defs]: "CopyGas = 3"

definition StackLimit :: u64 where
  [param_defs]: "StackLimit = 1024"

definition LogTopicGas :: u64 where
  [param_defs]: "LogTopicGas = 375"

definition CreateGas :: u64 where
  [param_defs]: "CreateGas = 32000"

definition Create2Gas :: u64 where
  [param_defs]: "Create2Gas = 32000"

definition SelfdestructRefundGas :: u64 where
  [param_defs]: "SelfdestructRefundGas = 24000"

definition MemoryGas :: u64 where
  [param_defs]: "MemoryGas = 3"

definition TxDataNonZeroGasFrontier :: u64 where
  [param_defs]: "TxDataNonZeroGasFrontier = 68"

definition TxDataNonZeroGasEIP2028 :: u64 where
  [param_defs]: "TxDataNonZeroGasEIP2028 = 16"

definition CallGasFrontier :: u64 where
  [param_defs]: "CallGasFrontier = 40"

definition CallGasEIP150 :: u64 where
  [param_defs]: "CallGasEIP150 = 700"

definition BalanceGasFrontier :: u64 where
  [param_defs]: "BalanceGasFrontier = 20"

definition BalanceGasEIP150 :: u64 where
  [param_defs]: "BalanceGasEIP150 = 400"

definition BalanceGasEIP1884 :: u64 where
  [param_defs]: "BalanceGasEIP1884 = 700"

definition ExtcodeSizeGasFrontier :: u64 where
  [param_defs]: "ExtcodeSizeGasFrontier = 20"

definition ExtcodeSizeGasEIP150 :: u64 where
  [param_defs]: "ExtcodeSizeGasEIP150 = 700"

definition SloadGasFrontier :: u64 where
  [param_defs]: "SloadGasFrontier = 50"

definition SloadGasEIP150 :: u64 where
  [param_defs]: "SloadGasEIP150 = 200"

definition SloadGasEIP1884 :: u64 where
  [param_defs]: "SloadGasEIP1884 = 800"

definition SloadGasEIP2200 :: u64 where
  [param_defs]: "SloadGasEIP2200 = 800"

definition ExtcodeHashGasConstantinople :: u64 where
  [param_defs]: "ExtcodeHashGasConstantinople = 400"

definition ExtcodeHashGasEIP1884 :: u64 where
  [param_defs]: "ExtcodeHashGasEIP1884 = 700"

definition SelfdestructGasEIP150 :: u64 where
  [param_defs]: "SelfdestructGasEIP150 = 5000"

definition ExpByteFrontier :: u64 where
  [param_defs]: "ExpByteFrontier = 10"

definition ExpByteEIP160 :: u64 where
  [param_defs]: "ExpByteEIP160 = 50"

definition ExtcodeCopyBaseFrontier :: u64 where
  [param_defs]: "ExtcodeCopyBaseFrontier = 20"

definition ExtcodeCopyBaseEIP150 :: u64 where
  [param_defs]: "ExtcodeCopyBaseEIP150 = 700"

definition CreateBySelfdestructGas :: u64 where
  [param_defs]: "CreateBySelfdestructGas = 25000"

definition MaxCodeSize :: nat where
  [param_defs]: "MaxCodeSize = 24576"

definition MaxInitCodeSize :: nat where
  [param_defs]: "MaxInitCodeSize = 2 * MaxCodeSize"

definition RefundQuotient :: u64 where
  [param_defs]: "RefundQuotient = 2"

definition RefundQuotientEIP3529 :: u64 where
  [param_defs]: "RefundQuotientEIP3529 = 5"

end
