(* ===== verification/IntMath.thy ===== *)
theory IntMath
  imports Prelude
begin

text \<open>
  The checked 64-bit arithmetic of \<open>common/math/integer.go\<close> and \<open>common/math/big.go\<close>, and
  the byte helpers of \<open>common/types/bytes.go\<close>. \<open>bits.Add64\<close>, \<open>bits.Sub64\<close> and \<open>bits.Mul64\<close> of
  the Go standard library return the wrapped result and the carry, borrow or high word.
\<close>

definition MaxUint64 :: u64 where
  "MaxUint64 = 0xFFFFFFFFFFFFFFFF"

definition SafeSub :: "u64 \<Rightarrow> u64 \<Rightarrow> u64 \<times> bool" where
  "SafeSub x y = (x - y, unat x < unat y)"

definition SafeAdd :: "u64 \<Rightarrow> u64 \<Rightarrow> u64 \<times> bool" where
  "SafeAdd x y = (x + y, 2 ^ 64 \<le> unat x + unat y)"

definition SafeMul :: "u64 \<Rightarrow> u64 \<Rightarrow> u64 \<times> bool" where
  "SafeMul x y = (x * y, 2 ^ 64 \<le> unat x * unat y)"

definition AbsoluteDifference :: "u64 \<Rightarrow> u64 \<Rightarrow> u64" where
  "AbsoluteDifference x y = (if x > y then x - y else y - x)"

definition Min256 :: "u256 \<Rightarrow> u256 \<Rightarrow> u256" where
  "Min256 x y = (if x > y then y else x)"

text \<open>The length argument is a Go \<open>int\<close>; a negative one leaves the slice alone.\<close>

definition RightPadBytes :: "bytes \<Rightarrow> int \<Rightarrow> bytes" where
  "RightPadBytes xs l =
     (if l \<le> int (length xs) then xs
      else xs @ replicate (nat l - length xs) 0)"

definition LeftPadBytes :: "bytes \<Rightarrow> int \<Rightarrow> bytes" where
  "LeftPadBytes xs l =
     (if l \<le> int (length xs) then xs
      else replicate (nat l - length xs) 0 @ xs)"

fun TrimLeftZeroes :: "bytes \<Rightarrow> bytes" where
  "TrimLeftZeroes [] = []"
| "TrimLeftZeroes (b # bs) = (if b \<noteq> 0 then b # bs else TrimLeftZeroes bs)"

definition TrimRightZeroes :: "bytes \<Rightarrow> bytes" where
  "TrimRightZeroes bs = rev (TrimLeftZeroes (rev bs))"

definition allZero :: "bytes \<Rightarrow> bool" where
  "allZero bs = list_all (\<lambda>b. b = 0) bs"

section \<open>Lemmas\<close>

lemma MaxUint64_max: "unat MaxUint64 = 2 ^ 64 - 1"
  by (simp add: MaxUint64_def)

lemma SafeAdd_ok: "SafeAdd x y = (z, False) \<Longrightarrow> unat z = unat x + unat y"
  by (auto simp: SafeAdd_def intro: unat_add_no_wrap)

lemma SafeSub_ok: "SafeSub x y = (z, False) \<Longrightarrow> unat z = unat x - unat y"
  by (auto simp: SafeSub_def unat_sub_if')

lemma SafeMul_ok: "SafeMul x y = (z, False) \<Longrightarrow> unat z = unat x * unat y"
  by (auto simp: SafeMul_def unat_word_ariths)

lemma AbsoluteDifference_eq:
  "unat (AbsoluteDifference x y) = (unat x - unat y) + (unat y - unat x)"
  by (auto simp: AbsoluteDifference_def unat_sub_if' word_less_nat_alt)

lemma length_RightPadBytes: "length (RightPadBytes xs l) = max (length xs) (nat l)"
  by (auto simp: RightPadBytes_def)

lemma length_LeftPadBytes: "length (LeftPadBytes xs l) = max (length xs) (nat l)"
  by (auto simp: LeftPadBytes_def)

lemma be_val_acc_zeros: "be_val_acc 0 (replicate n 0 @ xs) = be_val_acc 0 xs"
  by (induction n) simp_all

text \<open>Left padding does not change the number a byte string denotes.\<close>

lemma be_val_LeftPadBytes: "be_val (LeftPadBytes xs l) = be_val xs"
  by (simp add: LeftPadBytes_def be_val_def be_val_acc_zeros)

lemma be_val_TrimLeftZeroes: "be_val (TrimLeftZeroes xs) = be_val xs"
  by (induction xs) (simp_all add: be_val_def)

lemma TrimLeftZeroes_hd: "TrimLeftZeroes xs \<noteq> [] \<Longrightarrow> hd (TrimLeftZeroes xs) \<noteq> 0"
  by (induction xs) (auto split: if_splits)

end
