(* ===== verification/EvmStack.thy ===== *)
theory EvmStack
  imports Prelude
begin

text \<open>
  The operand stack of the virtual machine, \<open>internal/vm/stack/stack.go\<close>. \<open>Data\<close> is the
  Go slice: its last element is the top. An index out of the slice is a panic.
  \<open>Peek\<close> and \<open>Back\<close> return pointers into the slice; \<open>SetPeek\<close> is the write through the
  pointer \<open>Peek\<close> returns. The pools the stacks are taken from are not modelled: \<open>New\<close>
  returns an empty stack because every stack is emptied when it is put back.

  The locale \<open>lifo\<close> states what the instructions rely on; the slice implements it, and
  its representation by a top-first list \<open>mkStack\<close> is what the proofs compute with.
\<close>

record Stack =
  Data :: "u256 list"

definition NewStack :: Stack where
  "NewStack = \<lparr>Data = []\<rparr>"

definition Len :: "Stack \<Rightarrow> nat" where
  "Len st = length (Data st)"

definition Push :: "u256 \<Rightarrow> Stack \<Rightarrow> Stack" where
  "Push d st = st\<lparr>Data := Data st @ [d]\<rparr>"

definition PushN :: "u256 list \<Rightarrow> Stack \<Rightarrow> Stack" where
  "PushN ds st = st\<lparr>Data := Data st @ ds\<rparr>"

definition Pop :: "Stack \<Rightarrow> (u256 \<times> Stack) res" where
  "Pop st =
     (if Data st = [] then Panic StackIndex
      else Ok (Data st ! (Len st - 1), st\<lparr>Data := take (Len st - 1) (Data st)\<rparr>))"

definition Swap :: "nat \<Rightarrow> Stack \<Rightarrow> Stack res" where
  "Swap n st =
     (if 1 \<le> n \<and> n \<le> Len st
      then Ok (st\<lparr>Data := (Data st)[Len st - n := Data st ! (Len st - 1),
                                    Len st - 1 := Data st ! (Len st - n)]\<rparr>)
      else Panic StackIndex)"

definition Dup :: "nat \<Rightarrow> Stack \<Rightarrow> Stack res" where
  "Dup n st =
     (if 1 \<le> n \<and> n \<le> Len st then Ok (Push (Data st ! (Len st - n)) st)
      else Panic StackIndex)"

definition Peek :: "Stack \<Rightarrow> u256 res" where
  "Peek st = (if Data st = [] then Panic StackIndex else Ok (Data st ! (Len st - 1)))"

definition SetPeek :: "u256 \<Rightarrow> Stack \<Rightarrow> Stack" where
  "SetPeek v st = st\<lparr>Data := (Data st)[Len st - 1 := v]\<rparr>"

definition Back :: "nat \<Rightarrow> Stack \<Rightarrow> u256 res" where
  "Back n st = (if n < Len st then Ok (Data st ! (Len st - n - 1)) else Panic StackIndex)"

definition Reset :: "Stack \<Rightarrow> Stack" where
  "Reset st = st\<lparr>Data := []\<rparr>"

text \<open>The return stack of \<open>uint32\<close> code positions.\<close>

record ReturnStack =
  rdata :: "u32 list"

definition RPush :: "u32 \<Rightarrow> ReturnStack \<Rightarrow> ReturnStack" where
  "RPush d rs = rs\<lparr>rdata := rdata rs @ [d]\<rparr>"

definition RPop :: "ReturnStack \<Rightarrow> (u32 \<times> ReturnStack) res" where
  "RPop rs =
     (if rdata rs = [] then Panic StackIndex
      else Ok (rdata rs ! (length (rdata rs) - 1),
               rs\<lparr>rdata := take (length (rdata rs) - 1) (rdata rs)\<rparr>))"

text \<open>The same stack as a list whose head is the top.\<close>

definition mkStack :: "u256 list \<Rightarrow> Stack" where
  "mkStack xs = \<lparr>Data = rev xs\<rparr>"

definition top_first :: "Stack \<Rightarrow> u256 list" where
  "top_first st = rev (Data st)"

text \<open>Popping \<open>n\<close> elements, the loop of \<open>makeLog\<close>.\<close>

fun PopN :: "nat \<Rightarrow> Stack \<Rightarrow> (u256 list \<times> Stack) res" where
  "PopN 0 st = Ok ([], st)"
| "PopN (Suc n) st = bnd (Pop st) (\<lambda>(x, st). bnd (PopN n st) (\<lambda>(xs, st). Ok (x # xs, st)))"

section \<open>The representation by top-first lists\<close>

lemma mkStack_top_first [simp]: "mkStack (top_first st) = st"
  by (simp add: mkStack_def top_first_def)

lemma top_first_mkStack [simp]: "top_first (mkStack xs) = xs"
  by (simp add: mkStack_def top_first_def)

lemma NewStack_mkStack: "NewStack = mkStack []"
  by (simp add: NewStack_def mkStack_def)

lemma mkStack_inject [simp]: "mkStack xs = mkStack ys \<longleftrightarrow> xs = ys"
  by (metis top_first_mkStack)

lemma Len_top_first: "Len st = length (top_first st)"
  by (simp add: Len_def top_first_def)

lemma Len_mkStack [simp]: "Len (mkStack xs) = length xs"
  by (simp add: Len_def mkStack_def)

lemma Push_mkStack [simp]: "Push d (mkStack xs) = mkStack (d # xs)"
  by (simp add: Push_def mkStack_def)

lemma Pop_mkStack [simp]:
  "Pop (mkStack []) = Panic StackIndex"
  "Pop (mkStack (x # xs)) = Ok (x, mkStack xs)"
  by (simp_all add: Pop_def mkStack_def Len_def nth_append)

lemma Peek_mkStack [simp]:
  "Peek (mkStack []) = Panic StackIndex"
  "Peek (mkStack (x # xs)) = Ok x"
  by (simp_all add: Peek_def mkStack_def Len_def nth_append)

lemma SetPeek_mkStack [simp]: "SetPeek v (mkStack (x # xs)) = mkStack (v # xs)"
  by (simp add: SetPeek_def mkStack_def Len_def list_update_append)

lemma Back_mkStack: "Back n (mkStack xs) = (if n < length xs then Ok (xs ! n) else Panic StackIndex)"
  by (simp add: Back_def mkStack_def Len_def rev_nth)

lemma Back_mkStack_Cons [simp]:
  "Back 0 (mkStack (x # xs)) = Ok x"
  "Back (Suc n) (mkStack (x # xs)) = Back n (mkStack xs)"
  by (simp_all add: Back_mkStack)

lemma Back_numeral_mkStack [simp]:
  "Back (numeral k) (mkStack (x # xs)) = Back (pred_numeral k) (mkStack xs)"
  by (simp add: numeral_eq_Suc)

lemma Dup_mkStack:
  "Dup n (mkStack xs) =
     (if 1 \<le> n \<and> n \<le> length xs then Ok (mkStack (xs ! (n - 1) # xs)) else Panic StackIndex)"
  by (auto simp: Dup_def mkStack_def Len_def Push_def rev_nth)

lemma Swap_mkStack:
  "Swap n (mkStack xs) =
     (if 1 \<le> n \<and> n \<le> length xs
      then Ok (mkStack (xs[n - 1 := xs ! 0, 0 := xs ! (n - 1)])) else Panic StackIndex)"
proof (cases "1 \<le> n \<and> n \<le> length xs")
  case True
  then have pos: "0 < length xs" by auto
  with True have "(rev xs)[length xs - n := xs ! 0, length xs - 1 := xs ! (n - 1)] =
      rev (xs[n - 1 := xs ! 0, 0 := xs ! (n - 1)])"
    by (intro nth_equalityI) (auto simp: nth_list_update rev_nth)
  with True pos show ?thesis
    by (simp add: Swap_def mkStack_def Len_def rev_nth)
next
  case False
  then show ?thesis by (auto simp: Swap_def mkStack_def Len_def)
qed

lemma PopN_mkStack:
  "PopN n (mkStack xs) = (if n \<le> length xs then Ok (take n xs, mkStack (drop n xs)) else Panic StackIndex)"
proof (induction n arbitrary: xs)
  case (Suc n)
  then show ?case by (cases xs) auto
qed simp

lemma stack_cases:
  obtains xs where "st = mkStack xs" "length xs = Len st"
  using mkStack_top_first [of st] by (metis Len_mkStack)

section \<open>The interface\<close>

locale lifo =
  fixes push :: "'v \<Rightarrow> 's \<Rightarrow> 's"
    and pop :: "'s \<Rightarrow> ('v \<times> 's) res"
    and nth_top :: "nat \<Rightarrow> 's \<Rightarrow> 'v res"
    and dup :: "nat \<Rightarrow> 's \<Rightarrow> 's res"
    and swap :: "nat \<Rightarrow> 's \<Rightarrow> 's res"
    and len :: "'s \<Rightarrow> nat"
  assumes pop_push: "pop (push v s) = Ok (v, s)"
    and len_push: "len (push v s) = Suc (len s)"
    and pop_total: "0 < len s \<Longrightarrow> \<exists>v s'. pop s = Ok (v, s') \<and> push v s' = s"
    and pop_underflow: "len s = 0 \<Longrightarrow> pop s = Panic StackIndex"
    and nth_top_top: "nth_top 0 (push v s) = Ok v"
    and nth_top_below: "nth_top (Suc n) (push v s) = nth_top n s"
    and dup_nth: "nth_top n s = Ok v \<Longrightarrow> dup (Suc n) s = Ok (push v s)"
    and swap_len: "swap n s = Ok s' \<Longrightarrow> len s' = len s"
    and swap_top: "swap n s = Ok s' \<Longrightarrow> nth_top 0 s' = nth_top (n - 1) s"
    and swap_bottom: "swap n s = Ok s' \<Longrightarrow> nth_top (n - 1) s' = nth_top 0 s"
    and swap_swap: "swap n s = Ok s' \<Longrightarrow> swap n s' = Ok s"
    and swap_total: "1 \<le> n \<Longrightarrow> n \<le> len s \<Longrightarrow> \<exists>s'. swap n s = Ok s'"
begin

lemma nth_top_total: "n < len s \<Longrightarrow> \<exists>v. nth_top n s = Ok v"
proof (induction n arbitrary: s)
  case 0
  then obtain v s' where "push v s' = s" using pop_total by blast
  then show ?case using nth_top_top by metis
next
  case (Suc n)
  then have "0 < len s" by simp
  then obtain v s' where s: "push v s' = s" using pop_total by blast
  with Suc.prems len_push have "n < len s'" by (metis Suc_less_eq)
  with Suc.IH s nth_top_below show ?case by metis
qed

lemma dup_total: "1 \<le> n \<Longrightarrow> n \<le> len s \<Longrightarrow> \<exists>v. dup n s = Ok (push v s)"
  using nth_top_total [of "n - 1" s] dup_nth [of "n - 1" s] by (cases n) auto

lemma pop_dup: "1 \<le> n \<Longrightarrow> n \<le> len s \<Longrightarrow> \<exists>s' v. dup n s = Ok s' \<and> pop s' = Ok (v, s) \<and> nth_top (n - 1) s = Ok v"
  using nth_top_total [of "n - 1" s] dup_nth [of "n - 1" s] pop_push by fastforce

lemma len_pop: "pop s = Ok (v, s') \<Longrightarrow> len s = Suc (len s')"
  using pop_total [of s] pop_underflow [of s] len_push [of v s'] by (cases "len s = 0") auto

end

lemma swap_list_twice:
  "1 \<le> n \<Longrightarrow> n \<le> length xs \<Longrightarrow>
   (let ys = xs[n - 1 := xs ! 0, 0 := xs ! (n - 1)] in ys[n - 1 := ys ! 0, 0 := ys ! (n - 1)]) = xs"
  by (cases xs; cases n; cases "n - 1") (auto simp: Let_def)

interpretation evm_stack: lifo Push Pop Back Dup Swap Len
proof
  fix v s n and s' :: Stack
  obtain xs where s: "s = mkStack xs" by (rule stack_cases)
  show "Pop (Push v s) = Ok (v, s)" and "Len (Push v s) = Suc (Len s)"
    and "Back 0 (Push v s) = Ok v" and "Back (Suc n) (Push v s) = Back n s"
    by (simp_all add: s)
  show "0 < Len s \<Longrightarrow> \<exists>v s'. Pop s = Ok (v, s') \<and> Push v s' = s"
    by (cases xs) (auto simp: s)
  show "Len s = 0 \<Longrightarrow> Pop s = Panic StackIndex" by (simp add: s)
  show "Back n s = Ok v \<Longrightarrow> Dup (Suc n) s = Ok (Push v s)"
    by (auto simp: s Back_mkStack Dup_mkStack split: if_splits)
  show "1 \<le> n \<Longrightarrow> n \<le> Len s \<Longrightarrow> \<exists>s'. Swap n s = Ok s'" by (simp add: s Swap_mkStack)
  assume "Swap n s = Ok s'"
  then have n: "1 \<le> n" "n \<le> length xs" and s': "s' = mkStack (xs[n - 1 := xs ! 0, 0 := xs ! (n - 1)])"
    by (auto simp: s Swap_mkStack split: if_splits)
  have pos: "0 < length xs" "n - 1 < length xs" using n by auto
  show "Len s' = Len s" by (simp add: s s')
  show "Back 0 s' = Back (n - 1) s" using pos by (simp add: s s' Back_mkStack)
  show "Back (n - 1) s' = Back 0 s" using pos by (auto simp: s s' Back_mkStack nth_list_update)
  show "Swap n s' = Ok s" using swap_list_twice [OF n] n by (simp add: s s' Swap_mkStack Let_def)
qed

end
