(* ===== verification/EvmCommon.thy ===== *)
theory EvmCommon
  imports Params IntMath EvmStack
begin

text \<open>
  What the files of \<open>internal/vm\<close> share: the errors of \<open>errors.go\<close>, the size arithmetic
  and the padded reads of \<open>common.go\<close>, and the gas steps and the 63/64 rule of \<open>gas.go\<close>.
\<close>

datatype evm_error =
    ErrInvalidSubroutineEntry
  | ErrOutOfGas
  | ErrCodeStoreOutOfGas
  | ErrDepth
  | ErrInsufficientBalance
  | ErrContractAddressCollision
  | ErrExecutionReverted
  | ErrMaxCodeSizeExceeded
  | ErrInvalidJump
  | ErrWriteProtection
  | ErrReturnDataOutOfBounds
  | ErrGasUintOverflow
  | ErrInvalidRetsub
  | ErrReturnStackExceeded
  | ErrInvalidCode
  | ErrNonceUintOverflow
  | errStopToken
  | ErrStackUnderflow nat nat
  | ErrStackOverflow nat nat
  | ErrInvalidOpCode u8
  | errorsNew string

section \<open>Size arithmetic\<close>

definition calcMemSize64WithUint :: "u256 \<Rightarrow> u64 \<Rightarrow> u64 \<times> bool" where
  "calcMemSize64WithUint off length64 =
     (if length64 = 0 then (0, False)
      else (case Uint64WithOverflow off of (offset64, overflow) \<Rightarrow>
        if overflow then (0, True)
        else let val = offset64 + length64 in (val, val < offset64)))"

definition calcMemSize64 :: "u256 \<Rightarrow> u256 \<Rightarrow> u64 \<times> bool" where
  "calcMemSize64 off l =
     (if \<not> IsUint64 l then (0, True) else calcMemSize64WithUint off (Uint64 l))"

definition getData :: "bytes \<Rightarrow> u64 \<Rightarrow> u64 \<Rightarrow> bytes res" where
  "getData data start sz =
     (let len = of_nat (length data) :: u64;
          start = (if start > len then len else start);
          end = start + sz;
          end = (if end > len then len else end)
      in bnd (of_opt SliceBounds (slice data (unat start) (unat end)))
           (\<lambda>bs. Ok (RightPadBytes bs (go_int sz))))"

definition getDataBig :: "bytes \<Rightarrow> u256 \<Rightarrow> u64 \<Rightarrow> bytes res" where
  "getDataBig data start sz =
     (case Uint64WithOverflow start of (start64, overflow) \<Rightarrow>
        getData data (if overflow then MaxUint64 else start64) sz)"

definition ToWordSize :: "u64 \<Rightarrow> u64" where
  "ToWordSize sz =
     (if sz > MaxUint64 - 31 then MaxUint64 div 32 + 1 else (sz + 31) div 32)"

section \<open>Gas steps and the gas passed to calls\<close>

definition GasQuickStep :: u64 where
  [param_defs]: "GasQuickStep = 2"

definition GasFastestStep :: u64 where
  [param_defs]: "GasFastestStep = 3"

definition GasFastStep :: u64 where
  [param_defs]: "GasFastStep = 5"

definition GasMidStep :: u64 where
  [param_defs]: "GasMidStep = 8"

definition GasSlowStep :: u64 where
  [param_defs]: "GasSlowStep = 10"

definition GasExtStep :: u64 where
  [param_defs]: "GasExtStep = 20"

definition callGas :: "bool \<Rightarrow> u64 \<Rightarrow> u64 \<Rightarrow> u256 \<Rightarrow> u64 \<times> evm_error option" where
  "callGas isEip150 availableGas base callCost =
     (let availableGas' = availableGas - base;
          gas = availableGas' - availableGas' div 64
      in if isEip150 \<and> (\<not> IsUint64 callCost \<or> gas < Uint64 callCost) then (gas, None)
         else if \<not> IsUint64 callCost then (0, Some ErrGasUintOverflow)
         else (Uint64 callCost, None))"

section \<open>Lemmas\<close>

text \<open>The sum overflows exactly when the machine sum is smaller than a summand.\<close>

lemma add_overflow_iff: "(x + y < x) \<longleftrightarrow> 2 ^ 64 \<le> unat x + unat y" for x y :: u64
  using unat_u64_bound [of x] unat_u64_bound [of y]
  by (auto simp: word_less_nat_alt unat_word_ariths mod_if)

lemma calcMemSize64WithUint_spec:
  "calcMemSize64WithUint off n = (v, False) \<longleftrightarrow>
     (if n = 0 then v = 0
      else unat off + unat n < 2 ^ 64 \<and> unat v = unat off + unat n)"
proof (cases "n = 0 \<or> \<not> IsUint64 off")
  case True
  then show ?thesis by (auto simp: calcMemSize64WithUint_def Uint64WithOverflow_def IsUint64_def)
next
  case False
  then have off: "unat (Uint64 off) = unat off" by (simp add: unat_Uint64)
  have "(unat v = unat off + unat n) = (v = Uint64 off + n)" if "unat off + unat n < 2 ^ 64"
  proof -
    have "unat (Uint64 off + n) = unat off + unat n" using that off by (simp add: unat_add_no_wrap)
    then show ?thesis by (metis word_unat_eq_iff)
  qed
  then show ?thesis using False off add_overflow_iff [of "Uint64 off" n]
    by (auto simp: calcMemSize64WithUint_def Uint64WithOverflow_def Let_def)
qed

lemma calcMemSize64_spec:
  "calcMemSize64 off l = (v, False) \<longleftrightarrow>
     (if l = 0 then v = 0
      else unat off + unat l < 2 ^ 64 \<and> unat v = unat off + unat l)"
proof (cases "IsUint64 l")
  case True
  then have "unat (Uint64 l) = unat l" by (rule unat_Uint64)
  moreover have "Uint64 l = 0 \<longleftrightarrow> l = 0" using calculation by (metis unat_eq_zero)
  ultimately show ?thesis using True by (simp add: calcMemSize64_def calcMemSize64WithUint_spec)
next
  case False
  then show ?thesis by (auto simp: calcMemSize64_def IsUint64_def)
qed

lemma unat_ToWordSize: "unat (ToWordSize sz) = (unat sz + 31) div 32"
proof (cases "sz > MaxUint64 - 31")
  case True
  then have "2 ^ 64 - 32 < unat sz" by (simp add: MaxUint64_def word_less_nat_alt)
  with unat_u64_bound [of sz] have "(unat sz + 31) div 32 = 2 ^ 59" by simp
  with True show ?thesis by (simp add: ToWordSize_def MaxUint64_def)
next
  case False
  then have "unat sz + 31 < 2 ^ 64" by (simp add: MaxUint64_def word_less_nat_alt)
  with False show ?thesis by (simp add: ToWordSize_def unat_div unat_add_no_wrap)
qed

lemma ToWordSize_bound: "unat sz \<le> 32 * unat (ToWordSize sz)"
  by (simp add: unat_ToWordSize)

lemma RightPadBytes_int: "RightPadBytes xs (int n) = xs @ replicate (n - length xs) 0"
  by (simp add: RightPadBytes_def)

lemma RightPadBytes_go_int:
  "unat n < 2 ^ 63 \<Longrightarrow> RightPadBytes xs (go_int n) = xs @ replicate (unat n - length xs) 0"
  by (simp only: go_int_small RightPadBytes_int)

text \<open>What \<open>getData\<close> is for: byte \<open>i\<close> is the byte at \<open>start + i\<close>, or zero past the end.\<close>

lemma getData_Ok:
  assumes "unat sz < 2 ^ 63" and "length data < 2 ^ 63"
  shows "getData data start sz =
    Ok (map (\<lambda>i. if unat start + i < length data then data ! (unat start + i) else 0) [0 ..< unat sz])"
proof -
  define s where "s = min (unat start) (length data)"
  define e where "e = min (s + unat sz) (length data)"
  have len: "unat (of_nat (length data) :: u64) = length data"
    using assms by (simp add: unat_of_nat)
  define s' where "s' = (if start > of_nat (length data) then of_nat (length data) else start)"
  have s': "unat s' = s" by (simp add: s'_def s_def word_less_nat_alt len)
  have sum: "unat (s' + sz) = s + unat sz"
    using assms s' by (subst unat_add_no_wrap) (auto simp: s_def)
  have e': "unat (if s' + sz > of_nat (length data) then of_nat (length data) else s' + sz) = e"
    by (simp add: e_def sum len word_less_nat_alt)
  have sl: "slice data s e = Some (take (e - s) (drop s data))"
    by (auto simp: slice_def s_def e_def)
  have pad: "RightPadBytes (take (e - s) (drop s data)) (go_int sz) =
      map (\<lambda>i. if unat start + i < length data then data ! (unat start + i) else 0) [0 ..< unat sz]"
    by (rule nth_equalityI)
      (use assms in \<open>auto simp: RightPadBytes_go_int s_def e_def nth_append min_def\<close>)
  show ?thesis
    unfolding getData_def Let_def s'_def [symmetric] by (simp add: s' e' sl pad)
qed

lemma callGas_eip150:
  assumes "callGas True avail base cost = (g, err)"
  shows "err = None" and "unat g = min (unat cost) (unat (avail - base) - unat (avail - base) div 64)"
proof -
  have cap: "unat (avail - base - (avail - base) div 64) = unat (avail - base) - unat (avail - base) div 64"
    by (simp add: unat_sub word_le_nat_alt unat_div)
  show "err = None" using assms by (auto simp: callGas_def Let_def split: if_splits)
  have big: "\<not> IsUint64 cost \<Longrightarrow> n < 2 ^ 64 \<Longrightarrow> n \<le> unat cost" for n by (simp add: IsUint64_def)
  show "unat g = min (unat cost) (unat (avail - base) - unat (avail - base) div 64)"
  proof (cases "IsUint64 cost")
    case True
    then show ?thesis using assms cap
      by (auto simp: callGas_def Let_def word_less_nat_alt unat_Uint64 min_def split: if_splits)
  next
    case False
    then have "unat (avail - base) - unat (avail - base) div 64 \<le> unat cost"
      using unat_u64_bound [of "avail - base"] by (intro big) auto
    then show ?thesis using assms cap False by (auto simp: callGas_def Let_def)
  qed
qed

end
