(* ===== verification/Contract.thy ===== *)
theory Contract
  imports Opcodes EvmCommon
begin

text \<open>
  Call frames and jump analysis: \<open>internal/vm/contract.go\<close> and \<open>internal/vm/analysis.go\<close>. A
  \<open>ContractRef\<close> is an account reference or a contract, of which a callee reads only the
  address, the caller's address and the value. The map of analyses is shared by the frames
  of one transaction and is passed as an argument.
\<close>

section \<open>The bitmap of push data\<close>

function codeBitmap_loop :: "bytes \<Rightarrow> nat \<Rightarrow> u64 list \<Rightarrow> u64 list res" where
  "codeBitmap_loop c pc bits =
     (if pc < length c then
        let op = c ! pc; pc = pc + 1
        in if PUSH 1 \<le> op \<and> op \<le> PUSH 32 then
             let numbits = unat (op - PUSH 1) + 1;
                 x = push_bit (unat (op - PUSH 1)) (1 :: u64);
                 x = or x (x - 1);
                 idx = pc div 64;
                 shift = pc mod 64
             in if idx < length bits then
                  let bits = bits[idx := or (bits ! idx) (push_bit shift x)]
                  in if shift + shift > 64 then
                       if idx + 1 < length bits then
                         codeBitmap_loop c (pc + numbits)
                           (bits[idx + 1 := or (bits ! (idx + 1)) (drop_bit (64 - shift) x)])
                       else Panic SliceBounds
                     else codeBitmap_loop c (pc + numbits) bits
                else Panic SliceBounds
           else codeBitmap_loop c pc bits
      else Ok bits)"
  by pat_completeness auto

termination by (relation "measure (\<lambda>(c, pc, bits). length c - pc)") auto

declare codeBitmap_loop.simps [simp del]

definition codeBitmap :: "bytes \<Rightarrow> u64 list res" where
  "codeBitmap c = codeBitmap_loop c 0 (replicate ((length c + 32 + 63) div 64) 0)"

definition isCodeFromAnalysis :: "u64 list \<Rightarrow> u64 \<Rightarrow> bool res" where
  "isCodeFromAnalysis bits udest =
     (if unat udest div 64 < length bits
      then Ok (and (bits ! (unat udest div 64)) (push_bit (unat udest mod 64) 1) = 0)
      else Panic SliceBounds)"

section \<open>Contracts\<close>

datatype ContractRef =
    AccountRef address
  | ContractRefOf (ref_self: address) (ref_caller: address) (ref_value: "u256 option")

fun ref_Address :: "ContractRef \<Rightarrow> address" where
  "ref_Address (AccountRef a) = a"
| "ref_Address (ContractRefOf a _ _) = a"

record Contract =
  CallerAddress :: address
  caller :: ContractRef
  self :: ContractRef
  analysis :: "u64 list option"
  skipAnalysis :: bool
  Code :: bytes
  c_CodeHash :: hash
  CodeAddr :: "address option"
  Input :: bytes
  Gas :: u64
  c_value :: "u256 option"

type_synonym jumpdests = "hash \<rightharpoonup> u64 list"

definition NewContract ::
  "ContractRef \<Rightarrow> ContractRef \<Rightarrow> u256 option \<Rightarrow> u64 \<Rightarrow> bool \<Rightarrow> jumpdests \<Rightarrow> Contract \<times> jumpdests" where
  "NewContract clr obj v gas skip jd =
     (\<lparr>CallerAddress = ref_Address clr, caller = clr, self = obj, analysis = None,
       skipAnalysis = skip, Code = [], c_CodeHash = 0, CodeAddr = None, Input = [], Gas = gas,
       c_value = v\<rparr>,
      case clr of ContractRefOf _ _ _ \<Rightarrow> jd | AccountRef _ \<Rightarrow> Map.empty)"

definition isCode :: "u64 \<Rightarrow> Contract \<Rightarrow> jumpdests \<Rightarrow> (bool \<times> Contract \<times> jumpdests) res" where
  "isCode udest c jd =
     (if c_CodeHash c \<noteq> 0 then
        bnd (case jd (c_CodeHash c) of
               Some a \<Rightarrow> Ok (a, jd)
             | None \<Rightarrow> bnd (codeBitmap (Code c)) (\<lambda>a. Ok (a, jd(c_CodeHash c \<mapsto> a))))
          (\<lambda>(a, jd). bnd (isCodeFromAnalysis a udest) (\<lambda>b. Ok (b, c\<lparr>analysis := Some a\<rparr>, jd)))
      else
        bnd (case analysis c of Some a \<Rightarrow> Ok a | None \<Rightarrow> codeBitmap (Code c))
          (\<lambda>a. bnd (isCodeFromAnalysis a udest) (\<lambda>b. Ok (b, c\<lparr>analysis := Some a\<rparr>, jd))))"

definition validJumpdest ::
  "u256 \<Rightarrow> Contract \<Rightarrow> jumpdests \<Rightarrow> (bool \<times> bool \<times> Contract \<times> jumpdests) res" where
  "validJumpdest dest c jd =
     (case Uint64WithOverflow dest of (udest, overflow) \<Rightarrow>
        if overflow \<or> unat udest \<ge> length (Code c) then Ok (False, False, c, jd)
        else if Code c ! unat udest \<noteq> JUMPDEST then Ok (False, False, c, jd)
        else if skipAnalysis c then Ok (True, False, c, jd)
        else bnd (isCode udest c jd) (\<lambda>(b, c, jd). Ok (b, True, c, jd)))"

definition contract_ref :: "Contract \<Rightarrow> ContractRef" where
  "contract_ref c = ContractRefOf (ref_Address (self c)) (CallerAddress c) (c_value c)"

definition AsDelegate :: "Contract \<Rightarrow> Contract res" where
  "AsDelegate c =
     (case caller c of
        ContractRefOf _ pc pv \<Rightarrow> Ok (c\<lparr>CallerAddress := pc, c_value := pv\<rparr>)
      | AccountRef _ \<Rightarrow> Panic NilDereference)"

definition GetOp :: "u64 \<Rightarrow> Contract \<Rightarrow> OpCode" where
  "GetOp n c = (if unat n < length (Code c) then Code c ! unat n else STOP)"

definition Caller :: "Contract \<Rightarrow> address" where
  "Caller c = CallerAddress c"

definition UseGas :: "u64 \<Rightarrow> Contract \<Rightarrow> Contract \<times> bool" where
  "UseGas gas c = (if Gas c < gas then (c, False) else (c\<lparr>Gas := Gas c - gas\<rparr>, True))"

definition c_Address :: "Contract \<Rightarrow> address" where
  "c_Address c = ref_Address (self c)"

definition c_Value :: "Contract \<Rightarrow> u256 option" where
  "c_Value c = c_value c"

definition SetCallCode :: "address option \<Rightarrow> hash \<Rightarrow> bytes \<Rightarrow> Contract \<Rightarrow> Contract" where
  "SetCallCode a h code c = c\<lparr>Code := code, c_CodeHash := h, CodeAddr := a\<rparr>"

definition SetCodeOptionalHash :: "address option \<Rightarrow> bytes \<Rightarrow> hash \<Rightarrow> Contract \<Rightarrow> Contract" where
  "SetCodeOptionalHash a code h c = c\<lparr>Code := code, c_CodeHash := h, CodeAddr := a\<rparr>"

section \<open>The bitmap marks exactly the push data\<close>

definition bitset :: "u64 list \<Rightarrow> nat \<Rightarrow> bool" where
  "bitset bits i \<longleftrightarrow> i div 64 < length bits \<and> bit (bits ! (i div 64)) (i mod 64)"

definition push_len :: "OpCode \<Rightarrow> nat" where
  "push_len op = (if PUSH 1 \<le> op \<and> op \<le> PUSH 32 then unat (op - PUSH 1) + 1 else 0)"

text \<open>The positions of the instructions of a program, and the positions of the data of the
  push instructions, from position \<open>pc\<close> on.\<close>

function instr_starts :: "bytes \<Rightarrow> nat \<Rightarrow> nat list" where
  "instr_starts c pc =
     (if pc < length c then pc # instr_starts c (pc + 1 + push_len (c ! pc)) else [])"
  by pat_completeness auto

termination by (relation "measure (\<lambda>(c, pc). length c - pc)") auto

declare instr_starts.simps [simp del]

definition push_data :: "bytes \<Rightarrow> nat \<Rightarrow> nat \<Rightarrow> bool" where
  "push_data c pc i \<longleftrightarrow> (\<exists>p\<in>set (instr_starts c pc). p < i \<and> i \<le> p + push_len (c ! p))"

lemma push_len_le: "push_len op \<le> 32"
proof (cases "PUSH 1 \<le> op \<and> op \<le> PUSH 32")
  case True
  then have "unat op - 0x60 \<le> 31" "0x60 \<le> unat op"
    using unat_PUSH [of 1] unat_PUSH [of 32] by (auto simp: word_le_nat_alt)
  then show ?thesis using True unat_PUSH [of 1]
    by (simp add: push_len_def unat_sub_if' word_le_nat_alt)
next
  case False
  then show ?thesis by (auto simp: push_len_def)
qed

lemma smear_bits:
  fixes k :: nat
  assumes "k < 64"
  shows "bit (or (push_bit k 1) (push_bit k 1 - 1) :: u64) j \<longleftrightarrow> j \<le> k"
proof -
  have "(push_bit k 1 - 1 :: u64) = mask k" by (simp add: mask_eq_exp_minus_1 push_bit_eq_mult)
  then show ?thesis using assms by (auto simp: bit_or_iff bit_exp_iff bit_mask_iff)
qed

lemma bitset_update:
  "idx < length bits \<Longrightarrow>
   bitset (bits[idx := or (bits ! idx) w]) i \<longleftrightarrow> bitset bits i \<or> (i div 64 = idx \<and> bit w (i mod 64))"
  by (auto simp: bitset_def nth_list_update bit_or_iff)

lemma range_split:
  fixes q r idx shift n :: nat
  assumes "r < 64" and "shift < 64" and "n \<le> 32"
  shows "64 * idx + shift \<le> 64 * q + r \<and> 64 * q + r < 64 * idx + shift + n \<longleftrightarrow>
    (q = idx \<and> shift \<le> r \<and> r - shift < n) \<or> (q = idx + 1 \<and> 64 - shift + r < n)"
proof -
  consider "q < idx" | "q = idx" | "q = idx + 1" | "idx + 2 \<le> q" by linarith
  then show ?thesis using assms by cases auto
qed

lemma mark_range:
  fixes x :: u64
  assumes x: "\<And>j. bit x j \<longleftrightarrow> j < n" and n: "n \<le> 32" and len: "pc + 32 \<le> 64 * length bits"
  defines "idx \<equiv> pc div 64" and "shift \<equiv> pc mod 64"
  defines "bits1 \<equiv> bits[idx := or (bits ! idx) (push_bit shift x)]"
  defines "bits2 \<equiv> bits1[idx + 1 := or (bits1 ! (idx + 1)) (drop_bit (64 - shift) x)]"
  shows "idx < length bits" and "shift + shift > 64 \<Longrightarrow> idx + 1 < length bits"
    and "bitset (if shift + shift > 64 then bits2 else bits1) i \<longleftrightarrow> bitset bits i \<or> (pc \<le> i \<and> i < pc + n)"
proof -
  have pc: "pc = 64 * idx + shift" "shift < 64" by (simp_all add: idx_def shift_def)
  show idx: "idx < length bits" and idx1: "shift + shift > 64 \<Longrightarrow> idx + 1 < length bits"
    using len pc by auto
  have i: "pc \<le> i \<and> i < pc + n \<longleftrightarrow> (i div 64 = idx \<and> shift \<le> i mod 64 \<and> i mod 64 - shift < n) \<or>
      (i div 64 = idx + 1 \<and> 64 - shift + i mod 64 < n)"
    using range_split [of "i mod 64" shift n idx "i div 64"] pc n by simp
  have b1: "bitset bits1 i \<longleftrightarrow> bitset bits i \<or> (i div 64 = idx \<and> shift \<le> i mod 64 \<and> i mod 64 - shift < n)"
    unfolding bits1_def bitset_update [OF idx] by (auto simp: bit_push_bit_iff x)
  show "bitset (if shift + shift > 64 then bits2 else bits1) i \<longleftrightarrow> bitset bits i \<or> (pc \<le> i \<and> i < pc + n)"
  proof (cases "shift + shift > 64")
    case True
    then have "idx + 1 < length bits1" using idx1 by (simp add: bits1_def)
    then have "bitset bits2 i \<longleftrightarrow> bitset bits1 i \<or> (i div 64 = idx + 1 \<and> 64 - shift + i mod 64 < n)"
      unfolding bits2_def by (subst bitset_update) (auto simp: bit_drop_bit_eq x)
    then show ?thesis unfolding i using True b1 by auto
  next
    case False
    then show ?thesis unfolding i using b1 n pc(2) by auto
  qed
qed

lemma push_data_unfold:
  "push_data c pc i \<longleftrightarrow> pc < length c \<and>
     ((pc < i \<and> i \<le> pc + push_len (c ! pc)) \<or> push_data c (pc + 1 + push_len (c ! pc)) i)"
  unfolding push_data_def by (subst instr_starts.simps) auto

lemma codeBitmap_loop_spec:
  "length c + 32 \<le> 64 * length bits \<Longrightarrow> \<exists>bits'. codeBitmap_loop c pc bits = Ok bits' \<and>
     length bits' = length bits \<and> (\<forall>i. bitset bits' i \<longleftrightarrow> bitset bits i \<or> push_data c pc i)"
proof (induction "length c - pc" arbitrary: pc bits rule: less_induct)
  case less
  let ?op = "c ! pc" and ?pc = "pc + 1"
  consider (stop) "\<not> pc < length c"
    | (push) "pc < length c" "PUSH 1 \<le> ?op \<and> ?op \<le> PUSH 32"
    | (other) "pc < length c" "\<not> (PUSH 1 \<le> ?op \<and> ?op \<le> PUSH 32)" by blast
  then show ?case
  proof cases
    case stop
    then show ?thesis by (subst codeBitmap_loop.simps, subst push_data_unfold) simp
  next
    case other
    then have "codeBitmap_loop c pc bits = codeBitmap_loop c ?pc bits"
      by (subst codeBitmap_loop.simps) (simp only: Let_def if_True if_False simp_thms)
    moreover have "push_data c pc i \<longleftrightarrow> push_data c ?pc i" for i
      using other by (subst push_data_unfold) (auto simp: push_len_def)
    ultimately show ?thesis using less.hyps [of ?pc bits] less.prems other by auto
  next
    case push
    let ?n = "push_len ?op" and ?x = "or (push_bit (unat (?op - PUSH 1)) 1) (push_bit (unat (?op - PUSH 1)) 1 - 1) :: u64"
    have n: "?n = unat (?op - PUSH 1) + 1" "?n \<le> 32"
      using push by (simp add: push_len_def, intro push_len_le)
    have x: "bit ?x j \<longleftrightarrow> j < ?n" for j using n by (subst smear_bits) auto
    have len: "?pc + 32 \<le> 64 * length bits" using push less.prems by simp
    let ?idx = "?pc div 64" and ?sh = "?pc mod 64"
    let ?b1 = "bits[?idx := or (bits ! ?idx) (push_bit ?sh ?x)]"
    let ?b2 = "?b1[?idx + 1 := or (?b1 ! (?idx + 1)) (drop_bit (64 - ?sh) ?x)]"
    let ?b = "if ?sh + ?sh > 64 then ?b2 else ?b1"
    note mark = mark_range [OF x n(2) len]
    have "codeBitmap_loop c pc bits = codeBitmap_loop c (?pc + ?n) ?b"
    proof (cases "?sh + ?sh > 64")
      case True
      show ?thesis using push mark(1) mark(2) [OF True] True
        by (subst codeBitmap_loop.simps) (simp only: Let_def if_True if_False simp_thms length_list_update n(1))
    next
      case False
      show ?thesis using push mark(1) False
        by (subst codeBitmap_loop.simps) (simp only: Let_def if_True if_False simp_thms n(1))
    qed
    moreover have "\<exists>bits'. codeBitmap_loop c (?pc + ?n) ?b = Ok bits' \<and> length bits' = length ?b \<and>
        (\<forall>i. bitset bits' i \<longleftrightarrow> bitset ?b i \<or> push_data c (?pc + ?n) i)"
      by (rule less.hyps) (use push less.prems in auto)
    moreover have "push_data c pc i \<longleftrightarrow> (?pc \<le> i \<and> i < ?pc + ?n) \<or> push_data c (?pc + ?n) i" for i
      using push(1) by (subst push_data_unfold) auto
    moreover have "length ?b = length bits" by simp
    ultimately show ?thesis unfolding mark(3) by (metis (no_types, lifting))
  qed
qed

lemma codeBitmap_spec:
  "\<exists>bits. codeBitmap c = Ok bits \<and> length c + 32 \<le> 64 * length bits \<and> (\<forall>i. bitset bits i \<longleftrightarrow> push_data c 0 i)"
proof -
  let ?z = "replicate ((length c + 32 + 63) div 64) 0 :: u64 list"
  have "length c + 32 \<le> 64 * length ?z" by simp
  moreover have "\<not> bitset ?z i" for i by (simp add: bitset_def)
  ultimately show ?thesis using codeBitmap_loop_spec [of c ?z 0] by (auto simp: codeBitmap_def)
qed

lemma push_data_ge: "push_data c pc i \<Longrightarrow> pc < i"
proof (induction "length c - pc" arbitrary: pc rule: less_induct)
  case less
  let ?next = "pc + 1 + push_len (c ! pc)"
  have pc: "pc < length c" and cases: "pc < i \<or> push_data c ?next i"
    using less.prems by (subst (asm) push_data_unfold; blast)+
  have "length c - ?next < length c - pc" using pc by simp
  with less.hyps [of ?next] cases show ?case by auto
qed

lemma instr_starts_complement:
  "pc \<le> i \<Longrightarrow> i < length c \<Longrightarrow> i \<in> set (instr_starts c pc) \<longleftrightarrow> \<not> push_data c pc i"
proof (induction "length c - pc" arbitrary: pc rule: less_induct)
  case less
  let ?next = "pc + 1 + push_len (c ! pc)"
  have pc: "pc < length c" using less.prems by simp
  have eq: "i \<in> set (instr_starts c pc) \<longleftrightarrow> i = pc \<or> i \<in> set (instr_starts c ?next)"
    using pc by (subst instr_starts.simps) simp
  have ge: "i \<in> set (instr_starts c p) \<Longrightarrow> p \<le> i" for p
    by (induction "length c - p" arbitrary: p rule: less_induct)
      (subst (asm) (2) instr_starts.simps, force split: if_splits)
  show ?case
  proof (cases "?next \<le> i")
    case True
    then have "i \<in> set (instr_starts c ?next) \<longleftrightarrow> \<not> push_data c ?next i"
      using less.hyps [of ?next] less.prems(2) pc by simp
    with True pc eq show ?thesis by (subst push_data_unfold) auto
  next
    case False
    then have "i \<notin> set (instr_starts c ?next)" "\<not> push_data c ?next i" using ge push_data_ge by force+
    with False pc eq less.prems(1) show ?thesis by (subst push_data_unfold) auto
  qed
qed

lemma isCodeFromAnalysis_bitset:
  "unat u div 64 < length bits \<Longrightarrow> isCodeFromAnalysis bits u = Ok (\<not> bitset bits (unat u))"
  by (simp add: isCodeFromAnalysis_def bitset_def and_exp_eq_0_iff_not_bit)

lemma analysis_is_code:
  assumes "codeBitmap c = Ok bits" and "unat u < length c"
  shows "isCodeFromAnalysis bits u = Ok (unat u \<in> set (instr_starts c 0))"
proof -
  obtain bits' where b: "codeBitmap c = Ok bits'" "length c + 32 \<le> 64 * length bits'"
    "\<forall>i. bitset bits' i \<longleftrightarrow> push_data c 0 i" using codeBitmap_spec by blast
  then show ?thesis using assms instr_starts_complement [of 0 "unat u" c]
    by (simp add: isCodeFromAnalysis_bitset)
qed

text \<open>The cached analyses belong to the code.\<close>

definition jumpdests_ok :: "Contract \<Rightarrow> jumpdests \<Rightarrow> bool" where
  "jumpdests_ok c jd \<longleftrightarrow>
     (\<forall>a. jd (c_CodeHash c) = Some a \<longrightarrow> codeBitmap (Code c) = Ok a) \<and>
     (\<forall>a. c_CodeHash c = 0 \<and> analysis c = Some a \<longrightarrow> codeBitmap (Code c) = Ok a)"

lemma isCode_spec:
  assumes ok: "jumpdests_ok c jd" and u: "unat u < length (Code c)"
  shows "\<exists>c' jd'. isCode u c jd = Ok (unat u \<in> set (instr_starts (Code c) 0), c', jd') \<and>
    jumpdests_ok c' jd' \<and> Code c' = Code c \<and> Gas c' = Gas c"
proof -
  obtain bits where b: "codeBitmap (Code c) = Ok bits" using codeBitmap_spec by blast
  note a = analysis_is_code [OF b u]
  show ?thesis
  proof (cases "c_CodeHash c = 0")
    case True
    then have "isCode u c jd = Ok (unat u \<in> set (instr_starts (Code c) 0), c\<lparr>analysis := Some bits\<rparr>, jd)"
      using ok b a by (cases "analysis c") (auto simp: isCode_def jumpdests_ok_def)
    then show ?thesis using ok b True by (auto simp: jumpdests_ok_def)
  next
    case False
    then have "\<exists>jd'. isCode u c jd = Ok (unat u \<in> set (instr_starts (Code c) 0), c\<lparr>analysis := Some bits\<rparr>, jd')
        \<and> (jd' = jd \<or> jd' = jd(c_CodeHash c \<mapsto> bits))"
      using ok b a by (cases "jd (c_CodeHash c)") (auto simp: isCode_def jumpdests_ok_def)
    then show ?thesis using ok b False by (auto simp: jumpdests_ok_def)
  qed
qed

end
