(* ===== verification/EvmMemory.thy ===== *)
theory EvmMemory
  imports EvmCommon
begin

text \<open>
  The byte memory of a call frame: \<open>internal/vm/memory.go\<close>, the memory sizes the opcodes
  ask for in \<open>memory_table.go\<close>, and \<open>memoryGasCost\<close> of \<open>gas_table.go\<close>. Slicing beyond the
  length of the store is a panic in the model; Go allows it up to the capacity, which the
  interpreter never relies on because it resizes the memory before every access.
\<close>

record Memory =
  store :: bytes
  lastGasCost :: u64

definition NewMemory :: Memory where
  "NewMemory = \<lparr>store = [], lastGasCost = 0\<rparr>"

definition mem_Len :: "Memory \<Rightarrow> nat" where
  "mem_Len m = length (store m)"

definition mem_Set :: "u64 \<Rightarrow> u64 \<Rightarrow> bytes \<Rightarrow> Memory \<Rightarrow> Memory res" where
  "mem_Set offset sz val m =
     (if 0 < sz then
        if unat (offset + sz) > length (store m) then Panic MemoryIndex
        else if unat offset > unat (offset + sz) then Panic MemoryIndex
        else Ok (m\<lparr>store := copy_at (store m) (unat offset) (unat sz) val\<rparr>)
      else Ok m)"

definition Set32 :: "u64 \<Rightarrow> u256 \<Rightarrow> Memory \<Rightarrow> Memory res" where
  "Set32 offset val m =
     (if unat (offset + 32) > length (store m) then Panic MemoryIndex
      else if unat offset > unat (offset + 32) then Panic MemoryIndex
      else let zeroed = copy_at (store m) (unat offset) 32 (replicate 16384 0)
           in Ok (m\<lparr>store := copy_at zeroed (unat offset) 32 (be_bytes 32 (unat val))\<rparr>))"

definition Resize :: "u64 \<Rightarrow> Memory \<Rightarrow> Memory" where
  "Resize sz m =
     (let l = go_int sz - int (mem_Len m)
      in if l \<le> 0 then m
         else if l \<ge> 16384 then m\<lparr>store := store m @ replicate (nat l) 0\<rparr>
         else m\<lparr>store := store m @ take (nat l) (replicate 16384 0)\<rparr>)"

definition mem_Reset :: "Memory \<Rightarrow> Memory" where
  "mem_Reset m = \<lparr>store = [], lastGasCost = 0\<rparr>"

definition GetCopy :: "int \<Rightarrow> int \<Rightarrow> Memory \<Rightarrow> bytes res" where
  "GetCopy offset sz m =
     (if sz = 0 then Ok []
      else if int (length (store m)) > offset then
        if sz < 0 \<or> offset < 0 then Panic MemoryIndex
        else let src = drop (nat offset) (store m)
             in Ok (take (nat sz) src @ replicate (nat sz - length src) 0)
      else Ok [])"

definition GetPtr :: "int \<Rightarrow> int \<Rightarrow> Memory \<Rightarrow> bytes res" where
  "GetPtr offset sz m =
     (if sz = 0 then Ok []
      else if int (length (store m)) > offset then
        if 0 \<le> offset \<and> 0 \<le> sz \<and> offset + sz < 2 ^ 63
        then of_opt MemoryIndex (slice (store m) (nat offset) (nat (offset + sz)))
        else Panic MemoryIndex
      else Ok [])"

definition mem_Data :: "Memory \<Rightarrow> bytes" where
  "mem_Data m = store m"

definition memoryGasCost :: "Memory \<Rightarrow> u64 \<Rightarrow> Memory \<times> u64 \<times> evm_error option" where
  "memoryGasCost mem newMemSize =
     (if newMemSize = 0 then (mem, 0, None)
      else if newMemSize > 0x1FFFFFFFE0 then (mem, 0, Some ErrGasUintOverflow)
      else
        let newMemSizeWords = ToWordSize newMemSize;
            newMemSize = newMemSizeWords * 32
        in if unat newMemSize > mem_Len mem then
             let square = newMemSizeWords * newMemSizeWords;
                 linCoef = newMemSizeWords * MemoryGas;
                 quadCoef = square div QuadCoeffDiv;
                 newTotalFee = linCoef + quadCoef;
                 fee = newTotalFee - lastGasCost mem
             in (mem\<lparr>lastGasCost := newTotalFee\<rparr>, fee, None)
           else (mem, 0, None))"

section \<open>The memory an opcode needs\<close>

text \<open>\<open>mem_size2 i j\<close> reads the offset at \<open>i\<close> and the length at \<open>j\<close>; the two are read in
  this order, and a missing operand panics.\<close>

definition mem_size2 :: "nat \<Rightarrow> nat \<Rightarrow> Stack \<Rightarrow> (u64 \<times> bool) res" where
  "mem_size2 i j st = bnd (Back i st) (\<lambda>off. bnd (Back j st) (\<lambda>l. Ok (calcMemSize64 off l)))"

definition mem_size_fixed :: "u64 \<Rightarrow> Stack \<Rightarrow> (u64 \<times> bool) res" where
  "mem_size_fixed n st = bnd (Back 0 st) (\<lambda>off. Ok (calcMemSize64WithUint off n))"

text \<open>The larger of two ranges, the outputs first.\<close>

definition mem_size_max :: "nat \<Rightarrow> nat \<Rightarrow> nat \<Rightarrow> nat \<Rightarrow> Stack \<Rightarrow> (u64 \<times> bool) res" where
  "mem_size_max i j k l st =
     bnd (mem_size2 i j st) (\<lambda>(x, overflow).
       if overflow then Ok (0, True)
       else bnd (mem_size2 k l st) (\<lambda>(y, overflow).
         if overflow then Ok (0, True)
         else if x > y then Ok (x, False) else Ok (y, False)))"

definition memoryKeccak256 :: "Stack \<Rightarrow> (u64 \<times> bool) res" where
  "memoryKeccak256 st = mem_size2 0 1 st"

definition memoryCallDataCopy :: "Stack \<Rightarrow> (u64 \<times> bool) res" where
  "memoryCallDataCopy st = mem_size2 0 2 st"

definition memoryReturnDataCopy :: "Stack \<Rightarrow> (u64 \<times> bool) res" where
  "memoryReturnDataCopy st = mem_size2 0 2 st"

definition memoryCodeCopy :: "Stack \<Rightarrow> (u64 \<times> bool) res" where
  "memoryCodeCopy st = mem_size2 0 2 st"

definition memoryExtCodeCopy :: "Stack \<Rightarrow> (u64 \<times> bool) res" where
  "memoryExtCodeCopy st = mem_size2 1 3 st"

definition memoryMLoad :: "Stack \<Rightarrow> (u64 \<times> bool) res" where
  "memoryMLoad st = mem_size_fixed 32 st"

definition memoryMStore8 :: "Stack \<Rightarrow> (u64 \<times> bool) res" where
  "memoryMStore8 st = mem_size_fixed 1 st"

definition memoryMStore :: "Stack \<Rightarrow> (u64 \<times> bool) res" where
  "memoryMStore st = mem_size_fixed 32 st"

definition memoryCreate :: "Stack \<Rightarrow> (u64 \<times> bool) res" where
  "memoryCreate st = mem_size2 1 2 st"

definition memoryCreate2 :: "Stack \<Rightarrow> (u64 \<times> bool) res" where
  "memoryCreate2 st = mem_size2 1 2 st"

definition memoryCall :: "Stack \<Rightarrow> (u64 \<times> bool) res" where
  "memoryCall st = mem_size_max 5 6 3 4 st"

definition memoryDelegateCall :: "Stack \<Rightarrow> (u64 \<times> bool) res" where
  "memoryDelegateCall st = mem_size_max 4 5 2 3 st"

definition memoryStaticCall :: "Stack \<Rightarrow> (u64 \<times> bool) res" where
  "memoryStaticCall st = mem_size_max 4 5 2 3 st"

definition memoryReturn :: "Stack \<Rightarrow> (u64 \<times> bool) res" where
  "memoryReturn st = mem_size2 0 1 st"

definition memoryRevert :: "Stack \<Rightarrow> (u64 \<times> bool) res" where
  "memoryRevert st = mem_size2 0 1 st"

definition memoryLog :: "Stack \<Rightarrow> (u64 \<times> bool) res" where
  "memoryLog st = mem_size2 0 1 st"

lemmas memory_size_defs =
  memoryKeccak256_def memoryCallDataCopy_def memoryReturnDataCopy_def memoryCodeCopy_def
  memoryExtCodeCopy_def memoryMLoad_def memoryMStore8_def memoryMStore_def memoryCreate_def
  memoryCreate2_def memoryCall_def memoryDelegateCall_def memoryStaticCall_def memoryReturn_def
  memoryRevert_def memoryLog_def

section \<open>Reading and writing\<close>

text \<open>The accesses of a frame: memory is a whole number of words and no larger than what
  \<open>memoryGasCost\<close> prices, and \<open>lastGasCost\<close> is the price of its size.\<close>

definition max_mem :: nat where
  "max_mem = 0x1FFFFFFFE0"

definition mem_fee :: "nat \<Rightarrow> nat" where
  "mem_fee w = 3 * w + w * w div 512"

definition mem_sized :: "Memory \<Rightarrow> bool" where
  "mem_sized m \<longleftrightarrow> length (store m) mod 32 = 0 \<and> length (store m) \<le> max_mem"

definition mem_ok :: "Memory \<Rightarrow> bool" where
  "mem_ok m \<longleftrightarrow> mem_sized m \<and> unat (lastGasCost m) = mem_fee (length (store m) div 32)"

lemma max_mem_small: "n \<le> max_mem \<Longrightarrow> n < 2 ^ 63"
  by (simp add: max_mem_def)

lemma mem_sized_less: "mem_sized m \<Longrightarrow> length (store m) < 2 ^ 63"
  by (auto simp: mem_sized_def max_mem_def)

lemma NewMemory_ok: "mem_ok NewMemory"
  by (simp add: mem_ok_def mem_sized_def NewMemory_def mem_fee_def)

lemma store_Resize:
  assumes "unat sz < 2 ^ 63"
  shows "store (Resize sz m) = store m @ replicate (unat sz - length (store m)) 0"
    and "lastGasCost (Resize sz m) = lastGasCost m"
proof -
  define k where "k = unat sz"
  have "go_int sz - int (mem_Len m) = int k - int (length (store m))"
    by (simp only: go_int_small [OF assms] mem_Len_def k_def)
  then have Resize: "Resize sz m = (if k \<le> length (store m) then m
      else m\<lparr>store := store m @ replicate (k - length (store m)) 0\<rparr>)"
    by (auto simp: Resize_def Let_def nat_diff_distrib' min_def)
  then show "store (Resize sz m) = store m @ replicate (unat sz - length (store m)) 0"
    and "lastGasCost (Resize sz m) = lastGasCost m"
    by (simp_all add: k_def)
qed

text \<open>A range inside the memory.\<close>

definition covers :: "Memory \<Rightarrow> nat \<Rightarrow> nat \<Rightarrow> bool" where
  "covers m off n \<longleftrightarrow> n = 0 \<or> off + n \<le> length (store m)"

lemma mem_Set_Ok:
  assumes "mem_sized m" and "covers m (unat off) (unat n)"
  shows "mem_Set off n v m =
    Ok (if n = 0 then m else m\<lparr>store := copy_at (store m) (unat off) (unat n) v\<rparr>)"
proof (cases "n = 0")
  case False
  with assms have "unat off + unat n \<le> length (store m)" by (simp add: covers_def unat_eq_zero)
  moreover from this mem_sized_less [OF assms(1)]
  have "unat (off + n) = unat off + unat n" by (simp add: unat_add_no_wrap)
  ultimately show ?thesis using False by (simp add: mem_Set_def word_gt_0)
qed (simp add: mem_Set_def)

lemma Set32_Ok:
  assumes "mem_sized m" and "covers m (unat off) 32"
  shows "Set32 off v m = Ok (m\<lparr>store := copy_at (store m) (unat off) 32 (be_bytes 32 (unat v))\<rparr>)"
proof -
  from assms have "unat off + 32 \<le> length (store m)" by (simp add: covers_def)
  moreover from this mem_sized_less [OF assms(1)]
  have "unat (off + 32) = unat off + 32" by (subst unat_add_no_wrap) auto
  ultimately show ?thesis by (simp add: Set32_def copy_at_def)
qed

lemma GetPtr_Ok:
  assumes "mem_sized m" and "covers m (unat off) (unat n)"
  shows "GetPtr (go_int off) (go_int n) m = Ok (take (unat n) (drop (unat off) (store m)))"
proof (cases "n = 0")
  case False
  then have pos: "0 < unat n" by (simp add: unat_gt_0)
  with assms have le: "unat off + unat n \<le> length (store m)" by (simp add: covers_def)
  with mem_sized_less [OF assms(1)] have small: "unat off < 2 ^ 63" "unat n < 2 ^ 63" by auto
  have "int (unat off + unat n) < int (2 ^ 63)"
    using le mem_sized_less [OF assms(1)] by (simp only: of_nat_less_iff)
  then have "GetPtr (int (unat off)) (int (unat n)) m =
      Ok (take (unat n) (drop (unat off) (store m)))"
    using pos le by (simp add: GetPtr_def slice_def nat_add_distrib del: of_nat_unat uint_nat)
  then show ?thesis by (simp only: go_int_small small)
qed (simp add: GetPtr_def go_int_def)

lemma GetCopy_Ok:
  assumes "mem_sized m" and "covers m (unat off) (unat n)"
  shows "GetCopy (go_int off) (go_int n) m = Ok (take (unat n) (drop (unat off) (store m)))"
proof (cases "n = 0")
  case False
  then have pos: "0 < unat n" by (simp add: unat_gt_0)
  with assms have le: "unat off + unat n \<le> length (store m)" by (simp add: covers_def)
  with mem_sized_less [OF assms(1)] have small: "unat off < 2 ^ 63" "unat n < 2 ^ 63" by auto
  have "GetCopy (int (unat off)) (int (unat n)) m = Ok (take (unat n) (drop (unat off) (store m)))"
    using pos le by (simp add: GetCopy_def Let_def del: of_nat_unat)
  then show ?thesis by (simp only: go_int_small small)
qed (simp add: GetCopy_def go_int_def)

section \<open>The price of memory\<close>

lemma mem_fee_mono: "v \<le> w \<Longrightarrow> mem_fee v \<le> mem_fee w"
  by (simp add: mem_fee_def add_mono mult_le_mono div_le_mono)

lemma mem_fee_bound: "w \<le> 2 ^ 32 \<Longrightarrow> mem_fee w < 2 ^ 56"
  using mem_fee_mono [of w "2 ^ 32"] by (simp add: mem_fee_def)

text \<open>The total fee of \<open>memoryGasCost\<close> is computed without overflow.\<close>

lemma total_fee:
  fixes w :: u64
  assumes "unat w < 2 ^ 32"
  shows "unat (w * MemoryGas + w * w div QuadCoeffDiv) = mem_fee (unat w)"
proof -
  have "unat w * unat w < 2 ^ 32 * 2 ^ 32" using assms by (intro mult_strict_mono) auto
  then have sq: "unat (w * w) = unat w * unat w" by (simp add: unat_word_ariths)
  have lin: "unat (w * 3) = 3 * unat w" using assms by (simp add: unat_word_ariths)
  have "unat (w * 3) + unat (w * w div 512) = mem_fee (unat w)"
    by (simp add: sq lin unat_div mem_fee_def)
  moreover have "mem_fee (unat w) < 2 ^ 64" using mem_fee_bound [of "unat w"] assms by simp
  ultimately show ?thesis by (simp add: param_defs unat_add_no_wrap)
qed

definition words_for :: "Memory \<Rightarrow> u64 \<Rightarrow> nat" where
  "words_for m n = max (length (store m) div 32) ((unat n + 31) div 32)"

lemma memoryGasCost_spec:
  assumes ok: "mem_ok m" and run: "memoryGasCost m n = (m', fee, None)"
  shows "unat n \<le> max_mem" and "store m' = store m"
    and "unat fee = mem_fee (words_for m n) - mem_fee (length (store m) div 32)"
    and "unat (lastGasCost m') = mem_fee (words_for m n)"
proof -
  show n: "unat n \<le> max_mem" and "store m' = store m"
    using run by (auto simp: memoryGasCost_def max_mem_def Let_def word_less_nat_alt split: if_splits)
  let ?w = "ToWordSize n" and ?old = "length (store m) div 32"
  have w: "unat ?w = (unat n + 31) div 32" by (rule unat_ToWordSize)
  then have small: "unat ?w < 2 ^ 32" using n by (simp add: max_mem_def)
  then have bytes: "unat (?w * 32) = 32 * unat ?w" by (simp add: unat_word_ariths)
  have len: "length (store m) = 32 * ?old" using ok by (auto simp: mem_ok_def mem_sized_def)
  have last: "unat (lastGasCost m) = mem_fee ?old" using ok by (simp add: mem_ok_def)
  have "unat fee = mem_fee (words_for m n) - mem_fee ?old \<and>
      unat (lastGasCost m') = mem_fee (words_for m n)"
  proof (cases "unat (?w * 32) > mem_Len m \<and> n \<noteq> 0")
    case True
    then have "?old \<le> unat ?w" using bytes len by (simp add: mem_Len_def)
    then have words: "words_for m n = unat ?w" by (simp add: words_for_def w)
    have "mem_fee ?old \<le> mem_fee (unat ?w)" by (rule mem_fee_mono) fact
    then have "unat (?w * MemoryGas + ?w * ?w div QuadCoeffDiv - lastGasCost m) =
        mem_fee (unat ?w) - mem_fee ?old"
      using total_fee [OF small] last by (simp add: unat_sub_if')
    then show ?thesis using run True total_fee [OF small]
      by (auto simp: memoryGasCost_def Let_def words split: if_splits)
  next
    case False
    then have "(unat n + 31) div 32 \<le> ?old" using bytes len w by (auto simp: mem_Len_def)
    then have "words_for m n = ?old" by (simp add: words_for_def)
    then show ?thesis using run False last by (auto simp: memoryGasCost_def Let_def split: if_splits)
  qed
  then show "unat fee = mem_fee (words_for m n) - mem_fee ?old"
    and "unat (lastGasCost m') = mem_fee (words_for m n)" by simp_all
qed

end
