(* ===== verification/AccessList.thy ===== *)
theory AccessList
  imports Prelude
begin

text \<open>
  The EIP-2929 access list, \<open>modules/state/access_list.go\<close>: a map from addresses to an index
  into a slice of slot sets, \<open>-1\<close> for an address without slots. The journal undoes additions
  in reverse order with \<open>DeleteSlot\<close> and \<open>DeleteAddress\<close>; the theory shows that each undo is
  exact under the invariant \<open>al_inv\<close>, and that the structure implements a set of addresses
  and a set of slots.
\<close>

record accessList =
  addresses :: "address \<rightharpoonup> int"
  slots :: "hash set list"

definition newAccessList :: accessList where
  "newAccessList = \<lparr>addresses = Map.empty, slots = []\<rparr>"

definition ContainsAddress :: "address \<Rightarrow> accessList \<Rightarrow> bool" where
  "ContainsAddress a al = (addresses al a \<noteq> None)"

definition Contains :: "address \<Rightarrow> hash \<Rightarrow> accessList \<Rightarrow> (bool \<times> bool) res" where
  "Contains a s al =
     (case addresses al a of
        None \<Rightarrow> Ok (False, False)
      | Some idx \<Rightarrow>
          if idx = -1 then Ok (True, False)
          else if 0 \<le> idx \<and> nat idx < length (slots al) then Ok (True, s \<in> slots al ! nat idx)
          else Panic SliceBounds)"

text \<open>The copy is a copy of the values: the model's maps are not shared.\<close>

definition al_Copy :: "accessList \<Rightarrow> accessList" where
  "al_Copy al =
     newAccessList\<lparr>addresses := addresses al, slots := map (\<lambda>slotMap. slotMap) (slots al)\<rparr>"

definition AddAddress :: "address \<Rightarrow> accessList \<Rightarrow> accessList \<times> bool" where
  "AddAddress a al =
     (if addresses al a \<noteq> None then (al, False)
      else (al\<lparr>addresses := (addresses al)(a \<mapsto> -1)\<rparr>, True))"

definition AddSlot :: "address \<Rightarrow> hash \<Rightarrow> accessList \<Rightarrow> (accessList \<times> bool \<times> bool) res" where
  "AddSlot a s al =
     (if addresses al a = None \<or> addresses al a = Some (-1) then
        Ok (al\<lparr>addresses := (addresses al)(a \<mapsto> int (length (slots al))),
               slots := slots al @ [{s}]\<rparr>, addresses al a = None, True)
      else
        let idx = the (addresses al a) in
        if 0 \<le> idx \<and> nat idx < length (slots al) then
          let slotmap = slots al ! nat idx in
          if s \<notin> slotmap then
            Ok (al\<lparr>slots := (slots al)[nat idx := insert s slotmap]\<rparr>, False, True)
          else Ok (al, False, False)
        else Panic SliceBounds)"

definition DeleteSlot :: "address \<Rightarrow> hash \<Rightarrow> accessList \<Rightarrow> accessList res" where
  "DeleteSlot a s al =
     (case addresses al a of
        None \<Rightarrow> Panic Impossible
      | Some idx \<Rightarrow>
          if 0 \<le> idx \<and> nat idx < length (slots al) then
            let slotmap = slots al ! nat idx - {s};
                al = al\<lparr>slots := (slots al)[nat idx := slotmap]\<rparr>
            in if slotmap = {} then
                 Ok (al\<lparr>slots := take (nat idx) (slots al),
                        addresses := (addresses al)(a \<mapsto> -1)\<rparr>)
               else Ok al
          else Panic SliceBounds)"

definition DeleteAddress :: "address \<Rightarrow> accessList \<Rightarrow> accessList" where
  "DeleteAddress a al = al\<lparr>addresses := (addresses al)(a := None)\<rparr>"

section \<open>Invariant\<close>

text \<open>Every index is \<open>-1\<close> or inside the slice, no two addresses share one, and no slot set
  of the slice is empty.\<close>

definition al_inv :: "accessList \<Rightarrow> bool" where
  "al_inv al \<longleftrightarrow>
     (\<forall>a i. addresses al a = Some i \<longrightarrow> i = -1 \<or> (0 \<le> i \<and> nat i < length (slots al))) \<and>
     (\<forall>a b i. addresses al a = Some i \<and> addresses al b = Some i \<and> i \<noteq> -1 \<longrightarrow> a = b) \<and>
     {} \<notin> set (slots al)"

lemma al_inv_idx:
  "al_inv al \<Longrightarrow> addresses al a = Some i \<Longrightarrow> i \<noteq> -1 \<Longrightarrow> 0 \<le> i \<and> nat i < length (slots al)"
  by (auto simp: al_inv_def)

lemma al_inv_nonempty: "al_inv al \<Longrightarrow> n < length (slots al) \<Longrightarrow> slots al ! n \<noteq> {}"
  by (auto simp: al_inv_def in_set_conv_nth)

lemma al_inv_inj:
  "al_inv al \<Longrightarrow> addresses al a = Some i \<Longrightarrow> addresses al b = Some i \<Longrightarrow> i \<noteq> -1 \<Longrightarrow> a = b"
  unfolding al_inv_def by blast

lemma newAccessList_inv: "al_inv newAccessList"
  by (simp add: al_inv_def newAccessList_def)

lemma AddAddress_inv: "al_inv al \<Longrightarrow> al_inv (fst (AddAddress a al))"
  by (auto simp: al_inv_def AddAddress_def)

lemma AddSlot_fresh_inv:
  assumes inv: "al_inv al" and fresh: "addresses al a = None \<or> addresses al a = Some (-1)"
  shows "al_inv (al\<lparr>addresses := (addresses al)(a \<mapsto> int (length (slots al))),
                   slots := slots al @ [{s}]\<rparr>)"
proof -
  have "addresses al b \<noteq> Some (int (length (slots al)))" for b
    using inv by (force simp: al_inv_def)
  moreover have "addresses al b = Some i \<Longrightarrow> i = -1 \<or> (0 \<le> i \<and> nat i < Suc (length (slots al)))" for b i
    using inv by (force simp: al_inv_def)
  ultimately show ?thesis using inv by (auto simp: al_inv_def)
qed

lemma AddSlot_total:
  assumes inv: "al_inv al"
  obtains al' ac sc where "AddSlot a s al = Ok (al', ac, sc)" and "al_inv al'"
proof (cases "addresses al a = None \<or> addresses al a = Some (-1)")
  case True
  then show ?thesis
    using AddSlot_fresh_inv [OF inv True, of s] by (intro that) (simp add: AddSlot_def, assumption)
next
  case False
  then obtain i where i: "addresses al a = Some i" "i \<noteq> -1" by auto
  then have idx: "0 \<le> i" "nat i < length (slots al)" using al_inv_idx [OF inv] by auto
  have "al_inv (al\<lparr>slots := (slots al)[nat i := insert s (slots al ! nat i)]\<rparr>)"
    using inv by (auto simp: al_inv_def dest: set_update_subset_insert [THEN subsetD])
  then show ?thesis using False i idx inv
    by (cases "s \<in> slots al ! nat i") (auto intro: that simp: AddSlot_def Let_def)
qed

section \<open>The undo of each addition\<close>

lemma DeleteAddress_AddAddress: "AddAddress a al = (al', True) \<Longrightarrow> DeleteAddress a al' = al"
  by (auto simp: AddAddress_def DeleteAddress_def fun_upd_idem split: if_splits)

text \<open>Undoing \<open>AddSlot\<close>: first the slot, then, if it was added too, the address.\<close>

lemma DeleteSlot_AddSlot:
  assumes inv: "al_inv al" and add: "AddSlot a s al = Ok (al', addrChange, True)"
  shows "\<exists>al''. DeleteSlot a s al' = Ok al'' \<and> (if addrChange then DeleteAddress a al'' else al'') = al"
proof (cases "addresses al a = None \<or> addresses al a = Some (-1)")
  case True
  with add have al': "al' = al\<lparr>addresses := (addresses al)(a \<mapsto> int (length (slots al))),
      slots := slots al @ [{s}]\<rparr>" "addrChange = (addresses al a = None)"
    by (auto simp: AddSlot_def)
  with True show ?thesis by (auto simp: DeleteSlot_def DeleteAddress_def Let_def fun_upd_idem)
next
  case False
  then obtain i where i: "addresses al a = Some i" "i \<noteq> -1" by auto
  then have idx: "0 \<le> i" "nat i < length (slots al)" using al_inv_idx [OF inv] by auto
  with False i add have "s \<notin> slots al ! nat i" "\<not> addrChange"
    and al': "al' = al\<lparr>slots := (slots al)[nat i := insert s (slots al ! nat i)]\<rparr>"
    by (auto simp: AddSlot_def Let_def split: if_splits)
  with i idx al_inv_nonempty [OF inv idx(2)] show ?thesis
    by (simp add: DeleteSlot_def Let_def)
qed

text \<open>Between the two undos the list is the one with the address alone.\<close>

lemma DeleteSlot_AddSlot_fresh:
  assumes "AddSlot a s al = Ok (al', True, sc)"
  shows "DeleteSlot a s al' = Ok (fst (AddAddress a al))"
  using assms by (auto simp: AddSlot_def DeleteSlot_def AddAddress_def Let_def split: if_splits)

section \<open>The sets it represents\<close>

definition al_addrs :: "accessList \<Rightarrow> address set" where
  "al_addrs al = dom (addresses al)"

definition al_slots :: "accessList \<Rightarrow> (address \<times> hash) set" where
  "al_slots al =
     {(a, s). \<exists>i. addresses al a = Some i \<and> i \<noteq> -1 \<and> s \<in> slots al ! nat i}"

lemma Contains_abs:
  "al_inv al \<Longrightarrow> Contains a s al = Ok (a \<in> al_addrs al, (a, s) \<in> al_slots al)"
  by (auto simp: Contains_def al_addrs_def al_slots_def dest: al_inv_idx split: option.splits)

lemma ContainsAddress_abs: "ContainsAddress a al \<longleftrightarrow> a \<in> al_addrs al"
  by (auto simp: ContainsAddress_def al_addrs_def)

lemma AddAddress_abs:
  "al_addrs (fst (AddAddress a al)) = insert a (al_addrs al)"
  "al_slots (fst (AddAddress a al)) = al_slots al"
  "snd (AddAddress a al) \<longleftrightarrow> a \<notin> al_addrs al"
  by (auto simp: AddAddress_def al_addrs_def al_slots_def split: if_splits)

lemma al_slots_bounded: "al_inv al \<Longrightarrow> addresses al b = Some i \<Longrightarrow> i \<noteq> -1 \<Longrightarrow> nat i < length (slots al)"
  by (auto simp: al_inv_def)

lemma AddSlot_abs:
  assumes inv: "al_inv al" and add: "AddSlot a s al = Ok (al', ac, sc)"
  shows "al_addrs al' = insert a (al_addrs al)"
    and "al_slots al' = insert (a, s) (al_slots al)"
    and "ac \<longleftrightarrow> a \<notin> al_addrs al" and "sc \<longleftrightarrow> (a, s) \<notin> al_slots al"
proof -
  show "al_addrs al' = insert a (al_addrs al)" and "ac \<longleftrightarrow> a \<notin> al_addrs al"
    using add by (auto simp: AddSlot_def al_addrs_def Let_def split: if_splits)
  show "sc \<longleftrightarrow> (a, s) \<notin> al_slots al"
    using add by (auto simp: AddSlot_def al_slots_def Let_def split: if_splits)
  show "al_slots al' = insert (a, s) (al_slots al)"
  proof (cases "addresses al a = None \<or> addresses al a = Some (-1)")
    case True
    then show ?thesis using add al_slots_bounded [OF inv]
      by (fastforce simp: AddSlot_def al_slots_def nth_append split: if_splits)
  next
    case False
    then obtain i where i: "addresses al a = Some i" "i \<noteq> -1" by auto
    have other: "b = a" if "nat i = nat j" "addresses al b = Some j" "j \<noteq> -1" for b j
      using that i al_inv_idx [OF inv] al_inv_inj [OF inv] by (metis eq_nat_nat_iff)
    show ?thesis using add i al_slots_bounded [OF inv]
      by (auto simp: AddSlot_def al_slots_def Let_def nth_list_update split: if_splits dest: other)
  qed
qed

lemma Copy_id: "al_Copy al = al"
  by (simp add: al_Copy_def newAccessList_def)

end
