(* ===== verification/StateObject.thy ===== *)
theory StateObject
  imports AccessList "HOL-Library.AList"
begin

text \<open>
  The data of the state layer: accounts (\<open>common/account/state_account.go\<close>), the witness
  snapshot (\<open>modules/state/entire.go\<close>), the journal (\<open>modules/state/journal.go\<close>), the state
  objects (\<open>modules/state/state_object.go\<close>) and the record of
  \<open>modules/state/intra_block_state.go\<close>.

  The string-keyed maps of the snapshot are association lists, whose length is Go's \<open>len\<close>.

  \<open>lib\<close> collects the third-party code: the Keccak hash and the protobuf encoding of an
  account. A state object is a Go pointer that lives in \<open>stateObjects\<close> under its own
  address; a method that also writes the journal takes the state and the object and returns
  both, and the methods of \<open>IntraBlockState\<close> put the object back.
\<close>

record StateAccount =
  Initialised :: bool
  Nonce :: u64
  Balance :: u256
  Root :: hash
  CodeHash :: hash
  Incarnation :: u16

definition zero_account :: StateAccount where
  "zero_account = \<lparr>Initialised = False, Nonce = 0, Balance = 0, Root = 0, CodeHash = 0, Incarnation = 0\<rparr>"

record lib =
  keccak :: "bytes \<Rightarrow> hash"
  marshalAccount :: "StateAccount \<Rightarrow> bytes"
  unmarshalAccount :: "bytes \<Rightarrow> string + StateAccount"

definition emptyCodeHash :: "lib \<Rightarrow> hash" where
  "emptyCodeHash L = keccak L []"

section \<open>The snapshot of the accounts and slots a block reads\<close>

record Item =
  Key :: bytes
  Value :: bytes

record Snapshot =
  Items :: "Item option list"
  OutHash :: hash
  accounts :: "(bytes \<times> nat) list"
  sn_storage :: "(bytes \<times> nat) list"
  written :: bool
  getOneFun :: "(string \<Rightarrow> bytes \<Rightarrow> bytes option \<times> string option) option"

definition NewWritableSnapshot :: "lib \<Rightarrow> Snapshot" where
  "NewWritableSnapshot L =
     \<lparr>Items = [], OutHash = emptyCodeHash L, accounts = [], sn_storage = [],
      written = True, getOneFun = None\<rparr>"

definition NewReadableSnapshot :: "lib \<Rightarrow> Snapshot" where
  "NewReadableSnapshot L =
     \<lparr>Items = [], OutHash = emptyCodeHash L, accounts = [], sn_storage = [],
      written = False, getOneFun = None\<rparr>"

definition SetGetFun :: "(string \<Rightarrow> bytes \<Rightarrow> bytes option \<times> string option) \<Rightarrow> Snapshot \<Rightarrow> Snapshot" where
  "SetGetFun f s = s\<lparr>getOneFun := Some f\<rparr>"

definition PlainGenerateCompositeStorageKey :: "bytes \<Rightarrow> u16 \<Rightarrow> bytes \<Rightarrow> bytes" where
  "PlainGenerateCompositeStorageKey address incarnation key =
     (let k = replicate (20 + 2 + 32) 0;
          k = copy_at k 0 54 address;
          k = copy_at k 20 2 (be_bytes 2 (unat incarnation))
      in copy_at k 22 32 key)"

definition CanWrite :: "Snapshot \<Rightarrow> bool" where
  "CanWrite s = written s"

definition snap_ReadAccountStorage ::
  "address \<Rightarrow> u16 \<Rightarrow> hash \<Rightarrow> Snapshot \<Rightarrow> (bytes option \<times> string option) res" where
  "snap_ReadAccountStorage a incarnation key s =
     (if written s then Ok (None, None)
      else
        let compositeKey = PlainGenerateCompositeStorageKey (address_bytes a) incarnation (hash_bytes key)
        in case map_of (sn_storage s) compositeKey of
             None \<Rightarrow> (case getOneFun s of
                 Some f \<Rightarrow> Ok (f ''Storage'' compositeKey)
               | None \<Rightarrow> Ok (None, None))
           | Some index \<Rightarrow>
               if index < length (Items s) then
                 (case Items s ! index of
                    None \<Rightarrow> Ok (None, None)
                  | Some it \<Rightarrow> Ok (Some (Value it), None))
               else Panic SliceBounds)"

definition snap_ReadAccountData ::
  "lib \<Rightarrow> address \<Rightarrow> Snapshot \<Rightarrow> (string + StateAccount option) res" where
  "snap_ReadAccountData L a s =
     (if written s then Ok (Inr None)
      else case map_of (accounts s) (address_bytes a) of
        None \<Rightarrow> (case getOneFun s of
            Some f \<Rightarrow> (case f ''Account'' (address_bytes a) of
                (_, Some err) \<Rightarrow> Ok (Inl err)
              | (None, None) \<Rightarrow> Ok (Inr None)
              | (Some v, None) \<Rightarrow> (case unmarshalAccount L v of
                    Inl err \<Rightarrow> Ok (Inl err)
                  | Inr acc \<Rightarrow> Ok (Inr (Some acc))))
          | None \<Rightarrow> Ok (Inr None))
      | Some index \<Rightarrow>
          if index < length (Items s) then
            (case Items s ! index of
               None \<Rightarrow> Ok (Inr None)
             | Some it \<Rightarrow> (case unmarshalAccount L (Value it) of
                   Inl err \<Rightarrow> Ok (Inl err)
                 | Inr acc \<Rightarrow> Ok (Inr (Some acc))))
          else Panic SliceBounds)"

definition SetHash :: "hash \<Rightarrow> Snapshot \<Rightarrow> Snapshot" where
  "SetHash h s = (if written s then s else s\<lparr>OutHash := h\<rparr>)"

definition AddAccount :: "lib \<Rightarrow> address \<Rightarrow> StateAccount option \<Rightarrow> Snapshot \<Rightarrow> Snapshot" where
  "AddAccount L a acc s =
     (if \<not> written s \<or> acc = None then s
      else
        let items = Items s @ [Some \<lparr>Key = address_bytes a, Value = marshalAccount L (the acc)\<rparr>]
        in s\<lparr>Items := items, accounts := AList.update (address_bytes a) (length items) (accounts s)\<rparr>)"

definition AddStorage :: "address \<Rightarrow> hash \<Rightarrow> u16 \<Rightarrow> bytes \<Rightarrow> Snapshot \<Rightarrow> Snapshot" where
  "AddStorage a key incarnation val s =
     (if \<not> written s \<or> val = [] then s
      else
        let compositeKey = PlainGenerateCompositeStorageKey (address_bytes a) incarnation (hash_bytes key)
        in s\<lparr>Items := Items s @ [Some \<lparr>Key = compositeKey, Value = val\<rparr>],
             sn_storage := AList.update compositeKey (length (sn_storage s)) (sn_storage s)\<rparr>)"

text \<open>The index maps rebuilt from the items, as \<open>ReadSnapshotData\<close> and \<open>SetSnapshot\<close> do.\<close>

fun index_items :: "nat \<Rightarrow> Item option list \<Rightarrow> Snapshot \<Rightarrow> Snapshot res" where
  "index_items k [] s = Ok s"
| "index_items k (None # vs) s = Panic NilDereference"
| "index_items k (Some v # vs) s =
     index_items (Suc k) vs
       (if length (Key v) = 20 then s\<lparr>accounts := AList.update (Key v) k (accounts s)\<rparr>
        else s\<lparr>sn_storage := AList.update (Key v) k (sn_storage s)\<rparr>)"

section \<open>State objects, journal, state\<close>

type_synonym Storage = "hash \<rightharpoonup> u256"

record stateObject =
  so_address :: address
  data :: StateAccount
  original :: StateAccount
  code :: "bytes option"
  originStorage :: Storage
  blockOriginStorage :: Storage
  dirtyStorage :: Storage
  fakeStorage :: "Storage option"
  dirtyCode :: bool
  selfdestructed :: bool
  deleted :: bool
  created :: bool

datatype journalEntry =
    createObjectChange address
  | resetObjectChange address stateObject
  | selfdestructChange address bool u256
  | balanceChange address u256
  | balanceIncrease address u256
  | balanceIncreaseTransfer address
  | nonceChange address u64
  | storageChange address hash u256
  | fakeStorageChange address hash u256
  | codeChange address "bytes option" hash
  | refundChange u64
  | addLogChange hash
  | touchChange address
  | accessListAddAccountChange address
  | accessListAddSlotChange address hash

record journal =
  entries :: "journalEntry list"
  dirties :: "address \<rightharpoonup> int"

record BalanceIncrease =
  increase :: u256
  transferred :: bool
  bi_count :: int

record StateReader =
  ReadAccountData :: "address \<Rightarrow> StateAccount option \<times> string option"
  ReadAccountStorage :: "address \<Rightarrow> u16 \<Rightarrow> hash \<Rightarrow> bytes option \<times> string option"
  ReadAccountCode :: "address \<Rightarrow> u16 \<Rightarrow> hash \<Rightarrow> bytes option \<times> string option"
  ReadAccountCodeSize :: "address \<Rightarrow> u16 \<Rightarrow> hash \<Rightarrow> int \<times> string option"
  ReadAccountIncarnation :: "address \<Rightarrow> u16 \<times> string option"

record Log =
  log_Address :: address
  Topics :: "hash list"
  log_Data :: bytes
  log_BlockNumber :: u256
  TxHash :: hash
  TxIndex :: int
  BlockHash :: hash
  Index :: u64
  Removed :: bool

record revision =
  rev_id :: int
  journalIndex :: nat

record IntraBlockState =
  stateReader :: StateReader
  stateObjects :: "address \<rightharpoonup> stateObject"
  stateObjectsDirty :: "address set"
  nilAccounts :: "address set"
  savedErr :: "string option"
  refund :: u64
  thash :: hash
  bhash :: hash
  txIndex :: int
  logs :: "hash \<rightharpoonup> Log list"
  logSize :: u64
  journal :: journal
  validRevisions :: "revision list"
  nextRevisionID :: int
  accessList :: accessList
  balanceInc :: "address \<rightharpoonup> BalanceIncrease"
  snap :: "Snapshot option"
  codeMap :: "(hash \<rightharpoonup> bytes option) option"
  height :: u64

definition newJournal :: journal where
  "newJournal = \<lparr>entries = [], dirties = Map.empty\<rparr>"

definition dirtied :: "journalEntry \<Rightarrow> address option" where
  "dirtied e =
     (case e of
        createObjectChange a \<Rightarrow> Some a
      | resetObjectChange a prev \<Rightarrow> None
      | selfdestructChange a prev prevbalance \<Rightarrow> Some a
      | balanceChange a prev \<Rightarrow> Some a
      | balanceIncrease a inc \<Rightarrow> Some a
      | balanceIncreaseTransfer a \<Rightarrow> None
      | nonceChange a prev \<Rightarrow> Some a
      | storageChange a key prevalue \<Rightarrow> Some a
      | fakeStorageChange a key prevalue \<Rightarrow> Some a
      | codeChange a prevcode prevhash \<Rightarrow> Some a
      | refundChange prev \<Rightarrow> None
      | addLogChange txhash \<Rightarrow> None
      | touchChange a \<Rightarrow> Some a
      | accessListAddAccountChange a \<Rightarrow> None
      | accessListAddSlotChange a slot \<Rightarrow> None)"

text \<open>A Go map reads 0 for a missing key.\<close>

definition dirty_count :: "(address \<rightharpoonup> int) \<Rightarrow> address \<Rightarrow> int" where
  "dirty_count m a = (case m a of None \<Rightarrow> 0 | Some n \<Rightarrow> n)"

definition dirty :: "address \<Rightarrow> journal \<Rightarrow> journal" where
  "dirty a j = j\<lparr>dirties := (dirties j)(a \<mapsto> dirty_count (dirties j) a + 1)\<rparr>"

definition journal_append :: "journalEntry \<Rightarrow> journal \<Rightarrow> journal" where
  "journal_append e j =
     (let j = j\<lparr>entries := entries j @ [e]\<rparr>
      in case dirtied e of None \<Rightarrow> j | Some a \<Rightarrow> dirty a j)"

definition journal_length :: "journal \<Rightarrow> nat" where
  "journal_length j = length (entries j)"

abbreviation log_change :: "journalEntry \<Rightarrow> IntraBlockState \<Rightarrow> IntraBlockState" where
  "log_change e s \<equiv> s\<lparr>journal := journal_append e (journal s)\<rparr>"

end
