(* ===== verification/IntraBlockState.thy ===== *)
theory IntraBlockState
  imports StateObject
begin

text \<open>
  The methods of \<open>stateObject\<close>, the reversion of journal entries and the methods of
  \<open>IntraBlockState\<close>. Reads load accounts into the cache, so they return the new state too.
  State tracers, which only observe, are left out. Ranging over a Go map takes the keys in
  an unspecified order: the operations that do so take the enumeration as an argument.
\<close>

section \<open>State objects\<close>

definition lookup0 :: "Storage \<Rightarrow> hash \<Rightarrow> u256" where
  "lookup0 m k = (case m k of None \<Rightarrow> 0 | Some v \<Rightarrow> v)"

definition so_empty :: "lib \<Rightarrow> stateObject \<Rightarrow> bool" where
  "so_empty L so \<longleftrightarrow>
     Nonce (data so) = 0 \<and> Balance (data so) = 0 \<and> CodeHash (data so) = emptyCodeHash L"

definition newObject :: "lib \<Rightarrow> address \<Rightarrow> StateAccount \<Rightarrow> StateAccount \<Rightarrow> stateObject" where
  "newObject L a acc orig =
     (let d = acc;
          d = (if \<not> Initialised d then d\<lparr>Balance := 0, Initialised := True\<rparr> else d);
          d = (if CodeHash d = 0 then d\<lparr>CodeHash := emptyCodeHash L\<rparr> else d)
      in \<lparr>so_address = a, data = d, original = orig, code = None,
          originStorage = Map.empty, blockOriginStorage = Map.empty, dirtyStorage = Map.empty,
          fakeStorage = None, dirtyCode = False, selfdestructed = False, deleted = False,
          created = False\<rparr>)"

definition setErrorUnsafe :: "string \<Rightarrow> IntraBlockState \<Rightarrow> IntraBlockState" where
  "setErrorUnsafe err s = (if savedErr s = None then s\<lparr>savedErr := Some err\<rparr> else s)"

definition markSelfdestructed :: "stateObject \<Rightarrow> stateObject" where
  "markSelfdestructed so = so\<lparr>selfdestructed := True\<rparr>"

definition ripemd :: address where
  "ripemd = 3"

definition touch :: "IntraBlockState \<Rightarrow> stateObject \<Rightarrow> IntraBlockState" where
  "touch s so =
     (let s = log_change (touchChange (so_address so)) s
      in if so_address so = ripemd then s\<lparr>journal := dirty (so_address so) (journal s)\<rparr> else s)"

definition so_GetCommittedState ::
  "hash \<Rightarrow> IntraBlockState \<Rightarrow> stateObject \<Rightarrow> (IntraBlockState \<times> stateObject \<times> u256) res" where
  "so_GetCommittedState key s so =
     (case fakeStorage so of
        Some fs \<Rightarrow> Ok (s, so, lookup0 fs key)
      | None \<Rightarrow>
        (case originStorage so key of
           Some v \<Rightarrow> Ok (s, so, v)
         | None \<Rightarrow>
           if created so then Ok (s, so, 0)
           else
             let cache = (\<lambda>s v. Ok (s, so\<lparr>originStorage := (originStorage so)(key \<mapsto> v),
                                       blockOriginStorage := (blockOriginStorage so)(key \<mapsto> v)\<rparr>, v))
             in (case snap s of
               Some sn \<Rightarrow>
                 if \<not> CanWrite sn then
                   bnd (snap_ReadAccountStorage (so_address so) (Incarnation (data so)) key sn)
                     (\<lambda>(enc, err). case err of
                        Some e \<Rightarrow> Ok (setErrorUnsafe e s, so, 0)
                      | None \<Rightarrow> cache s (case enc of Some bs \<Rightarrow> SetBytes bs | None \<Rightarrow> 0))
                 else
                   (case ReadAccountStorage (stateReader s) (so_address so) (Incarnation (data so)) key of
                      (enc, Some e) \<Rightarrow> Ok (setErrorUnsafe e s, so, 0)
                    | (Some bs, None) \<Rightarrow>
                        cache (s\<lparr>snap := Some (AddStorage (so_address so) key (Incarnation (data so)) bs sn)\<rparr>)
                          (SetBytes bs)
                    | (None, None) \<Rightarrow> cache s 0)
             | None \<Rightarrow>
                 (case ReadAccountStorage (stateReader s) (so_address so) (Incarnation (data so)) key of
                    (enc, Some e) \<Rightarrow> Ok (setErrorUnsafe e s, so, 0)
                  | (Some bs, None) \<Rightarrow> cache s (SetBytes bs)
                  | (None, None) \<Rightarrow> cache s 0))))"

definition so_GetState ::
  "hash \<Rightarrow> IntraBlockState \<Rightarrow> stateObject \<Rightarrow> (IntraBlockState \<times> stateObject \<times> u256) res" where
  "so_GetState key s so =
     (case fakeStorage so of
        Some fs \<Rightarrow> Ok (s, so, lookup0 fs key)
      | None \<Rightarrow>
        (case dirtyStorage so key of
           Some v \<Rightarrow> Ok (s, so, v)
         | None \<Rightarrow> so_GetCommittedState key s so))"

definition so_setState :: "hash \<Rightarrow> u256 \<Rightarrow> stateObject \<Rightarrow> stateObject" where
  "so_setState key v so = so\<lparr>dirtyStorage := (dirtyStorage so)(key \<mapsto> v)\<rparr>"

definition so_SetState ::
  "hash \<Rightarrow> u256 \<Rightarrow> IntraBlockState \<Rightarrow> stateObject \<Rightarrow> (IntraBlockState \<times> stateObject) res" where
  "so_SetState key v s so =
     (case fakeStorage so of
        Some fs \<Rightarrow>
          Ok (log_change (fakeStorageChange (so_address so) key (lookup0 fs key)) s,
              so\<lparr>fakeStorage := Some (fs(key \<mapsto> v))\<rparr>)
      | None \<Rightarrow>
          bnd (so_GetState key s so) (\<lambda>(s, so, prev).
            if prev = v then Ok (s, so)
            else Ok (log_change (storageChange (so_address so) key prev) s, so_setState key v so)))"

definition so_SetStorage :: "Storage \<Rightarrow> stateObject \<Rightarrow> stateObject" where
  "so_SetStorage st so =
     so\<lparr>fakeStorage := Some ((case fakeStorage so of None \<Rightarrow> Map.empty | Some fs \<Rightarrow> fs) ++ st)\<rparr>"

definition so_setBalance :: "u256 \<Rightarrow> stateObject \<Rightarrow> stateObject" where
  "so_setBalance amount so = so\<lparr>data := (data so)\<lparr>Balance := amount, Initialised := True\<rparr>\<rparr>"

definition so_SetBalance :: "u256 \<Rightarrow> IntraBlockState \<Rightarrow> stateObject \<Rightarrow> IntraBlockState \<times> stateObject" where
  "so_SetBalance amount s so =
     (log_change (balanceChange (so_address so) (Balance (data so))) s, so_setBalance amount so)"

definition so_AddBalance ::
  "lib \<Rightarrow> u256 \<Rightarrow> IntraBlockState \<Rightarrow> stateObject \<Rightarrow> IntraBlockState \<times> stateObject" where
  "so_AddBalance L amount s so =
     (if amount = 0 then (if so_empty L so then (touch s so, so) else (s, so))
      else so_SetBalance (Balance (data so) + amount) s so)"

definition so_SubBalance :: "u256 \<Rightarrow> IntraBlockState \<Rightarrow> stateObject \<Rightarrow> IntraBlockState \<times> stateObject" where
  "so_SubBalance amount s so =
     (if amount = 0 then (s, so) else so_SetBalance (Balance (data so) - amount) s so)"

definition so_setIncarnation :: "u16 \<Rightarrow> stateObject \<Rightarrow> stateObject" where
  "so_setIncarnation inc so = so\<lparr>data := (data so)\<lparr>Incarnation := inc\<rparr>\<rparr>"

definition so_Code ::
  "lib \<Rightarrow> IntraBlockState \<Rightarrow> stateObject \<Rightarrow> IntraBlockState \<times> stateObject \<times> bytes option" where
  "so_Code L s so =
     (if code so \<noteq> None then (s, so, code so)
      else if CodeHash (data so) = emptyCodeHash L then (s, so, None)
      else case ReadAccountCode (stateReader s) (so_address so) (Incarnation (data so)) (CodeHash (data so)) of
        (c, err) \<Rightarrow>
          ((case err of None \<Rightarrow> s | Some e \<Rightarrow> setErrorUnsafe (''can't load code hash: '' @ e) s),
           so\<lparr>code := c\<rparr>, c))"

definition so_setCode :: "hash \<Rightarrow> bytes option \<Rightarrow> stateObject \<Rightarrow> stateObject" where
  "so_setCode h c so =
     so\<lparr>code := c, data := (data so)\<lparr>CodeHash := h\<rparr>, dirtyCode := True\<rparr>"

definition so_SetCode ::
  "lib \<Rightarrow> hash \<Rightarrow> bytes option \<Rightarrow> IntraBlockState \<Rightarrow> stateObject \<Rightarrow> IntraBlockState \<times> stateObject" where
  "so_SetCode L h c s so =
     (case so_Code L s so of (s, so, prevcode) \<Rightarrow>
        (log_change (codeChange (so_address so) prevcode (CodeHash (data so))) s, so_setCode h c so))"

definition so_setNonce :: "u64 \<Rightarrow> stateObject \<Rightarrow> stateObject" where
  "so_setNonce n so = so\<lparr>data := (data so)\<lparr>Nonce := n\<rparr>\<rparr>"

definition so_SetNonce :: "u64 \<Rightarrow> IntraBlockState \<Rightarrow> stateObject \<Rightarrow> IntraBlockState \<times> stateObject" where
  "so_SetNonce n s so =
     (log_change (nonceChange (so_address so) (Nonce (data so))) s, so_setNonce n so)"

section \<open>Live objects\<close>

definition put_object :: "address \<Rightarrow> stateObject \<Rightarrow> IntraBlockState \<Rightarrow> IntraBlockState" where
  "put_object a so s = s\<lparr>stateObjects := (stateObjects s)(a \<mapsto> so)\<rparr>"

definition setStateObject :: "address \<Rightarrow> stateObject \<Rightarrow> IntraBlockState \<Rightarrow> IntraBlockState" where
  "setStateObject a so s =
     (case balanceInc s a of
        Some bi \<Rightarrow>
          if \<not> transferred bi then
            put_object a (so\<lparr>data := (data so)\<lparr>Balance := Balance (data so) + increase bi\<rparr>\<rparr>)
              (log_change (balanceIncreaseTransfer a)
                (s\<lparr>balanceInc := (balanceInc s)(a \<mapsto> bi\<lparr>transferred := True\<rparr>)\<rparr>))
          else put_object a so s
      | None \<Rightarrow> put_object a so s)"

definition createObject ::
  "lib \<Rightarrow> address \<Rightarrow> stateObject option \<Rightarrow> IntraBlockState \<Rightarrow> IntraBlockState" where
  "createObject L a previous s =
     (let orig = (case previous of None \<Rightarrow> zero_account | Some p \<Rightarrow> original p);
          newobj = so_setNonce 0 (newObject L a zero_account orig);
          s = (case previous of
                 None \<Rightarrow> log_change (createObjectChange a) s
               | Some p \<Rightarrow> log_change (resetObjectChange a p) s)
      in setStateObject a newobj s)"

text \<open>The balance increase of \<open>a\<close> that waits for the account to be loaded.\<close>

definition pending :: "IntraBlockState \<Rightarrow> address \<Rightarrow> bool" where
  "pending s a \<longleftrightarrow> (case balanceInc s a of Some bi \<Rightarrow> \<not> transferred bi | None \<Rightarrow> False)"

text \<open>The object \<open>getStateObject\<close> returns is the live object of the new state, if any.\<close>

definition getStateObject :: "lib \<Rightarrow> address \<Rightarrow> IntraBlockState \<Rightarrow> IntraBlockState" where
  "getStateObject L a s =
     (if stateObjects s a \<noteq> None then s
      else if a \<in> nilAccounts s then (if pending s a then createObject L a None s else s)
      else case ReadAccountData (stateReader s) a of
        (_, Some err) \<Rightarrow> setErrorUnsafe err s
      | (None, None) \<Rightarrow>
          let s = s\<lparr>nilAccounts := insert a (nilAccounts s)\<rparr>
          in if pending s a then createObject L a None s else s
      | (Some acc, None) \<Rightarrow>
          let s = (case snap s of
                     Some sn \<Rightarrow> if CanWrite sn then s\<lparr>snap := Some (AddAccount L a (Some acc) sn)\<rparr> else s
                   | None \<Rightarrow> s)
          in setStateObject a (newObject L a acc acc) s)"

definition GetOrNewStateObject :: "lib \<Rightarrow> address \<Rightarrow> IntraBlockState \<Rightarrow> IntraBlockState" where
  "GetOrNewStateObject L a s =
     (let s = getStateObject L a s
      in case stateObjects s a of
           None \<Rightarrow> createObject L a None s
         | Some so \<Rightarrow> if deleted so then createObject L a (Some so) s else s)"

text \<open>Reading and updating the live object of an address.\<close>

definition with_object :: "address \<Rightarrow> (IntraBlockState \<Rightarrow> stateObject \<Rightarrow> IntraBlockState \<times> stateObject)
    \<Rightarrow> IntraBlockState \<Rightarrow> IntraBlockState" where
  "with_object a f s =
     (case stateObjects s a of
        None \<Rightarrow> s
      | Some so \<Rightarrow> (case f s so of (s, so) \<Rightarrow> put_object a so s))"

definition live :: "address \<Rightarrow> IntraBlockState \<Rightarrow> stateObject option" where
  "live a s = (case stateObjects s a of
      Some so \<Rightarrow> if deleted so then None else Some so | None \<Rightarrow> None)"

section \<open>Reverting journal entries\<close>

definition revert_bi :: "address \<Rightarrow> u256 \<Rightarrow> IntraBlockState \<Rightarrow> IntraBlockState" where
  "revert_bi a inc s =
     (case balanceInc s a of
        None \<Rightarrow> s
      | Some bi \<Rightarrow>
          let bi = bi\<lparr>increase := increase bi - inc, bi_count := bi_count bi - 1\<rparr>
          in s\<lparr>balanceInc := (balanceInc s)(a := (if bi_count bi = 0 then None else Some bi))\<rparr>)"

text \<open>A revert that dereferences the object of an address that has none panics.\<close>

definition revert_object ::
  "lib \<Rightarrow> address \<Rightarrow> (stateObject \<Rightarrow> stateObject res) \<Rightarrow> IntraBlockState \<Rightarrow> IntraBlockState res" where
  "revert_object L a f s =
     (let s = getStateObject L a s
      in case stateObjects s a of
           None \<Rightarrow> Panic NilDereference
         | Some so \<Rightarrow> bnd (f so) (\<lambda>so. Ok (put_object a so s)))"

definition revert :: "lib \<Rightarrow> journalEntry \<Rightarrow> IntraBlockState \<Rightarrow> IntraBlockState res" where
  "revert L e s =
     (case e of
        createObjectChange a \<Rightarrow>
          Ok (s\<lparr>stateObjects := (stateObjects s)(a := None),
                stateObjectsDirty := stateObjectsDirty s - {a}\<rparr>)
      | resetObjectChange a prev \<Rightarrow> Ok (setStateObject a prev s)
      | selfdestructChange a prev prevbalance \<Rightarrow>
          (let s = getStateObject L a s
           in case stateObjects s a of
                None \<Rightarrow> Ok s
              | Some so \<Rightarrow> Ok (put_object a (so_setBalance prevbalance (so\<lparr>selfdestructed := prev\<rparr>)) s))
      | touchChange a \<Rightarrow> Ok s
      | balanceChange a prev \<Rightarrow> revert_object L a (\<lambda>so. Ok (so_setBalance prev so)) s
      | balanceIncrease a inc \<Rightarrow> Ok (revert_bi a inc s)
      | balanceIncreaseTransfer a \<Rightarrow>
          (case balanceInc s a of
             None \<Rightarrow> Ok s
           | Some bi \<Rightarrow> Ok (s\<lparr>balanceInc := (balanceInc s)(a \<mapsto> bi\<lparr>transferred := False\<rparr>)\<rparr>))
      | nonceChange a prev \<Rightarrow> revert_object L a (\<lambda>so. Ok (so_setNonce prev so)) s
      | codeChange a prevcode prevhash \<Rightarrow> revert_object L a (\<lambda>so. Ok (so_setCode prevhash prevcode so)) s
      | storageChange a key prevalue \<Rightarrow> revert_object L a (\<lambda>so. Ok (so_setState key prevalue so)) s
      | fakeStorageChange a key prevalue \<Rightarrow>
          revert_object L a (\<lambda>so. case fakeStorage so of
              None \<Rightarrow> Panic NilDereference
            | Some fs \<Rightarrow> Ok (so\<lparr>fakeStorage := Some (fs(key \<mapsto> prevalue))\<rparr>)) s
      | refundChange prev \<Rightarrow> Ok (s\<lparr>refund := prev\<rparr>)
      | addLogChange txhash \<Rightarrow>
          (let ls = (case logs s txhash of None \<Rightarrow> [] | Some ls \<Rightarrow> ls)
           in if length ls = 1
              then Ok (s\<lparr>logs := (logs s)(txhash := None), logSize := logSize s - 1\<rparr>)
              else if ls = [] then Panic SliceBounds
              else Ok (s\<lparr>logs := (logs s)(txhash \<mapsto> take (length ls - 1) ls), logSize := logSize s - 1\<rparr>))
      | accessListAddAccountChange a \<Rightarrow> Ok (s\<lparr>accessList := DeleteAddress a (accessList s)\<rparr>)
      | accessListAddSlotChange a slot \<Rightarrow>
          bnd (DeleteSlot a slot (accessList s)) (\<lambda>al. Ok (s\<lparr>accessList := al\<rparr>)))"

definition undirty :: "address option \<Rightarrow> journal \<Rightarrow> journal" where
  "undirty oa j =
     (case oa of
        None \<Rightarrow> j
      | Some a \<Rightarrow>
          let n = dirty_count (dirties j) a - 1
          in j\<lparr>dirties := (dirties j)(a := (if n = 0 then None else Some n))\<rparr>)"

text \<open>The loop of \<open>journal.revert\<close> from index \<open>k + n - 1\<close> down to \<open>k\<close>.\<close>

fun revert_loop :: "lib \<Rightarrow> nat \<Rightarrow> nat \<Rightarrow> IntraBlockState \<Rightarrow> IntraBlockState res" where
  "revert_loop L k 0 s = Ok s"
| "revert_loop L k (Suc n) s =
     (let e = entries (journal s) ! (k + n)
      in bnd (revert L e s) (\<lambda>s.
           revert_loop L k n (s\<lparr>journal := undirty (dirtied e) (journal s)\<rparr>)))"

definition journal_revert :: "lib \<Rightarrow> nat \<Rightarrow> IntraBlockState \<Rightarrow> IntraBlockState res" where
  "journal_revert L k s =
     bnd (revert_loop L k (length (entries (journal s)) - k) s) (\<lambda>s.
       if k \<le> length (entries (journal s))
       then Ok (s\<lparr>journal := (journal s)\<lparr>entries := take k (entries (journal s))\<rparr>\<rparr>)
       else Panic SliceBounds)"

text \<open>\<open>sort.Search\<close> of the Go standard library.\<close>

function sort_search :: "(nat \<Rightarrow> bool) \<Rightarrow> nat \<Rightarrow> nat \<Rightarrow> nat" where
  "sort_search f i j =
     (if i < j then
        let h = (i + j) div 2
        in if \<not> f h then sort_search f (h + 1) j else sort_search f i h
      else i)"
  by pat_completeness auto

termination by (relation "measure (\<lambda>(f, i, j). j - i)") auto

declare sort_search.simps [simp del]

definition TakeSnapshot :: "IntraBlockState \<Rightarrow> IntraBlockState \<times> int" where
  "TakeSnapshot s =
     (s\<lparr>nextRevisionID := nextRevisionID s + 1,
        validRevisions := validRevisions s @
          [\<lparr>rev_id = nextRevisionID s, journalIndex = journal_length (journal s)\<rparr>]\<rparr>,
      nextRevisionID s)"

definition RevertToSnapshot :: "lib \<Rightarrow> int \<Rightarrow> IntraBlockState \<Rightarrow> IntraBlockState res" where
  "RevertToSnapshot L revid s =
     (let idx = sort_search (\<lambda>i. rev_id (validRevisions s ! i) \<ge> revid) 0 (length (validRevisions s))
      in if idx = length (validRevisions s) \<or> rev_id (validRevisions s ! idx) \<noteq> revid
         then Panic BadRevision
         else
           bnd (journal_revert L (journalIndex (validRevisions s ! idx)) s) (\<lambda>s.
             Ok (s\<lparr>validRevisions := take idx (validRevisions s)\<rparr>)))"

section \<open>Construction and block-level bookkeeping\<close>

definition NewState :: "StateReader \<Rightarrow> IntraBlockState" where
  "NewState reader =
     \<lparr>stateReader = reader, stateObjects = Map.empty, stateObjectsDirty = {}, nilAccounts = {},
      savedErr = None, refund = 0, thash = 0, bhash = 0, txIndex = 0, logs = Map.empty, logSize = 0,
      journal = newJournal, validRevisions = [], nextRevisionID = 0, accessList = newAccessList,
      balanceInc = Map.empty, snap = None, codeMap = None, height = 0\<rparr>"

definition BeginWriteSnapshot :: "lib \<Rightarrow> IntraBlockState \<Rightarrow> IntraBlockState" where
  "BeginWriteSnapshot L s = s\<lparr>snap := Some (NewWritableSnapshot L)\<rparr>"

definition BeginWriteCodes :: "IntraBlockState \<Rightarrow> IntraBlockState" where
  "BeginWriteCodes s = s\<lparr>codeMap := Some Map.empty\<rparr>"

text \<open>\<open>addrs\<close> enumerates the live objects.\<close>

fun CodeHashes :: "address list \<Rightarrow> IntraBlockState \<Rightarrow> IntraBlockState res" where
  "CodeHashes [] s = Ok s"
| "CodeHashes (a # addrs) s =
     (case stateObjects s a of
        None \<Rightarrow> CodeHashes addrs s
      | Some so \<Rightarrow>
          if a \<in> stateObjectsDirty s \<and> (created so \<or> \<not> selfdestructed so) \<and> code so \<noteq> None \<and> dirtyCode so
          then (case codeMap s of
                  None \<Rightarrow> Panic NilDereference
                | Some m \<Rightarrow> CodeHashes addrs (s\<lparr>codeMap := Some (m(CodeHash (data so) \<mapsto> code so))\<rparr>))
          else CodeHashes addrs s)"

definition SetHeight :: "u64 \<Rightarrow> IntraBlockState \<Rightarrow> IntraBlockState" where
  "SetHeight h s = s\<lparr>height := h\<rparr>"

definition SetOutHash :: "hash \<Rightarrow> IntraBlockState \<Rightarrow> IntraBlockState" where
  "SetOutHash h s =
     (case snap s of
        None \<Rightarrow> s
      | Some sn \<Rightarrow> if \<not> CanWrite sn then s else s\<lparr>snap := Some (sn\<lparr>OutHash := h\<rparr>)\<rparr>)"

definition SetSnapshot :: "Snapshot \<Rightarrow> IntraBlockState \<Rightarrow> IntraBlockState res" where
  "SetSnapshot sn s =
     bnd (index_items 0 (Items sn) (sn\<lparr>accounts := [], sn_storage := []\<rparr>))
       (\<lambda>sn. Ok (s\<lparr>snap := Some sn\<rparr>))"

definition SetGetOneFun ::
  "(string \<Rightarrow> bytes \<Rightarrow> bytes option \<times> string option) \<Rightarrow> IntraBlockState \<Rightarrow> IntraBlockState res" where
  "SetGetOneFun f s =
     (case snap s of
        None \<Rightarrow> Panic NilDereference
      | Some sn \<Rightarrow> Ok (s\<lparr>snap := Some (SetGetFun f sn)\<rparr>))"

definition SetStateReader :: "StateReader \<Rightarrow> IntraBlockState \<Rightarrow> IntraBlockState" where
  "SetStateReader r s = s\<lparr>stateReader := r\<rparr>"

definition clearJournalAndRefund :: "IntraBlockState \<Rightarrow> IntraBlockState" where
  "clearJournalAndRefund s = s\<lparr>journal := newJournal, validRevisions := [], refund := 0\<rparr>"

definition ibs_Reset :: "IntraBlockState \<Rightarrow> IntraBlockState" where
  "ibs_Reset s =
     (clearJournalAndRefund
       (s\<lparr>stateObjects := Map.empty, stateObjectsDirty := {}, thash := 0, bhash := 0, txIndex := 0,
          logs := Map.empty, logSize := 0\<rparr>))
       \<lparr>accessList := newAccessList, balanceInc := Map.empty\<rparr>"

definition AddLog :: "Log \<Rightarrow> IntraBlockState \<Rightarrow> IntraBlockState" where
  "AddLog l s =
     (let s = log_change (addLogChange (thash s)) s;
          l = l\<lparr>TxHash := thash s, BlockHash := bhash s, TxIndex := txIndex s, Index := logSize s\<rparr>;
          ls = (case logs s (thash s) of None \<Rightarrow> [] | Some ls \<Rightarrow> ls)
      in s\<lparr>logs := (logs s)(thash s \<mapsto> ls @ [l]), logSize := logSize s + 1\<rparr>)"

definition GetLogs :: "hash \<Rightarrow> IntraBlockState \<Rightarrow> Log list" where
  "GetLogs h s = (case logs s h of None \<Rightarrow> [] | Some ls \<Rightarrow> ls)"

text \<open>\<open>hs\<close> enumerates the keys of \<open>logs\<close>.\<close>

definition Logs :: "hash list \<Rightarrow> IntraBlockState \<Rightarrow> Log list" where
  "Logs hs s = concat (map (\<lambda>h. GetLogs h s) hs)"

definition AddRefund :: "u64 \<Rightarrow> IntraBlockState \<Rightarrow> IntraBlockState" where
  "AddRefund gas s = (log_change (refundChange (refund s)) s)\<lparr>refund := refund s + gas\<rparr>"

definition SubRefund :: "u64 \<Rightarrow> IntraBlockState \<Rightarrow> IntraBlockState" where
  "SubRefund gas s =
     (let s = log_change (refundChange (refund s)) s;
          s = (if gas > refund s then setErrorUnsafe ''refund counter below zero'' s else s)
      in s\<lparr>refund := refund s - gas\<rparr>)"

definition GetRefund :: "IntraBlockState \<Rightarrow> u64" where
  "GetRefund s = refund s"

section \<open>Reading accounts\<close>

definition Exist :: "lib \<Rightarrow> address \<Rightarrow> IntraBlockState \<Rightarrow> IntraBlockState \<times> bool" where
  "Exist L a s = (let s = getStateObject L a s in (s, live a s \<noteq> None))"

definition Empty :: "lib \<Rightarrow> address \<Rightarrow> IntraBlockState \<Rightarrow> IntraBlockState \<times> bool" where
  "Empty L a s =
     (let s = getStateObject L a s
      in (s, case live a s of None \<Rightarrow> True | Some so \<Rightarrow> so_empty L so))"

definition GetBalance :: "lib \<Rightarrow> address \<Rightarrow> IntraBlockState \<Rightarrow> IntraBlockState \<times> u256" where
  "GetBalance L a s =
     (let s = getStateObject L a s
      in (s, case live a s of None \<Rightarrow> 0 | Some so \<Rightarrow> Balance (data so)))"

definition GetNonce :: "lib \<Rightarrow> address \<Rightarrow> IntraBlockState \<Rightarrow> IntraBlockState \<times> u64" where
  "GetNonce L a s =
     (let s = getStateObject L a s
      in (s, case live a s of None \<Rightarrow> 0 | Some so \<Rightarrow> Nonce (data so)))"

definition GetCode :: "lib \<Rightarrow> address \<Rightarrow> IntraBlockState \<Rightarrow> IntraBlockState \<times> bytes option" where
  "GetCode L a s =
     (let s = getStateObject L a s
      in case live a s of
           None \<Rightarrow> (s, None)
         | Some so \<Rightarrow>
             (case so_Code L s so of (s, so, c) \<Rightarrow>
                let s = put_object a so s;
                    s = (case (c, codeMap s) of
                           (Some bs, Some m) \<Rightarrow>
                             if 0 < length bs then s\<lparr>codeMap := Some (m(CodeHash (data so) \<mapsto> c))\<rparr> else s
                         | _ \<Rightarrow> s)
                in (s, c)))"

definition GetCodeSize :: "lib \<Rightarrow> address \<Rightarrow> IntraBlockState \<Rightarrow> IntraBlockState \<times> int" where
  "GetCodeSize L a s =
     (let s = getStateObject L a s
      in case live a s of
           None \<Rightarrow> (s, 0)
         | Some so \<Rightarrow>
             (case code so of
                Some c \<Rightarrow> (s, int (length c))
              | None \<Rightarrow>
                  (case ReadAccountCodeSize (stateReader s) a (Incarnation (data so)) (CodeHash (data so)) of
                     (n, err) \<Rightarrow>
                       let s = (case err of None \<Rightarrow> s | Some e \<Rightarrow> setErrorUnsafe e s);
                           s = (case codeMap s of
                                  Some m \<Rightarrow>
                                    if n > 0 then s\<lparr>codeMap := Some (m(CodeHash (data so) \<mapsto>
                                      fst (ReadAccountCode (stateReader s) a (Incarnation (data so)) (CodeHash (data so)))))\<rparr>
                                    else s
                                | None \<Rightarrow> s)
                       in (s, n))))"

definition GetCodeHash :: "lib \<Rightarrow> address \<Rightarrow> IntraBlockState \<Rightarrow> IntraBlockState \<times> hash" where
  "GetCodeHash L a s =
     (let s = getStateObject L a s
      in (s, case live a s of None \<Rightarrow> 0 | Some so \<Rightarrow> CodeHash (data so)))"

definition GetState :: "lib \<Rightarrow> address \<Rightarrow> hash \<Rightarrow> IntraBlockState \<Rightarrow> (IntraBlockState \<times> u256) res" where
  "GetState L a key s =
     (let s = getStateObject L a s
      in case live a s of
           None \<Rightarrow> Ok (s, 0)
         | Some so \<Rightarrow> bnd (so_GetState key s so) (\<lambda>(s, so, v). Ok (put_object a so s, v)))"

definition GetCommittedState ::
  "lib \<Rightarrow> address \<Rightarrow> hash \<Rightarrow> IntraBlockState \<Rightarrow> (IntraBlockState \<times> u256) res" where
  "GetCommittedState L a key s =
     (let s = getStateObject L a s
      in case live a s of
           None \<Rightarrow> Ok (s, 0)
         | Some so \<Rightarrow> bnd (so_GetCommittedState key s so) (\<lambda>(s, so, v). Ok (put_object a so s, v)))"

definition HasSuicided :: "lib \<Rightarrow> address \<Rightarrow> IntraBlockState \<Rightarrow> IntraBlockState \<times> bool" where
  "HasSuicided L a s =
     (let s = getStateObject L a s
      in (s, case live a s of None \<Rightarrow> False | Some so \<Rightarrow> \<not> created so \<and> selfdestructed so))"

definition HasSelfdestructed :: "lib \<Rightarrow> address \<Rightarrow> IntraBlockState \<Rightarrow> IntraBlockState \<times> bool" where
  "HasSelfdestructed L a s =
     (let s = getStateObject L a s
      in (s, case live a s of None \<Rightarrow> False | Some so \<Rightarrow> \<not> created so \<and> selfdestructed so))"

definition GetIncarnation :: "lib \<Rightarrow> address \<Rightarrow> IntraBlockState \<Rightarrow> IntraBlockState \<times> u16" where
  "GetIncarnation L a s =
     (let s = getStateObject L a s
      in (s, case stateObjects s a of None \<Rightarrow> 0 | Some so \<Rightarrow> Incarnation (data so)))"

section \<open>Writing accounts\<close>

definition AddBalance :: "lib \<Rightarrow> address \<Rightarrow> u256 \<Rightarrow> IntraBlockState \<Rightarrow> IntraBlockState" where
  "AddBalance L a amount s =
     (let needAccount = stateObjects s a \<noteq> None;
          needAccount = (if \<not> needAccount \<and> a = ripemd \<and> amount = 0 then True else needAccount)
      in if \<not> needAccount then
           let s = log_change (balanceIncrease a amount) s;
               bi = (case balanceInc s a of
                       None \<Rightarrow> \<lparr>increase = 0, transferred = False, bi_count = 0\<rparr>
                     | Some bi \<Rightarrow> bi)
           in s\<lparr>balanceInc := (balanceInc s)(a \<mapsto>
                  bi\<lparr>increase := increase bi + amount, bi_count := bi_count bi + 1\<rparr>)\<rparr>
         else with_object a (so_AddBalance L amount) (GetOrNewStateObject L a s))"

definition SubBalance :: "lib \<Rightarrow> address \<Rightarrow> u256 \<Rightarrow> IntraBlockState \<Rightarrow> IntraBlockState" where
  "SubBalance L a amount s = with_object a (so_SubBalance amount) (GetOrNewStateObject L a s)"

definition SetBalance :: "lib \<Rightarrow> address \<Rightarrow> u256 \<Rightarrow> IntraBlockState \<Rightarrow> IntraBlockState" where
  "SetBalance L a amount s = with_object a (so_SetBalance amount) (GetOrNewStateObject L a s)"

definition SetNonce :: "lib \<Rightarrow> address \<Rightarrow> u64 \<Rightarrow> IntraBlockState \<Rightarrow> IntraBlockState" where
  "SetNonce L a n s = with_object a (so_SetNonce n) (GetOrNewStateObject L a s)"

definition SetCode :: "lib \<Rightarrow> address \<Rightarrow> bytes option \<Rightarrow> IntraBlockState \<Rightarrow> IntraBlockState" where
  "SetCode L a c s =
     with_object a (so_SetCode L (keccak L (case c of None \<Rightarrow> [] | Some bs \<Rightarrow> bs)) c) (GetOrNewStateObject L a s)"

definition SetState :: "lib \<Rightarrow> address \<Rightarrow> hash \<Rightarrow> u256 \<Rightarrow> IntraBlockState \<Rightarrow> IntraBlockState res" where
  "SetState L a key v s =
     (let s = GetOrNewStateObject L a s
      in case stateObjects s a of
           None \<Rightarrow> Ok s
         | Some so \<Rightarrow> bnd (so_SetState key v s so) (\<lambda>(s, so). Ok (put_object a so s)))"

definition SetStorage :: "lib \<Rightarrow> address \<Rightarrow> Storage \<Rightarrow> IntraBlockState \<Rightarrow> IntraBlockState" where
  "SetStorage L a st s = with_object a (\<lambda>s so. (s, so_SetStorage st so)) (GetOrNewStateObject L a s)"

definition SetIncarnation :: "lib \<Rightarrow> address \<Rightarrow> u16 \<Rightarrow> IntraBlockState \<Rightarrow> IntraBlockState" where
  "SetIncarnation L a inc s =
     with_object a (\<lambda>s so. (s, so_setIncarnation inc so)) (GetOrNewStateObject L a s)"

definition destroy :: "address \<Rightarrow> IntraBlockState \<Rightarrow> stateObject \<Rightarrow> IntraBlockState \<times> stateObject" where
  "destroy a s so =
     (log_change (selfdestructChange a (selfdestructed so) (Balance (data so))) s,
      (markSelfdestructed so)\<lparr>created := False, data := (data so)\<lparr>Balance := 0\<rparr>\<rparr>)"

definition Suicide :: "lib \<Rightarrow> address \<Rightarrow> IntraBlockState \<Rightarrow> IntraBlockState \<times> bool" where
  "Suicide L a s =
     (let s = getStateObject L a s
      in if live a s = None then (s, False) else (with_object a (destroy a) s, True))"

definition Selfdestruct :: "lib \<Rightarrow> address \<Rightarrow> IntraBlockState \<Rightarrow> IntraBlockState \<times> bool" where
  "Selfdestruct L a s =
     (let s = getStateObject L a s
      in if live a s = None then (s, False) else (with_object a (destroy a) s, True))"

definition CreateAccount :: "lib \<Rightarrow> address \<Rightarrow> bool \<Rightarrow> IntraBlockState \<Rightarrow> IntraBlockState" where
  "CreateAccount L a contractCreation s =
     (let s = getStateObject L a s;
          previous = stateObjects s a;
          prevInc =
            (if contractCreation then
               (case previous of
                  Some p \<Rightarrow>
                    if selfdestructed p then Incarnation (data p)
                    else (case ReadAccountIncarnation (stateReader s) a of (inc, None) \<Rightarrow> inc | _ \<Rightarrow> 0)
                | None \<Rightarrow> (case ReadAccountIncarnation (stateReader s) a of (inc, None) \<Rightarrow> inc | _ \<Rightarrow> 0))
             else 0);
          s = createObject L a previous s
      in with_object a (\<lambda>s newObj.
           let newObj = (case previous of
                           None \<Rightarrow> newObj
                         | Some p \<Rightarrow> newObj\<lparr>data := (data newObj)\<lparr>Balance := Balance (data p), Initialised := True\<rparr>\<rparr>)
           in (s, if contractCreation
                  then newObj\<lparr>created := True, data := (data newObj)\<lparr>Incarnation := prevInc + 1\<rparr>\<rparr>
                  else newObj\<lparr>selfdestructed := False\<rparr>)) s)"

section \<open>Access list\<close>

definition AddAddressToAccessList :: "address \<Rightarrow> IntraBlockState \<Rightarrow> IntraBlockState" where
  "AddAddressToAccessList a s =
     (case AddAddress a (accessList s) of (al, change) \<Rightarrow>
        let s = s\<lparr>accessList := al\<rparr>
        in if change then log_change (accessListAddAccountChange a) s else s)"

definition AddSlotToAccessList :: "address \<Rightarrow> hash \<Rightarrow> IntraBlockState \<Rightarrow> IntraBlockState res" where
  "AddSlotToAccessList a slot s =
     bnd (AddSlot a slot (accessList s)) (\<lambda>(al, addrMod, slotMod).
       let s = s\<lparr>accessList := al\<rparr>;
           s = (if addrMod then log_change (accessListAddAccountChange a) s else s);
           s = (if slotMod then log_change (accessListAddSlotChange a slot) s else s)
       in Ok s)"

definition AddressInAccessList :: "address \<Rightarrow> IntraBlockState \<Rightarrow> bool" where
  "AddressInAccessList a s = ContainsAddress a (accessList s)"

definition SlotInAccessList :: "address \<Rightarrow> hash \<Rightarrow> IntraBlockState \<Rightarrow> (bool \<times> bool) res" where
  "SlotInAccessList a slot s = Contains a slot (accessList s)"

fun add_addresses :: "address list \<Rightarrow> IntraBlockState \<Rightarrow> IntraBlockState" where
  "add_addresses [] s = s"
| "add_addresses (a # as) s = add_addresses as (AddAddressToAccessList a s)"

fun add_keys :: "address \<Rightarrow> hash list \<Rightarrow> IntraBlockState \<Rightarrow> IntraBlockState res" where
  "add_keys a [] s = Ok s"
| "add_keys a (k # ks) s = bnd (AddSlotToAccessList a k s) (add_keys a ks)"

fun add_tuples :: "(address \<times> hash list) list \<Rightarrow> IntraBlockState \<Rightarrow> IntraBlockState res" where
  "add_tuples [] s = Ok s"
| "add_tuples ((a, ks) # els) s = bnd (add_keys a ks (AddAddressToAccessList a s)) (add_tuples els)"

definition PrepareAccessList ::
  "address \<Rightarrow> address option \<Rightarrow> address list \<Rightarrow> (address \<times> hash list) list
     \<Rightarrow> IntraBlockState \<Rightarrow> IntraBlockState res" where
  "PrepareAccessList sender dst precompiles al s =
     (let s = AddAddressToAccessList sender s;
          s = (case dst of None \<Rightarrow> s | Some d \<Rightarrow> AddAddressToAccessList d s);
          s = add_addresses precompiles s
      in add_tuples al s)"

section \<open>Ending a transaction and a block\<close>

text \<open>\<open>prepare_tx\<close> is the method \<open>Prepare\<close>.\<close>

definition prepare_tx :: "hash \<Rightarrow> hash \<Rightarrow> int \<Rightarrow> IntraBlockState \<Rightarrow> IntraBlockState" where
  "prepare_tx th bh ti s = s\<lparr>thash := th, bhash := bh, txIndex := ti, accessList := newAccessList\<rparr>"

record 'w StateWriter =
  UpdateAccountData :: "address \<Rightarrow> StateAccount \<Rightarrow> StateAccount \<Rightarrow> 'w \<Rightarrow> 'w \<times> string option"
  UpdateAccountCode :: "address \<Rightarrow> u16 \<Rightarrow> hash \<Rightarrow> bytes \<Rightarrow> 'w \<Rightarrow> 'w \<times> string option"
  DeleteAccount :: "address \<Rightarrow> StateAccount \<Rightarrow> 'w \<Rightarrow> 'w \<times> string option"
  WriteAccountStorage :: "address \<Rightarrow> u16 \<Rightarrow> hash \<Rightarrow> u256 \<Rightarrow> u256 \<Rightarrow> 'w \<Rightarrow> 'w \<times> string option"
  CreateContract :: "address \<Rightarrow> 'w \<Rightarrow> 'w \<times> string option"

definition NoopWriter :: "'w StateWriter" where
  "NoopWriter =
     \<lparr>UpdateAccountData = \<lambda>_ _ _ w. (w, None), UpdateAccountCode = \<lambda>_ _ _ _ w. (w, None),
      DeleteAccount = \<lambda>_ _ w. (w, None), WriteAccountStorage = \<lambda>_ _ _ _ _ w. (w, None),
      CreateContract = \<lambda>_ w. (w, None)\<rparr>"

text \<open>\<open>keys\<close> enumerates the dirty slots.\<close>

fun updateTrie :: "'w StateWriter \<Rightarrow> hash list \<Rightarrow> stateObject \<Rightarrow> 'w \<Rightarrow> stateObject \<times> 'w \<times> string option" where
  "updateTrie W [] so w = (so, w, None)"
| "updateTrie W (key # keys) so w =
     (case dirtyStorage so key of
        None \<Rightarrow> updateTrie W keys so w
      | Some v \<Rightarrow>
          let so = so\<lparr>originStorage := (originStorage so)(key \<mapsto> v)\<rparr>
          in (case WriteAccountStorage W (so_address so) (Incarnation (data so)) key
                     (lookup0 (blockOriginStorage so) key) v w of
                (w, Some err) \<Rightarrow> (so, w, Some err)
              | (w, None) \<Rightarrow> updateTrie W keys so w))"

definition SystemAddress :: address where
  "SystemAddress = 0xfffffffffffffffffffffffffffffffffffffffe"

text \<open>The early returns of a Go function that returns its first error.\<close>

definition or_else :: "'a \<times> 'w \<times> string option \<Rightarrow> ('a \<Rightarrow> 'w \<Rightarrow> 'a \<times> 'w \<times> string option) \<Rightarrow> 'a \<times> 'w \<times> string option" where
  "or_else r k = (case r of (x, w, Some err) \<Rightarrow> (x, w, Some err) | (x, w, None) \<Rightarrow> k x w)"

definition updateAccount ::
  "lib \<Rightarrow> bool \<Rightarrow> bool \<Rightarrow> 'w StateWriter \<Rightarrow> (Storage \<Rightarrow> hash list) \<Rightarrow> address \<Rightarrow> bool
     \<Rightarrow> stateObject \<Rightarrow> 'w \<Rightarrow> stateObject \<times> 'w \<times> string option" where
  "updateAccount L EIP161Enabled isAura W order a isDirty so w =
     (let emptyRemoval = (EIP161Enabled \<and> so_empty L so \<and> (\<not> isAura \<or> a \<noteq> SystemAddress))
      in or_else
          (if selfdestructed so \<or> (isDirty \<and> emptyRemoval) then
             or_else (so, DeleteAccount W a (original so) w) (\<lambda>so w. (so\<lparr>deleted := True\<rparr>, w, None))
           else (so, w, None))
          (\<lambda>so w.
            if isDirty \<and> (created so \<or> \<not> selfdestructed so) \<and> \<not> emptyRemoval then
              let so = so\<lparr>deleted := False\<rparr>
              in or_else
                  (if code so \<noteq> None \<and> dirtyCode so
                   then (so, UpdateAccountCode W a (Incarnation (data so)) (CodeHash (data so)) (the (code so)) w)
                   else (so, w, None))
                (\<lambda>so w. or_else (if created so then (so, CreateContract W a w) else (so, w, None))
                (\<lambda>so w. or_else (updateTrie W (order (dirtyStorage so)) so w)
                (\<lambda>so w. (so, UpdateAccountData W a (original so) (data so) w))))
            else (so, w, None)))"

text \<open>Loading the accounts whose balance increase is pending.\<close>

fun load_pending :: "lib \<Rightarrow> address list \<Rightarrow> IntraBlockState \<Rightarrow> IntraBlockState" where
  "load_pending L [] s = s"
| "load_pending L (a # as) s =
     load_pending L as (if pending s a then getStateObject L a s else s)"

fun finalize_dirties ::
  "lib \<Rightarrow> bool \<Rightarrow> bool \<Rightarrow> 'w StateWriter \<Rightarrow> (Storage \<Rightarrow> hash list) \<Rightarrow> address list
     \<Rightarrow> IntraBlockState \<Rightarrow> 'w \<Rightarrow> IntraBlockState \<times> 'w \<times> string option" where
  "finalize_dirties L eip161 aura W order [] s w = (s, w, None)"
| "finalize_dirties L eip161 aura W order (a # as) s w =
     (case stateObjects s a of
        None \<Rightarrow> finalize_dirties L eip161 aura W order as s w
      | Some so \<Rightarrow>
          (case updateAccount L eip161 aura W order a True so w of
             (so, w, Some err) \<Rightarrow> (put_object a so s, w, Some err)
           | (so, w, None) \<Rightarrow>
               finalize_dirties L eip161 aura W order as
                 ((put_object a so s)\<lparr>stateObjectsDirty := insert a (stateObjectsDirty s)\<rparr>) w))"

text \<open>\<open>incs\<close> enumerates \<open>balanceInc\<close> and \<open>addrs\<close> the dirties of the journal.\<close>

definition FinalizeTx ::
  "lib \<Rightarrow> bool \<Rightarrow> bool \<Rightarrow> 'w StateWriter \<Rightarrow> (Storage \<Rightarrow> hash list) \<Rightarrow> address list \<Rightarrow> address list
     \<Rightarrow> IntraBlockState \<Rightarrow> 'w \<Rightarrow> IntraBlockState \<times> 'w \<times> string option" where
  "FinalizeTx L eip161 aura W order incs addrs s w =
     or_else (finalize_dirties L eip161 aura W order addrs (load_pending L incs s) w)
       (\<lambda>s w. (clearJournalAndRefund s, w, None))"

fun soft_dirties :: "address list \<Rightarrow> IntraBlockState \<Rightarrow> IntraBlockState" where
  "soft_dirties [] s = s"
| "soft_dirties (a # as) s =
     soft_dirties as
       (if stateObjects s a = None then s
        else s\<lparr>stateObjectsDirty := insert a (stateObjectsDirty s)\<rparr>)"

definition SoftFinalise :: "address list \<Rightarrow> IntraBlockState \<Rightarrow> IntraBlockState" where
  "SoftFinalise addrs s = clearJournalAndRefund (soft_dirties addrs s)"

fun write_objects ::
  "lib \<Rightarrow> bool \<Rightarrow> bool \<Rightarrow> 'w StateWriter \<Rightarrow> (Storage \<Rightarrow> hash list) \<Rightarrow> address list
     \<Rightarrow> IntraBlockState \<Rightarrow> 'w \<Rightarrow> IntraBlockState \<times> 'w \<times> string option" where
  "write_objects L eip161 aura W order [] s w = (s, w, None)"
| "write_objects L eip161 aura W order (a # as) s w =
     (case stateObjects s a of
        None \<Rightarrow> write_objects L eip161 aura W order as s w
      | Some so \<Rightarrow>
          (case updateAccount L eip161 aura W order a (a \<in> stateObjectsDirty s) so w of
             (so, w, Some err) \<Rightarrow> (put_object a so s, w, Some err)
           | (so, w, None) \<Rightarrow> write_objects L eip161 aura W order as (put_object a so s) w))"

text \<open>\<open>objs\<close> enumerates the live objects.\<close>

definition MakeWriteSet ::
  "lib \<Rightarrow> bool \<Rightarrow> bool \<Rightarrow> 'w StateWriter \<Rightarrow> (Storage \<Rightarrow> hash list) \<Rightarrow> address list
     \<Rightarrow> IntraBlockState \<Rightarrow> 'w \<Rightarrow> IntraBlockState \<times> 'w \<times> string option" where
  "MakeWriteSet L eip161 aura W order objs s w =
     or_else (write_objects L eip161 aura W order objs
               (s\<lparr>stateObjectsDirty := stateObjectsDirty s \<union> dom (dirties (journal s))\<rparr>) w)
       (\<lambda>s w. (clearJournalAndRefund s, w, None))"

text \<open>\<open>objs\<close> enumerates the live objects after the pending ones are loaded.\<close>

definition CommitBlock ::
  "lib \<Rightarrow> bool \<Rightarrow> bool \<Rightarrow> 'w StateWriter \<Rightarrow> (Storage \<Rightarrow> hash list) \<Rightarrow> address list \<Rightarrow> address list
     \<Rightarrow> IntraBlockState \<Rightarrow> 'w \<Rightarrow> IntraBlockState \<times> 'w \<times> string option" where
  "CommitBlock L eip161 aura W order incs objs s w =
     MakeWriteSet L eip161 aura W order objs (load_pending L incs s) w"

definition BalanceIncreaseSet :: "IntraBlockState \<Rightarrow> (address \<rightharpoonup> u256)" where
  "BalanceIncreaseSet s =
     (\<lambda>a. case balanceInc s a of
        Some bi \<Rightarrow> if \<not> transferred bi then Some (increase bi) else None
      | None \<Rightarrow> None)"

end
