(* ===== verification/EvmTypes.thy ===== *)
theory EvmTypes
  imports Contract EvmMemory IntraBlockState
begin

text \<open>
  The data the virtual machine works on: the chain rules (\<open>params/config.go\<close>), the block and
  transaction contexts (\<open>internal/vm/evmtypes\<close>), the interpreter configuration
  (\<open>interpreter.go\<close>), the mutable state of an \<open>EVM\<close> and its interpreter, the state of one
  frame, and the function types of \<open>jump_table.go\<close>.

  \<open>uint256_lib\<close> holds the operations of the uint256 package with conventions of their own;
  the others (wrapping ring operations, bitwise operations, comparisons, shifts) are those
  of \<open>256 word\<close>. \<open>env\<close> holds what does not change while a transaction runs. Tracing and
  logging are left out (\<open>Config.Debug\<close> is false). The abort flag is read by \<open>Cancelled\<close>;
  \<open>cancelled n\<close> is what its \<open>n\<close>-th reading returns.
\<close>

record Rules =
  ChainID :: int
  IsHomestead :: bool
  IsTangerineWhistle :: bool
  IsSpuriousDragon :: bool
  IsByzantium :: bool
  IsConstantinople :: bool
  IsPetersburg :: bool
  IsIstanbul :: bool
  IsBerlin :: bool
  IsLondon :: bool
  IsShanghai :: bool
  IsCancun :: bool
  IsPrague :: bool
  IsNano :: bool
  IsMoran :: bool
  IsEip1559FeeCollector :: bool
  IsParlia :: bool
  IsStarknet :: bool
  IsAura :: bool
  IsBeijing :: bool

record BlockContext =
  CanTransferFunc :: "lib \<Rightarrow> address \<Rightarrow> u256 \<Rightarrow> IntraBlockState \<Rightarrow> IntraBlockState \<times> bool"
  TransferFunc :: "lib \<Rightarrow> address \<Rightarrow> address \<Rightarrow> u256 \<Rightarrow> bool \<Rightarrow> IntraBlockState \<Rightarrow> IntraBlockState"
  GetHash :: "u64 \<Rightarrow> hash"
  Coinbase :: address
  GasLimit :: u64
  MaxGasLimitFlag :: bool
  BlockNumber :: u64
  Time :: u64
  Difficulty :: int
  BaseFee :: "u256 option"
  PrevRanDao :: "hash option"

record TxContext =
  tx_TxHash :: hash
  Origin :: address
  GasPrice :: "u256 option"

record Config =
  NoRecursion :: bool
  NoBaseFee :: bool
  SkipAnalysis :: bool
  NoReceipts :: bool
  cfg_ReadOnly :: bool
  StatelessExec :: bool
  RestoreState :: bool
  ExtraEips :: "int list"

definition HasEip3860 :: "Config \<Rightarrow> Rules \<Rightarrow> bool" where
  "HasEip3860 cfg rules \<longleftrightarrow> 3860 \<in> set (ExtraEips cfg) \<or> IsShanghai rules"

record uint256_lib =
  u_Div :: "u256 \<Rightarrow> u256 \<Rightarrow> u256"
  u_SDiv :: "u256 \<Rightarrow> u256 \<Rightarrow> u256"
  u_Mod :: "u256 \<Rightarrow> u256 \<Rightarrow> u256"
  u_SMod :: "u256 \<Rightarrow> u256 \<Rightarrow> u256"
  u_Exp :: "u256 \<Rightarrow> u256 \<Rightarrow> u256"
  u_ExtendSign :: "u256 \<Rightarrow> u256 \<Rightarrow> u256"
  u_Byte :: "u256 \<Rightarrow> u256 \<Rightarrow> u256"
  u_AddMod :: "u256 \<Rightarrow> u256 \<Rightarrow> u256 \<Rightarrow> u256"
  u_MulMod :: "u256 \<Rightarrow> u256 \<Rightarrow> u256 \<Rightarrow> u256"
  u_SRsh :: "u256 \<Rightarrow> nat \<Rightarrow> u256"

record PrecompiledContract =
  RequiredGas :: "bytes \<Rightarrow> u64"
  pre_Run :: "bytes \<Rightarrow> bytes \<times> evm_error option"

type_synonym precompiles = "address \<rightharpoonup> PrecompiledContract"

record precompile_tables =
  PrecompiledContractsHomestead :: precompiles
  PrecompiledContractsByzantium :: precompiles
  PrecompiledContractsIstanbul :: precompiles
  PrecompiledContractsIstanbulForBSC :: precompiles
  PrecompiledContractsBerlin :: precompiles
  PrecompiledContractsNano :: precompiles
  PrecompiledContractsIsMoran :: precompiles

record env =
  env_lib :: lib
  env_u256 :: uint256_lib
  blockContext :: BlockContext
  txContext :: TxContext
  chainRules :: Rules
  config :: Config
  tables :: precompile_tables
  rlpCreate :: "address \<Rightarrow> u64 \<Rightarrow> bytes"
  cancelled :: "nat \<Rightarrow> bool"

record EVM =
  ibs :: IntraBlockState
  callGasTemp :: u64
  depth :: nat
  readOnly :: bool
  returnData :: bytes
  jds :: jumpdests
  polls :: nat

record machine =
  pc :: u64
  evm :: EVM
  mem :: Memory
  stk :: Stack
  ctr :: Contract

record callctx =
  cc_Call :: "ContractRef \<Rightarrow> address \<Rightarrow> bytes \<Rightarrow> u64 \<Rightarrow> u256 \<Rightarrow> EVM \<Rightarrow> (EVM \<times> bytes \<times> u64 \<times> evm_error option) res"
  cc_CallCode :: "ContractRef \<Rightarrow> address \<Rightarrow> bytes \<Rightarrow> u64 \<Rightarrow> u256 \<Rightarrow> EVM \<Rightarrow> (EVM \<times> bytes \<times> u64 \<times> evm_error option) res"
  cc_DelegateCall :: "ContractRef \<Rightarrow> address \<Rightarrow> bytes \<Rightarrow> u64 \<Rightarrow> EVM \<Rightarrow> (EVM \<times> bytes \<times> u64 \<times> evm_error option) res"
  cc_StaticCall :: "ContractRef \<Rightarrow> address \<Rightarrow> bytes \<Rightarrow> u64 \<Rightarrow> EVM \<Rightarrow> (EVM \<times> bytes \<times> u64 \<times> evm_error option) res"
  cc_Create :: "ContractRef \<Rightarrow> bytes \<Rightarrow> u64 \<Rightarrow> u256 \<Rightarrow> EVM \<Rightarrow> (EVM \<times> bytes \<times> address \<times> u64 \<times> evm_error option) res"
  cc_Create2 :: "ContractRef \<Rightarrow> bytes \<Rightarrow> u64 \<Rightarrow> u256 \<Rightarrow> u256 \<Rightarrow> EVM \<Rightarrow> (EVM \<times> bytes \<times> address \<times> u64 \<times> evm_error option) res"

type_synonym opresult = "(machine \<times> bytes \<times> evm_error option) res"

type_synonym executionFunc = "callctx \<Rightarrow> env \<Rightarrow> machine \<Rightarrow> opresult"

type_synonym gasresult = "(machine \<times> u64 \<times> evm_error option) res"

type_synonym gasFunc = "env \<Rightarrow> machine \<Rightarrow> u64 \<Rightarrow> gasresult"

type_synonym memorySizeFunc = "Stack \<Rightarrow> (u64 \<times> bool) res"

record operation =
  execute :: executionFunc
  constantGas :: u64
  dynamicGas :: "gasFunc option"
  maxStack_of :: int
  numPop :: int
  numPush :: int
  isPush :: bool
  isSwap :: bool
  isDup :: bool
  opNum :: int
  memorySize :: "memorySizeFunc option"

type_synonym JumpTable = "OpCode \<Rightarrow> operation option"

section \<open>Running on the frame's stack and state\<close>

definition opret :: "machine \<Rightarrow> opresult" where
  [go_defs]: "opret m = Ok (m, [], None)"

definition operr :: "evm_error \<Rightarrow> machine \<Rightarrow> opresult" where
  [go_defs]: "operr e m = Ok (m, [], Some e)"

definition pop :: "machine \<Rightarrow> (u256 \<Rightarrow> machine \<Rightarrow> 'a res) \<Rightarrow> 'a res" where
  [go_defs]: "pop m k = bnd (Pop (stk m)) (\<lambda>(x, st). k x (m\<lparr>stk := st\<rparr>))"

definition peek :: "machine \<Rightarrow> (u256 \<Rightarrow> 'a res) \<Rightarrow> 'a res" where
  [go_defs]: "peek m k = bnd (Peek (stk m)) k"

definition nth_back :: "nat \<Rightarrow> machine \<Rightarrow> (u256 \<Rightarrow> 'a res) \<Rightarrow> 'a res" where
  [go_defs]: "nth_back n m k = bnd (Back n (stk m)) k"

definition settop :: "u256 \<Rightarrow> machine \<Rightarrow> machine" where
  [go_defs]: "settop v m = m\<lparr>stk := SetPeek v (stk m)\<rparr>"

definition push :: "u256 \<Rightarrow> machine \<Rightarrow> machine" where
  [go_defs]: "push v m = m\<lparr>stk := Push v (stk m)\<rparr>"

abbreviation m_ibs :: "machine \<Rightarrow> IntraBlockState" where
  "m_ibs m \<equiv> ibs (evm m)"

definition set_ibs :: "IntraBlockState \<Rightarrow> machine \<Rightarrow> machine" where
  [go_defs]: "set_ibs s m = m\<lparr>evm := (evm m)\<lparr>ibs := s\<rparr>\<rparr>"

text \<open>Calls on the world state: one that returns a value, one that may panic, and one that only
  changes the state.\<close>

definition stread :: "(IntraBlockState \<Rightarrow> IntraBlockState \<times> 'b) \<Rightarrow> machine \<Rightarrow> ('b \<Rightarrow> machine \<Rightarrow> 'a) \<Rightarrow> 'a" where
  [go_defs]: "stread f m k = (let (s, v) = f (m_ibs m) in k v (set_ibs s m))"

definition stread_res ::
  "(IntraBlockState \<Rightarrow> (IntraBlockState \<times> 'b) res) \<Rightarrow> machine \<Rightarrow> ('b \<Rightarrow> machine \<Rightarrow> 'a res) \<Rightarrow> 'a res" where
  [go_defs]: "stread_res f m k = bnd (f (m_ibs m)) (\<lambda>(s, v). k v (set_ibs s m))"

definition stdo :: "(IntraBlockState \<Rightarrow> IntraBlockState) \<Rightarrow> machine \<Rightarrow> machine" where
  [go_defs]: "stdo f m = set_ibs (f (m_ibs m)) m"

definition bool_word :: "bool \<Rightarrow> u256" where
  "bool_word b = (if b then 1 else 0)"

end
