(* ===== verification/GasTable.thy ===== *)
theory GasTable
  imports EvmTypes
begin

text \<open>
  The dynamic gas of the opcodes: \<open>internal/vm/gas_table.go\<close> and \<open>operations_acl.go\<close>
  (EIP-2929/3529). A gas function gets the frame and the memory size the opcode asks for and
  returns the frame (it may warm the access list, add refunds, record the fee of the memory,
  set \<open>callGasTemp\<close> and, around a cold call, change the gas of the contract), the gas and an
  error.
\<close>

definition gasret :: "u64 \<Rightarrow> machine \<Rightarrow> gasresult" where
  [go_defs]: "gasret g m = Ok (m, g, None)"

definition gaserr :: "evm_error \<Rightarrow> machine \<Rightarrow> gasresult" where
  [go_defs]: "gaserr e m = Ok (m, 0, Some e)"

text \<open>\<open>v, overflow := ...; if overflow { return 0, ErrGasUintOverflow }\<close>.\<close>

definition checked :: "u64 \<times> bool \<Rightarrow> machine \<Rightarrow> (u64 \<Rightarrow> gasresult) \<Rightarrow> gasresult" where
  [go_defs]: "checked p m k = (if snd p then gaserr ErrGasUintOverflow m else k (fst p))"

text \<open>\<open>gas, err := memoryGasCost(mem, memSize); if err != nil { return 0, err }\<close>.\<close>

definition memgas :: "machine \<Rightarrow> u64 \<Rightarrow> (u64 \<Rightarrow> machine \<Rightarrow> gasresult) \<Rightarrow> gasresult" where
  [go_defs]: "memgas m memSize k =
     (let (mem', gas, err) = memoryGasCost (mem m) memSize;
          m = m\<lparr>mem := mem'\<rparr>
      in case err of Some e \<Rightarrow> gaserr e m | None \<Rightarrow> k gas m)"

section \<open>Memory and copies\<close>

definition memoryCopierGas :: "nat \<Rightarrow> gasFunc" where
  "memoryCopierGas stackpos E m memSize =
     memgas m memSize (\<lambda>gas m.
     nth_back stackpos m (\<lambda>l.
     checked (Uint64WithOverflow l) m (\<lambda>words.
     checked (SafeMul (ToWordSize words) CopyGas) m (\<lambda>words.
     checked (SafeAdd gas words) m (\<lambda>gas. gasret gas m)))))"

definition gasCallDataCopy :: gasFunc where
  "gasCallDataCopy = memoryCopierGas 2"

definition gasCodeCopy :: gasFunc where
  "gasCodeCopy = memoryCopierGas 2"

definition gasExtCodeCopy :: gasFunc where
  "gasExtCodeCopy = memoryCopierGas 3"

definition gasReturnDataCopy :: gasFunc where
  "gasReturnDataCopy = memoryCopierGas 2"

definition makeGasLog :: "u64 \<Rightarrow> gasFunc" where
  "makeGasLog n E m memSize =
     nth_back 1 m (\<lambda>l.
     checked (Uint64WithOverflow l) m (\<lambda>requestedSize.
     memgas m memSize (\<lambda>gas m.
     checked (SafeAdd gas LogGas) m (\<lambda>gas.
     checked (SafeAdd gas (n * LogTopicGas)) m (\<lambda>gas.
     checked (SafeMul requestedSize LogDataGas) m (\<lambda>memorySizeGas.
     checked (SafeAdd gas memorySizeGas) m (\<lambda>gas. gasret gas m)))))))"

definition gasKeccak256 :: gasFunc where
  "gasKeccak256 E m memSize =
     memgas m memSize (\<lambda>gas m.
     nth_back 1 m (\<lambda>l.
     checked (Uint64WithOverflow l) m (\<lambda>wordGas.
     checked (SafeMul (ToWordSize wordGas) Keccak256WordGas) m (\<lambda>wordGas.
     checked (SafeAdd gas wordGas) m (\<lambda>gas. gasret gas m)))))"

definition pureMemoryGascost :: gasFunc where
  "pureMemoryGascost E m memSize = memgas m memSize gasret"

definition gasReturn :: gasFunc where
  "gasReturn = pureMemoryGascost"

definition gasRevert :: gasFunc where
  "gasRevert = pureMemoryGascost"

definition gasMLoad :: gasFunc where
  "gasMLoad = pureMemoryGascost"

definition gasMStore8 :: gasFunc where
  "gasMStore8 = pureMemoryGascost"

definition gasMStore :: gasFunc where
  "gasMStore = pureMemoryGascost"

definition gasCreate :: gasFunc where
  "gasCreate = pureMemoryGascost"

definition gasCreate2 :: gasFunc where
  "gasCreate2 E m memSize =
     memgas m memSize (\<lambda>gas m.
     nth_back 2 m (\<lambda>l.
     checked (Uint64WithOverflow l) m (\<lambda>len.
     checked (SafeMul (ToWordSize len) Keccak256WordGas) m (\<lambda>wordGas.
     checked (SafeAdd gas wordGas) m (\<lambda>gas. gasret gas m)))))"

definition gasCreateEip3860 :: gasFunc where
  "gasCreateEip3860 E m memSize =
     memgas m memSize (\<lambda>gas m.
     nth_back 2 m (\<lambda>l.
     let (len, overflow) = Uint64WithOverflow l
     in if overflow \<or> unat len > MaxInitCodeSize then gaserr ErrGasUintOverflow m
        else
          let numWords = ToWordSize len;
              wordGas = InitCodeWordGas * numWords
          in checked (SafeAdd gas wordGas) m (\<lambda>gas. gasret gas m)))"

definition gasCreate2Eip3860 :: gasFunc where
  "gasCreate2Eip3860 E m memSize =
     memgas m memSize (\<lambda>gas m.
     nth_back 2 m (\<lambda>l.
     let (len, overflow) = Uint64WithOverflow l
     in if overflow \<or> unat len > MaxInitCodeSize then gaserr ErrGasUintOverflow m
        else
          let numWords = ToWordSize len;
              wordGas = (InitCodeWordGas + Keccak256WordGas) * numWords
          in checked (SafeAdd gas wordGas) m (\<lambda>gas. gasret gas m)))"

section \<open>Exponentiation\<close>

text \<open>\<open>BitLen\<close> of the uint256 package: the number of bits of the value.\<close>

fun bit_len :: "nat \<Rightarrow> nat" where
  "bit_len n = (if n = 0 then 0 else Suc (bit_len (n div 2)))"

declare bit_len.simps [simp del]

definition BitLen :: "u256 \<Rightarrow> nat" where
  "BitLen x = bit_len (unat x)"

definition gasExpFrontier :: gasFunc where
  "gasExpFrontier E m memSize =
     nth_back 1 m (\<lambda>x.
     let expByteLen = of_nat ((BitLen x + 7) div 8) :: u64;
         gas = expByteLen * ExpByteFrontier
     in checked (SafeAdd gas ExpGas) m (\<lambda>gas. gasret gas m))"

definition gasExpEIP160 :: gasFunc where
  "gasExpEIP160 E m memSize =
     nth_back 1 m (\<lambda>x.
     let expByteLen = of_nat ((BitLen x + 7) div 8) :: u64;
         gas = expByteLen * ExpByteEIP160
     in checked (SafeAdd gas ExpGas) m (\<lambda>gas. gasret gas m))"

section \<open>Storage writes\<close>

definition gasSStore :: gasFunc where
  "gasSStore E m memSize =
     nth_back 1 m (\<lambda>value. nth_back 0 m (\<lambda>key.
     stread_res (GetState (env_lib E) (c_Address (ctr m)) key) m (\<lambda>current m.
     if IsPetersburg (chainRules E) \<or> \<not> IsConstantinople (chainRules E) then
       if current = 0 \<and> value \<noteq> 0 then gasret SstoreSetGas m
       else if current \<noteq> 0 \<and> value = 0 then gasret SstoreClearGas (stdo (AddRefund SstoreRefundGas) m)
       else gasret SstoreResetGas m
     else if current = value then gasret NetSstoreNoopGas m
     else stread_res (GetCommittedState (env_lib E) (c_Address (ctr m)) key) m (\<lambda>original m.
     if original = current then
       if original = 0 then gasret NetSstoreInitGas m
       else if value = 0 then gasret NetSstoreCleanGas (stdo (AddRefund NetSstoreClearRefund) m)
       else gasret NetSstoreCleanGas m
     else
       let m = (if original \<noteq> 0 then
                  if current = 0 then stdo (SubRefund NetSstoreClearRefund) m
                  else if value = 0 then stdo (AddRefund NetSstoreClearRefund) m
                  else m
                else m);
           m = (if original = value then
                  if original = 0 then stdo (AddRefund NetSstoreResetClearRefund) m
                  else stdo (AddRefund NetSstoreResetRefund) m
                else m)
       in gasret NetSstoreDirtyGas m))))"

definition sentry_error :: evm_error where
  "sentry_error = errorsNew ''not enough gas for reentrancy sentry''"

definition gasSStoreEIP2200 :: gasFunc where
  "gasSStoreEIP2200 E m memSize =
     (if Gas (ctr m) \<le> SstoreSentryGasEIP2200 then gaserr sentry_error m
      else
        nth_back 1 m (\<lambda>value. nth_back 0 m (\<lambda>key.
        stread_res (GetState (env_lib E) (c_Address (ctr m)) key) m (\<lambda>current m.
        if current = value then gasret SloadGasEIP2200 m
        else stread_res (GetCommittedState (env_lib E) (c_Address (ctr m)) key) m (\<lambda>original m.
        if original = current then
          if original = 0 then gasret SstoreSetGasEIP2200 m
          else if value = 0 then gasret SstoreResetGasEIP2200 (stdo (AddRefund SstoreClearsScheduleRefundEIP2200) m)
          else gasret SstoreResetGasEIP2200 m
        else
          let m = (if original \<noteq> 0 then
                     if current = 0 then stdo (SubRefund SstoreClearsScheduleRefundEIP2200) m
                     else if value = 0 then stdo (AddRefund SstoreClearsScheduleRefundEIP2200) m
                     else m
                   else m);
              m = (if original = value then
                     if original = 0 then stdo (AddRefund (SstoreSetGasEIP2200 - SloadGasEIP2200)) m
                     else stdo (AddRefund (SstoreResetGasEIP2200 - SloadGasEIP2200)) m
                   else m)
          in gasret SloadGasEIP2200 m)))))"

text \<open>The slot is put on the access list before the check that panics.\<close>

definition warm_slot :: "address \<Rightarrow> hash \<Rightarrow> machine \<Rightarrow> (u64 \<Rightarrow> machine \<Rightarrow> gasresult) \<Rightarrow> gasresult" where
  "warm_slot a slot m k =
     bnd (SlotInAccessList a slot (m_ibs m)) (\<lambda>(addrPresent, slotPresent).
     if \<not> slotPresent then
       bnd (AddSlotToAccessList a slot (m_ibs m)) (\<lambda>s.
       if \<not> addrPresent then Panic Impossible
       else k ColdSloadCostEIP2929 (set_ibs s m))
     else k 0 m)"

definition makeGasSStoreFunc :: "u64 \<Rightarrow> gasFunc" where
  "makeGasSStoreFunc clearingRefund E m memSize =
     (if Gas (ctr m) \<le> SstoreSentryGasEIP2200 then gaserr sentry_error m
      else
        nth_back 1 m (\<lambda>value. peek m (\<lambda>slot.
        stread_res (GetState (env_lib E) (c_Address (ctr m)) slot) m (\<lambda>current m.
        warm_slot (c_Address (ctr m)) slot m (\<lambda>cost m.
        if current = value then gasret (cost + WarmStorageReadCostEIP2929) m
        else stread_res (GetCommittedState (env_lib E) (c_Address (ctr m)) slot) m (\<lambda>original m.
        if original = current then
          if original = 0 then gasret (cost + SstoreSetGasEIP2200) m
          else
            let m = (if value = 0 then stdo (AddRefund clearingRefund) m else m)
            in gasret (cost + (SstoreResetGasEIP2200 - ColdSloadCostEIP2929)) m
        else
          let m = (if original \<noteq> 0 then
                     if current = 0 then stdo (SubRefund clearingRefund) m
                     else if value = 0 then stdo (AddRefund clearingRefund) m
                     else m
                   else m);
              m = (if original = value then
                     if original = 0 then stdo (AddRefund (SstoreSetGasEIP2200 - WarmStorageReadCostEIP2929)) m
                     else stdo (AddRefund ((SstoreResetGasEIP2200 - ColdSloadCostEIP2929) - WarmStorageReadCostEIP2929)) m
                   else m)
          in gasret (cost + WarmStorageReadCostEIP2929) m))))))"

definition gasSStoreEIP2929 :: gasFunc where
  "gasSStoreEIP2929 = makeGasSStoreFunc SstoreClearsScheduleRefundEIP2200"

definition gasSStoreEIP3529 :: gasFunc where
  "gasSStoreEIP3529 = makeGasSStoreFunc SstoreClearsScheduleRefundEIP3529"

definition gasSLoadEIP2929 :: gasFunc where
  "gasSLoadEIP2929 E m memSize =
     peek m (\<lambda>slot.
     bnd (SlotInAccessList (c_Address (ctr m)) slot (m_ibs m)) (\<lambda>(_, slotPresent).
     if \<not> slotPresent then
       bnd (AddSlotToAccessList (c_Address (ctr m)) slot (m_ibs m)) (\<lambda>s.
       gasret ColdSloadCostEIP2929 (set_ibs s m))
     else gasret WarmStorageReadCostEIP2929 m))"

section \<open>Account access\<close>

definition gasExtCodeCopyEIP2929 :: gasFunc where
  "gasExtCodeCopyEIP2929 E m memSize =
     bnd (gasExtCodeCopy E m memSize) (\<lambda>(m, gas, err).
     case err of
       Some e \<Rightarrow> gaserr e m
     | None \<Rightarrow>
         peek m (\<lambda>a.
         if \<not> AddressInAccessList (Bytes20 a) (m_ibs m) then
           let m = stdo (AddAddressToAccessList (Bytes20 a)) m
           in checked (SafeAdd gas (ColdAccountAccessCostEIP2929 - WarmStorageReadCostEIP2929)) m
                (\<lambda>gas. gasret gas m)
         else gasret gas m))"

definition gasEip2929AccountCheck :: gasFunc where
  "gasEip2929AccountCheck E m memSize =
     peek m (\<lambda>a.
     if \<not> AddressInAccessList (Bytes20 a) (m_ibs m) then
       gasret (ColdAccountAccessCostEIP2929 - WarmStorageReadCostEIP2929)
         (stdo (AddAddressToAccessList (Bytes20 a)) m)
     else gasret 0 m)"

section \<open>Calls\<close>

text \<open>The part the four call variants share: \<open>callGas\<close> is stored in \<open>callGasTemp\<close>, also when
  it fails, and added to the base cost.\<close>

definition charge_call :: "env \<Rightarrow> u64 \<Rightarrow> machine \<Rightarrow> gasresult" where
  "charge_call E gas m =
     nth_back 0 m (\<lambda>c.
     let (temp, err) = callGas (IsTangerineWhistle (chainRules E)) (Gas (ctr m)) gas c;
         m = m\<lparr>evm := (evm m)\<lparr>callGasTemp := temp\<rparr>\<rparr>
     in case err of
          Some e \<Rightarrow> gaserr e m
        | None \<Rightarrow> checked (SafeAdd gas temp) m (\<lambda>gas. gasret gas m))"

definition new_account_gas :: "env \<Rightarrow> bool \<Rightarrow> address \<Rightarrow> machine \<Rightarrow> (u64 \<Rightarrow> machine \<Rightarrow> gasresult) \<Rightarrow> gasresult" where
  "new_account_gas E transfersValue a m k =
     (if IsSpuriousDragon (chainRules E) then
        if transfersValue then
          stread (Empty (env_lib E) a) m (\<lambda>empty m. k (if empty then CallNewAccountGas else 0) m)
        else k 0 m
      else stread (Exist (env_lib E) a) m (\<lambda>ex m. k (if \<not> ex then CallNewAccountGas else 0) m))"

definition gasCall :: gasFunc where
  "gasCall E m memSize =
     nth_back 2 m (\<lambda>v. nth_back 1 m (\<lambda>a.
     let transfersValue = (v \<noteq> 0); address = Bytes20 a
     in new_account_gas E transfersValue address m (\<lambda>gas m.
        let gas = (if transfersValue then gas + CallValueTransferGas else gas)
        in memgas m memSize (\<lambda>memoryGas m.
           checked (SafeAdd gas memoryGas) m (\<lambda>gas. charge_call E gas m)))))"

definition gasCallCode :: gasFunc where
  "gasCallCode E m memSize =
     memgas m memSize (\<lambda>memoryGas m.
     nth_back 2 m (\<lambda>v.
     let gas = (if v \<noteq> 0 then CallValueTransferGas else 0)
     in checked (SafeAdd gas memoryGas) m (\<lambda>gas. charge_call E gas m)))"

definition gasDelegateCall :: gasFunc where
  "gasDelegateCall E m memSize = memgas m memSize (charge_call E)"

definition gasStaticCall :: gasFunc where
  "gasStaticCall E m memSize = memgas m memSize (charge_call E)"

definition makeCallVariantGasCallEIP2929 :: "gasFunc \<Rightarrow> gasFunc" where
  "makeCallVariantGasCallEIP2929 oldCalculator E m memSize =
     nth_back 1 m (\<lambda>a.
     let addr = Bytes20 a;
         warmAccess = AddressInAccessList addr (m_ibs m);
         coldCost = ColdAccountAccessCostEIP2929 - WarmStorageReadCostEIP2929
     in if warmAccess then oldCalculator E m memSize
        else
          let m = stdo (AddAddressToAccessList addr) m;
              (c, ok) = UseGas coldCost (ctr m);
              m = m\<lparr>ctr := c\<rparr>
          in if \<not> ok then gaserr ErrOutOfGas m
             else bnd (oldCalculator E m memSize) (\<lambda>(m, gas, err).
               case err of
                 Some e \<Rightarrow> Ok (m, gas, Some e)
               | None \<Rightarrow> gasret (gas + coldCost) (m\<lparr>ctr := (ctr m)\<lparr>Gas := Gas (ctr m) + coldCost\<rparr>\<rparr>)))"

definition gasCallEIP2929 :: gasFunc where
  "gasCallEIP2929 = makeCallVariantGasCallEIP2929 gasCall"

definition gasDelegateCallEIP2929 :: gasFunc where
  "gasDelegateCallEIP2929 = makeCallVariantGasCallEIP2929 gasDelegateCall"

definition gasStaticCallEIP2929 :: gasFunc where
  "gasStaticCallEIP2929 = makeCallVariantGasCallEIP2929 gasStaticCall"

definition gasCallCodeEIP2929 :: gasFunc where
  "gasCallCodeEIP2929 = makeCallVariantGasCallEIP2929 gasCallCode"

section \<open>Self-destruction\<close>

text \<open>\<open>Empty(address) && !GetBalance(self).IsZero()\<close>: the balance is only read for an empty
  beneficiary.\<close>

definition empty_and_pays :: "env \<Rightarrow> address \<Rightarrow> machine \<Rightarrow> (bool \<Rightarrow> machine \<Rightarrow> gasresult) \<Rightarrow> gasresult" where
  "empty_and_pays E a m k =
     stread (Empty (env_lib E) a) m (\<lambda>empty m.
     if empty then stread (GetBalance (env_lib E) (c_Address (ctr m))) m (\<lambda>b m. k (b \<noteq> 0) m)
     else k False m)"

definition selfdestruct_refund :: "env \<Rightarrow> machine \<Rightarrow> machine" where
  "selfdestruct_refund E m =
     stread (HasSelfdestructed (env_lib E) (c_Address (ctr m))) m (\<lambda>d m.
     if \<not> d then stdo (AddRefund SelfdestructRefundGas) m else m)"

definition gasSelfdestruct :: gasFunc where
  "gasSelfdestruct E m memSize =
     (let finish = (\<lambda>gas m. gasret gas (selfdestruct_refund E m))
      in if IsTangerineWhistle (chainRules E) then
           nth_back 0 m (\<lambda>a.
           let address = Bytes20 a
           in if IsSpuriousDragon (chainRules E) then
                empty_and_pays E address m (\<lambda>b m.
                finish (if b then SelfdestructGasEIP150 + CreateBySelfdestructGas else SelfdestructGasEIP150) m)
              else
                stread (Exist (env_lib E) address) m (\<lambda>ex m.
                finish (if \<not> ex then SelfdestructGasEIP150 + CreateBySelfdestructGas else SelfdestructGasEIP150) m))
         else finish 0 m)"

definition makeSelfdestructGasFn :: "bool \<Rightarrow> gasFunc" where
  "makeSelfdestructGasFn refundsEnabled E m memSize =
     peek m (\<lambda>a.
     let address = Bytes20 a;
         cold = \<not> AddressInAccessList address (m_ibs m);
         m = (if cold then stdo (AddAddressToAccessList address) m else m);
         gas = (if cold then ColdAccountAccessCostEIP2929 else 0)
     in empty_and_pays E address m (\<lambda>b m.
        let gas = (if b then gas + CreateBySelfdestructGas else gas)
        in gasret gas (if refundsEnabled then selfdestruct_refund E m else m)))"

definition gasSelfdestructEIP2929 :: gasFunc where
  "gasSelfdestructEIP2929 = makeSelfdestructGasFn True"

definition gasSelfdestructEIP3529 :: gasFunc where
  "gasSelfdestructEIP3529 = makeSelfdestructGasFn False"

end
