(* ===== verification/Instructions.thy ===== *)
theory Instructions
  imports GasTable
begin

text \<open>
  The instructions: \<open>internal/vm/instructions.go\<close> and those defined in \<open>eips.go\<close>, one
  definition per \<open>op\<close> function and per \<open>make\<close> function. An instruction gets the calls into
  the \<open>EVM\<close> (\<open>callctx\<close>), the environment and the frame, and returns the frame, the returned
  bytes and an error; \<open>errStopToken\<close> ends the frame normally.
\<close>

definition binary :: "(u256 \<Rightarrow> u256 \<Rightarrow> u256) \<Rightarrow> machine \<Rightarrow> opresult" where
  [go_defs]: "binary f m = pop m (\<lambda>x m. peek m (\<lambda>y. opret (settop (f x y) m)))"

definition unary :: "(u256 \<Rightarrow> u256) \<Rightarrow> machine \<Rightarrow> opresult" where
  [go_defs]: "unary f m = peek m (\<lambda>x. opret (settop (f x) m))"

section \<open>Arithmetic\<close>

definition opAdd :: executionFunc where
  "opAdd C E m = binary (\<lambda>x y. x + y) m"

definition opSub :: executionFunc where
  "opSub C E m = binary (\<lambda>x y. x - y) m"

definition opMul :: executionFunc where
  "opMul C E m = binary (\<lambda>x y. x * y) m"

definition opDiv :: executionFunc where
  "opDiv C E m = binary (u_Div (env_u256 E)) m"

definition opSdiv :: executionFunc where
  "opSdiv C E m = binary (u_SDiv (env_u256 E)) m"

definition opMod :: executionFunc where
  "opMod C E m = binary (u_Mod (env_u256 E)) m"

definition opSmod :: executionFunc where
  "opSmod C E m = binary (u_SMod (env_u256 E)) m"

definition opExp :: executionFunc where
  "opExp C E m = binary (\<lambda>base exponent.
     if exponent = 0 then 1
     else if base = 0 then 0
     else if exponent < 2 then base
     else if base < 2 then 1
     else if base < 3 then
       if exponent < 256 then push_bit (unat (Uint64 exponent)) 1 else 0
     else u_Exp (env_u256 E) base exponent) m"

definition opSignExtend :: executionFunc where
  "opSignExtend C E m = binary (\<lambda>b num. u_ExtendSign (env_u256 E) num b) m"

definition opNot :: executionFunc where
  "opNot C E m = unary not m"

definition opLt :: executionFunc where
  "opLt C E m = binary (\<lambda>x y. bool_word (x < y)) m"

definition opGt :: executionFunc where
  "opGt C E m = binary (\<lambda>x y. bool_word (x > y)) m"

definition opSlt :: executionFunc where
  "opSlt C E m = binary (\<lambda>x y. bool_word (sint x < sint y)) m"

definition opSgt :: executionFunc where
  "opSgt C E m = binary (\<lambda>x y. bool_word (sint x > sint y)) m"

definition opEq :: executionFunc where
  "opEq C E m = binary (\<lambda>x y. bool_word (x = y)) m"

definition opIszero :: executionFunc where
  "opIszero C E m = unary (\<lambda>x. bool_word (x = 0)) m"

definition opAnd :: executionFunc where
  "opAnd C E m = binary and m"

definition opOr :: executionFunc where
  "opOr C E m = binary or m"

definition opXor :: executionFunc where
  "opXor C E m = binary xor m"

definition opByte :: executionFunc where
  "opByte C E m = binary (\<lambda>th val. u_Byte (env_u256 E) val th) m"

definition opAddmod :: executionFunc where
  "opAddmod C E m =
     pop m (\<lambda>x m. pop m (\<lambda>y m. peek m (\<lambda>z.
     opret (settop (if z = 0 then 0 else u_AddMod (env_u256 E) x y z) m))))"

definition opMulmod :: executionFunc where
  "opMulmod C E m =
     pop m (\<lambda>x m. pop m (\<lambda>y m. peek m (\<lambda>z.
     opret (settop (if z = 0 then 0 else u_MulMod (env_u256 E) x y z) m))))"

definition opSHL :: executionFunc where
  "opSHL C E m = binary (\<lambda>shift value.
     if shift < 256 then push_bit (unat (Uint64 shift)) value else 0) m"

definition opSHR :: executionFunc where
  "opSHR C E m = binary (\<lambda>shift value.
     if shift < 256 then drop_bit (unat (Uint64 shift)) value else 0) m"

definition opSAR :: executionFunc where
  "opSAR C E m = binary (\<lambda>shift value.
     if shift > 255 then if sint value \<ge> 0 then 0 else - 1
     else u_SRsh (env_u256 E) value (unat (Uint64 shift))) m"

section \<open>Hashing and the environment\<close>

text \<open>\<open>GetPtr\<close> and \<open>GetCopy\<close> of the memory at two stack values.\<close>

definition mem_ptr :: "u256 \<Rightarrow> u256 \<Rightarrow> machine \<Rightarrow> (bytes \<Rightarrow> 'a res) \<Rightarrow> 'a res" where
  [go_defs]: "mem_ptr offset sz m k = bnd (GetPtr (go_int (Uint64 offset)) (go_int (Uint64 sz)) (mem m)) k"

definition mem_copy :: "u256 \<Rightarrow> u256 \<Rightarrow> machine \<Rightarrow> (bytes \<Rightarrow> 'a res) \<Rightarrow> 'a res" where
  [go_defs]: "mem_copy offset sz m k = bnd (GetCopy (go_int (Uint64 offset)) (go_int (Uint64 sz)) (mem m)) k"

definition mem_put :: "u64 \<Rightarrow> u64 \<Rightarrow> bytes \<Rightarrow> machine \<Rightarrow> opresult" where
  [go_defs]: "mem_put offset sz val m = bnd (mem_Set offset sz val (mem m)) (\<lambda>mem'. opret (m\<lparr>mem := mem'\<rparr>))"

definition opKeccak256 :: executionFunc where
  "opKeccak256 C E m =
     pop m (\<lambda>offset m. peek m (\<lambda>sz.
     mem_ptr offset sz m (\<lambda>d. opret (settop (keccak (env_lib E) d) m))))"

definition opAddress :: executionFunc where
  "opAddress C E m = opret (push (address_word (c_Address (ctr m))) m)"

definition opBalance :: executionFunc where
  "opBalance C E m =
     peek m (\<lambda>slot. stread (GetBalance (env_lib E) (Bytes20 slot)) m (\<lambda>b m. opret (settop b m)))"

definition opOrigin :: executionFunc where
  "opOrigin C E m = opret (push (address_word (Origin (txContext E))) m)"

definition opCaller :: executionFunc where
  "opCaller C E m = opret (push (address_word (Caller (ctr m))) m)"

text \<open>Pushing a \<open>*uint256.Int\<close> dereferences it.\<close>

definition push_ptr :: "u256 option \<Rightarrow> machine \<Rightarrow> opresult" where
  [go_defs]: "push_ptr p m = bnd (of_opt NilDereference p) (\<lambda>v. opret (push v m))"

definition opCallValue :: executionFunc where
  "opCallValue C E m = push_ptr (c_value (ctr m)) m"

definition opCallDataLoad :: executionFunc where
  "opCallDataLoad C E m =
     peek m (\<lambda>x.
     let (offset, overflow) = Uint64WithOverflow x
     in if \<not> overflow then
          bnd (getData (Input (ctr m)) offset 32) (\<lambda>d. opret (settop (SetBytes d) m))
        else opret (settop 0 m))"

definition opCallDataSize :: executionFunc where
  "opCallDataSize C E m = opret (push (SetUint64 (of_nat (length (Input (ctr m))))) m)"

definition opCallDataCopy :: executionFunc where
  "opCallDataCopy C E m =
     pop m (\<lambda>memOffset m. pop m (\<lambda>dataOffset m. pop m (\<lambda>l m.
     let (dataOffset64, overflow) = Uint64WithOverflow dataOffset;
         dataOffset64 = (if overflow then 0xffffffffffffffff else dataOffset64)
     in bnd (getData (Input (ctr m)) dataOffset64 (Uint64 l)) (\<lambda>d.
        mem_put (Uint64 memOffset) (Uint64 l) d m))))"

definition opReturnDataSize :: executionFunc where
  "opReturnDataSize C E m = opret (push (SetUint64 (of_nat (length (returnData (evm m))))) m)"

definition opReturnDataCopy :: executionFunc where
  "opReturnDataCopy C E m =
     pop m (\<lambda>memOffset m. pop m (\<lambda>dataOffset m. pop m (\<lambda>l m.
     let (offset64, overflow) = Uint64WithOverflow dataOffset
     in if overflow then operr ErrReturnDataOutOfBounds m
        else
          let stop = dataOffset + l
          in if 2 ^ 256 \<le> unat dataOffset + unat l then operr ErrReturnDataOutOfBounds m
             else
               let (end64, overflow) = Uint64WithOverflow stop
               in if overflow \<or> length (returnData (evm m)) < unat end64
                  then operr ErrReturnDataOutOfBounds m
                  else bnd (of_opt SliceBounds (slice (returnData (evm m)) (unat offset64) (unat end64)))
                         (\<lambda>d. mem_put (Uint64 memOffset) (Uint64 l) d m))))"

definition opExtCodeSize :: executionFunc where
  "opExtCodeSize C E m =
     peek m (\<lambda>slot. stread (GetCodeSize (env_lib E) (Bytes20 slot)) m (\<lambda>n m.
     opret (settop (SetUint64 (of_int n)) m)))"

definition opCodeSize :: executionFunc where
  "opCodeSize C E m = opret (push (SetUint64 (of_nat (length (Code (ctr m))))) m)"

definition opCodeCopy :: executionFunc where
  "opCodeCopy C E m =
     pop m (\<lambda>memOffset m. pop m (\<lambda>codeOffset m. pop m (\<lambda>l m.
     let (uint64CodeOffset, overflow) = Uint64WithOverflow codeOffset;
         uint64CodeOffset = (if overflow then 0xffffffffffffffff else uint64CodeOffset)
     in bnd (getData (Code (ctr m)) uint64CodeOffset (Uint64 l)) (\<lambda>codeCopy.
        mem_put (Uint64 memOffset) (Uint64 l) codeCopy m))))"

definition opExtCodeCopy :: executionFunc where
  "opExtCodeCopy C E m =
     pop m (\<lambda>a m. pop m (\<lambda>memOffset m. pop m (\<lambda>codeOffset m. pop m (\<lambda>l m.
     stread (GetCode (env_lib E) (Bytes20 a)) m (\<lambda>c m.
     bnd (getDataBig (case c of None \<Rightarrow> [] | Some bs \<Rightarrow> bs) codeOffset (Uint64 l)) (\<lambda>codeCopy.
     mem_put (Uint64 memOffset) (Uint64 l) codeCopy m))))))"

definition opExtCodeHash :: executionFunc where
  "opExtCodeHash C E m =
     peek m (\<lambda>slot. stread (Empty (env_lib E) (Bytes20 slot)) m (\<lambda>empty m.
     if empty then opret (settop 0 m)
     else stread (GetCodeHash (env_lib E) (Bytes20 slot)) m (\<lambda>h m. opret (settop h m))))"

definition opGasprice :: executionFunc where
  "opGasprice C E m = push_ptr (GasPrice (txContext E)) m"

definition opBlockhash :: executionFunc where
  "opBlockhash C E m =
     peek m (\<lambda>num.
     let (num64, overflow) = Uint64WithOverflow num
     in if overflow then opret (settop 0 m)
        else
          let upper = BlockNumber (blockContext E);
              lower = (if upper < 257 then 0 else upper - 256)
          in if num64 \<ge> lower \<and> num64 < upper then opret (settop (GetHash (blockContext E) num64) m)
             else opret (settop 0 m))"

definition opCoinbase :: executionFunc where
  "opCoinbase C E m = opret (push (address_word (Coinbase (blockContext E))) m)"

definition opTimestamp :: executionFunc where
  "opTimestamp C E m = opret (push (SetUint64 (Time (blockContext E))) m)"

definition opNumber :: executionFunc where
  "opNumber C E m = opret (push (SetUint64 (BlockNumber (blockContext E))) m)"

text \<open>\<open>uint256.FromBig\<close>: the value modulo \<open>2^256\<close>, and whether its magnitude does not fit.\<close>

definition FromBig :: "int \<Rightarrow> u256 \<times> bool" where
  "FromBig i = (of_int i, 2 ^ 256 \<le> abs i)"

definition opDifficulty :: executionFunc where
  "opDifficulty C E m =
     (case PrevRanDao (blockContext E) of
        Some h \<Rightarrow> opret (push h m)
      | None \<Rightarrow>
          (let (v, overflow) = FromBig (Difficulty (blockContext E))
           in if overflow then operr (errorsNew ''interpreter.evm.Context.Difficulty higher than 2^256-1'') m
              else opret (push v m)))"

definition opGasLimit :: executionFunc where
  "opGasLimit C E m =
     (if MaxGasLimitFlag (blockContext E) then opret (push (- 1) m)
      else opret (push (SetUint64 (GasLimit (blockContext E))) m))"

definition opSelfBalance :: executionFunc where
  "opSelfBalance C E m =
     stread (GetBalance (env_lib E) (c_Address (ctr m))) m (\<lambda>b m. opret (push b m))"

definition opChainID :: executionFunc where
  "opChainID C E m = opret (push (fst (FromBig (ChainID (chainRules E)))) m)"

definition opBaseFee :: executionFunc where
  "opBaseFee C E m = push_ptr (BaseFee (blockContext E)) m"

section \<open>Stack, memory, storage and control flow\<close>

definition opPop :: executionFunc where
  "opPop C E m = pop m (\<lambda>x m. opret m)"

definition opMload :: executionFunc where
  "opMload C E m =
     peek m (\<lambda>v. bnd (GetPtr (go_int (Uint64 v)) 32 (mem m)) (\<lambda>d. opret (settop (SetBytes d) m)))"

definition opMstore :: executionFunc where
  "opMstore C E m =
     pop m (\<lambda>mStart m. pop m (\<lambda>val m.
     bnd (Set32 (Uint64 mStart) val (mem m)) (\<lambda>mem'. opret (m\<lparr>mem := mem'\<rparr>))))"

definition opMstore8 :: executionFunc where
  "opMstore8 C E m =
     pop m (\<lambda>off m. pop m (\<lambda>val m.
     let i = unat (Uint64 off)
     in if i < length (store (mem m))
        then opret (m\<lparr>mem := (mem m)\<lparr>store := (store (mem m))[i := ucast (Uint64 val)]\<rparr>\<rparr>)
        else Panic MemoryIndex))"

definition opSload :: executionFunc where
  "opSload C E m =
     peek m (\<lambda>loc.
     stread_res (GetState (env_lib E) (c_Address (ctr m)) loc) m (\<lambda>v m. opret (settop v m)))"

definition opSstore :: executionFunc where
  "opSstore C E m =
     (if readOnly (evm m) then operr ErrWriteProtection m
      else pop m (\<lambda>loc m. pop m (\<lambda>val m.
        bnd (SetState (env_lib E) (c_Address (ctr m)) loc val (m_ibs m)) (\<lambda>s. opret (set_ibs s m)))))"

text \<open>\<open>validJumpdest\<close> may analyse the code: the analysis is kept in the contract and, for code
  with a hash, in the map shared by the frames.\<close>

definition jump_to :: "u256 \<Rightarrow> machine \<Rightarrow> opresult" where
  "jump_to pos m =
     bnd (validJumpdest pos (ctr m) (jds (evm m))) (\<lambda>(valid, usedBitmap, c, jd).
     let m = m\<lparr>ctr := c, evm := (evm m)\<lparr>jds := jd\<rparr>\<rparr>
     in if \<not> valid then operr ErrInvalidJump m else opret (m\<lparr>pc := Uint64 pos - 1\<rparr>))"

definition opJump :: executionFunc where
  "opJump C E m = pop m (\<lambda>pos m. jump_to pos m)"

definition opJumpi :: executionFunc where
  "opJumpi C E m =
     pop m (\<lambda>pos m. pop m (\<lambda>c m. if c \<noteq> 0 then jump_to pos m else opret m))"

definition opJumpdest :: executionFunc where
  "opJumpdest C E m = opret m"

definition opPc :: executionFunc where
  "opPc C E m = opret (push (SetUint64 (pc m)) m)"

definition opMsize :: executionFunc where
  "opMsize C E m = opret (push (SetUint64 (of_nat (mem_Len (mem m)))) m)"

definition opGas :: executionFunc where
  "opGas C E m = opret (push (SetUint64 (Gas (ctr m))) m)"

section \<open>Creation and calls\<close>

definition add_gas :: "u64 \<Rightarrow> machine \<Rightarrow> machine" where
  [go_defs]: "add_gas g m = m\<lparr>ctr := (ctr m)\<lparr>Gas := Gas (ctr m) + g\<rparr>\<rparr>"

definition set_returnData :: "bytes \<Rightarrow> machine \<Rightarrow> machine" where
  [go_defs]: "set_returnData d m = m\<lparr>evm := (evm m)\<lparr>returnData := d\<rparr>\<rparr>"

text \<open>The end of \<open>opCreate\<close> and \<open>opCreate2\<close>: the unused gas is returned, and only a revert
  leaves return data.\<close>

definition finish_create :: "bytes \<Rightarrow> u64 \<Rightarrow> evm_error option \<Rightarrow> machine \<Rightarrow> opresult" where
  "finish_create res returnGas suberr m =
     (let m = add_gas returnGas m
      in if suberr = Some ErrExecutionReverted then Ok (set_returnData res m, res, None)
         else opret (set_returnData [] m))"

definition opCreate :: executionFunc where
  "opCreate C E m =
     (if readOnly (evm m) then operr ErrWriteProtection m
      else
        pop m (\<lambda>value m. pop m (\<lambda>offset m. peek m (\<lambda>sz.
        mem_copy offset sz m (\<lambda>input.
        let gas = Gas (ctr m);
            gas = (if IsTangerineWhistle (chainRules E) then gas - gas div 64 else gas);
            m = m\<lparr>ctr := fst (UseGas gas (ctr m))\<rparr>
        in bnd (cc_Create C (contract_ref (ctr m)) input gas value (evm m)) (\<lambda>(ev, res, addr, returnGas, suberr).
           let m = m\<lparr>evm := ev\<rparr>;
               stackvalue =
                 (if IsHomestead (chainRules E) \<and> suberr = Some ErrCodeStoreOutOfGas then 0
                  else if suberr \<noteq> None \<and> suberr \<noteq> Some ErrCodeStoreOutOfGas then 0
                  else address_word addr)
           in finish_create res returnGas suberr (settop stackvalue m)))))))"

definition opCreate2 :: executionFunc where
  "opCreate2 C E m =
     (if readOnly (evm m) then operr ErrWriteProtection m
      else
        pop m (\<lambda>endowment m. pop m (\<lambda>offset m. pop m (\<lambda>sz m. pop m (\<lambda>salt m.
        mem_copy offset sz m (\<lambda>input.
        let gas = Gas (ctr m);
            gas = gas - gas div 64;
            m = m\<lparr>ctr := fst (UseGas gas (ctr m))\<rparr>
        in bnd (cc_Create2 C (contract_ref (ctr m)) input gas endowment salt (evm m)) (\<lambda>(ev, res, addr, returnGas, suberr).
           let m = m\<lparr>evm := ev\<rparr>;
               stackValue = (if suberr \<noteq> None then 0 else address_word addr)
           in finish_create res returnGas suberr (push stackValue m))))))))"

text \<open>The end of the four calls: push the success flag, copy the output into memory unless the
  callee failed without reverting, return the unused gas, keep the output as return data.\<close>

definition finish_call ::
  "u256 \<Rightarrow> u256 \<Rightarrow> machine \<Rightarrow> EVM \<times> bytes \<times> u64 \<times> evm_error option \<Rightarrow> opresult" where
  "finish_call retOffset retSize m r =
     (case r of (ev, ret, returnGas, err) \<Rightarrow>
        let m = push (bool_word (err = None)) (m\<lparr>evm := ev\<rparr>)
        in bnd (if err = None \<or> err = Some ErrExecutionReverted
                then mem_Set (Uint64 retOffset) (Uint64 retSize) ret (mem m)
                else Ok (mem m)) (\<lambda>mem'.
           let m = set_returnData ret (add_gas returnGas (m\<lparr>mem := mem'\<rparr>))
           in Ok (m, ret, None)))"

definition opCall :: executionFunc where
  "opCall C E m =
     pop m (\<lambda>temp m.
     let gas = callGasTemp (evm m)
     in pop m (\<lambda>addr m. pop m (\<lambda>value m. pop m (\<lambda>inOffset m. pop m (\<lambda>inSize m.
        pop m (\<lambda>retOffset m. pop m (\<lambda>retSize m.
        mem_ptr inOffset inSize m (\<lambda>args.
        if value \<noteq> 0 \<and> readOnly (evm m) then operr ErrWriteProtection m
        else
          let gas = (if value \<noteq> 0 then gas + CallStipend else gas)
          in bnd (cc_Call C (contract_ref (ctr m)) (Bytes20 addr) args gas value (evm m))
               (finish_call retOffset retSize m)))))))))"

definition opCallCode :: executionFunc where
  "opCallCode C E m =
     pop m (\<lambda>temp m.
     let gas = callGasTemp (evm m)
     in pop m (\<lambda>addr m. pop m (\<lambda>value m. pop m (\<lambda>inOffset m. pop m (\<lambda>inSize m.
        pop m (\<lambda>retOffset m. pop m (\<lambda>retSize m.
        mem_ptr inOffset inSize m (\<lambda>args.
        let gas = (if value \<noteq> 0 then gas + CallStipend else gas)
        in bnd (cc_CallCode C (contract_ref (ctr m)) (Bytes20 addr) args gas value (evm m))
             (finish_call retOffset retSize m)))))))))"

definition opDelegateCall :: executionFunc where
  "opDelegateCall C E m =
     pop m (\<lambda>temp m.
     let gas = callGasTemp (evm m)
     in pop m (\<lambda>addr m. pop m (\<lambda>inOffset m. pop m (\<lambda>inSize m.
        pop m (\<lambda>retOffset m. pop m (\<lambda>retSize m.
        mem_ptr inOffset inSize m (\<lambda>args.
        bnd (cc_DelegateCall C (contract_ref (ctr m)) (Bytes20 addr) args gas (evm m))
          (finish_call retOffset retSize m))))))))"

definition opStaticCall :: executionFunc where
  "opStaticCall C E m =
     pop m (\<lambda>temp m.
     let gas = callGasTemp (evm m)
     in pop m (\<lambda>addr m. pop m (\<lambda>inOffset m. pop m (\<lambda>inSize m.
        pop m (\<lambda>retOffset m. pop m (\<lambda>retSize m.
        mem_ptr inOffset inSize m (\<lambda>args.
        bnd (cc_StaticCall C (contract_ref (ctr m)) (Bytes20 addr) args gas (evm m))
          (finish_call retOffset retSize m))))))))"

section \<open>Ending the frame\<close>

definition opReturn :: executionFunc where
  "opReturn C E m =
     pop m (\<lambda>offset m. pop m (\<lambda>sz m.
     mem_ptr offset sz m (\<lambda>ret. Ok (m, ret, Some errStopToken))))"

definition opRevert :: executionFunc where
  "opRevert C E m =
     pop m (\<lambda>offset m. pop m (\<lambda>sz m.
     mem_ptr offset sz m (\<lambda>ret. Ok (set_returnData ret m, ret, Some ErrExecutionReverted))))"

definition opUndefined :: executionFunc where
  "opUndefined C E m =
     (if unat (pc m) < length (Code (ctr m)) then operr (ErrInvalidOpCode (Code (ctr m) ! unat (pc m))) m
      else Panic SliceBounds)"

definition opStop :: executionFunc where
  "opStop C E m = operr errStopToken m"

definition opSelfdestruct :: executionFunc where
  "opSelfdestruct C E m =
     (if readOnly (evm m) then operr ErrWriteProtection m
      else
        pop m (\<lambda>beneficiary m.
        stread (GetBalance (env_lib E) (c_Address (ctr m))) m (\<lambda>balance m.
        let m = stdo (AddBalance (env_lib E) (Bytes20 beneficiary) balance) m;
            m = stdo (\<lambda>s. fst (Selfdestruct (env_lib E) (c_Address (ctr m)) s)) m
        in operr errStopToken m)))"

section \<open>Logs, pushes, duplications and swaps\<close>

fun pop_topics :: "nat \<Rightarrow> machine \<Rightarrow> (hash list \<Rightarrow> machine \<Rightarrow> opresult) \<Rightarrow> opresult" where
  "pop_topics 0 m k = k [] m"
| "pop_topics (Suc n) m k = pop m (\<lambda>t m. pop_topics n m (\<lambda>ts. k (t # ts)))"

definition makeLog :: "nat \<Rightarrow> executionFunc" where
  "makeLog sz C E m =
     (if readOnly (evm m) then operr ErrWriteProtection m
      else
        pop m (\<lambda>mStart m. pop m (\<lambda>mSize m.
        pop_topics sz m (\<lambda>topics m.
        mem_copy mStart mSize m (\<lambda>d.
        opret (stdo (AddLog \<lparr>log_Address = c_Address (ctr m), Topics = topics, log_Data = d,
                             log_BlockNumber = SetUint64 (BlockNumber (blockContext E)),
                             TxHash = 0, TxIndex = 0, BlockHash = 0, Index = 0, Removed = False\<rparr>) m))))))"

definition opPush0 :: executionFunc where
  "opPush0 C E m = opret (push 0 m)"

definition opPush1 :: executionFunc where
  "opPush1 C E m =
     (let m = m\<lparr>pc := pc m + 1\<rparr>
      in if unat (pc m) < length (Code (ctr m))
         then opret (push (SetUint64 (ucast (Code (ctr m) ! unat (pc m)))) m)
         else opret (push 0 m))"

definition makePush :: "u64 \<Rightarrow> int \<Rightarrow> executionFunc" where
  "makePush sz pushByteSize C E m =
     (let codeLen = int (length (Code (ctr m)));
          startMin = go_int (pc m + 1);
          startMin = (if startMin \<ge> codeLen then codeLen else startMin);
          endMin = (if startMin + pushByteSize \<ge> codeLen then codeLen else startMin + pushByteSize)
      in if 0 \<le> startMin \<and> startMin \<le> endMin then
           bnd (of_opt SliceBounds (slice (Code (ctr m)) (nat startMin) (nat endMin))) (\<lambda>d.
           let m = push (SetBytes (RightPadBytes d pushByteSize)) m
           in opret (m\<lparr>pc := pc m + sz\<rparr>))
         else Panic SliceBounds)"

definition makeDup :: "nat \<Rightarrow> executionFunc" where
  "makeDup sz C E m = bnd (Dup sz (stk m)) (\<lambda>st. opret (m\<lparr>stk := st\<rparr>))"

definition makeSwap :: "nat \<Rightarrow> executionFunc" where
  "makeSwap sz C E m = bnd (Swap (sz + 1) (stk m)) (\<lambda>st. opret (m\<lparr>stk := st\<rparr>))"

lemmas instr_defs =
  opAdd_def opSub_def opMul_def opDiv_def opSdiv_def opMod_def opSmod_def opExp_def opSignExtend_def
  opNot_def opLt_def opGt_def opSlt_def opSgt_def opEq_def opIszero_def opAnd_def opOr_def opXor_def
  opByte_def opAddmod_def opMulmod_def opSHL_def opSHR_def opSAR_def opKeccak256_def opAddress_def
  opBalance_def opOrigin_def opCaller_def opCallValue_def opCallDataLoad_def opCallDataSize_def
  opCallDataCopy_def opReturnDataSize_def opReturnDataCopy_def opExtCodeSize_def opCodeSize_def
  opCodeCopy_def opExtCodeCopy_def opExtCodeHash_def opGasprice_def opBlockhash_def opCoinbase_def
  opTimestamp_def opNumber_def opDifficulty_def opGasLimit_def opSelfBalance_def opChainID_def
  opBaseFee_def opPop_def opMload_def opMstore_def opMstore8_def opSload_def opSstore_def opJump_def
  opJumpi_def opJumpdest_def opPc_def opMsize_def opGas_def opReturn_def opRevert_def opUndefined_def
  opStop_def opSelfdestruct_def makeLog_def opPush0_def opPush1_def makePush_def makeDup_def makeSwap_def

end
