(* ===== verification/JumpTable.thy ===== *)
theory JumpTable
  imports Instructions
begin

text \<open>
  The instruction sets: \<open>internal/vm/jump_table.go\<close>, \<open>stack_table.go\<close> and the table updates of
  \<open>eips.go\<close>. A table is a function from opcodes to operations; \<open>None\<close> is a nil entry. The
  literal of \<open>newFrontierInstructionSet\<close> is split into groups of entries; its entries for
  PUSH2 to PUSH32, DUP1 to DUP16, SWAP1 to SWAP16 and LOG0 to LOG4 are written as families.
\<close>

definition simple :: "executionFunc \<Rightarrow> u64 \<Rightarrow> int \<Rightarrow> int \<Rightarrow> operation" where
  "simple ex gas pops pushes =
     \<lparr>execute = ex, constantGas = gas, dynamicGas = None, maxStack_of = 0, numPop = pops, numPush = pushes,
      isPush = False, isSwap = False, isDup = False, opNum = 0, memorySize = None\<rparr>"

definition dynamic ::
  "executionFunc \<Rightarrow> u64 \<Rightarrow> gasFunc option \<Rightarrow> int \<Rightarrow> int \<Rightarrow> memorySizeFunc option \<Rightarrow> operation" where
  "dynamic ex gas dyn pops pushes msize =
     (simple ex gas pops pushes)\<lparr>dynamicGas := dyn, memorySize := msize\<rparr>"

section \<open>Frontier\<close>

definition frontier_arithmetic :: "(OpCode \<times> operation) list" where
  "frontier_arithmetic =
     [(STOP, simple opStop 0 0 0),
      (ADD, simple opAdd GasFastestStep 2 1),
      (MUL, simple opMul GasFastStep 2 1),
      (SUB, simple opSub GasFastestStep 2 1),
      (DIV, simple opDiv GasFastStep 2 1),
      (SDIV, simple opSdiv GasFastStep 2 1),
      (MOD, simple opMod GasFastStep 2 1),
      (SMOD, simple opSmod GasFastStep 2 1),
      (ADDMOD, simple opAddmod GasMidStep 3 1),
      (MULMOD, simple opMulmod GasMidStep 3 1),
      (EXP, dynamic opExp 0 (Some gasExpFrontier) 2 1 None),
      (SIGNEXTEND, simple opSignExtend GasFastStep 2 1)]"

definition frontier_comparison :: "(OpCode \<times> operation) list" where
  "frontier_comparison =
     [(LT, simple opLt GasFastestStep 2 1),
      (GT, simple opGt GasFastestStep 2 1),
      (SLT, simple opSlt GasFastestStep 2 1),
      (SGT, simple opSgt GasFastestStep 2 1),
      (EQ, simple opEq GasFastestStep 2 1),
      (ISZERO, simple opIszero GasFastestStep 1 1),
      (AND, simple opAnd GasFastestStep 2 1),
      (XOR, simple opXor GasFastestStep 2 1),
      (OR, simple opOr GasFastestStep 2 1),
      (NOT, simple opNot GasFastestStep 1 1),
      (BYTE, simple opByte GasFastestStep 2 1),
      (KECCAK256, dynamic opKeccak256 Keccak256Gas (Some gasKeccak256) 2 1 (Some memoryKeccak256))]"

definition frontier_environment :: "(OpCode \<times> operation) list" where
  "frontier_environment =
     [(ADDRESS, simple opAddress GasQuickStep 0 1),
      (BALANCE, simple opBalance BalanceGasFrontier 1 1),
      (ORIGIN, simple opOrigin GasQuickStep 0 1),
      (CALLER, simple opCaller GasQuickStep 0 1),
      (CALLVALUE, simple opCallValue GasQuickStep 0 1),
      (CALLDATALOAD, simple opCallDataLoad GasFastestStep 1 1),
      (CALLDATASIZE, simple opCallDataSize GasQuickStep 0 1),
      (CALLDATACOPY, dynamic opCallDataCopy GasFastestStep (Some gasCallDataCopy) 3 0 (Some memoryCallDataCopy)),
      (CODESIZE, simple opCodeSize GasQuickStep 0 1),
      (CODECOPY, dynamic opCodeCopy GasFastestStep (Some gasCodeCopy) 3 0 (Some memoryCodeCopy)),
      (GASPRICE, simple opGasprice GasQuickStep 0 1),
      (EXTCODESIZE, simple opExtCodeSize ExtcodeSizeGasFrontier 1 1),
      (EXTCODECOPY, dynamic opExtCodeCopy ExtcodeCopyBaseFrontier (Some gasExtCodeCopy) 4 0 (Some memoryExtCodeCopy))]"

definition frontier_block :: "(OpCode \<times> operation) list" where
  "frontier_block =
     [(BLOCKHASH, simple opBlockhash GasExtStep 1 1),
      (COINBASE, simple opCoinbase GasQuickStep 0 1),
      (TIMESTAMP, simple opTimestamp GasQuickStep 0 1),
      (NUMBER, simple opNumber GasQuickStep 0 1),
      (DIFFICULTY, simple opDifficulty GasQuickStep 0 1),
      (GASLIMIT, simple opGasLimit GasQuickStep 0 1)]"

definition frontier_flow :: "(OpCode \<times> operation) list" where
  "frontier_flow =
     [(POP, simple opPop GasQuickStep 1 0),
      (MLOAD, dynamic opMload GasFastestStep (Some gasMLoad) 1 1 (Some memoryMLoad)),
      (MSTORE, dynamic opMstore GasFastestStep (Some gasMStore) 2 0 (Some memoryMStore)),
      (MSTORE8, dynamic opMstore8 GasFastestStep (Some gasMStore8) 2 0 (Some memoryMStore8)),
      (SLOAD, simple opSload SloadGasFrontier 1 1),
      (SSTORE, dynamic opSstore 0 (Some gasSStore) 2 0 None),
      (JUMP, simple opJump GasMidStep 1 0),
      (JUMPI, simple opJumpi GasSlowStep 2 0),
      (PC, simple opPc GasQuickStep 0 1),
      (MSIZE, simple opMsize GasQuickStep 0 1),
      (GAS, simple opGas GasQuickStep 0 1),
      (JUMPDEST, simple opJumpdest JumpdestGas 0 0)]"

definition frontier_system :: "(OpCode \<times> operation) list" where
  "frontier_system =
     [(CREATE, dynamic opCreate CreateGas (Some gasCreate) 3 1 (Some memoryCreate)),
      (CALL, dynamic opCall CallGasFrontier (Some gasCall) 7 1 (Some memoryCall)),
      (CALLCODE, dynamic opCallCode CallGasFrontier (Some gasCallCode) 7 1 (Some memoryCall)),
      (RETURN, dynamic opReturn 0 (Some gasReturn) 2 0 (Some memoryReturn)),
      (SELFDESTRUCT, dynamic opSelfdestruct 0 (Some gasSelfdestruct) 1 0 None)]"

definition frontier_push1 :: "(OpCode \<times> operation) list" where
  "frontier_push1 = [(PUSH 1, (simple opPush1 GasFastestStep 0 1)\<lparr>isPush := True, opNum := 1\<rparr>)]"

definition push_entry :: "nat \<Rightarrow> OpCode \<times> operation" where
  "push_entry n = (PUSH n, (simple (makePush (of_nat n) (int n)) GasFastestStep 0 1)\<lparr>isPush := True, opNum := int n\<rparr>)"

definition frontier_push_short :: "(OpCode \<times> operation) list" where
  "frontier_push_short = map push_entry [2 ..< 17]"

definition frontier_push_long :: "(OpCode \<times> operation) list" where
  "frontier_push_long = map push_entry [17 ..< 33]"

definition frontier_dup :: "(OpCode \<times> operation) list" where
  "frontier_dup =
     map (\<lambda>n. (DUP n, (simple (makeDup n) GasFastestStep (int n) (int n + 1))\<lparr>isDup := True, opNum := int n\<rparr>))
       [1 ..< 17]"

definition frontier_swap :: "(OpCode \<times> operation) list" where
  "frontier_swap =
     map (\<lambda>n. (SWAP n, (simple (makeSwap n) GasFastestStep (int n + 1) (int n + 1))\<lparr>isSwap := True, opNum := int n\<rparr>))
       [1 ..< 17]"

definition frontier_log :: "(OpCode \<times> operation) list" where
  "frontier_log =
     map (\<lambda>n. (LOG n, dynamic (makeLog n) 0 (Some (makeGasLog (of_nat n))) (int n + 2) 0 (Some memoryLog)))
       [0 ..< 5]"

definition frontier_table :: "(OpCode \<times> operation) list" where
  "frontier_table =
     frontier_arithmetic @ frontier_comparison @ frontier_environment @ frontier_block @ frontier_flow @
     frontier_push1 @ frontier_push_short @ frontier_push_long @ frontier_dup @ frontier_swap @
     frontier_log @ frontier_system"

section \<open>Validation\<close>

definition maxStack :: "int \<Rightarrow> int \<Rightarrow> int" where
  "maxStack pops pushes = uint StackLimit + pops - pushes"

definition valid_entry :: "operation option \<Rightarrow> bool" where
  "valid_entry e \<longleftrightarrow>
     (case e of None \<Rightarrow> False | Some op \<Rightarrow> \<not> (memorySize op \<noteq> None \<and> dynamicGas op = None))"

definition fill :: "operation \<Rightarrow> operation" where
  "fill op = op\<lparr>maxStack_of := maxStack (numPop op) (numPush op)\<rparr>"

definition validateAndFillMaxStack :: "JumpTable \<Rightarrow> JumpTable res" where
  "validateAndFillMaxStack jt =
     (if list_all (\<lambda>i. valid_entry (jt (of_nat i))) [0 ..< 256]
      then Ok (\<lambda>i. map_option fill (jt i)) else Panic Impossible)"

definition newFrontierInstructionSet :: "JumpTable res" where
  "newFrontierInstructionSet =
     validateAndFillMaxStack
       (\<lambda>i. case map_of frontier_table i of
              None \<Rightarrow> Some (simple opUndefined 0 0 0) | Some op \<Rightarrow> Some op)"

section \<open>Updates\<close>

text \<open>\<open>jt[c].field = v\<close> dereferences the entry; \<open>jt[c] = &operation{...}\<close> replaces it.\<close>

definition upd_op :: "OpCode \<Rightarrow> (operation \<Rightarrow> operation) \<Rightarrow> JumpTable \<Rightarrow> JumpTable res" where
  "upd_op c f jt = bnd (of_opt NilDereference (jt c)) (\<lambda>op. Ok (jt(c := Some (f op))))"

definition set_op :: "OpCode \<Rightarrow> operation \<Rightarrow> JumpTable \<Rightarrow> JumpTable res" where
  "set_op c op jt = Ok (jt(c := Some op))"

definition set_const :: "u64 \<Rightarrow> operation \<Rightarrow> operation" where
  "set_const g op = op\<lparr>constantGas := g\<rparr>"

definition set_dyn :: "gasFunc \<Rightarrow> operation \<Rightarrow> operation" where
  "set_dyn g op = op\<lparr>dynamicGas := Some g\<rparr>"

fun updates :: "(JumpTable \<Rightarrow> JumpTable res) list \<Rightarrow> JumpTable \<Rightarrow> JumpTable res" where
  "updates [] jt = Ok jt"
| "updates (f # fs) jt = bnd (f jt) (updates fs)"

definition enable1884 :: "JumpTable \<Rightarrow> JumpTable res" where
  "enable1884 = updates
     [upd_op SLOAD (set_const SloadGasEIP1884),
      upd_op BALANCE (set_const BalanceGasEIP1884),
      upd_op EXTCODEHASH (set_const ExtcodeHashGasEIP1884),
      set_op SELFBALANCE (simple opSelfBalance GasFastStep 0 1)]"

definition enable1344 :: "JumpTable \<Rightarrow> JumpTable res" where
  "enable1344 = updates [set_op CHAINID (simple opChainID GasQuickStep 0 1)]"

definition enable2200 :: "JumpTable \<Rightarrow> JumpTable res" where
  "enable2200 = updates
     [upd_op SLOAD (set_const SloadGasEIP2200),
      upd_op SSTORE (set_dyn gasSStoreEIP2200)]"

definition enable2929 :: "JumpTable \<Rightarrow> JumpTable res" where
  "enable2929 = updates
     [upd_op SSTORE (set_dyn gasSStoreEIP2929),
      upd_op SLOAD (set_const 0),
      upd_op SLOAD (set_dyn gasSLoadEIP2929),
      upd_op EXTCODECOPY (set_const WarmStorageReadCostEIP2929),
      upd_op EXTCODECOPY (set_dyn gasExtCodeCopyEIP2929),
      upd_op EXTCODESIZE (set_const WarmStorageReadCostEIP2929),
      upd_op EXTCODESIZE (set_dyn gasEip2929AccountCheck),
      upd_op EXTCODEHASH (set_const WarmStorageReadCostEIP2929),
      upd_op EXTCODEHASH (set_dyn gasEip2929AccountCheck),
      upd_op BALANCE (set_const WarmStorageReadCostEIP2929),
      upd_op BALANCE (set_dyn gasEip2929AccountCheck),
      upd_op CALL (set_const WarmStorageReadCostEIP2929),
      upd_op CALL (set_dyn gasCallEIP2929),
      upd_op CALLCODE (set_const WarmStorageReadCostEIP2929),
      upd_op CALLCODE (set_dyn gasCallCodeEIP2929),
      upd_op STATICCALL (set_const WarmStorageReadCostEIP2929),
      upd_op STATICCALL (set_dyn gasStaticCallEIP2929),
      upd_op DELEGATECALL (set_const WarmStorageReadCostEIP2929),
      upd_op DELEGATECALL (set_dyn gasDelegateCallEIP2929),
      upd_op SELFDESTRUCT (set_const SelfdestructGasEIP150),
      upd_op SELFDESTRUCT (set_dyn gasSelfdestructEIP2929)]"

definition enable3529 :: "JumpTable \<Rightarrow> JumpTable res" where
  "enable3529 = updates
     [upd_op SSTORE (set_dyn gasSStoreEIP3529),
      upd_op SELFDESTRUCT (set_dyn gasSelfdestructEIP3529)]"

definition enable3198 :: "JumpTable \<Rightarrow> JumpTable res" where
  "enable3198 = updates [set_op BASEFEE (simple opBaseFee GasQuickStep 0 1)]"

definition enable3855 :: "JumpTable \<Rightarrow> JumpTable res" where
  "enable3855 = updates [set_op PUSH0 (simple opPush0 GasQuickStep 0 1)]"

definition enable3860 :: "JumpTable \<Rightarrow> JumpTable res" where
  "enable3860 = updates
     [upd_op CREATE (set_dyn gasCreateEip3860),
      upd_op CREATE2 (set_dyn gasCreate2Eip3860)]"

definition activators :: "(int \<times> (JumpTable \<Rightarrow> JumpTable res)) list" where
  "activators =
     [(3855, enable3855), (3860, enable3860), (3529, enable3529), (3198, enable3198),
      (2929, enable2929), (2200, enable2200), (1884, enable1884), (1344, enable1344)]"

definition EnableEIP :: "int \<Rightarrow> JumpTable \<Rightarrow> (JumpTable \<times> evm_error option) res" where
  "EnableEIP eipNum jt =
     (case map_of activators eipNum of
        None \<Rightarrow> Ok (jt, Some (errorsNew ''undefined eip''))
      | Some enablerFn \<Rightarrow> bnd (enablerFn jt) (\<lambda>jt. bnd (validateAndFillMaxStack jt) (\<lambda>jt. Ok (jt, None))))"

definition ValidEip :: "int \<Rightarrow> bool" where
  "ValidEip eipNum \<longleftrightarrow> map_of activators eipNum \<noteq> None"

section \<open>The instruction sets\<close>

definition newHomesteadInstructionSet :: "JumpTable res" where
  "newHomesteadInstructionSet =
     bnd newFrontierInstructionSet (updates
       [set_op DELEGATECALL
          (dynamic opDelegateCall CallGasFrontier (Some gasDelegateCall) 6 1 (Some memoryDelegateCall)),
        validateAndFillMaxStack])"

definition newTangerineWhistleInstructionSet :: "JumpTable res" where
  "newTangerineWhistleInstructionSet =
     bnd newHomesteadInstructionSet (updates
       [upd_op BALANCE (set_const BalanceGasEIP150),
        upd_op EXTCODESIZE (set_const ExtcodeSizeGasEIP150),
        upd_op SLOAD (set_const SloadGasEIP150),
        upd_op EXTCODECOPY (set_const ExtcodeCopyBaseEIP150),
        upd_op CALL (set_const CallGasEIP150),
        upd_op CALLCODE (set_const CallGasEIP150),
        upd_op DELEGATECALL (set_const CallGasEIP150),
        validateAndFillMaxStack])"

definition newSpuriousDragonInstructionSet :: "JumpTable res" where
  "newSpuriousDragonInstructionSet =
     bnd newTangerineWhistleInstructionSet (updates
       [upd_op EXP (set_dyn gasExpEIP160),
        validateAndFillMaxStack])"

definition newByzantiumInstructionSet :: "JumpTable res" where
  "newByzantiumInstructionSet =
     bnd newSpuriousDragonInstructionSet (updates
       [set_op STATICCALL
          (dynamic opStaticCall CallGasEIP150 (Some gasStaticCall) 6 1 (Some memoryStaticCall)),
        set_op RETURNDATASIZE (simple opReturnDataSize GasQuickStep 0 1),
        set_op RETURNDATACOPY
          (dynamic opReturnDataCopy GasFastestStep (Some gasReturnDataCopy) 3 0 (Some memoryReturnDataCopy)),
        set_op REVERT (dynamic opRevert 0 (Some gasRevert) 2 0 (Some memoryRevert)),
        validateAndFillMaxStack])"

definition newConstantinopleInstructionSet :: "JumpTable res" where
  "newConstantinopleInstructionSet =
     bnd newByzantiumInstructionSet (updates
       [set_op SHL (simple opSHL GasFastestStep 2 1),
        set_op SHR (simple opSHR GasFastestStep 2 1),
        set_op SAR (simple opSAR GasFastestStep 2 1),
        set_op EXTCODEHASH (simple opExtCodeHash ExtcodeHashGasConstantinople 1 1),
        set_op CREATE2 (dynamic opCreate2 Create2Gas (Some gasCreate2) 4 1 (Some memoryCreate2)),
        validateAndFillMaxStack])"

definition newIstanbulInstructionSet :: "JumpTable res" where
  "newIstanbulInstructionSet =
     bnd newConstantinopleInstructionSet (updates [enable1344, enable1884, enable2200, validateAndFillMaxStack])"

definition newBerlinInstructionSet :: "JumpTable res" where
  "newBerlinInstructionSet = bnd newIstanbulInstructionSet (updates [enable2929, validateAndFillMaxStack])"

definition newLondonInstructionSet :: "JumpTable res" where
  "newLondonInstructionSet =
     bnd newBerlinInstructionSet (updates [enable3529, enable3198, validateAndFillMaxStack])"

definition newShanghaiInstructionSet :: "JumpTable res" where
  "newShanghaiInstructionSet =
     bnd newLondonInstructionSet (updates [enable3855, enable3860, validateAndFillMaxStack])"

definition newCancunInstructionSet :: "JumpTable res" where
  "newCancunInstructionSet = bnd newShanghaiInstructionSet (updates [validateAndFillMaxStack])"

definition newPragueInstructionSet :: "JumpTable res" where
  "newPragueInstructionSet = bnd newCancunInstructionSet (updates [validateAndFillMaxStack])"

end
