(* ===== verification/Evm.thy ===== *)
theory Evm
  imports JumpTable
begin

text \<open>
  Calls and contract creation: \<open>internal/vm/evm.go\<close>, \<open>RunPrecompiledContract\<close> of
  \<open>contracts.go\<close>, the transfer functions of \<open>internal/evm.go\<close> and the contract addresses of
  \<open>common/crypto/crypto.go\<close>. The definitions take the interpreter's \<open>Run\<close> as an argument; the
  theory \<open>Interpreter\<close> ties the knot. The precompiled contracts are entries of the tables in
  the environment; the RLP encoding of a sender and nonce is \<open>rlpCreate\<close>.
\<close>

type_synonym runner =
  "Contract \<Rightarrow> bytes \<Rightarrow> bool \<Rightarrow> EVM \<Rightarrow> (EVM \<times> Contract \<times> bytes \<times> evm_error option) res"

section \<open>Transfers and addresses\<close>

definition CanTransfer :: "lib \<Rightarrow> address \<Rightarrow> u256 \<Rightarrow> IntraBlockState \<Rightarrow> IntraBlockState \<times> bool" where
  "CanTransfer L addr amount s = (case GetBalance L addr s of (s, b) \<Rightarrow> (s, \<not> b < amount))"

definition Transfer :: "lib \<Rightarrow> address \<Rightarrow> address \<Rightarrow> u256 \<Rightarrow> bool \<Rightarrow> IntraBlockState \<Rightarrow> IntraBlockState" where
  "Transfer L sender recipient amount bailout s =
     AddBalance L recipient amount (if \<not> bailout then SubBalance L sender amount s else s)"

definition BorTransfer :: "lib \<Rightarrow> address \<Rightarrow> address \<Rightarrow> u256 \<Rightarrow> bool \<Rightarrow> IntraBlockState \<Rightarrow> IntraBlockState" where
  "BorTransfer L sender recipient amount bailout s =
     AddBalance L recipient amount (if \<not> bailout then SubBalance L sender amount s else s)"

definition CreateAddress :: "env \<Rightarrow> address \<Rightarrow> u64 \<Rightarrow> address" where
  "CreateAddress E b nonce = BytesToAddress (drop 12 (hash_bytes (keccak (env_lib E) (rlpCreate E b nonce))))"

definition CreateAddress2 :: "env \<Rightarrow> address \<Rightarrow> hash \<Rightarrow> hash \<Rightarrow> address" where
  "CreateAddress2 E b salt inithash =
     BytesToAddress (drop 12 (hash_bytes
       (keccak (env_lib E) ([0xff] @ address_bytes b @ hash_bytes salt @ hash_bytes inithash))))"

section \<open>Precompiled contracts\<close>

definition precompile :: "env \<Rightarrow> address \<Rightarrow> PrecompiledContract option" where
  "precompile E addr =
     (let rules = chainRules E; ts = tables E
      in (if IsMoran rules then PrecompiledContractsIsMoran ts
          else if IsNano rules then PrecompiledContractsNano ts
          else if IsBerlin rules then PrecompiledContractsBerlin ts
          else if IsIstanbul rules then
            if IsParlia rules then PrecompiledContractsIstanbulForBSC ts else PrecompiledContractsIstanbul ts
          else if IsByzantium rules then PrecompiledContractsByzantium ts
          else PrecompiledContractsHomestead ts) addr)"

definition RunPrecompiledContract ::
  "PrecompiledContract \<Rightarrow> bytes \<Rightarrow> u64 \<Rightarrow> bytes \<times> u64 \<times> evm_error option" where
  "RunPrecompiledContract p input suppliedGas =
     (let gasCost = RequiredGas p input
      in if suppliedGas < gasCost then ([], 0, Some ErrOutOfGas)
         else
           let suppliedGas = suppliedGas - gasCost;
               (output, err) = pre_Run p input
           in (output, suppliedGas, err))"

section \<open>Calls\<close>

definition with_ibs :: "(IntraBlockState \<Rightarrow> IntraBlockState \<times> 'a) \<Rightarrow> EVM \<Rightarrow> EVM \<times> 'a" where
  [go_defs]: "with_ibs f ev = (case f (ibs ev) of (s, v) \<Rightarrow> (ev\<lparr>ibs := s\<rparr>, v))"

text \<open>The balance check of CALL and CALLCODE; the balance is only read for a value that is not
  zero.\<close>

definition can_pay :: "env \<Rightarrow> OpCode \<Rightarrow> ContractRef \<Rightarrow> u256 option \<Rightarrow> EVM \<Rightarrow> (EVM \<times> bool) res" where
  "can_pay E typ clr value ev =
     (if typ = CALL \<or> typ = CALLCODE then
        bnd (of_opt NilDereference value) (\<lambda>v.
        if v \<noteq> 0 then Ok (with_ibs (CanTransferFunc (blockContext E) (env_lib E) (ref_Address clr) v) ev)
        else Ok (ev, True))
      else Ok (ev, True))"

text \<open>What happens between the snapshot and the code: the transfer of CALL, the touch of
  STATICCALL. \<open>None\<close> is the early return for an account that does not exist.\<close>

definition enter_call ::
  "env \<Rightarrow> OpCode \<Rightarrow> ContractRef \<Rightarrow> address \<Rightarrow> bool \<Rightarrow> u256 option \<Rightarrow> bool \<Rightarrow> EVM \<Rightarrow> (EVM \<times> bool) res" where
  "enter_call E typ clr addr isPrecompile value bailout ev =
     (if typ = CALL then
        bnd (of_opt NilDereference value) (\<lambda>v.
        let (ev, ex) = with_ibs (Exist (env_lib E) addr) ev
        in if \<not> ex \<and> \<not> isPrecompile \<and> IsSpuriousDragon (chainRules E) \<and> v = 0 then Ok (ev, True)
           else
             let s = (if \<not> ex then CreateAccount (env_lib E) addr False (ibs ev) else ibs ev);
                 s = TransferFunc (blockContext E) (env_lib E) (ref_Address clr) addr v bailout s
             in Ok (ev\<lparr>ibs := s\<rparr>, False))
      else if typ = STATICCALL then Ok (ev\<lparr>ibs := AddBalance (env_lib E) addr 0 (ibs ev)\<rparr>, False)
      else Ok (ev, False))"

definition call_contract ::
  "env \<Rightarrow> OpCode \<Rightarrow> ContractRef \<Rightarrow> address \<Rightarrow> bytes \<Rightarrow> u64 \<Rightarrow> u256 option \<Rightarrow> EVM \<Rightarrow> (Contract \<times> EVM) res" where
  "call_contract E typ clr addr cd gas value ev =
     (let (ev, codeHash) = with_ibs (GetCodeHash (env_lib E) addr) ev;
          new = (\<lambda>object. NewContract clr object value gas (SkipAnalysis (config E)) (jds ev))
      in bnd (if typ = CALLCODE then Ok (new (AccountRef (ref_Address clr)))
              else if typ = DELEGATECALL then
                case new (AccountRef (ref_Address clr)) of (c, jd) \<Rightarrow> bnd (AsDelegate c) (\<lambda>c. Ok (c, jd))
              else Ok (new (AccountRef addr)))
           (\<lambda>(c, jd). Ok (SetCallCode (Some addr) codeHash cd c, ev\<lparr>jds := jd\<rparr>)))"

definition code_bytes :: "bytes option \<Rightarrow> bytes" where
  "code_bytes c = (case c of None \<Rightarrow> [] | Some bs \<Rightarrow> bs)"

definition run_call ::
  "runner \<Rightarrow> env \<Rightarrow> OpCode \<Rightarrow> ContractRef \<Rightarrow> address \<Rightarrow> bytes \<Rightarrow> bytes \<Rightarrow> u64 \<Rightarrow> u256 option \<Rightarrow> EVM
     \<Rightarrow> (EVM \<times> bytes \<times> u64 \<times> evm_error option) res" where
  "run_call run E typ clr addr cd input gas value ev =
     (case precompile E addr of
        Some p \<Rightarrow> Ok (ev, RunPrecompiledContract p input gas)
      | None \<Rightarrow>
          if length cd = 0 then Ok (ev, [], gas, None)
          else
            bnd (call_contract E typ clr addr cd gas value ev) (\<lambda>(contract, ev).
            let ro = (typ = STATICCALL)
            in bnd (run contract input ro ev) (\<lambda>(ev, contract, ret, err).
               Ok (ev, ret, Gas contract, err))))"

definition evm_call ::
  "runner \<Rightarrow> env \<Rightarrow> OpCode \<Rightarrow> ContractRef \<Rightarrow> address \<Rightarrow> bytes \<Rightarrow> u64 \<Rightarrow> u256 option \<Rightarrow> bool \<Rightarrow> EVM
     \<Rightarrow> (EVM \<times> bytes \<times> u64 \<times> evm_error option) res" where
  "evm_call run E typ clr addr input gas value bailout ev =
     (if NoRecursion (config E) \<and> depth ev > 0 then Ok (ev, [], gas, None)
      else if depth ev > unat CallCreateDepth then Ok (ev, [], gas, Some ErrDepth)
      else
        bnd (can_pay E typ clr value ev) (\<lambda>(ev, ok).
        if \<not> ok \<and> \<not> bailout then Ok (ev, [], gas, Some ErrInsufficientBalance)
        else
          let isPrecompile = (precompile E addr \<noteq> None);
              (ev, code) = (if \<not> isPrecompile then with_ibs (GetCode (env_lib E) addr) ev else (ev, None));
              (ev, snapshot) = with_ibs TakeSnapshot ev
          in bnd (enter_call E typ clr addr isPrecompile value bailout ev) (\<lambda>(ev, missing).
             if missing then Ok (ev, [], gas, None)
             else bnd (run_call run E typ clr addr (code_bytes code) input gas value ev) (\<lambda>(ev, ret, gas, err).
               if err \<noteq> None \<or> RestoreState (config E) then
                 bnd (RevertToSnapshot (env_lib E) snapshot (ibs ev)) (\<lambda>s.
                 Ok (ev\<lparr>ibs := s\<rparr>, ret, if err \<noteq> Some ErrExecutionReverted then 0 else gas, err))
               else Ok (ev, ret, gas, err)))))"

definition Call ::
  "runner \<Rightarrow> env \<Rightarrow> ContractRef \<Rightarrow> address \<Rightarrow> bytes \<Rightarrow> u64 \<Rightarrow> u256 option \<Rightarrow> bool \<Rightarrow> EVM
     \<Rightarrow> (EVM \<times> bytes \<times> u64 \<times> evm_error option) res" where
  "Call run E clr addr input gas value bailout ev = evm_call run E CALL clr addr input gas value bailout ev"

definition CallCode ::
  "runner \<Rightarrow> env \<Rightarrow> ContractRef \<Rightarrow> address \<Rightarrow> bytes \<Rightarrow> u64 \<Rightarrow> u256 option \<Rightarrow> EVM
     \<Rightarrow> (EVM \<times> bytes \<times> u64 \<times> evm_error option) res" where
  "CallCode run E clr addr input gas value ev = evm_call run E CALLCODE clr addr input gas value False ev"

definition DelegateCall ::
  "runner \<Rightarrow> env \<Rightarrow> ContractRef \<Rightarrow> address \<Rightarrow> bytes \<Rightarrow> u64 \<Rightarrow> EVM
     \<Rightarrow> (EVM \<times> bytes \<times> u64 \<times> evm_error option) res" where
  "DelegateCall run E clr addr input gas ev = evm_call run E DELEGATECALL clr addr input gas None False ev"

definition StaticCall ::
  "runner \<Rightarrow> env \<Rightarrow> ContractRef \<Rightarrow> address \<Rightarrow> bytes \<Rightarrow> u64 \<Rightarrow> EVM
     \<Rightarrow> (EVM \<times> bytes \<times> u64 \<times> evm_error option) res" where
  "StaticCall run E clr addr input gas ev = evm_call run E STATICCALL clr addr input gas (Some 0) False ev"

section \<open>Contract creation\<close>

text \<open>The init code and its hash, which only CREATE2 computes.\<close>

type_synonym codeAndHash = "bytes \<times> hash"

definition codeHash_of :: "env \<Rightarrow> codeAndHash \<Rightarrow> codeAndHash" where
  "codeHash_of E ch = (if snd ch = 0 then (fst ch, keccak (env_lib E) (fst ch)) else ch)"

text \<open>The nonce of the caller is increased before anything can fail in the new frame.\<close>

definition bump_nonce :: "env \<Rightarrow> ContractRef \<Rightarrow> EVM \<Rightarrow> EVM \<times> bool" where
  "bump_nonce E clr ev =
     (let (ev, nonce) = with_ibs (GetNonce (env_lib E) (ref_Address clr)) ev
      in if nonce + 1 < nonce then (ev, False)
         else (ev\<lparr>ibs := SetNonce (env_lib E) (ref_Address clr) (nonce + 1) (ibs ev)\<rparr>, True))"

definition collides :: "env \<Rightarrow> address \<Rightarrow> EVM \<Rightarrow> EVM \<times> bool" where
  "collides E address ev =
     (let (ev, contractHash) = with_ibs (GetCodeHash (env_lib E) address) ev;
          (ev, nonce) = with_ibs (GetNonce (env_lib E) address) ev
      in (ev, nonce \<noteq> 0 \<or> (contractHash \<noteq> 0 \<and> contractHash \<noteq> emptyCodeHash (env_lib E))))"

definition new_account :: "env \<Rightarrow> ContractRef \<Rightarrow> address \<Rightarrow> u256 \<Rightarrow> EVM \<Rightarrow> EVM" where
  "new_account E clr address value ev =
     (let s = CreateAccount (env_lib E) address True (ibs ev);
          s = (if IsSpuriousDragon (chainRules E) then SetNonce (env_lib E) address 1 s else s)
      in ev\<lparr>ibs := TransferFunc (blockContext E) (env_lib E) (ref_Address clr) address value False s\<rparr>)"

text \<open>The limits on the returned code and the charge for storing it.\<close>

definition check_code :: "env \<Rightarrow> bytes \<Rightarrow> evm_error option \<Rightarrow> evm_error option" where
  "check_code E ret err =
     (let rules = chainRules E;
          err = (if err = None \<and> IsSpuriousDragon rules \<and> length ret > MaxCodeSize \<and>
                   (\<not> IsAura rules \<or> HasEip3860 (config E) rules)
                 then Some ErrMaxCodeSizeExceeded else err)
      in if err = None \<and> IsLondon rules \<and> length ret \<ge> 1 \<and> hd ret = 0xEF
         then Some ErrInvalidCode else err)"

definition store_code ::
  "env \<Rightarrow> address \<Rightarrow> bytes \<Rightarrow> evm_error option \<Rightarrow> EVM \<Rightarrow> Contract \<Rightarrow> EVM \<times> Contract \<times> evm_error option" where
  "store_code E address ret err ev contract =
     (if err = None then
        let createDataGas = of_nat (length ret) * CreateDataGas;
            (contract, ok) = UseGas createDataGas contract
        in if ok then (ev\<lparr>ibs := SetCode (env_lib E) address (if ret = [] then None else Some ret) (ibs ev)\<rparr>, contract, None)
           else if IsHomestead (chainRules E) then (ev, contract, Some ErrCodeStoreOutOfGas)
           else (ev, contract, None)
      else (ev, contract, err))"

definition create ::
  "runner \<Rightarrow> env \<Rightarrow> ContractRef \<Rightarrow> codeAndHash \<Rightarrow> u64 \<Rightarrow> u256 \<Rightarrow> address \<Rightarrow> bool \<Rightarrow> EVM
     \<Rightarrow> (EVM \<times> bytes \<times> address \<times> u64 \<times> evm_error option) res" where
  "create run E clr ch gas value address incrementNonce ev =
     (if depth ev > unat CallCreateDepth then Ok (ev, [], 0, gas, Some ErrDepth)
      else
        let (ev, ok) = with_ibs (CanTransferFunc (blockContext E) (env_lib E) (ref_Address clr) value) ev
        in if \<not> ok then Ok (ev, [], 0, gas, Some ErrInsufficientBalance)
        else
        let (ev, ok) = (if incrementNonce then bump_nonce E clr ev else (ev, True))
        in if \<not> ok then Ok (ev, [], 0, gas, Some ErrNonceUintOverflow)
        else
        let ev = (if IsBerlin (chainRules E) then ev\<lparr>ibs := AddAddressToAccessList address (ibs ev)\<rparr> else ev);
            (ev, collision) = collides E address ev
        in if collision then Ok (ev, [], 0, 0, Some ErrContractAddressCollision)
        else
        let (ev, snapshot) = with_ibs TakeSnapshot ev;
            ev = new_account E clr address value ev;
            (contract, jd) = NewContract clr (AccountRef address) (Some value) gas (SkipAnalysis (config E)) (jds ev);
            contract = SetCodeOptionalHash (Some address) (fst ch) (snd ch) contract
        in if NoRecursion (config E) \<and> depth ev > 0 then Ok (ev, [], address, gas, None)
        else
        bnd (run contract [] False (ev\<lparr>jds := jd\<rparr>)) (\<lambda>(ev, contract, ret, err).
        let (ev, contract, err) = store_code E address ret (check_code E ret err) ev contract
        in if err \<noteq> None \<and> (IsHomestead (chainRules E) \<or> err \<noteq> Some ErrCodeStoreOutOfGas) then
             bnd (RevertToSnapshot (env_lib E) snapshot (ibs ev)) (\<lambda>s.
             let contract = (if err \<noteq> Some ErrExecutionReverted then fst (UseGas (Gas contract) contract) else contract)
             in Ok (ev\<lparr>ibs := s\<rparr>, ret, address, Gas contract, err))
           else Ok (ev, ret, address, Gas contract, err)))"

definition Create ::
  "runner \<Rightarrow> env \<Rightarrow> ContractRef \<Rightarrow> bytes \<Rightarrow> u64 \<Rightarrow> u256 \<Rightarrow> EVM
     \<Rightarrow> (EVM \<times> bytes \<times> address \<times> u64 \<times> evm_error option) res" where
  "Create run E clr cd gas endowment ev =
     (let (ev, nonce) = with_ibs (GetNonce (env_lib E) (ref_Address clr)) ev;
          contractAddr = CreateAddress E (ref_Address clr) nonce
      in create run E clr (cd, 0) gas endowment contractAddr True ev)"

definition Create2 ::
  "runner \<Rightarrow> env \<Rightarrow> ContractRef \<Rightarrow> bytes \<Rightarrow> u64 \<Rightarrow> u256 \<Rightarrow> u256 \<Rightarrow> EVM
     \<Rightarrow> (EVM \<times> bytes \<times> address \<times> u64 \<times> evm_error option) res" where
  "Create2 run E clr cd gas endowment salt ev =
     (let ch = codeHash_of E (cd, 0);
          contractAddr = CreateAddress2 E (ref_Address clr) salt (snd ch)
      in create run E clr ch gas endowment contractAddr True ev)"

definition SysCreate ::
  "runner \<Rightarrow> env \<Rightarrow> ContractRef \<Rightarrow> bytes \<Rightarrow> u64 \<Rightarrow> u256 \<Rightarrow> address \<Rightarrow> EVM
     \<Rightarrow> (EVM \<times> bytes \<times> u64 \<times> evm_error option) res" where
  "SysCreate run E clr cd gas endowment contractAddr ev =
     bnd (create run E clr (cd, 0) gas endowment contractAddr False ev) (\<lambda>(ev, ret, _, leftOverGas, err).
     Ok (ev, ret, leftOverGas, err))"

end
