(* ===== verification/Interpreter.thy ===== *)
theory Interpreter
  imports Evm
begin

text \<open>
  The interpreter: \<open>internal/vm/interpreter.go\<close>. \<open>step\<close> is one round of the loop of \<open>Run\<close>;
  \<open>run_loop\<close> is the loop, with fuel for its rounds and for the frames below it; the calls an
  instruction makes run with the fuel that is left.
\<close>

section \<open>Construction\<close>

definition instructionSet :: "Rules \<Rightarrow> JumpTable res" where
  "instructionSet rules =
     (if IsPrague rules then newPragueInstructionSet
      else if IsCancun rules then newCancunInstructionSet
      else if IsShanghai rules then newShanghaiInstructionSet
      else if IsLondon rules then newLondonInstructionSet
      else if IsBerlin rules then newBerlinInstructionSet
      else if IsIstanbul rules then newIstanbulInstructionSet
      else if IsConstantinople rules then newConstantinopleInstructionSet
      else if IsByzantium rules then newByzantiumInstructionSet
      else if IsSpuriousDragon rules then newSpuriousDragonInstructionSet
      else if IsTangerineWhistle rules then newTangerineWhistleInstructionSet
      else if IsHomestead rules then newHomesteadInstructionSet
      else newFrontierInstructionSet)"

text \<open>The loop over the extra EIPs ranges over a slice and removes the failed ones from the
  same array: \<open>arr\<close> is the array, \<open>l\<close> the length of \<open>cfg.ExtraEips\<close>, the first argument the
  indices still to visit.\<close>

fun extra_eips :: "nat list \<Rightarrow> int list \<Rightarrow> nat \<Rightarrow> JumpTable \<Rightarrow> (JumpTable \<times> int list \<times> nat) res" where
  "extra_eips [] arr l jt = Ok (jt, arr, l)"
| "extra_eips (i # is) arr l jt =
     bnd (EnableEIP (arr ! i) jt) (\<lambda>(jt, err).
     if err = None then extra_eips is arr l jt
     else if l < i + 1 then Panic SliceBounds
     else extra_eips is (take i arr @ take (l - (i + 1)) (drop (i + 1) arr) @ drop (l - 1) arr) (l - 1) jt)"

text \<open>The table, and the \<open>ExtraEips\<close> of the interpreter's configuration.\<close>

definition NewEVMInterpreter :: "Rules \<Rightarrow> int list \<Rightarrow> (JumpTable \<times> int list) res" where
  "NewEVMInterpreter rules eips =
     bnd (instructionSet rules) (\<lambda>jt.
     if 0 < length eips then
       bnd (extra_eips [0 ..< length eips] eips (length eips) jt) (\<lambda>(jt, arr, l). Ok (jt, take l arr))
     else Ok (jt, eips))"

section \<open>One round of the loop\<close>

datatype outcome =
    Fail machine evm_error         \<comment> \<open>\<open>return nil, err\<close>\<close>
  | Break machine bytes evm_error  \<comment> \<open>the instruction returned an error\<close>
  | Continue machine bytes

text \<open>The memory size in bytes, and whether it overflows.\<close>

definition memory_size :: "operation \<Rightarrow> Stack \<Rightarrow> (u64 \<times> bool) res" where
  "memory_size op st =
     (case memorySize op of
        None \<Rightarrow> Ok (0, False)
      | Some f \<Rightarrow> bnd (f st) (\<lambda>(memSize, overflow).
          if overflow then Ok (0, True) else Ok (SafeMul (ToWordSize memSize) 32)))"

definition use_dynamic :: "operation \<Rightarrow> env \<Rightarrow> machine \<Rightarrow> (machine \<times> evm_error option) res" where
  "use_dynamic op E m =
     (case dynamicGas op of
        None \<Rightarrow> Ok (m, None)
      | Some dyn \<Rightarrow>
          bnd (memory_size op (stk m)) (\<lambda>(memSize, overflow).
          if overflow then Ok (m, Some ErrGasUintOverflow)
          else bnd (dyn E m memSize) (\<lambda>(m, dynamicCost, err).
            if err \<noteq> None then Ok (m, Some ErrOutOfGas)
            else
              let (c, ok) = UseGas dynamicCost (ctr m);
                  m = m\<lparr>ctr := c\<rparr>
              in if \<not> ok then Ok (m, Some ErrOutOfGas)
                 else Ok (if memSize > 0 then m\<lparr>mem := Resize memSize (mem m)\<rparr> else m, None))))"

definition step :: "callctx \<Rightarrow> JumpTable \<Rightarrow> env \<Rightarrow> machine \<Rightarrow> outcome res" where
  "step C jt E m =
     bnd (of_opt NilDereference (jt (GetOp (pc m) (ctr m)))) (\<lambda>op.
     let sLen = int (Len (stk m))
     in if sLen < numPop op then Ok (Fail m (ErrStackUnderflow (nat sLen) (nat (numPop op))))
        else if sLen > maxStack_of op then Ok (Fail m (ErrStackOverflow (nat sLen) (nat (maxStack_of op))))
        else
          let (c, ok) = UseGas (constantGas op) (ctr m);
              m = m\<lparr>ctr := c\<rparr>
          in if \<not> ok then Ok (Fail m ErrOutOfGas)
             else bnd (use_dynamic op E m) (\<lambda>(m, err).
               case err of
                 Some e \<Rightarrow> Ok (Fail m e)
               | None \<Rightarrow>
                   bnd (execute op C E m) (\<lambda>(m, res, err).
                   case err of
                     Some e \<Rightarrow> Ok (Break m res e)
                   | None \<Rightarrow> Ok (Continue (m\<lparr>pc := pc m + 1\<rparr>) res))))"

section \<open>Frames\<close>

type_synonym looper = "nat \<Rightarrow> machine \<Rightarrow> bytes \<Rightarrow> (machine \<times> bytes \<times> evm_error option) res"

definition frame :: "Contract \<Rightarrow> bytes \<Rightarrow> EVM \<Rightarrow> machine" where
  "frame contract input ev =
     \<lparr>pc = 0, evm = ev, mem = mem_Reset NewMemory, stk = NewStack, ctr = contract\<lparr>Input := input\<rparr>\<rparr>"

text \<open>\<open>Run\<close> around the loop: the depth and the read-only flag are restored when it returns.\<close>

definition Run :: "looper \<Rightarrow> runner" where
  "Run loop contract input ro ev =
     (if length (Code contract) = 0 then Ok (ev, contract, [], None)
      else
        let set_ro = (ro \<and> \<not> readOnly ev);
            ev = ev\<lparr>depth := depth ev + 1, readOnly := (readOnly ev \<or> set_ro), returnData := []\<rparr>
        in bnd (loop 0 (frame contract input ev) []) (\<lambda>(m, ret, err).
           let ev = (evm m)\<lparr>depth := depth (evm m) - 1\<rparr>;
               ev = (if set_ro then ev\<lparr>readOnly := False\<rparr> else ev)
           in Ok (ev, ctr m, ret, err)))"

definition calls :: "runner \<Rightarrow> env \<Rightarrow> callctx" where
  "calls run E =
     \<lparr>cc_Call = (\<lambda>c a d g v. Call run E c a d g (Some v) False),
      cc_CallCode = (\<lambda>c a d g v. CallCode run E c a d g (Some v)),
      cc_DelegateCall = DelegateCall run E,
      cc_StaticCall = StaticCall run E,
      cc_Create = Create run E,
      cc_Create2 = Create2 run E\<rparr>"

text \<open>Every thousandth round reads the abort flag; a cancelled run ends with the result of the
  previous instruction and no error.\<close>

definition poll :: "env \<Rightarrow> nat \<Rightarrow> machine \<Rightarrow> machine \<times> bool" where
  "poll E steps m =
     (if steps mod 1000 = 0
      then (m\<lparr>evm := (evm m)\<lparr>polls := polls (evm m) + 1\<rparr>\<rparr>, cancelled E (polls (evm m)))
      else (m, False))"

primrec run_loop :: "nat \<Rightarrow> JumpTable \<Rightarrow> env \<Rightarrow> looper" where
  "run_loop 0 jt E = (\<lambda>steps m res. NoFuel)"
| "run_loop (Suc n) jt E = (\<lambda>steps m res.
     let steps = steps + 1;
         (m, abort) = poll E steps m
     in if abort then Ok (m, res, None)
        else bnd (step (calls (Run (run_loop n jt E)) E) jt E m) (\<lambda>r.
          case r of
            Fail m e \<Rightarrow> Ok (m, [], Some e)
          | Break m res e \<Rightarrow> Ok (m, res, if e = errStopToken then None else Some e)
          | Continue m res \<Rightarrow> run_loop n jt E steps m res))"

end
