(* ===== verification/InstrSafe.thy ===== *)
theory InstrSafe
  imports Interpreter
begin

text \<open>
  What every instruction respects. An instruction that finds the operands its table entry
  announces, in a memory that covers what its entry asks for, never indexes outside the stack
  or the memory; it changes the height of the stack as announced, keeps the size of the
  memory, the call depth and the read-only flag, and ends with at most the gas it had plus
  what the calls it made were given.
\<close>

section \<open>Runs without an index out of range\<close>

definition sat :: "('a \<Rightarrow> bool) \<Rightarrow> 'a res \<Rightarrow> bool" where
  "sat P r \<longleftrightarrow> (case r of Ok x \<Rightarrow> P x | Panic p \<Rightarrow> p \<noteq> StackIndex \<and> p \<noteq> MemoryIndex | NoFuel \<Rightarrow> False)"

lemma sat_simps [simp]:
  "sat P (Ok x) = P x"
  "sat P (Panic p) \<longleftrightarrow> p \<noteq> StackIndex \<and> p \<noteq> MemoryIndex"
  "\<not> sat P NoFuel"
  by (simp_all add: sat_def)

lemma sat_bnd [simp]: "sat P (bnd r f) \<longleftrightarrow> sat (\<lambda>x. sat P (f x)) r"
  by (cases r) simp_all

lemma sat_mono: "sat P r \<Longrightarrow> (\<And>x. P x \<Longrightarrow> Q x) \<Longrightarrow> sat Q r"
  by (cases r) simp_all

lemma sat_iff: "sat P r \<longleftrightarrow> sat (\<lambda>_. True) r \<and> (\<forall>x. r = Ok x \<longrightarrow> P x)"
  by (cases r) simp_all

text \<open>A run that does not panic with an index, whatever it returns.\<close>

abbreviation fine :: "'a res \<Rightarrow> bool" where
  "fine r \<equiv> sat (\<lambda>_. True) r"

lemma fine_sat: "fine r \<Longrightarrow> (\<And>x. P x) \<Longrightarrow> sat P r"
  by (erule sat_mono)

lemma sat_of_opt [simp]:
  "sat P (of_opt p x) \<longleftrightarrow> (case x of None \<Rightarrow> p \<noteq> StackIndex \<and> p \<noteq> MemoryIndex | Some v \<Rightarrow> P v)"
  by (cases x) simp_all

section \<open>The state never panics with an index of the stack or the memory\<close>

lemma fine_getData [simp]: "fine (getData d i n)"
  by (simp add: getData_def Let_def split: option.split)

lemma fine_getDataBig [simp]: "fine (getDataBig d i n)"
  by (simp add: getDataBig_def split: prod.splits)

lemma fine_codeBitmap_loop: "fine (codeBitmap_loop c i b)"
  by (induction c i b rule: codeBitmap_loop.induct) (subst codeBitmap_loop.simps, simp add: Let_def)

lemma fine_isCode: "fine (isCode u c jd)"
  by (auto simp: isCode_def codeBitmap_def isCodeFromAnalysis_def split: option.splits
      intro!: sat_mono [OF fine_codeBitmap_loop])

lemma fine_validJumpdest [simp]: "fine (validJumpdest d c jd)"
  by (simp add: validJumpdest_def fine_isCode split: prod.splits)

lemma fine_Contains: "fine (Contains a k al)"
  by (simp add: Contains_def split: option.splits)

lemma fine_SlotInAccessList [simp]: "fine (SlotInAccessList a k s)"
  by (simp add: SlotInAccessList_def fine_Contains)

lemma fine_AddSlotToAccessList [simp]: "fine (AddSlotToAccessList a k s)"
  by (simp add: AddSlotToAccessList_def AddSlot_def Let_def split: prod.splits option.splits)

lemma fine_snap_ReadAccountStorage [simp]: "fine (snap_ReadAccountStorage a i k sn)"
  by (simp add: snap_ReadAccountStorage_def Let_def split: option.splits)

lemma fine_so_GetCommittedState: "fine (so_GetCommittedState k s so)"
  by (simp add: so_GetCommittedState_def Let_def split: prod.splits option.splits sum.splits)

lemma fine_so_GetState: "fine (so_GetState k s so)"
  by (simp add: so_GetState_def fine_so_GetCommittedState Let_def split: prod.splits option.splits)

lemma fine_GetState [simp]: "fine (GetState L a k s)"
  by (auto simp: GetState_def Let_def split: option.splits intro: sat_mono [OF fine_so_GetState])

lemma fine_GetCommittedState [simp]: "fine (GetCommittedState L a k s)"
  by (auto simp: GetCommittedState_def Let_def split: option.splits intro: sat_mono [OF fine_so_GetCommittedState])

lemma fine_SetState [simp]: "fine (SetState L a k v s)"
  by (auto simp: SetState_def so_SetState_def Let_def split: option.splits intro: sat_mono [OF fine_so_GetState])

lemma fine_revert: "fine (revert L e s)"
  by (cases e) (auto simp: revert_def revert_object_def DeleteSlot_def Let_def split: option.splits)

lemma fine_revert_loop: "fine (revert_loop L i n s)"
proof (induction n arbitrary: s)
  case (Suc n)
  show ?case by (auto simp: Let_def intro!: sat_mono [OF fine_revert] Suc)
qed simp

lemma fine_RevertToSnapshot [simp]: "fine (RevertToSnapshot L i s)"
  by (simp add: RevertToSnapshot_def journal_revert_def fine_revert_loop Let_def)

lemma fine_AsDelegate: "fine (AsDelegate c)"
  by (simp add: AsDelegate_def split: ContractRef.splits)

lemmas fine_rules =
  fine_getData [THEN fine_sat] fine_getDataBig [THEN fine_sat] fine_validJumpdest [THEN fine_sat]
  fine_SlotInAccessList [THEN fine_sat] fine_AddSlotToAccessList [THEN fine_sat] fine_GetState [THEN fine_sat]
  fine_GetCommittedState [THEN fine_sat] fine_SetState [THEN fine_sat] fine_RevertToSnapshot [THEN fine_sat]
  fine_AsDelegate [THEN fine_sat]

section \<open>Contracts of calls and instructions\<close>

definition call_post :: "EVM \<Rightarrow> u64 \<Rightarrow> EVM \<Rightarrow> u64 \<Rightarrow> bool" where
  "call_post ev g ev' g' \<longleftrightarrow> depth ev' = depth ev \<and> readOnly ev' = readOnly ev \<and> unat g' \<le> unat g"

definition call_ok :: "EVM \<Rightarrow> u64 \<Rightarrow> (EVM \<times> bytes \<times> u64 \<times> evm_error option) res \<Rightarrow> bool" where
  "call_ok ev g r \<longleftrightarrow> sat (\<lambda>(ev', ret, g', err). call_post ev g ev' g') r"

definition create_ok :: "EVM \<Rightarrow> u64 \<Rightarrow> (EVM \<times> bytes \<times> address \<times> u64 \<times> evm_error option) res \<Rightarrow> bool" where
  "create_ok ev g r \<longleftrightarrow> sat (\<lambda>(ev', ret, a, g', err). call_post ev g ev' g') r"

text \<open>Calls given less than \<open>n\<close> gas return, with no more gas than they were given.\<close>

definition ctx_ok :: "nat \<Rightarrow> callctx \<Rightarrow> bool" where
  "ctx_ok n C \<longleftrightarrow>
     (\<forall>c a d g v ev. unat g < n \<longrightarrow> call_ok ev g (cc_Call C c a d g v ev)) \<and>
     (\<forall>c a d g v ev. unat g < n \<longrightarrow> call_ok ev g (cc_CallCode C c a d g v ev)) \<and>
     (\<forall>c a d g ev. unat g < n \<longrightarrow> call_ok ev g (cc_DelegateCall C c a d g ev)) \<and>
     (\<forall>c a d g ev. unat g < n \<longrightarrow> call_ok ev g (cc_StaticCall C c a d g ev)) \<and>
     (\<forall>c d g v ev. unat g < n \<longrightarrow> create_ok ev g (cc_Create C c d g v ev)) \<and>
     (\<forall>c d g v s ev. unat g < n \<longrightarrow> create_ok ev g (cc_Create2 C c d g v s ev))"

definition kept :: "machine \<Rightarrow> machine \<Rightarrow> bool" where
  "kept m m' \<longleftrightarrow> depth (evm m') = depth (evm m) \<and> readOnly (evm m') = readOnly (evm m) \<and>
     length (store (mem m')) = length (store (mem m)) \<and> lastGasCost (mem m') = lastGasCost (mem m)"

abbreviation m_gas :: "machine \<Rightarrow> nat" where
  "m_gas m \<equiv> unat (Gas (ctr m))"

definition exec_post :: "nat \<Rightarrow> nat \<Rightarrow> nat \<Rightarrow> machine \<Rightarrow> machine \<times> bytes \<times> evm_error option \<Rightarrow> bool" where
  "exec_post p q g m r \<longleftrightarrow>
     (case r of (m', ret, err) \<Rightarrow>
        kept m m' \<and> m_gas m' \<le> m_gas m + g \<and>
        (err = None \<longrightarrow> Len (stk m') = Len (stk m) - p + q))"

definition mem_covers :: "memorySizeFunc option \<Rightarrow> machine \<Rightarrow> bool" where
  "mem_covers ms m \<longleftrightarrow>
     (case ms of
        None \<Rightarrow> True
      | Some f \<Rightarrow> \<exists>n. f (stk m) = Ok (n, False) \<and> unat n \<le> length (store (mem m)))"

text \<open>What is handed to a callee does not depend on the memory or on the gas that is left.\<close>

definition stable :: "(machine \<Rightarrow> nat) \<Rightarrow> bool" where
  "stable give \<longleftrightarrow> (\<forall>m mm c. give (m\<lparr>mem := mm, ctr := c\<rparr>) = give m)"

definition exec_ok ::
  "executionFunc \<Rightarrow> nat \<Rightarrow> nat \<Rightarrow> (machine \<Rightarrow> nat) \<Rightarrow> memorySizeFunc option \<Rightarrow> bool" where
  "exec_ok ex p q give ms \<longleftrightarrow> stable give \<and>
     (\<forall>C E m n. p \<le> Len (stk m) \<longrightarrow> mem_sized (mem m) \<longrightarrow> mem_covers ms m \<longrightarrow> ctx_ok n C \<longrightarrow>
        m_gas m + give m < n \<longrightarrow> m_gas m + give m < 2 ^ 64 \<longrightarrow>
        sat (exec_post p q (give m) m) (ex C E m))"

text \<open>Most instructions make no calls.\<close>

abbreviation nothing :: "machine \<Rightarrow> nat" where
  "nothing \<equiv> \<lambda>_. 0"

lemma exec_okI:
  assumes "\<And>C E m xs. p \<le> length xs \<Longrightarrow> stk m = mkStack xs \<Longrightarrow> mem_sized (mem m) \<Longrightarrow> mem_covers ms m \<Longrightarrow>
     sat (exec_post p q 0 m) (ex C E m)"
  shows "exec_ok ex p q nothing ms"
  unfolding exec_ok_def stable_def using assms stack_cases by metis

lemma length_ge:
  "1 \<le> length xs \<longleftrightarrow> (\<exists>a ys. xs = a # ys)"
  "Suc 0 \<le> length xs \<longleftrightarrow> (\<exists>a ys. xs = a # ys)"
  "2 \<le> length xs \<longleftrightarrow> (\<exists>a b ys. xs = a # b # ys)"
  "3 \<le> length xs \<longleftrightarrow> (\<exists>a b c ys. xs = a # b # c # ys)"
  "4 \<le> length xs \<longleftrightarrow> (\<exists>a b c d ys. xs = a # b # c # d # ys)"
  "6 \<le> length xs \<longleftrightarrow> (\<exists>a b c d e f ys. xs = a # b # c # d # e # f # ys)"
  "7 \<le> length xs \<longleftrightarrow> (\<exists>a b c d e f g ys. xs = a # b # c # d # e # f # g # ys)"
  by (auto simp: numeral_eq_Suc Suc_le_length_iff)

lemmas exec_defs = exec_post_def kept_def opret_def operr_def pop_def peek_def settop_def push_def
  binary_def unary_def set_ibs_def

text \<open>Instructions that only work on the stack and read the environment.\<close>

named_theorems exec_facts

lemma exec_stack [exec_facts]:
  "exec_ok opAdd 2 1 nothing None" "exec_ok opSub 2 1 nothing None" "exec_ok opMul 2 1 nothing None"
  "exec_ok opDiv 2 1 nothing None" "exec_ok opSdiv 2 1 nothing None" "exec_ok opMod 2 1 nothing None"
  "exec_ok opSmod 2 1 nothing None" "exec_ok opExp 2 1 nothing None" "exec_ok opSignExtend 2 1 nothing None"
  "exec_ok opLt 2 1 nothing None" "exec_ok opGt 2 1 nothing None" "exec_ok opSlt 2 1 nothing None"
  "exec_ok opSgt 2 1 nothing None" "exec_ok opEq 2 1 nothing None" "exec_ok opAnd 2 1 nothing None"
  "exec_ok opOr 2 1 nothing None" "exec_ok opXor 2 1 nothing None" "exec_ok opByte 2 1 nothing None"
  "exec_ok opSHL 2 1 nothing None" "exec_ok opSHR 2 1 nothing None" "exec_ok opSAR 2 1 nothing None"
  "exec_ok opNot 1 1 nothing None" "exec_ok opIszero 1 1 nothing None"
  "exec_ok opAddmod 3 1 nothing None" "exec_ok opMulmod 3 1 nothing None"
  "exec_ok opPop 1 0 nothing None" "exec_ok opBlockhash 1 1 nothing None"
  by (rule exec_okI, auto simp: length_ge instr_defs exec_defs Uint64WithOverflow_def Let_def)+

lemma exec_push [exec_facts]:
  "exec_ok opAddress 0 1 nothing None" "exec_ok opOrigin 0 1 nothing None" "exec_ok opCaller 0 1 nothing None"
  "exec_ok opCallDataSize 0 1 nothing None" "exec_ok opCodeSize 0 1 nothing None"
  "exec_ok opReturnDataSize 0 1 nothing None" "exec_ok opCoinbase 0 1 nothing None"
  "exec_ok opTimestamp 0 1 nothing None" "exec_ok opNumber 0 1 nothing None"
  "exec_ok opGasLimit 0 1 nothing None" "exec_ok opChainID 0 1 nothing None"
  "exec_ok opPc 0 1 nothing None" "exec_ok opMsize 0 1 nothing None" "exec_ok opGas 0 1 nothing None"
  "exec_ok opPush0 0 1 nothing None" "exec_ok opPush1 0 1 nothing None" "exec_ok opJumpdest 0 0 nothing None"
  "exec_ok opSelfBalance 0 1 nothing None" "exec_ok opDifficulty 0 1 nothing None"
  "exec_ok opCallValue 0 1 nothing None" "exec_ok opGasprice 0 1 nothing None" "exec_ok opBaseFee 0 1 nothing None"
  by (rule exec_okI, auto simp: instr_defs exec_defs stread_def FromBig_def push_ptr_def Let_def
      split: prod.splits option.splits intro!: fine_rules)+

section \<open>Memory accesses are covered\<close>

lemma calc_covers:
  assumes "calcMemSize64 off l = (n, False)" and "unat n \<le> length (store mm)"
  shows "covers mm (unat (Uint64 off)) (unat (Uint64 l))"
proof (cases "l = 0")
  case True
  then show ?thesis by (simp add: covers_def Uint64_def)
next
  case False
  with assms(1) have *: "unat off + unat l < 2 ^ 64" "unat n = unat off + unat l"
    by (simp_all add: calcMemSize64_spec)
  then have "unat (Uint64 off) = unat off" "unat (Uint64 l) = unat l"
    by (auto intro!: unat_Uint64 simp: IsUint64_def)
  with * assms(2) show ?thesis by (simp add: covers_def)
qed

lemma calc_covers_fixed:
  assumes "calcMemSize64WithUint off k = (n, False)" and "unat n \<le> length (store mm)"
  shows "covers mm (unat (Uint64 off)) (unat k)"
proof (cases "k = 0")
  case True
  then show ?thesis by (simp add: covers_def)
next
  case False
  with assms(1) have *: "unat off + unat k < 2 ^ 64" "unat n = unat off + unat k"
    by (simp_all add: calcMemSize64WithUint_spec)
  then have "unat (Uint64 off) = unat off" by (auto intro!: unat_Uint64 simp: IsUint64_def)
  with * assms(2) show ?thesis by (simp add: covers_def)
qed

lemma mem_size_max_covers:
  assumes "mem_size_max i j k l st = Ok (n, False)" and "Back i st = Ok off" "Back j st = Ok sz"
    "Back k st = Ok off'" "Back l st = Ok sz'" and "unat n \<le> length (store mm)"
  shows "covers mm (unat (Uint64 off)) (unat (Uint64 sz))" and "covers mm (unat (Uint64 off')) (unat (Uint64 sz'))"
proof -
  obtain x y where x: "calcMemSize64 off sz = (x, False)" and y: "calcMemSize64 off' sz' = (y, False)"
    and "n = (if x > y then x else y)"
    using assms(1-5) by (auto simp: mem_size_max_def mem_size2_def split: prod.splits if_splits)
  then have "unat x \<le> unat n" "unat y \<le> unat n" by (auto simp: word_le_nat_alt word_less_nat_alt split: if_splits)
  with assms(6) show "covers mm (unat (Uint64 off)) (unat (Uint64 sz))"
    and "covers mm (unat (Uint64 off')) (unat (Uint64 sz'))"
    by (auto intro: calc_covers [OF x] calc_covers [OF y])
qed

text \<open>Reading and writing a covered range.\<close>

lemma sat_mem_ptr:
  "mem_sized (mem m) \<Longrightarrow> covers (mem m) (unat (Uint64 a)) (unat (Uint64 b)) \<Longrightarrow> (\<And>d. sat P (k d)) \<Longrightarrow>
     sat P (mem_ptr a b m k)"
  by (simp add: mem_ptr_def GetPtr_Ok)

lemma sat_mem_copy:
  "mem_sized (mem m) \<Longrightarrow> covers (mem m) (unat (Uint64 a)) (unat (Uint64 b)) \<Longrightarrow> (\<And>d. sat P (k d)) \<Longrightarrow>
     sat P (mem_copy a b m k)"
  by (simp add: mem_copy_def GetCopy_Ok)

lemma sat_mem_put:
  assumes "mem_sized (mem m)" and "covers (mem m) (unat a) (unat b)"
    and "\<And>mm. length (store mm) = length (store (mem m)) \<Longrightarrow> lastGasCost mm = lastGasCost (mem m) \<Longrightarrow>
      P (m\<lparr>mem := mm\<rparr>, [], None)"
  shows "sat P (mem_put a b d m)"
proof -
  have "0 < unat b \<Longrightarrow> length (copy_at (store (mem m)) (unat a) (unat b) d) = length (store (mem m))"
    using assms(2) by (simp add: covers_def)
  with assms show ?thesis by (simp add: mem_put_def mem_Set_Ok opret_def unat_gt_0)
qed

section \<open>Memory, storage and control flow\<close>

lemma exec_keccak [exec_facts]: "exec_ok opKeccak256 2 1 nothing (Some memoryKeccak256)"
  by (rule exec_okI, auto simp: length_ge instr_defs exec_defs mem_covers_def memory_size_defs mem_size2_def
      intro!: sat_mem_ptr) (erule (1) calc_covers)

lemma exec_copies [exec_facts]:
  "exec_ok opCallDataCopy 3 0 nothing (Some memoryCallDataCopy)"
  "exec_ok opCodeCopy 3 0 nothing (Some memoryCodeCopy)"
  "exec_ok opExtCodeCopy 4 0 nothing (Some memoryExtCodeCopy)"
  by (rule exec_okI, auto simp: length_ge instr_defs exec_defs mem_covers_def memory_size_defs mem_size2_def
      Uint64WithOverflow_def stread_def Let_def split: prod.splits
      intro!: sat_mem_put fine_rules, (erule (1) calc_covers)+)+

lemma exec_returndatacopy [exec_facts]: "exec_ok opReturnDataCopy 3 0 nothing (Some memoryReturnDataCopy)"
  by (rule exec_okI, auto simp: length_ge instr_defs exec_defs mem_covers_def memory_size_defs mem_size2_def
      Uint64WithOverflow_def Let_def split: option.splits intro!: sat_mem_put) (erule (1) calc_covers)

lemma exec_calldataload [exec_facts]: "exec_ok opCallDataLoad 1 1 nothing None"
  by (rule exec_okI, auto simp: length_ge instr_defs exec_defs split: prod.splits intro!: fine_rules)

lemma exec_reads [exec_facts]:
  "exec_ok opBalance 1 1 nothing None" "exec_ok opExtCodeSize 1 1 nothing None"
  "exec_ok opExtCodeHash 1 1 nothing None"
  by (rule exec_okI, auto simp: length_ge instr_defs exec_defs stread_def split: prod.splits)+

lemma exec_sload [exec_facts]: "exec_ok opSload 1 1 nothing None"
  by (rule exec_okI, auto simp: length_ge instr_defs exec_defs stread_res_def intro!: fine_rules)

lemma exec_sstore [exec_facts]: "exec_ok opSstore 2 0 nothing None"
  by (rule exec_okI, auto simp: length_ge instr_defs exec_defs intro!: fine_rules)

lemma go_int_32: "go_int 32 = 32"
  by (simp add: go_int_def)

lemma exec_mload [exec_facts]: "exec_ok opMload 1 1 nothing (Some memoryMLoad)"
proof (rule exec_okI)
  fix C E m xs
  assume "1 \<le> length xs" "stk m = mkStack xs" "mem_sized (mem m)" "mem_covers (Some memoryMLoad) m"
  then obtain v ys n where "stk m = mkStack (v # ys)" "calcMemSize64WithUint v 32 = (n, False)"
    "unat n \<le> length (store (mem m))" and ok: "mem_sized (mem m)"
    by (auto simp: length_ge mem_covers_def memory_size_defs mem_size_fixed_def)
  moreover from this have "covers (mem m) (unat (Uint64 v)) (unat (32 :: u64))" by (elim calc_covers_fixed)
  note GetPtr_Ok [OF ok this]
  ultimately show "sat (exec_post 1 1 0 m) (opMload C E m)"
    by (simp add: go_int_32 opMload_def exec_defs)
qed

lemma exec_mstore [exec_facts]: "exec_ok opMstore 2 0 nothing (Some memoryMStore)"
proof (rule exec_okI)
  fix C E m xs
  assume "2 \<le> length xs" "stk m = mkStack xs" "mem_sized (mem m)" "mem_covers (Some memoryMStore) m"
  then obtain v w ys n where "stk m = mkStack (v # w # ys)" "calcMemSize64WithUint v 32 = (n, False)"
    "unat n \<le> length (store (mem m))" and ok: "mem_sized (mem m)"
    by (auto simp: length_ge mem_covers_def memory_size_defs mem_size_fixed_def)
  moreover from this have "covers (mem m) (unat (Uint64 v)) 32" using calc_covers_fixed [of v 32] by simp
  note Set32_Ok [OF ok this] this
  ultimately show "sat (exec_post 2 0 0 m) (opMstore C E m)"
    by (simp add: opMstore_def exec_defs covers_def)
qed

lemma exec_mstore8 [exec_facts]: "exec_ok opMstore8 2 0 nothing (Some memoryMStore8)"
proof (rule exec_okI)
  fix C E m xs
  assume "2 \<le> length xs" "stk m = mkStack xs" "mem_sized (mem m)" "mem_covers (Some memoryMStore8) m"
  then obtain v w ys n where "stk m = mkStack (v # w # ys)" "calcMemSize64WithUint v 1 = (n, False)"
    "unat n \<le> length (store (mem m))" and ok: "mem_sized (mem m)"
    by (auto simp: length_ge mem_covers_def memory_size_defs mem_size_fixed_def)
  moreover from this have "covers (mem m) (unat (Uint64 v)) 1" using calc_covers_fixed [of v 1] by simp
  ultimately show "sat (exec_post 2 0 0 m) (opMstore8 C E m)"
    by (simp add: opMstore8_def exec_defs covers_def Let_def)
qed

lemma gas_isCode: "isCode u c jd = Ok (b, c', jd') \<Longrightarrow> Gas c' = Gas c"
  by (auto simp: isCode_def bnd_eq_Ok split: if_splits)

lemma gas_validJumpdest: "validJumpdest d c jd = Ok (v, u, c', jd') \<Longrightarrow> Gas c' = Gas c"
  by (auto simp: validJumpdest_def bnd_eq_Ok split: prod.splits if_splits dest: gas_isCode)

lemma sat_jump_to:
  "sat (\<lambda>(m', r, err). kept m m' \<and> Gas (ctr m') = Gas (ctr m) \<and> stk m' = stk m) (jump_to pos m)"
  unfolding jump_to_def
  by (simp, rule sat_iff [THEN iffD2])
    (auto simp: exec_defs Let_def dest: gas_validJumpdest)

lemma exec_jumps [exec_facts]:
  "exec_ok opJump 1 0 nothing None" "exec_ok opJumpi 2 0 nothing None"
  by (rule exec_okI, auto simp: length_ge instr_defs exec_defs intro!: sat_mono [OF sat_jump_to])+

lemma exec_dup [exec_facts]: "1 \<le> n \<Longrightarrow> exec_ok (makeDup n) n (n + 1) nothing None"
  by (rule exec_okI, auto simp: makeDup_def exec_defs Dup_mkStack)

lemma exec_swap [exec_facts]: "exec_ok (makeSwap n) (n + 1) (n + 1) nothing None"
  by (rule exec_okI, auto simp: makeSwap_def exec_defs Swap_mkStack)

lemma exec_makePush [exec_facts]: "exec_ok (makePush k n) 0 1 nothing None"
  by (rule exec_okI, auto simp: makePush_def exec_defs Let_def split: option.splits)

section \<open>Logs and the ends of a frame\<close>

lemma pop_topics_eq:
  "stk m = mkStack xs \<Longrightarrow> n \<le> length xs \<Longrightarrow>
     pop_topics n m k = k (take n xs) (m\<lparr>stk := mkStack (drop n xs)\<rparr>)"
proof (induction n arbitrary: m xs k)
  case 0
  then show ?case by (cases m) simp
next
  case (Suc n)
  then obtain x ys where xs: "xs = x # ys" "n \<le> length ys" by (cases xs) auto
  with Suc.prems have "pop_topics (Suc n) m k = pop_topics n (m\<lparr>stk := mkStack ys\<rparr>) (\<lambda>ts. k (x # ts))"
    by (simp add: pop_def)
  also have "\<dots> = k (x # take n ys) (m\<lparr>stk := mkStack (drop n ys)\<rparr>)"
    using Suc.IH [of "m\<lparr>stk := mkStack ys\<rparr>" ys] xs(2) by simp
  finally show ?case using xs(1) by simp
qed

lemma exec_log [exec_facts]: "exec_ok (makeLog n) (n + 2) 0 nothing (Some memoryLog)"
proof (rule exec_okI)
  fix C E m xs
  assume "n + 2 \<le> length xs" "stk m = mkStack xs" and ok: "mem_sized (mem m)" and "mem_covers (Some memoryLog) m"
  then obtain a b ys v where st: "stk m = mkStack (a # b # ys)" "n \<le> length ys"
    and v: "calcMemSize64 a b = (v, False)" "unat v \<le> length (store (mem m))"
    by (cases xs; cases "tl xs") (auto simp: mem_covers_def memory_size_defs mem_size2_def)
  from st show "sat (exec_post (n + 2) 0 0 m) (makeLog n C E m)"
    by (auto simp: makeLog_def exec_defs pop_topics_eq stdo_def ok intro!: sat_mem_copy calc_covers [OF v])
qed

lemma exec_ends [exec_facts]:
  "exec_ok opStop 0 0 nothing None" "exec_ok opUndefined 0 0 nothing None"
  by (rule exec_okI, auto simp: instr_defs exec_defs)+

lemma exec_returns [exec_facts]:
  "exec_ok opReturn 2 0 nothing (Some memoryReturn)" "exec_ok opRevert 2 0 nothing (Some memoryRevert)"
  by (rule exec_okI, auto simp: length_ge instr_defs exec_defs set_returnData_def mem_covers_def
      memory_size_defs mem_size2_def intro!: sat_mem_ptr, erule (1) calc_covers)+

lemma exec_selfdestruct [exec_facts]: "exec_ok opSelfdestruct 1 0 nothing None"
  by (rule exec_okI, auto simp: length_ge instr_defs exec_defs stread_def stdo_def Let_def split: prod.splits)

text \<open>Instructions that never let the frame go on.\<close>

definition halting :: "executionFunc \<Rightarrow> bool" where
  "halting ex \<longleftrightarrow> (\<forall>C E m m' r. ex C E m \<noteq> Ok (m', r, None)) \<and> (\<forall>C C' E m. ex C E m = ex C' E m)"

lemma halting_facts [exec_facts]:
  "halting opStop" "halting opUndefined" "halting opReturn" "halting opRevert" "halting opSelfdestruct"
  by (auto simp: halting_def instr_defs exec_defs mem_ptr_def stread_def bnd_eq_Ok Let_def split: if_splits prod.splits)

section \<open>Calls and creation\<close>

lemma sat_finish_call:
  assumes "call_ok (evm m) g r" and "mem_sized (mem m)"
    and cov: "covers (mem m) (unat (Uint64 off)) (unat (Uint64 sz))"
    and gas: "m_gas m + unat g < 2 ^ 64" and "stk m = mkStack ys"
  shows "sat (\<lambda>(m', ret, err). kept m m' \<and> m_gas m' \<le> m_gas m + unat g \<and> Len (stk m') = Suc (length ys))
    (bnd r (finish_call off sz m))"
proof -
  have wrap: "unat (Gas (ctr m) + g') \<le> m_gas m + unat g" if "unat g' \<le> unat g" for g'
    using gas that by (simp add: unat_add_no_wrap)
  have len: "length (copy_at (store (mem m)) (unat (Uint64 off)) (unat (Uint64 sz)) d) = length (store (mem m))"
    if "Uint64 sz \<noteq> 0" for d using cov that by (simp add: covers_def unat_eq_zero)
  show ?thesis using assms wrap len
    by (auto simp: call_ok_def finish_call_def push_def add_gas_def set_returnData_def kept_def call_post_def
        mem_Set_Ok Let_def elim!: sat_mono)
qed

definition give_temp :: "machine \<Rightarrow> nat" where
  "give_temp m = unat (callGasTemp (evm m))"

text \<open>CALL and CALLCODE add the stipend for a value that is not zero.\<close>

definition give_value :: "machine \<Rightarrow> nat" where
  "give_value m = give_temp m +
     (case Back 2 (stk m) of Ok v \<Rightarrow> if v \<noteq> 0 then unat CallStipend else 0 | _ \<Rightarrow> 0)"

lemma call_covers:
  assumes "mem_covers (Some memoryCall) m" and "stk m = mkStack (a # b # c # d # e # f # g # ys)"
  shows "covers (mem m) (unat (Uint64 d)) (unat (Uint64 e))" and "covers (mem m) (unat (Uint64 f)) (unat (Uint64 g))"
  using assms mem_size_max_covers [of 5 6 3 4 "stk m" _ f g d e] by (auto simp: mem_covers_def memoryCall_def)

lemma stable_give [simp]: "stable nothing" "stable give_temp" "stable give_value"
  by (simp_all add: stable_def give_temp_def give_value_def)

lemma exec_okI':
  assumes "stable give" and "\<And>C E m xs n. p \<le> length xs \<Longrightarrow> stk m = mkStack xs \<Longrightarrow> mem_sized (mem m) \<Longrightarrow> mem_covers ms m \<Longrightarrow>
     ctx_ok n C \<Longrightarrow> m_gas m + give m < n \<Longrightarrow> m_gas m + give m < 2 ^ 64 \<Longrightarrow>
     sat (exec_post p q (give m) m) (ex C E m)"
  shows "exec_ok ex p q give ms"
  unfolding exec_ok_def using assms stack_cases by metis

lemma kept_stk [simp]: "kept (m\<lparr>stk := st\<rparr>) m' \<longleftrightarrow> kept m m'"
  by (simp add: kept_def)

text \<open>A call made after \<open>p\<close> operands were popped, with at most \<open>g\<close> gas.\<close>

lemma sat_call:
  assumes "call_ok (evm m) gas r" and "mem_sized (mem m)"
    and "covers (mem m) (unat (Uint64 off)) (unat (Uint64 sz))"
    and "unat gas \<le> g" "m_gas m + g < 2 ^ 64" and "Len (stk m) = p + length ys"
  shows "sat (exec_post p 1 g m) (bnd r (finish_call off sz (m\<lparr>stk := mkStack ys\<rparr>)))"
proof -
  have "sat (\<lambda>(m', ret, err). kept m m' \<and> m_gas m' \<le> m_gas m + unat gas \<and> Len (stk m') = Suc (length ys))
      (bnd r (finish_call off sz (m\<lparr>stk := mkStack ys\<rparr>)))"
    using sat_finish_call [of "m\<lparr>stk := mkStack ys\<rparr>" gas r off sz ys] assms by (simp add: kept_def)
  then show ?thesis by (rule sat_mono) (use assms(4,6) in \<open>auto simp: exec_post_def\<close>)
qed

lemma stipend_gas:
  assumes "unat g + (if v \<noteq> 0 then unat CallStipend else 0) < 2 ^ 64"
  shows "unat (if v \<noteq> (0 :: u256) then g + CallStipend else g) = unat g + (if v \<noteq> 0 then unat CallStipend else 0)"
  using assms by (cases "v = 0") (simp_all add: unat_add_no_wrap)

lemma exec_call [exec_facts]: "exec_ok opCall 7 1 give_value (Some memoryCall)"
proof (rule exec_okI' [OF stable_give(3)])
  fix C E m xs n
  assume "7 \<le> length xs" "stk m = mkStack xs" and ok: "mem_sized (mem m)" and mc: "mem_covers (Some memoryCall) m"
    and C: "ctx_ok n C" and gas: "m_gas m + give_value m < n" "m_gas m + give_value m < 2 ^ 64"
  then obtain a b c d e f g ys where st: "stk m = mkStack (a # b # c # d # e # f # g # ys)"
    by (auto simp: length_ge)
  note cov = call_covers [OF mc st]
  let ?gas = "if c \<noteq> 0 then callGasTemp (evm m) + CallStipend else callGasTemp (evm m)"
  have give: "unat ?gas = give_value m"
    using stipend_gas [of "callGasTemp (evm m)" c] gas(2) st by (simp add: give_value_def give_temp_def)
  have "call_ok (evm m) ?gas (cc_Call C r t args ?gas c (evm m))" for r t args
    using C gas(1) give unfolding ctx_ok_def by simp
  note call = sat_call [OF this ok cov(2) eq_imp_le [OF give] gas(2), of 7 ys]
  show "sat (exec_post 7 1 (give_value m) m) (opCall C E m)"
  proof (cases "c \<noteq> 0 \<and> readOnly (evm m)")
    case True
    then show ?thesis using st ok cov
      by (auto simp: opCall_def pop_def operr_def exec_post_def kept_def intro!: sat_mem_ptr)
  next
    case False
    with st ok cov call show ?thesis
      by (auto simp: opCall_def pop_def Let_def simp del: sat_bnd intro!: sat_mem_ptr)
  qed
qed

lemma exec_callcode [exec_facts]: "exec_ok opCallCode 7 1 give_value (Some memoryCall)"
proof (rule exec_okI' [OF stable_give(3)])
  fix C E m xs n
  assume "7 \<le> length xs" "stk m = mkStack xs" and ok: "mem_sized (mem m)" and mc: "mem_covers (Some memoryCall) m"
    and C: "ctx_ok n C" and gas: "m_gas m + give_value m < n" "m_gas m + give_value m < 2 ^ 64"
  then obtain a b c d e f g ys where st: "stk m = mkStack (a # b # c # d # e # f # g # ys)"
    by (auto simp: length_ge)
  note cov = call_covers [OF mc st]
  let ?gas = "if c \<noteq> 0 then callGasTemp (evm m) + CallStipend else callGasTemp (evm m)"
  have give: "unat ?gas = give_value m"
    using stipend_gas [of "callGasTemp (evm m)" c] gas(2) st by (simp add: give_value_def give_temp_def)
  have "call_ok (evm m) ?gas (cc_CallCode C r t args ?gas c (evm m))" for r t args
    using C gas(1) give unfolding ctx_ok_def by simp
  note call = sat_call [OF this ok cov(2) eq_imp_le [OF give] gas(2), of 7 ys]
  with st ok cov show "sat (exec_post 7 1 (give_value m) m) (opCallCode C E m)"
    by (auto simp: opCallCode_def pop_def Let_def simp del: sat_bnd intro!: sat_mem_ptr)
qed

lemma call6_covers:
  assumes "mem_covers (Some f) m" and "f = memoryDelegateCall \<or> f = memoryStaticCall"
    and "stk m = mkStack (a # b # c # d # e # g # ys)"
  shows "covers (mem m) (unat (Uint64 c)) (unat (Uint64 d))" and "covers (mem m) (unat (Uint64 e)) (unat (Uint64 g))"
  using assms mem_size_max_covers [of 4 5 2 3 "stk m" _ e g c d]
  by (auto simp: mem_covers_def memoryDelegateCall_def memoryStaticCall_def)

lemma exec_delegatecall [exec_facts]: "exec_ok opDelegateCall 6 1 give_temp (Some memoryDelegateCall)"
proof (rule exec_okI' [OF stable_give(2)])
  fix C E m xs n
  assume "6 \<le> length xs" "stk m = mkStack xs" and ok: "mem_sized (mem m)" and mc: "mem_covers (Some memoryDelegateCall) m"
    and C: "ctx_ok n C" and gas: "m_gas m + give_temp m < n" "m_gas m + give_temp m < 2 ^ 64"
  then obtain a b c d e f ys where st: "stk m = mkStack (a # b # c # d # e # f # ys)"
    by (auto simp: length_ge)
  note cov = call6_covers [OF mc disjI1 [OF refl] st]
  have "call_ok (evm m) (callGasTemp (evm m)) (cc_DelegateCall C r t args (callGasTemp (evm m)) (evm m))" for r t args
    using C gas(1) unfolding ctx_ok_def by (simp add: give_temp_def)
  note call = sat_call [OF this ok cov(2) eq_imp_le [OF give_temp_def [symmetric]] gas(2), of 6 ys]
  with st ok cov show "sat (exec_post 6 1 (give_temp m) m) (opDelegateCall C E m)"
    by (auto simp: opDelegateCall_def pop_def Let_def simp del: sat_bnd intro!: sat_mem_ptr)
qed

lemma exec_staticcall [exec_facts]: "exec_ok opStaticCall 6 1 give_temp (Some memoryStaticCall)"
proof (rule exec_okI' [OF stable_give(2)])
  fix C E m xs n
  assume "6 \<le> length xs" "stk m = mkStack xs" and ok: "mem_sized (mem m)" and mc: "mem_covers (Some memoryStaticCall) m"
    and C: "ctx_ok n C" and gas: "m_gas m + give_temp m < n" "m_gas m + give_temp m < 2 ^ 64"
  then obtain a b c d e f ys where st: "stk m = mkStack (a # b # c # d # e # f # ys)"
    by (auto simp: length_ge)
  note cov = call6_covers [OF mc disjI2 [OF refl] st]
  have "call_ok (evm m) (callGasTemp (evm m)) (cc_StaticCall C r t args (callGasTemp (evm m)) (evm m))" for r t args
    using C gas(1) unfolding ctx_ok_def by (simp add: give_temp_def)
  note call = sat_call [OF this ok cov(2) eq_imp_le [OF give_temp_def [symmetric]] gas(2), of 6 ys]
  with st ok cov show "sat (exec_post 6 1 (give_temp m) m) (opStaticCall C E m)"
    by (auto simp: opStaticCall_def pop_def Let_def simp del: sat_bnd intro!: sat_mem_ptr)
qed

text \<open>Creation hands out part of the gas and takes back what is left.\<close>

lemma used_gas: "unat g \<le> m_gas m \<Longrightarrow> unat (Gas (fst (UseGas g (ctr m)))) = m_gas m - unat g"
  by (auto simp: UseGas_def word_less_nat_alt unat_sub_if')

lemma sat_finish_create:
  assumes "create_ok (evm m) g r" and "unat g \<le> m_gas m"
    and "\<And>ev a ret g' err. call_post (evm m) g ev g' \<Longrightarrow>
      kept m (f ev a err) \<and> ctr (f ev a err) = fst (UseGas g (ctr m)) \<and> Len (stk (f ev a err)) = Len (stk m) - p + 1"
  shows "sat (exec_post p 1 0 m) (bnd r (\<lambda>(ev, res, addr, returnGas, suberr).
     finish_create res returnGas suberr (f ev addr suberr)))"
proof -
  have "unat (Gas (fst (UseGas g (ctr m))) + g') \<le> m_gas m" if "unat g' \<le> unat g" for g'
  proof -
    have "m_gas m - unat g + unat g' \<le> m_gas m" using that assms(2) by simp
    moreover have "m_gas m < 2 ^ 64" by (rule unat_u64_bound)
    ultimately show ?thesis using used_gas [OF assms(2)] by (simp add: unat_add_no_wrap)
  qed
  with assms show ?thesis
    by (auto simp: create_ok_def finish_create_def add_gas_def set_returnData_def opret_def exec_post_def kept_def
        call_post_def Let_def elim!: sat_mono)
qed

lemma exec_create [exec_facts]: "exec_ok opCreate 3 1 nothing (Some memoryCreate)"
proof (rule exec_okI' [OF stable_give(1)])
  fix C :: callctx and E :: env and m :: machine and xs n
  assume "3 \<le> length xs" "stk m = mkStack xs" and ok: "mem_sized (mem m)" and mc: "mem_covers (Some memoryCreate) m"
    and C: "ctx_ok n C" and gas: "m_gas m + nothing m < n" "m_gas m + nothing m < 2 ^ 64"
  then obtain a b c ys v where st: "stk m = mkStack (a # b # c # ys)"
    and v: "calcMemSize64 b c = (v, False)" "unat v \<le> length (store (mem m))"
    by (auto simp: length_ge mem_covers_def memory_size_defs mem_size2_def)
  let ?g = "if IsTangerineWhistle (chainRules E) then Gas (ctr m) - Gas (ctr m) div 64 else Gas (ctr m)"
  let ?m = "m\<lparr>stk := mkStack (c # ys), ctr := fst (UseGas ?g (ctr m))\<rparr>"
  have le: "unat ?g \<le> m_gas m" by (simp add: unat_sub_if' unat_div div_le_dividend)
  have "create_ok (evm m) ?g (cc_Create C r input ?g a (evm m))" for r input
    using C gas(1) le unfolding ctx_ok_def by (simp split del: if_split)
  note call = sat_finish_create [OF this le, of "\<lambda>ev addr suberr. settop
      (if IsHomestead (chainRules E) \<and> suberr = Some ErrCodeStoreOutOfGas then 0
       else if suberr \<noteq> None \<and> suberr \<noteq> Some ErrCodeStoreOutOfGas then 0 else address_word addr) (?m\<lparr>evm := ev\<rparr>)" 3]
  show "sat (exec_post 3 1 (nothing m) m) (opCreate C E m)"
  proof (cases "readOnly (evm m)")
    case True
    then show ?thesis by (simp add: opCreate_def operr_def exec_post_def kept_def)
  next
    case False
    then show ?thesis using st ok calc_covers [OF v] call
      by (auto simp: opCreate_def pop_def peek_def settop_def kept_def call_post_def Let_def
          simp del: sat_bnd split del: if_split cong: if_cong intro!: sat_mem_copy)
  qed
qed

lemma exec_create2 [exec_facts]: "exec_ok opCreate2 4 1 nothing (Some memoryCreate2)"
proof (rule exec_okI' [OF stable_give(1)])
  fix C :: callctx and E :: env and m :: machine and xs n
  assume "4 \<le> length xs" "stk m = mkStack xs" and ok: "mem_sized (mem m)" and mc: "mem_covers (Some memoryCreate2) m"
    and C: "ctx_ok n C" and gas: "m_gas m + nothing m < n" "m_gas m + nothing m < 2 ^ 64"
  then obtain a b c d ys v where st: "stk m = mkStack (a # b # c # d # ys)"
    and v: "calcMemSize64 b c = (v, False)" "unat v \<le> length (store (mem m))"
    by (auto simp: length_ge mem_covers_def memory_size_defs mem_size2_def)
  let ?g = "Gas (ctr m) - Gas (ctr m) div 64"
  let ?m = "m\<lparr>stk := mkStack ys, ctr := fst (UseGas ?g (ctr m))\<rparr>"
  have le: "unat ?g \<le> m_gas m" by (simp add: unat_sub_if' unat_div div_le_dividend)
  have "create_ok (evm m) ?g (cc_Create2 C r input ?g a d (evm m))" for r input
    using C gas(1) le unfolding ctx_ok_def by simp
  note call = sat_finish_create [OF this le, of "\<lambda>ev addr suberr.
      push (if suberr \<noteq> None then 0 else address_word addr) (?m\<lparr>evm := ev\<rparr>)" 4]
  show "sat (exec_post 4 1 (nothing m) m) (opCreate2 C E m)"
  proof (cases "readOnly (evm m)")
    case True
    then show ?thesis by (simp add: opCreate2_def operr_def exec_post_def kept_def)
  next
    case False
    then show ?thesis using st ok calc_covers [OF v] call
      by (auto simp: opCreate2_def pop_def push_def kept_def call_post_def Let_def
          simp del: sat_bnd split del: if_split cong: if_cong intro!: sat_mem_copy)
  qed
qed

section \<open>More fuel\<close>

text \<open>A run that returned, or panicked, does the same when the calls it makes have more fuel.\<close>

definition res_le :: "'a res \<Rightarrow> 'a res \<Rightarrow> bool" where
  "res_le r r' \<longleftrightarrow> r = NoFuel \<or> r = r'"

lemma res_le_refl [simp]: "res_le r r"
  by (simp add: res_le_def)

lemma res_le_bnd: "res_le r r' \<Longrightarrow> (\<And>x. r = Ok x \<Longrightarrow> res_le (f x) (f' x)) \<Longrightarrow> res_le (bnd r f) (bnd r' f')"
  by (cases r) (auto simp: res_le_def)

definition ctx_le :: "callctx \<Rightarrow> callctx \<Rightarrow> bool" where
  "ctx_le C C' \<longleftrightarrow>
     (\<forall>c a d g v ev. res_le (cc_Call C c a d g v ev) (cc_Call C' c a d g v ev)) \<and>
     (\<forall>c a d g v ev. res_le (cc_CallCode C c a d g v ev) (cc_CallCode C' c a d g v ev)) \<and>
     (\<forall>c a d g ev. res_le (cc_DelegateCall C c a d g ev) (cc_DelegateCall C' c a d g ev)) \<and>
     (\<forall>c a d g ev. res_le (cc_StaticCall C c a d g ev) (cc_StaticCall C' c a d g ev)) \<and>
     (\<forall>c d g v ev. res_le (cc_Create C c d g v ev) (cc_Create C' c d g v ev)) \<and>
     (\<forall>c d g v s ev. res_le (cc_Create2 C c d g v s ev) (cc_Create2 C' c d g v s ev))"

definition mono_exec :: "executionFunc \<Rightarrow> bool" where
  "mono_exec ex \<longleftrightarrow> (\<forall>C C' E m. ctx_le C C' \<longrightarrow> res_le (ex C E m) (ex C' E m))"

lemma mono_calls [exec_facts]:
  "mono_exec opCall" "mono_exec opCallCode" "mono_exec opDelegateCall" "mono_exec opStaticCall"
  "mono_exec opCreate" "mono_exec opCreate2"
  by (auto simp: mono_exec_def opCall_def opCallCode_def opDelegateCall_def opStaticCall_def opCreate_def opCreate2_def
      pop_def peek_def mem_ptr_def mem_copy_def ctx_le_def Let_def intro!: res_le_bnd)

lemma mono_rest [exec_facts]:
  "mono_exec opAdd" "mono_exec opSub" "mono_exec opMul" "mono_exec opDiv" "mono_exec opSdiv" "mono_exec opMod"
  "mono_exec opSmod" "mono_exec opExp" "mono_exec opSignExtend" "mono_exec opNot" "mono_exec opLt"
  "mono_exec opGt" "mono_exec opSlt" "mono_exec opSgt" "mono_exec opEq" "mono_exec opIszero" "mono_exec opAnd"
  "mono_exec opOr" "mono_exec opXor" "mono_exec opByte" "mono_exec opAddmod" "mono_exec opMulmod"
  "mono_exec opSHL" "mono_exec opSHR" "mono_exec opSAR" "mono_exec opKeccak256" "mono_exec opAddress"
  "mono_exec opBalance" "mono_exec opOrigin" "mono_exec opCaller" "mono_exec opCallValue"
  "mono_exec opCallDataLoad" "mono_exec opCallDataSize" "mono_exec opCallDataCopy" "mono_exec opReturnDataSize"
  "mono_exec opReturnDataCopy" "mono_exec opExtCodeSize" "mono_exec opCodeSize" "mono_exec opCodeCopy"
  "mono_exec opExtCodeCopy" "mono_exec opExtCodeHash" "mono_exec opGasprice" "mono_exec opBlockhash"
  "mono_exec opCoinbase" "mono_exec opTimestamp" "mono_exec opNumber" "mono_exec opDifficulty"
  "mono_exec opGasLimit" "mono_exec opSelfBalance" "mono_exec opChainID" "mono_exec opBaseFee"
  "mono_exec opPop" "mono_exec opMload" "mono_exec opMstore" "mono_exec opMstore8" "mono_exec opSload"
  "mono_exec opSstore" "mono_exec opJump" "mono_exec opJumpi" "mono_exec opJumpdest" "mono_exec opPc"
  "mono_exec opMsize" "mono_exec opGas" "mono_exec opReturn" "mono_exec opRevert" "mono_exec opUndefined"
  "mono_exec opStop" "mono_exec opSelfdestruct" "mono_exec opPush0" "mono_exec opPush1" "mono_exec (makeLog n)"
  "mono_exec (makePush i j)" "mono_exec (makeDup n)" "mono_exec (makeSwap n)"
  by (simp_all add: mono_exec_def instr_defs)

end
