(* ===== verification/GasSafe.thy ===== *)
theory GasSafe
  imports InstrSafe
begin

text \<open>
  What every gas function respects. A gas function that finds the operands its opcode
  announces never indexes outside the stack; it keeps the stack, the contents of the memory,
  the call depth, the read-only flag and, unless it fails, the gas of the contract; it records
  the fee of the new memory size; and the gas it asks for covers what the instruction will
  hand to the frame it calls, including the stipend.
\<close>

definition dyn_post :: "nat \<Rightarrow> (machine \<Rightarrow> nat) \<Rightarrow> machine \<Rightarrow> u64 \<Rightarrow> machine \<times> u64 \<times> evm_error option \<Rightarrow> bool" where
  "dyn_post k give m sz r \<longleftrightarrow>
     (case r of (m', cost, err) \<Rightarrow>
        depth (evm m') = depth (evm m) \<and> readOnly (evm m') = readOnly (evm m) \<and> m_gas m' \<le> m_gas m \<and>
        (err = None \<longrightarrow>
           stk m' = stk m \<and> Gas (ctr m') = Gas (ctr m) \<and> store (mem m') = store (mem m) \<and>
           unat sz \<le> max_mem \<and> unat (lastGasCost (mem m')) = mem_fee (words_for (mem m) sz) \<and>
           k + give m' \<le> unat cost))"

definition dyn_ok ::
  "env \<Rightarrow> gasFunc \<Rightarrow> nat \<Rightarrow> nat \<Rightarrow> (machine \<Rightarrow> nat) \<Rightarrow> memorySizeFunc option \<Rightarrow> bool" where
  "dyn_ok E dyn p k give ms \<longleftrightarrow>
     (\<forall>m sz. p \<le> Len (stk m) \<longrightarrow> mem_ok (mem m) \<longrightarrow> (ms = None \<longrightarrow> sz = 0) \<longrightarrow>
        sat (dyn_post k give m sz) (dyn E m sz))"

lemma dyn_okI:
  assumes "\<And>m sz xs. p \<le> length xs \<Longrightarrow> stk m = mkStack xs \<Longrightarrow> mem_ok (mem m) \<Longrightarrow> (ms = None \<Longrightarrow> sz = 0) \<Longrightarrow>
     sat (dyn_post k give m sz) (dyn E m sz)"
  shows "dyn_ok E dyn p k give ms"
  unfolding dyn_ok_def using assms stack_cases by metis

section \<open>Rules for the combinators\<close>

lemma sat_checked:
  assumes "P (m, 0, Some ErrGasUintOverflow)" and "\<not> snd p \<Longrightarrow> sat P (k (fst p))"
  shows "sat P (checked p m k)"
  using assms by (simp add: checked_def gaserr_def)

lemma words_for_bound: "mem_ok m \<Longrightarrow> unat sz \<le> max_mem \<Longrightarrow> mem_fee (words_for m sz) < 2 ^ 56"
  by (rule mem_fee_bound) (auto simp: words_for_def mem_ok_def mem_sized_def max_mem_def)

lemma sat_memgas:
  assumes "mem_ok (mem m)"
    and "\<And>mm e. P (m\<lparr>mem := mm\<rparr>, 0, Some e)"
    and "\<And>mm fee. store mm = store (mem m) \<Longrightarrow> unat sz \<le> max_mem \<Longrightarrow>
      unat (lastGasCost mm) = mem_fee (words_for (mem m) sz) \<Longrightarrow> unat fee < 2 ^ 56 \<Longrightarrow>
      sat P (k fee (m\<lparr>mem := mm\<rparr>))"
  shows "sat P (memgas m sz k)"
proof -
  obtain mm fee err where r: "memoryGasCost (mem m) sz = (mm, fee, err)" by (metis prod_cases3)
  show ?thesis
  proof (cases err)
    case None
    with r memoryGasCost_spec [OF assms(1), of sz mm fee] words_for_bound [OF assms(1), of sz] assms(3) [of mm fee]
    show ?thesis by (simp add: memgas_def)
  next
    case (Some e)
    with r assms(2) show ?thesis by (simp add: memgas_def gaserr_def)
  qed
qed

lemma words_for_0: "words_for m 0 = length (store m) div 32"
  by (simp add: words_for_def)

lemma mem_ok_fee: "mem_ok m \<Longrightarrow> unat (lastGasCost m) = mem_fee (words_for m 0)"
  by (simp add: mem_ok_def words_for_0)

lemma sat_stread_res:
  "fine (f (m_ibs m)) \<Longrightarrow> (\<And>v s. sat P (k v (set_ibs s m))) \<Longrightarrow> sat P (stread_res f m k)"
  by (auto simp: stread_res_def elim!: fine_sat)

lemma sat_stread: "(\<And>v s. sat P (k v (set_ibs s m))) \<Longrightarrow> sat P (stread f m k)"
  by (simp add: stread_def split: prod.splits)

lemma unat_SafeAdd: "\<not> snd (SafeAdd x y) \<Longrightarrow> unat (fst (SafeAdd x y)) = unat x + unat y"
  by (simp add: SafeAdd_def unat_add_no_wrap)

named_theorems dyn_facts

lemmas gas_defs = dyn_post_def gasret_def gaserr_def nth_back_def peek_def

lemmas sat_gas = sat_checked sat_memgas sat_stread_res sat_stread

section \<open>Memory and copies\<close>

lemma dyn_pure: "dyn_ok E pureMemoryGascost 0 0 nothing (Some f)"
  by (rule dyn_okI) (auto simp: pureMemoryGascost_def gas_defs intro!: sat_memgas)

lemma dyn_mono: "dyn_ok E d 0 k give ms \<Longrightarrow> dyn_ok E d p k give ms"
  by (simp add: dyn_ok_def)

lemma dyn_memory [dyn_facts]:
  "dyn_ok E gasReturn p 0 nothing (Some f)" "dyn_ok E gasRevert p 0 nothing (Some f)"
  "dyn_ok E gasMLoad p 0 nothing (Some f)" "dyn_ok E gasMStore8 p 0 nothing (Some f)"
  "dyn_ok E gasMStore p 0 nothing (Some f)" "dyn_ok E gasCreate p 0 nothing (Some f)"
  by (simp_all add: gasReturn_def gasRevert_def gasMLoad_def gasMStore8_def gasMStore_def gasCreate_def
      dyn_mono [OF dyn_pure])

lemma dyn_copies [dyn_facts]:
  "dyn_ok E gasCallDataCopy 3 0 nothing (Some f)" "dyn_ok E gasCodeCopy 3 0 nothing (Some f)"
  "dyn_ok E gasReturnDataCopy 3 0 nothing (Some f)" "dyn_ok E gasExtCodeCopy 4 0 nothing (Some f)"
  by (rule dyn_okI, auto simp: gasCallDataCopy_def gasCodeCopy_def gasReturnDataCopy_def gasExtCodeCopy_def
      memoryCopierGas_def length_ge gas_defs intro!: sat_memgas sat_checked)+

lemma dyn_hash [dyn_facts]:
  "dyn_ok E gasKeccak256 2 0 nothing (Some f)" "dyn_ok E gasCreate2 4 0 nothing (Some f)"
  "dyn_ok E gasCreateEip3860 3 0 nothing (Some f)" "dyn_ok E gasCreate2Eip3860 4 0 nothing (Some f)"
  by (rule dyn_okI, auto simp: gasKeccak256_def gasCreate2_def gasCreateEip3860_def gasCreate2Eip3860_def
      length_ge gas_defs Let_def split: prod.splits intro!: sat_memgas sat_checked)+

lemma dyn_log [dyn_facts]: "dyn_ok E (makeGasLog n) (k + 2) 1 nothing (Some f)"
proof (rule dyn_okI)
  fix m :: machine and sz xs
  assume "k + 2 \<le> length xs" "stk m = mkStack xs" and ok: "mem_ok (mem m)"
  then obtain a b ys where st: "stk m = mkStack (a # b # ys)" by (cases xs; cases "tl xs") auto
  have pos: "1 \<le> unat (fst (SafeAdd (fst (SafeAdd (fst (SafeAdd g LogGas)) y)) z))"
    if "\<not> snd (SafeAdd g LogGas)" "\<not> snd (SafeAdd (fst (SafeAdd g LogGas)) y)"
      "\<not> snd (SafeAdd (fst (SafeAdd (fst (SafeAdd g LogGas)) y)) z)" for g y z
    using that by (simp add: unat_SafeAdd) (simp add: param_defs)
  show "sat (dyn_post 1 nothing m sz) (makeGasLog n E m sz)" using st ok
    by (auto simp: makeGasLog_def gas_defs Let_def pos Suc_leI [of 0] intro!: sat_memgas sat_checked pos [simplified])
qed

section \<open>Exponentiation and storage\<close>

lemma dyn_exp [dyn_facts]:
  "dyn_ok E gasExpFrontier 2 1 nothing None" "dyn_ok E gasExpEIP160 2 1 nothing None"
  by (rule dyn_okI, auto simp: gasExpFrontier_def gasExpEIP160_def length_ge gas_defs mem_ok_fee unat_SafeAdd Let_def
      intro!: sat_checked, simp add: param_defs)+

lemma set_ibs_simps [simp]:
  "stk (set_ibs s m) = stk m" "mem (set_ibs s m) = mem m" "ctr (set_ibs s m) = ctr m"
  "depth (evm (set_ibs s m)) = depth (evm m)" "readOnly (evm (set_ibs s m)) = readOnly (evm m)"
  "stk (stdo f m) = stk m" "mem (stdo f m) = mem m" "ctr (stdo f m) = ctr m"
  "depth (evm (stdo f m)) = depth (evm m)" "readOnly (evm (stdo f m)) = readOnly (evm m)"
  by (simp_all add: set_ibs_def stdo_def)

lemma dyn_sstore [dyn_facts]: "dyn_ok E gasSStore 2 1 nothing None"
  by (rule dyn_okI, auto simp: gasSStore_def length_ge gas_defs mem_ok_fee Let_def param_defs
      intro!: sat_stread_res)

lemma dyn_sstore2200 [dyn_facts]: "dyn_ok E gasSStoreEIP2200 2 1 nothing None"
  by (rule dyn_okI, auto simp: gasSStoreEIP2200_def length_ge gas_defs mem_ok_fee Let_def param_defs
      intro!: sat_stread_res)

lemma sat_warm_slot:
  assumes "\<And>s. sat P (k ColdSloadCostEIP2929 (set_ibs s m))" and "sat P (k 0 m)"
  shows "sat P (warm_slot a slot m k)"
  using assms unfolding warm_slot_def
  by (auto intro!: fine_rules split: prod.splits)

lemma dyn_makeSStore: "dyn_ok E (makeGasSStoreFunc r) 2 1 nothing None"
  by (rule dyn_okI, auto simp: makeGasSStoreFunc_def length_ge gas_defs mem_ok_fee Let_def param_defs
      intro!: sat_stread_res sat_warm_slot)

lemma dyn_sload [dyn_facts]: "dyn_ok E gasSLoadEIP2929 1 1 nothing None"
  by (rule dyn_okI, auto simp: gasSLoadEIP2929_def length_ge gas_defs mem_ok_fee param_defs
      intro!: fine_rules)

lemma dyn_sstore2929 [dyn_facts]:
  "dyn_ok E gasSStoreEIP2929 2 1 nothing None" "dyn_ok E gasSStoreEIP3529 2 1 nothing None"
  unfolding gasSStoreEIP2929_def gasSStoreEIP3529_def by (rule dyn_makeSStore)+

section \<open>Account access\<close>

lemma dyn_account [dyn_facts]: "dyn_ok E gasEip2929AccountCheck 1 0 nothing None"
  by (rule dyn_okI, auto simp: gasEip2929AccountCheck_def length_ge gas_defs mem_ok_fee)

lemma dyn_extcodecopy [dyn_facts]: "dyn_ok E gasExtCodeCopyEIP2929 4 0 nothing (Some f)"
proof (rule dyn_okI)
  fix m :: machine and sz xs
  assume "4 \<le> length xs" "stk m = mkStack xs" and "mem_ok (mem m)"
  then have "sat (dyn_post 0 nothing m sz) (gasExtCodeCopy E m sz)"
    using dyn_copies(4) [of E f] by (simp add: dyn_ok_def)
  moreover obtain a ys where "stk m = mkStack (a # ys)" using \<open>4 \<le> _\<close> \<open>stk m = _\<close> by (auto simp: length_ge)
  ultimately show "sat (dyn_post 0 nothing m sz) (gasExtCodeCopyEIP2929 E m sz)"
    unfolding gasExtCodeCopyEIP2929_def
    by (auto simp: gas_defs Let_def split: option.splits elim!: sat_mono intro!: sat_checked)
qed

lemma dyn_selfdestruct [dyn_facts]:
  "dyn_ok E gasSelfdestruct 1 0 nothing None" "dyn_ok E gasSelfdestructEIP2929 1 0 nothing None"
  "dyn_ok E gasSelfdestructEIP3529 1 0 nothing None"
  by (rule dyn_okI, auto simp: gasSelfdestruct_def gasSelfdestructEIP2929_def gasSelfdestructEIP3529_def
      makeSelfdestructGasFn_def empty_and_pays_def selfdestruct_refund_def stread_def length_ge gas_defs mem_ok_fee
      Let_def split: prod.splits)+

section \<open>Calls\<close>

text \<open>With the 63/64 rule of EIP-150 the price of a call is within the gas of the caller, or so
  far from wrapping around that the cold-access surcharge can be added.\<close>

definition affordable :: "env \<Rightarrow> machine \<Rightarrow> machine \<times> u64 \<times> evm_error option \<Rightarrow> bool" where
  "affordable E m r \<longleftrightarrow>
     (case r of (m', cost, err) \<Rightarrow> IsTangerineWhistle (chainRules E) \<longrightarrow> err = None \<longrightarrow>
        unat cost \<le> m_gas m \<or> unat cost + 2500 < 2 ^ 64)"

lemma eip150_price:
  fixes G b :: u64
  assumes "unat b < 2 ^ 57" and t: "unat t \<le> unat (G - b) - unat (G - b) div 64"
  shows "unat b + unat t \<le> unat G \<or> unat b + unat t + 2500 < 2 ^ 64"
proof (cases "unat b \<le> unat G")
  case True
  then have "unat (G - b) = unat G - unat b" by (simp add: unat_sub_if')
  then show ?thesis using t True by linarith
next
  case False
  then have "unat (G - b) = 18446744073709551616 + unat G - unat b" by (simp add: unat_sub_if')
  moreover have "unat b < 144115188075855872" using assms(1) by simp
  ultimately have "unat b + unat t + 2500 < 18446744073709551616" using t False by linarith
  then show ?thesis by simp
qed

lemma sat_charge_call:
  assumes st: "stk m = mkStack (c # ys)" and small: "unat gas < 2 ^ 57"
    and fail: "\<And>t e. P (m\<lparr>evm := (evm m)\<lparr>callGasTemp := t\<rparr>\<rparr>, 0, Some e)"
    and ok: "\<And>t cost. unat cost = unat gas + unat t \<Longrightarrow>
      (IsTangerineWhistle (chainRules E) \<Longrightarrow> unat cost \<le> m_gas m \<or> unat cost + 2500 < 2 ^ 64) \<Longrightarrow>
      P (m\<lparr>evm := (evm m)\<lparr>callGasTemp := t\<rparr>\<rparr>, cost, None)"
  shows "sat P (charge_call E gas m)"
proof -
  obtain t err where g: "callGas (IsTangerineWhistle (chainRules E)) (Gas (ctr m)) gas c = (t, err)"
    by fastforce
  have "P (m\<lparr>evm := (evm m)\<lparr>callGasTemp := t\<rparr>\<rparr>, fst (SafeAdd gas t), None)"
    if safe: "\<not> snd (SafeAdd gas t)"
  proof (rule ok)
    show cost: "unat (fst (SafeAdd gas t)) = unat gas + unat t" using unat_SafeAdd [OF safe] .
    show "unat (fst (SafeAdd gas t)) \<le> m_gas m \<or> unat (fst (SafeAdd gas t)) + 2500 < 2 ^ 64"
      if "IsTangerineWhistle (chainRules E)"
      unfolding cost using callGas_eip150(2) [of "Gas (ctr m)" gas c t err] g that small
      by (intro eip150_price) simp_all
  qed
  then show ?thesis using g st fail
    by (auto simp: charge_call_def nth_back_def gaserr_def gasret_def Let_def split: option.splits intro!: sat_checked)
qed

definition call_dyn_ok :: "env \<Rightarrow> gasFunc \<Rightarrow> nat \<Rightarrow> (machine \<Rightarrow> nat) \<Rightarrow> bool" where
  "call_dyn_ok E dyn p give \<longleftrightarrow>
     (\<forall>m sz. p \<le> Len (stk m) \<longrightarrow> mem_ok (mem m) \<longrightarrow>
        sat (\<lambda>r. dyn_post 0 give m sz r \<and> affordable E m r) (dyn E m sz))"

lemma call_dyn_okI:
  assumes "\<And>m sz xs. p \<le> length xs \<Longrightarrow> stk m = mkStack xs \<Longrightarrow> mem_ok (mem m) \<Longrightarrow>
     sat (\<lambda>r. dyn_post 0 give m sz r \<and> affordable E m r) (dyn E m sz)"
  shows "call_dyn_ok E dyn p give"
  unfolding call_dyn_ok_def using assms stack_cases by metis

lemma call_dyn_delegate:
  "call_dyn_ok E gasDelegateCall 6 give_temp" "call_dyn_ok E gasStaticCall 6 give_temp"
  by (rule call_dyn_okI, auto simp: gasDelegateCall_def gasStaticCall_def length_ge gas_defs affordable_def
      give_temp_def intro!: sat_memgas sat_charge_call)+

lemma call_dyn_code: "call_dyn_ok E gasCallCode 7 give_value"
proof (rule call_dyn_okI)
  fix m :: machine and sz xs
  assume "7 \<le> length xs" "stk m = mkStack xs" and ok: "mem_ok (mem m)"
  then obtain a b v c ys where "stk m = mkStack (a # b # v # c # ys)" by (auto simp: length_ge)
  then show "sat (\<lambda>r. dyn_post 0 give_value m sz r \<and> affordable E m r) (gasCallCode E m sz)" using ok
    by (auto simp: gasCallCode_def gas_defs affordable_def give_value_def give_temp_def unat_SafeAdd Let_def
        intro!: sat_memgas sat_checked sat_charge_call) (simp_all add: param_defs)
qed

lemma sat_new_account:
  assumes "\<And>g s. g = 0 \<or> g = CallNewAccountGas \<Longrightarrow> sat P (k g (set_ibs s m))"
  shows "sat P (new_account_gas E t a m k)"
proof -
  have same: "set_ibs (m_ibs m) m = m" by (simp add: set_ibs_def)
  show ?thesis using assms assms [of 0 "m_ibs m"]
    by (auto simp: new_account_gas_def stread_def same split: prod.splits)
qed

lemma call_dyn_call: "call_dyn_ok E gasCall 7 give_value"
proof (rule call_dyn_okI)
  fix m :: machine and sz xs
  assume "7 \<le> length xs" "stk m = mkStack xs" and ok: "mem_ok (mem m)"
  then obtain a b v c ys where "stk m = mkStack (a # b # v # c # ys)" by (auto simp: length_ge)
  then show "sat (\<lambda>r. dyn_post 0 give_value m sz r \<and> affordable E m r) (gasCall E m sz)" using ok
    by (auto simp: gasCall_def gas_defs affordable_def give_value_def give_temp_def unat_SafeAdd Let_def
        intro!: sat_new_account sat_memgas sat_checked sat_charge_call) (simp_all add: param_defs)
qed

lemmas call_dyn = call_dyn_delegate call_dyn_code call_dyn_call

lemma dyn_calls [dyn_facts]:
  "dyn_ok E gasDelegateCall 6 0 give_temp (Some f)" "dyn_ok E gasStaticCall 6 0 give_temp (Some f)"
  "dyn_ok E gasCallCode 7 0 give_value (Some f)" "dyn_ok E gasCall 7 0 give_value (Some f)"
  using call_dyn [of E] unfolding call_dyn_ok_def dyn_ok_def by (blast intro: sat_mono)+

text \<open>The cold-access surcharge is charged before the 63/64 rule and given back, so that it is
  charged with the rest.\<close>

lemma give_ctr [simp]: "give_temp (m\<lparr>ctr := c\<rparr>) = give_temp m" "give_value (m\<lparr>ctr := c\<rparr>) = give_value m"
  by (simp_all add: give_temp_def give_value_def)

lemma dyn_variant:
  assumes old: "call_dyn_ok E old p give" and "IsTangerineWhistle (chainRules E)" and "2 \<le> p"
    and give: "\<And>m c. give (m\<lparr>ctr := c\<rparr>) = give m"
  shows "dyn_ok E (makeCallVariantGasCallEIP2929 old) p 0 give (Some f)"
proof (rule dyn_okI)
  fix m :: machine and sz xs
  assume p: "p \<le> length xs" "stk m = mkStack xs" and ok: "mem_ok (mem m)"
  then have b1: "Back 1 (stk m) = Ok (xs ! 1)" using \<open>2 \<le> p\<close> by (simp add: Back_mkStack)
  let ?a = "Bytes20 (xs ! 1)" and ?cold = "ColdAccountAccessCostEIP2929 - WarmStorageReadCostEIP2929"
  have cold: "unat ?cold = 2500" by (simp add: param_defs)
  note run = old [unfolded call_dyn_ok_def, rule_format]
  show "sat (dyn_post 0 give m sz) (makeCallVariantGasCallEIP2929 old E m sz)"
  proof (cases "AddressInAccessList ?a (m_ibs m)")
    case True
    with b1 run [of m sz] p ok show ?thesis
      by (auto simp: makeCallVariantGasCallEIP2929_def nth_back_def elim!: sat_mono)
  next
    case False
    let ?m = "(stdo (AddAddressToAccessList ?a) m)\<lparr>ctr := fst (UseGas ?cold (ctr m))\<rparr>"
    show ?thesis
    proof (cases "Gas (ctr m) < ?cold")
      case True
      with False b1 show ?thesis
        by (simp add: makeCallVariantGasCallEIP2929_def nth_back_def UseGas_def gaserr_def dyn_post_def Let_def)
    next
      case enough: False
      then have gas: "m_gas ?m + 2500 = m_gas m" using used_gas [of ?cold m] cold
        by (simp add: word_less_nat_alt)
      have r: "sat (\<lambda>r. dyn_post 0 give ?m sz r \<and> affordable E ?m r) (old E ?m sz)"
        using run [of ?m sz] p ok by simp
      define fx where "fx = (\<lambda>(m' :: machine, gas, err). case err of Some e \<Rightarrow> (m', gas, Some e)
         | None \<Rightarrow> (m'\<lparr>ctr := (ctr m')\<lparr>Gas := Gas (ctr m') + ?cold\<rparr>\<rparr>, gas + ?cold, None :: evm_error option))"
      have eq: "makeCallVariantGasCallEIP2929 old E m sz = bnd (old E ?m sz) (\<lambda>r. Ok (fx r))"
        using False enough b1 unfolding fx_def makeCallVariantGasCallEIP2929_def nth_back_def UseGas_def gasret_def
        by (auto simp: Let_def split: option.splits intro!: arg_cong [of _ _ "bnd _"])
      have "dyn_post 0 give m sz (fx r)" if "dyn_post 0 give ?m sz r \<and> affordable E ?m r" for r
      proof (cases r)
        case (fields m' g err)
        have "unat (g + ?cold) = unat g + 2500" if "unat g \<le> m_gas ?m \<or> unat g + 2500 < 2 ^ 64"
          using that gas unat_u64_bound [of "Gas (ctr m)"] cold by (auto simp: unat_add_no_wrap)
        with that fields gas assms(2) enough show ?thesis
          by (auto simp: dyn_post_def affordable_def give UseGas_def fx_def split: option.splits)
      qed
      with r show ?thesis unfolding eq by (simp add: sat_mono)
    qed
  qed
qed

lemma dyn_calls2929 [dyn_facts]:
  assumes "IsTangerineWhistle (chainRules E)"
  shows "dyn_ok E gasDelegateCallEIP2929 6 0 give_temp (Some f)" "dyn_ok E gasStaticCallEIP2929 6 0 give_temp (Some f)"
    "dyn_ok E gasCallCodeEIP2929 7 0 give_value (Some f)" "dyn_ok E gasCallEIP2929 7 0 give_value (Some f)"
  unfolding gasDelegateCallEIP2929_def gasStaticCallEIP2929_def gasCallCodeEIP2929_def gasCallEIP2929_def
  by (rule dyn_variant [OF _ assms]; simp add: call_dyn)+

end
