(* ===== verification/TableSafe.thy ===== *)
theory TableSafe
  imports GasSafe "HOL-Library.AList"
begin

text \<open>
  Every instruction set is built without a panic, and each of its entries describes its
  instruction: the operands and results, the memory it touches, the gas it charges. The
  entries later sets update are followed exactly (\<open>known\<close>); the others come from the frontier
  table.
\<close>

section \<open>What an entry promises\<close>

definition size_ok :: "operation \<Rightarrow> bool" where
  "size_ok op \<longleftrightarrow>
     (case memorySize op of None \<Rightarrow> True | Some f \<Rightarrow> \<forall>st. numPop op \<le> int (Len st) \<longrightarrow> fine (f st))"

definition op_ok :: "env \<Rightarrow> operation \<Rightarrow> bool" where
  "op_ok E op \<longleftrightarrow> 0 \<le> numPop op \<and> 0 \<le> numPush op \<and> size_ok op \<and> mono_exec (execute op) \<and>
     (\<exists>give k. exec_ok (execute op) (nat (numPop op)) (nat (numPush op)) give (memorySize op) \<and>
        (case dynamicGas op of
           None \<Rightarrow> memorySize op = None \<and> k = 0 \<and> give = nothing
         | Some dyn \<Rightarrow> dyn_ok E dyn (nat (numPop op)) k give (memorySize op)) \<and>
        (0 < k + unat (constantGas op) \<or> halting (execute op)))"

lemma op_ok_max [simp]: "op_ok E (op\<lparr>maxStack_of := x\<rparr>) = op_ok E op"
  by (simp add: op_ok_def size_ok_def cong: option.case_cong)

lemma op_ok_flags [simp]:
  "op_ok E (op\<lparr>isPush := b, opNum := n\<rparr>) = op_ok E op"
  "op_ok E (op\<lparr>isDup := b, opNum := n\<rparr>) = op_ok E op"
  "op_ok E (op\<lparr>isSwap := b, opNum := n\<rparr>) = op_ok E op"
  by (simp_all add: op_ok_def size_ok_def cong: option.case_cong)

lemma op_ok_simple:
  assumes "exec_ok ex (nat p) (nat q) nothing None" and "0 \<le> p" "0 \<le> q" and "g \<noteq> 0 \<or> halting ex" and "mono_exec ex"
  shows "op_ok E (simple ex g p q)"
  using assms by (auto simp: op_ok_def size_ok_def simple_def unat_gt_0 intro!: exI [of _ "\<lambda>_. 0"])

lemma op_ok_dynamic:
  assumes "exec_ok ex (nat p) (nat q) give ms" and "dyn_ok E dyn (nat p) k give ms"
    and "0 \<le> p" "0 \<le> q" and "g \<noteq> 0 \<or> 0 < k \<or> halting ex" and "mono_exec ex"
    and "\<And>f st. ms = Some f \<Longrightarrow> nat p \<le> Len st \<Longrightarrow> fine (f st)"
  shows "op_ok E (dynamic ex g (Some dyn) p q ms)"
proof -
  have "0 < k + unat g \<or> halting ex" using assms(5) by (auto simp: unat_gt_0)
  moreover have "size_ok (dynamic ex g (Some dyn) p q ms)"
    using assms(3,7) by (auto simp: size_ok_def dynamic_def simple_def nat_le_iff split: option.splits)
  ultimately show ?thesis using assms(1-4,6)
    by (auto simp: op_ok_def dynamic_def simple_def simp del: add_gr_0)
qed

text \<open>The memory size functions read the operands their opcode announces.\<close>

lemma fine_back: "n < Len st \<Longrightarrow> fine (Back n st)"
  by (simp add: Back_def)

lemma fine_mem_size2: "i < Len st \<Longrightarrow> j < Len st \<Longrightarrow> fine (mem_size2 i j st)"
  by (auto simp: mem_size2_def Back_def)

lemma fine_mem_size_max:
  "i < Len st \<Longrightarrow> j < Len st \<Longrightarrow> k < Len st \<Longrightarrow> l < Len st \<Longrightarrow> fine (mem_size_max i j k l st)"
  by (auto simp: mem_size_max_def split: prod.splits intro!: fine_sat [OF fine_mem_size2])

lemma fine_memory [simp]:
  "2 \<le> Len st \<Longrightarrow> fine (memoryKeccak256 st)" "3 \<le> Len st \<Longrightarrow> fine (memoryCallDataCopy st)"
  "3 \<le> Len st \<Longrightarrow> fine (memoryReturnDataCopy st)" "3 \<le> Len st \<Longrightarrow> fine (memoryCodeCopy st)"
  "4 \<le> Len st \<Longrightarrow> fine (memoryExtCodeCopy st)" "Suc 0 \<le> Len st \<Longrightarrow> fine (memoryMLoad st)"
  "2 \<le> Len st \<Longrightarrow> fine (memoryMStore8 st)" "2 \<le> Len st \<Longrightarrow> fine (memoryMStore st)"
  "3 \<le> Len st \<Longrightarrow> fine (memoryCreate st)" "4 \<le> Len st \<Longrightarrow> fine (memoryCreate2 st)"
  "7 \<le> Len st \<Longrightarrow> fine (memoryCall st)" "6 \<le> Len st \<Longrightarrow> fine (memoryDelegateCall st)"
  "6 \<le> Len st \<Longrightarrow> fine (memoryStaticCall st)" "2 \<le> Len st \<Longrightarrow> fine (memoryReturn st)"
  "2 \<le> Len st \<Longrightarrow> fine (memoryRevert st)" "2 \<le> Len st \<Longrightarrow> fine (memoryLog st)"
  by (auto simp: memory_size_defs mem_size_fixed_def Back_def fine_mem_size2 fine_mem_size_max)

lemmas exec_simps = exec_facts [unfolded One_nat_def]
lemmas dyn_simps = dyn_facts [unfolded One_nat_def]

section \<open>The frontier entries\<close>

lemma gas_nonzero [simp]:
  "GasQuickStep \<noteq> 0" "GasFastestStep \<noteq> 0" "GasFastStep \<noteq> 0" "GasMidStep \<noteq> 0" "GasSlowStep \<noteq> 0" "GasExtStep \<noteq> 0"
  by (simp_all add: GasQuickStep_def GasFastestStep_def GasFastStep_def GasMidStep_def GasSlowStep_def GasExtStep_def)

lemma op_ok_selfdestruct:
  assumes "d \<in> {gasSelfdestruct, gasSelfdestructEIP2929, gasSelfdestructEIP3529}"
  shows "op_ok E (dynamic opSelfdestruct g (Some d) 1 0 None)"
  using assms by (intro op_ok_dynamic [where k = 0 and give = nothing]) (auto simp: exec_simps dyn_simps)

lemmas entry_rules = op_ok_selfdestruct op_ok_simple op_ok_dynamic dyn_facts

lemma frontier_groups_ok:
  "\<forall>x \<in> set frontier_arithmetic. op_ok E (snd x)" "\<forall>x \<in> set frontier_comparison. op_ok E (snd x)"
  "\<forall>x \<in> set frontier_environment. op_ok E (snd x)" "\<forall>x \<in> set frontier_block. op_ok E (snd x)"
  "\<forall>x \<in> set frontier_flow. op_ok E (snd x)" "\<forall>x \<in> set frontier_system. op_ok E (snd x)"
  unfolding frontier_arithmetic_def frontier_comparison_def frontier_environment_def frontier_block_def
    frontier_flow_def frontier_system_def
  by (auto intro!: entry_rules simp: exec_simps param_defs)

lemma op_ok_dup: "1 \<le> n \<Longrightarrow> op_ok E (simple (makeDup n) GasFastestStep (int n) (int n + 1))"
  using exec_dup [of n] by (intro op_ok_simple) (simp_all add: nat_add_distrib exec_simps)

lemma op_ok_swap: "op_ok E (simple (makeSwap n) GasFastestStep (int n + 1) (int n + 1))"
  using exec_swap [of n] by (intro op_ok_simple) (simp_all add: nat_add_distrib exec_simps)

lemma op_ok_log:
  "op_ok E (dynamic (makeLog n) 0 (Some (makeGasLog k)) (int n + 2) 0 (Some memoryLog))"
proof (rule op_ok_dynamic)
  show "exec_ok (makeLog n) (nat (int n + 2)) (nat 0) nothing (Some memoryLog)"
    using exec_log [of n] by (simp add: nat_add_distrib)
  show "dyn_ok E (makeGasLog k) (nat (int n + 2)) 1 nothing (Some memoryLog)"
    using dyn_log [of E k n memoryLog] by (simp add: nat_add_distrib)
qed (auto simp: nat_add_distrib exec_simps)

lemma frontier_families_ok:
  "\<forall>x \<in> set frontier_push1. op_ok E (snd x)" "\<forall>x \<in> set frontier_push_short. op_ok E (snd x)"
  "\<forall>x \<in> set frontier_push_long. op_ok E (snd x)" "\<forall>x \<in> set frontier_dup. op_ok E (snd x)"
  "\<forall>x \<in> set frontier_swap. op_ok E (snd x)" "\<forall>x \<in> set frontier_log. op_ok E (snd x)"
  unfolding frontier_push1_def frontier_push_short_def frontier_push_long_def frontier_dup_def
    frontier_swap_def frontier_log_def push_entry_def
  by (auto intro!: op_ok_dup op_ok_swap op_ok_log op_ok_simple simp: exec_simps)

lemma frontier_ok: "x \<in> set frontier_table \<Longrightarrow> op_ok E (snd x)"
  using frontier_groups_ok [of E] frontier_families_ok [of E] unfolding frontier_table_def by auto

section \<open>Following the updates\<close>

definition always_ok :: "operation \<Rightarrow> bool" where
  "always_ok op \<longleftrightarrow> (\<forall>E. op_ok E op)"

text \<open>A table whose entries are \<open>M\<close>, up to the stack limit, where \<open>M\<close> has one, and otherwise
  entries that keep their promise in every environment.\<close>

definition tab :: "(OpCode \<times> operation) list \<Rightarrow> JumpTable \<Rightarrow> bool" where
  "tab M jt \<longleftrightarrow>
     (\<forall>c. case map_of M c of
            Some op \<Rightarrow> \<exists>x. jt c = Some (op\<lparr>maxStack_of := x\<rparr>)
          | None \<Rightarrow> \<exists>op. jt c = Some op \<and> always_ok op)"

definition filled :: "JumpTable \<Rightarrow> bool" where
  "filled jt \<longleftrightarrow> (\<forall>c op. jt c = Some op \<longrightarrow> maxStack_of op = maxStack (numPop op) (numPush op))"

definition reach :: "(OpCode \<times> operation) list \<Rightarrow> JumpTable res \<Rightarrow> bool" where
  "reach M r \<longleftrightarrow> (\<exists>jt. r = Ok jt \<and> tab M jt \<and> filled jt)"

definition valid_op :: "operation \<Rightarrow> bool" where
  "valid_op op \<longleftrightarrow> memorySize op = None \<or> dynamicGas op \<noteq> None"

lemma always_valid: "always_ok op \<Longrightarrow> valid_op op"
  by (auto simp: always_ok_def op_ok_def valid_op_def split: option.splits)

lemma reach_upd:
  assumes "tab M jt" and "map_of M c = Some op" and "\<And>x. f (op\<lparr>maxStack_of := x\<rparr>) = (f op)\<lparr>maxStack_of := x\<rparr>"
    and "\<And>jt'. tab (AList.update c (f op) M) jt' \<Longrightarrow> reach N (updates fs jt')"
  shows "reach N (updates (upd_op c f # fs) jt)"
proof -
  obtain x where x: "jt c = Some (op\<lparr>maxStack_of := x\<rparr>)"
    using assms(1) [unfolded tab_def, rule_format, of c] assms(2) by auto
  then have "upd_op c f jt = Ok (jt(c := Some ((f op)\<lparr>maxStack_of := x\<rparr>)))" by (simp add: upd_op_def assms(3))
  moreover have "tab (AList.update c (f op) M) (jt(c := Some ((f op)\<lparr>maxStack_of := x\<rparr>)))"
    using assms(1) by (auto simp: tab_def update_conv' cong: option.case_cong)
  ultimately show ?thesis using assms(4) by simp
qed

lemma reach_set:
  assumes "tab M jt" and "\<And>jt'. tab (AList.update c op M) jt' \<Longrightarrow> reach N (updates fs jt')"
  shows "reach N (updates (set_op c op # fs) jt)"
proof -
  have "\<exists>x. op = op\<lparr>maxStack_of := x\<rparr>" by (rule exI [of _ "maxStack_of op"]) simp
  then have "tab (AList.update c op M) (jt(c := Some op))"
    using assms(1) by (auto simp: tab_def update_conv' cong: option.case_cong)
  then show ?thesis using assms(2) by (simp add: set_op_def)
qed

lemma fill_max: "fill (op\<lparr>maxStack_of := x\<rparr>) = op\<lparr>maxStack_of := maxStack (numPop op) (numPush op)\<rparr>"
  by (simp add: fill_def)

lemma validate_tab:
  assumes tab: "tab M jt" and "list_all (\<lambda>x. valid_op (snd x)) M"
  shows "reach M (validateAndFillMaxStack jt)"
proof -
  have M: "valid_op op" if "map_of M c = Some op" for c op
    using assms(2) map_of_SomeD [OF that] by (auto simp: list_all_iff)
  have "valid_entry (jt c)" for c
    using tab [unfolded tab_def, rule_format, of c] M [of c] always_valid
    by (fastforce simp: valid_entry_def valid_op_def split: option.splits)
  then have run: "validateAndFillMaxStack jt = Ok (\<lambda>i. map_option fill (jt i))"
    by (simp add: validateAndFillMaxStack_def list_all_iff)
  have "always_ok (fill op)" if "always_ok op" for op using that by (simp add: always_ok_def fill_def)
  then have "tab M (\<lambda>i. map_option fill (jt i))"
    using tab unfolding tab_def by (fastforce simp: fill_max split: option.splits)
  moreover have "filled (\<lambda>i. map_option fill (jt i))" by (auto simp: filled_def fill_def)
  ultimately show ?thesis using run by (simp add: reach_def)
qed

lemma reach_validate:
  "tab M jt \<Longrightarrow> list_all (\<lambda>x. valid_op (snd x)) M \<Longrightarrow> M = N \<Longrightarrow> reach N (updates [validateAndFillMaxStack] jt)"
  using validate_tab [of M jt] by (auto simp: reach_def)

lemma reach_bnd: "reach M r \<Longrightarrow> (\<And>jt. tab M jt \<Longrightarrow> reach N (f jt)) \<Longrightarrow> reach N (bnd r f)"
  by (auto simp: reach_def)

section \<open>The entries that change\<close>

definition known_frontier :: "(OpCode \<times> operation) list" where
  "known_frontier =
     [(BALANCE, simple opBalance BalanceGasFrontier 1 1),
      (EXTCODESIZE, simple opExtCodeSize ExtcodeSizeGasFrontier 1 1),
      (SLOAD, simple opSload SloadGasFrontier 1 1),
      (EXTCODECOPY, dynamic opExtCodeCopy ExtcodeCopyBaseFrontier (Some gasExtCodeCopy) 4 0 (Some memoryExtCodeCopy)),
      (CALL, dynamic opCall CallGasFrontier (Some gasCall) 7 1 (Some memoryCall)),
      (CALLCODE, dynamic opCallCode CallGasFrontier (Some gasCallCode) 7 1 (Some memoryCall)),
      (EXP, dynamic opExp 0 (Some gasExpFrontier) 2 1 None),
      (SSTORE, dynamic opSstore 0 (Some gasSStore) 2 0 None),
      (CREATE, dynamic opCreate CreateGas (Some gasCreate) 3 1 (Some memoryCreate)),
      (SELFDESTRUCT, dynamic opSelfdestruct 0 (Some gasSelfdestruct) 1 0 None)]"

definition known_homestead :: "(OpCode \<times> operation) list" where
  "known_homestead =
     [(BALANCE, simple opBalance BalanceGasFrontier 1 1),
      (EXTCODESIZE, simple opExtCodeSize ExtcodeSizeGasFrontier 1 1),
      (SLOAD, simple opSload SloadGasFrontier 1 1),
      (EXTCODECOPY, dynamic opExtCodeCopy ExtcodeCopyBaseFrontier (Some gasExtCodeCopy) 4 0 (Some memoryExtCodeCopy)),
      (CALL, dynamic opCall CallGasFrontier (Some gasCall) 7 1 (Some memoryCall)),
      (CALLCODE, dynamic opCallCode CallGasFrontier (Some gasCallCode) 7 1 (Some memoryCall)),
      (EXP, dynamic opExp 0 (Some gasExpFrontier) 2 1 None),
      (SSTORE, dynamic opSstore 0 (Some gasSStore) 2 0 None),
      (CREATE, dynamic opCreate CreateGas (Some gasCreate) 3 1 (Some memoryCreate)),
      (SELFDESTRUCT, dynamic opSelfdestruct 0 (Some gasSelfdestruct) 1 0 None),
      (DELEGATECALL, dynamic opDelegateCall CallGasFrontier (Some gasDelegateCall) 6 1 (Some memoryDelegateCall))]"

definition known_tangerine :: "(OpCode \<times> operation) list" where
  "known_tangerine =
     [(BALANCE, simple opBalance BalanceGasEIP150 1 1),
      (EXTCODESIZE, simple opExtCodeSize ExtcodeSizeGasEIP150 1 1),
      (SLOAD, simple opSload SloadGasEIP150 1 1),
      (EXTCODECOPY, dynamic opExtCodeCopy ExtcodeCopyBaseEIP150 (Some gasExtCodeCopy) 4 0 (Some memoryExtCodeCopy)),
      (CALL, dynamic opCall CallGasEIP150 (Some gasCall) 7 1 (Some memoryCall)),
      (CALLCODE, dynamic opCallCode CallGasEIP150 (Some gasCallCode) 7 1 (Some memoryCall)),
      (EXP, dynamic opExp 0 (Some gasExpFrontier) 2 1 None),
      (SSTORE, dynamic opSstore 0 (Some gasSStore) 2 0 None),
      (CREATE, dynamic opCreate CreateGas (Some gasCreate) 3 1 (Some memoryCreate)),
      (SELFDESTRUCT, dynamic opSelfdestruct 0 (Some gasSelfdestruct) 1 0 None),
      (DELEGATECALL, dynamic opDelegateCall CallGasEIP150 (Some gasDelegateCall) 6 1 (Some memoryDelegateCall))]"

definition known_spurious :: "(OpCode \<times> operation) list" where
  "known_spurious =
     [(BALANCE, simple opBalance BalanceGasEIP150 1 1),
      (EXTCODESIZE, simple opExtCodeSize ExtcodeSizeGasEIP150 1 1),
      (SLOAD, simple opSload SloadGasEIP150 1 1),
      (EXTCODECOPY, dynamic opExtCodeCopy ExtcodeCopyBaseEIP150 (Some gasExtCodeCopy) 4 0 (Some memoryExtCodeCopy)),
      (CALL, dynamic opCall CallGasEIP150 (Some gasCall) 7 1 (Some memoryCall)),
      (CALLCODE, dynamic opCallCode CallGasEIP150 (Some gasCallCode) 7 1 (Some memoryCall)),
      (EXP, dynamic opExp 0 (Some gasExpEIP160) 2 1 None),
      (SSTORE, dynamic opSstore 0 (Some gasSStore) 2 0 None),
      (CREATE, dynamic opCreate CreateGas (Some gasCreate) 3 1 (Some memoryCreate)),
      (SELFDESTRUCT, dynamic opSelfdestruct 0 (Some gasSelfdestruct) 1 0 None),
      (DELEGATECALL, dynamic opDelegateCall CallGasEIP150 (Some gasDelegateCall) 6 1 (Some memoryDelegateCall))]"

definition known_byzantium :: "(OpCode \<times> operation) list" where
  "known_byzantium =
     [(BALANCE, simple opBalance BalanceGasEIP150 1 1),
      (EXTCODESIZE, simple opExtCodeSize ExtcodeSizeGasEIP150 1 1),
      (SLOAD, simple opSload SloadGasEIP150 1 1),
      (EXTCODECOPY, dynamic opExtCodeCopy ExtcodeCopyBaseEIP150 (Some gasExtCodeCopy) 4 0 (Some memoryExtCodeCopy)),
      (CALL, dynamic opCall CallGasEIP150 (Some gasCall) 7 1 (Some memoryCall)),
      (CALLCODE, dynamic opCallCode CallGasEIP150 (Some gasCallCode) 7 1 (Some memoryCall)),
      (EXP, dynamic opExp 0 (Some gasExpEIP160) 2 1 None),
      (SSTORE, dynamic opSstore 0 (Some gasSStore) 2 0 None),
      (CREATE, dynamic opCreate CreateGas (Some gasCreate) 3 1 (Some memoryCreate)),
      (SELFDESTRUCT, dynamic opSelfdestruct 0 (Some gasSelfdestruct) 1 0 None),
      (DELEGATECALL, dynamic opDelegateCall CallGasEIP150 (Some gasDelegateCall) 6 1 (Some memoryDelegateCall)),
      (STATICCALL, dynamic opStaticCall CallGasEIP150 (Some gasStaticCall) 6 1 (Some memoryStaticCall)),
      (RETURNDATASIZE, simple opReturnDataSize GasQuickStep 0 1),
      (RETURNDATACOPY, dynamic opReturnDataCopy GasFastestStep (Some gasReturnDataCopy) 3 0 (Some memoryReturnDataCopy)),
      (REVERT, dynamic opRevert 0 (Some gasRevert) 2 0 (Some memoryRevert))]"

definition known_constantinople :: "(OpCode \<times> operation) list" where
  "known_constantinople =
     [(BALANCE, simple opBalance BalanceGasEIP150 1 1),
      (EXTCODESIZE, simple opExtCodeSize ExtcodeSizeGasEIP150 1 1),
      (SLOAD, simple opSload SloadGasEIP150 1 1),
      (EXTCODECOPY, dynamic opExtCodeCopy ExtcodeCopyBaseEIP150 (Some gasExtCodeCopy) 4 0 (Some memoryExtCodeCopy)),
      (CALL, dynamic opCall CallGasEIP150 (Some gasCall) 7 1 (Some memoryCall)),
      (CALLCODE, dynamic opCallCode CallGasEIP150 (Some gasCallCode) 7 1 (Some memoryCall)),
      (EXP, dynamic opExp 0 (Some gasExpEIP160) 2 1 None),
      (SSTORE, dynamic opSstore 0 (Some gasSStore) 2 0 None),
      (CREATE, dynamic opCreate CreateGas (Some gasCreate) 3 1 (Some memoryCreate)),
      (SELFDESTRUCT, dynamic opSelfdestruct 0 (Some gasSelfdestruct) 1 0 None),
      (DELEGATECALL, dynamic opDelegateCall CallGasEIP150 (Some gasDelegateCall) 6 1 (Some memoryDelegateCall)),
      (STATICCALL, dynamic opStaticCall CallGasEIP150 (Some gasStaticCall) 6 1 (Some memoryStaticCall)),
      (RETURNDATASIZE, simple opReturnDataSize GasQuickStep 0 1),
      (RETURNDATACOPY, dynamic opReturnDataCopy GasFastestStep (Some gasReturnDataCopy) 3 0 (Some memoryReturnDataCopy)),
      (REVERT, dynamic opRevert 0 (Some gasRevert) 2 0 (Some memoryRevert)),
      (SHL, simple opSHL GasFastestStep 2 1),
      (SHR, simple opSHR GasFastestStep 2 1),
      (SAR, simple opSAR GasFastestStep 2 1),
      (EXTCODEHASH, simple opExtCodeHash ExtcodeHashGasConstantinople 1 1),
      (CREATE2, dynamic opCreate2 Create2Gas (Some gasCreate2) 4 1 (Some memoryCreate2))]"

definition known_istanbul :: "(OpCode \<times> operation) list" where
  "known_istanbul =
     [(BALANCE, simple opBalance BalanceGasEIP1884 1 1),
      (EXTCODESIZE, simple opExtCodeSize ExtcodeSizeGasEIP150 1 1),
      (SLOAD, simple opSload SloadGasEIP2200 1 1),
      (EXTCODECOPY, dynamic opExtCodeCopy ExtcodeCopyBaseEIP150 (Some gasExtCodeCopy) 4 0 (Some memoryExtCodeCopy)),
      (CALL, dynamic opCall CallGasEIP150 (Some gasCall) 7 1 (Some memoryCall)),
      (CALLCODE, dynamic opCallCode CallGasEIP150 (Some gasCallCode) 7 1 (Some memoryCall)),
      (EXP, dynamic opExp 0 (Some gasExpEIP160) 2 1 None),
      (SSTORE, dynamic opSstore 0 (Some gasSStoreEIP2200) 2 0 None),
      (CREATE, dynamic opCreate CreateGas (Some gasCreate) 3 1 (Some memoryCreate)),
      (SELFDESTRUCT, dynamic opSelfdestruct 0 (Some gasSelfdestruct) 1 0 None),
      (DELEGATECALL, dynamic opDelegateCall CallGasEIP150 (Some gasDelegateCall) 6 1 (Some memoryDelegateCall)),
      (STATICCALL, dynamic opStaticCall CallGasEIP150 (Some gasStaticCall) 6 1 (Some memoryStaticCall)),
      (RETURNDATASIZE, simple opReturnDataSize GasQuickStep 0 1),
      (RETURNDATACOPY, dynamic opReturnDataCopy GasFastestStep (Some gasReturnDataCopy) 3 0 (Some memoryReturnDataCopy)),
      (REVERT, dynamic opRevert 0 (Some gasRevert) 2 0 (Some memoryRevert)),
      (SHL, simple opSHL GasFastestStep 2 1),
      (SHR, simple opSHR GasFastestStep 2 1),
      (SAR, simple opSAR GasFastestStep 2 1),
      (EXTCODEHASH, simple opExtCodeHash ExtcodeHashGasEIP1884 1 1),
      (CREATE2, dynamic opCreate2 Create2Gas (Some gasCreate2) 4 1 (Some memoryCreate2)),
      (CHAINID, simple opChainID GasQuickStep 0 1),
      (SELFBALANCE, simple opSelfBalance GasFastStep 0 1)]"

definition known_berlin :: "(OpCode \<times> operation) list" where
  "known_berlin =
     [(BALANCE, dynamic opBalance WarmStorageReadCostEIP2929 (Some gasEip2929AccountCheck) 1 1 None),
      (EXTCODESIZE, dynamic opExtCodeSize WarmStorageReadCostEIP2929 (Some gasEip2929AccountCheck) 1 1 None),
      (SLOAD, dynamic opSload 0 (Some gasSLoadEIP2929) 1 1 None),
      (EXTCODECOPY, dynamic opExtCodeCopy WarmStorageReadCostEIP2929 (Some gasExtCodeCopyEIP2929) 4 0 (Some memoryExtCodeCopy)),
      (CALL, dynamic opCall WarmStorageReadCostEIP2929 (Some gasCallEIP2929) 7 1 (Some memoryCall)),
      (CALLCODE, dynamic opCallCode WarmStorageReadCostEIP2929 (Some gasCallCodeEIP2929) 7 1 (Some memoryCall)),
      (EXP, dynamic opExp 0 (Some gasExpEIP160) 2 1 None),
      (SSTORE, dynamic opSstore 0 (Some gasSStoreEIP2929) 2 0 None),
      (CREATE, dynamic opCreate CreateGas (Some gasCreate) 3 1 (Some memoryCreate)),
      (SELFDESTRUCT, dynamic opSelfdestruct SelfdestructGasEIP150 (Some gasSelfdestructEIP2929) 1 0 None),
      (DELEGATECALL, dynamic opDelegateCall WarmStorageReadCostEIP2929 (Some gasDelegateCallEIP2929) 6 1 (Some memoryDelegateCall)),
      (STATICCALL, dynamic opStaticCall WarmStorageReadCostEIP2929 (Some gasStaticCallEIP2929) 6 1 (Some memoryStaticCall)),
      (RETURNDATASIZE, simple opReturnDataSize GasQuickStep 0 1),
      (RETURNDATACOPY, dynamic opReturnDataCopy GasFastestStep (Some gasReturnDataCopy) 3 0 (Some memoryReturnDataCopy)),
      (REVERT, dynamic opRevert 0 (Some gasRevert) 2 0 (Some memoryRevert)),
      (SHL, simple opSHL GasFastestStep 2 1),
      (SHR, simple opSHR GasFastestStep 2 1),
      (SAR, simple opSAR GasFastestStep 2 1),
      (EXTCODEHASH, dynamic opExtCodeHash WarmStorageReadCostEIP2929 (Some gasEip2929AccountCheck) 1 1 None),
      (CREATE2, dynamic opCreate2 Create2Gas (Some gasCreate2) 4 1 (Some memoryCreate2)),
      (CHAINID, simple opChainID GasQuickStep 0 1),
      (SELFBALANCE, simple opSelfBalance GasFastStep 0 1)]"

definition known_london :: "(OpCode \<times> operation) list" where
  "known_london =
     [(BALANCE, dynamic opBalance WarmStorageReadCostEIP2929 (Some gasEip2929AccountCheck) 1 1 None),
      (EXTCODESIZE, dynamic opExtCodeSize WarmStorageReadCostEIP2929 (Some gasEip2929AccountCheck) 1 1 None),
      (SLOAD, dynamic opSload 0 (Some gasSLoadEIP2929) 1 1 None),
      (EXTCODECOPY, dynamic opExtCodeCopy WarmStorageReadCostEIP2929 (Some gasExtCodeCopyEIP2929) 4 0 (Some memoryExtCodeCopy)),
      (CALL, dynamic opCall WarmStorageReadCostEIP2929 (Some gasCallEIP2929) 7 1 (Some memoryCall)),
      (CALLCODE, dynamic opCallCode WarmStorageReadCostEIP2929 (Some gasCallCodeEIP2929) 7 1 (Some memoryCall)),
      (EXP, dynamic opExp 0 (Some gasExpEIP160) 2 1 None),
      (SSTORE, dynamic opSstore 0 (Some gasSStoreEIP3529) 2 0 None),
      (CREATE, dynamic opCreate CreateGas (Some gasCreate) 3 1 (Some memoryCreate)),
      (SELFDESTRUCT, dynamic opSelfdestruct SelfdestructGasEIP150 (Some gasSelfdestructEIP3529) 1 0 None),
      (DELEGATECALL, dynamic opDelegateCall WarmStorageReadCostEIP2929 (Some gasDelegateCallEIP2929) 6 1 (Some memoryDelegateCall)),
      (STATICCALL, dynamic opStaticCall WarmStorageReadCostEIP2929 (Some gasStaticCallEIP2929) 6 1 (Some memoryStaticCall)),
      (RETURNDATASIZE, simple opReturnDataSize GasQuickStep 0 1),
      (RETURNDATACOPY, dynamic opReturnDataCopy GasFastestStep (Some gasReturnDataCopy) 3 0 (Some memoryReturnDataCopy)),
      (REVERT, dynamic opRevert 0 (Some gasRevert) 2 0 (Some memoryRevert)),
      (SHL, simple opSHL GasFastestStep 2 1),
      (SHR, simple opSHR GasFastestStep 2 1),
      (SAR, simple opSAR GasFastestStep 2 1),
      (EXTCODEHASH, dynamic opExtCodeHash WarmStorageReadCostEIP2929 (Some gasEip2929AccountCheck) 1 1 None),
      (CREATE2, dynamic opCreate2 Create2Gas (Some gasCreate2) 4 1 (Some memoryCreate2)),
      (CHAINID, simple opChainID GasQuickStep 0 1),
      (SELFBALANCE, simple opSelfBalance GasFastStep 0 1),
      (BASEFEE, simple opBaseFee GasQuickStep 0 1)]"

definition known_shanghai :: "(OpCode \<times> operation) list" where
  "known_shanghai =
     [(BALANCE, dynamic opBalance WarmStorageReadCostEIP2929 (Some gasEip2929AccountCheck) 1 1 None),
      (EXTCODESIZE, dynamic opExtCodeSize WarmStorageReadCostEIP2929 (Some gasEip2929AccountCheck) 1 1 None),
      (SLOAD, dynamic opSload 0 (Some gasSLoadEIP2929) 1 1 None),
      (EXTCODECOPY, dynamic opExtCodeCopy WarmStorageReadCostEIP2929 (Some gasExtCodeCopyEIP2929) 4 0 (Some memoryExtCodeCopy)),
      (CALL, dynamic opCall WarmStorageReadCostEIP2929 (Some gasCallEIP2929) 7 1 (Some memoryCall)),
      (CALLCODE, dynamic opCallCode WarmStorageReadCostEIP2929 (Some gasCallCodeEIP2929) 7 1 (Some memoryCall)),
      (EXP, dynamic opExp 0 (Some gasExpEIP160) 2 1 None),
      (SSTORE, dynamic opSstore 0 (Some gasSStoreEIP3529) 2 0 None),
      (CREATE, dynamic opCreate CreateGas (Some gasCreateEip3860) 3 1 (Some memoryCreate)),
      (SELFDESTRUCT, dynamic opSelfdestruct SelfdestructGasEIP150 (Some gasSelfdestructEIP3529) 1 0 None),
      (DELEGATECALL, dynamic opDelegateCall WarmStorageReadCostEIP2929 (Some gasDelegateCallEIP2929) 6 1 (Some memoryDelegateCall)),
      (STATICCALL, dynamic opStaticCall WarmStorageReadCostEIP2929 (Some gasStaticCallEIP2929) 6 1 (Some memoryStaticCall)),
      (RETURNDATASIZE, simple opReturnDataSize GasQuickStep 0 1),
      (RETURNDATACOPY, dynamic opReturnDataCopy GasFastestStep (Some gasReturnDataCopy) 3 0 (Some memoryReturnDataCopy)),
      (REVERT, dynamic opRevert 0 (Some gasRevert) 2 0 (Some memoryRevert)),
      (SHL, simple opSHL GasFastestStep 2 1),
      (SHR, simple opSHR GasFastestStep 2 1),
      (SAR, simple opSAR GasFastestStep 2 1),
      (EXTCODEHASH, dynamic opExtCodeHash WarmStorageReadCostEIP2929 (Some gasEip2929AccountCheck) 1 1 None),
      (CREATE2, dynamic opCreate2 Create2Gas (Some gasCreate2Eip3860) 4 1 (Some memoryCreate2)),
      (CHAINID, simple opChainID GasQuickStep 0 1),
      (SELFBALANCE, simple opSelfBalance GasFastStep 0 1),
      (BASEFEE, simple opBaseFee GasQuickStep 0 1),
      (PUSH0, simple opPush0 GasQuickStep 0 1)]"

lemmas known_defs = known_frontier_def known_homestead_def known_tangerine_def known_spurious_def
  known_byzantium_def known_constantinople_def known_istanbul_def known_berlin_def known_london_def known_shanghai_def

lemma entry_updates [simp]:
  "set_const g (simple ex g' p q) = simple ex g p q"
  "set_const g (dynamic ex g' e p q ms) = dynamic ex g e p q ms"
  "set_dyn d (simple ex g p q) = dynamic ex g (Some d) p q None"
  "set_dyn d (dynamic ex g e p q ms) = dynamic ex g (Some d) p q ms"
  "set_const g (op\<lparr>maxStack_of := x\<rparr>) = (set_const g op)\<lparr>maxStack_of := x\<rparr>"
  "set_dyn d (op\<lparr>maxStack_of := x\<rparr>) = (set_dyn d op)\<lparr>maxStack_of := x\<rparr>"
  by (simp_all add: set_const_def set_dyn_def simple_def dynamic_def)

lemma valid_entries [simp]:
  "valid_op (simple ex g p q)" "valid_op (dynamic ex g (Some d) p q ms)"
  by (simp_all add: valid_op_def simple_def dynamic_def)

lemma frontier_distinct: "distinct (map fst frontier_table)"
  by code_simp

lemma known_in_frontier: "set known_frontier \<subseteq> set frontier_table"
  unfolding known_frontier_def frontier_table_def frontier_arithmetic_def frontier_environment_def
    frontier_flow_def frontier_system_def
  by simp

lemma undefined_ok: "always_ok (simple opUndefined 0 0 0)"
  by (auto simp: always_ok_def exec_simps intro!: op_ok_simple)

lemma frontier_reach: "reach known_frontier newFrontierInstructionSet"
  unfolding newFrontierInstructionSet_def
proof (rule validate_tab)
  let ?jt = "\<lambda>i. case map_of frontier_table i of None \<Rightarrow> Some (simple opUndefined 0 0 0) | Some op \<Rightarrow> Some op"
  have known: "map_of frontier_table c = Some op" if "map_of known_frontier c = Some op" for c op
    using map_of_SomeD [OF that] known_in_frontier frontier_distinct by (auto intro: map_of_is_SomeI)
  have same: "\<exists>x. op = op\<lparr>maxStack_of := x\<rparr>" for op :: operation
    by (rule exI [of _ "maxStack_of op"]) simp
  have other: "always_ok op" if "map_of frontier_table c = Some op" for c op
    using frontier_ok [OF map_of_SomeD [OF that]] by (simp add: always_ok_def)
  show "tab known_frontier ?jt"
    unfolding tab_def using known other undefined_ok same by (auto split: option.split)
  show "list_all (\<lambda>x. valid_op (snd x)) known_frontier" by (simp add: known_frontier_def)
qed

end
