(* ===== verification/TableSets.thy ===== *)
theory TableSets
  imports TableSafe Interpreter
begin

text \<open>
  The instruction sets built by \<open>internal/vm/jump_table.go\<close>: every constructor returns a table, its stack
  limits are filled in, and each of its 256 entries keeps the promise \<^const>\<open>op_ok\<close>.
\<close>

section \<open>Every constructor\<close>

lemma updates_append: "updates (fs @ gs) = (\<lambda>jt. bnd (updates fs jt) (updates gs))"
  by (induction fs) (auto simp: bnd_assoc intro!: ext)

lemma updates_nested: "updates (updates fs # gs) = updates (fs @ gs)"
  by (auto simp: updates_append intro!: ext)

lemma walk_upd:
  assumes "tab M jt" and "map_of M c = Some op" and "\<And>x. f (op\<lparr>maxStack_of := x\<rparr>) = (f op)\<lparr>maxStack_of := x\<rparr>"
    and "AList.update c (f op) M = M'" and "\<And>jt'. tab M' jt' \<Longrightarrow> reach N (updates fs jt')"
  shows "reach N (updates (upd_op c f # fs) jt)"
  using assms reach_upd by blast

lemma walk_set:
  assumes "tab M jt" and "AList.update c op M = M'" and "\<And>jt'. tab M' jt' \<Longrightarrow> reach N (updates fs jt')"
  shows "reach N (updates (set_op c op # fs) jt)"
  using assms reach_set by blast

lemmas enable_defs = enable1884_def enable1344_def enable2200_def enable2929_def enable3529_def
  enable3198_def enable3855_def enable3860_def

lemma homestead_reach: "reach known_homestead newHomesteadInstructionSet"
  unfolding newHomesteadInstructionSet_def
  apply (rule reach_bnd [OF frontier_reach], unfold known_defs)
  apply (((rule walk_upd, assumption, simp add: opcode_defs, simp, simp add: opcode_defs)
     | (rule walk_set, assumption, simp add: opcode_defs)), thin_tac "tab _ _")+
  by (rule reach_validate, assumption, simp, simp add: opcode_defs)

lemma tangerine_reach: "reach known_tangerine newTangerineWhistleInstructionSet"
  unfolding newTangerineWhistleInstructionSet_def
  apply (rule reach_bnd [OF homestead_reach], unfold known_defs)
  apply (((rule walk_upd, assumption, simp add: opcode_defs, simp, simp add: opcode_defs)
     | (rule walk_set, assumption, simp add: opcode_defs)), thin_tac "tab _ _")+
  by (rule reach_validate, assumption, simp, simp add: opcode_defs)

lemma spurious_reach: "reach known_spurious newSpuriousDragonInstructionSet"
  unfolding newSpuriousDragonInstructionSet_def
  apply (rule reach_bnd [OF tangerine_reach], unfold known_defs)
  apply (((rule walk_upd, assumption, simp add: opcode_defs, simp, simp add: opcode_defs)
     | (rule walk_set, assumption, simp add: opcode_defs)), thin_tac "tab _ _")+
  by (rule reach_validate, assumption, simp, simp add: opcode_defs)

lemma byzantium_reach: "reach known_byzantium newByzantiumInstructionSet"
  unfolding newByzantiumInstructionSet_def
  apply (rule reach_bnd [OF spurious_reach], unfold known_defs)
  apply (((rule walk_upd, assumption, simp add: opcode_defs, simp, simp add: opcode_defs)
     | (rule walk_set, assumption, simp add: opcode_defs)), thin_tac "tab _ _")+
  by (rule reach_validate, assumption, simp, simp add: opcode_defs)

lemma constantinople_reach: "reach known_constantinople newConstantinopleInstructionSet"
  unfolding newConstantinopleInstructionSet_def
  apply (rule reach_bnd [OF byzantium_reach], unfold known_defs)
  apply (((rule walk_upd, assumption, simp add: opcode_defs, simp, simp add: opcode_defs)
     | (rule walk_set, assumption, simp add: opcode_defs)), thin_tac "tab _ _")+
  by (rule reach_validate, assumption, simp, simp add: opcode_defs)

lemma istanbul_reach: "reach known_istanbul newIstanbulInstructionSet"
  unfolding newIstanbulInstructionSet_def enable_defs
  apply (rule reach_bnd [OF constantinople_reach], unfold known_defs)
  apply (simp only: updates_nested append.simps | (((rule walk_upd, assumption, simp add: opcode_defs, simp, simp add: opcode_defs)
     | (rule walk_set, assumption, simp add: opcode_defs)), thin_tac "tab _ _"))+
  by (rule reach_validate, assumption, simp, simp add: opcode_defs)

lemma berlin_reach: "reach known_berlin newBerlinInstructionSet"
  unfolding newBerlinInstructionSet_def enable_defs
  apply (rule reach_bnd [OF istanbul_reach], unfold known_defs)
  apply (simp only: updates_nested append.simps | (((rule walk_upd, assumption, simp add: opcode_defs, simp, simp add: opcode_defs)
     | (rule walk_set, assumption, simp add: opcode_defs)), thin_tac "tab _ _"))+
  by (rule reach_validate, assumption, simp, simp add: opcode_defs)

lemma london_reach: "reach known_london newLondonInstructionSet"
  unfolding newLondonInstructionSet_def enable_defs
  apply (rule reach_bnd [OF berlin_reach], unfold known_defs)
  apply (simp only: updates_nested append.simps | (((rule walk_upd, assumption, simp add: opcode_defs, simp, simp add: opcode_defs)
     | (rule walk_set, assumption, simp add: opcode_defs)), thin_tac "tab _ _"))+
  by (rule reach_validate, assumption, simp, simp add: opcode_defs)

lemma shanghai_reach: "reach known_shanghai newShanghaiInstructionSet"
  unfolding newShanghaiInstructionSet_def enable_defs
  apply (rule reach_bnd [OF london_reach], unfold known_defs)
  apply (simp only: updates_nested append.simps | (((rule walk_upd, assumption, simp add: opcode_defs, simp, simp add: opcode_defs)
     | (rule walk_set, assumption, simp add: opcode_defs)), thin_tac "tab _ _"))+
  by (rule reach_validate, assumption, simp, simp add: opcode_defs)

lemma shanghai_valid: "list_all (\<lambda>x. valid_op (snd x)) known_shanghai"
  by (simp add: known_shanghai_def)

lemma cancun_reach: "reach known_shanghai newCancunInstructionSet"
  unfolding newCancunInstructionSet_def
  by (rule reach_bnd [OF shanghai_reach]) (rule reach_validate [OF _ shanghai_valid refl])

lemma prague_reach: "reach known_shanghai newPragueInstructionSet"
  unfolding newPragueInstructionSet_def
  by (rule reach_bnd [OF cancun_reach]) (rule reach_validate [OF _ shanghai_valid refl])

section \<open>Every entry\<close>

definition table_ok :: "env \<Rightarrow> JumpTable \<Rightarrow> bool" where
  "table_ok E jt \<longleftrightarrow> filled jt \<and> (\<forall>c. \<exists>op. jt c = Some op \<and> op_ok E op)"

lemma table_okI:
  assumes "reach M r" and "list_all (\<lambda>x. op_ok E (snd x)) M"
  shows "\<exists>jt. r = Ok jt \<and> table_ok E jt"
proof -
  from assms(1) obtain jt where r: "r = Ok jt" and jt: "tab M jt" "filled jt" by (auto simp: reach_def)
  have "\<exists>op. jt c = Some op \<and> op_ok E op" for c
  proof (cases "map_of M c")
    case None
    then show ?thesis using jt(1) [unfolded tab_def, rule_format, of c] by (auto simp: always_ok_def)
  next
    case (Some op)
    then have "op_ok E op" using assms(2) map_of_SomeD [OF Some] by (auto simp: list_all_iff)
    then show ?thesis using jt(1) [unfolded tab_def, rule_format, of c] Some by auto
  qed
  then show ?thesis using r jt(2) by (simp add: table_ok_def)
qed


lemma known_ok:
  "list_all (\<lambda>x. op_ok E (snd x)) known_frontier" "list_all (\<lambda>x. op_ok E (snd x)) known_homestead"
  "list_all (\<lambda>x. op_ok E (snd x)) known_tangerine" "list_all (\<lambda>x. op_ok E (snd x)) known_spurious"
  "list_all (\<lambda>x. op_ok E (snd x)) known_byzantium" "list_all (\<lambda>x. op_ok E (snd x)) known_constantinople"
  "list_all (\<lambda>x. op_ok E (snd x)) known_istanbul"
  by (auto simp: known_defs exec_simps param_defs intro!: entry_rules)

lemma op_ok_account:
  assumes "ex \<in> {opBalance, opExtCodeSize, opExtCodeHash}" and "g \<noteq> 0"
  shows "op_ok E (dynamic ex g (Some gasEip2929AccountCheck) 1 1 None)"
  using assms by (intro op_ok_dynamic [where k = 0 and give = nothing]) (auto simp: exec_simps dyn_simps)

lemma op_ok_sload: "op_ok E (dynamic opSload 0 (Some gasSLoadEIP2929) 1 1 None)"
  by (intro op_ok_dynamic [where k = 1 and give = nothing]) (auto simp: exec_simps dyn_simps)

lemma known_ok2929:
  assumes "IsTangerineWhistle (chainRules E)"
  shows "list_all (\<lambda>x. op_ok E (snd x)) known_berlin" "list_all (\<lambda>x. op_ok E (snd x)) known_london"
    "list_all (\<lambda>x. op_ok E (snd x)) known_shanghai"
  using assms by (auto simp: known_defs exec_simps param_defs intro!: op_ok_account op_ok_sload entry_rules)

text \<open>The price list of Berlin and later adds the cost of a cold access to a gas that the rules
  of Tangerine Whistle have bounded.\<close>

definition rules_ok :: "Rules \<Rightarrow> bool" where
  "rules_ok r \<longleftrightarrow>
     (IsBerlin r \<or> IsLondon r \<or> IsShanghai r \<or> IsCancun r \<or> IsPrague r \<longrightarrow> IsTangerineWhistle r)"

lemmas reaches = frontier_reach homestead_reach tangerine_reach spurious_reach byzantium_reach
  constantinople_reach istanbul_reach berlin_reach london_reach shanghai_reach cancun_reach prague_reach

lemma instructionSet_ok:
  assumes "rules_ok (chainRules E)"
  shows "\<exists>jt. instructionSet (chainRules E) = Ok jt \<and> table_ok E jt"
  using assms unfolding instructionSet_def rules_ok_def
  by (auto intro!: reaches [THEN table_okI] known_ok known_ok2929)

lemma reach_returns:
  assumes "reach M r"
  shows "\<exists>jt. r = Ok jt \<and> (\<forall>c. \<exists>op. jt c = Some op \<and> maxStack_of op = maxStack (numPop op) (numPush op))"
proof -
  from assms obtain jt where jt: "r = Ok jt" "tab M jt" "filled jt" by (auto simp: reach_def)
  have "\<exists>op. jt c = Some op" for c
    using jt(2) [unfolded tab_def, rule_format, of c] by (auto split: option.splits)
  with jt show ?thesis by (metis filled_def)
qed

lemma instructionSet_returns:
  "\<exists>jt. instructionSet rules = Ok jt \<and>
     (\<forall>c. \<exists>op. jt c = Some op \<and> maxStack_of op = maxStack (numPop op) (numPush op))"
  unfolding instructionSet_def by (auto intro!: reaches [THEN reach_returns])

end
