(* ===== verification/RunSafe.thy ===== *)
theory RunSafe
  imports TableSets
begin

text \<open>
  The interpreter as a whole. Every run with more fuel than gas returns; it never indexes outside
  the stack or the memory, restores the call depth and the read-only flag, and hands back no
  more gas than it was given. The proof goes through one round of the loop, which keeps the
  invariant \<open>machine_ok\<close> and burns gas, and through the calls and creations the round makes.
\<close>

section \<open>Calls and creations, given a runner\<close>

definition run_ok :: "nat \<Rightarrow> runner \<Rightarrow> bool" where
  "run_ok n run \<longleftrightarrow>
     (\<forall>c i ro ev. unat (Gas c) < n \<longrightarrow>
        sat (\<lambda>(ev', c', ret, err). call_post ev (Gas c) ev' (Gas c')) (run c i ro ev))"

lemma run_okD:
  "run_ok n run \<Longrightarrow> unat (Gas c) < n \<Longrightarrow>
     (\<And>ev' c' ret err. call_post ev (Gas c) ev' (Gas c') \<Longrightarrow> P (ev', c', ret, err)) \<Longrightarrow> sat P (run c i ro ev)"
  unfolding run_ok_def by (rule sat_mono [of "\<lambda>(ev', c', ret, err). call_post ev (Gas c) ev' (Gas c')"]) auto

definition same :: "EVM \<Rightarrow> EVM \<Rightarrow> bool" where
  "same ev ev' \<longleftrightarrow> depth ev' = depth ev \<and> readOnly ev' = readOnly ev"

lemma sat_if: "(c \<Longrightarrow> sat P a) \<Longrightarrow> (\<not> c \<Longrightarrow> sat P b) \<Longrightarrow> sat P (if c then a else b)"
  by simp

lemma sat_with_ibs:
  "(\<And>ev' v. same ev ev' \<Longrightarrow> sat P (k ev' v)) \<Longrightarrow> sat P (case with_ibs f ev of (x, y) \<Rightarrow> k x y)"
  by (auto simp: same_def with_ibs_def split: prod.splits)

lemma precompile_post:
  "(\<And>out g' err. unat g' \<le> unat g \<Longrightarrow> P (out, g', err)) \<Longrightarrow> P (RunPrecompiledContract p i g)"
  by (auto simp: RunPrecompiledContract_def Let_def word_less_nat_alt unat_sub_if' split: prod.splits)

lemma sat_can_pay: "(\<And>ev' b. same ev ev' \<Longrightarrow> P (ev', b)) \<Longrightarrow> sat P (can_pay E typ clr value ev)"
  by (auto simp: same_def can_pay_def with_ibs_def split: option.splits prod.splits)

lemma sat_enter_call:
  "(\<And>ev' b. same ev ev' \<Longrightarrow> P (ev', b)) \<Longrightarrow> sat P (enter_call E typ clr addr pre value bailout ev)"
  by (auto simp: same_def enter_call_def with_ibs_def Let_def split: option.splits prod.splits)

lemma Gas_set [simp]: "Gas (SetCallCode a h cd c) = Gas c" "Gas (SetCodeOptionalHash a cd h c) = Gas c"
  by (simp_all add: SetCallCode_def SetCodeOptionalHash_def)

lemma Gas_NewContract: "NewContract clr object value gas skip jd = (c, jd') \<Longrightarrow> Gas c = gas"
  by (auto simp: NewContract_def Let_def split: if_splits option.splits ContractRef.splits)

lemma sat_NewContract:
  "(\<And>c jd'. Gas c = gas \<Longrightarrow> sat P (k c jd')) \<Longrightarrow>
     sat P (case NewContract clr object value gas skip jd of (x, y) \<Rightarrow> k x y)"
  by (auto split: prod.split dest: Gas_NewContract)

lemma sat_call_contract:
  assumes "\<And>c ev'. Gas c = gas \<Longrightarrow> same ev ev' \<Longrightarrow> P (c, ev')"
  shows "sat P (call_contract E typ clr addr cd gas value ev)"
  unfolding call_contract_def Let_def
  apply (intro sat_with_ibs)
  using assms by (auto simp: same_def AsDelegate_def split: prod.splits ContractRef.splits dest!: Gas_NewContract)

lemma call_post_refl [simp]: "call_post ev g ev g"
  by (simp add: call_post_def)

lemma call_post_same: "same ev ev' \<Longrightarrow> call_post ev g ev' g' \<longleftrightarrow> unat g' \<le> unat g"
  by (simp add: call_post_def same_def)

lemma call_post_trans: "same ev ev' \<Longrightarrow> call_post ev' g ev'' g' \<Longrightarrow> call_post ev g ev'' g'"
  by (simp add: call_post_def same_def)

lemma sat_run_call:
  assumes "run_ok n run" and "unat gas < n"
    and "\<And>ev' ret g err. call_post ev gas ev' g \<Longrightarrow> P (ev', ret, g, err)"
  shows "sat P (run_call run E typ clr addr cd input gas value ev)"
  using assms(2,3) unfolding run_call_def
  by (auto simp: Let_def call_post_def same_def split: option.splits
      intro!: sat_call_contract run_okD [OF assms(1)] precompile_post [of gas "\<lambda>r. P (ev, r)"])

lemma sat_code:
  "(\<And>ev' v. same ev ev' \<Longrightarrow> sat P (k ev' v)) \<Longrightarrow>
     sat P (case if c then with_ibs f ev else (ev, None) of (x, y) \<Rightarrow> k x y)"
  by (auto simp: same_def with_ibs_def split: prod.splits)

lemma call_ok_evm_call:
  assumes "run_ok n run" and "unat gas < n"
  shows "call_ok ev gas (evm_call run E typ clr addr input gas value bailout ev)"
  unfolding call_ok_def evm_call_def Let_def
  apply (intro sat_if)
  subgoal by simp
  subgoal by simp
  unfolding sat_bnd
  apply (intro sat_can_pay, unfold prod.case)
  apply (intro sat_if sat_code sat_with_ibs)
  subgoal by (simp add: call_post_same)
  unfolding sat_bnd
  apply (intro sat_enter_call, unfold prod.case)
  apply (intro sat_if)
  subgoal by (simp add: call_post_def same_def)
  unfolding sat_bnd
  apply (intro sat_run_call [OF assms], unfold prod.case)
  by (auto simp: call_post_def same_def intro!: fine_rules)

lemma UseGas_le: "UseGas g c = (c', ok) \<Longrightarrow> unat (Gas c') \<le> unat (Gas c)"
  by (auto simp: UseGas_def word_le_nat_alt word_less_nat_alt unat_sub_if' split: if_splits)

lemma store_code_post:
  assumes "store_code E a ret err ev c = (ev', c', err')"
  shows "depth ev' = depth ev" "readOnly ev' = readOnly ev" "unat (Gas c') \<le> unat (Gas c)"
  using assms by (auto simp: store_code_def Let_def split: if_splits prod.splits dest: UseGas_le)

lemma sat_bump_nonce:
  "(\<And>ev' v. same ev ev' \<Longrightarrow> sat P (k ev' v)) \<Longrightarrow>
     sat P (case if inc then bump_nonce E clr ev else (ev, True) of (x, y) \<Rightarrow> k x y)"
  by (auto simp: same_def bump_nonce_def with_ibs_def Let_def split: prod.splits)

lemma sat_collides:
  "(\<And>ev' v. same ev ev' \<Longrightarrow> sat P (k ev' v)) \<Longrightarrow> sat P (case collides E a ev of (x, y) \<Rightarrow> k x y)"
  by (auto simp: same_def collides_def with_ibs_def Let_def split: prod.splits)

lemma sat_store_code:
  "(\<And>ev' c' err'. same ev ev' \<Longrightarrow> unat (Gas c') \<le> unat (Gas c) \<Longrightarrow> sat P (k ev' c' err')) \<Longrightarrow>
     sat P (case store_code E a ret err ev c of (x, y, z) \<Rightarrow> k x y z)"
  by (auto simp: same_def split: prod.split dest: store_code_post)

lemma same_if [simp]: "same (if b then ev\<lparr>ibs := s\<rparr> else ev) ev' = same ev ev'"
  by (simp add: same_def)

lemma new_account_same [simp]:
  "depth (new_account E clr a v ev) = depth ev" "readOnly (new_account E clr a v ev) = readOnly ev"
  by (simp_all add: new_account_def Let_def)

lemma used_up: "unat (Gas (fst (UseGas g c))) \<le> unat (Gas c)"
  by (metis UseGas_le prod.collapse)

lemma create_ok_create:
  assumes "run_ok n run" and "unat gas < n"
  shows "create_ok ev gas (create run E clr ch gas value address inc ev)"
  unfolding create_ok_def create_def Let_def
  apply (intro sat_if sat_with_ibs sat_bump_nonce sat_collides sat_NewContract)
  subgoal by simp
  subgoal by (simp add: call_post_def same_def)
  subgoal by (simp add: call_post_def same_def)
  subgoal by (simp add: call_post_def same_def)
  subgoal by (simp add: call_post_def same_def)
  subgoal for ev1 b1 ev2 b2 ev3 b3 ev4 snap c jd
    unfolding sat_bnd using assms(2) apply (intro run_okD [OF assms(1)])
    apply (simp)
    unfolding prod.case
    by (intro sat_store_code sat_if) (auto simp: call_post_def same_def intro!: fine_rules le_trans [OF used_up] intro: le_trans)
  done

lemma create_ok_with_ibs:
  assumes "\<And>ev' v. create_ok ev' g (k ev' v)"
  shows "create_ok ev g (case with_ibs f ev of (x, y) \<Rightarrow> k x y)"
  unfolding create_ok_def
proof (rule sat_with_ibs)
  fix ev' v assume "same ev ev'"
  with assms [of ev' v] show "sat (\<lambda>(ev', ret, a, g', err). call_post ev g ev' g') (k ev' v)"
    by (auto simp: create_ok_def elim!: sat_mono intro: call_post_trans)
qed

lemma create_oks:
  assumes "run_ok n run" and "unat gas < n"
  shows "create_ok ev gas (Create run E clr cd gas v ev)" "create_ok ev gas (Create2 run E clr cd gas v salt ev)"
  unfolding Create_def Create2_def Let_def
  by (intro create_ok_with_ibs create_ok_create [OF assms])+

lemma ctx_ok_calls: "run_ok n run \<Longrightarrow> ctx_ok n (calls run E)"
  by (simp add: ctx_ok_def calls_def Call_def CallCode_def DelegateCall_def StaticCall_def call_ok_evm_call create_oks)

section \<open>One round of the loop\<close>

definition machine_ok :: "machine \<Rightarrow> bool" where
  "machine_ok m \<longleftrightarrow> Len (stk m) \<le> 1024 \<and> mem_ok (mem m)"

definition left :: "machine \<Rightarrow> machine \<Rightarrow> bool" where
  "left m m' \<longleftrightarrow> depth (evm m') = depth (evm m) \<and> readOnly (evm m') = readOnly (evm m) \<and> m_gas m' \<le> m_gas m"

definition step_post :: "machine \<Rightarrow> outcome \<Rightarrow> bool" where
  "step_post m r \<longleftrightarrow>
     (case r of
        Fail m' e \<Rightarrow> left m m'
      | Break m' res e \<Rightarrow> left m m'
      | Continue m' res \<Rightarrow> left m m' \<and> m_gas m' < m_gas m \<and> machine_ok m')"

text \<open>The memory after the charge of the dynamic gas: it covers the size the entry asked for.\<close>

lemma words_multiple: "n mod 32 = 0 \<Longrightarrow> (n + 31) div 32 = n div 32" for n :: nat
  by (auto simp: mod_eq_0_iff_dvd elim!: dvdE)

lemma resized_ok:
  assumes "mem_ok mm" and "store mm' = store mm" and "unat sz \<le> max_mem" and "unat sz mod 32 = 0"
    and "unat (lastGasCost mm') = mem_fee (words_for mm sz)"
  shows "mem_ok (if sz > 0 then Resize sz mm' else mm')"
    and "unat sz \<le> length (store (if sz > 0 then Resize sz mm' else mm'))"
proof -
  let ?mm = "if sz > 0 then Resize sz mm' else mm'"
  have *: "length (store ?mm) = max (length (store mm)) (unat sz)" "lastGasCost ?mm = lastGasCost mm'"
    using assms(2) store_Resize [OF max_mem_small [OF assms(3)]] by (auto simp: word_gt_0 unat_gt_0 max_def)
  then show "unat sz \<le> length (store ?mm)" by simp
  have "max (length (store mm)) (unat sz) div 32 = words_for mm sz"
    using assms(4) by (auto simp: words_for_def words_multiple max_def div_le_mono)
  then show "mem_ok ?mm"
    using * assms(1,3,4,5) by (auto simp: mem_ok_def mem_sized_def max_def)
qed

lemma sat_memory_size:
  assumes "size_ok op" and "numPop op \<le> int (Len st)"
  shows "sat (\<lambda>(sz, ov). \<not> ov \<longrightarrow> unat sz mod 32 = 0 \<and> (memorySize op = None \<longrightarrow> sz = 0) \<and>
           (\<forall>f. memorySize op = Some f \<longrightarrow> (\<exists>n. f st = Ok (n, False) \<and> unat n \<le> unat sz)))
         (memory_size op st)"
proof (cases "memorySize op")
  case None
  then show ?thesis by (simp add: memory_size_def)
next
  case (Some f)
  with assms have "fine (f st)" by (simp add: size_ok_def)
  then show ?thesis using Some
    by (cases "f st") (auto simp: memory_size_def ToWordSize_bound [unfolded mult.commute [of 32]]
        split: prod.split dest!: SafeMul_ok)
qed

definition charged :: "operation \<Rightarrow> nat \<Rightarrow> (machine \<Rightarrow> nat) \<Rightarrow> machine \<Rightarrow> machine \<times> evm_error option \<Rightarrow> bool" where
  "charged op k give m r \<longleftrightarrow>
     (case r of (m', err) \<Rightarrow> left m m' \<and>
        (err = None \<longrightarrow> stk m' = stk m \<and> mem_ok (mem m') \<and> mem_covers (memorySize op) m' \<and>
           m_gas m' + k + give m' \<le> m_gas m))"

lemma stable_updates:
  assumes "stable give"
  shows "give (m\<lparr>ctr := c, mem := mm\<rparr>) = give m" "give (m\<lparr>ctr := c\<rparr>) = give m"
proof -
  have "m\<lparr>ctr := c, mem := mm\<rparr> = m\<lparr>mem := mm, ctr := c\<rparr>" "m\<lparr>ctr := c\<rparr> = m\<lparr>mem := mem m, ctr := c\<rparr>"
    by (cases m; simp)+
  then show "give (m\<lparr>ctr := c, mem := mm\<rparr>) = give m" "give (m\<lparr>ctr := c\<rparr>) = give m"
    using assms unfolding stable_def by metis+
qed

lemma charged_paid:
  assumes post: "dyn_post k give m sz (m', cost, None)" and "mem_ok (mem m)" and "stable give"
    and "unat sz mod 32 = 0" and "\<And>f. memorySize op = Some f \<Longrightarrow> \<exists>n. f (stk m) = Ok (n, False) \<and> unat n \<le> unat sz"
    and use: "UseGas cost (ctr m') = (c, ok)"
  shows "charged op k give m
     (if \<not> ok then (m'\<lparr>ctr := c\<rparr>, Some ErrOutOfGas)
      else (if sz > 0 then m'\<lparr>ctr := c, mem := Resize sz (mem m')\<rparr> else m'\<lparr>ctr := c\<rparr>, None))"
proof (cases ok)
  case False
  then show ?thesis using post UseGas_le [OF use] by (auto simp: charged_def left_def dyn_post_def)
next
  case True
  let ?m = "if sz > 0 then m'\<lparr>ctr := c, mem := Resize sz (mem m')\<rparr> else m'\<lparr>ctr := c\<rparr>"
  let ?mm = "if sz > 0 then Resize sz (mem m') else mem m'"
  have [simp]: "mem ?m = ?mm" "stk ?m = stk m'" "ctr ?m = c" "evm ?m = evm m'" by auto
  have "store (mem m') = store (mem m)" "unat sz \<le> max_mem"
    "unat (lastGasCost (mem m')) = mem_fee (words_for (mem m) sz)"
    using post by (simp_all add: dyn_post_def)
  note mm = resized_ok [OF assms(2) this(1,2) assms(4) this(3)]
  have "give ?m = give m'" using stable_updates [OF assms(3)] by simp
  moreover have "unat (Gas c) + unat cost = m_gas m'"
    using use True by (auto simp: UseGas_def word_less_nat_alt unat_sub_if' split: if_splits)
  moreover have "mem_covers (memorySize op) ?m"
    using assms(5) mm(2) post by (fastforce simp: mem_covers_def dyn_post_def split: option.split)
  ultimately show ?thesis using True mm(1) post by (auto simp: charged_def left_def dyn_post_def)
qed

lemma sat_use_dynamic:
  assumes size: "size_ok op" and pop: "0 \<le> numPop op" "numPop op \<le> int (Len (stk m))" and mem: "mem_ok (mem m)"
    and give: "stable give"
    and dyn: "case dynamicGas op of None \<Rightarrow> memorySize op = None \<and> k = 0 \<and> give = nothing
      | Some dyn \<Rightarrow> dyn_ok E dyn (nat (numPop op)) k give (memorySize op)"
  shows "sat (charged op k give m) (use_dynamic op E m)"
proof (cases "dynamicGas op")
  case None
  with dyn mem show ?thesis by (simp add: use_dynamic_def charged_def left_def mem_covers_def)
next
  case (Some d)
  have "sat (charged op k give m) (if ov then Ok (m, Some ErrGasUintOverflow)
          else bnd (d E m sz) (\<lambda>(m, dynamicCost, err).
            if err \<noteq> None then Ok (m, Some ErrOutOfGas)
            else
              let (c, ok) = UseGas dynamicCost (ctr m);
                  m = m\<lparr>ctr := c\<rparr>
              in if \<not> ok then Ok (m, Some ErrOutOfGas)
                 else Ok (if sz > 0 then m\<lparr>mem := Resize sz (mem m)\<rparr> else m, None)))"
    if sz: "\<not> ov \<longrightarrow> unat sz mod 32 = 0 \<and> (memorySize op = None \<longrightarrow> sz = 0) \<and>
           (\<forall>f. memorySize op = Some f \<longrightarrow> (\<exists>n. f (stk m) = Ok (n, False) \<and> unat n \<le> unat sz))" for sz ov
  proof (cases ov)
    case False
    with sz dyn Some pop mem have "sat (dyn_post k give m sz) (d E m sz)" by (auto simp: dyn_ok_def nat_le_iff)
    then show ?thesis unfolding sat_bnd if_not_P [OF False]
    proof (rule sat_mono, clarify)
      fix m' cost err assume post: "dyn_post k give m sz (m', cost, err)"
      obtain c ok where use: "UseGas cost (ctr m') = (c, ok)" by fastforce
      show "sat (charged op k give m) (if err \<noteq> None then Ok (m', Some ErrOutOfGas)
            else let (c, ok) = UseGas cost (ctr m'); m = m'\<lparr>ctr := c\<rparr>
              in if \<not> ok then Ok (m, Some ErrOutOfGas)
                 else Ok (if sz > 0 then m\<lparr>mem := Resize sz (mem m)\<rparr> else m, None))"
      proof (cases err)
        case None
        show ?thesis using charged_paid [OF _ mem give _ _ use, of k sz op] post None sz False
          by (simp add: use if_distrib cong: if_cong split: if_splits)
      qed (use post in \<open>auto simp: charged_def dyn_post_def left_def\<close>)
    qed
  qed (simp add: charged_def left_def)
  then show ?thesis unfolding use_dynamic_def Some option.case sat_bnd
    by (intro sat_mono [OF sat_memory_size [OF size pop(2)]]) auto
qed

text \<open>Calls that return at once, for the instructions that make none.\<close>

definition idle :: callctx where
  "idle = \<lparr>cc_Call = \<lambda>c a d g v ev. Ok (ev, [], g, None), cc_CallCode = \<lambda>c a d g v ev. Ok (ev, [], g, None),
     cc_DelegateCall = \<lambda>c a d g ev. Ok (ev, [], g, None), cc_StaticCall = \<lambda>c a d g ev. Ok (ev, [], g, None),
     cc_Create = \<lambda>c d g v ev. Ok (ev, [], 0, g, None), cc_Create2 = \<lambda>c d g v s ev. Ok (ev, [], 0, g, None)\<rparr>"

lemma ctx_ok_idle: "ctx_ok n idle"
  by (simp add: ctx_ok_def idle_def call_ok_def create_ok_def)

lemma sat_execute:
  assumes "exec_ok ex p q give ms" and "p \<le> Len (stk m)" and "mem_ok (mem m)" and "mem_covers ms m"
    and "m_gas m + give m < 2 ^ 64" and "ctx_ok n C" and "m_gas m + give m < n \<or> halting ex"
  shows "sat (exec_post p q (give m) m) (ex C E m)"
proof -
  have run: "sat (exec_post p q (give m) m) (ex C' E m)" if "ctx_ok n' C'" "m_gas m + give m < n'" for C' n'
    using assms(1-5) that unfolding exec_ok_def by (auto simp: mem_ok_def)
  show ?thesis
  proof (cases "halting ex")
    case True
    then have "ex C E m = ex idle E m" by (simp add: halting_def)
    with run [OF ctx_ok_idle, of "Suc (m_gas m + give m)"] show ?thesis by simp
  next
    case False
    with assms(6,7) run show ?thesis by blast
  qed
qed

lemma executed_post:
  assumes "exec_post (nat p) (nat q) g m2 (m3, res, err)" and "left m m2" and "stk m2 = stk m" and "mem_ok (mem m2)"
    and "m_gas m2 + g \<le> m_gas m" and "err = None \<Longrightarrow> m_gas m2 + g < m_gas m"
    and "p \<le> int (Len (stk m))" and "int (Len (stk m)) \<le> maxStack p q" and "0 \<le> p" "0 \<le> q"
  shows "step_post m (case err of Some e \<Rightarrow> Break m3 res e | None \<Rightarrow> Continue (m3\<lparr>pc := pc m3 + 1\<rparr>) res)"
  using assms
  by (auto simp: exec_post_def kept_def left_def step_post_def machine_ok_def mem_ok_def mem_sized_def
      maxStack_def StackLimit_def split: option.split)

lemma round_ok:
  assumes ex: "exec_ok (execute op) (nat (numPop op)) (nat (numPush op)) give (memorySize op)"
    and progress: "0 < k + g \<or> halting (execute op)" and C: "ctx_ok n C" and n: "m_gas m \<le> n"
    and ch: "charged op k give m1 (m2, err)" and m1: "left m m1" "stk m1 = stk m" "m_gas m1 + g = m_gas m"
    and stack: "numPop op \<le> int (Len (stk m))" "int (Len (stk m)) \<le> maxStack (numPop op) (numPush op)"
    and pp: "0 \<le> numPop op" "0 \<le> numPush op"
  shows "sat (step_post m) (case err of
           Some e \<Rightarrow> Ok (Fail m2 e)
         | None \<Rightarrow>
             bnd (execute op C E m2) (\<lambda>(m, res, err).
             case err of
               Some e \<Rightarrow> Ok (Break m res e)
             | None \<Rightarrow> Ok (Continue (m\<lparr>pc := pc m + 1\<rparr>) res)))"
proof (cases err)
  case None
  then have m2: "left m1 m2" "stk m2 = stk m" "mem_ok (mem m2)" "mem_covers (memorySize op) m2"
    and gas2: "m_gas m2 + k + give m2 \<le> m_gas m1"
    using ch m1(2) by (simp_all add: charged_def)
  have "m_gas m2 + give m2 < n \<or> halting (execute op)" using m1(3) gas2 n progress by auto
  moreover have "m_gas m2 + give m2 < 2 ^ 64" using gas2 unat_u64_bound [of "Gas (ctr m1)"] by linarith
  ultimately have run: "sat (exec_post (nat (numPop op)) (nat (numPush op)) (give m2) m2) (execute op C E m2)"
    using m2 stack by (intro sat_execute [OF ex _ m2(3,4) _ C]) (auto simp: nat_le_iff)
  have "step_post m (case err of Some e \<Rightarrow> Break m3 res e | None \<Rightarrow> Continue (m3\<lparr>pc := pc m3 + 1\<rparr>) res)"
    if post: "exec_post (nat (numPop op)) (nat (numPush op)) (give m2) m2 (m3, res, err)"
      and "execute op C E m2 = Ok (m3, res, err)" for m3 res err
  proof (rule executed_post [OF post _ m2(2,3) _ _ stack pp])
    show "left m m2" using m1(1) m2(1) by (auto simp: left_def)
    have "err = None \<Longrightarrow> 0 < k + g" using progress that(2) by (auto simp: halting_def)
    then show "err = None \<Longrightarrow> m_gas m2 + give m2 < m_gas m" using gas2 m1(3) by linarith
  qed (use gas2 m1(3) in linarith)
  with run show ?thesis using None by (cases "execute op C E m2") (auto split: option.splits)
qed (use ch m1 in \<open>auto simp: charged_def step_post_def left_def\<close>)

lemma step_ok:
  assumes jt: "table_ok E jt" and m: "machine_ok m" and C: "ctx_ok n C" and n: "m_gas m \<le> n"
  shows "sat (step_post m) (step C jt E m)"
proof -
  obtain op where op: "jt (GetOp (pc m) (ctr m)) = Some op" "op_ok E op"
    using jt by (meson table_ok_def)
  then have max: "maxStack_of op = maxStack (numPop op) (numPush op)"
    using jt by (auto simp: table_ok_def filled_def)
  obtain give k where ex: "exec_ok (execute op) (nat (numPop op)) (nat (numPush op)) give (memorySize op)"
    and dyn: "case dynamicGas op of None \<Rightarrow> memorySize op = None \<and> k = 0 \<and> give = nothing
      | Some dyn \<Rightarrow> dyn_ok E dyn (nat (numPop op)) k give (memorySize op)"
    and progress: "0 < k + unat (constantGas op) \<or> halting (execute op)"
    using op(2) unfolding op_ok_def by blast
  have size: "size_ok op" and pp: "0 \<le> numPop op" "0 \<le> numPush op" using op(2) by (simp_all add: op_ok_def)
  obtain c ok where use: "UseGas (constantGas op) (ctr m) = (c, ok)" by fastforce
  define m1 where "m1 = m\<lparr>ctr := c\<rparr>"
  have m1: "left m m" "left m m1" "stk m1 = stk m" "mem m1 = mem m"
    using UseGas_le [OF use] by (simp_all add: left_def m1_def)
  have gas1: "m_gas m1 + unat (constantGas op) = m_gas m" if ok
    using use that by (auto simp: m1_def UseGas_def word_less_nat_alt unat_sub_if' split: if_splits)
  have "sat (charged op k give m1) (use_dynamic op E m1)" if "numPop op \<le> int (Len (stk m))"
    using m m1 that ex by (intro sat_use_dynamic [OF size pp(1) _ _ _ dyn]) (simp_all add: machine_ok_def exec_ok_def)
  then show ?thesis using m1 round_ok [OF ex progress C n _ m1(2,3) gas1 _ _ pp]
    by (auto simp: step_def op(1) use Let_def max m1_def [symmetric] step_post_def elim!: sat_mono)
qed

section \<open>The loop\<close>

lemma frame_ok: "machine_ok (frame c i ev)"
  by (simp add: machine_ok_def frame_def NewStack_mkStack mem_Reset_def NewMemory_ok NewMemory_def
      mem_ok_def mem_sized_def mem_fee_def)

lemma run_ok_Run:
  assumes "\<And>m res. machine_ok m \<Longrightarrow> m_gas m < n \<Longrightarrow> sat (\<lambda>r. left m (fst r)) (loop 0 m res)"
  shows "run_ok n (Run loop)"
  unfolding run_ok_def
proof (intro allI impI)
  fix c :: Contract and i ro and ev :: EVM assume "unat (Gas c) < n"
  let ?ev = "ev\<lparr>depth := depth ev + 1, readOnly := (readOnly ev \<or> ro \<and> \<not> readOnly ev), returnData := []\<rparr>"
  have "sat (\<lambda>r. left (frame c i ?ev) (fst r)) (loop 0 (frame c i ?ev) [])"
    by (rule assms [OF frame_ok]) (use \<open>unat (Gas c) < n\<close> in \<open>simp add: frame_def\<close>)
  then show "sat (\<lambda>(ev', c', ret, err). call_post ev (Gas c) ev' (Gas c')) (Run loop c i ro ev)"
    by (cases ro; auto simp: Run_def Let_def call_post_def left_def frame_def elim!: sat_mono)
qed

lemma left_trans: "left m m' \<Longrightarrow> left m' m'' \<Longrightarrow> left m m''"
  by (auto simp: left_def)

lemma poll_left: "poll E k m = (m', b) \<Longrightarrow> left m m' \<and> (machine_ok m \<longrightarrow> machine_ok m')"
  by (auto simp: poll_def left_def machine_ok_def split: if_splits)

lemma run_loop_ok:
  assumes "table_ok E jt"
  shows "machine_ok m \<Longrightarrow> m_gas m < n \<Longrightarrow> sat (\<lambda>r. left m (fst r)) (run_loop n jt E k m res)"
proof (induction n arbitrary: k m res)
  case (Suc n)
  have C: "ctx_ok n (calls (Run (run_loop n jt E)) E)" by (intro ctx_ok_calls run_ok_Run Suc.IH)
  obtain m1 b where poll: "poll E (Suc k) m = (m1, b)" by fastforce
  then have m1: "left m m1" "machine_ok m1" "m_gas m1 \<le> n" using Suc.prems poll_left [OF poll] by (auto simp: left_def)
  have nxt: "sat (\<lambda>r. left m (fst r)) (case r of
            Fail m e \<Rightarrow> Ok (m, [], Some e)
          | Break m res e \<Rightarrow> Ok (m, res, if e = errStopToken then None else Some e)
          | Continue m res \<Rightarrow> run_loop n jt E (Suc k) m res)" if "step_post m1 r" for r
  proof (cases r)
    case (Continue m2 res2)
    with that m1 have "machine_ok m2" "m_gas m2 < n" "left m1 m2" by (auto simp: step_post_def)
    note ih = Suc.IH [OF this(1,2)] and t = left_trans [OF left_trans [OF m1(1) this(3)]]
    show ?thesis unfolding Continue outcome.case by (rule sat_mono [OF ih]) (auto intro: t)
  qed (use that left_trans [OF m1(1)] in \<open>auto simp: step_post_def\<close>)
  show ?case using m1(1) nxt step_ok [OF assms m1(2) C m1(3)]
    by (auto simp: poll elim!: sat_mono)
qed simp

lemma interpreter_ok: "table_ok E jt \<Longrightarrow> run_ok n (Run (run_loop n jt E))"
  by (intro run_ok_Run run_loop_ok)

section \<open>More fuel gives the same result\<close>

definition run_le :: "runner \<Rightarrow> runner \<Rightarrow> bool" where
  "run_le run run' \<longleftrightarrow> (\<forall>c i ro ev. res_le (run c i ro ev) (run' c i ro ev))"

lemma res_le_case_prod: "(\<And>x y. res_le (f x y) (f' x y)) \<Longrightarrow> res_le (case p of (x, y) \<Rightarrow> f x y) (case p of (x, y) \<Rightarrow> f' x y)"
  by (simp split: prod.split)

lemma res_le_if: "res_le a a' \<Longrightarrow> res_le b b' \<Longrightarrow> res_le (if c then a else b) (if c then a' else b')"
  by simp

lemmas res_le_intros = res_le_refl res_le_bnd res_le_case_prod res_le_if

lemma evm_call_le:
  assumes "run_le run run'"
  shows "res_le (evm_call run E typ clr addr input gas value bailout ev) (evm_call run' E typ clr addr input gas value bailout ev)"
proof -
  have "res_le (run c i ro ev) (run' c i ro ev)" for c i ro ev using assms by (simp add: run_le_def)
  moreover from this have "res_le (run_call run E typ clr addr cd input gas value ev) (run_call run' E typ clr addr cd input gas value ev)"
    for cd ev unfolding run_call_def Let_def by (auto split: option.split intro!: res_le_intros)
  ultimately show ?thesis unfolding evm_call_def Let_def by (intro res_le_intros)
qed

lemma create_le:
  assumes "run_le run run'"
  shows "res_le (create run E clr ch gas value a inc ev) (create run' E clr ch gas value a inc ev)"
proof -
  have "res_le (run c i ro ev) (run' c i ro ev)" for c i ro ev using assms by (simp add: run_le_def)
  then show ?thesis unfolding create_def Let_def by (intro res_le_intros)
qed

lemma calls_le: "run_le run run' \<Longrightarrow> ctx_le (calls run E) (calls run' E)"
  by (auto simp: ctx_le_def calls_def Call_def CallCode_def DelegateCall_def StaticCall_def Create_def Create2_def
      Let_def intro!: evm_call_le create_le res_le_case_prod)

lemma step_le:
  assumes "table_ok E jt" and "ctx_le C C'"
  shows "res_le (step C jt E m) (step C' jt E m)"
proof -
  obtain op where op: "jt (GetOp (pc m) (ctr m)) = Some op" "op_ok E op"
    using assms(1) by (meson table_ok_def)
  then have ex: "res_le (execute op C E m) (execute op C' E m)" for m
    using assms(2) by (simp add: op_ok_def mono_exec_def)
  show ?thesis unfolding step_def op(1) Let_def of_opt_simps bnd_simps
    by (auto intro!: res_le_intros ex split: option.split)
qed

lemma run_loop_le:
  assumes "table_ok E jt"
  shows "n \<le> n' \<Longrightarrow> res_le (run_loop n jt E k m res) (run_loop n' jt E k m res)"
proof (induction n arbitrary: n' k m res)
  case (Suc n)
  then obtain l where l: "n' = Suc l" "n \<le> l" by (cases n') auto
  have "run_le (Run (run_loop n jt E)) (Run (run_loop l jt E))"
    unfolding run_le_def Run_def Let_def by (auto intro!: res_le_intros Suc.IH [OF l(2)])
  note C = step_le [OF assms calls_le [OF this]]
  show ?case unfolding l(1) run_loop.simps(2) Let_def
    by (rule res_le_case_prod, rule res_le_if, simp, rule res_le_bnd [OF C])
      (simp add: Suc.IH [OF l(2)] split: outcome.split)
qed (simp add: res_le_def)

lemma Run_le: "table_ok E jt \<Longrightarrow> n \<le> n' \<Longrightarrow> run_le (Run (run_loop n jt E)) (Run (run_loop n' jt E))"
  unfolding run_le_def Run_def Let_def by (auto intro!: res_le_intros run_loop_le)

end
