(* ===== verification/StateView.thy ===== *)
theory StateView
  imports IntraBlockState
begin

text \<open>
  What a caller of \<open>IntraBlockState\<close> can observe, without the caches: an account is live,
  or what the reader returns for it; a slot is dirty, or cached, or what the reader returns.
  \<open>view\<close> maps a concrete state to this abstract state, \<open>vrevert\<close> says what undoing a journal
  entry means there, and the refinement lemmas relate the two. States with a pending balance
  increase are excluded here: \<open>StateProps\<close> shows what happens to them.
\<close>

record aobj =
  ao_address :: address
  ao_data :: StateAccount
  ao_original :: StateAccount
  ao_code :: "bytes option"
  ao_state :: "hash \<Rightarrow> u256 res"
  ao_committed :: "hash \<Rightarrow> u256 res"
  ao_fake :: "(hash \<Rightarrow> u256) option"
  ao_selfdestructed :: bool
  ao_deleted :: bool
  ao_created :: bool

record astate =
  as_reader :: StateReader
  as_snap :: "Snapshot option"
  as_objs :: "address \<rightharpoonup> aobj"
  as_refund :: u64
  as_tx :: "hash \<times> hash \<times> int"
  as_logs :: "hash \<rightharpoonup> Log list"
  as_logSize :: u64
  as_al :: accessList
  as_binc :: "address \<rightharpoonup> BalanceIncrease"

text \<open>The snapshot the storage is read from, if there is one.\<close>

definition read_snap :: "IntraBlockState \<Rightarrow> Snapshot option" where
  "read_snap s = (case snap s of Some sn \<Rightarrow> if CanWrite sn then None else Some sn | None \<Rightarrow> None)"

definition db_slot :: "StateReader \<Rightarrow> Snapshot option \<Rightarrow> address \<Rightarrow> u16 \<Rightarrow> hash \<Rightarrow> u256 res" where
  "db_slot R S a inc k =
     bnd (case S of Some sn \<Rightarrow> snap_ReadAccountStorage a inc k sn | None \<Rightarrow> Ok (ReadAccountStorage R a inc k))
       (\<lambda>r. Ok (case r of (Some bs, None) \<Rightarrow> SetBytes bs | _ \<Rightarrow> 0))"

definition committed_view :: "StateReader \<Rightarrow> Snapshot option \<Rightarrow> stateObject \<Rightarrow> hash \<Rightarrow> u256 res" where
  "committed_view R S so k =
     (case fakeStorage so of
        Some fs \<Rightarrow> Ok (lookup0 fs k)
      | None \<Rightarrow>
        (case originStorage so k of
           Some v \<Rightarrow> Ok v
         | None \<Rightarrow> if created so then Ok 0 else db_slot R S (so_address so) (Incarnation (data so)) k))"

definition state_view :: "StateReader \<Rightarrow> Snapshot option \<Rightarrow> stateObject \<Rightarrow> hash \<Rightarrow> u256 res" where
  "state_view R S so k =
     (case fakeStorage so of
        Some fs \<Rightarrow> Ok (lookup0 fs k)
      | None \<Rightarrow> (case dirtyStorage so k of Some v \<Rightarrow> Ok v | None \<Rightarrow> committed_view R S so k))"

definition code_of :: "lib \<Rightarrow> StateReader \<Rightarrow> address \<Rightarrow> u16 \<Rightarrow> bytes option \<Rightarrow> hash \<Rightarrow> bytes option" where
  "code_of L R a inc c h =
     (if c \<noteq> None then c else if h = emptyCodeHash L then None else fst (ReadAccountCode R a inc h))"

definition oview :: "lib \<Rightarrow> StateReader \<Rightarrow> Snapshot option \<Rightarrow> stateObject \<Rightarrow> aobj" where
  "oview L R S so =
     \<lparr>ao_address = so_address so, ao_data = (data so)\<lparr>Initialised := True\<rparr>, ao_original = original so,
      ao_code = code_of L R (so_address so) (Incarnation (data so)) (code so) (CodeHash (data so)),
      ao_state = state_view R S so, ao_committed = committed_view R S so, ao_fake = map_option lookup0 (fakeStorage so),
      ao_selfdestructed = selfdestructed so, ao_deleted = deleted so, ao_created = created so\<rparr>"

definition db_object :: "lib \<Rightarrow> StateReader \<Rightarrow> address \<Rightarrow> stateObject option" where
  "db_object L R a =
     (case ReadAccountData R a of (Some acc, None) \<Rightarrow> Some (newObject L a acc acc) | _ \<Rightarrow> None)"

definition eff :: "lib \<Rightarrow> IntraBlockState \<Rightarrow> address \<Rightarrow> stateObject option" where
  "eff L s a =
     (case stateObjects s a of
        Some so \<Rightarrow> Some so
      | None \<Rightarrow> db_object L (stateReader s) a)"

definition view :: "lib \<Rightarrow> IntraBlockState \<Rightarrow> astate" where
  "view L s =
     \<lparr>as_reader = stateReader s, as_snap = read_snap s,
      as_objs = (\<lambda>a. map_option (oview L (stateReader s) (read_snap s)) (eff L s a)),
      as_refund = refund s, as_tx = (thash s, bhash s, txIndex s), as_logs = logs s,
      as_logSize = logSize s, as_al = accessList s, as_binc = balanceInc s\<rparr>"

text \<open>Accounts remembered as absent are absent.\<close>

definition nil_ok :: "IntraBlockState \<Rightarrow> bool" where
  "nil_ok s \<longleftrightarrow> (\<forall>a\<in>nilAccounts s. ReadAccountData (stateReader s) a = (None, None))"

text \<open>The invariant, on the abstract state: an object lives under its address, no balance
  increase is pending, no empty list of logs is kept and the access list is well formed.\<close>

definition view_ok :: "astate \<Rightarrow> bool" where
  "view_ok v \<longleftrightarrow>
     (\<forall>a ob. as_objs v a = Some ob \<longrightarrow> ao_address ob = a) \<and>
     (\<forall>a bi. as_binc v a = Some bi \<longrightarrow> transferred bi) \<and>
     (\<forall>h. as_logs v h \<noteq> Some []) \<and>
     al_inv (as_al v)"

section \<open>Undoing an entry on the abstract state\<close>

definition vmod :: "address \<Rightarrow> (aobj \<Rightarrow> aobj res) \<Rightarrow> astate \<Rightarrow> astate res" where
  "vmod a f v =
     (case as_objs v a of
        None \<Rightarrow> Panic NilDereference
      | Some ob \<Rightarrow> bnd (f ob) (\<lambda>ob. Ok (v\<lparr>as_objs := (as_objs v)(a \<mapsto> ob)\<rparr>)))"

definition vset_balance :: "u256 \<Rightarrow> aobj \<Rightarrow> aobj" where
  "vset_balance b ob = ob\<lparr>ao_data := (ao_data ob)\<lparr>Balance := b\<rparr>\<rparr>"

definition vset_nonce :: "u64 \<Rightarrow> aobj \<Rightarrow> aobj" where
  "vset_nonce n ob = ob\<lparr>ao_data := (ao_data ob)\<lparr>Nonce := n\<rparr>\<rparr>"

definition vset_code :: "lib \<Rightarrow> StateReader \<Rightarrow> hash \<Rightarrow> bytes option \<Rightarrow> aobj \<Rightarrow> aobj" where
  "vset_code L R h c ob =
     ob\<lparr>ao_data := (ao_data ob)\<lparr>CodeHash := h\<rparr>,
       ao_code := code_of L R (ao_address ob) (Incarnation (ao_data ob)) c h\<rparr>"

definition vset_state :: "hash \<Rightarrow> u256 \<Rightarrow> aobj \<Rightarrow> aobj" where
  "vset_state k x ob = (case ao_fake ob of None \<Rightarrow> ob\<lparr>ao_state := (ao_state ob)(k := Ok x)\<rparr> | Some _ \<Rightarrow> ob)"

definition vset_fake :: "hash \<Rightarrow> u256 \<Rightarrow> aobj \<Rightarrow> aobj res" where
  "vset_fake k x ob =
     (case ao_fake ob of
        None \<Rightarrow> Panic NilDereference
      | Some fs \<Rightarrow> Ok (ob\<lparr>ao_fake := Some (fs(k := x)), ao_state := (\<lambda>j. Ok ((fs(k := x)) j)),
                          ao_committed := (\<lambda>j. Ok ((fs(k := x)) j))\<rparr>))"

definition vrevert :: "lib \<Rightarrow> journalEntry \<Rightarrow> astate \<Rightarrow> astate res" where
  "vrevert L e v =
     (case e of
        createObjectChange a \<Rightarrow>
          Ok (v\<lparr>as_objs := (as_objs v)(a := map_option (oview L (as_reader v) (as_snap v)) (db_object L (as_reader v) a))\<rparr>)
      | resetObjectChange a prev \<Rightarrow>
          Ok (v\<lparr>as_objs := (as_objs v)(a \<mapsto> oview L (as_reader v) (as_snap v) prev)\<rparr>)
      | selfdestructChange a prev b \<Rightarrow>
          (case as_objs v a of
             None \<Rightarrow> Ok v
           | Some ob \<Rightarrow> Ok (v\<lparr>as_objs := (as_objs v)(a \<mapsto> vset_balance b (ob\<lparr>ao_selfdestructed := prev\<rparr>))\<rparr>))
      | touchChange a \<Rightarrow> Ok v
      | balanceChange a b \<Rightarrow> vmod a (\<lambda>ob. Ok (vset_balance b ob)) v
      | balanceIncrease a inc \<Rightarrow> Panic Impossible
      | balanceIncreaseTransfer a \<Rightarrow> Panic Impossible
      | nonceChange a n \<Rightarrow> vmod a (\<lambda>ob. Ok (vset_nonce n ob)) v
      | codeChange a c h \<Rightarrow> vmod a (\<lambda>ob. Ok (vset_code L (as_reader v) h c ob)) v
      | storageChange a k x \<Rightarrow> vmod a (\<lambda>ob. Ok (vset_state k x ob)) v
      | fakeStorageChange a k x \<Rightarrow> vmod a (vset_fake k x) v
      | refundChange r \<Rightarrow> Ok (v\<lparr>as_refund := r\<rparr>)
      | addLogChange h \<Rightarrow>
          (let ls = (case as_logs v h of None \<Rightarrow> [] | Some ls \<Rightarrow> ls)
           in if length ls = 1 then Ok (v\<lparr>as_logs := (as_logs v)(h := None), as_logSize := as_logSize v - 1\<rparr>)
              else if ls = [] then Panic SliceBounds
              else Ok (v\<lparr>as_logs := (as_logs v)(h \<mapsto> butlast ls), as_logSize := as_logSize v - 1\<rparr>))
      | accessListAddAccountChange a \<Rightarrow> Ok (v\<lparr>as_al := DeleteAddress a (as_al v)\<rparr>)
      | accessListAddSlotChange a k \<Rightarrow> bnd (DeleteSlot a k (as_al v)) (\<lambda>al. Ok (v\<lparr>as_al := al\<rparr>)))"

definition plain_entry :: "journalEntry \<Rightarrow> bool" where
  "plain_entry e = (case e of balanceIncrease _ _ \<Rightarrow> False | balanceIncreaseTransfer _ \<Rightarrow> False | _ \<Rightarrow> True)"

definition map_res :: "('a \<Rightarrow> 'b) \<Rightarrow> 'a res \<Rightarrow> 'b res" where
  "map_res f r = bnd r (\<lambda>x. Ok (f x))"

end
