(* ===== verification/StateRevert.thy ===== *)
theory StateRevert
  imports StateView
begin

text \<open>
  The refinement of \<open>StateView\<close>: reads do not change the abstract state, each undo of the
  journal is the abstract undo, and a reverted frame leaves the abstract state it started
  from.
\<close>

section \<open>Reads do not change what is observed\<close>

lemma read_snap_simps [simp]:
  "read_snap (setErrorUnsafe e s) = read_snap s"
  "read_snap (s\<lparr>journal := j\<rparr>) = read_snap s"
  "read_snap (s\<lparr>nilAccounts := n\<rparr>) = read_snap s"
  "read_snap (s\<lparr>stateObjects := m\<rparr>) = read_snap s"
  "read_snap (s\<lparr>stateObjectsDirty := d\<rparr>) = read_snap s"
  "read_snap (s\<lparr>refund := r\<rparr>) = read_snap s"
  "read_snap (s\<lparr>logs := l\<rparr>) = read_snap s"
  "read_snap (s\<lparr>logSize := z\<rparr>) = read_snap s"
  "read_snap (s\<lparr>accessList := al\<rparr>) = read_snap s"
  "read_snap (s\<lparr>balanceInc := b\<rparr>) = read_snap s"
  "read_snap (s\<lparr>validRevisions := vr\<rparr>) = read_snap s"
  "read_snap (s\<lparr>nextRevisionID := i\<rparr>) = read_snap s"
  "read_snap (s\<lparr>codeMap := c\<rparr>) = read_snap s"
  "read_snap (s\<lparr>savedErr := x\<rparr>) = read_snap s"
  by (simp_all add: read_snap_def setErrorUnsafe_def)

lemma eff_cong:
  "stateObjects s = stateObjects t \<Longrightarrow> stateReader s = stateReader t \<Longrightarrow> eff L s = eff L t"
  by (simp add: eff_def fun_eq_iff split: option.splits)

lemma eff_put_object: "eff L (put_object a so s) = (eff L s)(a \<mapsto> so)"
  by (simp add: eff_def put_object_def fun_eq_iff split: option.splits)

lemma view_setErrorUnsafe [simp]: "view L (setErrorUnsafe e s) = view L s"
  using eff_cong [of "setErrorUnsafe e s" s L] by (simp add: view_def) (simp add: setErrorUnsafe_def)

lemma view_put_object:
  "view L (put_object a so s) =
     (view L s)\<lparr>as_objs := (as_objs (view L s))(a \<mapsto> oview L (stateReader s) (read_snap s) so)\<rparr>"
  by (simp add: view_def eff_put_object) (simp add: put_object_def fun_eq_iff)

lemma no_pending: "view_ok (view L s) \<Longrightarrow> \<not> pending s a"
  by (auto simp: view_ok_def view_def pending_def split: option.splits)

lemma setStateObject_not_pending: "\<not> pending s a \<Longrightarrow> setStateObject a so s = put_object a so s"
  by (auto simp: setStateObject_def pending_def split: option.splits)

lemma pending_simps [simp]:
  "pending (s\<lparr>nilAccounts := n\<rparr>) a = pending s a"
  "pending (s\<lparr>snap := x\<rparr>) a = pending s a"
  "pending (s\<lparr>journal := j\<rparr>) a = pending s a"
  by (simp_all add: pending_def)

lemma written_AddAccount [simp]: "written (AddAccount L a acc sn) = written sn"
  by (simp add: AddAccount_def Let_def)

lemma written_AddStorage [simp]: "written (AddStorage a k i v sn) = written sn"
  by (simp add: AddStorage_def Let_def)

lemma getStateObject_cases:
  assumes "\<not> pending s a"
  obtains (live) so where "stateObjects s a = Some so" and "getStateObject L a s = s"
  | (nil) "stateObjects s a = None" and "a \<in> nilAccounts s" and "getStateObject L a s = s"
  | (err) e where "stateObjects s a = None" and "db_object L (stateReader s) a = None"
      and "getStateObject L a s = setErrorUnsafe e s"
  | (absent) "stateObjects s a = None" and "ReadAccountData (stateReader s) a = (None, None)"
      and "getStateObject L a s = s\<lparr>nilAccounts := insert a (nilAccounts s)\<rparr>"
  | (load) so sn' where "stateObjects s a = None" and "db_object L (stateReader s) a = Some so"
      and "getStateObject L a s = put_object a so (s\<lparr>snap := sn'\<rparr>)"
      and "read_snap (s\<lparr>snap := sn'\<rparr>) = read_snap s"
proof (cases "stateObjects s a")
  case (Some so)
  then show ?thesis using live by (simp add: getStateObject_def)
next
  case None
  show ?thesis
  proof (cases "a \<in> nilAccounts s")
    case True
    with None assms show ?thesis using nil by (simp add: getStateObject_def)
  next
    case False
    obtain acc e where r: "ReadAccountData (stateReader s) a = (acc, e)" by fastforce
    show ?thesis
    proof (cases e)
      case (Some err')
      with None False r show ?thesis by (intro err [of err']) (auto simp: getStateObject_def db_object_def split: option.splits)
    next
      case none: None
      show ?thesis
      proof (cases acc)
        case None
        with \<open>stateObjects s a = None\<close> False r none assms show ?thesis
          using absent by (simp add: getStateObject_def Let_def)
      next
        case (Some x)
        define sn' where "sn' = (case snap s of Some sn \<Rightarrow>
            if CanWrite sn then Some (AddAccount L a (Some x) sn) else Some sn | None \<Rightarrow> None)"
        have upd: "(case snap s of Some sn \<Rightarrow> if CanWrite sn then s\<lparr>snap := Some (AddAccount L a (Some x) sn)\<rparr> else s
            | None \<Rightarrow> s) = s\<lparr>snap := sn'\<rparr>"
          by (auto simp: sn'_def split: option.splits)
        have "getStateObject L a s = put_object a (newObject L a x x) (s\<lparr>snap := sn'\<rparr>)"
          using None False r none Some assms
          by (simp add: getStateObject_def Let_def upd setStateObject_not_pending)
        moreover have "read_snap (s\<lparr>snap := sn'\<rparr>) = read_snap s"
          by (auto simp: read_snap_def sn'_def CanWrite_def split: option.splits)
        moreover have "db_object L (stateReader s) a = Some (newObject L a x x)"
          using r none Some by (simp add: db_object_def)
        ultimately show ?thesis using load None by blast
      qed
    qed
  qed
qed

lemma view_snap: "read_snap (s\<lparr>snap := x\<rparr>) = read_snap s \<Longrightarrow> view L (s\<lparr>snap := x\<rparr>) = view L s"
  using eff_cong [of "s\<lparr>snap := x\<rparr>" s L] by (simp add: view_def)

text \<open>The part of the state that only snapshots and journalled writes change.\<close>

definition meta :: "IntraBlockState \<Rightarrow> journal \<times> revision list \<times> int" where
  "meta s = (journal s, validRevisions s, nextRevisionID s)"

lemma getStateObject_spec:
  assumes "nil_ok s" and "\<not> pending s a"
  shows "stateObjects (getStateObject L a s) a = eff L s a"
    and "view L (getStateObject L a s) = view L s"
    and "nil_ok (getStateObject L a s)"
    and "meta (getStateObject L a s) = meta s"
    and "stateReader (getStateObject L a s) = stateReader s"
    and "read_snap (getStateObject L a s) = read_snap s"
proof -
  have view_load: "view L (put_object a so t) = view L t"
    if "stateObjects t a = None" "db_object L (stateReader t) a = Some so" for so t
    using that by (auto simp: view_put_object) (auto simp: view_def eff_def intro!: ext)
  have "stateObjects (getStateObject L a s) a = eff L s a \<and> view L (getStateObject L a s) = view L s \<and>
      nil_ok (getStateObject L a s) \<and> meta (getStateObject L a s) = meta s \<and>
      stateReader (getStateObject L a s) = stateReader s \<and> read_snap (getStateObject L a s) = read_snap s"
    using assms(2)
  proof (cases rule: getStateObject_cases [where L = L])
    case live
    then show ?thesis using assms by (simp add: eff_def)
  next
    case nil
    then show ?thesis using assms by (simp add: eff_def nil_ok_def db_object_def)
  next
    case err
    then show ?thesis using assms
      by (simp add: eff_def nil_ok_def meta_def) (simp add: setErrorUnsafe_def)
  next
    case absent
    then show ?thesis using assms by (simp add: eff_def nil_ok_def meta_def db_object_def view_def
        cong: option.case_cong)
  next
    case load
    then show ?thesis using assms view_load [of "s\<lparr>snap := sn'\<rparr>" for sn']
      by (simp add: eff_def nil_ok_def meta_def view_snap) (simp add: put_object_def)
  qed
  then show "stateObjects (getStateObject L a s) a = eff L s a"
    and "view L (getStateObject L a s) = view L s"
    and "nil_ok (getStateObject L a s)"
    and "meta (getStateObject L a s) = meta s"
    and "stateReader (getStateObject L a s) = stateReader s"
    and "read_snap (getStateObject L a s) = read_snap s"
    by simp_all
qed


section \<open>Undoing entries\<close>

lemma oview_so_setBalance: "oview L R S (so_setBalance b so) = vset_balance b (oview L R S so)"
  by (simp add: oview_def so_setBalance_def vset_balance_def state_view_def [abs_def]
      committed_view_def [abs_def] cong: option.case_cong if_cong)

lemma oview_so_setNonce: "oview L R S (so_setNonce n so) = vset_nonce n (oview L R S so)"
  by (simp add: oview_def so_setNonce_def vset_nonce_def state_view_def [abs_def]
      committed_view_def [abs_def] cong: option.case_cong if_cong)

lemma oview_so_setCode: "oview L R S (so_setCode h c so) = vset_code L R h c (oview L R S so)"
  by (simp add: oview_def so_setCode_def vset_code_def state_view_def [abs_def]
      committed_view_def [abs_def] cong: option.case_cong if_cong)

lemma oview_so_setState: "oview L R S (so_setState k x so) = vset_state k x (oview L R S so)"
  by (auto simp: oview_def so_setState_def vset_state_def state_view_def committed_view_def fun_eq_iff
      split: option.splits)

lemma lookup0_upd [simp]: "lookup0 (fs(k \<mapsto> x)) = (lookup0 fs)(k := x)"
  by (simp add: lookup0_def fun_eq_iff)

lemma oview_fake:
  "fakeStorage so = Some fs \<Longrightarrow>
   vset_fake k x (oview L R S so) = Ok (oview L R S (so\<lparr>fakeStorage := Some (fs(k \<mapsto> x))\<rparr>))"
  by (simp add: oview_def vset_fake_def state_view_def [abs_def] committed_view_def [abs_def])

lemma oview_selfdestructed:
  "oview L R S (so\<lparr>selfdestructed := b\<rparr>) = (oview L R S so)\<lparr>ao_selfdestructed := b\<rparr>"
  by (simp add: oview_def state_view_def [abs_def] committed_view_def [abs_def] cong: option.case_cong if_cong)

lemma as_objs_view: "as_objs (view L s) a = map_option (oview L (stateReader s) (read_snap s)) (eff L s a)"
  by (simp add: view_def)

lemma as_reader_view [simp]: "as_reader (view L s) = stateReader s"
  and as_snap_view [simp]: "as_snap (view L s) = read_snap s"
  by (simp_all add: view_def)

lemma map_res_simps [simp]:
  "map_res f (Ok x) = Ok (f x)"
  "map_res f (Panic p) = Panic p"
  "map_res f NoFuel = NoFuel"
  "map_res f (bnd r g) = bnd r (\<lambda>x. map_res f (g x))"
  by (simp_all add: map_res_def bnd_assoc)

lemma revert_object_view:
  assumes "nil_ok s" and "\<not> pending s a"
    and f: "\<And>so. map_res (oview L (stateReader s) (read_snap s)) (f so) = g (oview L (stateReader s) (read_snap s) so)"
  shows "map_res (view L) (revert_object L a f s) = vmod a g (view L s)"
proof -
  note get = getStateObject_spec [OF assms(1,2), of L]
  show ?thesis
  proof (cases "eff L s a")
    case None
    then show ?thesis using get by (simp add: revert_object_def vmod_def as_objs_view)
  next
    case (Some so)
    have "g (oview L (stateReader s) (read_snap s) so) = bnd (f so) (\<lambda>so. Ok (oview L (stateReader s) (read_snap s) so))"
      using f [of so] by (simp add: map_res_def)
    with Some show ?thesis using get
      by (simp add: revert_object_def vmod_def as_objs_view view_put_object bnd_assoc)
  qed
qed

lemma revert_view:
  assumes nil: "nil_ok s" and ok: "view_ok (view L s)" and plain: "plain_entry e"
  shows "map_res (view L) (revert L e s) = vrevert L e (view L s)"
proof -
  have np: "\<not> pending s a" for a using ok by (rule no_pending)
  note get = getStateObject_spec [OF nil np, of L]
  note ro = revert_object_view [OF nil np]
  show ?thesis
  proof (cases e)
    case (createObjectChange a)
    then show ?thesis
      by (simp add: revert_def vrevert_def) (simp add: view_def eff_def fun_eq_iff split: option.splits)
  next
    case (resetObjectChange a prev)
    then show ?thesis
      by (simp add: revert_def vrevert_def setStateObject_not_pending np view_put_object)
  next
    case (selfdestructChange a prev b)
    then show ?thesis using get [of a]
      by (cases "eff L s a")
        (simp_all add: revert_def vrevert_def as_objs_view view_put_object oview_so_setBalance oview_selfdestructed)
  next
    case (balanceChange a b)
    then show ?thesis by (simp add: revert_def vrevert_def ro oview_so_setBalance)
  next
    case (nonceChange a n)
    then show ?thesis by (simp add: revert_def vrevert_def ro oview_so_setNonce)
  next
    case (codeChange a c h)
    then show ?thesis by (simp add: revert_def vrevert_def ro oview_so_setCode)
  next
    case (storageChange a k x)
    then show ?thesis by (simp add: revert_def vrevert_def ro oview_so_setState)
  next
    case (fakeStorageChange a k x)
    have "map_res (oview L (stateReader s) (read_snap s))
        (case fakeStorage so of None \<Rightarrow> Panic NilDereference
         | Some fs \<Rightarrow> Ok (so\<lparr>fakeStorage := Some (fs(k \<mapsto> x))\<rparr>)) =
        vset_fake k x (oview L (stateReader s) (read_snap s) so)" for so
      by (cases "fakeStorage so") (simp_all add: oview_fake, simp add: vset_fake_def oview_def)
    with fakeStorageChange show ?thesis by (simp add: revert_def vrevert_def ro)
  next
    case (refundChange r)
    then show ?thesis using eff_cong [of "s\<lparr>refund := r\<rparr>" s L]
      by (simp add: revert_def vrevert_def) (simp add: view_def)
  next
    case (addLogChange h)
    then show ?thesis
      using eff_cong [of "s\<lparr>logs := l, logSize := z\<rparr>" s L for l z]
      by (auto simp: revert_def vrevert_def Let_def butlast_conv_take view_def split: option.splits)
  next
    case (accessListAddAccountChange a)
    then show ?thesis using eff_cong [of "s\<lparr>accessList := x\<rparr>" s L for x]
      by (simp add: revert_def vrevert_def) (simp add: view_def)
  next
    case (accessListAddSlotChange a k)
    then show ?thesis using eff_cong [of "s\<lparr>accessList := x\<rparr>" s L for x]
      by (simp add: revert_def vrevert_def) (simp add: view_def)
  qed (use plain in \<open>simp_all add: plain_entry_def revert_def vrevert_def\<close>)
qed


text \<open>Undoing a list of entries, the last one first, through well-formed states.\<close>

fun undoes :: "lib \<Rightarrow> journalEntry list \<Rightarrow> astate \<Rightarrow> astate \<Rightarrow> bool" where
  "undoes L [] v v' \<longleftrightarrow> v = v'"
| "undoes L (e # es) v v' \<longleftrightarrow>
     (\<exists>w. undoes L es v w \<and> view_ok w \<and> plain_entry e \<and> vrevert L e w = Ok v')"

lemma undoes_append: "undoes L (xs @ ys) v v' \<longleftrightarrow> (\<exists>w. undoes L ys v w \<and> undoes L xs w v')"
  by (induction xs arbitrary: v') auto

lemma view_journal [simp]: "view L (s\<lparr>journal := j\<rparr>) = view L s"
  using eff_cong [of "s\<lparr>journal := j\<rparr>" s L] by (simp add: view_def)

lemma view_revisions [simp]:
  "view L (s\<lparr>validRevisions := r\<rparr>) = view L s"
  "view L (s\<lparr>nextRevisionID := i\<rparr>) = view L s"
  using eff_cong [of "s\<lparr>validRevisions := r\<rparr>" s L] eff_cong [of "s\<lparr>nextRevisionID := i\<rparr>" s L]
  by (simp_all add: view_def)

lemma nil_ok_revisions [simp]:
  "nil_ok (s\<lparr>validRevisions := r\<rparr>) = nil_ok s"
  "nil_ok (s\<lparr>nextRevisionID := i\<rparr>) = nil_ok s"
  by (simp_all add: nil_ok_def)

lemma nil_ok_journal [simp]: "nil_ok (s\<lparr>journal := j\<rparr>) = nil_ok s"
  by (simp add: nil_ok_def)

lemma revert_keeps:
  assumes nil: "nil_ok s" and ok: "view_ok (view L s)" and plain: "plain_entry e"
    and run: "revert L e s = Ok s'"
  shows "nil_ok s' \<and> meta s' = meta s"
proof -
  have np: "\<not> pending s a" for a using ok by (rule no_pending)
  note get = getStateObject_spec [OF nil np, of L]
  have ro: "nil_ok s' \<and> meta s' = meta s" if "revert_object L a f s = Ok s'" for a f
    using that get [of a]
    by (auto simp: revert_object_def bnd_eq_Ok put_object_def nil_ok_def meta_def Let_def
        split: option.splits)
  have keep: "nil_ok (t\<lparr>stateObjects := m\<rparr>) = nil_ok t" "meta (t\<lparr>stateObjects := m\<rparr>) = meta t"
    "nil_ok (t\<lparr>stateObjectsDirty := d\<rparr>) = nil_ok t" "meta (t\<lparr>stateObjectsDirty := d\<rparr>) = meta t"
    "nil_ok (t\<lparr>refund := r\<rparr>) = nil_ok t" "meta (t\<lparr>refund := r\<rparr>) = meta t"
    "nil_ok (t\<lparr>accessList := al\<rparr>) = nil_ok t" "meta (t\<lparr>accessList := al\<rparr>) = meta t"
    for t m d r al by (simp_all add: nil_ok_def meta_def)
  show ?thesis
  proof (cases e)
    case (selfdestructChange a prev b)
    then show ?thesis using run get [of a]
      by (auto simp: revert_def Let_def put_object_def keep split: option.splits)
  next
    case (resetObjectChange a prev)
    then show ?thesis using run nil by (auto simp: revert_def setStateObject_not_pending np put_object_def keep)
  next
    case (addLogChange h)
    then show ?thesis using run nil
      by (auto simp: revert_def Let_def nil_ok_def meta_def split: if_splits)
  next
    case (accessListAddSlotChange a k)
    then show ?thesis using run nil by (auto simp: revert_def bnd_eq_Ok nil_ok_def meta_def)
  next
    case (balanceChange a b)
    then show ?thesis using run by (simp add: revert_def ro)
  next
    case (nonceChange a n)
    then show ?thesis using run by (simp add: revert_def ro)
  next
    case (codeChange a c h)
    then show ?thesis using run by (simp add: revert_def ro)
  next
    case (storageChange a k x)
    then show ?thesis using run by (simp add: revert_def ro)
  next
    case (fakeStorageChange a k x)
    then show ?thesis using run by (simp add: revert_def ro)
  next
    case (createObjectChange a)
    then show ?thesis using run nil by (auto simp: revert_def keep)
  next
    case (touchChange a)
    then show ?thesis using run nil by (auto simp: revert_def keep)
  next
    case (refundChange r)
    then show ?thesis using run nil by (auto simp: revert_def keep)
  next
    case (accessListAddAccountChange a)
    then show ?thesis using run nil by (auto simp: revert_def keep)
  next
    case (balanceIncrease a x)
    then show ?thesis using plain by (simp add: plain_entry_def)
  next
    case (balanceIncreaseTransfer a)
    then show ?thesis using plain by (simp add: plain_entry_def)
  qed
qed

lemma revert_loop_undoes:
  assumes "nil_ok s" and "entries (journal s) = pre @ es @ post"
    and "undoes L es (view L s) v'"
  shows "\<exists>s'. revert_loop L (length pre) (length es) s = Ok s' \<and> view L s' = v' \<and> nil_ok s' \<and>
    entries (journal s') = entries (journal s) \<and> validRevisions s' = validRevisions s \<and>
    nextRevisionID s' = nextRevisionID s"
  using assms
proof (induction es arbitrary: s post rule: rev_induct)
  case Nil
  then show ?case by simp
next
  case (snoc e es)
  from snoc.prems(3) obtain w where ok: "view_ok (view L s)" and plain: "plain_entry e"
    and w: "vrevert L e (view L s) = Ok w" "undoes L es w v'"
    by (auto simp: undoes_append)
  from revert_view [OF snoc.prems(1) ok plain] w
  obtain s1 where s1: "revert L e s = Ok s1" "view L s1 = w" by (auto simp: map_res_def bnd_eq_Ok)
  from revert_keeps [OF snoc.prems(1) ok plain s1(1)]
  have keep: "nil_ok s1" "journal s1 = journal s" "validRevisions s1 = validRevisions s"
    "nextRevisionID s1 = nextRevisionID s" by (auto simp: meta_def)
  let ?s2 = "s1\<lparr>journal := undirty (dirtied e) (journal s1)\<rparr>"
  have ent: "entries (journal ?s2) = entries (journal s)"
    by (auto simp: undirty_def keep Let_def split: option.splits)
  have "\<exists>s'. revert_loop L (length pre) (length es) ?s2 = Ok s' \<and> view L s' = v' \<and> nil_ok s' \<and>
      entries (journal s') = entries (journal ?s2) \<and> validRevisions s' = validRevisions ?s2 \<and>
      nextRevisionID s' = nextRevisionID ?s2"
    by (rule snoc.IH [of _ "e # post"]) (use keep s1 w snoc.prems(2) ent in simp_all)
  moreover have "entries (journal s) ! (length pre + length es) = e"
    using snoc.prems(2) by (simp add: nth_append)
  ultimately show ?case using s1 keep ent by (simp add: Let_def)
qed

lemma journal_revert_undoes:
  assumes "nil_ok s" and ent: "entries (journal s) = pre @ es"
    and "undoes L es (view L s) v'"
  shows "\<exists>s'. journal_revert L (length pre) s = Ok s' \<and> view L s' = v' \<and> nil_ok s' \<and>
    entries (journal s') = pre \<and> validRevisions s' = validRevisions s \<and>
    nextRevisionID s' = nextRevisionID s"
proof -
  obtain s1 where "revert_loop L (length pre) (length es) s = Ok s1" "view L s1 = v'" "nil_ok s1"
    "entries (journal s1) = entries (journal s)" "validRevisions s1 = validRevisions s"
    "nextRevisionID s1 = nextRevisionID s"
    using revert_loop_undoes [of s pre es "[]" L v'] assms by auto
  then show ?thesis using ent by (simp add: journal_revert_def)
qed

section \<open>Finding the revision\<close>

lemma sort_search_unfold:
  "sort_search f i j =
     (if i < j then
        if \<not> f ((i + j) div 2) then sort_search f ((i + j) div 2 + 1) j
        else sort_search f i ((i + j) div 2)
      else i)"
  by (subst sort_search.simps) (simp only: Let_def)

lemma sort_search_spec:
  assumes "i \<le> j" and "j \<le> n" and "\<forall>x<i. \<not> f x" and "\<forall>x. j \<le> x \<and> x < n \<longrightarrow> f x"
    and "\<forall>x y. x \<le> y \<longrightarrow> y < n \<longrightarrow> f x \<longrightarrow> f y"
  shows "sort_search f i j \<le> n \<and> (\<forall>x < sort_search f i j. \<not> f x) \<and>
    (\<forall>x. sort_search f i j \<le> x \<and> x < n \<longrightarrow> f x)"
  using assms
proof (induction f i j rule: sort_search.induct)
  case (1 f i j)
  let ?h = "(i + j) div 2"
  consider (stop) "\<not> i < j" | (right) "i < j" "\<not> f ?h" | (left) "i < j" "f ?h" by blast
  then show ?case
  proof cases
    case stop
    then have eq: "sort_search f i j = i" by (subst sort_search_unfold) simp
    have "i = j" using stop "1.prems"(1) by simp
    then show ?thesis unfolding eq using "1.prems"(2-4) by blast
  next
    case right
    have h: "?h < n" "?h + 1 \<le> j" using right(1) "1.prems"(2) by simp_all
    have lo: "\<forall>x<?h + 1. \<not> f x"
      using h(1) right(2) "1.prems"(5) by (metis Suc_eq_plus1 less_Suc_eq_le)
    have eq: "sort_search f i j = sort_search f (?h + 1) j"
      using right by (subst sort_search_unfold) (simp only: if_True if_False simp_thms)
    show ?thesis
      unfolding eq by (rule "1.IH"(1) [OF right(1) refl right(2) h(2) "1.prems"(2) lo "1.prems"(4,5)])
  next
    case left
    have h: "i \<le> ?h" "?h \<le> n" using left(1) "1.prems"(2) by simp_all
    have hi: "\<forall>x. ?h \<le> x \<and> x < n \<longrightarrow> f x" using left(2) "1.prems"(5) by blast
    have eq: "sort_search f i j = sort_search f i ?h"
      using left by (subst sort_search_unfold) (simp only: if_True if_False simp_thms)
    show ?thesis
      unfolding eq by (rule "1.IH"(2) [OF left(1) refl _ h "1.prems"(3) hi "1.prems"(5)]) (use left(2) in blast)
  qed
qed

text \<open>The revisions are in strictly increasing order, below the next one.\<close>

definition rev_ok :: "IntraBlockState \<Rightarrow> bool" where
  "rev_ok s \<longleftrightarrow> sorted_wrt (<) (map rev_id (validRevisions s)) \<and>
     (\<forall>r\<in>set (validRevisions s). rev_id r < nextRevisionID s)"

lemma find_revision:
  assumes rs: "rs = old @ r # new" and sorted: "sorted_wrt (<) (map rev_id rs)"
  shows "sort_search (\<lambda>i. rev_id (rs ! i) \<ge> rev_id r) 0 (length rs) = length old"
proof -
  let ?f = "\<lambda>i. rev_id (rs ! i) \<ge> rev_id r" and ?n = "length rs"
  have less: "rev_id (rs ! i) < rev_id (rs ! j)" if "i < j" "j < ?n" for i j
    using sorted_wrt_nth_less [OF sorted, of i j] that by simp
  have "?f x \<longrightarrow> ?f y" if "x \<le> y" "y < ?n" for x y
    using less [of x y] that by (cases "x = y") auto
  then have spec: "sort_search ?f 0 ?n \<le> ?n \<and> (\<forall>x < sort_search ?f 0 ?n. \<not> ?f x) \<and>
      (\<forall>x. sort_search ?f 0 ?n \<le> x \<and> x < ?n \<longrightarrow> ?f x)"
    by (intro sort_search_spec) auto
  have at: "rs ! length old = r" "length old < ?n" by (simp_all add: rs)
  have "\<not> length old < sort_search ?f 0 ?n" using spec at(1) by blast
  moreover have "\<not> sort_search ?f 0 ?n < length old"
  proof
    assume lt: "sort_search ?f 0 ?n < length old"
    then have "?f (sort_search ?f 0 ?n)" using spec at(2) by (meson less_trans order_refl)
    with less [OF lt at(2)] at(1) show False by simp
  qed
  ultimately show ?thesis by (metis linorder_neqE_nat)
qed

lemma RevertToSnapshot_undoes:
  assumes "nil_ok s" and "rev_ok s"
    and rs: "validRevisions s = old @ \<lparr>rev_id = i, journalIndex = length pre\<rparr> # new"
    and "entries (journal s) = pre @ es" and "undoes L es (view L s) v'"
  shows "\<exists>s'. RevertToSnapshot L i s = Ok s' \<and> view L s' = v' \<and> nil_ok s' \<and>
    entries (journal s') = pre \<and> validRevisions s' = old \<and> nextRevisionID s' = nextRevisionID s"
proof -
  obtain s1 where "journal_revert L (length pre) s = Ok s1" "view L s1 = v'" "nil_ok s1"
    "entries (journal s1) = pre" "validRevisions s1 = validRevisions s"
    "nextRevisionID s1 = nextRevisionID s"
    using journal_revert_undoes [OF assms(1,4,5)] by blast
  moreover have "sort_search (\<lambda>k. rev_id (validRevisions s ! k) \<ge> i) 0 (length (validRevisions s)) = length old"
    using find_revision [OF rs] assms(2) by (simp add: rev_ok_def)
  ultimately show ?thesis using rs by (simp add: RevertToSnapshot_def Let_def)
qed

end
