(* ===== verification/StateFrames.thy ===== *)
theory StateFrames
  imports StateRevert
begin

text \<open>
  Sequences of state operations with nested frames, as the virtual machine issues them: a
  frame takes a snapshot, runs, and reverts to the snapshot when it fails. The theory shows
  that every operation journals enough to be undone, and hence that a failed frame leaves
  the observable state it started from.
\<close>

datatype op =
    OpRead address
  | OpGetState address hash
  | OpGetCode address
  | OpSetNonce address u64
  | OpSetBalance address u256
  | OpSubBalance address u256
  | OpCredit address u256
  | OpSetCode address "bytes option"
  | OpSetState address hash u256
  | OpCreateAccount address bool
  | OpAddRefund u64
  | OpSubRefund u64
  | OpAddLog Log
  | OpAccessAddress address
  | OpAccessSlot address hash
  | OpFrame "op list" bool

text \<open>\<open>OpCredit\<close> is what a value transfer does with its recipient: look it up, create it if
  it does not exist, add to its balance.\<close>

definition credit :: "lib \<Rightarrow> address \<Rightarrow> u256 \<Rightarrow> IntraBlockState \<Rightarrow> IntraBlockState" where
  "credit L a v s =
     (case Exist L a s of (s, ex) \<Rightarrow>
        AddBalance L a v (if ex then s else CreateAccount L a False s))"

fun run_op :: "lib \<Rightarrow> op \<Rightarrow> IntraBlockState \<Rightarrow> IntraBlockState res"
and run_ops :: "lib \<Rightarrow> op list \<Rightarrow> IntraBlockState \<Rightarrow> IntraBlockState res" where
  "run_op L (OpRead a) s = Ok (fst (Exist L a s))"
| "run_op L (OpGetState a k) s = bnd (GetState L a k s) (\<lambda>(s, _). Ok s)"
| "run_op L (OpGetCode a) s = Ok (fst (GetCode L a s))"
| "run_op L (OpSetNonce a n) s = Ok (SetNonce L a n s)"
| "run_op L (OpSetBalance a v) s = Ok (SetBalance L a v s)"
| "run_op L (OpSubBalance a v) s = Ok (SubBalance L a v s)"
| "run_op L (OpCredit a v) s = Ok (credit L a v s)"
| "run_op L (OpSetCode a c) s = Ok (SetCode L a c s)"
| "run_op L (OpSetState a k v) s = SetState L a k v s"
| "run_op L (OpCreateAccount a b) s = Ok (CreateAccount L a b s)"
| "run_op L (OpAddRefund g) s = Ok (AddRefund g s)"
| "run_op L (OpSubRefund g) s = Ok (SubRefund g s)"
| "run_op L (OpAddLog l) s = Ok (AddLog l s)"
| "run_op L (OpAccessAddress a) s = Ok (AddAddressToAccessList a s)"
| "run_op L (OpAccessSlot a k) s = AddSlotToAccessList a k s"
| "run_op L (OpFrame ops fails) s =
     (case TakeSnapshot s of (s, revid) \<Rightarrow>
        bnd (run_ops L ops s) (\<lambda>s. if fails then RevertToSnapshot L revid s else Ok s))"
| "run_ops L [] s = Ok s"
| "run_ops L (x # xs) s = bnd (run_op L x s) (run_ops L xs)"

section \<open>Steps that can be undone\<close>

definition good :: "lib \<Rightarrow> IntraBlockState \<Rightarrow> bool" where
  "good L s \<longleftrightarrow> nil_ok s \<and> view_ok (view L s) \<and> rev_ok s"

definition steps :: "lib \<Rightarrow> IntraBlockState \<Rightarrow> IntraBlockState \<Rightarrow> bool" where
  "steps L s s' \<longleftrightarrow> good L s' \<and>
     (\<exists>es. entries (journal s') = entries (journal s) @ es \<and> undoes L es (view L s') (view L s)) \<and>
     (\<exists>new. validRevisions s' = validRevisions s @ new \<and> (\<forall>r\<in>set new. nextRevisionID s \<le> rev_id r)) \<and>
     nextRevisionID s \<le> nextRevisionID s'"

lemma steps_good: "steps L s s' \<Longrightarrow> good L s'"
  by (simp add: steps_def)

lemma steps_trans [trans]:
  assumes "steps L s t" and "steps L t u"
  shows "steps L s u"
proof -
  from assms obtain es fs where "entries (journal t) = entries (journal s) @ es"
    "undoes L es (view L t) (view L s)" "entries (journal u) = entries (journal t) @ fs"
    "undoes L fs (view L u) (view L t)" by (auto simp: steps_def)
  then have "entries (journal u) = entries (journal s) @ (es @ fs)" "undoes L (es @ fs) (view L u) (view L s)"
    by (auto simp: undoes_append)
  then show ?thesis using assms by (fastforce simp: steps_def)
qed

lemma steps_same:
  assumes "good L s" and "view L s' = view L s" and "nil_ok s'" and "meta s' = meta s"
  shows "steps L s s'"
  using assms by (simp add: steps_def good_def rev_ok_def meta_def)

lemma steps_refl: "good L s \<Longrightarrow> steps L s s"
  by (simp add: steps_same good_def)

lemma steps_entry:
  assumes "good L s" and "nil_ok s'" and "view_ok (view L s')" and "plain_entry e"
    and "entries (journal s') = entries (journal s) @ [e]" and "vrevert L e (view L s') = Ok (view L s)"
    and "validRevisions s' = validRevisions s" and "nextRevisionID s' = nextRevisionID s"
  shows "steps L s s'"
  using assms by (simp add: steps_def good_def rev_ok_def)

lemma entries_append [simp]: "entries (journal_append e j) = entries j @ [e]"
  by (simp add: journal_append_def dirty_def Let_def split: option.splits)

lemma nil_ok_put_object [simp]: "nil_ok (put_object a so s) = nil_ok s"
  by (simp add: nil_ok_def put_object_def)

lemma put_object_fields [simp]:
  "journal (put_object a so s) = journal s"
  "validRevisions (put_object a so s) = validRevisions s"
  "nextRevisionID (put_object a so s) = nextRevisionID s"
  "stateReader (put_object a so s) = stateReader s"
  "read_snap (put_object a so s) = read_snap s"
  "stateObjects (put_object a so s) = (stateObjects s)(a \<mapsto> so)"
  by (simp_all add: put_object_def)

lemma view_ok_upd:
  "view_ok v \<Longrightarrow> ao_address ob = a \<Longrightarrow> view_ok (v\<lparr>as_objs := (as_objs v)(a \<mapsto> ob)\<rparr>)"
  by (simp add: view_ok_def)

lemma live_address:
  "good L s \<Longrightarrow> stateObjects s a = Some so \<Longrightarrow> so_address so = a"
  by (auto simp: good_def view_ok_def view_def eff_def oview_def split: option.splits)

text \<open>Writing the object of \<open>a\<close> together with its journal entry.\<close>

lemma steps_write:
  assumes "good L s" and "so_address so' = a" and "plain_entry e"
    and "vrevert L e ((view L s)\<lparr>as_objs := (as_objs (view L s))(a \<mapsto> oview L (stateReader s) (read_snap s) so')\<rparr>)
      = Ok (view L s)"
  shows "steps L s (put_object a so' (log_change e s))"
  using assms
  by (intro steps_entry [where e = e]) (auto simp: good_def view_put_object oview_def intro!: view_ok_upd)

lemma steps_create:
  assumes "good L s" and loaded: "stateObjects s a = eff L s a" and "so_address so' = a"
  shows "steps L s (put_object a so' (log_change (case stateObjects s a of
      None \<Rightarrow> createObjectChange a | Some p \<Rightarrow> resetObjectChange a p) s))"
proof (cases "stateObjects s a")
  case None
  have db: "db_object L (stateReader s) a = None" using loaded None by (simp add: eff_def)
  have "as_objs (view L s) a = None" using loaded [symmetric] None by (simp add: as_objs_view)
  then have upd: "(as_objs (view L s))(a := None) = as_objs (view L s)" by (rule fun_upd_idem)
  have "steps L s (put_object a so' (log_change (createObjectChange a) s))"
    by (rule steps_write) (use assms(1,3) in \<open>simp_all add: plain_entry_def vrevert_def db upd\<close>)
  then show ?thesis by (simp add: None)
next
  case (Some p)
  have "as_objs (view L s) a = Some (oview L (stateReader s) (read_snap s) p)"
    using loaded [symmetric] Some by (simp add: as_objs_view)
  then have upd: "(as_objs (view L s))(a \<mapsto> oview L (stateReader s) (read_snap s) p) = as_objs (view L s)"
    by (rule fun_upd_idem)
  have "steps L s (put_object a so' (log_change (resetObjectChange a p) s))"
    by (rule steps_write) (use assms(1,3) in \<open>simp_all add: plain_entry_def vrevert_def upd\<close>)
  then show ?thesis by (simp add: Some)
qed

section \<open>Loading and creating\<close>

lemma good_not_pending: "good L s \<Longrightarrow> \<not> pending s a"
  unfolding good_def by (elim conjE) (rule no_pending)

lemma steps_getStateObject: "good L s \<Longrightarrow> steps L s (getStateObject L a s)"
  using getStateObject_spec [of s a L] good_not_pending [of L s a]
  by (intro steps_same) (auto simp: good_def)

lemma getStateObject_loaded:
  assumes "good L s"
  shows "stateObjects (getStateObject L a s) a = eff L (getStateObject L a s) a"
proof -
  note spec = getStateObject_spec [of s a L] good_not_pending [OF assms, of a]
  have "eff L s a = eff L (getStateObject L a s) a"
    using spec assms by (auto simp: eff_def good_def split: option.splits)
  then show ?thesis using spec assms by (simp add: good_def)
qed

lemma so_address_newObject [simp]: "so_address (newObject L a acc orig) = a"
  by (simp add: newObject_def Let_def)

lemma so_address_so_setNonce [simp]: "so_address (so_setNonce n so) = so_address so"
  by (simp add: so_setNonce_def)

lemma so_address_setters [simp]:
  "so_address (so_setBalance b so) = so_address so"
  "so_address (so_setState k x so) = so_address so"
  "so_address (so_setCode h c so) = so_address so"
  by (simp_all add: so_setBalance_def so_setState_def so_setCode_def)

lemma deleted_new [simp]: "deleted (so_setNonce n (newObject L a acc orig)) = False"
  by (simp add: newObject_def so_setNonce_def Let_def)

lemma createObject_eq:
  assumes "good L s"
  shows "\<exists>so'. so_address so' = a \<and> \<not> deleted so' \<and> createObject L a previous s =
    put_object a so' (log_change (case previous of
      None \<Rightarrow> createObjectChange a | Some p \<Rightarrow> resetObjectChange a p) s)"
  using good_not_pending [OF assms, of a]
  by (intro exI [of _ "so_setNonce 0 (newObject L a zero_account
      (case previous of None \<Rightarrow> zero_account | Some p \<Rightarrow> original p))"])
    (simp add: createObject_def Let_def setStateObject_not_pending split: option.splits)

lemma GetOrNewStateObject_spec:
  assumes "good L s"
  shows "steps L s (GetOrNewStateObject L a s)"
    and "\<exists>so. stateObjects (GetOrNewStateObject L a s) a = Some so \<and> \<not> deleted so"
proof -
  let ?t = "getStateObject L a s"
  have t: "steps L s ?t" and g: "good L ?t"
    using steps_getStateObject [OF assms] steps_good by blast+
  note loaded = getStateObject_loaded [OF assms, of a]
  have "steps L s (GetOrNewStateObject L a s) \<and>
    (\<exists>so. stateObjects (GetOrNewStateObject L a s) a = Some so \<and> \<not> deleted so)"
  proof (cases "\<exists>so. stateObjects ?t a = Some so \<and> \<not> deleted so")
    case True
    then show ?thesis using t by (auto simp: GetOrNewStateObject_def Let_def)
  next
    case False
    then have eq: "GetOrNewStateObject L a s = createObject L a (stateObjects ?t a) ?t"
      by (auto simp: GetOrNewStateObject_def Let_def split: option.splits)
    obtain so' where so': "so_address so' = a" "\<not> deleted so'"
      "createObject L a (stateObjects ?t a) ?t = put_object a so' (log_change
        (case stateObjects ?t a of None \<Rightarrow> createObjectChange a | Some p \<Rightarrow> resetObjectChange a p) ?t)"
      using createObject_eq [OF g] by blast
    show ?thesis unfolding eq so'(3)
      using steps_trans [OF t steps_create [OF g loaded so'(1)]] so'(2) by simp
  qed
  then show "steps L s (GetOrNewStateObject L a s)"
    and "\<exists>so. stateObjects (GetOrNewStateObject L a s) a = Some so \<and> \<not> deleted so" by auto
qed


section \<open>Writes\<close>

lemma steps_with_object:
  assumes "good L s"
    and "\<And>t so. good L t \<Longrightarrow> stateObjects t a = Some so \<Longrightarrow> so_address so = a \<Longrightarrow>
      steps L t (case f t so of (t', so') \<Rightarrow> put_object a so' t')"
  shows "steps L s (with_object a f (GetOrNewStateObject L a s))"
proof -
  let ?t = "GetOrNewStateObject L a s"
  obtain so where so: "stateObjects ?t a = Some so" using GetOrNewStateObject_spec [OF assms(1)] by blast
  have t: "steps L s ?t" by (rule GetOrNewStateObject_spec) fact
  then have g: "good L ?t" by (rule steps_good)
  have "with_object a f ?t = (case f ?t so of (t', so') \<Rightarrow> put_object a so' t')"
    by (simp add: with_object_def so)
  with assms(2) [OF g so live_address [OF g so]] t show ?thesis by (metis steps_trans)
qed

lemma view_object: "stateObjects s a = Some so \<Longrightarrow>
    as_objs (view L s) a = Some (oview L (stateReader s) (read_snap s) so)"
  by (simp add: view_def eff_def)

text \<open>A write whose entry restores one component of the object.\<close>

lemma steps_component:
  assumes "good L s" and so: "stateObjects s a = Some so" and "so_address so' = a" and "plain_entry e"
    and e: "\<And>v. as_reader v = stateReader s \<Longrightarrow> vrevert L e v = vmod a (\<lambda>ob. Ok (h ob)) v"
    and h: "h (oview L (stateReader s) (read_snap s) so') = oview L (stateReader s) (read_snap s) so"
  shows "steps L s (put_object a so' (log_change e s))"
proof -
  have upd: "(as_objs (view L s))(a \<mapsto> oview L (stateReader s) (read_snap s) so) = as_objs (view L s)"
    by (rule fun_upd_idem) (rule view_object [OF so])
  show ?thesis
    by (rule steps_write) (use assms(1,3,4) in \<open>simp_all add: e vmod_def h upd\<close>)
qed

lemma vset_back:
  "vset_balance (Balance (data so)) (vset_balance b (oview L R S so)) = oview L R S so"
  "vset_nonce (Nonce (data so)) (vset_nonce n (oview L R S so)) = oview L R S so"
  by (simp_all add: vset_balance_def vset_nonce_def oview_def)

lemma steps_so_SetBalance:
  assumes "good L s" and "stateObjects s a = Some so" and "so_address so = a"
  shows "steps L s (case so_SetBalance b s so of (t, so') \<Rightarrow> put_object a so' t)"
  unfolding so_SetBalance_def prod.case
  by (rule steps_component [OF assms(1,2), where h = "vset_balance (Balance (data so))"])
    (use assms(3) in \<open>simp_all add: plain_entry_def vrevert_def oview_so_setBalance vset_back\<close>)

lemma steps_SetBalance: "good L s \<Longrightarrow> steps L s (SetBalance L a b s)"
  unfolding SetBalance_def by (rule steps_with_object) (auto intro: steps_so_SetBalance)

lemma put_same: "stateObjects s a = Some so \<Longrightarrow> put_object a so s = s"
  by (simp add: put_object_def map_upd_triv)

lemma steps_SubBalance: "good L s \<Longrightarrow> steps L s (SubBalance L a b s)"
  unfolding SubBalance_def
  by (rule steps_with_object) (auto simp: so_SubBalance_def put_same intro: steps_so_SetBalance steps_refl)

lemma steps_SetNonce: "good L s \<Longrightarrow> steps L s (SetNonce L a n s)"
  unfolding SetNonce_def
proof (rule steps_with_object)
  fix t so
  assume "good L t" and so: "stateObjects t a = Some so" "so_address so = a"
  then show "steps L t (case so_SetNonce n t so of (t', so') \<Rightarrow> put_object a so' t')"
    unfolding so_SetNonce_def prod.case
    by (intro steps_component [where h = "vset_nonce (Nonce (data so))"])
      (simp_all add: plain_entry_def vrevert_def oview_so_setNonce vset_back)
qed

lemma steps_touch:
  assumes "good L s"
  shows "steps L s (touch s so)"
proof -
  let ?t = "log_change (touchChange (so_address so)) s"
  have t: "steps L s ?t"
    by (rule steps_entry [where e = "touchChange (so_address so)"])
      (use assms in \<open>simp_all add: good_def plain_entry_def vrevert_def\<close>)
  have "entries (dirty x j) = entries j" for x j by (simp add: dirty_def)
  then have "steps L s (?t\<lparr>journal := dirty x (journal ?t)\<rparr>)" for x
    using t by (simp add: steps_def good_def rev_ok_def)
  from this [of "so_address so"] t show ?thesis by (auto simp: touch_def Let_def)
qed

lemma steps_so_AddBalance:
  assumes "good L s" and so: "stateObjects s a = Some so" and "so_address so = a"
  shows "steps L s (case so_AddBalance L b s so of (t, so') \<Rightarrow> put_object a so' t)"
proof -
  have "stateObjects (touch s so) a = Some so" by (simp add: touch_def Let_def so)
  then show ?thesis using assms steps_touch [OF assms(1), of so]
    by (auto simp: so_AddBalance_def put_same intro: steps_so_SetBalance steps_refl)
qed

lemma steps_AddBalance_live:
  assumes "good L s" and "stateObjects s a \<noteq> None"
  shows "steps L s (AddBalance L a b s)"
  using assms by (auto simp: AddBalance_def intro!: steps_with_object steps_so_AddBalance)

section \<open>Code and storage\<close>

text \<open>States that differ only in the recorded error and the witness snapshot being written.\<close>

definition same_view :: "lib \<Rightarrow> IntraBlockState \<Rightarrow> IntraBlockState \<Rightarrow> bool" where
  "same_view L s t \<longleftrightarrow> view L t = view L s \<and> nil_ok t = nil_ok s \<and> meta t = meta s \<and>
     stateObjects t = stateObjects s"

lemma same_view_refl [simp]: "same_view L s s"
  by (simp add: same_view_def)

lemma same_view_setError [simp]: "same_view L s (setErrorUnsafe e s)"
  by (simp add: same_view_def nil_ok_def meta_def setErrorUnsafe_def view_def eff_def
      cong: option.case_cong)

lemma same_view_fields:
  assumes "same_view L s t"
  shows "stateReader t = stateReader s" and "read_snap t = read_snap s"
  using assms unfolding same_view_def by (metis as_reader_view, metis as_snap_view)

lemma good_same_view: "good L s \<Longrightarrow> same_view L s t \<Longrightarrow> good L t"
  by (auto simp: good_def same_view_def rev_ok_def meta_def)

lemma steps_cached:
  assumes "good L s" and "same_view L s t" and so: "stateObjects s a = Some so"
    and "oview L (stateReader s) (read_snap s) so' = oview L (stateReader s) (read_snap s) so"
  shows "steps L s (put_object a so' t)"
proof -
  have "(as_objs (view L s))(a \<mapsto> oview L (stateReader s) (read_snap s) so) = as_objs (view L s)"
    by (rule fun_upd_idem) (rule view_object [OF so])
  then have "view L (put_object a so' t) = view L s"
    using assms same_view_fields [OF assms(2)] by (simp add: view_put_object same_view_def)
  then show ?thesis using assms by (intro steps_same) (auto simp: same_view_def meta_def good_def)
qed


lemma code_of_idem: "code_of L R a i (code_of L R a i c h) h = code_of L R a i c h"
  by (simp add: code_of_def)

lemma so_Code_view:
  assumes "so_Code L s so = (t, so', c)"
  shows "same_view L s t" and "oview L (stateReader s) (read_snap s) so' = oview L (stateReader s) (read_snap s) so"
    and "c = code_of L (stateReader s) (so_address so) (Incarnation (data so)) (code so) (CodeHash (data so))"
    and "data so' = data so" and "so_address so' = so_address so"
  using assms
  by (auto simp: so_Code_def code_of_def oview_def state_view_def [abs_def] committed_view_def [abs_def]
      cong: option.case_cong if_cong split: if_splits option.splits prod.splits)

lemma put_put [simp]:
  "put_object a x ((put_object a y t)\<lparr>journal := j\<rparr>) = put_object a x (t\<lparr>journal := j\<rparr>)"
  by (simp add: put_object_def)

lemma steps_SetCode: "good L s \<Longrightarrow> steps L s (SetCode L a c s)"
  unfolding SetCode_def
proof (rule steps_with_object)
  fix t so and h :: hash
  let ?R = "stateReader t" and ?S = "read_snap t"
  assume t: "good L t" and so: "stateObjects t a = Some so" "so_address so = a"
  obtain u so' pc where code: "so_Code L t so = (u, so', pc)" by (cases "so_Code L t so") auto
  note cv = so_Code_view [OF code]
  let ?w = "put_object a so' u"
  have w: "steps L t ?w" using cv by (intro steps_cached [OF t _ so(1)]) auto
  then have gw: "good L ?w" by (rule steps_good)
  have fields: "stateReader ?w = ?R" "read_snap ?w = ?S"
    using same_view_fields [OF cv(1)] by simp_all
  have undo: "vset_code L ?R (CodeHash (data so)) pc (oview L ?R ?S (so_setCode h c so')) = oview L ?R ?S so'"
    using cv by (auto simp: oview_so_setCode vset_code_def) (auto simp: oview_def code_of_idem)
  have "steps L ?w (put_object a (so_setCode h c so') (log_change (codeChange a pc (CodeHash (data so))) ?w))"
    by (rule steps_component [OF gw, where so = so' and h = "vset_code L ?R (CodeHash (data so)) pc"])
      (use cv so undo in \<open>simp_all add: fields [simplified] plain_entry_def vrevert_def\<close>)
  from steps_trans [OF w this]
  show "steps L t (case so_SetCode L h c t so of (t', so') \<Rightarrow> put_object a so' t')"
    using cv so by (simp add: so_SetCode_def code)
qed

lemma steps_GetCode:
  assumes "good L s"
  shows "steps L s (fst (GetCode L a s))"
proof -
  let ?t = "getStateObject L a s"
  have t: "steps L s ?t" and g: "good L ?t" using steps_getStateObject [OF assms] steps_good by blast+
  show ?thesis
  proof (cases "live a ?t")
    case None
    then show ?thesis using t by (simp add: GetCode_def Let_def)
  next
    case (Some so)
    then have so: "stateObjects ?t a = Some so" by (auto simp: live_def split: option.splits if_splits)
    obtain u so' c where code: "so_Code L ?t so = (u, so', c)" by (cases "so_Code L ?t so") auto
    have u: "steps L ?t (put_object a so' u)"
      using so_Code_view [OF code]
      by (intro steps_cached [OF g _ so]) auto
    have "steps L ?t ((put_object a so' u)\<lparr>codeMap := m\<rparr>)" for m
      using u eff_cong [of "(put_object a so' u)\<lparr>codeMap := m\<rparr>" "put_object a so' u" L]
      by (auto simp: steps_def good_def rev_ok_def nil_ok_def view_def)
    then show ?thesis using steps_trans [OF t] u Some
      by (auto simp: GetCode_def Let_def code split: option.splits)
  qed
qed

lemma oview_cache:
  assumes "fakeStorage so = None" and "originStorage so k = None" and "\<not> created so"
    and "db_slot R S (so_address so) (Incarnation (data so)) k = Ok v"
  shows "oview L R S (so\<lparr>originStorage := (originStorage so)(k \<mapsto> v), blockOriginStorage := b\<rparr>) = oview L R S so"
  using assms by (auto simp: oview_def state_view_def committed_view_def fun_eq_iff split: option.splits)

lemma same_view_snap:
  "read_snap (s\<lparr>snap := x\<rparr>) = read_snap s \<Longrightarrow> same_view L s (s\<lparr>snap := x\<rparr>)"
  by (simp add: same_view_def view_snap nil_ok_def meta_def)

lemma so_GetCommittedState_view:
  assumes "so_GetCommittedState k s so = Ok (t, so', v)"
  shows "same_view L s t \<and> so_address so' = so_address so \<and>
    oview L (stateReader s) (read_snap s) so' = oview L (stateReader s) (read_snap s) so \<and>
    committed_view (stateReader s) (read_snap s) so k = Ok v"
proof (cases "fakeStorage so = None \<and> originStorage so k = None \<and> \<not> created so")
  case False
  then show ?thesis using assms
    by (auto simp: so_GetCommittedState_def committed_view_def split: option.splits)
next
  case True
  let ?db = "db_slot (stateReader s) (read_snap s) (so_address so) (Incarnation (data so)) k"
  have cv: "committed_view (stateReader s) (read_snap s) so k = ?db" using True by (simp add: committed_view_def)
  define cache where "cache = so\<lparr>originStorage := (originStorage so)(k \<mapsto> v),
      blockOriginStorage := (blockOriginStorage so)(k \<mapsto> v)\<rparr>"
  have "?db = Ok v \<and> same_view L s t \<and> (so' = so \<or> so' = cache)"
  proof (cases "read_snap s")
    case (Some sn)
    then have "snap s = Some sn" "\<not> CanWrite sn" by (auto simp: read_snap_def split: option.splits if_splits)
    note sn = this
    have "so_GetCommittedState k s so =
        bnd (snap_ReadAccountStorage (so_address so) (Incarnation (data so)) k sn) (\<lambda>(enc, err).
          case err of Some e \<Rightarrow> Ok (setErrorUnsafe e s, so, 0)
          | None \<Rightarrow> (let v = (case enc of Some bs \<Rightarrow> SetBytes bs | None \<Rightarrow> 0)
              in Ok (s, so\<lparr>originStorage := (originStorage so)(k \<mapsto> v),
                           blockOriginStorage := (blockOriginStorage so)(k \<mapsto> v)\<rparr>, v)))"
      using True sn by (simp add: so_GetCommittedState_def Let_def cong: option.case_cong)
    with assms obtain enc err where r: "snap_ReadAccountStorage (so_address so) (Incarnation (data so)) k sn = Ok (enc, err)"
      and t: "(case err of Some e \<Rightarrow> Ok (setErrorUnsafe e s, so, 0)
          | None \<Rightarrow> (let v = (case enc of Some bs \<Rightarrow> SetBytes bs | None \<Rightarrow> 0)
              in Ok (s, so\<lparr>originStorage := (originStorage so)(k \<mapsto> v),
                           blockOriginStorage := (blockOriginStorage so)(k \<mapsto> v)\<rparr>, v))) = Ok (t, so', v)"
      by (auto simp: bnd_eq_Ok)
    have "?db = Ok (case (enc, err) of (Some bs, None) \<Rightarrow> SetBytes bs | _ \<Rightarrow> 0)"
      by (simp add: db_slot_def Some r)
    then show ?thesis using t by (cases enc; cases err) (auto simp: cache_def Let_def)
  next
    case None
    have w: "same_view L s (s\<lparr>snap := Some (AddStorage a k i bs sn)\<rparr>)" if "snap s = Some sn" for a k i bs sn
      using that None by (intro same_view_snap) (auto simp: read_snap_def CanWrite_def split: if_splits)
    show ?thesis
    proof (cases "snap s")
      case n: None
      then show ?thesis using assms True None
        by (auto simp: so_GetCommittedState_def db_slot_def cache_def Let_def split: option.splits prod.splits)
    next
      case (Some sn)
      then have "CanWrite sn" using None by (auto simp: read_snap_def split: if_splits)
      then show ?thesis using assms True None Some w [OF Some]
        by (auto simp: so_GetCommittedState_def db_slot_def cache_def Let_def split: option.splits prod.splits)
    qed
  qed
  then show ?thesis using True cv oview_cache [of so k] by (auto simp: cache_def)
qed

lemma so_GetState_view:
  assumes "so_GetState k s so = Ok (t, so', v)"
  shows "same_view L s t \<and> so_address so' = so_address so \<and>
    oview L (stateReader s) (read_snap s) so' = oview L (stateReader s) (read_snap s) so \<and>
    state_view (stateReader s) (read_snap s) so k = Ok v"
  using assms so_GetCommittedState_view [of k s so t so' v L]
  by (auto simp: so_GetState_def state_view_def split: option.splits)


lemma steps_GetState:
  assumes "good L s" and run: "GetState L a k s = Ok (u, v)"
  shows "steps L s u"
proof -
  let ?t = "getStateObject L a s"
  have t: "steps L s ?t" and g: "good L ?t" using steps_getStateObject [OF assms(1)] steps_good by blast+
  show ?thesis
  proof (cases "live a ?t")
    case None
    then show ?thesis using t run by (simp add: GetState_def Let_def)
  next
    case (Some so)
    then have so: "stateObjects ?t a = Some so" by (auto simp: live_def split: option.splits if_splits)
    from run Some obtain w so' where r: "so_GetState k ?t so = Ok (w, so', v)" "u = put_object a so' w"
      by (auto simp: GetState_def Let_def bnd_eq_Ok)
    from so_GetState_view [OF r(1), of L] have "steps L ?t u"
      unfolding r(2) by (intro steps_cached [OF g _ so]) auto
    with t show ?thesis by (rule steps_trans)
  qed
qed

lemma steps_so_SetState:
  assumes g: "good L s" and so: "stateObjects s a = Some so" "so_address so = a"
    and run: "so_SetState k x s so = Ok (t, so')"
  shows "steps L s (put_object a so' t)"
proof (cases "fakeStorage so")
  case (Some fs)
  let ?R = "stateReader s" and ?S = "read_snap s" and ?e = "fakeStorageChange a k (lookup0 fs k)"
  from run Some have t: "t = log_change ?e s" "so' = so\<lparr>fakeStorage := Some (fs(k \<mapsto> x))\<rparr>"
    using so by (auto simp: so_SetState_def)
  have "vset_fake k (lookup0 fs k) (oview L ?R ?S so') = Ok (oview L ?R ?S so)"
    by (simp add: t(2) oview_fake)
      (simp add: oview_def Some state_view_def [abs_def] committed_view_def [abs_def])
  moreover have "(as_objs (view L s))(a \<mapsto> oview L ?R ?S so) = as_objs (view L s)"
    by (rule fun_upd_idem) (rule view_object [OF so(1)])
  ultimately show ?thesis unfolding t(1)
    using g so t by (intro steps_write) (simp_all add: plain_entry_def vrevert_def vmod_def)
next
  case None
  with run obtain u so1 prev where r: "so_GetState k s so = Ok (u, so1, prev)"
    and t: "(if prev = x then Ok (u, so1) else
      Ok (log_change (storageChange (so_address so1) k prev) u, so_setState k x so1)) = Ok (t, so')"
    by (auto simp: so_SetState_def bnd_eq_Ok)
  let ?R = "stateReader s" and ?S = "read_snap s" and ?w = "put_object a so1 u"
  note v = so_GetState_view [OF r, of L]
  have w: "steps L s ?w" using v by (intro steps_cached [OF g _ so(1)]) auto
  have fields: "stateReader u = ?R" "read_snap u = ?S" using v same_view_fields [of L s u] by auto
  show ?thesis
  proof (cases "prev = x")
    case True
    then show ?thesis using t w by simp
  next
    case False
    have "ao_state (oview L ?R ?S so1) k = Ok prev" "ao_fake (oview L ?R ?S so1) = None"
      using v None by (auto simp: oview_def)
    then have "vset_state k prev (oview L ?R ?S (so_setState k x so1)) = oview L ?R ?S so1"
      by (simp add: oview_so_setState vset_state_def fun_upd_idem)
    then have "steps L ?w (put_object a (so_setState k x so1) (log_change (storageChange a k prev) ?w))"
      by (intro steps_component [OF steps_good [OF w], where so = so1 and h = "vset_state k prev"])
        (use v so in \<open>simp_all add: fields plain_entry_def vrevert_def\<close>)
    with w have "steps L s (put_object a (so_setState k x so1) (log_change (storageChange a k prev) ?w))"
      by (rule steps_trans)
    then show ?thesis using t False v so by auto
  qed
qed

lemma steps_SetState:
  assumes "good L s" and run: "SetState L a k x s = Ok u"
  shows "steps L s u"
proof -
  let ?t = "GetOrNewStateObject L a s"
  obtain so where so: "stateObjects ?t a = Some so" using GetOrNewStateObject_spec [OF assms(1)] by blast
  have t: "steps L s ?t" by (rule GetOrNewStateObject_spec) fact
  then have g: "good L ?t" by (rule steps_good)
  from run so obtain w so' where "so_SetState k x ?t so = Ok (w, so')" "u = put_object a so' w"
    by (auto simp: SetState_def Let_def bnd_eq_Ok)
  then have "steps L ?t u" using steps_so_SetState [OF g so live_address [OF g so]] by simp
  with t show ?thesis by (rule steps_trans)
qed

section \<open>Accounts, refunds, logs and the access list\<close>

lemma steps_CreateAccount:
  assumes "good L s"
  shows "steps L s (CreateAccount L a b s)" and "stateObjects (CreateAccount L a b s) a \<noteq> None"
proof -
  let ?t = "getStateObject L a s"
  have t: "steps L s ?t" and g: "good L ?t"
    using steps_getStateObject [OF assms] steps_good by blast+
  let ?e = "case stateObjects ?t a of None \<Rightarrow> createObjectChange a | Some p \<Rightarrow> resetObjectChange a p"
  obtain so' where so': "so_address so' = a"
    "createObject L a (stateObjects ?t a) ?t = put_object a so' (log_change ?e ?t)"
    using createObject_eq [OF g] by blast
  define fin where "fin = (\<lambda>f. with_object a (\<lambda>u newObj. (u, f newObj)) (put_object a so' (log_change ?e ?t)))"
  have eq: "\<exists>f. CreateAccount L a b s = fin f \<and> (\<forall>x. so_address (f x) = so_address x)"
    unfolding CreateAccount_def Let_def so'(2) fin_def
    by (intro exI conjI, rule arg_cong2 [where f = "\<lambda>g. with_object a g"], rule ext, rule ext, rule refl, rule refl)
      (auto split: option.splits)
  have "fin f = put_object a (f so') (log_change ?e ?t)" for f
    by (simp add: fin_def with_object_def) (simp add: put_object_def)
  with eq obtain f where f: "CreateAccount L a b s = put_object a (f so') (log_change ?e ?t)"
    "so_address (f so') = a" using so'(1) by auto
  show "steps L s (CreateAccount L a b s)" unfolding f(1)
    by (rule steps_trans [OF t steps_create [OF g getStateObject_loaded [OF assms] f(2)]])
  show "stateObjects (CreateAccount L a b s) a \<noteq> None" by (simp add: f(1))
qed

lemma steps_credit:
  assumes "good L s"
  shows "steps L s (credit L a v s)"
proof -
  let ?t = "getStateObject L a s"
  have t: "steps L s ?t" and g: "good L ?t"
    using steps_getStateObject [OF assms] steps_good by blast+
  show ?thesis
  proof (cases "live a ?t")
    case None
    note c = steps_CreateAccount [OF g, of a False]
    from steps_trans [OF c(1) steps_AddBalance_live [OF steps_good [OF c(1)] c(2)]] t None
    show ?thesis by (simp add: credit_def Exist_def Let_def) (metis steps_trans)
  next
    case (Some so)
    then have "stateObjects ?t a \<noteq> None" by (auto simp: live_def split: option.splits)
    from steps_AddBalance_live [OF g this] t Some
    show ?thesis by (simp add: credit_def Exist_def Let_def) (metis steps_trans)
  qed
qed


lemma steps_refund:
  assumes "good L s" and "same_view L s t"
  shows "steps L s ((log_change (refundChange (refund s)) t)\<lparr>refund := r\<rparr>)"
proof (rule steps_entry [OF assms(1), where e = "refundChange (refund s)"])
  let ?u = "(log_change (refundChange (refund s)) t)\<lparr>refund := r\<rparr>"
  have view: "view L ?u = (view L s)\<lparr>as_refund := r\<rparr>"
    using assms(2) eff_cong [of ?u t L] by (auto simp: same_view_def view_def)
  show "view_ok (view L ?u)" using assms(1) by (simp add: view good_def view_ok_def)
  show "vrevert L (refundChange (refund s)) (view L ?u) = Ok (view L s)"
    unfolding view by (simp add: vrevert_def) (simp add: view_def)
qed (use assms in \<open>auto simp: same_view_def meta_def nil_ok_def good_def plain_entry_def\<close>)

lemma steps_AddRefund: "good L s \<Longrightarrow> steps L s (AddRefund g s)"
  unfolding AddRefund_def by (rule steps_refund) simp_all

lemma steps_SubRefund:
  assumes "good L s"
  shows "steps L s (SubRefund g s)"
proof -
  have "SubRefund g s = (log_change (refundChange (refund s))
      (if g > refund s then setErrorUnsafe ''refund counter below zero'' s else s))\<lparr>refund := refund s - g\<rparr>"
    by (simp add: SubRefund_def setErrorUnsafe_def Let_def)
  then show ?thesis using assms by (simp add: steps_refund)
qed

lemma view_ok_logs:
  "view_ok v \<Longrightarrow> \<forall>h. m h \<noteq> Some [] \<Longrightarrow> view_ok (v\<lparr>as_logs := m, as_logSize := z\<rparr>)"
  by (simp add: view_ok_def)

lemma steps_AddLog:
  assumes "good L s"
  shows "steps L s (AddLog l s)"
proof (rule steps_entry [OF assms, where e = "addLogChange (thash s)"])
  define ls where "ls = (case logs s (thash s) of None \<Rightarrow> [] | Some ls \<Rightarrow> ls)"
  obtain l' where log: "AddLog l s = (log_change (addLogChange (thash s)) s)
      \<lparr>logs := (logs s)(thash s \<mapsto> ls @ [l']), logSize := logSize s + 1\<rparr>"
    by (simp add: AddLog_def Let_def ls_def)
  have view: "view L (AddLog l s) =
      (view L s)\<lparr>as_logs := (logs s)(thash s \<mapsto> ls @ [l']), as_logSize := logSize s + 1\<rparr>"
    using eff_cong [of "AddLog l s" s L] by (simp add: log view_def)
  have nonempty: "logs s h \<noteq> Some []" for h using assms by (auto simp: good_def view_ok_def view_def)
  have id: "(view L s)\<lparr>as_logs := logs s, as_logSize := logSize s\<rparr> = view L s" by (simp add: view_def)
  show "vrevert L (addLogChange (thash s)) (view L (AddLog l s)) = Ok (view L s)"
  proof (cases "ls = []")
    case True
    then have "(logs s)(thash s := None) = logs s"
      using nonempty [of "thash s"] by (intro fun_upd_idem) (auto simp: ls_def split: option.splits)
    then show ?thesis unfolding view using True id by (simp add: vrevert_def)
  next
    case False
    then have "(logs s)(thash s \<mapsto> ls) = logs s"
      by (intro fun_upd_idem) (auto simp: ls_def split: option.splits)
    then show ?thesis unfolding view using False id by (simp add: vrevert_def)
  qed
  show "view_ok (view L (AddLog l s))"
    unfolding view using assms nonempty by (intro view_ok_logs) (simp_all add: good_def)
qed (use assms in \<open>simp_all add: AddLog_def Let_def nil_ok_def good_def plain_entry_def\<close>)

lemma view_accessList:
  "view L (s\<lparr>accessList := al\<rparr>) = (view L s)\<lparr>as_al := al\<rparr>"
  using eff_cong [of "s\<lparr>accessList := al\<rparr>" s L] by (simp add: view_def)

lemma view_ok_al: "view_ok v \<Longrightarrow> al_inv al \<Longrightarrow> view_ok (v\<lparr>as_al := al\<rparr>)"
  by (simp add: view_ok_def)

lemma as_al_view [simp]: "as_al (view L s) = accessList s"
  by (simp add: view_def)

lemma as_al_idem [simp]: "(view L s)\<lparr>as_al := accessList s\<rparr> = view L s"
  by (simp add: view_def)

text \<open>A change of the access list with one journal entry.\<close>

lemma steps_access:
  assumes g: "good L s" and "al_inv al" and "plain_entry e"
    and e: "vrevert L e ((view L s)\<lparr>as_al := al\<rparr>) = Ok (view L s)"
  shows "steps L s (log_change e (s\<lparr>accessList := al\<rparr>))"
  by (rule steps_entry [OF g, where e = e])
    (use assms in \<open>simp_all add: view_accessList good_def view_ok_al nil_ok_def\<close>)

lemma steps_AddAddress:
  assumes g: "good L s"
  shows "steps L s (AddAddressToAccessList a s)"
proof (cases "AddAddress a (accessList s)")
  case (Pair al ch)
  have inv: "al_inv al" using AddAddress_inv [of "accessList s" a] g Pair
    by (simp add: good_def view_ok_def)
  show ?thesis
  proof (cases ch)
    case True
    with Pair have "DeleteAddress a al = accessList s" by (simp add: DeleteAddress_AddAddress)
    then have "steps L s (log_change (accessListAddAccountChange a) (s\<lparr>accessList := al\<rparr>))"
      by (intro steps_access [OF g inv]) (simp_all add: plain_entry_def vrevert_def)
    then show ?thesis using Pair True by (simp add: AddAddressToAccessList_def)
  next
    case False
    then have "al = accessList s" using Pair by (auto simp: AddAddress_def split: if_splits)
    then show ?thesis using Pair False g by (simp add: AddAddressToAccessList_def steps_refl)
  qed
qed

lemma steps_AddSlot:
  assumes g: "good L s" and run: "AddSlotToAccessList a k s = Ok t"
  shows "steps L s t"
proof -
  have inv: "al_inv (accessList s)" using g by (simp add: good_def view_ok_def)
  obtain al ac sc where add: "AddSlot a k (accessList s) = Ok (al, ac, sc)" and inv': "al_inv al"
    using AddSlot_total [OF inv] by blast
  have one: "steps L s (log_change (accessListAddSlotChange a k) (s\<lparr>accessList := al\<rparr>))"
    if "\<not> ac" "sc"
  proof (rule steps_access [OF g inv'])
    have "DeleteSlot a k al = Ok (accessList s)"
      using DeleteSlot_AddSlot [OF inv, of a k al False] add that by auto
    then show "vrevert L (accessListAddSlotChange a k) ((view L s)\<lparr>as_al := al\<rparr>) = Ok (view L s)"
      by (simp add: vrevert_def)
  qed (simp add: plain_entry_def)
  have two: "steps L s (log_change (accessListAddSlotChange a k) (AddAddressToAccessList a s\<lparr>accessList := al\<rparr>))"
    if "ac" "sc"
  proof -
    have mid: "DeleteSlot a k al = Ok (fst (AddAddress a (accessList s)))"
      using DeleteSlot_AddSlot_fresh add that by simp
    let ?m = "AddAddressToAccessList a s"
    have m: "steps L s ?m" by (rule steps_AddAddress [OF g])
    have al: "accessList ?m = fst (AddAddress a (accessList s))"
      by (simp add: AddAddressToAccessList_def Let_def split: prod.splits)
    have "steps L ?m (log_change (accessListAddSlotChange a k) (?m\<lparr>accessList := al\<rparr>))"
      by (rule steps_access [OF steps_good [OF m] inv'])
        (simp_all add: plain_entry_def vrevert_def mid al [symmetric])
    with m show ?thesis by (rule steps_trans)
  qed
  have same: "t = s" if "\<not> ac" "\<not> sc"
    using that run add by (auto simp: AddSlotToAccessList_def AddSlot_def Let_def split: if_splits)
  have never: "ac \<Longrightarrow> sc" using add by (auto simp: AddSlot_def Let_def split: if_splits)
  have ch: "ac \<Longrightarrow> AddAddress a (accessList s) = (fst (AddAddress a (accessList s)), True)"
    using add by (auto simp: AddSlot_def AddAddress_def Let_def split: if_splits)
  have run': "t = (let s1 = s\<lparr>accessList := al\<rparr>;
      s2 = (if ac then log_change (accessListAddAccountChange a) s1 else s1)
    in if sc then log_change (accessListAddSlotChange a k) s2 else s2)"
    using run by (simp add: AddSlotToAccessList_def add Let_def)
  consider (a) ac sc | (b) "\<not> ac" sc | (c) "\<not> ac" "\<not> sc" using never by blast
  then show ?thesis
  proof cases
    case a
    have "AddAddressToAccessList a s = log_change (accessListAddAccountChange a)
        (s\<lparr>accessList := fst (AddAddress a (accessList s))\<rparr>)"
      by (subst AddAddressToAccessList_def, subst ch [OF a(1)]) (simp add: Let_def)
    then show ?thesis using two [OF a] run' a by simp
  next
    case b
    then show ?thesis using one run' by simp
  next
    case c
    then show ?thesis using same steps_refl [OF g] by simp
  qed
qed


section \<open>Frames\<close>

lemma steps_TakeSnapshot:
  assumes "good L s"
  shows "steps L s (fst (TakeSnapshot s))"
  using assms by (auto simp: TakeSnapshot_def steps_def good_def rev_ok_def sorted_wrt_append)

text \<open>A frame that fails leaves what it started from.\<close>

lemma reverted_frame:
  assumes g: "good L s" and snap: "TakeSnapshot s = (s0, i)" and st: "steps L s0 t"
  shows "\<exists>u. RevertToSnapshot L i t = Ok u \<and> view L u = view L s \<and>
    entries (journal u) = entries (journal s) \<and> steps L s u"
proof -
  have s0: "s0 = s\<lparr>nextRevisionID := nextRevisionID s + 1, validRevisions := validRevisions s @
      [\<lparr>rev_id = i, journalIndex = length (entries (journal s))\<rparr>]\<rparr>" "i = nextRevisionID s"
    using snap by (auto simp: TakeSnapshot_def journal_length_def)
  from st obtain es new where es: "entries (journal t) = entries (journal s) @ es"
    "undoes L es (view L t) (view L s)"
    and new: "validRevisions t = validRevisions s @
      \<lparr>rev_id = i, journalIndex = length (entries (journal s))\<rparr> # new"
    and next_id: "nextRevisionID s0 \<le> nextRevisionID t"
    by (auto simp: steps_def s0)
  have "nil_ok t" "rev_ok t" using st by (auto simp: steps_def good_def)
  from RevertToSnapshot_undoes [OF this new es]
  obtain u where u: "RevertToSnapshot L i t = Ok u" "view L u = view L s" "nil_ok u"
    "entries (journal u) = entries (journal s)" "validRevisions u = validRevisions s"
    "nextRevisionID u = nextRevisionID t" by blast
  have "rev_ok u" using \<open>rev_ok t\<close> u new by (auto simp: rev_ok_def sorted_wrt_append)
  then have "steps L s u" using u g next_id by (auto simp: steps_def good_def s0)
  with u show ?thesis by blast
qed

lemma run_steps:
  "good L s \<Longrightarrow> run_op L x s = Ok t \<Longrightarrow> steps L s t"
  "good L s \<Longrightarrow> run_ops L xs s = Ok t \<Longrightarrow> steps L s t"
proof (induction L x s and L xs s arbitrary: t and t rule: run_op_run_ops.induct)
  case (1 L a s)
  then show ?case using steps_getStateObject by (auto simp: Exist_def Let_def)
next
  case (2 L a k s)
  then show ?case by (auto simp: bnd_eq_Ok intro: steps_GetState)
next
  case (16 L ops fails s)
  obtain s0 i where snap: "TakeSnapshot s = (s0, i)" by fastforce
  with "16.prems" have s0: "steps L s s0" using steps_TakeSnapshot by (metis fst_conv)
  from "16.prems" snap obtain u where u: "run_ops L ops s0 = Ok u"
    "(if fails then RevertToSnapshot L i u else Ok u) = Ok t" by (auto simp: bnd_eq_Ok)
  then have st: "steps L s0 u" using "16.IH" [OF snap [symmetric]] steps_good [OF s0] by auto
  from reverted_frame [OF "16.prems"(1) snap this] u(2) steps_trans [OF s0 st]
  show ?case by (auto split: if_splits)
next
  case (18 L x xs s)
  from "18.prems" obtain u where u: "run_op L x s = Ok u" "run_ops L xs u = Ok t"
    by (auto simp: bnd_eq_Ok)
  have st: "steps L s u" using "18.IH"(1) "18.prems"(1) u(1) by blast
  have "steps L u t" by (rule "18.IH"(2) [OF u(1) steps_good [OF st] u(2)])
  with st show ?case by (rule steps_trans)
qed (auto intro: steps_GetCode steps_SetNonce steps_SetBalance steps_SubBalance steps_credit steps_SetCode
    steps_SetState steps_CreateAccount(1) steps_AddRefund steps_SubRefund steps_AddLog steps_AddAddress
    steps_AddSlot steps_refl)

end
