(* ===== verification/StateProps.thy ===== *)
theory StateProps
  imports StateFrames
begin

text \<open>
  The properties of the state layer: what a failed frame restores, in terms of the getters,
  and the two cases in which the journal does not restore the state.
\<close>

section \<open>The getters read the abstract state\<close>

definition vlive :: "astate \<Rightarrow> address \<Rightarrow> aobj option" where
  "vlive v a = (case as_objs v a of Some ob \<Rightarrow> if ao_deleted ob then None else Some ob | None \<Rightarrow> None)"

lemma live_view:
  assumes "good L s"
  shows "map_option (oview L (stateReader s) (read_snap s)) (live a (getStateObject L a s)) = vlive (view L s) a"
proof -
  have "stateObjects (getStateObject L a s) a = eff L s a"
    using getStateObject_spec(1) [of s a L] good_not_pending [OF assms, of a] assms by (simp add: good_def)
  then show ?thesis by (auto simp: live_def vlive_def as_objs_view oview_def split: option.splits)
qed

lemma GetBalance_view:
  assumes "good L s"
  shows "snd (GetBalance L a s) = (case vlive (view L s) a of None \<Rightarrow> 0 | Some ob \<Rightarrow> Balance (ao_data ob))"
  unfolding live_view [OF assms, symmetric]
  by (simp add: GetBalance_def Let_def oview_def split: option.splits)

lemma GetNonce_view:
  assumes "good L s"
  shows "snd (GetNonce L a s) = (case vlive (view L s) a of None \<Rightarrow> 0 | Some ob \<Rightarrow> Nonce (ao_data ob))"
  unfolding live_view [OF assms, symmetric]
  by (simp add: GetNonce_def Let_def oview_def split: option.splits)

lemma GetCodeHash_view:
  assumes "good L s"
  shows "snd (GetCodeHash L a s) = (case vlive (view L s) a of None \<Rightarrow> 0 | Some ob \<Rightarrow> CodeHash (ao_data ob))"
  unfolding live_view [OF assms, symmetric]
  by (simp add: GetCodeHash_def Let_def oview_def split: option.splits)

lemma GetCode_view:
  assumes "good L s"
  shows "snd (GetCode L a s) = (case vlive (view L s) a of None \<Rightarrow> None | Some ob \<Rightarrow> ao_code ob)"
proof -
  let ?t = "getStateObject L a s"
  have R: "stateReader ?t = stateReader s"
    using getStateObject_spec(5) [of s a L] good_not_pending [OF assms, of a] assms by (simp add: good_def)
  show ?thesis
    unfolding live_view [OF assms, symmetric]
  proof (cases "live a ?t")
    case None
    then show "snd (GetCode L a s) = (case map_option (oview L (stateReader s) (read_snap s)) (live a ?t) of
        None \<Rightarrow> None | Some ob \<Rightarrow> ao_code ob)" by (simp add: GetCode_def Let_def)
  next
    case (Some so)
    obtain u so' c where code: "so_Code L ?t so = (u, so', c)" by (cases "so_Code L ?t so") auto
    from so_Code_view(3) [OF code] Some R
    show "snd (GetCode L a s) = (case map_option (oview L (stateReader s) (read_snap s)) (live a ?t) of
        None \<Rightarrow> None | Some ob \<Rightarrow> ao_code ob)"
      by (simp add: GetCode_def Let_def code oview_def)
  qed
qed

lemma GetState_view:
  assumes "good L s" and "GetState L a k s = Ok (t, v)"
  shows "(case vlive (view L s) a of None \<Rightarrow> Ok 0 | Some ob \<Rightarrow> ao_state ob k) = Ok v"
proof -
  let ?t = "getStateObject L a s"
  have R: "stateReader ?t = stateReader s" "read_snap ?t = read_snap s"
    using getStateObject_spec(5,6) [of s a L] good_not_pending [OF assms(1), of a] assms(1)
    by (simp_all add: good_def)
  show ?thesis
    unfolding live_view [OF assms(1), symmetric]
    using assms(2) so_GetState_view [of k ?t "the (live a ?t)" _ _ v L]
    by (cases "live a ?t") (auto simp: GetState_def Let_def bnd_eq_Ok oview_def R)
qed

lemma NewState_good: "good L (NewState R)"
  by (auto simp: good_def NewState_def nil_ok_def view_ok_def view_def rev_ok_def newAccessList_inv
      eff_def db_object_def oview_def newObject_def Let_def split: option.splits prod.splits)


section \<open>Failed frames\<close>

text \<open>C23. Let a frame take a snapshot in a good state (its absent accounts agree with the database and
  no balance increase is pending; objects, logs, access list and revisions are well formed), run a sequence of the operations of \<^typ>\<open>op\<close> and fail. The operations are
  reads, \<open>SetNonce\<close>, \<open>SetBalance\<close>, \<open>SubBalance\<close>, credits as a transfer makes them, \<open>SetCode\<close>, \<open>SetState\<close>,
  \<open>CreateAccount\<close>, refunds, logs, access-list additions and nested frames; self-destruction, the
  increase of an unread balance, \<open>SetStorage\<close> and \<open>SetIncarnation\<close> are not among them. If the sequence
  finishes, then \<open>RevertToSnapshot\<close> does not panic and what the getters return is what they returned before
  the frame: balances, nonces, code and code hashes, the storage slots whose reads do not panic, the
  refund counter, the logs and the access list.\<close>

theorem failed_frame_restores:
  assumes "good L s" and "run_ops L ops (fst (TakeSnapshot s)) = Ok u"
  shows "\<exists>t. run_op L (OpFrame ops True) s = Ok t \<and>
    (\<forall>a. snd (GetBalance L a t) = snd (GetBalance L a s) \<and> snd (GetNonce L a t) = snd (GetNonce L a s) \<and>
         snd (GetCode L a t) = snd (GetCode L a s) \<and> snd (GetCodeHash L a t) = snd (GetCodeHash L a s)) \<and>
    (\<forall>a k x y v w. GetState L a k s = Ok (x, v) \<longrightarrow> GetState L a k t = Ok (y, w) \<longrightarrow> w = v) \<and>
    GetRefund t = GetRefund s \<and> (\<forall>h. GetLogs h t = GetLogs h s) \<and> accessList t = accessList s \<and> good L t"
proof -
  obtain s0 i where snap: "TakeSnapshot s = (s0, i)" by fastforce
  have s0: "good L s0" using steps_good [OF steps_TakeSnapshot [OF assms(1)]] snap by simp
  have st: "steps L s0 u" using run_steps(2) [OF s0] assms(2) snap by simp
  obtain t where t: "RevertToSnapshot L i u = Ok t" "view L t = view L s" "steps L s t"
    using reverted_frame [OF assms(1) snap st] by blast
  have run: "run_op L (OpFrame ops True) s = Ok t" using assms(2) snap t(1) by simp
  note g = assms(1) steps_good [OF t(3)]
  have "refund t = refund s" "logs t = logs s" "accessList t = accessList s"
    using t(2) by (auto simp: view_def)
  then show ?thesis using run g t(2)
    by (auto simp: GetBalance_view GetNonce_view GetCode_view GetCodeHash_view GetRefund_def GetLogs_def
        dest!: GetState_view)
qed

definition demo_lib :: lib where
  "demo_lib = \<lparr>keccak = (\<lambda>bs. of_nat (length bs) + 7), marshalAccount = (\<lambda>_. [1]),
     unmarshalAccount = (\<lambda>_. Inr zero_account)\<rparr>"

definition demo_account :: StateAccount where
  "demo_account = \<lparr>Initialised = True, Nonce = 1, Balance = 5, Root = 0, CodeHash = 7, Incarnation = 0\<rparr>"

definition demo_reader :: StateReader where
  "demo_reader =
     \<lparr>ReadAccountData = (\<lambda>a. (if a = 1 then Some demo_account else None, None)),
      ReadAccountStorage = (\<lambda>_ _ _. (None, None)),
      ReadAccountCode = (\<lambda>_ _ _. (None, None)),
      ReadAccountCodeSize = (\<lambda>_ _ _. (0, None)),
      ReadAccountIncarnation = (\<lambda>_. (0, None))\<rparr>"

lemma demo_balance: "snd (GetBalance demo_lib 1 (NewState demo_reader)) = 5"
  by (simp add: GetBalance_view NewState_good)
    (simp add: vlive_def view_def eff_def NewState_def db_object_def demo_reader_def demo_account_def
      oview_def newObject_def Let_def)

theorem failed_frame_restores_witness:
  "\<exists>t. run_op demo_lib (OpFrame [OpSetBalance 1 9, OpSetNonce 1 4, OpCredit 2 3,
        OpFrame [OpAddRefund 8, OpSubBalance 1 2] False] True) (NewState demo_reader) = Ok t \<and>
     snd (GetBalance demo_lib 1 t) = 5"
proof -
  let ?ops = "[OpSetBalance 1 9, OpSetNonce 1 4, OpCredit 2 3, OpFrame [OpAddRefund 8, OpSubBalance 1 2] False]"
  have "\<exists>u. run_ops demo_lib ?ops (fst (TakeSnapshot (NewState demo_reader))) = Ok u"
    by (simp split: prod.splits)
  then obtain u where "run_ops demo_lib ?ops (fst (TakeSnapshot (NewState demo_reader))) = Ok u" ..
  from failed_frame_restores [OF NewState_good this] show ?thesis using demo_balance by auto
qed

text \<open>C24. Undoing one journal entry on the concrete state, with its caches, is undoing it on the
  abstract state of accounts, with the same panics: for every entry other than \<open>balanceIncrease\<close> and
  \<open>balanceIncreaseTransfer\<close>, in a well-formed state: its absent accounts agree with the database, no
  balance increase is pending, objects are under their addresses, no log list is empty and the
  access list is well formed.\<close>

theorem revert_refines:
  assumes "nil_ok s" and "view_ok (view L s)" and "plain_entry e"
  shows "map_res (view L) (revert L e s) = vrevert L e (view L s)"
  using assms by (rule revert_view)

theorem revert_refines_witness:
  "map_res (view demo_lib) (revert demo_lib (nonceChange 1 8) (NewState demo_reader)) =
     vrevert demo_lib (nonceChange 1 8) (view demo_lib (NewState demo_reader))"
  by (rule revert_refines) (use NewState_good [of demo_lib demo_reader] in \<open>simp_all add: good_def plain_entry_def\<close>)

section \<open>What the journal does not restore\<close>

text \<open>C26. A balance increase of an account that has not been read is kept aside and moved into
  the account when it is first loaded. If a frame increases the balance of an existing
  account, reads it, and reverts, the increase stays in the loaded account: its balance is
  no longer the one the database has.\<close>

theorem balance_increase_survives_revert:
  assumes R: "ReadAccountData R a = (Some acc, None)" and acc: "Initialised acc"
    and "a \<noteq> ripemd \<or> v \<noteq> 0"
    and s1: "TakeSnapshot (NewState R) = (s1, revid)"
    and s2: "GetBalance L a (AddBalance L a v s1) = (s2, b)"
  shows "\<exists>s3. RevertToSnapshot L revid s2 = Ok s3 \<and>
    snd (GetBalance L a (NewState R)) = Balance acc \<and> snd (GetBalance L a s3) = Balance acc + v"
proof -
  define so where "so = newObject L a acc acc"
  define so' where "so' = so\<lparr>data := (data so)\<lparr>Balance := Balance (data so) + v\<rparr>\<rparr>"
  have s2': "s2 = (NewState R)\<lparr>nextRevisionID := 1, validRevisions := [\<lparr>rev_id = 0, journalIndex = 0\<rparr>],
     stateObjects := [a \<mapsto> so'], balanceInc := [a \<mapsto> \<lparr>increase = v, transferred = True, bi_count = 1\<rparr>],
     journal := \<lparr>entries = [balanceIncrease a v, balanceIncreaseTransfer a], dirties = [a \<mapsto> 1]\<rparr>\<rparr>"
    using assms
    by (simp add: TakeSnapshot_def NewState_def GetBalance_def AddBalance_def Let_def getStateObject_def
        setStateObject_def put_object_def journal_length_def newJournal_def so_def so'_def pending_def)
      (auto simp: setStateObject_def put_object_def journal_append_def dirtied_def dirty_def dirty_count_def)
  have rev: "revid = 0" using s1 by (simp add: TakeSnapshot_def NewState_def)
  have srch: "sort_search f 0 (Suc 0) = 0" if "f 0" for f using that by (simp add: sort_search.simps)
  have "RevertToSnapshot L revid s2 = Ok ((NewState R)\<lparr>nextRevisionID := 1, stateObjects := [a \<mapsto> so']\<rparr>)"
    unfolding s2' rev
    by (simp add: RevertToSnapshot_def srch journal_revert_def NewState_def revert_def undirty_def
        dirtied_def revert_bi_def Let_def dirty_count_def newJournal_def)
  moreover have "snd (GetBalance L a (NewState R)) = Balance acc"
    using R acc by (simp add: GetBalance_view NewState_good)
      (simp add: vlive_def view_def eff_def NewState_def db_object_def oview_def newObject_def Let_def)
  ultimately show ?thesis using acc
    by (simp add: GetBalance_def Let_def getStateObject_def live_def NewState_def so'_def so_def newObject_def)
qed

theorem balance_increase_survives_revert_witness:
  "\<exists>s1 revid s2 b s3. TakeSnapshot (NewState demo_reader) = (s1, revid) \<and>
     GetBalance demo_lib 1 (AddBalance demo_lib 1 10 s1) = (s2, b) \<and>
     RevertToSnapshot demo_lib revid s2 = Ok s3 \<and> snd (GetBalance demo_lib 1 s3) = 15"
proof -
  obtain s1 revid where s1: "TakeSnapshot (NewState demo_reader) = (s1, revid)" by fastforce
  obtain s2 b where s2: "GetBalance demo_lib 1 (AddBalance demo_lib 1 10 s1) = (s2, b)" by fastforce
  have "ReadAccountData demo_reader 1 = (Some demo_account, None)" "Initialised demo_account"
    "1 \<noteq> ripemd \<or> 10 \<noteq> (0 :: u256)" "Balance demo_account = 5"
    by (simp_all add: demo_reader_def demo_account_def)
  with balance_increase_survives_revert [OF _ _ _ s1 s2] s1 s2 show ?thesis by fastforce
qed

text \<open>C27. \<open>Selfdestruct\<close> clears the flag that marks a contract created in this block, but its
  journal entry records only the balance and the selfdestructed flag: after a revert those
  two are back, and the contract is no longer marked as created.\<close>

theorem selfdestruct_revert_forgets_created:
  assumes so: "stateObjects s a = Some so" "created so" "\<not> deleted so" and "rev_ok s"
    and s1: "TakeSnapshot s = (s1, revid)" and s2: "Selfdestruct L a s1 = (s2, b)"
  shows "\<exists>s3 so'. RevertToSnapshot L revid s2 = Ok s3 \<and> stateObjects s3 a = Some so' \<and>
    Balance (data so') = Balance (data so) \<and> selfdestructed so' = selfdestructed so \<and> \<not> created so'"
proof -
  let ?r = "\<lparr>rev_id = revid, journalIndex = length (entries (journal s))\<rparr>"
  let ?e = "selfdestructChange a (selfdestructed so) (Balance (data so))"
  have r: "validRevisions s1 = validRevisions s @ [?r]" "journal s1 = journal s"
    "stateObjects s1 a = Some so" "sorted_wrt (<) (map rev_id (validRevisions s1))"
    using s1 assms(4) so by (auto simp: TakeSnapshot_def journal_length_def rev_ok_def sorted_wrt_append)
  have s2': "s2 = put_object a (snd (destroy a s1 so)) (log_change ?e s1)"
    using s2 r(3) so by (auto simp: Selfdestruct_def getStateObject_def live_def with_object_def destroy_def)
  then have v2: "validRevisions s2 = validRevisions s @ [?r]" "entries (journal s2) = entries (journal s) @ [?e]"
    "stateObjects s2 a = Some (snd (destroy a s1 so))"
    by (simp_all add: r)
  have idx: "sort_search (\<lambda>i. rev_id (validRevisions s2 ! i) \<ge> revid) 0 (length (validRevisions s2)) =
      length (validRevisions s)"
    using find_revision [of "validRevisions s2" "validRevisions s" ?r "[]"] v2(1) r by simp
  obtain s3 where s3: "revert L ?e s2 = Ok s3" "journal s3 = journal s2" "validRevisions s3 = validRevisions s2"
    "stateObjects s3 a = Some (so_setBalance (Balance (data so)) ((snd (destroy a s1 so))\<lparr>selfdestructed := selfdestructed so\<rparr>))"
    using v2(3) by (simp add: revert_def getStateObject_def Let_def)
  have ent: "entries (undirty (dirtied ?e) (journal s2)) = entries (journal s2)"
    by (simp add: undirty_def dirtied_def Let_def)
  have "\<exists>s4. RevertToSnapshot L revid s2 = Ok s4 \<and> stateObjects s4 a = stateObjects s3 a"
    using idx v2 s3 ent by (simp add: RevertToSnapshot_def Let_def journal_revert_def nth_append)
  then show ?thesis using s3(4) by (auto simp: so_setBalance_def destroy_def)
qed


theorem selfdestruct_revert_forgets_created_witness:
  "\<exists>s1 revid s2 b s3 so'. TakeSnapshot (CreateAccount demo_lib 2 True (NewState demo_reader)) = (s1, revid) \<and>
     Selfdestruct demo_lib 2 s1 = (s2, b) \<and> RevertToSnapshot demo_lib revid s2 = Ok s3 \<and>
     stateObjects s3 2 = Some so' \<and> \<not> created so'"
proof -
  let ?s = "CreateAccount demo_lib 2 True (NewState demo_reader)"
  obtain s1 revid where s1: "TakeSnapshot ?s = (s1, revid)" by fastforce
  obtain s2 b where s2: "Selfdestruct demo_lib 2 s1 = (s2, b)" by fastforce
  have "\<exists>so. stateObjects ?s 2 = Some so \<and> created so \<and> \<not> deleted so" and "rev_ok ?s"
    by (simp_all add: CreateAccount_def createObject_def getStateObject_def NewState_def demo_reader_def
        setStateObject_def put_object_def with_object_def pending_def Let_def newObject_def so_setNonce_def rev_ok_def)
  with selfdestruct_revert_forgets_created [OF _ _ _ _ s1 s2] s1 s2 show ?thesis by metis
qed

section \<open>Warm addresses and slots\<close>

locale warm_set =
  fixes inv :: "'s \<Rightarrow> bool"
    and addr_warm :: "address \<Rightarrow> 's \<Rightarrow> bool"
    and slot_warm :: "address \<Rightarrow> hash \<Rightarrow> 's \<Rightarrow> bool"
    and add_addr :: "address \<Rightarrow> 's \<Rightarrow> 's"
    and add_slot :: "address \<Rightarrow> hash \<Rightarrow> 's \<Rightarrow> 's res"
  assumes inv_add_addr: "inv s \<Longrightarrow> inv (add_addr a s)"
    and add_addr_warm: "inv s \<Longrightarrow> addr_warm b (add_addr a s) \<longleftrightarrow> b = a \<or> addr_warm b s"
    and add_addr_slot: "inv s \<Longrightarrow> slot_warm b k (add_addr a s) \<longleftrightarrow> slot_warm b k s"
    and add_slot_ok: "inv s \<Longrightarrow> \<exists>t. add_slot a k s = Ok t \<and> inv t \<and>
      (\<forall>b. addr_warm b t \<longleftrightarrow> b = a \<or> addr_warm b s) \<and>
      (\<forall>b j. slot_warm b j t \<longleftrightarrow> (b, j) = (a, k) \<or> slot_warm b j s)"
begin

lemma fold_add_addr:
  "inv s \<Longrightarrow> inv (fold add_addr as s) \<and>
   (\<forall>b. addr_warm b (fold add_addr as s) \<longleftrightarrow> b \<in> set as \<or> addr_warm b s) \<and>
   (\<forall>b k. slot_warm b k (fold add_addr as s) \<longleftrightarrow> slot_warm b k s)"
  by (induction as arbitrary: s) (auto simp: inv_add_addr add_addr_warm add_addr_slot)

lemma fold_add_slot:
  "inv s \<Longrightarrow> \<exists>t. fold (\<lambda>k r. bnd r (add_slot a k)) ks (Ok s) = Ok t \<and> inv t \<and>
   (\<forall>b. addr_warm b t \<longleftrightarrow> (b = a \<and> ks \<noteq> []) \<or> addr_warm b s) \<and>
   (\<forall>b k. slot_warm b k t \<longleftrightarrow> (b = a \<and> k \<in> set ks) \<or> slot_warm b k s)"
proof (induction ks arbitrary: s)
  case (Cons k ks)
  obtain t where t: "add_slot a k s = Ok t" "inv t" "\<forall>b. addr_warm b t \<longleftrightarrow> b = a \<or> addr_warm b s"
    "\<forall>b j. slot_warm b j t \<longleftrightarrow> (b, j) = (a, k) \<or> slot_warm b j s"
    using add_slot_ok [OF Cons.prems] by blast
  then show ?case using Cons.IH [OF t(2)] by auto
qed simp

end

lemma AddAddressToAccessList_al [simp]:
  "accessList (AddAddressToAccessList a s) = fst (AddAddress a (accessList s))"
  by (simp add: AddAddressToAccessList_def Let_def split: prod.splits)

lemma AddSlotToAccessList_al:
  assumes "al_inv (accessList s)"
  shows "\<exists>t al' ac sc. AddSlotToAccessList a k s = Ok t \<and> AddSlot a k (accessList s) = Ok (al', ac, sc) \<and>
    accessList t = al' \<and> al_inv al'"
proof -
  obtain al' ac sc where "AddSlot a k (accessList s) = Ok (al', ac, sc)" "al_inv al'"
    using AddSlot_total [OF assms] by blast
  then show ?thesis by (simp add: AddSlotToAccessList_def Let_def)
qed

interpretation ibs_warm: warm_set "\<lambda>s. al_inv (accessList s)" AddressInAccessList
  "\<lambda>a k s. (a, k) \<in> al_slots (accessList s)" AddAddressToAccessList AddSlotToAccessList
proof
  fix s :: IntraBlockState and a b k
  assume inv: "al_inv (accessList s)"
  show "al_inv (accessList (AddAddressToAccessList a s))" using inv by (simp add: AddAddress_inv)
  show "AddressInAccessList b (AddAddressToAccessList a s) \<longleftrightarrow> b = a \<or> AddressInAccessList b s"
    by (simp add: AddressInAccessList_def ContainsAddress_abs AddAddress_abs)
  show "(b, k) \<in> al_slots (accessList (AddAddressToAccessList a s)) \<longleftrightarrow> (b, k) \<in> al_slots (accessList s)"
    by (simp add: AddAddress_abs)
  obtain t al' ac sc where t: "AddSlotToAccessList a k s = Ok t" "AddSlot a k (accessList s) = Ok (al', ac, sc)"
    "accessList t = al'" "al_inv al'" using AddSlotToAccessList_al [OF inv] by blast
  then show "\<exists>t. AddSlotToAccessList a k s = Ok t \<and> al_inv (accessList t) \<and>
      (\<forall>b. AddressInAccessList b t \<longleftrightarrow> b = a \<or> AddressInAccessList b s) \<and>
      (\<forall>b j. (b, j) \<in> al_slots (accessList t) \<longleftrightarrow> (b, j) = (a, k) \<or> (b, j) \<in> al_slots (accessList s))"
    using AddSlot_abs(1,2) [OF inv t(2)] by (simp add: AddressInAccessList_def ContainsAddress_abs)
qed

lemma add_addresses_fold: "add_addresses as s = fold AddAddressToAccessList as s"
  by (induction as arbitrary: s) simp_all

lemma add_keys_fold: "add_keys a ks s = fold (\<lambda>k r. bnd r (AddSlotToAccessList a k)) ks (Ok s)"
proof -
  have "fold (\<lambda>k r. bnd r (AddSlotToAccessList a k)) ks r = bnd r (add_keys a ks)" for r
  proof (induction ks arbitrary: r)
    case Nil
    show ?case by (cases r) simp_all
  next
    case (Cons k ks)
    show ?case by (cases r) (simp_all add: Cons.IH)
  qed
  then show ?thesis by simp
qed

lemma add_tuples_warm:
  "al_inv (accessList s) \<Longrightarrow> \<exists>t. add_tuples els s = Ok t \<and> al_inv (accessList t) \<and>
   (\<forall>b. AddressInAccessList b t \<longleftrightarrow> b \<in> fst ` set els \<or> AddressInAccessList b s) \<and>
   (\<forall>b k. (b, k) \<in> al_slots (accessList t) \<longleftrightarrow> (\<exists>ks. (b, ks) \<in> set els \<and> k \<in> set ks) \<or> (b, k) \<in> al_slots (accessList s))"
proof (induction els arbitrary: s)
  case (Cons el els)
  obtain a ks where el: "el = (a, ks)" by fastforce
  let ?s = "AddAddressToAccessList a s"
  have inv: "al_inv (accessList ?s)" using Cons.prems by (rule ibs_warm.inv_add_addr)
  obtain t where t: "add_keys a ks ?s = Ok t" "al_inv (accessList t)"
    "\<forall>b. AddressInAccessList b t \<longleftrightarrow> (b = a \<and> ks \<noteq> []) \<or> AddressInAccessList b ?s"
    "\<forall>b k. (b, k) \<in> al_slots (accessList t) \<longleftrightarrow> (b = a \<and> k \<in> set ks) \<or> (b, k) \<in> al_slots (accessList ?s)"
    using ibs_warm.fold_add_slot [OF inv] unfolding add_keys_fold by blast
  show ?case
    using Cons.IH [OF t(2)] t ibs_warm.add_addr_warm [OF Cons.prems] ibs_warm.add_addr_slot [OF Cons.prems]
    by (auto simp: el)
qed auto

text \<open>C25. \<open>PrepareAccessList\<close> does not panic, and afterwards exactly the sender, the destination,
  the precompiles and the addresses of the transaction's list are warm in addition to
  what was warm before, and exactly the listed slots.\<close>

theorem PrepareAccessList_warms:
  assumes "al_inv (accessList s)"
  shows "\<exists>t. PrepareAccessList sender dst precompiles els s = Ok t \<and> al_inv (accessList t) \<and>
    (\<forall>b. AddressInAccessList b t \<longleftrightarrow>
       b = sender \<or> dst = Some b \<or> b \<in> set precompiles \<or> b \<in> fst ` set els \<or> AddressInAccessList b s) \<and>
    (\<forall>b k. SlotInAccessList b k t = Ok (AddressInAccessList b t,
       (\<exists>ks. (b, ks) \<in> set els \<and> k \<in> set ks) \<or> SlotInAccessList b k s = Ok (AddressInAccessList b s, True)))"
proof -
  define s1 where "s1 = (case dst of None \<Rightarrow> AddAddressToAccessList sender s
      | Some d \<Rightarrow> AddAddressToAccessList d (AddAddressToAccessList sender s))"
  have s1: "al_inv (accessList s1)" "\<forall>b. AddressInAccessList b s1 \<longleftrightarrow> b = sender \<or> dst = Some b \<or> AddressInAccessList b s"
    "\<forall>b k. (b, k) \<in> al_slots (accessList s1) \<longleftrightarrow> (b, k) \<in> al_slots (accessList s)"
    using assms by (auto simp: s1_def AddAddress_inv AddressInAccessList_def ContainsAddress_abs AddAddress_abs
        split: option.splits)
  note pre = ibs_warm.fold_add_addr [OF s1(1), of precompiles]
  obtain t where t: "add_tuples els (add_addresses precompiles s1) = Ok t" "al_inv (accessList t)"
    "\<forall>b. AddressInAccessList b t \<longleftrightarrow> b \<in> fst ` set els \<or> AddressInAccessList b (add_addresses precompiles s1)"
    "\<forall>b k. (b, k) \<in> al_slots (accessList t) \<longleftrightarrow>
      (\<exists>ks. (b, ks) \<in> set els \<and> k \<in> set ks) \<or> (b, k) \<in> al_slots (accessList (add_addresses precompiles s1))"
    using add_tuples_warm [of "add_addresses precompiles s1" els] pre unfolding add_addresses_fold by blast
  have run: "PrepareAccessList sender dst precompiles els s = Ok t"
    using t(1) by (cases dst) (simp_all add: PrepareAccessList_def s1_def Let_def)
  have slot: "al_inv (accessList x) \<Longrightarrow> SlotInAccessList b k x = Ok (AddressInAccessList b x, (b, k) \<in> al_slots (accessList x))"
    for x b k by (simp add: SlotInAccessList_def Contains_abs AddressInAccessList_def ContainsAddress_abs)
  show ?thesis
    using run t pre s1 slot [OF t(2)] slot [OF assms] by (auto simp: add_addresses_fold)
qed

theorem PrepareAccessList_warms_witness:
  "\<exists>t. PrepareAccessList 1 (Some 2) [3] [(4, [5, 6])] (NewState demo_reader) = Ok t \<and>
     AddressInAccessList 3 t \<and> SlotInAccessList 4 6 t = Ok (True, True) \<and> \<not> AddressInAccessList 9 t"
proof -
  have inv: "al_inv (accessList (NewState demo_reader))" by (simp add: NewState_def newAccessList_inv)
  have "\<not> AddressInAccessList 9 (NewState demo_reader)"
    by (simp add: NewState_def AddressInAccessList_def ContainsAddress_def newAccessList_def)
  with PrepareAccessList_warms [OF inv, of 1 "Some 2" "[3]" "[(4, [5, 6])]"]
  show ?thesis by force
qed

text \<open>Deleting a slot and, if it was added too, its address, in the order of the journal,
  gives back exactly the access list from before \<open>AddSlot\<close>.\<close>

theorem access_list_undo:
  assumes "al_inv al" and "AddSlot a s al = Ok (al', addrChange, True)"
  shows "\<exists>al''. DeleteSlot a s al' = Ok al'' \<and> (if addrChange then DeleteAddress a al'' else al'') = al"
  using assms by (rule DeleteSlot_AddSlot)

theorem access_list_undo_witness:
  "\<exists>al' al''. AddSlot 1 2 newAccessList = Ok (al', True, True) \<and> DeleteSlot 1 2 al' = Ok al'' \<and>
     DeleteAddress 1 al'' = newAccessList"
  using access_list_undo [OF newAccessList_inv, of 1 2 _ True] by (simp add: AddSlot_def newAccessList_def)

end
