(* ===== verification/VmProps.thy ===== *)
theory VmProps
  imports RunSafe StateProps
begin

text \<open>
  The properties of the virtual machine as a whole: \<open>Call\<close>, \<open>CallCode\<close>, \<open>DelegateCall\<close>,
  \<open>StaticCall\<close>, \<open>Create\<close> and \<open>Create2\<close> with the interpreter of the chain rules. Fuel counts the rounds
  of the loops: a run needs at most one more than the gas it is given, and with that much its
  result does not depend on the fuel.
\<close>

section \<open>An environment for the concrete runs\<close>

definition demo_rules :: Rules where
  "demo_rules =
     \<lparr>ChainID = 94, IsHomestead = True, IsTangerineWhistle = True, IsSpuriousDragon = True, IsByzantium = True,
      IsConstantinople = True, IsPetersburg = True, IsIstanbul = True, IsBerlin = True, IsLondon = True,
      IsShanghai = False, IsCancun = False, IsPrague = False, IsNano = False, IsMoran = False,
      IsEip1559FeeCollector = False, IsParlia = False, IsStarknet = False, IsAura = False, IsBeijing = False\<rparr>"

definition demo_env :: env where
  "demo_env =
     \<lparr>env_lib = demo_lib,
      env_u256 = \<lparr>u_Div = (\<lambda>x y. x div y), u_SDiv = (\<lambda>x y. x div y), u_Mod = (\<lambda>x y. x mod y), u_SMod = (\<lambda>x y. x mod y),
        u_Exp = (\<lambda>x y. x ^ unat y), u_ExtendSign = (\<lambda>x y. x), u_Byte = (\<lambda>x y. x),
        u_AddMod = (\<lambda>x y z. (x + y) mod z), u_MulMod = (\<lambda>x y z. (x * y) mod z), u_SRsh = (\<lambda>x n. drop_bit n x)\<rparr>,
      blockContext = \<lparr>CanTransferFunc = CanTransfer, TransferFunc = Transfer, GetHash = (\<lambda>_. 0), Coinbase = 0,
        GasLimit = 30000000, MaxGasLimitFlag = False, BlockNumber = 1, Time = 1, Difficulty = 0, BaseFee = Some 7,
        PrevRanDao = None\<rparr>,
      txContext = \<lparr>tx_TxHash = 0, Origin = 1, GasPrice = Some 7\<rparr>,
      chainRules = demo_rules,
      config = \<lparr>NoRecursion = False, NoBaseFee = False, SkipAnalysis = False, NoReceipts = False, cfg_ReadOnly = False,
        StatelessExec = False, RestoreState = False, ExtraEips = []\<rparr>,
      tables = \<lparr>PrecompiledContractsHomestead = Map.empty, PrecompiledContractsByzantium = Map.empty,
        PrecompiledContractsIstanbul = Map.empty, PrecompiledContractsIstanbulForBSC = Map.empty,
        PrecompiledContractsBerlin = Map.empty, PrecompiledContractsNano = Map.empty,
        PrecompiledContractsIsMoran = Map.empty\<rparr>,
      rlpCreate = (\<lambda>a n. []), cancelled = (\<lambda>_. False)\<rparr>"

definition demo_evm :: EVM where
  "demo_evm = \<lparr>ibs = NewState demo_reader, callGasTemp = 0, depth = 0, readOnly = False, returnData = [],
     jds = Map.empty, polls = 0\<rparr>"

lemma demo_rules_ok: "rules_ok (chainRules demo_env)"
  by (simp add: rules_ok_def demo_env_def demo_rules_def)

lemma demo_chainRules [simp]: "chainRules demo_env = demo_rules"
  by (simp add: demo_env_def)

section \<open>Whole runs\<close>

lemma vm_ok:
  assumes "rules_ok (chainRules E)"
  shows "\<exists>jt. instructionSet (chainRules E) = Ok jt \<and> table_ok E jt \<and>
    (\<forall>n gas. unat gas < n \<longrightarrow>
       (\<forall>typ clr addr input value bailout ev.
          call_ok ev gas (evm_call (Run (run_loop n jt E)) E typ clr addr input gas value bailout ev)) \<and>
       (\<forall>clr ch value addr inc ev.
          create_ok ev gas (create (Run (run_loop n jt E)) E clr ch gas value addr inc ev)))"
  using instructionSet_ok [OF assms] interpreter_ok call_ok_evm_call create_ok_create by meson

text \<open>C1. The interpreter of every set of chain rules in which the EIP-2929 prices come with the
  63/64 rule terminates: with more fuel than gas, no call and no creation runs out of fuel,
  whatever the code, the state and the nested calls.\<close>

theorem calls_terminate:
  assumes "rules_ok (chainRules E)"
  shows "\<exists>jt. instructionSet (chainRules E) = Ok jt \<and>
    (\<forall>n gas. unat gas < n \<longrightarrow>
       (\<forall>typ clr addr input value bailout ev.
          evm_call (Run (run_loop n jt E)) E typ clr addr input gas value bailout ev \<noteq> NoFuel) \<and>
       (\<forall>clr ch value addr inc ev. create (Run (run_loop n jt E)) E clr ch gas value addr inc ev \<noteq> NoFuel))"
  using vm_ok [OF assms] unfolding call_ok_def create_ok_def by (metis sat_simps(3))

theorem calls_terminate_witness:
  "\<exists>jt. instructionSet demo_rules = Ok jt \<and>
     evm_call (Run (run_loop 21001 jt demo_env)) demo_env CALL (AccountRef 1) 2 [] 21000 (Some 3) False demo_evm \<noteq> NoFuel"
  using calls_terminate [OF demo_rules_ok] by fastforce

text \<open>C3. The result of a call or creation does not depend on the fuel: any two amounts that
  exceed the gas give the same result.\<close>

theorem fuel_is_irrelevant:
  assumes "rules_ok (chainRules E)"
  shows "\<exists>jt. instructionSet (chainRules E) = Ok jt \<and>
    (\<forall>n n' gas. unat gas < n \<longrightarrow> unat gas < n' \<longrightarrow>
       (\<forall>typ clr addr input value bailout ev.
          evm_call (Run (run_loop n jt E)) E typ clr addr input gas value bailout ev =
          evm_call (Run (run_loop n' jt E)) E typ clr addr input gas value bailout ev) \<and>
       (\<forall>clr ch value addr inc ev.
          create (Run (run_loop n jt E)) E clr ch gas value addr inc ev =
          create (Run (run_loop n' jt E)) E clr ch gas value addr inc ev))"
proof -
  obtain jt where jt: "instructionSet (chainRules E) = Ok jt" "table_ok E jt"
    and ok: "\<And>n gas typ clr addr input value bailout ev. unat gas < n \<Longrightarrow>
      evm_call (Run (run_loop n jt E)) E typ clr addr input gas value bailout ev \<noteq> NoFuel"
      "\<And>n gas clr ch value addr inc ev. unat gas < n \<Longrightarrow>
      create (Run (run_loop n jt E)) E clr ch gas value addr inc ev \<noteq> NoFuel"
    using vm_ok [OF assms] unfolding call_ok_def create_ok_def by (metis sat_simps(3))
  have le: "run_le (Run (run_loop n jt E)) (Run (run_loop (n + n') jt E))" for n n' by (rule Run_le [OF jt(2)]) simp
  have call: "evm_call (Run (run_loop n jt E)) E ty clr addr inp gas v bailout ev =
      evm_call (Run (run_loop (n + n') jt E)) E ty clr addr inp gas v bailout ev"
    if "unat gas < n" for n n' gas ty clr addr inp v bailout ev
    using evm_call_le [OF le] ok(1) [OF that] unfolding res_le_def by blast
  have new: "create (Run (run_loop n jt E)) E clr ch gas v addr inc ev =
      create (Run (run_loop (n + n') jt E)) E clr ch gas v addr inc ev"
    if "unat gas < n" for n n' gas clr ch v addr inc ev
    using create_le [OF le] ok(2) [OF that] unfolding res_le_def by blast
  have "evm_call (Run (run_loop n jt E)) E ty clr addr inp gas v bailout ev =
      evm_call (Run (run_loop n' jt E)) E ty clr addr inp gas v bailout ev"
    if "unat gas < n" "unat gas < n'" for n n' gas ty clr addr inp v bailout ev
    using call [OF that(1), of _ _ _ _ _ _ _ n'] call [OF that(2), of _ _ _ _ _ _ _ n] by (simp add: add.commute)
  moreover have "create (Run (run_loop n jt E)) E clr ch gas v addr inc ev =
      create (Run (run_loop n' jt E)) E clr ch gas v addr inc ev"
    if "unat gas < n" "unat gas < n'" for n n' gas clr ch v addr inc ev
    using new [OF that(1), of _ _ _ _ _ _ n'] new [OF that(2), of _ _ _ _ _ _ n] by (simp add: add.commute)
  ultimately show ?thesis using jt(1) by blast
qed

theorem fuel_is_irrelevant_witness:
  "\<exists>jt. instructionSet demo_rules = Ok jt \<and>
     create (Run (run_loop 60000 jt demo_env)) demo_env (AccountRef 1) ([0x5b, 0], 0) 53000 0 9 True demo_evm =
     create (Run (run_loop 99999 jt demo_env)) demo_env (AccountRef 1) ([0x5b, 0], 0) 53000 0 9 True demo_evm"
proof -
  have "unat (53000 :: u64) < 60000" "unat (53000 :: u64) < 99999" by simp_all
  with fuel_is_irrelevant [OF demo_rules_ok] show ?thesis by (metis demo_chainRules)
qed

text \<open>C2. No run indexes outside the stack or the memory: a call or creation with more fuel than gas
  never panics with an index of the stack or a bound of the memory, in any of the nested frames.\<close>

theorem calls_stay_in_bounds:
  assumes "rules_ok (chainRules E)"
  shows "\<exists>jt. instructionSet (chainRules E) = Ok jt \<and>
    (\<forall>n gas p. unat gas < n \<longrightarrow> p \<in> {StackIndex, MemoryIndex} \<longrightarrow>
       (\<forall>typ clr addr input value bailout ev.
          evm_call (Run (run_loop n jt E)) E typ clr addr input gas value bailout ev \<noteq> Panic p) \<and>
       (\<forall>clr ch value addr inc ev. create (Run (run_loop n jt E)) E clr ch gas value addr inc ev \<noteq> Panic p))"
  using vm_ok [OF assms] unfolding call_ok_def create_ok_def
  by (metis sat_simps(2) insert_iff singletonD)

theorem calls_stay_in_bounds_witness:
  "\<exists>jt. instructionSet demo_rules = Ok jt \<and>
     evm_call (Run (run_loop 100 jt demo_env)) demo_env STATICCALL (AccountRef 1) 2 [7] 99 (Some 0) False demo_evm
       \<noteq> Panic StackIndex"
  using calls_stay_in_bounds [OF demo_rules_ok] by fastforce

text \<open>C4. A call or creation that returns leaves the call depth and the read-only flag of the
  interpreter as it found them, and hands back at most the gas it was given.\<close>

theorem calls_restore_frame:
  assumes "rules_ok (chainRules E)"
  shows "\<exists>jt. instructionSet (chainRules E) = Ok jt \<and>
    (\<forall>n gas ev ev' gas'. unat gas < n \<longrightarrow>
       (\<forall>typ clr addr input value bailout ret err.
          evm_call (Run (run_loop n jt E)) E typ clr addr input gas value bailout ev = Ok (ev', ret, gas', err) \<longrightarrow>
          depth ev' = depth ev \<and> readOnly ev' = readOnly ev \<and> gas' \<le> gas) \<and>
       (\<forall>clr ch value addr inc ret a err.
          create (Run (run_loop n jt E)) E clr ch gas value addr inc ev = Ok (ev', ret, a, gas', err) \<longrightarrow>
          depth ev' = depth ev \<and> readOnly ev' = readOnly ev \<and> gas' \<le> gas))"
proof -
  obtain jt where jt: "instructionSet (chainRules E) = Ok jt"
    and ok: "\<And>n gas typ clr addr input value bailout ev. unat gas < n \<Longrightarrow>
      call_ok ev gas (evm_call (Run (run_loop n jt E)) E typ clr addr input gas value bailout ev)"
      "\<And>n gas clr ch value addr inc ev. unat gas < n \<Longrightarrow>
      create_ok ev gas (create (Run (run_loop n jt E)) E clr ch gas value addr inc ev)"
    using vm_ok [OF assms] by metis
  have "call_ok ev gas (Ok (ev', ret, gas', err)) \<longleftrightarrow> depth ev' = depth ev \<and> readOnly ev' = readOnly ev \<and> gas' \<le> gas"
    "create_ok ev gas (Ok (ev', ret, a, gas', err)) \<longleftrightarrow> depth ev' = depth ev \<and> readOnly ev' = readOnly ev \<and> gas' \<le> gas"
    for ev ev' :: EVM and gas gas' ret err a
    by (simp_all add: call_ok_def create_ok_def call_post_def word_le_nat_alt)
  then show ?thesis using jt ok by metis
qed

theorem calls_restore_frame_witness:
  "\<exists>jt. instructionSet demo_rules = Ok jt \<and>
     (\<forall>ev' ret gas' err.
        evm_call (Run (run_loop 5001 jt demo_env)) demo_env STATICCALL (AccountRef 1) 2 [] 5000 (Some 0) False demo_evm =
          Ok (ev', ret, gas', err) \<longrightarrow> depth ev' = 0 \<and> \<not> readOnly ev' \<and> gas' \<le> 5000)"
proof -
  have *: "unat (5000 :: u64) < 5001" "depth demo_evm = 0" "\<not> readOnly demo_evm" by (simp_all add: demo_evm_def)
  show ?thesis using calls_restore_frame [OF demo_rules_ok] * by (metis demo_chainRules)
qed

text \<open>C5. A round of the loop keeps the invariant of a frame: at most 1024 values on the stack, a
  memory of whole words whose recorded fee is the fee of its size. A round after which the
  frame goes on has burnt gas; the round itself does not index outside the stack or the memory.\<close>

theorem step_keeps_invariant:
  assumes "rules_ok (chainRules E)" and "Len (stk m) \<le> 1024" and "mem_ok (mem m)" and "unat (Gas (ctr m)) < n"
  shows "\<exists>jt. instructionSet (chainRules E) = Ok jt \<and>
    (case step (calls (Run (run_loop n jt E)) E) jt E m of
       Ok (Continue m' res) \<Rightarrow> Len (stk m') \<le> 1024 \<and> mem_ok (mem m') \<and> Gas (ctr m') < Gas (ctr m)
     | Ok (Break m' res e) \<Rightarrow> Gas (ctr m') \<le> Gas (ctr m)
     | Ok (Fail m' e) \<Rightarrow> Gas (ctr m') \<le> Gas (ctr m)
     | Panic p \<Rightarrow> p \<noteq> StackIndex \<and> p \<noteq> MemoryIndex
     | NoFuel \<Rightarrow> False)"
proof -
  obtain jt where jt: "instructionSet (chainRules E) = Ok jt" "table_ok E jt"
    using instructionSet_ok [OF assms(1)] by blast
  have "sat (step_post m) (step (calls (Run (run_loop n jt E)) E) jt E m)"
    using assms by (intro step_ok [OF jt(2) _ ctx_ok_calls [OF interpreter_ok [OF jt(2)]]]) (simp_all add: machine_ok_def)
  then show ?thesis using jt(1)
    by (auto simp: sat_def step_post_def left_def machine_ok_def word_le_nat_alt word_less_nat_alt
        split: res.splits outcome.splits)
qed

definition demo_machine :: machine where
  "demo_machine =
     frame ((fst (NewContract (AccountRef 1) (AccountRef 2) (Some 0) 5000 False Map.empty))\<lparr>Code := [0x60, 1, 0x52]\<rparr>) [] demo_evm"

theorem step_keeps_invariant_witness:
  "Len (stk demo_machine) \<le> 1024 \<and> mem_ok (mem demo_machine) \<and> unat (Gas (ctr demo_machine)) < 5001 \<and>
   (\<exists>jt. instructionSet demo_rules = Ok jt \<and>
     (case step (calls (Run (run_loop 5001 jt demo_env)) demo_env) jt demo_env demo_machine of
       Ok (Continue m' res) \<Rightarrow> Len (stk m') \<le> 1024 \<and> mem_ok (mem m') \<and> Gas (ctr m') < Gas (ctr demo_machine)
     | Ok (Break m' res e) \<Rightarrow> Gas (ctr m') \<le> Gas (ctr demo_machine)
     | Ok (Fail m' e) \<Rightarrow> Gas (ctr m') \<le> Gas (ctr demo_machine)
     | Panic p \<Rightarrow> p \<noteq> StackIndex \<and> p \<noteq> MemoryIndex
     | NoFuel \<Rightarrow> False))"
proof -
  have *: "Len (stk demo_machine) \<le> 1024" "mem_ok (mem demo_machine)"
    using frame_ok by (simp_all add: demo_machine_def machine_ok_def)
  moreover have "unat (Gas (ctr demo_machine)) < 5001"
    by (simp add: demo_machine_def frame_def NewContract_def Let_def)
  ultimately show ?thesis using step_keeps_invariant [OF demo_rules_ok, of demo_machine 5001] by simp
qed

text \<open>C28. Every set of chain rules has an instruction set: no constructor of a table panics, every
  opcode has an entry, and the entry's stack limit is the one that leaves room for what the
  instruction pushes.\<close>

theorem instruction_sets_initialise:
  "\<exists>jt. instructionSet rules = Ok jt \<and>
     (\<forall>c. \<exists>op. jt c = Some op \<and> maxStack_of op = 1024 + numPop op - numPush op)"
  using instructionSet_returns [of rules] by (simp add: maxStack_def StackLimit_def)

end
