(* ===== verification/EvmProps.thy ===== *)
theory EvmProps
  imports VmProps
begin

text \<open>
  The properties of the parts of the virtual machine: the analysis of jump destinations, memory
  and its price, the gas handed to calls, the stack instructions and the extra EIPs of the
  interpreter's configuration.
\<close>

section \<open>Jump destinations\<close>

text \<open>The bitmap of a contract's code is computed without an index out of range, and it marks
  exactly the data of the push instructions, as a scan of the code from its first instruction
  finds them.\<close>

theorem codeBitmap_marks_push_data:
  "\<exists>bits. codeBitmap c = Ok bits \<and> length c + 32 \<le> 64 * length bits \<and> (\<forall>i. bitset bits i \<longleftrightarrow> push_data c 0 i)"
  by (rule codeBitmap_spec)

lemma validJumpdest_spec:
  assumes "jumpdests_ok c jd" and "\<not> skipAnalysis c" and "length (Code c) < 2 ^ 63"
  shows "\<exists>u c' jd'. validJumpdest dest c jd =
    Ok (unat dest < length (Code c) \<and> Code c ! unat dest = JUMPDEST \<and> unat dest \<in> set (instr_starts (Code c) 0), u, c', jd')
    \<and> jumpdests_ok c' jd' \<and> Code c' = Code c \<and> Gas c' = Gas c"
proof (cases "IsUint64 dest \<and> unat dest < length (Code c) \<and> Code c ! unat dest = JUMPDEST")
  case True
  then have "unat (Uint64 dest) = unat dest" by (simp add: unat_Uint64)
  with True isCode_spec [OF assms(1), of "Uint64 dest"] assms(2) show ?thesis
    by (auto simp: validJumpdest_def Uint64WithOverflow_def)
next
  case False
  then have "\<not> (unat dest < length (Code c) \<and> Code c ! unat dest = JUMPDEST)" using assms(3) by (auto simp: IsUint64_def)
  moreover have "IsUint64 dest \<Longrightarrow> unat (Uint64 dest) = unat dest" by (rule unat_Uint64)
  ultimately show ?thesis using assms(1) by (auto simp: validJumpdest_def Uint64WithOverflow_def)
qed

text \<open>C31. With analyses in the cache that belong to the code, a destination is accepted exactly when
  it is inside the code, holds a JUMPDEST and is the start of an instruction; nothing panics.\<close>

theorem validJumpdest_correct:
  assumes "jumpdests_ok c jd" and "\<not> skipAnalysis c" and "length (Code c) < 2 ^ 63"
  shows "\<exists>u c' jd'. validJumpdest dest c jd =
    Ok (unat dest < length (Code c) \<and> Code c ! unat dest = JUMPDEST \<and> unat dest \<in> set (instr_starts (Code c) 0), u, c', jd')
    \<and> jumpdests_ok c' jd' \<and> Code c' = Code c \<and> Gas c' = Gas c"
  using assms by (rule validJumpdest_spec)

text \<open>A program that jumps over one byte of data.\<close>

definition demo_code :: bytes where
  "demo_code = [0x60, 4, 0x56, 0xfe, 0x5b, 0]"

definition demo_contract :: Contract where
  "demo_contract = (fst (NewContract (AccountRef 1) (AccountRef 2) (Some 0) 5000 False Map.empty))\<lparr>Code := demo_code\<rparr>"

lemma demo_contract_simps [simp]:
  "Code demo_contract = demo_code" "skipAnalysis demo_contract = False" "jumpdests_ok demo_contract Map.empty"
  by (simp_all add: demo_contract_def NewContract_def jumpdests_ok_def)

lemma demo_code_starts: "instr_starts demo_code 0 = [0, 2, 3, 4, 5]"
  by (simp add: demo_code_def instr_starts.simps push_len_def PUSH_def word_le_nat_alt unat_sub_if')

theorem validJumpdest_correct_witness:
  "\<exists>u c' jd'. validJumpdest 4 demo_contract Map.empty = Ok (True, u, c', jd')"
  using validJumpdest_correct [of demo_contract Map.empty 4] by (simp add: demo_code_starts) (auto simp: demo_code_def JUMPDEST_def)

text \<open>After a jump that does not fail, the next opcode the loop fetches is a JUMPDEST that starts
  an instruction of the frame's code.\<close>

theorem jumps_land_on_jumpdest:
  assumes "jumpdests_ok (ctr m) (jds (evm m))" and "\<not> skipAnalysis (ctr m)" and "length (Code (ctr m)) < 2 ^ 63"
    and "opJump C E m = Ok (m', res, None)"
  shows "GetOp (pc m' + 1) (ctr m') = JUMPDEST \<and> unat (pc m' + 1) \<in> set (instr_starts (Code (ctr m)) 0) \<and>
    Code (ctr m') = Code (ctr m)"
proof -
  obtain pos st where pos: "Pop (stk m) = Ok (pos, st)" using assms(4) by (auto simp: opJump_def pop_def bnd_eq_Ok)
  from validJumpdest_spec [OF assms(1-3), of pos] obtain u c' jd' where
    v: "validJumpdest pos (ctr m) (jds (evm m)) =
      Ok (unat pos < length (Code (ctr m)) \<and> Code (ctr m) ! unat pos = JUMPDEST \<and>
          unat pos \<in> set (instr_starts (Code (ctr m)) 0), u, c', jd')" and c': "Code c' = Code (ctr m)" by blast
  then have ok: "unat pos < length (Code (ctr m))" "Code (ctr m) ! unat pos = JUMPDEST"
      "unat pos \<in> set (instr_starts (Code (ctr m)) 0)" and m': "pc m' = Uint64 pos - 1" "ctr m' = c'"
    using assms(4) pos by (auto simp: opJump_def pop_def jump_to_def opret_def operr_def Let_def split: if_splits)
  have "unat (Uint64 pos) = unat pos" using ok(1) assms(3) by (intro unat_Uint64) (simp add: IsUint64_def)
  with ok m' c' show ?thesis by (simp add: GetOp_def)
qed

definition demo_frame :: "u256 list \<Rightarrow> machine" where
  "demo_frame xs = (frame demo_contract [] demo_evm)\<lparr>stk := mkStack xs\<rparr>"

lemma demo_frame_simps [simp]:
  "ctr (demo_frame xs) = demo_contract\<lparr>Input := []\<rparr>" "stk (demo_frame xs) = mkStack xs" "evm (demo_frame xs) = demo_evm"
  "jumpdests_ok (demo_contract\<lparr>Input := []\<rparr>) Map.empty" "jds demo_evm = Map.empty"
  by (simp_all add: demo_frame_def frame_def demo_evm_def jumpdests_ok_def demo_contract_def NewContract_def)

theorem jumps_land_on_jumpdest_witness:
  "\<exists>m'. opJump idle demo_env (demo_frame [4]) = Ok (m', [], None) \<and> GetOp (pc m' + 1) (ctr m') = JUMPDEST"
proof -
  have "\<exists>m'. opJump idle demo_env (demo_frame [4]) = Ok (m', [], None)"
    using validJumpdest_spec [of "demo_contract\<lparr>Input := []\<rparr>" Map.empty 4]
    by (simp add: demo_code_starts opJump_def pop_def jump_to_def)
      (auto simp: demo_code_def JUMPDEST_def opret_def)
  then obtain m' where run: "opJump idle demo_env (demo_frame [4]) = Ok (m', [], None)" ..
  with jumps_land_on_jumpdest [OF _ _ _ run] show ?thesis by (simp add: demo_code_def)
qed

section \<open>Memory\<close>

text \<open>The price of growing the memory: on a memory whose recorded fee is right, \<open>memoryGasCost\<close>
  that does not fail asks for the difference between the quadratic fee of the new number of
  words and the fee already paid, records the new fee and leaves the contents alone; and it
  fails exactly for sizes above 0x1FFFFFFFE0.\<close>

theorem memory_price:
  assumes "mem_ok m"
  shows "case memoryGasCost m n of (m', fee, err) \<Rightarrow>
    (err = None \<longleftrightarrow> unat n \<le> 0x1FFFFFFFE0) \<and>
    (err = None \<longrightarrow> store m' = store m \<and>
       unat fee = mem_fee (words_for m n) - mem_fee (length (store m) div 32) \<and>
       unat (lastGasCost m') = mem_fee (words_for m n))"
proof -
  obtain m' fee err where r: "memoryGasCost m n = (m', fee, err)" by (metis prod_cases3)
  have "err = None \<longleftrightarrow> unat n \<le> 0x1FFFFFFFE0"
    using r by (auto simp: memoryGasCost_def Let_def word_less_nat_alt split: if_splits)
  with r memoryGasCost_spec [OF assms, of n m' fee] show ?thesis by auto
qed

theorem memory_price_witness:
  "case memoryGasCost NewMemory 1024 of (m', fee, err) \<Rightarrow> err = None \<and> unat fee = 98"
  using memory_price [OF NewMemory_ok, of 1024]
  by (auto simp: words_for_def mem_fee_def NewMemory_def split: prod.splits)

text \<open>A word that MSTORE writes is the word MLOAD reads at the same offset, in any memory that
  covers it; the other bytes of the memory and its size stay the same.\<close>

theorem mstore_mload:
  assumes "mem_sized (mem m)" and "unat off + 32 \<le> length (store (mem m))" and "stk m = mkStack (off # v # xs)"
  shows "\<exists>m1 m2. opMstore C E m = Ok (m1, [], None) \<and> stk m1 = mkStack xs \<and>
    length (store (mem m1)) = length (store (mem m)) \<and>
    (\<forall>i < length (store (mem m)). i < unat off \<or> unat off + 32 \<le> i \<longrightarrow> store (mem m1) ! i = store (mem m) ! i) \<and>
    opMload C E (push off m1) = Ok (m2, [], None) \<and> stk m2 = mkStack (v # xs)"
proof -
  have off: "unat (Uint64 off) = unat off"
    using assms(2) mem_sized_less [OF assms(1)] by (intro unat_Uint64) (simp add: IsUint64_def)
  let ?m1 = "m\<lparr>stk := mkStack xs, mem := (mem m)\<lparr>store := copy_at (store (mem m)) (unat off) 32 (be_bytes 32 (unat v))\<rparr>\<rparr>"
  have cov: "covers (mem m) (unat (Uint64 off)) 32" using assms(2) off by (simp add: covers_def)
  then have st: "opMstore C E m = Ok (?m1, [], None)"
    using assms(1,3) off by (simp add: opMstore_def pop_def Set32_Ok opret_def)
  have sized: "mem_sized (mem ?m1)" using assms(1,2) by (simp add: mem_sized_def)
  have "GetPtr (go_int (Uint64 off)) 32 (mem ?m1) = Ok (be_bytes 32 (unat v))"
    using GetPtr_Ok [OF sized, of "Uint64 off" 32] off assms(2) by (simp add: go_int_32 covers_def copy_at_read)
  then have "opMload C E (push off ?m1) = Ok (settop v (push off ?m1), [], None)"
    by (simp add: opMload_def peek_def push_def opret_def SetBytes_be_bytes)
  moreover have "stk (settop v (push off ?m1)) = mkStack (v # xs)" by (simp add: settop_def push_def)
  moreover have "store (mem ?m1) ! i = store (mem m) ! i" if "i < length (store (mem m))" "i < unat off \<or> unat off + 32 \<le> i" for i
    using copy_at_nth_outside [OF assms(2) that(2,1)] by simp
  ultimately show ?thesis using st assms(2) by (intro exI conjI) (assumption | simp)+
qed

theorem mstore_mload_witness:
  "\<exists>m1 m2. opMstore idle demo_env ((demo_frame [32, 7])\<lparr>mem := \<lparr>store = replicate 64 1, lastGasCost = 6\<rparr>\<rparr>) = Ok (m1, [], None) \<and>
     opMload idle demo_env (push 32 m1) = Ok (m2, [], None) \<and> stk m2 = mkStack [7]"
  using mstore_mload [of "(demo_frame [32, 7])\<lparr>mem := \<lparr>store = replicate 64 1, lastGasCost = 6\<rparr>\<rparr>" 32 7 "[]" idle demo_env]
  by (auto simp: mem_sized_def max_mem_def)

text \<open>The memory an instruction asks for: the end of the range when it fits in 64 bits, nothing
  for an empty range, and an overflow otherwise.\<close>

theorem memory_size_exact:
  "calcMemSize64 off l = (v, False) \<longleftrightarrow>
     (if l = 0 then v = 0 else unat off + unat l < 2 ^ 64 \<and> unat v = unat off + unat l)"
  by (rule calcMemSize64_spec)

section \<open>Gas handed to calls\<close>

text \<open>Under EIP-150 a call is handed what it asked for, capped at all but one 64th of the gas left
  after the base price, and the request never fails.\<close>

theorem call_gas_63_64:
  assumes "unat base \<le> unat avail"
  shows "\<exists>g. callGas True avail base cost = (g, None) \<and>
    unat g = min (unat cost) ((unat avail - unat base) - (unat avail - unat base) div 64)"
proof -
  obtain g err where r: "callGas True avail base cost = (g, err)" by fastforce
  from callGas_eip150 [OF r] assms show ?thesis using r by (simp add: unat_sub word_le_nat_alt)
qed

theorem call_gas_63_64_witness: "\<exists>g. callGas True 6500 100 100000 = (g, None) \<and> unat g = 6300"
  using call_gas_63_64 [of 100 6500 100000] by simp

section \<open>Stack instructions\<close>

lemma SetBytes_byte: "SetBytes [b] = SetUint64 (ucast b)"
  by (rule bit_word_eqI)
    (auto simp: SetBytes_def be_val_def SetUint64_def bit_simps dest: bit_imp_le_length)

text \<open>PUSH1 has an instruction of its own; it does what the general push instruction would do for
  one byte.\<close>

theorem opPush1_is_makePush:
  assumes "length (Code (ctr m)) < 2 ^ 63" and "unat (pc m) + 1 < 2 ^ 63"
  shows "opPush1 C E m = makePush 1 1 C E m"
proof -
  define p where "p = unat (pc m) + 1"
  define cd where "cd = Code (ctr m)"
  have pc: "unat (pc m + 1) = p" using assms(2) unfolding p_def by (subst unat_add_no_wrap) auto
  then have go: "go_int (pc m + 1) = int p" using assms(2) by (metis go_int_small p_def)
  show ?thesis
  proof (cases "p < length cd")
    case True
    then have "slice cd p (Suc p) = Some [cd ! p]"
      by (simp add: slice_def take_Suc_conv_app_nth hd_drop_conv_nth take_Suc)
    moreover have "int (length cd) \<le> int p + 1 \<longleftrightarrow> length cd = Suc p" "nat (int p + 1) = Suc p" "nat (1 + int p) = Suc p"
      using True by auto
    ultimately show ?thesis using True
      by (simp add: opPush1_def makePush_def pc go Let_def cd_def [symmetric] opret_def push_def
          RightPadBytes_def SetBytes_byte)
  next
    case False
    then show ?thesis
      by (simp add: opPush1_def makePush_def pc go Let_def cd_def [symmetric] slice_def opret_def push_def
          RightPadBytes_def SetBytes_def be_val_def)
  qed
qed

text \<open>Swapping twice restores the machine, and DUP followed by POP leaves it alone, for every
  depth the stack has.\<close>

theorem swap_swap_dup_pop:
  assumes "n < Len (stk m)"
  shows "(\<exists>m1. makeSwap n C E m = Ok (m1, [], None) \<and> makeSwap n C E m1 = Ok (m, [], None)) \<and>
    (\<exists>m2. makeDup (n + 1) C E m = Ok (m2, [], None) \<and> opPop C E m2 = Ok (m, [], None))"
proof -
  obtain s where s: "Swap (n + 1) (stk m) = Ok s"
    using evm_stack.swap_total [of "n + 1" "stk m"] assms by auto
  note s' = evm_stack.swap_swap [OF s]
  obtain t v where d: "Dup (n + 1) (stk m) = Ok t" "Pop t = Ok (v, stk m)"
    using evm_stack.pop_dup [of "n + 1" "stk m"] assms by auto
  show ?thesis by (simp add: makeSwap_def makeDup_def opPop_def pop_def opret_def
      s [simplified] s' [simplified] d [simplified])
qed

theorem swap_swap_dup_pop_witness:
  "(\<exists>m1. makeSwap 2 idle demo_env (demo_frame [5, 6, 7]) = Ok (m1, [], None) \<and>
      makeSwap 2 idle demo_env m1 = Ok (demo_frame [5, 6, 7], [], None)) \<and>
   (\<exists>m2. makeDup 3 idle demo_env (demo_frame [5, 6, 7]) = Ok (m2, [], None) \<and>
      opPop idle demo_env m2 = Ok (demo_frame [5, 6, 7], [], None))"
  using swap_swap_dup_pop [of 2 "demo_frame [5, 6, 7]" idle demo_env] by simp

theorem opPush1_is_makePush_witness:
  "opPush1 idle demo_env (demo_frame [3]) = makePush 1 1 idle demo_env (demo_frame [3])"
  using opPush1_is_makePush [of "demo_frame [3]" idle demo_env] by (simp add: demo_frame_def frame_def demo_code_def)

section \<open>Instructions with special cases\<close>

text \<open>The fast paths of EXP agree with the power: given the exponentiation modulo 2^256 of the
  uint256 package, EXP replaces the two operands by the power, also where it takes a shortcut.\<close>

theorem exp_fast_paths:
  assumes "\<And>b e. u_Exp (env_u256 E) b e = b ^ unat e" and "stk m = mkStack (b # e # xs)"
  shows "opExp C E m = Ok (m\<lparr>stk := mkStack (b ^ unat e # xs)\<rparr>, [], None)"
proof -
  have small: "e = 0 \<or> e = 1" if "e < 2" for e :: u256
    using that by (auto simp: word_less_nat_alt less_2_cases_iff word_unat_eq_iff)
  have two: "b = 2" if "\<not> b < 2" "b < 3" for b :: u256
    using that by (simp add: word_less_nat_alt word_unat_eq_iff)
  have shift: "(if e < 256 then push_bit (unat (Uint64 e)) 1 else 0) = (2 :: u256) ^ unat e" for e :: u256
  proof (cases "e < 256")
    case True
    then have "unat (Uint64 e) = unat e" by (intro unat_Uint64) (simp add: IsUint64_def word_less_nat_alt)
    with True show ?thesis by (simp add: push_bit_eq_mult)
  next
    case False
    then have "256 \<le> unat e" by (simp add: word_less_nat_alt)
    then have "(2 :: u256) ^ unat e = 0" by (simp add: exp_eq_zero_iff)
    with False show ?thesis by simp
  qed
  have "(if e = 0 then 1 else if b = 0 then 0 else if e < 2 then b else if b < 2 then 1
     else if b < 3 then if e < 256 then push_bit (unat (Uint64 e)) 1 else 0
     else u_Exp (env_u256 E) b e) = b ^ unat e"
    using small [of e] small [of b] two [of b] shift [of e] assms(1)
    by (auto simp: unat_eq_zero zero_power unat_gt_0)
  then show ?thesis using assms(2) by (simp add: opExp_def binary_def pop_def peek_def settop_def opret_def)
qed

theorem exp_fast_paths_witness:
  "opExp idle demo_env (demo_frame [2, 10]) = Ok (demo_frame [1024], [], None)"
  using exp_fast_paths [of demo_env "demo_frame [2, 10]" 2 10 "[]" idle]
  by (simp add: demo_env_def) (simp add: demo_frame_def)

text \<open>BLOCKHASH answers for the 256 blocks before the current one and pushes zero for any other
  number.\<close>

theorem blockhash_window:
  assumes "stk m = mkStack (num # xs)"
  shows "opBlockhash C E m = Ok (m\<lparr>stk := mkStack
    ((if unat num < unat (BlockNumber (blockContext E)) \<and> unat (BlockNumber (blockContext E)) \<le> unat num + 256
      then GetHash (blockContext E) (Uint64 num) else 0) # xs)\<rparr>, [], None)"
proof (cases "IsUint64 num")
  case True
  then have "unat (Uint64 num) = unat num" by (rule unat_Uint64)
  with True assms show ?thesis
    by (auto simp: opBlockhash_def peek_def settop_def opret_def Uint64WithOverflow_def Let_def word_less_nat_alt
        word_le_nat_alt unat_sub)
next
  case False
  then have "\<not> unat num < unat (BlockNumber (blockContext E))"
    using unat_u64_bound [of "BlockNumber (blockContext E)"] by (simp add: IsUint64_def)
  with False assms show ?thesis
    by (simp add: opBlockhash_def peek_def settop_def opret_def Uint64WithOverflow_def)
qed

theorem blockhash_window_witness:
  "opBlockhash idle demo_env (demo_frame [1]) = Ok (demo_frame [0], [], None)"
  using blockhash_window [of "demo_frame [1]" 1 "[]" idle demo_env]
  by (simp add: demo_env_def) (simp add: demo_frame_def)

text \<open>RETURNDATACOPY, on a memory that covers the destination, fails exactly when the range is not
  inside the return data of the last call.\<close>

theorem returndatacopy_bounds:
  assumes "stk m = mkStack (off # d # l # xs)" and "mem_sized (mem m)"
    and "covers (mem m) (unat (Uint64 off)) (unat (Uint64 l))" and "length (returnData (evm m)) < 2 ^ 63"
  shows "\<exists>m' err. opReturnDataCopy C E m = Ok (m', [], err) \<and>
    (err = None \<longleftrightarrow> unat d + unat l \<le> length (returnData (evm m))) \<and>
    (err = None \<or> err = Some ErrReturnDataOutOfBounds)"
proof (cases "unat d + unat l \<le> length (returnData (evm m))")
  case True
  then have small: "unat d + unat l < 2 ^ 64" using assms(4) by simp
  then have "unat (d + l) = unat d + unat l" by (subst unat_add_no_wrap) auto
  moreover have "IsUint64 d" "IsUint64 (d + l)" "unat (Uint64 d) = unat d"
    using small calculation by (auto simp: IsUint64_def intro!: unat_Uint64)
  moreover from this have "unat (Uint64 (d + l)) = unat d + unat l" using calculation by (simp add: unat_Uint64)
  ultimately show ?thesis using True assms small
    by (auto simp: opReturnDataCopy_def pop_def Uint64WithOverflow_def Let_def slice_def mem_put_def mem_Set_Ok
        opret_def operr_def)
next
  case False
  then have "IsUint64 (d + l) \<Longrightarrow> unat d + unat l < 2 ^ 256 \<Longrightarrow> length (returnData (evm m)) < unat (Uint64 (d + l))"
    by (simp add: unat_Uint64 unat_add_no_wrap)
  with False assms show ?thesis
    by (auto simp: opReturnDataCopy_def pop_def Uint64WithOverflow_def Let_def operr_def)
qed

theorem returndatacopy_bounds_witness:
  "\<exists>m' err. opReturnDataCopy idle demo_env ((demo_frame [0, 1, 2])\<lparr>evm := demo_evm\<lparr>returnData := [8, 9]\<rparr>,
       mem := \<lparr>store = replicate 32 0, lastGasCost = 3\<rparr>\<rparr>) = Ok (m', [], err) \<and> err = Some ErrReturnDataOutOfBounds"
  using returndatacopy_bounds [of "(demo_frame [0, 1, 2])\<lparr>evm := demo_evm\<lparr>returnData := [8, 9]\<rparr>,
       mem := \<lparr>store = replicate 32 0, lastGasCost = 3\<rparr>\<rparr>" 0 1 2 "[]" idle demo_env]
  by (auto simp: mem_sized_def max_mem_def covers_def Uint64_def)

section \<open>Transfers\<close>

lemma GetBalance_live: "live a s = Some so \<Longrightarrow> GetBalance L a s = (s, Balance (data so))"
  by (auto simp: GetBalance_def getStateObject_def live_def Let_def split: option.splits)

lemma live_log [simp]: "live a (log_change e s) = live a s" "live a (touch s so) = live a s"
  by (simp_all add: live_def touch_def Let_def)

lemma live_put: "live b (put_object a so s) = (if a = b then if deleted so then None else Some so else live b s)"
  by (simp add: live_def put_object_def)

lemma SubBalance_live:
  assumes "live a s = Some so"
  shows "map_option (Balance \<circ> data) (live c (SubBalance L a v s)) =
    (if c = a then Some (Balance (data so) - v) else map_option (Balance \<circ> data) (live c s))"
proof -
  have so: "stateObjects s a = Some so" "\<not> deleted so" using assms by (auto simp: live_def split: option.splits if_splits)
  then have "GetOrNewStateObject L a s = s" by (simp add: GetOrNewStateObject_def getStateObject_def Let_def)
  with so assms show ?thesis
    by (simp add: SubBalance_def with_object_def so_SubBalance_def so_SetBalance_def so_setBalance_def live_put)
qed

lemma AddBalance_live:
  assumes "live a s = Some so"
  shows "map_option (Balance \<circ> data) (live c (AddBalance L a v s)) =
    (if c = a then Some (Balance (data so) + v) else map_option (Balance \<circ> data) (live c s))"
proof -
  have so: "stateObjects s a = Some so" "\<not> deleted so" using assms by (auto simp: live_def split: option.splits if_splits)
  then have "GetOrNewStateObject L a s = s" by (simp add: GetOrNewStateObject_def getStateObject_def Let_def)
  with so assms show ?thesis
    by (simp add: AddBalance_def with_object_def so_AddBalance_def so_SetBalance_def so_setBalance_def live_put)
qed

text \<open>C32. A transfer between two accounts the state has loaded moves the amount: the sender has it
  less, the recipient has it more, and every other loaded account has what it had; a transfer
  to oneself changes no balance.\<close>

theorem transfer_moves_balance:
  assumes "live a s = Some sa" and "live b s = Some sb" and "live c s = Some sc"
  shows "snd (GetBalance L c (Transfer L a b v False s)) =
    Balance (data sc) - (if c = a then v else 0) + (if c = b then v else 0)"
proof -
  let ?s = "SubBalance L a v s"
  obtain tb where tb: "live b ?s = Some tb" "Balance (data tb) = Balance (data sb) - (if b = a then v else 0)"
    using SubBalance_live [OF assms(1), of b L v] assms by (cases "live b ?s") (auto split: if_splits)
  obtain tc where tc: "live c ?s = Some tc" "Balance (data tc) = Balance (data sc) - (if c = a then v else 0)"
    using SubBalance_live [OF assms(1), of c L v] assms by (cases "live c ?s") (auto split: if_splits)
  obtain uc where uc: "live c (AddBalance L b v ?s) = Some uc"
      "Balance (data uc) = (if c = b then Balance (data tb) + v else Balance (data tc))"
    using AddBalance_live [OF tb(1), of c L v] tc(1) by (cases "live c (AddBalance L b v ?s)") (auto split: if_splits)
  show ?thesis using tb tc uc by (auto simp: Transfer_def GetBalance_live)
qed

definition demo_accounts :: IntraBlockState where
  "demo_accounts = put_object 1 (newObject demo_lib 1 demo_account demo_account)
     (put_object 2 (newObject demo_lib 2 demo_account demo_account) (NewState demo_reader))"

theorem transfer_moves_balance_witness:
  "snd (GetBalance demo_lib 1 (Transfer demo_lib 1 2 3 False demo_accounts)) = 2"
proof -
  have "live 1 demo_accounts = Some (newObject demo_lib 1 demo_account demo_account)"
    "live 2 demo_accounts = Some (newObject demo_lib 2 demo_account demo_account)"
    by (simp_all add: demo_accounts_def live_put newObject_def Let_def)
  from transfer_moves_balance [OF this this(1), of demo_lib 3] show ?thesis
    by (simp add: newObject_def demo_account_def Let_def)
qed

section \<open>Extra EIPs\<close>

text \<open>Enabling a known EIP succeeds on every complete table and leaves a complete one.\<close>

definition complete :: "JumpTable \<Rightarrow> bool" where
  "complete jt \<longleftrightarrow> (\<forall>c. valid_entry (jt c))"

definition enabling :: "(JumpTable \<Rightarrow> JumpTable res) \<Rightarrow> bool" where
  "enabling f \<longleftrightarrow> (\<forall>jt. complete jt \<longrightarrow> (\<exists>jt'. f jt = Ok jt' \<and> complete jt'))"

lemma valid_fill [simp]: "valid_entry (map_option fill e) = valid_entry e"
  by (simp add: valid_entry_def fill_def split: option.splits)

lemma validate_complete: "when_ok complete (validateAndFillMaxStack jt)"
proof -
  have "valid_entry (jt c)" if "list_all (\<lambda>i. valid_entry (jt (of_nat i))) [0 ..< 256]" for c :: OpCode
    using that unat_word_bound [of c] by (auto simp: list_all_iff dest!: bspec [of _ _ "unat c"])
  then show ?thesis by (simp add: validateAndFillMaxStack_def complete_def)
qed

lemma enabling_upd:
  assumes "\<And>op. valid_entry (Some op) \<Longrightarrow> valid_entry (Some (f op))"
  shows "enabling (upd_op c f)"
  unfolding enabling_def
proof (intro allI impI)
  fix jt
  assume jt: "complete jt"
  then have v: "valid_entry (jt c)" by (simp add: complete_def)
  then obtain op where op: "jt c = Some op" by (cases "jt c") (simp_all add: valid_entry_def)
  have "valid_entry (Some op)" using v by (simp add: op)
  then have "complete (jt(c := Some (f op)))" using jt assms by (simp add: complete_def)
  with op show "\<exists>jt'. upd_op c f jt = Ok jt' \<and> complete jt'" by (simp add: upd_op_def)
qed

lemma enabling_validate: "enabling validateAndFillMaxStack"
  by (simp add: enabling_def complete_def validateAndFillMaxStack_def list_all_iff)

lemma enabling_Cons: "enabling f \<Longrightarrow> enabling (updates fs) \<Longrightarrow> enabling (updates (f # fs))"
  unfolding enabling_def by (metis bnd_simps(1) updates.simps(2))

lemma enabling_rules:
  "enabling (updates [])"
  "enabling (upd_op c (set_const g))" "enabling (upd_op c (set_dyn dg))"
  "valid_entry (Some op) \<Longrightarrow> enabling (set_op c op)"
proof -
  show "enabling (updates [])" by (simp add: enabling_def)
  show "enabling (upd_op c (set_const g))" "enabling (upd_op c (set_dyn dg))"
    by (rule enabling_upd; simp add: valid_entry_def set_const_def set_dyn_def)+
  show "valid_entry (Some op) \<Longrightarrow> enabling (set_op c op)" by (simp add: enabling_def complete_def set_op_def)
qed

lemma activators_enabling: "list_all (\<lambda>x. enabling (snd x)) activators"
  unfolding activators_def enable_defs
  by (simp only: list.pred_inject snd_conv) (intro conjI TrueI enabling_Cons enabling_rules; simp add: valid_entry_def simple_def)

lemma EnableEIP_valid:
  assumes "ValidEip e" and "complete jt"
  shows "\<exists>jt'. EnableEIP e jt = Ok (jt', None) \<and> complete jt'"
proof -
  obtain f where f: "map_of activators e = Some f" using assms(1) by (auto simp: ValidEip_def)
  then have "enabling f" using activators_enabling map_of_SomeD [OF f] by (auto simp: list_all_iff)
  then obtain jt1 where 1: "f jt = Ok jt1" "complete jt1" using assms(2) by (auto simp: enabling_def)
  then obtain jt2 where "validateAndFillMaxStack jt1 = Ok jt2" "complete jt2"
    using enabling_validate by (auto simp: enabling_def)
  with f 1 show ?thesis by (simp add: EnableEIP_def)
qed

lemma extra_eips_valid:
  assumes "complete jt" and "\<forall>i \<in> set is. ValidEip (arr ! i)"
  shows "\<exists>jt'. complete jt' \<and> extra_eips (is @ js) arr l jt = extra_eips js arr l jt'"
  using assms
proof (induction "is" arbitrary: jt)
  case (Cons i js')
  then obtain jt1 where "EnableEIP (arr ! i) jt = Ok (jt1, None)" "complete jt1" using EnableEIP_valid [of "arr ! i" jt] by auto
  with Cons.IH [of jt1] Cons.prems show ?case by simp
qed auto

lemma validate_last: "when_ok complete (updates [validateAndFillMaxStack] jt)"
  using validate_complete [of jt] by simp

lemma updates_complete:
  "(\<And>jt. when_ok complete (updates fs jt)) \<Longrightarrow> when_ok complete (updates (f # fs) jt)"
  "(\<And>jt. when_ok complete (updates fs jt)) \<Longrightarrow> when_ok complete (bnd r (updates fs))"
  by (simp_all add: when_ok_all)

lemma sets_complete:
  "when_ok complete newFrontierInstructionSet" "when_ok complete newHomesteadInstructionSet"
  "when_ok complete newTangerineWhistleInstructionSet" "when_ok complete newSpuriousDragonInstructionSet"
  "when_ok complete newByzantiumInstructionSet" "when_ok complete newConstantinopleInstructionSet"
  "when_ok complete newIstanbulInstructionSet" "when_ok complete newBerlinInstructionSet"
  "when_ok complete newLondonInstructionSet" "when_ok complete newShanghaiInstructionSet"
  "when_ok complete newCancunInstructionSet" "when_ok complete newPragueInstructionSet"
  unfolding newPragueInstructionSet_def newCancunInstructionSet_def newShanghaiInstructionSet_def
    newLondonInstructionSet_def newBerlinInstructionSet_def newIstanbulInstructionSet_def newConstantinopleInstructionSet_def
    newByzantiumInstructionSet_def newSpuriousDragonInstructionSet_def newTangerineWhistleInstructionSet_def
    newHomesteadInstructionSet_def newFrontierInstructionSet_def
  by (rule validate_complete validate_last updates_complete)+

lemma instructionSet_complete: "\<exists>jt. instructionSet rules = Ok jt \<and> complete jt"
proof -
  obtain jt where jt: "instructionSet rules = Ok jt" using instructionSet_returns by blast
  have "when_ok complete (instructionSet rules)" by (simp add: instructionSet_def sets_complete)
  then have "complete jt" using jt by (rule when_okD)
  with jt show ?thesis by blast
qed

text \<open>C33. The constructor of the interpreter panics, for all rules, when the list of extra EIPs of its
  configuration ends with two unknown ones and the others are known: removing the first
  unknown one shortens the slice, and the loop still visits the last index of the old length.\<close>

theorem two_unknown_eips_panic:
  assumes "\<forall>e \<in> set known. ValidEip e" and "\<not> ValidEip a" and "\<not> ValidEip b"
  shows "NewEVMInterpreter rules (known @ [a, b]) = Panic SliceBounds"
proof -
  let ?n = "length known"
  obtain jt where jt: "instructionSet rules = Ok jt" "complete jt" using instructionSet_complete by blast
  have idx: "[0 ..< length (known @ [a, b])] = [0 ..< ?n] @ [?n, Suc ?n]" by simp
  have "\<forall>i \<in> set [0 ..< ?n]. ValidEip ((known @ [a, b]) ! i)" using assms(1) by (simp add: nth_append)
  from extra_eips_valid [OF jt(2) this, of "[?n, Suc ?n]" "length (known @ [a, b])"]
  obtain jt' where "extra_eips [0 ..< length (known @ [a, b])] (known @ [a, b]) (length (known @ [a, b])) jt =
      extra_eips [?n, Suc ?n] (known @ [a, b]) (length (known @ [a, b])) jt'"
    unfolding idx by blast
  also have "\<dots> = Panic SliceBounds"
    using assms(2,3) by (simp add: EnableEIP_def ValidEip_def nth_append)
  finally show ?thesis using jt(1) by (simp add: NewEVMInterpreter_def)
qed

theorem two_unknown_eips_panic_witness: "NewEVMInterpreter demo_rules [3855, 1, 2] = Panic SliceBounds"
  using two_unknown_eips_panic [of "[3855]" 1 2] by (simp add: ValidEip_def activators_def)

end
