(* ===== verification/ChainConfig.thy ===== *)
theory ChainConfig
  imports EvmTypes
begin

text \<open>
  The chain configuration: \<open>params/config.go\<close>. A fork block is a \<open>*big.Int\<close>: \<open>None\<close> is nil. The
  fields are those the rules, the fork order and the compatibility check read; of the engine
  configurations only their presence matters.
\<close>

record ChainConfig =
  cc_ChainID :: "int option"
  HomesteadBlock :: "int option"
  DAOForkBlock :: "int option"
  DAOForkSupport :: bool
  TangerineWhistleBlock :: "int option"
  SpuriousDragonBlock :: "int option"
  ByzantiumBlock :: "int option"
  ConstantinopleBlock :: "int option"
  PetersburgBlock :: "int option"
  IstanbulBlock :: "int option"
  MuirGlacierBlock :: "int option"
  BerlinBlock :: "int option"
  LondonBlock :: "int option"
  ArrowGlacierBlock :: "int option"
  GrayGlacierBlock :: "int option"
  MergeNetsplitBlock :: "int option"
  ShanghaiBlock :: "int option"
  CancunBlock :: "int option"
  PragueTime :: "int option"
  NanoBlock :: "int option"
  MoranBlock :: "int option"
  BeijingBlock :: "int option"
  Eip1559FeeCollector :: "address option"
  Eip1559FeeCollectorTransition :: "int option"
  Aura :: bool
  Parlia :: bool
  Bor :: bool

section \<open>Forks\<close>

text \<open>\<open>big.Int.Uint64\<close>: the low 64 bits of the absolute value.\<close>

definition big_Uint64 :: "int \<Rightarrow> u64" where
  "big_Uint64 x = of_int \<bar>x\<bar>"

definition isForked :: "int option \<Rightarrow> u64 \<Rightarrow> bool" where
  "isForked s head = (case s of None \<Rightarrow> False | Some x \<Rightarrow> big_Uint64 x \<le> head)"

definition configNumEqual :: "int option \<Rightarrow> int option \<Rightarrow> bool" where
  "configNumEqual x y =
     (case x of
        None \<Rightarrow> y = None
      | Some a \<Rightarrow> (case y of None \<Rightarrow> x = None | Some b \<Rightarrow> a = b))"

definition isForkIncompatible :: "int option \<Rightarrow> int option \<Rightarrow> u64 \<Rightarrow> bool" where
  "isForkIncompatible s1 s2 head \<longleftrightarrow> (isForked s1 head \<or> isForked s2 head) \<and> \<not> configNumEqual s1 s2"

definition cfg_IsDAOFork :: "ChainConfig \<Rightarrow> u64 \<Rightarrow> bool" where
  "cfg_IsDAOFork c num = isForked (DAOForkBlock c) num"

definition cfg_IsSpuriousDragon :: "ChainConfig \<Rightarrow> u64 \<Rightarrow> bool" where
  "cfg_IsSpuriousDragon c num = isForked (SpuriousDragonBlock c) num"

definition cfg_IsPetersburg :: "ChainConfig \<Rightarrow> u64 \<Rightarrow> bool" where
  "cfg_IsPetersburg c num \<longleftrightarrow>
     isForked (PetersburgBlock c) num \<or> PetersburgBlock c = None \<and> isForked (ConstantinopleBlock c) num"

definition cfg_IsLondon :: "ChainConfig \<Rightarrow> u64 \<Rightarrow> bool" where
  "cfg_IsLondon c num = isForked (LondonBlock c) num"

definition cfg_IsEip1559FeeCollector :: "ChainConfig \<Rightarrow> u64 \<Rightarrow> bool" where
  "cfg_IsEip1559FeeCollector c num \<longleftrightarrow>
     Eip1559FeeCollector c \<noteq> None \<and> isForked (Eip1559FeeCollectorTransition c) num"

text \<open>The other predicates (\<open>IsHomestead\<close>, \<open>IsBerlin\<close>, ...) are \<open>isForked\<close> of their block, written
  out here.\<close>

definition rules :: "ChainConfig \<Rightarrow> u64 \<Rightarrow> Rules" where
  "rules c num =
     \<lparr>ChainID = (case cc_ChainID c of None \<Rightarrow> 0 | Some i \<Rightarrow> i),
      IsHomestead = isForked (HomesteadBlock c) num,
      IsTangerineWhistle = isForked (TangerineWhistleBlock c) num,
      IsSpuriousDragon = cfg_IsSpuriousDragon c num,
      IsByzantium = isForked (ByzantiumBlock c) num,
      IsConstantinople = isForked (ConstantinopleBlock c) num,
      IsPetersburg = cfg_IsPetersburg c num,
      IsIstanbul = isForked (IstanbulBlock c) num,
      IsBerlin = isForked (BerlinBlock c) num,
      IsLondon = cfg_IsLondon c num,
      IsShanghai = isForked (ShanghaiBlock c) num,
      IsCancun = isForked (CancunBlock c) num,
      IsPrague = isForked (PragueTime c) num,
      IsNano = isForked (NanoBlock c) num,
      IsMoran = isForked (MoranBlock c) num,
      IsEip1559FeeCollector = cfg_IsEip1559FeeCollector c num,
      IsParlia = Parlia c,
      IsStarknet = False,
      IsAura = Aura c,
      IsBeijing = isForked (BeijingBlock c) num\<rparr>"

section \<open>Fork order\<close>

record fork =
  fork_name :: string
  fork_block :: "int option"
  fork_optional :: bool

datatype fork_error =
    NotEnabled string string
  | WrongOrder string string

definition forks :: "ChainConfig \<Rightarrow> fork list" where
  "forks c =
     [\<lparr>fork_name = ''homesteadBlock'', fork_block = HomesteadBlock c, fork_optional = False\<rparr>,
      \<lparr>fork_name = ''daoForkBlock'', fork_block = DAOForkBlock c, fork_optional = True\<rparr>,
      \<lparr>fork_name = ''eip150Block'', fork_block = TangerineWhistleBlock c, fork_optional = False\<rparr>,
      \<lparr>fork_name = ''eip155Block'', fork_block = SpuriousDragonBlock c, fork_optional = False\<rparr>,
      \<lparr>fork_name = ''byzantiumBlock'', fork_block = ByzantiumBlock c, fork_optional = False\<rparr>,
      \<lparr>fork_name = ''constantinopleBlock'', fork_block = ConstantinopleBlock c, fork_optional = False\<rparr>,
      \<lparr>fork_name = ''petersburgBlock'', fork_block = PetersburgBlock c, fork_optional = False\<rparr>,
      \<lparr>fork_name = ''istanbulBlock'', fork_block = IstanbulBlock c, fork_optional = False\<rparr>,
      \<lparr>fork_name = ''muirGlacierBlock'', fork_block = MuirGlacierBlock c, fork_optional = True\<rparr>,
      \<lparr>fork_name = ''berlinBlock'', fork_block = BerlinBlock c, fork_optional = False\<rparr>,
      \<lparr>fork_name = ''londonBlock'', fork_block = LondonBlock c, fork_optional = False\<rparr>,
      \<lparr>fork_name = ''arrowGlacierBlock'', fork_block = ArrowGlacierBlock c, fork_optional = True\<rparr>,
      \<lparr>fork_name = ''grayGlacierBlock'', fork_block = GrayGlacierBlock c, fork_optional = True\<rparr>,
      \<lparr>fork_name = ''mergeNetsplitBlock'', fork_block = MergeNetsplitBlock c, fork_optional = True\<rparr>,
      \<lparr>fork_name = ''shanghaiBlock'', fork_block = ShanghaiBlock c, fork_optional = False\<rparr>,
      \<lparr>fork_name = ''cancunBlock'', fork_block = CancunBlock c, fork_optional = False\<rparr>]"

text \<open>\<open>lastFork\<close> starts as the zero value, whose name is empty.\<close>

fun fork_order :: "fork \<Rightarrow> fork list \<Rightarrow> fork_error option" where
  "fork_order lastFork [] = None"
| "fork_order lastFork (cur # fs) =
     (if fork_name lastFork \<noteq> [] \<and> fork_block lastFork = None \<and> fork_block cur \<noteq> None
      then Some (NotEnabled (fork_name lastFork) (fork_name cur))
      else if fork_name lastFork \<noteq> [] \<and>
        (case (fork_block lastFork, fork_block cur) of (Some a, Some b) \<Rightarrow> a > b | _ \<Rightarrow> False)
      then Some (WrongOrder (fork_name lastFork) (fork_name cur))
      else fork_order (if \<not> fork_optional cur \<or> fork_block cur \<noteq> None then cur else lastFork) fs)"

definition CheckConfigForkOrder :: "ChainConfig \<Rightarrow> fork_error option" where
  "CheckConfigForkOrder c =
     (if (case cc_ChainID c of None \<Rightarrow> False | Some i \<Rightarrow> big_Uint64 i = 77) then None
      else fork_order \<lparr>fork_name = [], fork_block = None, fork_optional = False\<rparr> (forks c))"

section \<open>Compatibility\<close>

record ConfigCompatError =
  What :: string
  StoredConfig :: "int option"
  NewConfig :: "int option"
  RewindTo :: u64

definition newCompatError :: "string \<Rightarrow> int option \<Rightarrow> int option \<Rightarrow> ConfigCompatError" where
  "newCompatError what storedblock newblock =
     (let rew = (case storedblock of
                   None \<Rightarrow> newblock
                 | Some a \<Rightarrow> (case newblock of None \<Rightarrow> storedblock | Some b \<Rightarrow> if a < b then storedblock else newblock))
      in \<lparr>What = what, StoredConfig = storedblock, NewConfig = newblock,
          RewindTo = (case rew of Some r \<Rightarrow> if r > 0 then big_Uint64 r - 1 else 0 | None \<Rightarrow> 0)\<rparr>)"

definition checkCompatible :: "ChainConfig \<Rightarrow> ChainConfig \<Rightarrow> u64 \<Rightarrow> ConfigCompatError option" where
  "checkCompatible c newcfg head =
     (if isForkIncompatible (HomesteadBlock c) (HomesteadBlock newcfg) head then
        Some (newCompatError ''Homestead fork block'' (HomesteadBlock c) (HomesteadBlock newcfg))
      else if isForkIncompatible (DAOForkBlock c) (DAOForkBlock newcfg) head then
        Some (newCompatError ''DAO fork block'' (DAOForkBlock c) (DAOForkBlock newcfg))
      else if cfg_IsDAOFork c head \<and> DAOForkSupport c \<noteq> DAOForkSupport newcfg then
        Some (newCompatError ''DAO fork support flag'' (DAOForkBlock c) (DAOForkBlock newcfg))
      else if isForkIncompatible (TangerineWhistleBlock c) (TangerineWhistleBlock newcfg) head then
        Some (newCompatError ''Tangerine Whistle fork block'' (TangerineWhistleBlock c) (TangerineWhistleBlock newcfg))
      else if isForkIncompatible (SpuriousDragonBlock c) (SpuriousDragonBlock newcfg) head then
        Some (newCompatError ''Spurious Dragon fork block'' (SpuriousDragonBlock c) (SpuriousDragonBlock newcfg))
      else if cfg_IsSpuriousDragon c head \<and> \<not> configNumEqual (cc_ChainID c) (cc_ChainID newcfg) then
        Some (newCompatError ''EIP155 chain ID'' (SpuriousDragonBlock c) (SpuriousDragonBlock newcfg))
      else if isForkIncompatible (ByzantiumBlock c) (ByzantiumBlock newcfg) head then
        Some (newCompatError ''Byzantium fork block'' (ByzantiumBlock c) (ByzantiumBlock newcfg))
      else if isForkIncompatible (ConstantinopleBlock c) (ConstantinopleBlock newcfg) head then
        Some (newCompatError ''Constantinople fork block'' (ConstantinopleBlock c) (ConstantinopleBlock newcfg))
      else if isForkIncompatible (PetersburgBlock c) (PetersburgBlock newcfg) head \<and>
          isForkIncompatible (ConstantinopleBlock c) (PetersburgBlock newcfg) head then
        Some (newCompatError ''Petersburg fork block'' (PetersburgBlock c) (PetersburgBlock newcfg))
      else if isForkIncompatible (IstanbulBlock c) (IstanbulBlock newcfg) head then
        Some (newCompatError ''Istanbul fork block'' (IstanbulBlock c) (IstanbulBlock newcfg))
      else if isForkIncompatible (MuirGlacierBlock c) (MuirGlacierBlock newcfg) head then
        Some (newCompatError ''Muir Glacier fork block'' (MuirGlacierBlock c) (MuirGlacierBlock newcfg))
      else if isForkIncompatible (BerlinBlock c) (BerlinBlock newcfg) head then
        Some (newCompatError ''Berlin fork block'' (BerlinBlock c) (BerlinBlock newcfg))
      else if isForkIncompatible (LondonBlock c) (LondonBlock newcfg) head then
        Some (newCompatError ''London fork block'' (LondonBlock c) (LondonBlock newcfg))
      else if isForkIncompatible (ArrowGlacierBlock c) (ArrowGlacierBlock newcfg) head then
        Some (newCompatError ''Arrow Glacier fork block'' (ArrowGlacierBlock c) (ArrowGlacierBlock newcfg))
      else if isForkIncompatible (GrayGlacierBlock c) (GrayGlacierBlock newcfg) head then
        Some (newCompatError ''Gray Glacier fork block'' (GrayGlacierBlock c) (GrayGlacierBlock newcfg))
      else if isForkIncompatible (MergeNetsplitBlock c) (MergeNetsplitBlock newcfg) head then
        Some (newCompatError ''Merge netsplit block'' (MergeNetsplitBlock c) (MergeNetsplitBlock newcfg))
      else if isForkIncompatible (ShanghaiBlock c) (ShanghaiBlock newcfg) head then
        Some (newCompatError ''Shanghai fork block'' (ShanghaiBlock c) (ShanghaiBlock newcfg))
      else if isForkIncompatible (CancunBlock c) (CancunBlock newcfg) head then
        Some (newCompatError ''Cancun fork block'' (CancunBlock c) (CancunBlock newcfg))
      else None)"

text \<open>The loop that looks for the lowest conflict, with fuel for its rounds.\<close>

primrec compat_loop :: "nat \<Rightarrow> ChainConfig \<Rightarrow> ChainConfig \<Rightarrow> u64 \<Rightarrow> ConfigCompatError option \<Rightarrow> ConfigCompatError option res" where
  "compat_loop 0 c newcfg bhead lasterr = NoFuel"
| "compat_loop (Suc n) c newcfg bhead lasterr =
     (case checkCompatible c newcfg bhead of
        None \<Rightarrow> Ok lasterr
      | Some err \<Rightarrow>
          if (case lasterr of None \<Rightarrow> False | Some l \<Rightarrow> RewindTo err = RewindTo l) then Ok lasterr
          else compat_loop n c newcfg (RewindTo err) (Some err))"

definition CheckCompatible :: "nat \<Rightarrow> ChainConfig \<Rightarrow> ChainConfig \<Rightarrow> u64 \<Rightarrow> ConfigCompatError option res" where
  "CheckCompatible n c newcfg h = compat_loop n c newcfg h None"

section \<open>Ordered forks\<close>

lemma fork_order_le:
  "fork_order l fs = None \<Longrightarrow> fork_name l \<noteq> [] \<Longrightarrow> (\<forall>f \<in> set fs. fork_name f \<noteq> []) \<Longrightarrow> g \<in> set fs \<Longrightarrow>
     fork_block g = Some b \<Longrightarrow> \<exists>a \<le> b. fork_block l = Some a"
proof (induction l fs rule: fork_order.induct)
  case (2 l cur fs)
  have here: "\<exists>a \<le> b. fork_block l = Some a" if "fork_block cur = Some b" for b
    using 2(2,3) that by (cases "fork_block l") (auto split: if_splits)
  show ?case
  proof (cases "g = cur")
    case False
    let ?l = "if \<not> fork_optional cur \<or> fork_block cur \<noteq> None then cur else l"
    have "\<exists>a \<le> b. fork_block ?l = Some a" using 2 False by (auto split: if_splits)
    then obtain a where a: "a \<le> b" "fork_block ?l = Some a" by blast
    show ?thesis
    proof (cases "?l = l")
      case True
      with a show ?thesis by auto
    next
      case False
      with a here [of a] show ?thesis by (auto split: if_splits intro: order_trans)
    qed
  qed (use here 2 in blast)
qed simp

lemma fork_order_suffix:
  "fork_order l (xs @ f # ys) = None \<Longrightarrow> \<not> fork_optional f \<Longrightarrow> fork_order f ys = None"
  by (induction xs arbitrary: l) (auto split: if_splits)

text \<open>Fork blocks that are block numbers.\<close>

definition block_number :: "int option \<Rightarrow> bool" where
  "block_number s = (case s of None \<Rightarrow> True | Some x \<Rightarrow> 0 \<le> x \<and> x < 2 ^ 64)"

definition block_numbers :: "ChainConfig \<Rightarrow> bool" where
  "block_numbers c = list_all (\<lambda>f. block_number (fork_block f)) (forks c)"

lemma unat_big: "0 \<le> x \<Longrightarrow> x < 2 ^ 64 \<Longrightarrow> int (unat (big_Uint64 x)) = x"
  by (simp add: big_Uint64_def of_nat_unat uint_word_of_int take_bit_int_eq_self)

lemma isForked_mono:
  assumes "a \<le> b" "0 \<le> a" "b < 2 ^ 64" and "isForked (Some b) n"
  shows "isForked (Some a) n"
proof -
  have "unat (big_Uint64 a) \<le> unat (big_Uint64 b)" using assms(1-3) unat_big [of a] unat_big [of b] by linarith
  with assms(4) show ?thesis by (simp add: isForked_def word_le_nat_alt)
qed

section \<open>Rewinding\<close>

lemma rewind_below:
  assumes "block_number s" "block_number t" and "isForked s h \<or> isForked t h"
  shows "RewindTo (newCompatError w s t) < h \<or> RewindTo (newCompatError w s t) = 0"
proof -
  have *: "big_Uint64 r - 1 < h \<or> big_Uint64 r - 1 = 0" if "0 < r" "r \<le> int (unat h)" "r < 2 ^ 64" for r
  proof -
    have "int (unat (big_Uint64 r)) = r" using that by (intro unat_big) auto
    then have r: "0 < unat (big_Uint64 r)" "unat (big_Uint64 r) \<le> unat h" using that(1,2) by linarith+
    then have "unat (big_Uint64 r - 1) = unat (big_Uint64 r) - 1" by (simp add: unat_minus_one unat_gt_0)
    then have "unat (big_Uint64 r - 1) < unat h" using r by linarith
    then show ?thesis by (simp add: word_less_nat_alt)
  qed
  have le: "isForked (Some x) h \<Longrightarrow> block_number (Some x) \<Longrightarrow> x \<le> int (unat h)" for x
    using unat_big [of x] unfolding isForked_def block_number_def option.case word_le_nat_alt by linarith
  define rew where "rew = (case s of None \<Rightarrow> t | Some a \<Rightarrow> (case t of None \<Rightarrow> s | Some b \<Rightarrow> if a < b then s else t))"
  have "\<exists>r. rew = Some r \<and> 0 \<le> r \<and> r \<le> int (unat h) \<and> r < 2 ^ 64"
  proof (cases s)
    case None
    then show ?thesis using assms le by (cases t) (auto simp: rew_def block_number_def isForked_def)
  next
    case (Some a)
    then show ?thesis using assms le [of a] le [of "the t"]
      by (cases t) (force simp: rew_def block_number_def isForked_def)+
  qed
  then obtain r where r: "rew = Some r" "0 \<le> r" "r \<le> int (unat h)" "r < 2 ^ 64" by blast
  then have "RewindTo (newCompatError w s t) = (if r > 0 then big_Uint64 r - 1 else 0)"
    by (simp add: newCompatError_def rew_def [symmetric])
  with * [of r] r show ?thesis by presburger
qed

lemma first_error:
  "(if b then Some x else r) = Some e \<Longrightarrow> (b \<Longrightarrow> P x) \<Longrightarrow> (r = Some e \<Longrightarrow> P e) \<Longrightarrow> P e"
  by (auto split: if_splits)

lemma checkCompatible_rewind:
  assumes "block_numbers c" "block_numbers c'" and "checkCompatible c c' h = Some e"
  shows "RewindTo e < h \<or> RewindTo e = 0"
proof -
  have inc: "RewindTo (newCompatError w s t) < h \<or> RewindTo (newCompatError w s t) = 0"
    if "isForkIncompatible s t h \<or> isForked s h" "block_number s" "block_number t" for w s t
    using rewind_below [of s t h w] that by (auto simp: isForkIncompatible_def)
  note nums = assms(1,2) [unfolded block_numbers_def forks_def]
  show ?thesis using assms(3) unfolding checkCompatible_def
    apply (elim first_error)
                     apply (rule inc; (use nums in \<open>simp add: cfg_IsDAOFork_def cfg_IsSpuriousDragon_def\<close>; fail))+
    apply simp
    done
qed

end
