(* ===== verification/ChainProps.thy ===== *)
theory ChainProps
  imports VmProps ChainConfig
begin

text \<open>
  The properties of the chain configuration.
\<close>

section \<open>Forks in order\<close>

lemma forks_nested:
  assumes ord: "fork_order l (forks c) = None" and split: "forks c = xs @ f # ys" and "\<not> fork_optional f"
    and g: "g \<in> set ys" and "block_numbers c" and act: "isForked (fork_block g) num"
  shows "isForked (fork_block f) num"
proof -
  obtain b where b: "fork_block g = Some b" using act by (auto simp: isForked_def split: option.splits)
  have names: "\<forall>h \<in> set (forks c). fork_name h \<noteq> []" by (simp add: forks_def)
  have suf: "fork_order f ys = None" using ord assms(3) unfolding split by (rule fork_order_suffix)
  obtain a where a: "a \<le> b" "fork_block f = Some a"
    using fork_order_le [OF suf _ _ g b] names unfolding split by auto
  have "f \<in> set (forks c)" "g \<in> set (forks c)" using g unfolding split by auto
  then have "block_number (Some a)" "block_number (Some b)"
    using assms(5) a b by (metis block_numbers_def list_all_iff)+
  then show ?thesis using isForked_mono [OF a(1)] act a b by (simp add: block_number_def)
qed

lemma forks_nested_nth:
  assumes "fork_order l (forks c) = None" and "block_numbers c"
    and "i < j" "j < length (forks c)" "\<not> fork_optional (forks c ! i)" "isForked (fork_block (forks c ! j)) num"
  shows "isForked (fork_block (forks c ! i)) num"
proof (rule forks_nested [OF assms(1) _ assms(5) _ assms(2,6)])
  show "forks c = take i (forks c) @ forks c ! i # drop (Suc i) (forks c)"
    using assms by (intro id_take_nth_drop) simp
  show "forks c ! j \<in> set (drop (Suc i) (forks c))"
    using assms(3,4) in_set_conv_nth [of "forks c ! j" "drop (Suc i) (forks c)"] by (auto intro!: exI [of _ "j - Suc i"])
qed

text \<open>C34. A configuration that passes \<open>CheckConfigForkOrder\<close>, outside the exempted chain 77 and with
  block numbers as fork blocks, gives nested rules at every block: a later fork is only active
  with the earlier ones, from Homestead to Cancun, the forks that may be left out apart. If it also
  has no Prague time, which the check does not look at, it satisfies what the interpreter relies on.\<close>

theorem fork_order_nests_rules:
  assumes "CheckConfigForkOrder c = None" and "\<forall>i. cc_ChainID c = Some i \<longrightarrow> big_Uint64 i \<noteq> 77"
    and "block_numbers c"
  shows "let r = rules c num in
    (IsCancun r \<longrightarrow> IsShanghai r) \<and> (IsShanghai r \<longrightarrow> IsLondon r) \<and> (IsLondon r \<longrightarrow> IsBerlin r) \<and>
    (IsBerlin r \<longrightarrow> IsIstanbul r) \<and> (IsIstanbul r \<longrightarrow> IsConstantinople r) \<and> (IsConstantinople r \<longrightarrow> IsByzantium r) \<and>
    (IsByzantium r \<longrightarrow> IsSpuriousDragon r) \<and> (IsSpuriousDragon r \<longrightarrow> IsTangerineWhistle r) \<and>
    (IsTangerineWhistle r \<longrightarrow> IsHomestead r) \<and> (PragueTime c = None \<longrightarrow> rules_ok r)"
proof -
  have ord: "fork_order \<lparr>fork_name = [], fork_block = None, fork_optional = False\<rparr> (forks c) = None"
    using assms(1,2) by (auto simp: CheckConfigForkOrder_def split: option.splits if_splits)
  note nest = forks_nested_nth [OF ord assms(3), of _ _ num]
  have "isForked (CancunBlock c) num \<longrightarrow> isForked (ShanghaiBlock c) num" using nest [of 14 15] by (simp add: forks_def)
  moreover have "isForked (ShanghaiBlock c) num \<longrightarrow> isForked (LondonBlock c) num" using nest [of 10 14] by (simp add: forks_def)
  moreover have "isForked (LondonBlock c) num \<longrightarrow> isForked (BerlinBlock c) num" using nest [of 9 10] by (simp add: forks_def)
  moreover have "isForked (BerlinBlock c) num \<longrightarrow> isForked (IstanbulBlock c) num" using nest [of 7 9] by (simp add: forks_def)
  moreover have "isForked (IstanbulBlock c) num \<longrightarrow> isForked (ConstantinopleBlock c) num" using nest [of 5 7] by (simp add: forks_def)
  moreover have "isForked (ConstantinopleBlock c) num \<longrightarrow> isForked (ByzantiumBlock c) num" using nest [of 4 5] by (simp add: forks_def)
  moreover have "isForked (ByzantiumBlock c) num \<longrightarrow> isForked (SpuriousDragonBlock c) num" using nest [of 3 4] by (simp add: forks_def)
  moreover have "isForked (SpuriousDragonBlock c) num \<longrightarrow> isForked (TangerineWhistleBlock c) num" using nest [of 2 3] by (simp add: forks_def)
  moreover have "isForked (TangerineWhistleBlock c) num \<longrightarrow> isForked (HomesteadBlock c) num" using nest [of 0 2] by (simp add: forks_def)
  moreover have "PragueTime c = None \<longrightarrow> \<not> isForked (PragueTime c) num" by (simp add: isForked_def)
  ultimately show ?thesis
    by (simp add: rules_def rules_ok_def cfg_IsLondon_def cfg_IsSpuriousDragon_def Let_def)
qed

definition demo_config :: ChainConfig where
  "demo_config =
     \<lparr>cc_ChainID = Some 94, HomesteadBlock = Some 0, DAOForkBlock = None, DAOForkSupport = False,
      TangerineWhistleBlock = Some 0, SpuriousDragonBlock = Some 0, ByzantiumBlock = Some 0, ConstantinopleBlock = Some 0,
      PetersburgBlock = Some 0, IstanbulBlock = Some 0, MuirGlacierBlock = None, BerlinBlock = Some 5, LondonBlock = Some 9,
      ArrowGlacierBlock = None, GrayGlacierBlock = None, MergeNetsplitBlock = None, ShanghaiBlock = None, CancunBlock = None,
      PragueTime = None, NanoBlock = None, MoranBlock = None, BeijingBlock = Some 0, Eip1559FeeCollector = None,
      Eip1559FeeCollectorTransition = None, Aura = False, Parlia = False, Bor = False\<rparr>"

lemma demo_config_numbers: "block_numbers demo_config"
  by (simp add: block_numbers_def forks_def demo_config_def block_number_def)

theorem fork_order_nests_rules_witness: "rules_ok (rules demo_config 7)"
proof -
  have "CheckConfigForkOrder demo_config = None"
    by (simp add: CheckConfigForkOrder_def forks_def demo_config_def big_Uint64_def)
  moreover have "\<forall>i. cc_ChainID demo_config = Some i \<longrightarrow> big_Uint64 i \<noteq> 77" "PragueTime demo_config = None"
    by (simp_all add: demo_config_def big_Uint64_def)
  ultimately show ?thesis using fork_order_nests_rules [of demo_config 7] demo_config_numbers by (simp add: Let_def)
qed

section \<open>Compatible configurations\<close>

lemma compat_loop_returns:
  assumes "block_numbers c" "block_numbers c'"
  shows "unat (RewindTo l) < n \<Longrightarrow>
    \<exists>l'. compat_loop n c c' (RewindTo l) (Some l) = Ok (Some l') \<and> (checkCompatible c c' (RewindTo l') = None \<or> RewindTo l' = 0)"
proof (induction n arbitrary: l)
  case (Suc n)
  show ?case
  proof (cases "checkCompatible c c' (RewindTo l)")
    case (Some err)
    have below: "RewindTo err < RewindTo l \<or> RewindTo err = 0" using checkCompatible_rewind [OF assms Some] .
    show ?thesis
    proof (cases "RewindTo err = RewindTo l")
      case True
      with Some below show ?thesis by auto
    next
      case False
      with below have "RewindTo err < RewindTo l" by (auto simp: word_gt_0)
      then have "unat (RewindTo err) < n" using Suc.prems by (simp add: word_less_nat_alt)
      from Suc.IH [OF this] show ?thesis using Some False by simp
    qed
  qed simp
qed simp

text \<open>C35. The search for the lowest conflict between two configurations terminates, within two more
  rounds than the height. If it reports no conflict the configurations agree up to the height;
  otherwise, at the block it says to rewind to, they agree, unless that is the genesis block.\<close>

theorem CheckCompatible_rewinds:
  assumes "block_numbers c" and "block_numbers c'" and "unat h + 2 \<le> n"
  shows "\<exists>r. CheckCompatible n c c' h = Ok r \<and> (case r of
        None \<Rightarrow> checkCompatible c c' h = None
      | Some l \<Rightarrow> checkCompatible c c' (RewindTo l) = None \<or> RewindTo l = 0)"
proof (cases "checkCompatible c c' h")
  case None
  with assms(3) show ?thesis by (cases n) (simp_all add: CheckCompatible_def)
next
  case (Some err)
  have "unat (RewindTo err) < n - 1"
    using checkCompatible_rewind [OF assms(1,2) Some] assms(3) by (auto simp: word_less_nat_alt)
  from compat_loop_returns [OF assms(1,2) this] Some assms(3) show ?thesis
    by (cases n) (auto simp: CheckCompatible_def)
qed

theorem CheckCompatible_rewinds_witness:
  "\<exists>r. CheckCompatible 12 demo_config (demo_config\<lparr>BerlinBlock := Some 6\<rparr>) 10 = Ok (Some r) \<and> RewindTo r = 4"
proof -
  have "block_numbers (demo_config\<lparr>BerlinBlock := Some 6\<rparr>)"
    by (simp add: block_numbers_def forks_def demo_config_def block_number_def)
  from CheckCompatible_rewinds [OF demo_config_numbers this, of 10 12]
  obtain r where r: "CheckCompatible 12 demo_config (demo_config\<lparr>BerlinBlock := Some 6\<rparr>) 10 = Ok r" by auto
  have "CheckCompatible 12 demo_config (demo_config\<lparr>BerlinBlock := Some 6\<rparr>) 10 =
      Ok (Some (newCompatError ''Berlin fork block'' (Some 5) (Some 6)))"
    by code_simp
  with r show ?thesis by (auto simp: newCompatError_def big_Uint64_def)
qed

end
