(* ===== verification/Fees.thy ===== *)
theory Fees
  imports ChainConfig
begin

text \<open>
  Gas limits and base fees: \<open>internal/consensus/misc/eip1559.go\<close> and \<open>gaslimit.go\<close>, \<open>CalcGasLimit\<close> of
  \<open>internal/miner/gasLimit.go\<close>, and what the miner puts into a header (\<open>prepareWork\<close> of
  \<open>internal/miner/worker.go\<close>). Headers are those of \<open>common/block/header.go\<close>; \<open>None\<close> is a nil pointer.
  \<open>big.Int\<close> values are integers.
\<close>

record Header =
  h_ParentHash :: hash
  h_Coinbase :: address
  h_Root :: hash
  h_TxHash :: hash
  h_ReceiptHash :: hash
  h_Bloom :: bytes
  h_Difficulty :: "u256 option"
  h_Number :: "u256 option"
  h_GasLimit :: u64
  h_GasUsed :: u64
  h_Time :: u64
  h_MixDigest :: hash
  h_Nonce :: u64
  h_Extra :: bytes
  h_BaseFee :: "u256 option"
  h_Signature :: bytes

text \<open>The divisor is a variable; nothing calls the function that lowers it.\<close>

definition GasLimitBoundDivisor :: u64 where
  [param_defs]: "GasLimitBoundDivisor = 1024"

definition BaseFeeChangeDenominator :: int where
  [param_defs]: "BaseFeeChangeDenominator = 8"

definition ElasticityMultiplier :: u64 where
  [param_defs]: "ElasticityMultiplier = 2"

definition InitialBaseFee :: int where
  [param_defs]: "InitialBaseFee = 1000000000"

section \<open>Verification\<close>

datatype fee_error = InvalidGasLimit | GasLimitBelowMinimum | MissingBaseFee | InvalidBaseFee

text \<open>The difference is taken and negated as \<open>int64\<close> and compared as \<open>uint64\<close>.\<close>

definition VerifyGaslimit :: "u64 \<Rightarrow> u64 \<Rightarrow> fee_error option" where
  "VerifyGaslimit parentGasLimit headerGasLimit =
     (let diff = parentGasLimit - headerGasLimit;
          diff = (if go_int diff < 0 then - diff else diff);
          limit = parentGasLimit div GasLimitBoundDivisor
      in if diff \<ge> limit then Some InvalidGasLimit
         else if headerGasLimit < MinGasLimit then Some GasLimitBelowMinimum
         else None)"

definition BigMax :: "int \<Rightarrow> int \<Rightarrow> int" where
  "BigMax x y = (if x < y then y else x)"

definition big_Div :: "int \<Rightarrow> int \<Rightarrow> int res" where
  "big_Div x y = (if y = 0 then Panic DivideByZero else Ok (x div y))"

definition CalcBaseFee :: "ChainConfig \<Rightarrow> Header \<Rightarrow> int res" where
  "CalcBaseFee cfg parent =
     bnd (of_opt NilDereference (h_Number parent)) (\<lambda>num.
     if \<not> cfg_IsLondon cfg (Uint64 num) then Ok InitialBaseFee
     else
       let parentGasTarget = h_GasLimit parent div ElasticityMultiplier
       in bnd (of_opt NilDereference (h_BaseFee parent)) (\<lambda>fee.
          let base = uint fee
          in if h_GasUsed parent = parentGasTarget then Ok base
             else if h_GasUsed parent > parentGasTarget then
               let gasUsedDelta = uint (h_GasUsed parent - parentGasTarget)
               in bnd (big_Div (base * gasUsedDelta) (uint parentGasTarget)) (\<lambda>y.
                  bnd (big_Div y BaseFeeChangeDenominator) (\<lambda>d.
                  let baseFeeDelta = BigMax d 1
                  in Ok (base + baseFeeDelta)))
             else
               let gasUsedDelta = uint (parentGasTarget - h_GasUsed parent)
               in bnd (big_Div (base * gasUsedDelta) (uint parentGasTarget)) (\<lambda>y.
                  bnd (big_Div y BaseFeeChangeDenominator) (\<lambda>baseFeeDelta.
                  Ok (BigMax (base - baseFeeDelta) 0)))))"

definition parent_gas_limit :: "ChainConfig \<Rightarrow> Header \<Rightarrow> u64 res" where
  "parent_gas_limit cfg parent =
     bnd (of_opt NilDereference (h_Number parent)) (\<lambda>num.
     Ok (if \<not> cfg_IsLondon cfg (Uint64 num) then h_GasLimit parent * ElasticityMultiplier else h_GasLimit parent))"

definition VerifyEip1559Header :: "ChainConfig \<Rightarrow> Header \<Rightarrow> Header \<Rightarrow> fee_error option res" where
  "VerifyEip1559Header cfg parent header =
     bnd (parent_gas_limit cfg parent) (\<lambda>parentGasLimit.
     case VerifyGaslimit parentGasLimit (h_GasLimit header) of
       Some e \<Rightarrow> Ok (Some e)
     | None \<Rightarrow>
         (case h_BaseFee header of
            None \<Rightarrow> Ok (Some MissingBaseFee)
          | Some fee \<Rightarrow>
              bnd (CalcBaseFee cfg parent) (\<lambda>expectedBaseFee.
              Ok (if uint fee \<noteq> expectedBaseFee then Some InvalidBaseFee else None))))"

section \<open>Mining\<close>

definition CalcGasLimit :: "u64 \<Rightarrow> u64 \<Rightarrow> u64" where
  "CalcGasLimit parentGasLimit desiredLimit =
     (let delta = parentGasLimit div GasLimitBoundDivisor - 1;
          desiredLimit = (if desiredLimit < MinGasLimit then MinGasLimit else desiredLimit)
      in if parentGasLimit < desiredLimit then
           let limit = parentGasLimit + delta
           in if limit > desiredLimit then desiredLimit else limit
         else if parentGasLimit > desiredLimit then
           let limit = parentGasLimit - delta
           in if limit < desiredLimit then desiredLimit else limit
         else parentGasLimit)"

text \<open>The gas limit and the base fee of a new header; \<open>uint256.FromBig\<close> keeps the low 256 bits and its
  overflow flag is ignored.\<close>

definition header_fees :: "ChainConfig \<Rightarrow> u64 \<Rightarrow> Header \<Rightarrow> (u64 \<times> u256) res" where
  "header_fees cfg gasCeil parent =
     bnd (of_opt NilDereference (h_Number parent)) (\<lambda>num.
     let gasLimit = CalcGasLimit (h_GasLimit parent) gasCeil
     in if cfg_IsLondon cfg (Uint64 (num + 1)) then
          bnd (CalcBaseFee cfg parent) (\<lambda>fee.
          if \<not> cfg_IsLondon cfg (Uint64 num) then
            Ok (CalcGasLimit (h_GasLimit parent * ElasticityMultiplier) gasCeil, word_of_int fee)
          else Ok (gasLimit, word_of_int fee))
        else Ok (gasLimit, 0))"

section \<open>Limits\<close>

lemma go_int_neg: "go_int x < 0 \<longleftrightarrow> 2 ^ 63 \<le> unat x"
proof (cases "2 ^ 63 \<le> unat x")
  case True
  define u where "u = uint x"
  have "int (2 ^ 63) \<le> int (unat x)" using True by (simp only: of_nat_le_iff)
  then have u: "2 ^ 63 \<le> u" "u < 2 ^ 64" using uint_lt2p [of x] by (simp_all add: u_def)
  then have "u div 2 ^ 63 = 1" by (intro int_div_pos_eq [of _ _ _ "u - 2 ^ 63"]) auto
  then have "bit u 63" by (simp add: bit_iff_odd)
  then show ?thesis using True by (simp add: go_int_def sint_uint signed_take_bit_negative_iff u_def)
next
  case False
  then show ?thesis using go_int_small [of x] by simp
qed

text \<open>For limits below 2^63 the rule is the one on natural numbers.\<close>

lemma VerifyGaslimit_spec:
  assumes "unat p < 2 ^ 63" "unat h < 2 ^ 63"
  shows "VerifyGaslimit p h = None \<longleftrightarrow>
    unat p < unat h + unat p div 1024 \<and> unat h < unat p + unat p div 1024 \<and> 5000 \<le> unat h"
proof -
  define d where "d = (if go_int (p - h) < 0 then - (p - h) else p - h)"
  have d: "unat d = (if unat h \<le> unat p then unat p - unat h else unat h - unat p)"
  proof (cases "unat h \<le> unat p")
    case True
    then have "unat (p - h) = unat p - unat h" by (simp add: unat_sub word_le_nat_alt)
    moreover from this have "\<not> 2 ^ 63 \<le> unat (p - h)" using assms(1) by linarith
    ultimately show ?thesis using True by (simp add: d_def go_int_neg)
  next
    case False
    then have hp: "unat (h - p) = unat h - unat p" by (simp add: unat_sub word_le_nat_alt)
    have "unat (p - h) = unat p + 2 ^ 64 - unat h" using False by (simp add: unat_sub_if')
    then have "2 ^ 63 \<le> unat (p - h)" using assms(2) by simp
    then show ?thesis using hp False by (simp add: d_def go_int_neg)
  qed
  show ?thesis using d
    by (auto simp: VerifyGaslimit_def Let_def d_def [symmetric] GasLimitBoundDivisor_def MinGasLimit_def
        word_le_nat_alt word_less_nat_alt unat_div)
qed

lemma unat_min: "unat (min a b) = min (unat a) (unat b)"
  by (simp add: min_def word_le_nat_alt)

lemma unat_max: "unat (max a b) = max (unat a) (unat b)"
  by (simp add: max_def word_le_nat_alt)

lemma CalcGasLimit_verifies:
  assumes "5000 \<le> unat p" "unat p < 2 ^ 62"
  shows "VerifyGaslimit p (CalcGasLimit p desired) = None"
proof -
  define g where "g = CalcGasLimit p desired"
  define q where "q = unat p div 1024"
  define d where "d = (if desired < MinGasLimit then MinGasLimit else desired)"
  have d: "5000 \<le> unat d" by (simp add: d_def MinGasLimit_def word_less_nat_alt)
  have q: "4 \<le> q" "1024 * q \<le> unat p" using assms(1) by (auto simp: q_def)
  have delta: "unat (p div GasLimitBoundDivisor - 1) = q - 1"
    using q(1) by (simp add: GasLimitBoundDivisor_def unat_sub word_le_nat_alt unat_div q_def)
  have up: "unat (p + (p div GasLimitBoundDivisor - 1)) = unat p + (q - 1)"
    using q assms(2) by (subst unat_add_no_wrap) (auto simp: delta)
  have down: "unat (p - (p div GasLimitBoundDivisor - 1)) = unat p - (q - 1)"
    using q by (simp add: unat_sub word_le_nat_alt delta)
  have g: "g = (if p < d then min d (p + (p div GasLimitBoundDivisor - 1))
      else if d < p then max d (p - (p div GasLimitBoundDivisor - 1)) else p)"
    unfolding g_def CalcGasLimit_def Let_def d_def [symmetric] min_def max_def by auto
  have "unat g = (if unat p < unat d then min (unat d) (unat p + (q - 1))
      else if unat d < unat p then max (unat d) (unat p - (q - 1)) else unat p)"
    by (simp add: g unat_min unat_max up down word_less_nat_alt)
  then have "unat p < unat g + q" "unat g < unat p + q" "5000 \<le> unat g" "unat g < 2 ^ 63"
    using d q assms by (auto simp: min_def max_def split: if_splits)
  then show ?thesis using assms(2) by (simp add: VerifyGaslimit_spec g_def [symmetric] q_def [symmetric])
qed

section \<open>Base fees\<close>

lemma unat_half: "unat (x div ElasticityMultiplier) = unat x div 2"
  by (simp add: ElasticityMultiplier_def unat_div)

lemma fee_share:
  fixes base used t :: int
  assumes "0 \<le> base" "0 \<le> used" "used \<le> t" "0 < t"
  shows "base * used div t div 8 \<le> base div 8" "0 \<le> base * used div t div 8"
proof -
  have "base * used \<le> base * t" using assms by (simp add: mult_left_mono)
  then have "base * used div t \<le> base" using assms by (metis nonzero_mult_div_cancel_right order_less_irrefl zdiv_mono1)
  then show "base * used div t div 8 \<le> base div 8" by (simp add: zdiv_mono1)
  show "0 \<le> base * used div t div 8" using assms by (simp add: pos_imp_zdiv_nonneg_iff)
qed

end
