(* ===== verification/FeeProps.thy ===== *)
theory FeeProps
  imports ChainProps Fees
begin

text \<open>
  The properties of the gas limit and base fee rules.
\<close>

section \<open>Base fees\<close>

lemma uint_half: "uint (x div ElasticityMultiplier) = uint x div 2"
  using unat_half [of x] by (metis of_nat_numeral uint_nat zdiv_int)

lemma uint_diff: "(b::u64) \<le> a \<Longrightarrow> uint (a - b) = uint a - uint b"
  by (simp add: uint_sub_lem word_le_def)

lemma CalcBaseFee_bounds:
  assumes "h_Number parent = Some num" and "cfg_IsLondon cfg (Uint64 num)" and "h_BaseFee parent = Some fee"
    and "2 \<le> uint (h_GasLimit parent)" and "uint (h_GasUsed parent) \<le> 2 * (uint (h_GasLimit parent) div 2)"
  shows "\<exists>f. CalcBaseFee cfg parent = Ok f \<and> uint fee - uint fee div 8 \<le> f \<and> f \<le> uint fee + max 1 (uint fee div 8) \<and>
    (uint (h_GasUsed parent) = uint (h_GasLimit parent) div 2 \<longrightarrow> f = uint fee) \<and>
    (uint (h_GasUsed parent) > uint (h_GasLimit parent) div 2 \<longrightarrow> f > uint fee) \<and>
    (uint (h_GasUsed parent) < uint (h_GasLimit parent) div 2 \<longrightarrow> f \<le> uint fee)"
proof -
  define t where "t = uint (h_GasLimit parent) div 2"
  define u where "u = uint (h_GasUsed parent)"
  define b where "b = uint fee"
  have t: "0 < t" "u \<le> 2 * t" using assms(4,5) by (auto simp: t_def u_def)
  have b: "0 \<le> b" "0 \<le> u" by (simp_all add: b_def u_def)
  have eq: "h_GasUsed parent = h_GasLimit parent div ElasticityMultiplier \<longleftrightarrow> u = t"
    by (simp add: u_def t_def uint_half word_uint_eq_iff)
  have gt: "h_GasUsed parent > h_GasLimit parent div ElasticityMultiplier \<longleftrightarrow> u > t"
    by (simp add: u_def t_def uint_half word_less_def)
  have tu: "uint (h_GasLimit parent div ElasticityMultiplier) = t" by (simp add: t_def uint_half)
  note calc = CalcBaseFee_def assms(1-3) eq gt tu big_Div_def BaseFeeChangeDenominator_def BigMax_def Let_def
  consider "u = t" | "u > t" | "u < t" by linarith
  then have "\<exists>f. CalcBaseFee cfg parent = Ok f \<and> b - b div 8 \<le> f \<and> f \<le> b + max 1 (b div 8) \<and>
    (u = t \<longrightarrow> f = b) \<and> (u > t \<longrightarrow> f > b) \<and> (u < t \<longrightarrow> f \<le> b)"
  proof cases
    case 1
    then show ?thesis using b by (simp add: calc b_def [symmetric] pos_imp_zdiv_nonneg_iff le_max_iff_disj)
  next
    case 2
    then have "uint (h_GasUsed parent - h_GasLimit parent div ElasticityMultiplier) = u - t"
      using gt by (subst uint_diff) (auto simp: tu u_def)
    then show ?thesis using 2 t b fee_share [of b "u - t" t] by (auto simp: calc b_def [symmetric])
  next
    case 3
    then have "uint (h_GasLimit parent div ElasticityMultiplier - h_GasUsed parent) = t - u"
      using eq gt by (subst uint_diff) (auto simp: tu u_def)
    then show ?thesis using 3 t b fee_share [of b "t - u" t] by (auto simp: calc b_def [symmetric])
  qed
  then show ?thesis by (simp only: t_def u_def b_def)
qed

text \<open>C37. After London, for a parent with a base fee, a gas limit of at least 2 and gas use of at most
  twice the target (half the gas limit, rounded down), the base fee of the next block is computed
  without a panic. It falls by at most an eighth and rises by at most an eighth, or by 1 if that is
  more: it rises when the parent used more than the target, does not when it used less, and is
  unchanged at the target.\<close>

theorem base_fee_moves:
  assumes "h_Number parent = Some num" and "cfg_IsLondon cfg (Uint64 num)" and "h_BaseFee parent = Some fee"
    and "2 \<le> uint (h_GasLimit parent)" and "uint (h_GasUsed parent) \<le> 2 * (uint (h_GasLimit parent) div 2)"
  shows "\<exists>f. CalcBaseFee cfg parent = Ok f \<and> uint fee - uint fee div 8 \<le> f \<and> f \<le> uint fee + max 1 (uint fee div 8) \<and>
    (uint (h_GasUsed parent) = uint (h_GasLimit parent) div 2 \<longrightarrow> f = uint fee) \<and>
    (uint (h_GasUsed parent) > uint (h_GasLimit parent) div 2 \<longrightarrow> f > uint fee) \<and>
    (uint (h_GasUsed parent) < uint (h_GasLimit parent) div 2 \<longrightarrow> f \<le> uint fee)"
  using assms by (rule CalcBaseFee_bounds)

definition demo_header :: Header where
  "demo_header =
     \<lparr>h_ParentHash = 0, h_Coinbase = 0, h_Root = 0, h_TxHash = 0, h_ReceiptHash = 0, h_Bloom = [], h_Difficulty = Some 1,
      h_Number = Some 20, h_GasLimit = 30000000, h_GasUsed = 20000000, h_Time = 0, h_MixDigest = 0, h_Nonce = 0, h_Extra = [],
      h_BaseFee = Some 1000, h_Signature = []\<rparr>"

lemma demo_header_london: "cfg_IsLondon demo_config (Uint64 20)" "cfg_IsLondon demo_config (Uint64 (20 + 1))"
  by (simp_all add: cfg_IsLondon_def isForked_def demo_config_def big_Uint64_def Uint64_def)

theorem base_fee_moves_witness: "\<exists>f. CalcBaseFee demo_config demo_header = Ok f \<and> 1000 < f \<and> f \<le> 1125"
  using base_fee_moves [of demo_header 20 demo_config 1000] demo_header_london(1) by (auto simp: demo_header_def)

section \<open>Mined headers\<close>

text \<open>C36. The gas limit and base fee the miner puts into a header after London pass the verification
  against the parent, for every gas ceiling, across the fork block as well.\<close>

theorem mined_header_verifies:
  assumes "h_Number parent = Some num" and "cfg_IsLondon cfg (Uint64 (num + 1))"
    and "h_BaseFee parent = Some fee" and "uint fee < 2 ^ 255"
    and "5000 \<le> unat (h_GasLimit parent)" and "unat (h_GasLimit parent) < 2 ^ 61"
    and "uint (h_GasUsed parent) \<le> 2 * (uint (h_GasLimit parent) div 2)"
  shows "\<exists>gasLimit baseFee. header_fees cfg gasCeil parent = Ok (gasLimit, baseFee) \<and>
    VerifyEip1559Header cfg parent (header\<lparr>h_GasLimit := gasLimit, h_BaseFee := Some baseFee\<rparr>) = Ok None"
proof (cases "cfg_IsLondon cfg (Uint64 num)")
  case True
  have "int 5000 \<le> int (unat (h_GasLimit parent))" using assms(5) by (simp only: of_nat_le_iff)
  then have "2 \<le> uint (h_GasLimit parent)" by simp
  from CalcBaseFee_bounds [OF assms(1) True assms(3) this assms(7)]
  obtain f where f: "CalcBaseFee cfg parent = Ok f" "uint fee - uint fee div 8 \<le> f" "f \<le> uint fee + max 1 (uint fee div 8)"
    by blast
  have eighth: "x div 8 \<le> x" if "0 \<le> x" for x :: int using that by linarith
  have "0 \<le> f" using f(2) eighth [of "uint fee"] by simp
  moreover have "f < 2 ^ 256" using f(3) assms(4) eighth [of "uint fee"] by simp
  ultimately have "uint (word_of_int f :: u256) = f" by (simp add: uint_word_of_int_eq take_bit_int_eq_self)
  then show ?thesis using True assms(1,2) f(1) CalcGasLimit_verifies [OF assms(5)] assms(6)
    by (simp add: header_fees_def VerifyEip1559Header_def parent_gas_limit_def Let_def)
next
  case False
  have two: "unat (h_GasLimit parent * ElasticityMultiplier) = 2 * unat (h_GasLimit parent)"
    using assms(6) by (simp add: ElasticityMultiplier_def unat_mult_lem [THEN iffD1] mult.commute)
  have "CalcBaseFee cfg parent = Ok InitialBaseFee" using False assms(1) by (simp add: CalcBaseFee_def)
  then show ?thesis using False assms(1,2) CalcGasLimit_verifies [of "h_GasLimit parent * ElasticityMultiplier"] assms(5,6) two
    by (simp add: header_fees_def VerifyEip1559Header_def parent_gas_limit_def Let_def InitialBaseFee_def)
qed

theorem mined_header_verifies_witness:
  "\<exists>gasLimit baseFee. header_fees demo_config 40000000 demo_header = Ok (gasLimit, baseFee) \<and>
    VerifyEip1559Header demo_config demo_header (demo_header\<lparr>h_GasLimit := gasLimit, h_BaseFee := Some baseFee\<rparr>) = Ok None"
  using mined_header_verifies [of demo_header 20 demo_config 1000 40000000 demo_header] demo_header_london(2)
  by (simp add: demo_header_def)

end
