(* ===== verification/Transition.thy ===== *)
theory Transition
  imports ChainConfig Interpreter
begin

text \<open>
  Applying one message: \<open>internal/state_transition.go\<close>, the gas pool of \<open>common/gaspool.go\<close>, the
  message of \<open>common/transaction/transaction.go\<close> and \<open>ActivePrecompiles\<close> of
  \<open>internal/vm/contracts.go\<close>. The message is the \<open>transaction.Message\<close> that implements the interface;
  its accessors return pointers to its own fields, so none of the prices is nil. An error value
  stands for the Go error it wraps; the state it is returned with is the state the code leaves
  behind.
\<close>

section \<open>Gas pool\<close>

definition gp_AddGas :: "u64 \<Rightarrow> u64 \<Rightarrow> u64 res" where
  "gp_AddGas amount pool = (if pool > MaxUint64 - amount then Panic Impossible else Ok (pool + amount))"

text \<open>\<open>None\<close> is \<open>ErrGasLimitReached\<close>.\<close>

definition gp_SubGas :: "u64 \<Rightarrow> u64 \<Rightarrow> u64 option" where
  "gp_SubGas amount pool = (if pool < amount then None else Some (pool - amount))"

section \<open>Messages\<close>

type_synonym AccessTuples = "(address \<times> hash list) list"

definition StorageKeys :: "AccessTuples \<Rightarrow> nat" where
  "StorageKeys al = sum_list (map (\<lambda>(_, ks). length ks) al)"

record Message =
  msg_to :: "address option"
  msg_from :: address
  msg_nonce :: u64
  msg_amount :: u256
  msg_gasLimit :: u64
  msg_gasPrice :: u256
  msg_feeCap :: u256
  msg_tip :: u256
  msg_data :: bytes
  msg_accessList :: AccessTuples
  msg_checkNonce :: bool
  msg_isFree :: bool

record ExecutionResult =
  UsedGas :: u64
  Err :: "evm_error option"
  ReturnData :: bytes

definition Failed :: "ExecutionResult \<Rightarrow> bool" where
  "Failed r \<longleftrightarrow> Err r \<noteq> None"

text \<open>The data of a result that is no error, and the data of a revert.\<close>

definition result_Return :: "ExecutionResult \<Rightarrow> bytes" where
  "result_Return r = (if Err r \<noteq> None then [] else ReturnData r)"

definition result_Revert :: "ExecutionResult \<Rightarrow> bytes" where
  "result_Revert r = (if Err r \<noteq> Some ErrExecutionReverted then [] else ReturnData r)"

datatype transition_error =
    ErrNonceTooHigh
  | ErrNonceTooLow
  | ErrNonceMax
  | ErrSenderNoEOA
  | ErrTipAboveFeeCap
  | ErrFeeCapTooLow
  | ErrInsufficientFunds
  | ErrGasLimitReached
  | ErrGasOverflow
  | ErrIntrinsicGas

section \<open>Intrinsic gas\<close>

definition toWordSize :: "u64 \<Rightarrow> u64" where
  "toWordSize sz = (if sz > MaxUint64 - 31 then MaxUint64 div 32 + 1 else (sz + 31) div 32)"

text \<open>One checked addition of \<open>n\<close> units at a price.\<close>

definition add_units :: "u64 \<Rightarrow> u64 \<Rightarrow> u64 \<Rightarrow> u64 option" where
  "add_units gas price n = (if (MaxUint64 - gas) div price < n then None else Some (gas + n * price))"

definition data_gas :: "bytes \<Rightarrow> bool \<Rightarrow> bool \<Rightarrow> u64 \<Rightarrow> u64 option" where
  "data_gas cd isEIP2028 wordGas gas =
     (let dataLen = of_nat (length cd);
          nz = of_nat (length (filter (\<lambda>byt. byt \<noteq> 0) cd));
          nonZeroGas = (if isEIP2028 then TxDataNonZeroGasEIP2028 else TxDataNonZeroGasFrontier)
      in Option.bind (add_units gas nonZeroGas nz) (\<lambda>gas.
         Option.bind (add_units gas TxDataZeroGas (dataLen - nz)) (\<lambda>gas.
         if wordGas then add_units gas InitCodeWordGas (toWordSize dataLen) else Some gas)))"

definition IntrinsicGas :: "bytes \<Rightarrow> AccessTuples \<Rightarrow> bool \<Rightarrow> bool \<Rightarrow> bool \<Rightarrow> bool \<Rightarrow> u64 option" where
  "IntrinsicGas cd al isContractCreation isHomestead isEIP2028 isEIP3860 =
     (let gas = (if isContractCreation \<and> isHomestead then TxGasContractCreation else TxGas)
      in Option.bind (if length cd > 0 then data_gas cd isEIP2028 (isContractCreation \<and> isEIP3860) gas else Some gas) (\<lambda>gas.
         Some (gas + of_nat (length al) * TxAccessListAddressGas + of_nat (StorageKeys al) * TxAccessListStorageKeyGas)))"

section \<open>The state of a transition\<close>

text \<open>The prices, the value and the data are read from the message.\<close>

record StateTransition =
  gp :: u64
  st_gas :: u64
  initialGas :: u64
  st_evm :: EVM

definition NewStateTransition :: "EVM \<Rightarrow> u64 \<Rightarrow> StateTransition" where
  "NewStateTransition ev pool = \<lparr>gp = pool, st_gas = 0, initialGas = 0, st_evm = ev\<rparr>"

definition gasUsed :: "StateTransition \<Rightarrow> u64" where
  "gasUsed st = initialGas st - st_gas st"

definition st_state :: "(IntraBlockState \<Rightarrow> IntraBlockState) \<Rightarrow> StateTransition \<Rightarrow> StateTransition" where
  [go_defs]: "st_state f st = st\<lparr>st_evm := (st_evm st)\<lparr>ibs := f (ibs (st_evm st))\<rparr>\<rparr>"

definition st_read :: "(IntraBlockState \<Rightarrow> IntraBlockState \<times> 'a) \<Rightarrow> StateTransition \<Rightarrow> StateTransition \<times> 'a" where
  [go_defs]: "st_read f st = (case f (ibs (st_evm st)) of (s, v) \<Rightarrow> (st\<lparr>st_evm := (st_evm st)\<lparr>ibs := s\<rparr>\<rparr>, v))"

section \<open>Buying gas\<close>

text \<open>\<open>MulOverflow\<close> and \<open>AddOverflow\<close> of the uint256 package: the wrapped result and whether it
  wrapped.\<close>

definition MulOverflow :: "u256 \<Rightarrow> u256 \<Rightarrow> u256 \<times> bool" where
  "MulOverflow x y = (x * y, unat x * unat y \<ge> 2 ^ 256)"

definition AddOverflow :: "u256 \<Rightarrow> u256 \<Rightarrow> u256 \<times> bool" where
  "AddOverflow x y = (x + y, unat x + unat y \<ge> 2 ^ 256)"

text \<open>What the sender must own: \<open>None\<close> when a product or the sum overflows.\<close>

definition gas_cost :: "Message \<Rightarrow> (u256 \<times> u256) option" where
  "gas_cost msg =
     (let (mgval, overflow) = MulOverflow (SetUint64 (msg_gasLimit msg)) (msg_gasPrice msg)
      in if overflow then None
         else let (balanceCheck, overflow) = MulOverflow (SetUint64 (msg_gasLimit msg)) (msg_feeCap msg)
         in if overflow then None
            else let (balanceCheck, overflow) = AddOverflow balanceCheck (msg_amount msg)
            in if overflow then None else Some (mgval, balanceCheck))"

definition buyGas :: "lib \<Rightarrow> Message \<Rightarrow> bool \<Rightarrow> StateTransition \<Rightarrow> StateTransition \<times> transition_error option" where
  "buyGas L msg gasBailout st =
     (case gas_cost msg of
        None \<Rightarrow> (st, Some ErrInsufficientFunds)
      | Some (mgval, balanceCheck) \<Rightarrow>
          let (st, bal) = st_read (GetBalance L (msg_from msg)) st;
              subBalance = (\<not> bal < balanceCheck)
          in if \<not> subBalance \<and> \<not> gasBailout then (st, Some ErrInsufficientFunds)
             else if gp_SubGas (msg_gasLimit msg) (gp st) = None \<and> \<not> gasBailout then (st, Some ErrGasLimitReached)
             else
               let st = st\<lparr>gp := (case gp_SubGas (msg_gasLimit msg) (gp st) of None \<Rightarrow> gp st | Some pool \<Rightarrow> pool)\<rparr>;
                   st = st\<lparr>st_gas := st_gas st + msg_gasLimit msg, initialGas := msg_gasLimit msg\<rparr>
               in (if subBalance then st_state (SubBalance L (msg_from msg) mgval) st else st, None))"

section \<open>Checks before the message runs\<close>

definition CheckEip1559TxGasFeeCap :: "u256 \<Rightarrow> u256 \<Rightarrow> u256 option \<Rightarrow> bool \<Rightarrow> transition_error option" where
  "CheckEip1559TxGasFeeCap gasFeeCap tip baseFee isFree =
     (if gasFeeCap < tip then Some ErrTipAboveFeeCap
      else if (case baseFee of None \<Rightarrow> False | Some fee \<Rightarrow> gasFeeCap < fee) \<and> \<not> isFree then Some ErrFeeCapTooLow
      else None)"

definition check_sender :: "lib \<Rightarrow> Message \<Rightarrow> StateTransition \<Rightarrow> StateTransition \<times> transition_error option" where
  "check_sender L msg st =
     (if msg_checkNonce msg then
        let (st, stNonce) = st_read (GetNonce L (msg_from msg)) st
        in if stNonce < msg_nonce msg then (st, Some ErrNonceTooHigh)
           else if stNonce > msg_nonce msg then (st, Some ErrNonceTooLow)
           else if stNonce + 1 < stNonce then (st, Some ErrNonceMax)
           else
             let (st, codeHash) = st_read (GetCodeHash L (msg_from msg)) st
             in (st, if codeHash \<noteq> emptyCodeHash L \<and> codeHash \<noteq> 0 then Some ErrSenderNoEOA else None)
      else (st, None))"

definition check_fees :: "env \<Rightarrow> Message \<Rightarrow> transition_error option" where
  "check_fees E msg =
     (if IsLondon (chainRules E) \<and> (\<not> NoBaseFee (config E) \<or> msg_feeCap msg \<noteq> 0 \<or> msg_tip msg \<noteq> 0)
      then CheckEip1559TxGasFeeCap (msg_feeCap msg) (msg_tip msg) (BaseFee (blockContext E)) (msg_isFree msg)
      else None)"

definition preCheck :: "env \<Rightarrow> Message \<Rightarrow> bool \<Rightarrow> StateTransition \<Rightarrow> StateTransition \<times> transition_error option" where
  "preCheck E msg gasBailout st =
     (case check_sender (env_lib E) msg st of
        (st, Some e) \<Rightarrow> (st, Some e)
      | (st, None) \<Rightarrow>
          (case check_fees E msg of
             Some e \<Rightarrow> (st, Some e)
           | None \<Rightarrow> buyGas (env_lib E) msg gasBailout st))"

section \<open>Running the message\<close>

text \<open>The addresses of each table of precompiled contracts, in the order in which \<open>init\<close> enumerates
  the map.\<close>

record precompile_addresses =
  PrecompiledAddressesHomestead :: "address list"
  PrecompiledAddressesByzantium :: "address list"
  PrecompiledAddressesIstanbul :: "address list"
  PrecompiledAddressesIstanbulForBSC :: "address list"
  PrecompiledAddressesBerlin :: "address list"
  PrecompiledAddressesNano :: "address list"
  PrecompiledAddressesMoran :: "address list"

definition ActivePrecompiles :: "precompile_addresses \<Rightarrow> Rules \<Rightarrow> address list" where
  "ActivePrecompiles pa r =
     (if IsMoran r then PrecompiledAddressesMoran pa
      else if IsNano r then PrecompiledAddressesNano pa
      else if IsBerlin r then PrecompiledAddressesBerlin pa
      else if IsIstanbul r then
        if IsParlia r then PrecompiledAddressesIstanbulForBSC pa else PrecompiledAddressesIstanbul pa
      else if IsByzantium r then PrecompiledAddressesByzantium pa
      else PrecompiledAddressesHomestead pa)"

definition value_bailout :: "env \<Rightarrow> Message \<Rightarrow> bool \<Rightarrow> StateTransition \<Rightarrow> StateTransition \<times> bool" where
  "value_bailout E msg gasBailout st =
     (if gasBailout \<and> msg_amount msg \<noteq> 0 then
        let (st, ok) = st_read (CanTransferFunc (blockContext E) (env_lib E) (msg_from msg) (msg_amount msg)) st
        in (st, \<not> ok)
      else (st, False))"

definition warm_up :: "precompile_addresses \<Rightarrow> env \<Rightarrow> Message \<Rightarrow> StateTransition \<Rightarrow> StateTransition res" where
  "warm_up pa E msg st =
     (if IsBerlin (chainRules E) then
        bnd (PrepareAccessList (msg_from msg) (msg_to msg) (ActivePrecompiles pa (chainRules E)) (msg_accessList msg)
               (ibs (st_evm st))) (\<lambda>s.
        let s = (if IsShanghai (chainRules E) then AddAddressToAccessList (Coinbase (blockContext E)) s else s)
        in Ok (st_state (\<lambda>_. s) st))
      else Ok st)"

definition run_message ::
  "runner \<Rightarrow> env \<Rightarrow> Message \<Rightarrow> bool \<Rightarrow> StateTransition \<Rightarrow> (StateTransition \<times> bytes \<times> evm_error option) res" where
  "run_message run E msg bailout st =
     (case msg_to msg of
        None \<Rightarrow>
          bnd (Create run E (AccountRef (msg_from msg)) (msg_data msg) (st_gas st) (msg_amount msg) (st_evm st))
            (\<lambda>(ev, ret, _, gas, vmerr). Ok (st\<lparr>st_evm := ev, st_gas := gas\<rparr>, ret, vmerr))
      | Some dst \<Rightarrow>
          let (st, nonce) = st_read (GetNonce (env_lib E) (msg_from msg)) st;
              st = st_state (SetNonce (env_lib E) (msg_from msg) (nonce + 1)) st
          in bnd (Call run E (AccountRef (msg_from msg)) dst (msg_data msg) (st_gas st) (Some (msg_amount msg)) bailout (st_evm st))
               (\<lambda>(ev, ret, gas, vmerr). Ok (st\<lparr>st_evm := ev, st_gas := gas\<rparr>, ret, vmerr)))"

definition refundGas :: "lib \<Rightarrow> Message \<Rightarrow> u64 \<Rightarrow> StateTransition \<Rightarrow> StateTransition res" where
  "refundGas L msg refundQuotient st =
     (let rf = gasUsed st div refundQuotient;
          rf = (if rf > GetRefund (ibs (st_evm st)) then GetRefund (ibs (st_evm st)) else rf);
          st = st\<lparr>st_gas := st_gas st + rf\<rparr>;
          remaining = SetUint64 (st_gas st) * msg_gasPrice msg;
          st = st_state (AddBalance L (msg_from msg) remaining) st
      in bnd (gp_AddGas (st_gas st) (gp st)) (\<lambda>pool. Ok (st\<lparr>gp := pool\<rparr>)))"

definition effective_tip :: "env \<Rightarrow> Message \<Rightarrow> u256 res" where
  "effective_tip E msg =
     (if IsLondon (chainRules E) then
        bnd (of_opt NilDereference (BaseFee (blockContext E))) (\<lambda>fee.
        Ok (if msg_feeCap msg > fee then Min256 (msg_tip msg) (msg_feeCap msg - fee) else 0))
      else Ok (msg_gasPrice msg))"

definition burn_fee :: "ChainConfig \<Rightarrow> env \<Rightarrow> Message \<Rightarrow> StateTransition \<Rightarrow> StateTransition res" where
  "burn_fee cc E msg st =
     (if \<not> msg_isFree msg \<and> IsLondon (chainRules E) \<and> IsEip1559FeeCollector (chainRules E) then
        bnd (of_opt NilDereference (Eip1559FeeCollector cc)) (\<lambda>burntContractAddress.
        bnd (of_opt NilDereference (BaseFee (blockContext E))) (\<lambda>fee.
        Ok (st_state (AddBalance (env_lib E) burntContractAddress (SetUint64 (gasUsed st) * fee)) st)))
      else Ok st)"

text \<open>Everything after the gas was bought and the intrinsic gas paid.\<close>

definition execute_message ::
  "runner \<Rightarrow> ChainConfig \<Rightarrow> precompile_addresses \<Rightarrow> env \<Rightarrow> Message \<Rightarrow> bool \<Rightarrow> bool \<Rightarrow> StateTransition
     \<Rightarrow> (StateTransition \<times> ExecutionResult) res" where
  "execute_message run cc pa E msg refunds gasBailout st =
     (let rules = chainRules E; L = env_lib E;
          (st, bailout) = value_bailout E msg gasBailout st
      in bnd (warm_up pa E msg st) (\<lambda>st.
         bnd (run_message run E msg bailout st) (\<lambda>(st, ret, vmerr).
         bnd (if refunds then refundGas L msg (if IsLondon rules then RefundQuotientEIP3529 else RefundQuotient) st else Ok st) (\<lambda>st.
         bnd (effective_tip E msg) (\<lambda>effectiveTip.
         let amount = SetUint64 (gasUsed st) * effectiveTip;
             st = st_state (AddBalance L (if Parlia cc then SystemAddress else Coinbase (blockContext E)) amount) st
         in bnd (burn_fee cc E msg st) (\<lambda>st.
            Ok (st, \<lparr>UsedGas = gasUsed st, Err = vmerr, ReturnData = ret\<rparr>)))))))"

definition TransitionDb ::
  "runner \<Rightarrow> ChainConfig \<Rightarrow> precompile_addresses \<Rightarrow> env \<Rightarrow> Message \<Rightarrow> bool \<Rightarrow> bool \<Rightarrow> StateTransition
     \<Rightarrow> (StateTransition \<times> (transition_error + ExecutionResult)) res" where
  "TransitionDb run cc pa E msg refunds gasBailout st =
     (let gasBailout = (Parlia cc \<or> gasBailout)
      in case preCheck E msg gasBailout st of
           (st, Some e) \<Rightarrow> Ok (st, Inl e)
         | (st, None) \<Rightarrow>
             let rules = chainRules E
             in (case IntrinsicGas (msg_data msg) (msg_accessList msg) (msg_to msg = None)
                        (IsHomestead rules) (IsIstanbul rules) (IsShanghai rules) of
                   None \<Rightarrow> Ok (st, Inl ErrGasOverflow)
                 | Some gas \<Rightarrow>
                     if st_gas st < gas then Ok (st, Inl ErrIntrinsicGas)
                     else bnd (execute_message run cc pa E msg refunds gasBailout (st\<lparr>st_gas := st_gas st - gas\<rparr>))
                       (\<lambda>(st, r). Ok (st, Inr r))))"

definition ApplyMessage ::
  "runner \<Rightarrow> ChainConfig \<Rightarrow> precompile_addresses \<Rightarrow> env \<Rightarrow> Message \<Rightarrow> EVM \<Rightarrow> u64 \<Rightarrow> bool \<Rightarrow> bool
     \<Rightarrow> (StateTransition \<times> (transition_error + ExecutionResult)) res" where
  "ApplyMessage run cc pa E msg ev pool refunds gasBailout =
     TransitionDb run cc pa E msg refunds gasBailout (NewStateTransition ev pool)"

end
