(* ===== verification/TransitionProps.thy ===== *)
theory TransitionProps
  imports VmProps Transition
begin

text \<open>
  The properties of applying one message: what it costs before it runs, when it is accepted, and
  that its gas is accounted for exactly.
\<close>

section \<open>Intrinsic gas\<close>

lemma unat_of_nat_small: "n < 2 ^ 64 \<Longrightarrow> unat (of_nat n :: u64) = n"
  by (simp add: unat_of_nat take_bit_nat_eq_self)

lemma bind_assoc: "Option.bind (Option.bind x f) g = Option.bind x (\<lambda>y. Option.bind (f y) g)"
  by (cases x) simp_all

lemma unat_MaxUint64_minus: "unat (MaxUint64 - g) = 2 ^ 64 - 1 - unat g"
  using unat_word_bound [of g] by (simp add: MaxUint64_def unat_sub_if')

text \<open>A sum that fails when it does not fit in 64 bits.\<close>

definition sum64 :: "nat \<Rightarrow> u64 option" where
  "sum64 n = (if n < 2 ^ 64 then Some (of_nat n) else None)"

lemma sum64_bind: "Option.bind (sum64 a) (\<lambda>g. sum64 (unat g + b)) = sum64 (a + b)"
  by (simp add: sum64_def unat_of_nat_small)

lemma sum64_unat: "sum64 (unat g) = Some g"
  using unat_u64_bound [of g] by (simp add: sum64_def)

lemma add_units_exact:
  assumes "price \<noteq> 0"
  shows "add_units g price n = sum64 (unat g + unat n * unat price)"
proof -
  have "0 < unat price" using assms by (simp add: unat_gt_0)
  then have "(MaxUint64 - g) div price < n \<longleftrightarrow> 2 ^ 64 - 1 - unat g < unat n * unat price"
    by (simp add: word_less_nat_alt unat_div unat_MaxUint64_minus div_less_iff_less_mult)
  also have "\<dots> \<longleftrightarrow> \<not> unat g + unat n * unat price < 2 ^ 64"
    using unat_u64_bound [of g] by auto
  finally show ?thesis by (simp add: add_units_def sum64_def)
qed

text \<open>The price of the call data without the access list, as a natural number.\<close>

definition data_price :: "bytes \<Rightarrow> bool \<Rightarrow> bool \<Rightarrow> nat" where
  "data_price cd isEIP2028 wordGas =
     length (filter (\<lambda>b. b \<noteq> 0) cd) * (if isEIP2028 then 16 else 68) + length (filter (\<lambda>b. b = 0) cd) * 4
     + (if wordGas then (length cd + 31) div 32 * 2 else 0)"

definition base_price :: "bool \<Rightarrow> nat" where
  "base_price creates = (if creates then 53000 else 21000)"

lemma toWordSize_exact: "n < 2 ^ 63 \<Longrightarrow> unat (toWordSize (of_nat n)) = (n + 31) div 32"
proof -
  assume n: "n < 2 ^ 63"
  then have "unat (of_nat n :: u64) = n" by (simp add: unat_of_nat_small)
  moreover from this n have "unat (of_nat n + 31 :: u64) = n + 31" by (simp add: unat_add_no_wrap)
  ultimately show ?thesis using n by (simp add: toWordSize_def MaxUint64_def word_less_nat_alt unat_div)
qed

lemma data_gas_exact:
  assumes "length cd < 2 ^ 63"
  shows "data_gas cd e w g = sum64 (unat g + data_price cd e w)"
proof -
  define nz where "nz = length (filter (\<lambda>b. b \<noteq> 0) cd)"
  define z where "z = length (filter (\<lambda>b. b = 0) cd)"
  have len: "length cd = nz + z"
    using sum_length_filter_compl [of "\<lambda>b. b \<noteq> 0" cd] by (simp add: nz_def z_def)
  have u: "unat (of_nat nz :: u64) = nz" "unat (of_nat (length cd) - of_nat nz :: u64) = z"
    using assms by (simp_all add: len unat_of_nat_small)
  define p where "p = (if e then TxDataNonZeroGasEIP2028 else TxDataNonZeroGasFrontier)"
  have p: "p \<noteq> 0" "unat p = (if e then 16 else 68)" by (simp_all add: p_def param_defs)
  have q: "unat TxDataZeroGas = 4" "TxDataZeroGas \<noteq> 0" "unat InitCodeWordGas = 2" "InitCodeWordGas \<noteq> 0"
    by (simp_all add: param_defs)
  note words = toWordSize_exact [OF assms]
  have "data_gas cd e w g = Option.bind (Option.bind (sum64 (unat g + nz * unat p)) (\<lambda>g. sum64 (unat g + z * 4)))
      (\<lambda>g. sum64 (unat g + (if w then (length cd + 31) div 32 * 2 else 0)))"
    unfolding data_gas_def Let_def nz_def [symmetric] p_def [symmetric]
    by (cases w) (simp_all add: add_units_exact p(1) q u words sum64_unat bind_assoc)
  also have "\<dots> = sum64 (unat g + data_price cd e w)"
    unfolding sum64_bind by (simp add: data_price_def nz_def z_def p(2) add.assoc)
  finally show ?thesis .
qed

text \<open>C9. For data of any length a Go slice can have, the intrinsic gas is the sum of the prices of
  the base, of the zero and non-zero bytes and of the init code words, and it fails exactly when
  that sum does not fit in 64 bits. The price of the access list is then added modulo 2^64.\<close>

theorem intrinsic_gas_exact:
  assumes "length cd < 2 ^ 63"
  shows "IntrinsicGas cd al creates homestead eip2028 eip3860 =
    (let sum = base_price (creates \<and> homestead) + data_price cd eip2028 (creates \<and> eip3860)
     in if sum < 2 ^ 64 then Some (of_nat (sum + 2400 * length al + 1900 * StorageKeys al)) else None)"
proof -
  define g where "g = (if creates \<and> homestead then TxGasContractCreation else TxGas)"
  have g: "unat g = base_price (creates \<and> homestead)" by (simp add: g_def base_price_def param_defs)
  have e: "data_price [] eip w = 0" for eip w by (simp add: data_price_def)
  have "(if length cd > 0 then data_gas cd eip2028 (creates \<and> eip3860) g else Some g) =
      sum64 (base_price (creates \<and> homestead) + data_price cd eip2028 (creates \<and> eip3860))"
    using sum64_unat [of g] data_gas_exact [OF assms, of eip2028 "creates \<and> eip3860" g] e
    unfolding g by (cases "cd = []") simp_all
  then show ?thesis
    unfolding IntrinsicGas_def Let_def g_def [symmetric] by (simp add: sum64_def param_defs algebra_simps)
qed

theorem intrinsic_gas_exact_witness:
  "IntrinsicGas [0, 1, 2] [(7, [1, 2])] False True True True = Some (of_nat (21000 + 4 + 2 * 16 + 2400 + 2 * 1900))"
  by (subst intrinsic_gas_exact) (simp_all add: Let_def base_price_def data_price_def StorageKeys_def)

section \<open>Accepting a message\<close>

text \<open>Reading an account twice reads the same object.\<close>

lemma setStateObject_sets [simp]: "stateObjects (setStateObject a so s) a = None \<longleftrightarrow> False"
  by (simp add: setStateObject_def put_object_def split: option.splits)

lemma createObject_sets [simp]: "stateObjects (createObject L a p s) a = None \<longleftrightarrow> False"
  by (simp add: createObject_def Let_def)

lemma pending_nil [simp]: "pending (s\<lparr>nilAccounts := n\<rparr>) a = pending s a"
  by (simp add: pending_def)

lemma getStateObject_idem [simp]: "getStateObject L a (getStateObject L a s) = getStateObject L a s"
proof (cases "stateObjects (getStateObject L a s) a")
  case (Some so)
  then show ?thesis by (subst getStateObject_def) simp
next
  case None
  have s: "stateObjects s a = None" using None by (cases "stateObjects s a") (simp_all add: getStateObject_def)
  obtain acc err where r: "ReadAccountData (stateReader s) a = (acc, err)" by fastforce
  consider "a \<in> nilAccounts s" | "a \<notin> nilAccounts s" "err = None" | e where "a \<notin> nilAccounts s" "err = Some e" by blast
  then show ?thesis
  proof cases
    case 1
    then show ?thesis using None s by (simp add: getStateObject_def split: if_splits)
  next
    case 2
    then show ?thesis using None r s by (simp add: getStateObject_def Let_def split: option.splits if_splits)
  next
    case 3
    then have "getStateObject L a s = setErrorUnsafe e s" using r s by (cases acc) (simp_all add: getStateObject_def)
    then show ?thesis using 3 r s by (cases acc) (simp_all add: getStateObject_def setErrorUnsafe_def)
  qed
qed

text \<open>Lowering the balance of an existing account, as the balance shows it.\<close>

lemma GetBalance_SubBalance:
  assumes "live a (getStateObject L a s) \<noteq> None"
  shows "snd (GetBalance L a (SubBalance L a v (getStateObject L a s))) = snd (GetBalance L a s) - v"
proof -
  define t where "t = getStateObject L a s"
  obtain so where so: "stateObjects t a = Some so" "\<not> deleted so"
    using assms by (auto simp: t_def [symmetric] live_def split: option.splits if_splits)
  then have t: "GetOrNewStateObject L a t = t" by (simp add: GetOrNewStateObject_def getStateObject_def Let_def)
  have "\<exists>so'. stateObjects (SubBalance L a v t) a = Some so' \<and> \<not> deleted so' \<and> Balance (data so') = Balance (data so) - v"
    using so by (simp add: SubBalance_def t with_object_def live_def so_SubBalance_def so_SetBalance_def so_setBalance_def put_object_def)
  then show ?thesis using so
    by (auto simp: GetBalance_def Let_def live_def t_def [symmetric] getStateObject_def [of L a "SubBalance L a v t"])
qed

lemma reads_touch:
  "st_read (GetNonce L a) st = (st_state (getStateObject L a) st, snd (GetNonce L a (ibs (st_evm st))))"
  "st_read (GetCodeHash L a) st = (st_state (getStateObject L a) st, snd (GetCodeHash L a (ibs (st_evm st))))"
  "st_read (GetBalance L a) st = (st_state (getStateObject L a) st, snd (GetBalance L a (ibs (st_evm st))))"
  by (simp_all add: st_read_def st_state_def GetNonce_def GetCodeHash_def GetBalance_def Let_def)

lemma reads_again:
  "snd (GetCodeHash L a (getStateObject L a s)) = snd (GetCodeHash L a s)"
  "snd (GetBalance L a (getStateObject L a s)) = snd (GetBalance L a s)"
  by (simp_all add: GetCodeHash_def GetBalance_def Let_def live_def)

lemma st_state_fields [simp]:
  "gp (st_state f st) = gp st" "st_gas (st_state f st) = st_gas st" "initialGas (st_state f st) = initialGas st"
  "ibs (st_evm (st_state f st)) = f (ibs (st_evm st))"
  "depth (st_evm (st_state f st)) = depth (st_evm st)" "readOnly (st_evm (st_state f st)) = readOnly (st_evm st)"
  by (simp_all add: st_state_def)

definition sender_ok :: "lib \<Rightarrow> Message \<Rightarrow> IntraBlockState \<Rightarrow> bool" where
  "sender_ok L msg s \<longleftrightarrow> (msg_checkNonce msg \<longrightarrow>
     snd (GetNonce L (msg_from msg) s) = msg_nonce msg \<and> msg_nonce msg \<noteq> MaxUint64 \<and>
     snd (GetCodeHash L (msg_from msg) s) \<in> {emptyCodeHash L, 0})"

lemma wraps_at_max: "x + 1 < x \<longleftrightarrow> x = MaxUint64"
proof (cases "x = MaxUint64")
  case False
  have "unat MaxUint64 = 2 ^ 64 - 1" by (simp add: MaxUint64_def)
  then have "unat x \<noteq> 2 ^ 64 - 1" using False by (metis word_unat_eq_iff)
  then have "unat x + 1 < 2 ^ 64" using unat_u64_bound [of x] by simp
  then have "unat (x + 1) = unat x + 1" by (subst unat_add_no_wrap) simp_all
  then show ?thesis using False by (simp add: word_less_nat_alt)
qed (simp add: MaxUint64_def)

lemma check_sender_spec:
  "\<exists>st' e. check_sender L msg st = (st', e) \<and> (e = None \<longleftrightarrow> sender_ok L msg (ibs (st_evm st))) \<and>
     gp st' = gp st \<and> st_gas st' = st_gas st \<and> initialGas st' = initialGas st \<and>
     depth (st_evm st') = depth (st_evm st) \<and> readOnly (st_evm st') = readOnly (st_evm st) \<and>
     snd (GetBalance L (msg_from msg) (ibs (st_evm st'))) = snd (GetBalance L (msg_from msg) (ibs (st_evm st))) \<and>
     getStateObject L (msg_from msg) (ibs (st_evm st')) = getStateObject L (msg_from msg) (ibs (st_evm st))"
  by (auto simp: check_sender_def sender_ok_def reads_touch reads_again wraps_at_max)

definition funds_ok :: "Message \<Rightarrow> u256 \<Rightarrow> u64 \<Rightarrow> bool" where
  "funds_ok msg balance pool \<longleftrightarrow>
     unat (msg_gasLimit msg) * unat (msg_gasPrice msg) < 2 ^ 256 \<and>
     unat (msg_gasLimit msg) * unat (msg_feeCap msg) + unat (msg_amount msg) \<le> unat balance \<and> msg_gasLimit msg \<le> pool"

definition fees_ok :: "env \<Rightarrow> Message \<Rightarrow> bool" where
  "fees_ok E msg \<longleftrightarrow>
     (IsLondon (chainRules E) \<and> (NoBaseFee (config E) \<longrightarrow> msg_feeCap msg \<noteq> 0 \<or> msg_tip msg \<noteq> 0) \<longrightarrow>
        msg_tip msg \<le> msg_feeCap msg \<and>
        (\<forall>fee. BaseFee (blockContext E) = Some fee \<longrightarrow> fee \<le> msg_feeCap msg \<or> msg_isFree msg))"

lemma unat_mult_small: "unat x * unat y < 2 ^ 256 \<Longrightarrow> unat (x * y :: u256) = unat x * unat y"
  using unat_mult_lem [of x y] by simp

lemma gas_cost_spec:
  "gas_cost msg =
     (if unat (msg_gasLimit msg) * unat (msg_gasPrice msg) < 2 ^ 256 \<and>
         unat (msg_gasLimit msg) * unat (msg_feeCap msg) + unat (msg_amount msg) < 2 ^ 256
      then Some (SetUint64 (msg_gasLimit msg) * msg_gasPrice msg, SetUint64 (msg_gasLimit msg) * msg_feeCap msg + msg_amount msg)
      else None)"
  by (auto simp: gas_cost_def MulOverflow_def AddOverflow_def unat_mult_small)

lemma unat_cost:
  assumes "unat (msg_gasLimit msg) * unat (msg_feeCap msg) + unat (msg_amount msg) < 2 ^ 256"
  shows "unat (SetUint64 (msg_gasLimit msg) * msg_feeCap msg + msg_amount msg) =
    unat (msg_gasLimit msg) * unat (msg_feeCap msg) + unat (msg_amount msg)"
  using assms by (subst unat_add_lem [THEN iffD1]) (simp_all add: unat_mult_small)

lemma buyGas_spec:
  "\<exists>st' e. buyGas L msg False st = (st', e) \<and>
     (e = None \<longleftrightarrow> funds_ok msg (snd (GetBalance L (msg_from msg) (ibs (st_evm st)))) (gp st)) \<and>
     depth (st_evm st') = depth (st_evm st) \<and> readOnly (st_evm st') = readOnly (st_evm st) \<and>
     (if e = None
      then gp st' = gp st - msg_gasLimit msg \<and> st_gas st' = st_gas st + msg_gasLimit msg \<and> initialGas st' = msg_gasLimit msg
      else gp st' = gp st) \<and>
     (e = None \<longrightarrow> ibs (st_evm st') =
        SubBalance L (msg_from msg) (SetUint64 (msg_gasLimit msg) * msg_gasPrice msg) (getStateObject L (msg_from msg) (ibs (st_evm st))))"
proof (cases "gas_cost msg")
  case None
  then have "\<not> funds_ok msg b p" for b p
    using unat_word_bound [of b] by (auto simp: gas_cost_spec funds_ok_def split: if_splits)
  with None show ?thesis by (simp add: buyGas_def)
next
  case (Some c)
  define bal where "bal = snd (GetBalance L (msg_from msg) (ibs (st_evm st)))"
  obtain mgval check where c: "c = (mgval, check)" by fastforce
  from Some c have mgval: "mgval = SetUint64 (msg_gasLimit msg) * msg_gasPrice msg"
    by (auto simp: gas_cost_spec split: if_splits)
  from Some c have cost: "unat (msg_gasLimit msg) * unat (msg_gasPrice msg) < 2 ^ 256"
      "unat check = unat (msg_gasLimit msg) * unat (msg_feeCap msg) + unat (msg_amount msg)"
    by (auto simp: gas_cost_spec unat_cost split: if_splits)
  then have "funds_ok msg bal (gp st) \<longleftrightarrow> check \<le> bal \<and> msg_gasLimit msg \<le> gp st"
    by (simp add: funds_ok_def word_le_nat_alt)
  then show ?thesis
    by (auto simp: buyGas_def Some c mgval reads_touch bal_def [symmetric] gp_SubGas_def)
qed

lemma check_fees_ok: "check_fees E msg = None \<longleftrightarrow> fees_ok E msg"
  by (auto simp: check_fees_def fees_ok_def CheckEip1559TxGasFeeCap_def not_less split: option.splits)

lemma preCheck_spec:
  "\<exists>st' e. preCheck E msg False st = (st', e) \<and>
     (e = None \<longleftrightarrow> sender_ok (env_lib E) msg (ibs (st_evm st)) \<and> fees_ok E msg \<and>
        funds_ok msg (snd (GetBalance (env_lib E) (msg_from msg) (ibs (st_evm st)))) (gp st)) \<and>
     depth (st_evm st') = depth (st_evm st) \<and> readOnly (st_evm st') = readOnly (st_evm st) \<and>
     (if e = None
      then gp st' = gp st - msg_gasLimit msg \<and> st_gas st' = st_gas st + msg_gasLimit msg \<and> initialGas st' = msg_gasLimit msg
      else gp st' = gp st) \<and>
     (e = None \<longrightarrow> ibs (st_evm st') =
        SubBalance (env_lib E) (msg_from msg) (SetUint64 (msg_gasLimit msg) * msg_gasPrice msg)
          (getStateObject (env_lib E) (msg_from msg) (ibs (st_evm st))))"
proof -
  obtain st1 e1 where 1: "check_sender (env_lib E) msg st = (st1, e1)" "e1 = None \<longleftrightarrow> sender_ok (env_lib E) msg (ibs (st_evm st))"
      "gp st1 = gp st" "st_gas st1 = st_gas st" "depth (st_evm st1) = depth (st_evm st)" "readOnly (st_evm st1) = readOnly (st_evm st)"
      "snd (GetBalance (env_lib E) (msg_from msg) (ibs (st_evm st1))) = snd (GetBalance (env_lib E) (msg_from msg) (ibs (st_evm st)))"
      "getStateObject (env_lib E) (msg_from msg) (ibs (st_evm st1)) = getStateObject (env_lib E) (msg_from msg) (ibs (st_evm st))"
    using check_sender_spec [of "env_lib E" msg st] by (elim exE conjE) (rule that)
  obtain st2 e2 where 2: "buyGas (env_lib E) msg False st1 = (st2, e2)"
      "e2 = None \<longleftrightarrow> funds_ok msg (snd (GetBalance (env_lib E) (msg_from msg) (ibs (st_evm st1)))) (gp st1)"
      "depth (st_evm st2) = depth (st_evm st1)" "readOnly (st_evm st2) = readOnly (st_evm st1)"
      "if e2 = None then gp st2 = gp st1 - msg_gasLimit msg \<and> st_gas st2 = st_gas st1 + msg_gasLimit msg \<and> initialGas st2 = msg_gasLimit msg
       else gp st2 = gp st1"
      "e2 = None \<longrightarrow> ibs (st_evm st2) =
        SubBalance (env_lib E) (msg_from msg) (SetUint64 (msg_gasLimit msg) * msg_gasPrice msg)
          (getStateObject (env_lib E) (msg_from msg) (ibs (st_evm st1)))"
    using buyGas_spec [of "env_lib E" msg st1] by (elim exE conjE) (rule that)
  show ?thesis
  proof (cases "e1 = None \<and> check_fees E msg = None")
    case True
    then have "preCheck E msg False st = (st2, e2)" by (simp add: preCheck_def 1(1) 2(1))
    with True 1 2 check_fees_ok [of E msg] show ?thesis by simp
  next
    case False
    then obtain e where "preCheck E msg False st = (st1, Some e)" by (cases e1) (auto simp: preCheck_def 1(1))
    with False 1 check_fees_ok [of E msg] show ?thesis by auto
  qed
qed

text \<open>C8. Without bailout a message is accepted exactly when its nonce is the sender's (and can be
  increased) and the sender has no code, the tip and the base fee are within the fee cap, the
  sender owns the gas at the fee cap plus the value, the gas at the gas price fits in 256 bits,
  and the pool has the gas. The nonce and code conditions are only asked for when the nonce
  is checked, the fee conditions after London. Accepting buys the gas: the pool loses the gas
  limit, the transition gains it and remembers it as its initial gas, and the state becomes the one
  that has read the sender's account and taken the gas at the gas price from it, so that the balance
  of an existing sender is lower by just that. A message that is not accepted leaves the pool as it was.\<close>

theorem preCheck_accepts:
  "(snd (preCheck E msg False st) = None \<longleftrightarrow>
     (msg_checkNonce msg \<longrightarrow>
        snd (GetNonce (env_lib E) (msg_from msg) (ibs (st_evm st))) = msg_nonce msg \<and> msg_nonce msg \<noteq> MaxUint64 \<and>
        snd (GetCodeHash (env_lib E) (msg_from msg) (ibs (st_evm st))) \<in> {emptyCodeHash (env_lib E), 0}) \<and>
     (IsLondon (chainRules E) \<and> (NoBaseFee (config E) \<longrightarrow> msg_feeCap msg \<noteq> 0 \<or> msg_tip msg \<noteq> 0) \<longrightarrow>
        msg_tip msg \<le> msg_feeCap msg \<and>
        (\<forall>fee. BaseFee (blockContext E) = Some fee \<longrightarrow> fee \<le> msg_feeCap msg \<or> msg_isFree msg)) \<and>
     unat (msg_gasLimit msg) * unat (msg_gasPrice msg) < 2 ^ 256 \<and>
     unat (msg_gasLimit msg) * unat (msg_feeCap msg) + unat (msg_amount msg)
       \<le> unat (snd (GetBalance (env_lib E) (msg_from msg) (ibs (st_evm st)))) \<and>
     msg_gasLimit msg \<le> gp st) \<and>
   (case preCheck E msg False st of
      (st', Some _) \<Rightarrow> gp st' = gp st
    | (st', None) \<Rightarrow>
        gp st' = gp st - msg_gasLimit msg \<and> st_gas st' = st_gas st + msg_gasLimit msg \<and> initialGas st' = msg_gasLimit msg \<and>
        ibs (st_evm st') =
          SubBalance (env_lib E) (msg_from msg) (SetUint64 (msg_gasLimit msg) * msg_gasPrice msg)
            (getStateObject (env_lib E) (msg_from msg) (ibs (st_evm st))) \<and>
        (live (msg_from msg) (getStateObject (env_lib E) (msg_from msg) (ibs (st_evm st))) \<noteq> None \<longrightarrow>
          snd (GetBalance (env_lib E) (msg_from msg) (ibs (st_evm st'))) =
            snd (GetBalance (env_lib E) (msg_from msg) (ibs (st_evm st))) - SetUint64 (msg_gasLimit msg) * msg_gasPrice msg))"
proof -
  obtain st' e where 1: "preCheck E msg False st = (st', e)"
      "e = None \<longleftrightarrow> sender_ok (env_lib E) msg (ibs (st_evm st)) \<and> fees_ok E msg \<and>
        funds_ok msg (snd (GetBalance (env_lib E) (msg_from msg) (ibs (st_evm st)))) (gp st)"
      "if e = None then gp st' = gp st - msg_gasLimit msg \<and> st_gas st' = st_gas st + msg_gasLimit msg \<and> initialGas st' = msg_gasLimit msg
       else gp st' = gp st"
      "e = None \<longrightarrow> ibs (st_evm st') =
        SubBalance (env_lib E) (msg_from msg) (SetUint64 (msg_gasLimit msg) * msg_gasPrice msg)
          (getStateObject (env_lib E) (msg_from msg) (ibs (st_evm st)))"
    using preCheck_spec [of E msg st] by (elim exE conjE) (rule that)
  show ?thesis
    unfolding 1(1) snd_conv using 1(2) [unfolded sender_ok_def fees_ok_def funds_ok_def] 1(3,4)
    by (intro conjI) (simp only:, cases e, auto simp: GetBalance_SubBalance)
qed

definition demo_message :: Message where
  "demo_message =
     \<lparr>msg_to = Some 2, msg_from = 1, msg_nonce = 0, msg_amount = 0, msg_gasLimit = 30000, msg_gasPrice = 0, msg_feeCap = 0,
      msg_tip = 0, msg_data = [], msg_accessList = [], msg_checkNonce = False, msg_isFree = True\<rparr>"

definition demo_payer :: EVM where
  "demo_payer =
     (let acc = zero_account\<lparr>Initialised := True, Balance := 300000\<rparr>
      in demo_evm\<lparr>ibs := put_object 1 (newObject demo_lib 1 acc acc) (NewState demo_reader)\<rparr>)"

lemma demo_payer_simps:
  "live 1 (getStateObject demo_lib 1 (ibs demo_payer)) \<noteq> None" "snd (GetBalance demo_lib 1 (ibs demo_payer)) = 300000"
  by (simp_all add: demo_payer_def Let_def GetBalance_def getStateObject_def live_def put_object_def newObject_def zero_account_def)

theorem preCheck_accepts_witness:
  "snd (preCheck demo_env demo_message False (NewStateTransition demo_evm 100000)) = None \<and>
   snd (preCheck demo_env demo_message False (NewStateTransition demo_evm 20000)) \<noteq> None \<and>
   (case preCheck demo_env (demo_message\<lparr>msg_gasPrice := 2, msg_feeCap := 3\<rparr>) False (NewStateTransition demo_payer 100000) of
      (st, e) \<Rightarrow> e = None \<and> gp st = 70000 \<and> st_gas st = 30000 \<and> initialGas st = 30000 \<and>
        snd (GetBalance demo_lib 1 (ibs (st_evm st))) = 240000)"
proof (intro conjI)
  show "snd (preCheck demo_env demo_message False (NewStateTransition demo_evm 100000)) = None"
    using preCheck_accepts [of demo_env demo_message "NewStateTransition demo_evm 100000"]
    by (simp add: demo_message_def NewStateTransition_def word_le_nat_alt)
  show "snd (preCheck demo_env demo_message False (NewStateTransition demo_evm 20000)) \<noteq> None"
    using preCheck_accepts [of demo_env demo_message "NewStateTransition demo_evm 20000"]
    by (simp add: demo_message_def NewStateTransition_def word_le_nat_alt)
  have lib: "env_lib demo_env = demo_lib" by (simp add: demo_env_def)
  show "case preCheck demo_env (demo_message\<lparr>msg_gasPrice := 2, msg_feeCap := 3\<rparr>) False (NewStateTransition demo_payer 100000) of
      (st, e) \<Rightarrow> e = None \<and> gp st = 70000 \<and> st_gas st = 30000 \<and> initialGas st = 30000 \<and>
        snd (GetBalance demo_lib 1 (ibs (st_evm st))) = 240000"
    using preCheck_accepts [of demo_env "demo_message\<lparr>msg_gasPrice := 2, msg_feeCap := 3\<rparr>" "NewStateTransition demo_payer 100000"]
    by (auto simp: lib demo_message_def NewStateTransition_def demo_payer_simps word_le_nat_alt SetUint64_def split: prod.splits option.splits)
qed

end
