(* ===== verification/TransitionGas.thy ===== *)
theory TransitionGas
  imports TransitionProps ChainProps
begin

text \<open>
  The gas of a message: what a transition takes from the pool, uses and hands back.
\<close>

section \<open>The parts of a transition\<close>

text \<open>\<open>kept_in\<close>: the pool, the bought gas and the frame data of the interpreter are unchanged.\<close>

definition kept_in :: "StateTransition \<Rightarrow> StateTransition \<Rightarrow> bool" where
  "kept_in st st' \<longleftrightarrow> gp st' = gp st \<and> initialGas st' = initialGas st \<and>
     depth (st_evm st') = depth (st_evm st) \<and> readOnly (st_evm st') = readOnly (st_evm st)"

lemma kept_in_simps [simp]:
  "kept_in st (st_state f st') = kept_in st st'" "kept_in (st_state f st) st' = kept_in st st'" "kept_in st st"
  by (simp_all add: kept_in_def)

lemma kept_in_trans: "kept_in st st' \<Longrightarrow> kept_in st' st'' \<Longrightarrow> kept_in st st''"
  by (simp add: kept_in_def)

lemma fine_add_keys: "fine (add_keys a ks s)"
  by (induction ks arbitrary: s) (auto intro!: fine_rules)

lemma fine_add_tuples: "fine (add_tuples al s)"
  by (induction al arbitrary: s) (auto intro!: fine_sat [OF fine_add_keys])

lemma warm_up_ok: "sat (\<lambda>st'. kept_in st st' \<and> st_gas st' = st_gas st) (warm_up pa E msg st)"
  by (auto simp: warm_up_def PrepareAccessList_def Let_def intro!: fine_sat [OF fine_add_tuples])

lemma run_message_ok:
  assumes "run_ok n run" and "unat (st_gas st) < n"
  shows "sat (\<lambda>(st', ret, e). kept_in st st' \<and> unat (st_gas st') \<le> unat (st_gas st)) (run_message run E msg bailout st)"
proof (cases "msg_to msg")
  case None
  show ?thesis using create_oks(1) [OF assms, of "st_evm st" E "AccountRef (msg_from msg)" "msg_data msg" "msg_amount msg"]
    by (auto simp: run_message_def None create_ok_def call_post_def kept_in_def elim!: sat_mono)
next
  case (Some dst)
  define st1 where "st1 = st_state (SetNonce (env_lib E) (msg_from msg) (snd (GetNonce (env_lib E) (msg_from msg) (ibs (st_evm st))) + 1))
    (st_state (getStateObject (env_lib E) (msg_from msg)) st)"
  have st1: "st_gas st1 = st_gas st" "kept_in st st1" by (simp_all add: st1_def)
  have "call_ok (st_evm st1) (st_gas st1) (evm_call run E CALL (AccountRef (msg_from msg)) dst (msg_data msg) (st_gas st1)
      (Some (msg_amount msg)) bailout (st_evm st1))"
    using assms st1 by (intro call_ok_evm_call) simp_all
  then show ?thesis using st1
    by (auto simp: run_message_def Some reads_touch st1_def [symmetric] Call_def call_ok_def call_post_def kept_in_def elim!: sat_mono)
qed

lemma unat_gasUsed: "unat (st_gas st) \<le> unat (initialGas st) \<Longrightarrow> unat (gasUsed st) = unat (initialGas st) - unat (st_gas st)"
  by (simp add: gasUsed_def unat_sub word_le_nat_alt)

lemma gasUsed_st_state [simp]: "gasUsed (st_state f st) = gasUsed st"
  by (simp add: gasUsed_def)

lemma refundGas_ok:
  assumes "unat (st_gas st) \<le> unat (initialGas st)" and "unat (gp st) + unat (initialGas st) < 2 ^ 64" and "q \<noteq> 0"
  obtains st' where "refundGas L msg q st = Ok st'" and "initialGas st' = initialGas st"
    and "depth (st_evm st') = depth (st_evm st)" and "readOnly (st_evm st') = readOnly (st_evm st)"
    and "unat (st_gas st') \<le> unat (initialGas st)" and "unat (gp st') = unat (gp st) + unat (st_gas st')"
    and "unat (gasUsed st) - unat (gasUsed st) div unat q \<le> unat (gasUsed st')"
proof -
  define rf where "rf = (if gasUsed st div q > GetRefund (ibs (st_evm st)) then GetRefund (ibs (st_evm st)) else gasUsed st div q)"
  define st1 where "st1 = st_state (AddBalance L (msg_from msg) (SetUint64 (st_gas st + rf) * msg_gasPrice msg)) (st\<lparr>st_gas := st_gas st + rf\<rparr>)"
  have rf: "unat rf \<le> unat (gasUsed st) div unat q"
    by (auto simp: rf_def word_less_nat_alt unat_div)
  have used: "unat (gasUsed st) = unat (initialGas st) - unat (st_gas st)" using assms(1) by (rule unat_gasUsed)
  have "unat (gasUsed st) div unat q \<le> unat (gasUsed st)" by (rule div_le_dividend)
  then have le: "unat (st_gas st) + unat rf \<le> unat (initialGas st)" using rf used assms(1) by linarith
  have sum: "unat (st_gas st + rf) = unat (st_gas st) + unat rf"
    using le assms(2) by (subst unat_add_no_wrap) simp_all
  have pool: "unat (gp st) + unat (st_gas st + rf) < 2 ^ 64" using sum le assms(2) by linarith
  then have "gp_AddGas (st_gas st1) (gp st1) = Ok (gp st + (st_gas st + rf))"
    by (auto simp: gp_AddGas_def st1_def word_less_nat_alt unat_MaxUint64_minus)
  then have r: "refundGas L msg q st = Ok (st1\<lparr>gp := gp st + (st_gas st + rf)\<rparr>)"
    by (simp add: refundGas_def Let_def rf_def [symmetric]) (simp add: st1_def)
  show ?thesis
  proof (rule that [OF r])
    show "unat (gasUsed st) - unat (gasUsed st) div unat q \<le> unat (gasUsed (st1\<lparr>gp := gp st + (st_gas st + rf)\<rparr>))"
      using rf le used by (subst unat_gasUsed) (simp_all add: st1_def sum)
    show "unat (gp (st1\<lparr>gp := gp st + (st_gas st + rf)\<rparr>)) = unat (gp st) + unat (st_gas (st1\<lparr>gp := gp st + (st_gas st + rf)\<rparr>))"
      using pool by (simp add: unat_add_no_wrap st1_def)
  qed (use le in \<open>simp_all add: st1_def sum\<close>)
qed

lemma less_used:
  fixes x y q :: nat
  assumes "x \<le> y" "0 < q"
  shows "x - x div q \<le> y - y div q"
proof -
  have "y - x \<le> (y - x) * q" using assms(2) by simp
  then have "y div q \<le> (x + (y - x) * q) div q" by (intro div_le_mono) linarith
  also have "\<dots> = x div q + (y - x)" using assms(2) by simp
  finally show ?thesis using assms div_le_dividend [of x q] div_le_dividend [of y q] by linarith
qed

section \<open>The whole transition\<close>

lemma value_bailout_ok: "kept_in st (fst (value_bailout E msg b st)) \<and> st_gas (fst (value_bailout E msg b st)) = st_gas st"
  by (auto simp: value_bailout_def st_read_def kept_in_def split: prod.splits)

lemma sat_seq:
  assumes "sat P (bnd r f)" and "\<And>x. P x \<Longrightarrow> sat Q (g x)"
  shows "sat Q (bnd r (\<lambda>x. bnd (f x) g))"
  using assms(1) by (auto intro: sat_mono assms(2))

definition refund_quotient :: "env \<Rightarrow> nat" where
  "refund_quotient E = (if IsLondon (chainRules E) then 5 else 2)"

definition settled :: "env \<Rightarrow> StateTransition \<Rightarrow> StateTransition \<times> ExecutionResult \<Rightarrow> bool" where
  "settled E st res \<longleftrightarrow> (case res of (st', r) \<Rightarrow>
     unat (gp st') + unat (UsedGas r) = unat (gp st) + unat (initialGas st) \<and> unat (UsedGas r) \<le> unat (initialGas st) \<and>
     unat (gasUsed st) - unat (gasUsed st) div refund_quotient E \<le> unat (UsedGas r) \<and>
     depth (st_evm st') = depth (st_evm st) \<and> readOnly (st_evm st') = readOnly (st_evm st))"

lemma burn_fee_ok:
  "sat (\<lambda>st'. gp st' = gp st \<and> gasUsed st' = gasUsed st \<and> depth (st_evm st') = depth (st_evm st) \<and>
     readOnly (st_evm st') = readOnly (st_evm st)) (burn_fee cc E msg st)"
  by (simp add: burn_fee_def split: option.splits)

lemma effective_tip_fine: "fine (effective_tip E msg)"
  by (simp add: effective_tip_def split: option.splits)

lemma execute_message_ok:
  assumes run: "run_ok n run" and "unat (st_gas st) < n"
    and gas: "unat (st_gas st) \<le> unat (initialGas st)" and pool: "unat (gp st) + unat (initialGas st) < 2 ^ 64"
  shows "sat (settled E st) (execute_message run cc pa E msg True b st)"
proof -
  define q where "q = (if IsLondon (chainRules E) then RefundQuotientEIP3529 else RefundQuotient)"
  have q: "unat q = refund_quotient E" "q \<noteq> 0" "0 < refund_quotient E" by (simp_all add: q_def refund_quotient_def param_defs)
  have finish: "sat (settled E st) (bnd (refundGas (env_lib E) msg q st1) (\<lambda>st. bnd (effective_tip E msg) (\<lambda>tip.
      bnd (burn_fee cc E msg (st_state (f st tip) st)) (\<lambda>st. Ok (st, \<lparr>UsedGas = gasUsed st, Err = e, ReturnData = ret\<rparr>)))))"
    if st1: "kept_in st st1" "unat (st_gas st1) \<le> unat (st_gas st)" for st1 f e ret
  proof -
    have 1: "unat (st_gas st1) \<le> unat (initialGas st1)" "unat (gp st1) + unat (initialGas st1) < 2 ^ 64"
      using st1 gas pool by (simp_all add: kept_in_def)
    from refundGas_ok [OF 1 q(2), of "env_lib E" msg] obtain st2 where
      2: "refundGas (env_lib E) msg q st1 = Ok st2" "initialGas st2 = initialGas st1"
      "depth (st_evm st2) = depth (st_evm st1)" "readOnly (st_evm st2) = readOnly (st_evm st1)"
      "unat (st_gas st2) \<le> unat (initialGas st1)" "unat (gp st2) = unat (gp st1) + unat (st_gas st2)"
      "unat (gasUsed st1) - unat (gasUsed st1) div unat q \<le> unat (gasUsed st2)" .
    have "unat (gasUsed st) \<le> unat (gasUsed st1)"
      using st1 gas 1 by (simp add: unat_gasUsed kept_in_def)
    then have "unat (gasUsed st) - unat (gasUsed st) div refund_quotient E \<le> unat (gasUsed st2)"
      using 2(7) less_used [of "unat (gasUsed st)" "unat (gasUsed st1)" "refund_quotient E"] q(3) unfolding q(1) by linarith
    then have "settled E st (st3, \<lparr>UsedGas = gasUsed st3, Err = e, ReturnData = ret\<rparr>)"
      if "gp st3 = gp st2" "gasUsed st3 = gasUsed st2" "depth (st_evm st3) = depth (st_evm st2)" "readOnly (st_evm st3) = readOnly (st_evm st2)"
      for st3 using that st1 2 by (simp add: settled_def kept_in_def unat_gasUsed)
    then show ?thesis using 2(1) by (auto intro!: fine_sat [OF effective_tip_fine] sat_mono [OF burn_fee_ok])
  qed
  obtain st0 bail where vb: "value_bailout E msg b st = (st0, bail)" by fastforce
  then have st0: "kept_in st st0" "st_gas st0 = st_gas st" using value_bailout_ok [of st E msg b] by simp_all
  have "sat (\<lambda>(st', ret, e). kept_in st st' \<and> unat (st_gas st') \<le> unat (st_gas st)) (bnd (warm_up pa E msg st0) (run_message run E msg bail))"
    using assms(2) st0 by (auto intro!: sat_mono [OF warm_up_ok] sat_mono [OF run_message_ok [OF run]] elim: kept_in_trans)
  then show ?thesis
    unfolding execute_message_def Let_def vb prod.case if_True q_def [symmetric]
    by (rule sat_seq) (auto simp del: sat_bnd intro!: finish)
qed

definition intrinsic :: "env \<Rightarrow> Message \<Rightarrow> u64 option" where
  "intrinsic E msg =
     IntrinsicGas (msg_data msg) (msg_accessList msg) (msg_to msg = None)
       (IsHomestead (chainRules E)) (IsIstanbul (chainRules E)) (IsShanghai (chainRules E))"

definition accounted ::
  "env \<Rightarrow> Message \<Rightarrow> EVM \<Rightarrow> u64 \<Rightarrow> StateTransition \<times> (transition_error + ExecutionResult) \<Rightarrow> bool" where
  "accounted E msg ev pool res \<longleftrightarrow> (case res of
       (st, Inl e) \<Rightarrow>
         (if e \<in> {ErrGasOverflow, ErrIntrinsicGas} then unat (gp st) + unat (msg_gasLimit msg) = unat pool else gp st = pool)
     | (st, Inr r) \<Rightarrow>
         unat (gp st) + unat (UsedGas r) = unat pool \<and> unat (UsedGas r) \<le> unat (msg_gasLimit msg) \<and>
         (\<exists>g. intrinsic E msg = Some g \<and> unat g - unat g div refund_quotient E \<le> unat (UsedGas r)) \<and>
         depth (st_evm st) = depth ev \<and> readOnly (st_evm st) = readOnly ev)"

definition late :: "transition_error option \<Rightarrow> bool" where
  "late e \<longleftrightarrow> e = Some ErrGasOverflow \<or> e = Some ErrIntrinsicGas"

lemma check_sender_early: "\<not> late (snd (check_sender L msg st))"
  by (simp add: check_sender_def reads_touch late_def)

lemma check_fees_early: "\<not> late (check_fees E msg)"
  by (simp add: check_fees_def CheckEip1559TxGasFeeCap_def late_def)

lemma buyGas_early: "\<not> late (snd (buyGas L msg b st))"
  by (simp add: buyGas_def reads_touch late_def Let_def split: option.split prod.split)

lemma preCheck_errors: "\<not> late (snd (preCheck E msg b st))"
  using check_sender_early [of "env_lib E" msg st] check_fees_early [of E msg] buyGas_early
  by (auto simp: preCheck_def split: option.split prod.split)

lemma ApplyMessage_ok:
  assumes run: "run_ok n run" and "unat (msg_gasLimit msg) < n" and "\<not> Parlia cc"
  shows "sat (accounted E msg ev pool) (ApplyMessage run cc pa E msg ev pool True False)"
proof -
  define st where "st = NewStateTransition ev pool"
  obtain st1 e where 1: "preCheck E msg False st = (st1, e)"
      "e = None \<longleftrightarrow> sender_ok (env_lib E) msg (ibs (st_evm st)) \<and> fees_ok E msg \<and>
        funds_ok msg (snd (GetBalance (env_lib E) (msg_from msg) (ibs (st_evm st)))) (gp st)"
      "depth (st_evm st1) = depth (st_evm st)" "readOnly (st_evm st1) = readOnly (st_evm st)"
      "if e = None then gp st1 = gp st - msg_gasLimit msg \<and> st_gas st1 = st_gas st + msg_gasLimit msg \<and> initialGas st1 = msg_gasLimit msg
       else gp st1 = gp st"
    using preCheck_spec [of E msg st] by (elim exE conjE) (rule that)
  show ?thesis
  proof (cases e)
    case (Some err)
    then show ?thesis using 1(1,5) assms(3) preCheck_errors [of E msg False st]
      by (simp add: late_def ApplyMessage_def TransitionDb_def st_def [symmetric] accounted_def) (simp add: st_def NewStateTransition_def)
  next
    case None
    with 1 have 2: "gp st1 = pool - msg_gasLimit msg" "st_gas st1 = msg_gasLimit msg" "initialGas st1 = msg_gasLimit msg"
        "msg_gasLimit msg \<le> pool" "depth (st_evm st1) = depth ev" "readOnly (st_evm st1) = readOnly ev"
      by (simp_all add: funds_ok_def st_def NewStateTransition_def)
    then have pool: "unat (gp st1) + unat (msg_gasLimit msg) = unat pool" by (simp add: unat_sub word_le_nat_alt)
    have step: "sat (accounted E msg ev pool)
        (bnd (execute_message run cc pa E msg True False (st1\<lparr>st_gas := msg_gasLimit msg - g\<rparr>)) (\<lambda>(st, r). Ok (st, Inr r)))"
      if g: "intrinsic E msg = Some g" "g \<le> msg_gasLimit msg" for g
    proof -
      let ?st = "st1\<lparr>st_gas := msg_gasLimit msg - g\<rparr>"
      have u: "unat (msg_gasLimit msg - g) = unat (msg_gasLimit msg) - unat g" using g(2) by (simp add: unat_sub word_le_nat_alt)
      have "gasUsed ?st = g" using 2 by (simp add: gasUsed_def)
      moreover have "sat (settled E ?st) (execute_message run cc pa E msg True False ?st)"
        using assms(2) 2 u pool unat_u64_bound [of pool] by (intro execute_message_ok [OF run]) simp_all
      ultimately show ?thesis using g 2 pool by (auto simp: accounted_def settled_def elim!: sat_mono)
    qed
    show ?thesis
    proof (cases "intrinsic E msg")
      case none: None
      then show ?thesis using 1(1) None assms(3) pool
        by (simp add: ApplyMessage_def TransitionDb_def st_def [symmetric] accounted_def intrinsic_def)
    next
      case (Some g)
      then show ?thesis using 1(1) None assms(3) pool 2(2) step [OF Some]
        by (auto simp: ApplyMessage_def TransitionDb_def st_def [symmetric] accounted_def intrinsic_def simp del: sat_bnd)
    qed
  qed
qed

text \<open>C7. Applying a message with refunds and without bailout, with more fuel than its gas limit and
  without the Parlia engine, does not run out of fuel, and no nested frame indexes outside its stack or memory. What it
  reports as used is what it took from the block's gas pool; it is at most the gas limit and at
  least the intrinsic gas less its largest refund. A message refused by the checks takes nothing
  from the pool, one refused for its intrinsic gas has taken all its gas.\<close>

theorem message_gas_accounted:
  assumes "rules_ok (chainRules E)" and "\<not> Parlia cc" and "unat (msg_gasLimit msg) < n"
  shows "\<exists>jt. instructionSet (chainRules E) = Ok jt \<and>
    (case ApplyMessage (Run (run_loop n jt E)) cc pa E msg ev pool True False of
       Ok (st, Inr r) \<Rightarrow>
         unat (gp st) + unat (UsedGas r) = unat pool \<and> unat (UsedGas r) \<le> unat (msg_gasLimit msg) \<and>
         (\<exists>g. IntrinsicGas (msg_data msg) (msg_accessList msg) (msg_to msg = None)
               (IsHomestead (chainRules E)) (IsIstanbul (chainRules E)) (IsShanghai (chainRules E)) = Some g \<and>
            unat g - unat g div (if IsLondon (chainRules E) then 5 else 2) \<le> unat (UsedGas r)) \<and>
         depth (st_evm st) = depth ev \<and> readOnly (st_evm st) = readOnly ev
     | Ok (st, Inl e) \<Rightarrow>
         (if e \<in> {ErrGasOverflow, ErrIntrinsicGas} then unat (gp st) + unat (msg_gasLimit msg) = unat pool else gp st = pool)
     | Panic p \<Rightarrow> p \<noteq> StackIndex \<and> p \<noteq> MemoryIndex
     | NoFuel \<Rightarrow> False)"
proof -
  obtain jt where jt: "instructionSet (chainRules E) = Ok jt" "table_ok E jt" using vm_ok [OF assms(1)] by blast
  have "sat (accounted E msg ev pool) (ApplyMessage (Run (run_loop n jt E)) cc pa E msg ev pool True False)"
    using ApplyMessage_ok [OF interpreter_ok [OF jt(2)] assms(3,2)] .
  then show ?thesis using jt(1)
    by (auto simp: sat_def accounted_def intrinsic_def refund_quotient_def split: res.splits sum.splits prod.splits if_splits)
qed

definition demo_addresses :: precompile_addresses where
  "demo_addresses =
     \<lparr>PrecompiledAddressesHomestead = [], PrecompiledAddressesByzantium = [], PrecompiledAddressesIstanbul = [],
      PrecompiledAddressesIstanbulForBSC = [], PrecompiledAddressesBerlin = [], PrecompiledAddressesNano = [],
      PrecompiledAddressesMoran = []\<rparr>"

theorem message_gas_accounted_witness:
  "\<exists>jt. instructionSet demo_rules = Ok jt \<and>
     (\<forall>st r. ApplyMessage (Run (run_loop 30001 jt demo_env)) demo_config demo_addresses demo_env demo_message demo_evm 100000 True False
        = Ok (st, Inr r) \<longrightarrow> unat (gp st) + unat (UsedGas r) = 100000)"
proof -
  have "\<not> Parlia demo_config" "unat (msg_gasLimit demo_message) < 30001"
    by (simp_all add: demo_config_def demo_message_def)
  from message_gas_accounted [OF demo_rules_ok this, where ev = demo_evm and pool = 100000 and pa = demo_addresses] show ?thesis by fastforce
qed

end
