(* ===== verification/Bloom.thy ===== *)
theory Bloom
  imports StateObject
begin

text \<open>
  Log bloom filters: \<open>common/block/bloom9.go\<close>, and the receipts of \<open>common/block/receipt.go\<close> they are
  built from. A \<open>Bloom\<close> is an array of 256 bytes, here a list; an index outside it panics. The
  hash state yields the first six bytes of the Keccak-256 hash.
\<close>

record Receipt =
  rcpt_Type :: u8
  rcpt_PostState :: bytes
  Status :: u64
  CumulativeGasUsed :: u64
  rcpt_Bloom :: bytes
  rcpt_Logs :: "Log list"
  rcpt_TxHash :: hash
  ContractAddress :: address
  rcpt_GasUsed :: u64
  rcpt_BlockHash :: hash
  rcpt_BlockNumber :: "u256 option"
  TransactionIndex :: u64

definition BloomByteLength :: nat where
  "BloomByteLength = 256"

definition zero_bloom :: bytes where
  "zero_bloom = replicate BloomByteLength 0"

definition bloom_SetBytes :: "bytes \<Rightarrow> bytes \<Rightarrow> bytes res" where
  "bloom_SetBytes d b =
     (if length b < length d then Panic Impossible
      else Ok (copy_at b (BloomByteLength - length d) (length d) d))"

definition BytesToBloom :: "bytes \<Rightarrow> bytes res" where
  "BytesToBloom d = bloom_SetBytes d zero_bloom"

definition Bloom9 :: "bytes \<Rightarrow> bytes res" where
  "Bloom9 d = bloom_SetBytes d zero_bloom"

section \<open>The three bits of an item\<close>

definition be16 :: "u8 \<Rightarrow> u8 \<Rightarrow> u16" where
  "be16 x y = of_nat (be_val [x, y])"

text \<open>The byte index and the bit for the two bytes at position \<open>k\<close> of the hash.\<close>

definition bloom_bit :: "bytes \<Rightarrow> nat \<Rightarrow> u64 \<times> u8" where
  "bloom_bit hashbuf k =
     (of_nat BloomByteLength - ucast (drop_bit 3 (and (be16 (hashbuf ! k) (hashbuf ! (k + 1))) 0x7ff)) - 1,
      push_bit (unat (and (hashbuf ! (k + 1)) 0x7)) 1)"

definition bloomValues :: "lib \<Rightarrow> bytes \<Rightarrow> (u64 \<times> u8) \<times> (u64 \<times> u8) \<times> (u64 \<times> u8)" where
  "bloomValues L d =
     (let hashbuf = take 6 (hash_bytes (keccak L d))
      in (bloom_bit hashbuf 0, bloom_bit hashbuf 2, bloom_bit hashbuf 4))"

definition or_at :: "u64 \<times> u8 \<Rightarrow> bytes \<Rightarrow> bytes res" where
  "or_at iv b =
     (case iv of (i, v) \<Rightarrow> if unat i < length b then Ok (b[unat i := or (b ! unat i) v]) else Panic SliceBounds)"

definition test_at :: "u64 \<times> u8 \<Rightarrow> bytes \<Rightarrow> bool res" where
  "test_at iv b =
     (case iv of (i, v) \<Rightarrow> if unat i < length b then Ok (v = and v (b ! unat i)) else Panic SliceBounds)"

definition bloom_add :: "lib \<Rightarrow> bytes \<Rightarrow> bytes \<Rightarrow> bytes res" where
  "bloom_add L d b =
     (case bloomValues L d of (iv1, iv2, iv3) \<Rightarrow> bnd (or_at iv1 b) (\<lambda>b. bnd (or_at iv2 b) (or_at iv3)))"

definition bloom_Test :: "lib \<Rightarrow> bytes \<Rightarrow> bytes \<Rightarrow> bool res" where
  "bloom_Test L topic b =
     (case bloomValues L topic of (iv1, iv2, iv3) \<Rightarrow>
        bnd (test_at iv1 b) (\<lambda>t. if \<not> t then Ok False
        else bnd (test_at iv2 b) (\<lambda>t. if \<not> t then Ok False else test_at iv3 b)))"

section \<open>The filter of receipts and logs\<close>

fun bloom_topics :: "lib \<Rightarrow> hash list \<Rightarrow> bytes \<Rightarrow> bytes res" where
  "bloom_topics L [] b = Ok b"
| "bloom_topics L (t # ts) b = bnd (bloom_add L (hash_bytes t) b) (bloom_topics L ts)"

fun bloom_logs :: "lib \<Rightarrow> Log list \<Rightarrow> bytes \<Rightarrow> bytes res" where
  "bloom_logs L [] b = Ok b"
| "bloom_logs L (l # ls) b =
     bnd (bloom_add L (address_bytes (log_Address l)) b) (\<lambda>b. bnd (bloom_topics L (Topics l) b) (bloom_logs L ls))"

fun bloom_receipts :: "lib \<Rightarrow> Receipt list \<Rightarrow> bytes \<Rightarrow> bytes res" where
  "bloom_receipts L [] b = Ok b"
| "bloom_receipts L (r # rs) b = bnd (bloom_logs L (rcpt_Logs r) b) (bloom_receipts L rs)"

definition CreateBloom :: "lib \<Rightarrow> Receipt list \<Rightarrow> bytes res" where
  "CreateBloom L receipts = bloom_receipts L receipts zero_bloom"

definition LogsBloom :: "lib \<Rightarrow> Log list \<Rightarrow> bytes res" where
  "LogsBloom L ls = bloom_logs L ls zero_bloom"

section \<open>Indices\<close>

lemma bloom_index: "unat (fst (bloom_bit hb k)) < 256"
proof -
  define x where "x = drop_bit 3 (and (be16 (hb ! k) (hb ! (k + 1))) 0x7ff)"
  have m: "(0x7ff :: u16) = mask 11" by (simp add: mask_eq_exp_minus_1)
  have "unat (and (be16 (hb ! k) (hb ! (k + 1))) 0x7ff) < 2 ^ 11"
    unfolding m take_bit_eq_mask [symmetric] unsigned_take_bit_eq by (rule take_bit_nat_less_exp)
  then have "unat x < 256" by (simp add: x_def drop_bit_eq_div unat_div)
  moreover from this have "unat (ucast x :: u64) = unat x"
    by (simp add: unsigned_ucast_eq take_bit_nat_eq_self)
  ultimately show ?thesis
    unfolding bloom_bit_def x_def [symmetric] fst_conv by (simp add: BloomByteLength_def unat_sub_if')
qed

lemma bloomValues_bits:
  obtains i1 v1 i2 v2 i3 v3 where "bloomValues L d = ((i1, v1), (i2, v2), (i3, v3))"
    and "unat i1 < 256" and "unat i2 < 256" and "unat i3 < 256"
  using bloom_index by (simp add: bloomValues_def Let_def) (metis prod.collapse)

section \<open>Bits are only added\<close>

definition within :: "bytes \<Rightarrow> bytes \<Rightarrow> bool" where
  "within b b' \<longleftrightarrow> length b = 256 \<and> length b' = 256 \<and> (\<forall>i<256. and (b ! i) (b' ! i) = b ! i)"

lemma within_refl: "length b = 256 \<Longrightarrow> within b b"
  by (simp add: within_def)

lemma within_trans:
  assumes "within a b" "within b c"
  shows "within a c"
proof -
  have "and (a ! i) (c ! i) = a ! i" if "i < 256" for i
  proof -
    have "and (a ! i) (c ! i) = and (and (a ! i) (b ! i)) (c ! i)" using assms(1) that by (simp add: within_def)
    also have "\<dots> = and (a ! i) (and (b ! i) (c ! i))" by (simp add: and.assoc)
    also have "\<dots> = a ! i" using assms that by (simp add: within_def)
    finally show ?thesis .
  qed
  with assms show ?thesis by (simp add: within_def)
qed

lemma and_or_self: "and x (or x v) = x" "and v (or x v) = v" for x v :: u8
  by (rule bit_word_eqI; auto simp: bit_and_iff bit_or_iff)+

lemma within_or:
  assumes "length b = 256" "i < 256"
  shows "within b (b[i := or (b ! i) v])"
  using assms by (auto simp: within_def nth_list_update and_or_self)

lemma test_within:
  assumes "within b b'" "i < 256" "and v (b ! i) = v"
  shows "and v (b' ! i) = v"
proof -
  have "and v (b' ! i) = and (and v (b ! i)) (b' ! i)" using assms by simp
  also have "\<dots> = and v (and (b ! i) (b' ! i))" by (rule and.assoc)
  also have "\<dots> = and v (b ! i)" using assms(1,2) by (simp add: within_def)
  finally show ?thesis using assms by simp
qed

text \<open>The items a filter contains.\<close>

definition holds :: "lib \<Rightarrow> bytes \<Rightarrow> bytes \<Rightarrow> bool" where
  "holds L d b \<longleftrightarrow> bloom_Test L d b = Ok True"

lemma holds_within:
  assumes "holds L d b" "within b b'"
  shows "holds L d b'"
proof -
  obtain i1 v1 i2 v2 i3 v3 where bits: "bloomValues L d = ((i1, v1), (i2, v2), (i3, v3))"
    "unat i1 < 256" "unat i2 < 256" "unat i3 < 256" by (rule bloomValues_bits)
  have len: "length b = 256" "length b' = 256" using assms(2) by (simp_all add: within_def)
  from assms(1) bits len have "and v1 (b ! unat i1) = v1" "and v2 (b ! unat i2) = v2" "and v3 (b ! unat i3) = v3"
    by (auto simp: holds_def bloom_Test_def test_at_def split: if_splits)
  then have "and v1 (b' ! unat i1) = v1" "and v2 (b' ! unat i2) = v2" "and v3 (b' ! unat i3) = v3"
    using test_within [OF assms(2)] bits by blast+
  with bits len show ?thesis by (simp add: holds_def bloom_Test_def test_at_def)
qed

lemma bloom_add_spec:
  assumes "length b = 256"
  obtains b' where "bloom_add L d b = Ok b'" and "within b b'" and "holds L d b'"
proof -
  obtain i1 v1 i2 v2 i3 v3 where bits: "bloomValues L d = ((i1, v1), (i2, v2), (i3, v3))"
    "unat i1 < 256" "unat i2 < 256" "unat i3 < 256" by (rule bloomValues_bits)
  define b1 where "b1 = b[unat i1 := or (b ! unat i1) v1]"
  define b2 where "b2 = b1[unat i2 := or (b1 ! unat i2) v2]"
  define b3 where "b3 = b2[unat i3 := or (b2 ! unat i3) v3]"
  have len: "length b1 = 256" "length b2 = 256" "length b3 = 256" using assms by (simp_all add: b1_def b2_def b3_def)
  have w1: "within b b1" unfolding b1_def using assms bits by (intro within_or)
  have w2: "within b1 b2" unfolding b2_def using len bits by (intro within_or)
  have w3: "within b2 b3" unfolding b3_def using len bits by (intro within_or)
  have "and v1 (b1 ! unat i1) = v1" "and v2 (b2 ! unat i2) = v2" "and v3 (b3 ! unat i3) = v3"
    using bits len assms by (simp_all add: b1_def b2_def b3_def and_or_self)
  then have "and v1 (b3 ! unat i1) = v1" "and v2 (b3 ! unat i2) = v2" "and v3 (b3 ! unat i3) = v3"
    using test_within w2 w3 within_trans [OF w2 w3] bits by blast+
  then have "holds L d b3" using bits len by (simp add: holds_def bloom_Test_def test_at_def)
  moreover have "bloom_add L d b = Ok b3"
    using bits assms len by (simp add: bloom_add_def or_at_def b1_def [symmetric] b2_def [symmetric] b3_def [symmetric])
  ultimately show ?thesis using that within_trans [OF w1 within_trans [OF w2 w3]] by blast
qed

section \<open>Filters of many items\<close>

fun add_all :: "('i \<Rightarrow> 'f \<Rightarrow> 'f res) \<Rightarrow> 'i list \<Rightarrow> 'f \<Rightarrow> 'f res" where
  "add_all add [] f = Ok f"
| "add_all add (i # is) f = bnd (add i f) (add_all add is)"

lemma add_all_append: "add_all add (xs @ ys) f = bnd (add_all add xs f) (add_all add ys)"
proof (induction xs arbitrary: f)
  case (Cons x xs)
  then show ?case by (cases "add x f") simp_all
qed simp

text \<open>What a filter promises: adding an item succeeds, the item is then a member, and no member is
  lost.\<close>

locale item_filter =
  fixes add :: "'i \<Rightarrow> 'f \<Rightarrow> 'f res" and member :: "'i \<Rightarrow> 'f \<Rightarrow> bool" and valid :: "'f \<Rightarrow> bool"
  assumes add_spec: "valid f \<Longrightarrow> \<exists>f'. add i f = Ok f' \<and> valid f' \<and> member i f' \<and> (\<forall>j. member j f \<longrightarrow> member j f')"
begin

lemma add_all_spec:
  "valid f \<Longrightarrow> \<exists>f'. add_all add is f = Ok f' \<and> valid f' \<and> (\<forall>i\<in>set is. member i f') \<and> (\<forall>j. member j f \<longrightarrow> member j f')"
proof (induction "is" arbitrary: f)
  case (Cons i "is")
  from add_spec [OF Cons.prems, of i] obtain f1 where 1: "add i f = Ok f1" "valid f1" "member i f1" "\<forall>j. member j f \<longrightarrow> member j f1"
    by blast
  from Cons.IH [OF 1(2)] 1 show ?case by auto
qed simp

end

interpretation bloom_filter: item_filter "bloom_add L" "holds L" "\<lambda>b. length b = 256"
proof
  fix b :: bytes and d :: bytes
  assume "length b = 256"
  then obtain b' where "bloom_add L d b = Ok b'" "within b b'" "holds L d b'" by (rule bloom_add_spec)
  then show "\<exists>b'. bloom_add L d b = Ok b' \<and> length b' = 256 \<and> holds L d b' \<and> (\<forall>j. holds L j b \<longrightarrow> holds L j b')"
    using holds_within by (auto simp: within_def)
qed

definition log_items :: "Log \<Rightarrow> bytes list" where
  "log_items l = address_bytes (log_Address l) # map hash_bytes (Topics l)"

lemma bloom_topics_all: "bloom_topics L ts b = add_all (bloom_add L) (map hash_bytes ts) b"
proof (induction ts arbitrary: b)
  case (Cons t ts)
  then show ?case by (cases "bloom_add L (hash_bytes t) b") simp_all
qed simp

lemma bloom_logs_all: "bloom_logs L ls b = add_all (bloom_add L) (concat (map log_items ls)) b"
proof (induction ls arbitrary: b)
  case (Cons l ls)
  have "bnd (bloom_topics L (Topics l) c) (bloom_logs L ls) =
      add_all (bloom_add L) (map hash_bytes (Topics l) @ concat (map log_items ls)) c" for c
    unfolding add_all_append bloom_topics_all by (rule bnd_cong) (simp_all add: Cons.IH)
  then show ?case by (cases "bloom_add L (address_bytes (log_Address l)) b") (simp_all add: log_items_def [of l])
qed simp

lemma bloom_receipts_all: "bloom_receipts L rs b = bloom_logs L (concat (map rcpt_Logs rs)) b"
proof (induction rs arbitrary: b)
  case (Cons r rs)
  then show ?case by (cases "bloom_logs L (rcpt_Logs r) b") (simp_all add: bloom_logs_all add_all_append)
qed simp

lemma length_zero_bloom: "length zero_bloom = 256"
  by (simp add: zero_bloom_def BloomByteLength_def)

lemma CreateBloom_total: "\<exists>b. CreateBloom L rs = Ok b \<and> length b = 256"
  using bloom_filter.add_all_spec [OF length_zero_bloom] by (metis CreateBloom_def bloom_logs_all bloom_receipts_all)

text \<open>C10. The filter of a list of receipts is built without an index out of range, has 256 bytes, is
  the filter of their logs, and has no false negatives: every log address and every topic in the
  receipts tests positive.\<close>

theorem bloom_no_false_negatives:
  "\<exists>b. CreateBloom L rs = Ok b \<and> length b = 256 \<and> LogsBloom L (concat (map rcpt_Logs rs)) = Ok b \<and>
     (\<forall>r \<in> set rs. \<forall>l \<in> set (rcpt_Logs r). bloom_Test L (address_bytes (log_Address l)) b = Ok True \<and>
        (\<forall>t \<in> set (Topics l). bloom_Test L (hash_bytes t) b = Ok True))"
proof -
  obtain b where b: "add_all (bloom_add L) (concat (map log_items (concat (map rcpt_Logs rs)))) zero_bloom = Ok b" "length b = 256"
    "\<forall>i \<in> set (concat (map log_items (concat (map rcpt_Logs rs)))). holds L i b"
    using bloom_filter.add_all_spec [OF length_zero_bloom] by blast
  have "LogsBloom L (concat (map rcpt_Logs rs)) = Ok b" "CreateBloom L rs = Ok b"
    using b(1) by (simp_all add: CreateBloom_def LogsBloom_def bloom_receipts_all bloom_logs_all)
  with b(2,3) show ?thesis by (auto simp: holds_def log_items_def)
qed

definition demo_log :: Log where
  "demo_log = \<lparr>log_Address = 5, Topics = [7], log_Data = [], log_BlockNumber = 1, TxHash = 0, TxIndex = 0, BlockHash = 0,
     Index = 0, Removed = False\<rparr>"

definition demo_receipt :: Receipt where
  "demo_receipt =
     \<lparr>rcpt_Type = 0, rcpt_PostState = [], Status = 1, CumulativeGasUsed = 0, rcpt_Bloom = [], rcpt_Logs = [demo_log],
      rcpt_TxHash = 0, ContractAddress = 0, rcpt_GasUsed = 0, rcpt_BlockHash = 0, rcpt_BlockNumber = None, TransactionIndex = 0\<rparr>"

theorem bloom_no_false_negatives_witness:
  "\<exists>b. CreateBloom \<lparr>keccak = (\<lambda>_. 0), marshalAccount = (\<lambda>_. []), unmarshalAccount = (\<lambda>_. Inl [])\<rparr> [demo_receipt] = Ok b \<and>
     bloom_Test \<lparr>keccak = (\<lambda>_. 0), marshalAccount = (\<lambda>_. []), unmarshalAccount = (\<lambda>_. Inl [])\<rparr> (hash_bytes 7) b = Ok True"
  using bloom_no_false_negatives [of "\<lparr>keccak = (\<lambda>_. 0), marshalAccount = (\<lambda>_. []), unmarshalAccount = (\<lambda>_. Inl [])\<rparr>" "[demo_receipt]"]
  by (auto simp: demo_receipt_def demo_log_def)

end
