(* ===== verification/Rlp.thy ===== *)
theory Rlp
  imports EvmCommon
begin

text \<open>
  RLP: the encoder of \<open>internal/avm/rlp/encode.go\<close> and the decoding primitives of \<open>raw.go\<close> and
  \<open>iterator.go\<close>. The encoder is driven by reflection; a value here carries the case \<open>makeWriter\<close> picks
  for its type. The encoder keeps the list headers beside the string data and splices them in at
  the end. Sizes are Go ints and never negative.
\<close>

section \<open>Integers and headers\<close>

fun bit_len :: "nat \<Rightarrow> nat" where
  "bit_len n = (if n = 0 then 0 else Suc (bit_len (n div 2)))"

declare bit_len.simps [simp del]

definition intsize :: "u64 \<Rightarrow> nat" where
  "intsize i = (bit_len (unat i) + 7) div 8"

text \<open>\<open>putint\<close> writes the bytes this returns to the front of its buffer and returns their number.\<close>

definition putint :: "u64 \<Rightarrow> bytes" where
  "putint i =
     (if i < 2 ^ 8 then be_bytes 1 (unat i)
      else if i < 2 ^ 16 then be_bytes 2 (unat i)
      else if i < 2 ^ 24 then be_bytes 3 (unat i)
      else if i < 2 ^ 32 then be_bytes 4 (unat i)
      else if i < 2 ^ 40 then be_bytes 5 (unat i)
      else if i < 2 ^ 48 then be_bytes 6 (unat i)
      else if i < 2 ^ 56 then be_bytes 7 (unat i)
      else be_bytes 8 (unat i))"

definition headsize :: "u64 \<Rightarrow> nat" where
  "headsize sz = (if sz < 56 then 1 else 1 + intsize sz)"

definition puthead :: "u8 \<Rightarrow> u8 \<Rightarrow> u64 \<Rightarrow> bytes" where
  "puthead smalltag largetag sz =
     (if sz < 56 then [smalltag + ucast sz]
      else let sizebytes = putint sz in (largetag + of_nat (length sizebytes)) # sizebytes)"

section \<open>The encoding buffer\<close>

record listhead =
  lh_offset :: nat
  lh_size :: nat

record encbuf =
  str :: bytes
  lheads :: "listhead list"
  lhsize :: nat

definition enc_reset :: encbuf where
  "enc_reset = \<lparr>str = [], lheads = [], lhsize = 0\<rparr>"

definition enc_size :: "encbuf \<Rightarrow> nat" where
  "enc_size w = length (str w) + lhsize w"

definition put :: "bytes \<Rightarrow> encbuf \<Rightarrow> encbuf" where
  "put bs w = w\<lparr>str := str w @ bs\<rparr>"

definition encodeStringHeader :: "nat \<Rightarrow> encbuf \<Rightarrow> encbuf" where
  "encodeStringHeader sz w =
     (if sz < 56 then put [0x80 + of_nat sz] w
      else let sizebytes = putint (of_nat sz) in put ((0xB7 + of_nat (length sizebytes)) # sizebytes) w)"

definition encodeString :: "bytes \<Rightarrow> encbuf \<Rightarrow> encbuf" where
  "encodeString b w =
     (if length b = 1 \<and> b ! 0 \<le> 0x7F then put [b ! 0] w
      else put b (encodeStringHeader (length b) w))"

definition encodeUint :: "u64 \<Rightarrow> encbuf \<Rightarrow> encbuf" where
  "encodeUint i w =
     (if i = 0 then put [0x80] w
      else if i < 128 then put [ucast i] w
      else let s = putint i in put ((0x80 + of_nat (length s)) # s) w)"

definition enc_list :: "encbuf \<Rightarrow> encbuf \<times> nat" where
  "enc_list w = (w\<lparr>lheads := lheads w @ [\<lparr>lh_offset = length (str w), lh_size = lhsize w\<rparr>]\<rparr>, length (lheads w))"

definition listEnd :: "nat \<Rightarrow> encbuf \<Rightarrow> encbuf" where
  "listEnd index w =
     (let lh = lheads w ! index;
          sz = enc_size w - lh_offset lh - lh_size lh
      in w\<lparr>lheads := (lheads w)[index := lh\<lparr>lh_size := sz\<rparr>],
           lhsize := lhsize w + (if sz < 56 then 1 else 1 + intsize (of_nat sz))\<rparr>)"

definition head_encode :: "listhead \<Rightarrow> bytes" where
  "head_encode h = puthead 0xC0 0xF7 (of_nat (lh_size h))"

text \<open>\<open>toWriter\<close>: the string data with the headers written before their offsets.\<close>

primrec write_heads :: "listhead list \<Rightarrow> bytes \<Rightarrow> nat \<Rightarrow> bytes" where
  "write_heads [] = (\<lambda>s strpos. drop strpos s)"
| "write_heads (h # hs) = (\<lambda>s strpos.
     if lh_offset h > strpos
      then take (lh_offset h - strpos) (drop strpos s) @ head_encode h @ write_heads hs s (lh_offset h)
      else head_encode h @ write_heads hs s strpos)"

definition toWriter :: "encbuf \<Rightarrow> bytes" where
  "toWriter w = write_heads (lheads w) (str w) 0"

text \<open>\<open>toBytes\<close>: the same into an array of the final size. \<open>copy\<close> stops at the end of the array; a
  header that does not fit panics.\<close>

primrec copy_heads :: "listhead list \<Rightarrow> bytes \<Rightarrow> nat \<Rightarrow> nat \<Rightarrow> bytes \<Rightarrow> bytes res" where
  "copy_heads [] = (\<lambda>s strpos pos out.
     bnd (of_opt SliceBounds (slice s strpos (length s))) (\<lambda>src.
     Ok (copy_at out pos (length out - pos) src)))"
| "copy_heads (h # hs) = (\<lambda>s strpos pos out.
     bnd (of_opt SliceBounds (slice s strpos (lh_offset h))) (\<lambda>src.
     let n = min (length out - pos) (length src);
         out = copy_at out pos n src;
         pos = pos + n;
         strpos = strpos + n;
         enc = head_encode h
     in if pos + length enc \<le> length out
        then copy_heads hs s strpos (pos + length enc) (copy_at out pos (length enc) enc)
        else Panic SliceBounds))"

definition toBytes :: "encbuf \<Rightarrow> bytes res" where
  "toBytes w = copy_heads (lheads w) (str w) 0 0 (replicate (enc_size w) 0)"

section \<open>Values\<close>

datatype Kind = Byte | String | List

text \<open>A value with the writer of its type: byte arrays of length other than one, pointers with the
  kind that stands for nil, slices and structs without optional fields.\<close>

datatype rval =
    RUint u64
  | RBool bool
  | RBigInt "int option"
  | RUint256 "u256 option"
  | RBytes bytes
  | RString bytes
  | RByteArray bytes
  | RRaw bytes
  | RPtr Kind "rval option"
  | RNilInterface
  | RList "rval list"

definition byte_len :: "nat \<Rightarrow> nat" where
  "byte_len n = (bit_len n + 7) div 8"

text \<open>\<open>None\<close> is the error for a negative integer.\<close>

definition writeBigInt :: "int \<Rightarrow> encbuf \<Rightarrow> encbuf option" where
  "writeBigInt i w =
     (if i < 0 then None
      else if bit_len (nat i) \<le> 64 then Some (encodeUint (of_int i) w)
      else
        let len = byte_len (nat i)
        in Some (put (be_bytes len (nat i)) (encodeStringHeader len w)))"

definition writeUint256 :: "u256 \<Rightarrow> encbuf \<Rightarrow> encbuf" where
  "writeUint256 i w =
     (if i = 0 then put [0x80] w
      else if i < 0x80 then put [ucast (Uint64 i)] w
      else
        let n = byte_len (unat i)
        in put (be_bytes n (unat i)) (put [0x80 + of_nat n] w))"

definition writeByteArray :: "bytes \<Rightarrow> encbuf \<Rightarrow> encbuf" where
  "writeByteArray b w =
     (if length b = 0 then put [0x80] w
      else if length b = 1 then (if b ! 0 \<le> 0x7f then put [b ! 0] w else put [0x81, b ! 0] w)
      else put b (encodeStringHeader (length b) w))"

fun write_val :: "rval \<Rightarrow> encbuf \<Rightarrow> encbuf option"
and write_vals :: "rval list \<Rightarrow> encbuf \<Rightarrow> encbuf option" where
  "write_val (RUint i) w = Some (encodeUint i w)"
| "write_val (RBool b) w = Some (put [if b then 0x01 else 0x80] w)"
| "write_val (RBigInt None) w = Some (put [0x80] w)"
| "write_val (RBigInt (Some i)) w = writeBigInt i w"
| "write_val (RUint256 None) w = Some (put [0x80] w)"
| "write_val (RUint256 (Some i)) w = Some (writeUint256 i w)"
| "write_val (RBytes b) w = Some (encodeString b w)"
| "write_val (RString b) w = Some (encodeString b w)"
| "write_val (RByteArray b) w = Some (writeByteArray b w)"
| "write_val (RRaw b) w = Some (put b w)"
| "write_val (RPtr k None) w =
     Some (if k = String then put [0x80] w else case enc_list w of (w, index) \<Rightarrow> listEnd index w)"
| "write_val (RPtr k (Some v)) w = write_val v w"
| "write_val RNilInterface w = Some (put [0xC0] w)"
| "write_val (RList vs) w = (case enc_list w of (w, index) \<Rightarrow> map_option (listEnd index) (write_vals vs w))"
| "write_vals [] w = Some w"
| "write_vals (v # vs) w = Option.bind (write_val v w) (write_vals vs)"

definition EncodeToBytes :: "rval \<Rightarrow> bytes option res" where
  "EncodeToBytes v =
     (case write_val v enc_reset of None \<Rightarrow> Ok None | Some w \<Rightarrow> bnd (toBytes w) (\<lambda>bs. Ok (Some bs)))"

text \<open>What \<open>Encode\<close> writes to a writer that accepts everything.\<close>

definition Encode :: "rval \<Rightarrow> bytes option" where
  "Encode v = map_option toWriter (write_val v enc_reset)"

section \<open>Decoding\<close>

datatype rlp_error = UnexpectedEOF | ErrCanonSize | ErrValueTooLarge | ErrExpectedString | ErrExpectedList | ErrCanonInt | UintOverflow

definition readSize :: "bytes \<Rightarrow> nat \<Rightarrow> rlp_error + u64" where
  "readSize b slen =
     (if slen > length b then Inl UnexpectedEOF
      else
        let s = of_nat (be_val (take slen b))
        in if s < 56 \<or> b ! 0 = 0 then Inl ErrCanonSize else Inr s)"

text \<open>The last check of \<open>readKind\<close>, and its cases with a separate size.\<close>

definition fit_kind :: "bytes \<Rightarrow> Kind \<Rightarrow> u64 \<Rightarrow> u64 \<Rightarrow> rlp_error + (Kind \<times> u64 \<times> u64)" where
  "fit_kind buf k tagsize contentsize =
     (if contentsize > of_nat (length buf) - tagsize then Inl ErrValueTooLarge else Inr (k, tagsize, contentsize))"

definition long_kind :: "bytes \<Rightarrow> Kind \<Rightarrow> u8 \<Rightarrow> rlp_error + (Kind \<times> u64 \<times> u64)" where
  "long_kind buf k slen =
     (case readSize (drop 1 buf) (unat slen) of
        Inl e \<Rightarrow> Inl e
      | Inr contentsize \<Rightarrow> fit_kind buf k (ucast slen + 1) contentsize)"

definition readKind :: "bytes \<Rightarrow> rlp_error + (Kind \<times> u64 \<times> u64)" where
  "readKind buf =
     (if length buf = 0 then Inl UnexpectedEOF
      else
        let b = buf ! 0
        in if b < 0x80 then fit_kind buf Byte 0 1
           else if b < 0xB8 then
             if b - 0x80 = 1 \<and> length buf > 1 \<and> buf ! 1 < 128 then Inl ErrCanonSize
             else fit_kind buf String 1 (ucast (b - 0x80))
           else if b < 0xC0 then long_kind buf String (b - 0xB7)
           else if b < 0xF8 then fit_kind buf List 1 (ucast (b - 0xC0))
           else long_kind buf List (b - 0xF7))"

text \<open>The bytes before the header, the content and the rest are slices of the input; a bound
  outside it panics.\<close>

definition Split :: "bytes \<Rightarrow> (rlp_error + (Kind \<times> bytes \<times> bytes)) res" where
  "Split b =
     (case readKind b of
        Inl e \<Rightarrow> Ok (Inl e)
      | Inr (k, ts, cs) \<Rightarrow>
          bnd (of_opt SliceBounds (slice b (unat ts) (unat (ts + cs)))) (\<lambda>content.
          bnd (of_opt SliceBounds (slice b (unat (ts + cs)) (length b))) (\<lambda>rest.
          Ok (Inr (k, content, rest)))))"

definition SplitString :: "bytes \<Rightarrow> (rlp_error + (bytes \<times> bytes)) res" where
  "SplitString b =
     bnd (Split b) (\<lambda>r. Ok (case r of
        Inl e \<Rightarrow> Inl e
      | Inr (k, content, rest) \<Rightarrow> if k = List then Inl ErrExpectedString else Inr (content, rest)))"

definition SplitList :: "bytes \<Rightarrow> (rlp_error + (bytes \<times> bytes)) res" where
  "SplitList b =
     bnd (Split b) (\<lambda>r. Ok (case r of
        Inl e \<Rightarrow> Inl e
      | Inr (k, content, rest) \<Rightarrow> if k \<noteq> List then Inl ErrExpectedList else Inr (content, rest)))"

definition SplitUint64 :: "bytes \<Rightarrow> (rlp_error + (u64 \<times> bytes)) res" where
  "SplitUint64 b =
     bnd (SplitString b) (\<lambda>r. Ok (case r of
        Inl e \<Rightarrow> Inl e
      | Inr (content, rest) \<Rightarrow>
          if length content = 0 then Inr (0, rest)
          else if length content = 1 then
            if content ! 0 = 0 then Inl ErrCanonInt else Inr (ucast (content ! 0), rest)
          else if length content > 8 then Inl UintOverflow
          else (case readSize content (length content) of Inl e \<Rightarrow> Inl ErrCanonInt | Inr x \<Rightarrow> Inr (x, rest))))"

definition AppendUint64 :: "bytes \<Rightarrow> u64 \<Rightarrow> bytes" where
  "AppendUint64 b i =
     (if i = 0 then b @ [0x80]
      else if i < 128 then b @ [ucast i]
      else b @ (0x80 + of_nat (length (putint i))) # putint i)"

text \<open>\<open>CountValues\<close> with fuel for its rounds: every value has at least one byte.\<close>

fun count_values :: "nat \<Rightarrow> nat \<Rightarrow> bytes \<Rightarrow> (rlp_error + nat) res" where
  "count_values 0 i b = (if length b > 0 then NoFuel else Ok (Inr i))"
| "count_values (Suc n) i b =
     (if length b > 0 then
        case readKind b of
          Inl e \<Rightarrow> Ok (Inl e)
        | Inr (_, tagsize, sz) \<Rightarrow>
            bnd (of_opt SliceBounds (slice b (unat (tagsize + sz)) (length b))) (count_values n (i + 1))
      else Ok (Inr i))"

definition CountValues :: "bytes \<Rightarrow> (rlp_error + nat) res" where
  "CountValues b = count_values (length b) 0 b"

section \<open>List iterators\<close>

record listIterator =
  it_data :: bytes
  it_next :: bytes
  it_err :: "rlp_error option"

definition NewListIterator :: "bytes \<Rightarrow> (rlp_error + listIterator) res" where
  "NewListIterator d =
     (case readKind d of
        Inl e \<Rightarrow> Ok (Inl e)
      | Inr (k, t, c) \<Rightarrow>
          if k \<noteq> List then Ok (Inl ErrExpectedList)
          else bnd (of_opt SliceBounds (slice d (unat t) (unat (t + c)))) (\<lambda>content.
            Ok (Inr \<lparr>it_data = content, it_next = [], it_err = None\<rparr>)))"

definition it_Next :: "listIterator \<Rightarrow> (listIterator \<times> bool) res" where
  "it_Next it =
     (if length (it_data it) = 0 then Ok (it, False)
      else
        let (t, c, err) = (case readKind (it_data it) of Inl e \<Rightarrow> (0, 0, Some e) | Inr (_, t, c) \<Rightarrow> (t, c, None))
        in bnd (of_opt SliceBounds (slice (it_data it) 0 (unat (t + c)))) (\<lambda>value.
           bnd (of_opt SliceBounds (slice (it_data it) (unat (t + c)) (length (it_data it)))) (\<lambda>rest.
           Ok (it\<lparr>it_next := value, it_data := rest, it_err := err\<rparr>, True))))"

end
