(* ===== verification/WireTypes.thy ===== *)
theory WireTypes
  imports Prelude
begin

text \<open>The fixed-size values of the protobuf messages and their conversions (\<^verbatim>\<open>utils/util.go\<close>).
  A message field that points to another message is an option. The 256-bit integers and the
  hashes are words whose limbs are the 64-bit fields; converting a message with a missing part
  dereferences nil.\<close>

unbundle bit_operations_syntax

record H128 =
  h128_Hi :: u64
  h128_Lo :: u64

record H160 =
  h160_Hi :: "H128 option"
  h160_Lo :: "32 word"

record H256 =
  h256_Hi :: "H128 option"
  h256_Lo :: "H128 option"

section \<open>Limbs\<close>

definition limb :: "nat \<Rightarrow> 'a::len word \<Rightarrow> 'b::len word" where
  "limb n x = ucast (drop_bit n x)"

definition at_limb :: "nat \<Rightarrow> 'b::len word \<Rightarrow> 'a::len word" where
  "at_limb n x = push_bit n (ucast x)"

definition limbs4 :: "u64 \<Rightarrow> u64 \<Rightarrow> u64 \<Rightarrow> u64 \<Rightarrow> 256 word" where
  "limbs4 w3 w2 w1 w0 = at_limb 192 w3 OR at_limb 128 w2 OR at_limb 64 w1 OR at_limb 0 w0"

lemma bit_limb: "bit (limb k x :: u64) n \<longleftrightarrow> n < 64 \<and> bit x (k + n)"
  by (simp add: limb_def bit_simps)

lemma bit_limbs4:
  "bit (limbs4 a b c d) n \<longleftrightarrow>
     (if n < 64 then bit d n else if n < 128 then bit c (n - 64) else if n < 192 then bit b (n - 128) else bit a (n - 192))"
  using bit_imp_le_length [of a "n - 192"] bit_imp_le_length [of b "n - 128"] bit_imp_le_length [of c "n - 64"]
    bit_imp_le_length [of d n]
  by (auto simp: limbs4_def at_limb_def bit_simps)

lemma limbs4_limbs: "limbs4 (limb 192 x) (limb 128 x) (limb 64 x) (limb 0 x) = x"
  by (rule bit_word_eqI) (auto simp: bit_limbs4 bit_limb)

lemma limbs_limbs4:
  "limb 192 (limbs4 a b c d) = a" "limb 128 (limbs4 a b c d) = b"
  "limb 64 (limbs4 a b c d) = c" "limb 0 (limbs4 a b c d) = d"
  by (rule bit_word_eqI; simp add: bit_limbs4 bit_limb)+

section \<open>Integers and hashes\<close>

definition ConvertH256ToUint256Int :: "H256 option \<Rightarrow> u256 res" where
  "ConvertH256ToUint256Int h256 =
     bnd (of_opt NilDereference h256) (\<lambda>h.
     bnd (of_opt NilDereference (h256_Hi h)) (\<lambda>hi.
     bnd (of_opt NilDereference (h256_Lo h)) (\<lambda>lo.
     Ok (limbs4 (h128_Hi hi) (h128_Lo hi) (h128_Hi lo) (h128_Lo lo)))))"

definition ConvertUint256IntToH256 :: "u256 \<Rightarrow> H256" where
  "ConvertUint256IntToH256 i =
     \<lparr>h256_Hi = Some \<lparr>h128_Hi = limb 192 i, h128_Lo = limb 128 i\<rparr>,
      h256_Lo = Some \<lparr>h128_Hi = limb 64 i, h128_Lo = limb 0 i\<rparr>\<rparr>"

definition ConvertH256ToHash :: "H256 option \<Rightarrow> hash res" where
  "ConvertH256ToHash h256 =
     (case h256 of
        None \<Rightarrow> Ok 0
      | Some h \<Rightarrow>
          bnd (of_opt NilDereference (h256_Hi h)) (\<lambda>hi.
          bnd (of_opt NilDereference (h256_Lo h)) (\<lambda>lo.
          Ok (limbs4 (h128_Hi hi) (h128_Lo hi) (h128_Hi lo) (h128_Lo lo)))))"

definition ConvertHashToH256 :: "hash \<Rightarrow> H256" where
  "ConvertHashToH256 h =
     \<lparr>h256_Hi = Some \<lparr>h128_Hi = limb 192 h, h128_Lo = limb 128 h\<rparr>,
      h256_Lo = Some \<lparr>h128_Hi = limb 64 h, h128_Lo = limb 0 h\<rparr>\<rparr>"

definition ConvertHashesToH256 :: "hash list \<Rightarrow> H256 list" where
  "ConvertHashesToH256 hs = map ConvertHashToH256 hs"

definition Uint256sToH256 :: "u256 list \<Rightarrow> H256 list" where
  "Uint256sToH256 us = map ConvertUint256IntToH256 us"

primrec H256sToHashes :: "H256 option list \<Rightarrow> hash list res" where
  "H256sToHashes [] = Ok []"
| "H256sToHashes (h # hs) = bnd (ConvertH256ToHash h) (\<lambda>x. bnd (H256sToHashes hs) (\<lambda>xs. Ok (x # xs)))"

lemma uint256_roundtrip [simp]: "ConvertH256ToUint256Int (Some (ConvertUint256IntToH256 i)) = Ok i"
  by (simp add: ConvertH256ToUint256Int_def ConvertUint256IntToH256_def limbs4_limbs)

lemma hash_roundtrip [simp]: "ConvertH256ToHash (Some (ConvertHashToH256 h)) = Ok h"
  by (simp add: ConvertH256ToHash_def ConvertHashToH256_def limbs4_limbs)

lemma hashes_roundtrip [simp]: "H256sToHashes (map Some (ConvertHashesToH256 hs)) = Ok hs"
  by (induction hs) (simp_all add: ConvertHashesToH256_def)

lemma uint256_canonical:
  "ConvertH256ToUint256Int (Some h) = Ok i \<Longrightarrow> (h :: H256) = ConvertUint256IntToH256 i"
  by (cases h) (auto simp: ConvertH256ToUint256Int_def ConvertUint256IntToH256_def limbs_limbs4 bnd_eq_Ok)

section \<open>Addresses\<close>

definition ConvertH160toAddress :: "H160 option \<Rightarrow> address res" where
  "ConvertH160toAddress h160 =
     bnd (of_opt NilDereference h160) (\<lambda>h.
     bnd (of_opt NilDereference (h160_Hi h)) (\<lambda>hi.
     Ok (at_limb 96 (h128_Hi hi) OR at_limb 32 (h128_Lo hi) OR at_limb 0 (h160_Lo h))))"

definition ConvertH160ToPAddress :: "H160 option \<Rightarrow> address res" where
  "ConvertH160ToPAddress h160 = ConvertH160toAddress h160"

definition ConvertAddressToH160 :: "address \<Rightarrow> H160" where
  "ConvertAddressToH160 a =
     \<lparr>h160_Hi = Some \<lparr>h128_Hi = limb 96 a, h128_Lo = limb 32 a\<rparr>, h160_Lo = limb 0 a\<rparr>"

definition ConvertAddrsToH160 :: "address list \<Rightarrow> H160 list" where
  "ConvertAddrsToH160 ps = map ConvertAddressToH160 ps"

primrec H160sToAddress :: "H160 option list \<Rightarrow> address list res" where
  "H160sToAddress [] = Ok []"
| "H160sToAddress (p # ps) = bnd (ConvertH160toAddress p) (\<lambda>a. bnd (H160sToAddress ps) (\<lambda>as. Ok (a # as)))"

lemma address_limbs:
  "at_limb 96 (limb 96 a :: u64) OR at_limb 32 (limb 32 a :: u64) OR at_limb 0 (limb 0 a :: 32 word) = (a :: address)"
proof (rule bit_word_eqI)
  fix n assume "n < LENGTH(160)"
  then consider "n < 32" | "32 \<le> n" "n < 96" | "96 \<le> n" "n < 160" by fastforce
  then show "bit (at_limb 96 (limb 96 a :: u64) OR at_limb 32 (limb 32 a :: u64) OR at_limb 0 (limb 0 a :: 32 word) :: address) n = bit a n"
    by cases (auto simp: limb_def at_limb_def bit_simps)
qed

lemma address_roundtrip [simp]: "ConvertH160ToPAddress (Some (ConvertAddressToH160 a)) = Ok a"
  by (simp add: ConvertH160ToPAddress_def ConvertH160toAddress_def ConvertAddressToH160_def address_limbs)

lemma addresses_roundtrip [simp]: "H160sToAddress (map Some (ConvertAddrsToH160 ps)) = Ok ps"
  using address_roundtrip by (induction ps) (simp_all add: ConvertAddrsToH160_def ConvertH160ToPAddress_def)

end
