(* ===== verification/Transactions.thy ===== *)
theory Transactions
  imports Transition Rlp WireTypes
begin

text \<open>The transaction types, their hashes, copies and protobuf messages
  (\<^verbatim>\<open>common/transaction\<close> and \<^verbatim>\<open>common/hash\<close>). Pointers are options; a nil byte slice is the empty
  list. The time of arrival of a transaction is left out.\<close>

section \<open>Transaction data\<close>

record LegacyTx =
  lt_Nonce :: u64
  lt_GasPrice :: "u256 option"
  lt_Gas :: u64
  lt_To :: "address option"
  lt_From :: "address option"
  lt_Value :: "u256 option"
  lt_Data :: bytes
  lt_V :: "u256 option"
  lt_R :: "u256 option"
  lt_S :: "u256 option"
  lt_Sign :: bytes

record AccessListTx =
  at_ChainID :: "u256 option"
  at_Nonce :: u64
  at_GasPrice :: "u256 option"
  at_Gas :: u64
  at_To :: "address option"
  at_From :: "address option"
  at_Value :: "u256 option"
  at_Data :: bytes
  at_AccessList :: AccessTuples
  at_Sign :: bytes
  at_V :: "u256 option"
  at_R :: "u256 option"
  at_S :: "u256 option"

record DynamicFeeTx =
  dt_ChainID :: "u256 option"
  dt_Nonce :: u64
  dt_GasTipCap :: "u256 option"
  dt_GasFeeCap :: "u256 option"
  dt_Gas :: u64
  dt_To :: "address option"
  dt_From :: "address option"
  dt_Value :: "u256 option"
  dt_Data :: bytes
  dt_AccessList :: AccessTuples
  dt_Sign :: bytes
  dt_V :: "u256 option"
  dt_R :: "u256 option"
  dt_S :: "u256 option"

datatype TxData = TxLegacy LegacyTx | TxAccessList AccessListTx | TxDynamicFee DynamicFeeTx

definition LegacyTxType :: u8 where "LegacyTxType = 0"
definition AccessListTxType :: u8 where "AccessListTxType = 1"
definition DynamicFeeTxType :: u8 where "DynamicFeeTxType = 2"

primrec txType :: "TxData \<Rightarrow> u8" where
  "txType (TxLegacy tx) = LegacyTxType"
| "txType (TxAccessList tx) = AccessListTxType"
| "txType (TxDynamicFee tx) = DynamicFeeTxType"

text \<open>The chain id a legacy signature commits to; the subtraction wraps.\<close>

definition DeriveChainId :: "u256 option \<Rightarrow> u256 res" where
  "DeriveChainId v =
     bnd (of_opt NilDereference v) (\<lambda>v. Ok
       (if IsUint64 v then
          let v = Uint64 v in if v = 27 \<or> v = 28 then 0 else SetUint64 ((v - 35) div 2)
        else (v - 35) div 2))"

primrec tx_chainID :: "TxData \<Rightarrow> u256 option res" where
  "tx_chainID (TxLegacy tx) = bnd (DeriveChainId (lt_V tx)) (\<lambda>id. Ok (Some id))"
| "tx_chainID (TxAccessList tx) = Ok (at_ChainID tx)"
| "tx_chainID (TxDynamicFee tx) = Ok (dt_ChainID tx)"

primrec tx_accessList :: "TxData \<Rightarrow> AccessTuples" where
  "tx_accessList (TxLegacy tx) = []"
| "tx_accessList (TxAccessList tx) = at_AccessList tx"
| "tx_accessList (TxDynamicFee tx) = dt_AccessList tx"

primrec tx_data :: "TxData \<Rightarrow> bytes" where
  "tx_data (TxLegacy tx) = lt_Data tx"
| "tx_data (TxAccessList tx) = at_Data tx"
| "tx_data (TxDynamicFee tx) = dt_Data tx"

primrec tx_gas :: "TxData \<Rightarrow> u64" where
  "tx_gas (TxLegacy tx) = lt_Gas tx"
| "tx_gas (TxAccessList tx) = at_Gas tx"
| "tx_gas (TxDynamicFee tx) = dt_Gas tx"

primrec tx_gasPrice :: "TxData \<Rightarrow> u256 option" where
  "tx_gasPrice (TxLegacy tx) = lt_GasPrice tx"
| "tx_gasPrice (TxAccessList tx) = at_GasPrice tx"
| "tx_gasPrice (TxDynamicFee tx) = dt_GasFeeCap tx"

primrec tx_gasTipCap :: "TxData \<Rightarrow> u256 option" where
  "tx_gasTipCap (TxLegacy tx) = lt_GasPrice tx"
| "tx_gasTipCap (TxAccessList tx) = at_GasPrice tx"
| "tx_gasTipCap (TxDynamicFee tx) = dt_GasTipCap tx"

primrec tx_gasFeeCap :: "TxData \<Rightarrow> u256 option" where
  "tx_gasFeeCap (TxLegacy tx) = lt_GasPrice tx"
| "tx_gasFeeCap (TxAccessList tx) = at_GasPrice tx"
| "tx_gasFeeCap (TxDynamicFee tx) = dt_GasFeeCap tx"

primrec tx_value :: "TxData \<Rightarrow> u256 option" where
  "tx_value (TxLegacy tx) = lt_Value tx"
| "tx_value (TxAccessList tx) = at_Value tx"
| "tx_value (TxDynamicFee tx) = dt_Value tx"

primrec tx_nonce :: "TxData \<Rightarrow> u64" where
  "tx_nonce (TxLegacy tx) = lt_Nonce tx"
| "tx_nonce (TxAccessList tx) = at_Nonce tx"
| "tx_nonce (TxDynamicFee tx) = dt_Nonce tx"

primrec tx_to :: "TxData \<Rightarrow> address option" where
  "tx_to (TxLegacy tx) = lt_To tx"
| "tx_to (TxAccessList tx) = at_To tx"
| "tx_to (TxDynamicFee tx) = dt_To tx"

primrec tx_from :: "TxData \<Rightarrow> address option" where
  "tx_from (TxLegacy tx) = lt_From tx"
| "tx_from (TxAccessList tx) = at_From tx"
| "tx_from (TxDynamicFee tx) = dt_From tx"

primrec tx_sign :: "TxData \<Rightarrow> bytes" where
  "tx_sign (TxLegacy tx) = lt_Sign tx"
| "tx_sign (TxAccessList tx) = at_Sign tx"
| "tx_sign (TxDynamicFee tx) = dt_Sign tx"

primrec rawSignatureValues :: "TxData \<Rightarrow> u256 option \<times> u256 option \<times> u256 option" where
  "rawSignatureValues (TxLegacy tx) = (lt_V tx, lt_R tx, lt_S tx)"
| "rawSignatureValues (TxAccessList tx) = (at_V tx, at_R tx, at_S tx)"
| "rawSignatureValues (TxDynamicFee tx) = (dt_V tx, dt_R tx, dt_S tx)"

primrec setSignatureValues :: "u256 option \<Rightarrow> u256 option \<Rightarrow> u256 option \<Rightarrow> u256 option \<Rightarrow> TxData \<Rightarrow> TxData" where
  "setSignatureValues chain v r s (TxLegacy tx) = TxLegacy (tx\<lparr>lt_V := v, lt_R := r, lt_S := s\<rparr>)"
| "setSignatureValues chain v r s (TxAccessList tx) =
     TxAccessList (tx\<lparr>at_ChainID := chain, at_V := v, at_R := r, at_S := s\<rparr>)"
| "setSignatureValues chain v r s (TxDynamicFee tx) =
     TxDynamicFee (tx\<lparr>dt_ChainID := chain, dt_V := v, dt_R := r, dt_S := s\<rparr>)"

section \<open>Copies\<close>

text \<open>A number field of a copy is a new integer, set when the original is not nil. The signature bytes
  are copied into a nil slice, which takes none of them. The copy of an access-list transaction
  has nil signature values: setting one of them dereferences nil.\<close>

definition number_copy :: "u256 option \<Rightarrow> u256 option" where
  "number_copy x = Some (case x of None \<Rightarrow> 0 | Some v \<Rightarrow> v)"

definition set_nil :: "u256 option \<Rightarrow> unit res" where
  "set_nil x = (case x of None \<Rightarrow> Ok () | Some _ \<Rightarrow> Panic NilDereference)"

definition legacy_copy :: "LegacyTx \<Rightarrow> LegacyTx" where
  "legacy_copy tx =
     \<lparr>lt_Nonce = lt_Nonce tx, lt_GasPrice = number_copy (lt_GasPrice tx), lt_Gas = lt_Gas tx, lt_To = lt_To tx,
      lt_From = lt_From tx, lt_Value = number_copy (lt_Value tx), lt_Data = lt_Data tx, lt_V = number_copy (lt_V tx),
      lt_R = number_copy (lt_R tx), lt_S = number_copy (lt_S tx), lt_Sign = []\<rparr>"

definition access_list_copy :: "AccessListTx \<Rightarrow> AccessListTx res" where
  "access_list_copy tx =
     (let cpy =
        \<lparr>at_ChainID = number_copy (at_ChainID tx), at_Nonce = at_Nonce tx, at_GasPrice = number_copy (at_GasPrice tx),
         at_Gas = at_Gas tx, at_To = at_To tx, at_From = at_From tx, at_Value = number_copy (at_Value tx),
         at_Data = at_Data tx, at_AccessList = at_AccessList tx, at_Sign = [], at_V = None, at_R = None, at_S = None\<rparr>
      in bnd (set_nil (at_V tx)) (\<lambda>_. bnd (set_nil (at_R tx)) (\<lambda>_. bnd (set_nil (at_S tx)) (\<lambda>_. Ok cpy))))"

definition dynamic_fee_copy :: "DynamicFeeTx \<Rightarrow> DynamicFeeTx" where
  "dynamic_fee_copy tx =
     \<lparr>dt_ChainID = number_copy (dt_ChainID tx), dt_Nonce = dt_Nonce tx, dt_GasTipCap = number_copy (dt_GasTipCap tx),
      dt_GasFeeCap = number_copy (dt_GasFeeCap tx), dt_Gas = dt_Gas tx, dt_To = dt_To tx, dt_From = dt_From tx,
      dt_Value = number_copy (dt_Value tx), dt_Data = dt_Data tx, dt_AccessList = dt_AccessList tx, dt_Sign = [],
      dt_V = number_copy (dt_V tx), dt_R = number_copy (dt_R tx), dt_S = number_copy (dt_S tx)\<rparr>"

primrec tx_copy :: "TxData \<Rightarrow> TxData res" where
  "tx_copy (TxLegacy tx) = Ok (TxLegacy (legacy_copy tx))"
| "tx_copy (TxAccessList tx) = bnd (access_list_copy tx) (\<lambda>c. Ok (TxAccessList c))"
| "tx_copy (TxDynamicFee tx) = Ok (TxDynamicFee (dynamic_fee_copy tx))"

section \<open>Hashes\<close>

text \<open>\<open>RlpHash\<close> and \<open>PrefixedRlpHash\<close> ignore an encoding error, and then hash nothing but the prefix.\<close>

definition RlpHash :: "lib \<Rightarrow> rval \<Rightarrow> hash" where
  "RlpHash L x = keccak L (case Encode x of None \<Rightarrow> [] | Some b \<Rightarrow> b)"

definition PrefixedRlpHash :: "lib \<Rightarrow> u8 \<Rightarrow> rval \<Rightarrow> hash" where
  "PrefixedRlpHash L p x = keccak L (p # (case Encode x of None \<Rightarrow> [] | Some b \<Rightarrow> b))"

text \<open>How the writers see an address pointer and an access list.\<close>

definition address_rval :: "address option \<Rightarrow> rval" where
  "address_rval a = RPtr String (map_option (RByteArray \<circ> address_bytes) a)"

definition access_rval :: "AccessTuples \<Rightarrow> rval" where
  "access_rval al =
     RList (map (\<lambda>(a, ks). RList [RByteArray (address_bytes a), RList (map (RByteArray \<circ> hash_bytes) ks)]) al)"

primrec data_hash :: "lib \<Rightarrow> TxData \<Rightarrow> hash" where
  "data_hash L (TxLegacy tx) =
     RlpHash L (RList
       [RUint (lt_Nonce tx), RUint256 (lt_GasPrice tx), RUint (lt_Gas tx), address_rval (lt_To tx), RUint256 (lt_Value tx),
        RBytes (lt_Data tx), RUint256 (lt_V tx), RUint256 (lt_R tx), RUint256 (lt_S tx)])"
| "data_hash L (TxAccessList tx) =
     PrefixedRlpHash L AccessListTxType (RList
       [RUint256 (at_ChainID tx), RUint (at_Nonce tx), RUint256 (at_GasPrice tx), RUint (at_Gas tx), address_rval (at_To tx),
        RUint256 (at_Value tx), RBytes (at_Data tx), access_rval (at_AccessList tx), RUint256 (at_V tx), RUint256 (at_R tx),
        RUint256 (at_S tx)])"
| "data_hash L (TxDynamicFee tx) =
     PrefixedRlpHash L DynamicFeeTxType (RList
       [RUint256 (dt_ChainID tx), RUint (dt_Nonce tx), RUint256 (dt_GasTipCap tx), RUint256 (dt_GasFeeCap tx),
        RUint (dt_Gas tx), address_rval (dt_To tx), RUint256 (dt_Value tx), RBytes (dt_Data tx),
        access_rval (dt_AccessList tx), RUint256 (dt_V tx), RUint256 (dt_R tx), RUint256 (dt_S tx)])"

section \<open>Transactions\<close>

record EIP155 =
  chainId :: int
  chainIdMul :: int

datatype Signer =
    FrontierSigner
  | HomesteadSigner
  | EIP155Signer EIP155
  | Eip2930Signer EIP155
  | LondonSigner EIP155

record sigCache =
  sc_signer :: Signer
  sc_from :: address

text \<open>A transaction with its cached hash and its cached sender.\<close>

record Transaction =
  inner :: TxData
  hash_cache :: "hash option"
  from_cache :: "sigCache option"

definition fresh_tx :: "TxData \<Rightarrow> Transaction" where
  "fresh_tx t = \<lparr>inner = t, hash_cache = None, from_cache = None\<rparr>"

definition NewTx :: "TxData \<Rightarrow> Transaction res" where
  "NewTx t = bnd (tx_copy t) (\<lambda>t. Ok (fresh_tx t))"

definition NewTransaction ::
  "u64 \<Rightarrow> address \<Rightarrow> address option \<Rightarrow> u256 option \<Rightarrow> u64 \<Rightarrow> u256 option \<Rightarrow> bytes \<Rightarrow> Transaction res" where
  "NewTransaction nonce from dst amount gasLimit gasPrice cd =
     NewTx (TxLegacy
       \<lparr>lt_Nonce = nonce, lt_GasPrice = gasPrice, lt_Gas = gasLimit, lt_To = dst, lt_From = Some from, lt_Value = amount,
        lt_Data = cd, lt_V = None, lt_R = None, lt_S = None, lt_Sign = []\<rparr>)"

definition NewContractCreation :: "u64 \<Rightarrow> u256 option \<Rightarrow> u64 \<Rightarrow> u256 option \<Rightarrow> bytes \<Rightarrow> Transaction res" where
  "NewContractCreation nonce amount gasLimit gasPrice cd =
     NewTx (TxLegacy
       \<lparr>lt_Nonce = nonce, lt_GasPrice = gasPrice, lt_Gas = gasLimit, lt_To = None, lt_From = None, lt_Value = amount,
        lt_Data = cd, lt_V = None, lt_R = None, lt_S = None, lt_Sign = []\<rparr>)"

definition tx_Hash :: "lib \<Rightarrow> Transaction \<Rightarrow> Transaction \<times> hash" where
  "tx_Hash L tx =
     (case hash_cache tx of
        Some h \<Rightarrow> (tx, h)
      | None \<Rightarrow> let h = data_hash L (inner tx) in (tx\<lparr>hash_cache := Some h\<rparr>, h))"

definition tx_SetFrom :: "address \<Rightarrow> Transaction \<Rightarrow> Transaction" where
  "tx_SetFrom a tx = tx\<lparr>inner := (case inner tx of
        TxAccessList t \<Rightarrow> TxAccessList (t\<lparr>at_From := Some a\<rparr>)
      | TxLegacy t \<Rightarrow> TxLegacy (t\<lparr>lt_From := Some a\<rparr>)
      | TxDynamicFee t \<Rightarrow> TxDynamicFee (t\<lparr>dt_From := Some a\<rparr>))\<rparr>"

definition tx_SetNonce :: "u64 \<Rightarrow> Transaction \<Rightarrow> Transaction" where
  "tx_SetNonce n tx = tx\<lparr>inner := (case inner tx of
        TxAccessList t \<Rightarrow> TxAccessList (t\<lparr>at_Nonce := n\<rparr>)
      | TxLegacy t \<Rightarrow> TxLegacy (t\<lparr>lt_Nonce := n\<rparr>)
      | TxDynamicFee t \<Rightarrow> TxDynamicFee (t\<lparr>dt_Nonce := n\<rparr>))\<rparr>"

definition WithSignatureValues :: "u256 option \<Rightarrow> u256 option \<Rightarrow> u256 option \<Rightarrow> Transaction \<Rightarrow> Transaction" where
  "WithSignatureValues v r s tx = tx\<lparr>inner := setSignatureValues (Some 100100100) v r s (inner tx)\<rparr>"

abbreviation nonnil :: "'a option \<Rightarrow> 'a res" where
  "nonnil \<equiv> of_opt NilDereference"

definition tx_Cost :: "Transaction \<Rightarrow> u256 res" where
  "tx_Cost tx =
     bnd (nonnil (tx_gasPrice (inner tx))) (\<lambda>price.
     bnd (nonnil (tx_value (inner tx))) (\<lambda>amount.
     Ok (price * SetUint64 (tx_gas (inner tx)) + amount)))"

section \<open>Effective tips\<close>

definition u256_Cmp :: "u256 \<Rightarrow> u256 \<Rightarrow> int" where
  "u256_Cmp x y = (if x < y then -1 else if x = y then 0 else 1)"

definition uint256Min :: "u256 \<Rightarrow> u256 \<Rightarrow> u256" where
  "uint256Min x y = (if u256_Cmp x y = 1 then x else y)"

text \<open>The tip and whether the fee cap is below the base fee (\<open>ErrGasFeeCapTooLow\<close>).\<close>

definition EffectiveGasTip :: "Transaction \<Rightarrow> u256 option \<Rightarrow> (u256 option \<times> bool) res" where
  "EffectiveGasTip tx baseFee =
     (case baseFee of
        None \<Rightarrow> Ok (tx_gasTipCap (inner tx), False)
      | Some fee \<Rightarrow>
          bnd (nonnil (tx_gasFeeCap (inner tx))) (\<lambda>gasFeeCap.
          bnd (nonnil (tx_gasTipCap (inner tx))) (\<lambda>gasTipCap.
          Ok (Some (uint256Min gasTipCap (gasFeeCap - fee)), u256_Cmp gasFeeCap fee = -1))))"

definition EffectiveGasTipValue :: "Transaction \<Rightarrow> u256 option \<Rightarrow> u256 option res" where
  "EffectiveGasTipValue tx baseFee = bnd (EffectiveGasTip tx baseFee) (\<lambda>(t, _). Ok t)"

definition ptr_Cmp :: "u256 option \<Rightarrow> u256 option \<Rightarrow> int res" where
  "ptr_Cmp x y = bnd (nonnil x) (\<lambda>x. bnd (nonnil y) (\<lambda>y. Ok (u256_Cmp x y)))"

definition GasFeeCapCmp :: "Transaction \<Rightarrow> Transaction \<Rightarrow> int res" where
  "GasFeeCapCmp tx other = ptr_Cmp (tx_gasFeeCap (inner tx)) (tx_gasFeeCap (inner other))"

definition GasTipCapCmp :: "Transaction \<Rightarrow> Transaction \<Rightarrow> int res" where
  "GasTipCapCmp tx other = ptr_Cmp (tx_gasTipCap (inner tx)) (tx_gasTipCap (inner other))"

definition GasFeeCapIntCmp :: "Transaction \<Rightarrow> u256 option \<Rightarrow> int res" where
  "GasFeeCapIntCmp tx other = ptr_Cmp (tx_gasFeeCap (inner tx)) other"

definition GasTipCapIntCmp :: "Transaction \<Rightarrow> u256 option \<Rightarrow> int res" where
  "GasTipCapIntCmp tx other = ptr_Cmp (tx_gasTipCap (inner tx)) other"

definition EffectiveGasTipIntCmp :: "Transaction \<Rightarrow> u256 option \<Rightarrow> u256 option \<Rightarrow> int res" where
  "EffectiveGasTipIntCmp tx other baseFee =
     (if baseFee = None then GasTipCapIntCmp tx other
      else bnd (EffectiveGasTipValue tx baseFee) (\<lambda>t. ptr_Cmp t other))"

definition EffectiveGasTipCmp :: "Transaction \<Rightarrow> Transaction \<Rightarrow> u256 option \<Rightarrow> int res" where
  "EffectiveGasTipCmp tx other baseFee =
     (if baseFee = None then GasTipCapCmp tx other
      else bnd (EffectiveGasTipValue tx baseFee) (\<lambda>t. bnd (EffectiveGasTipValue other baseFee) (ptr_Cmp t)))"

section \<open>Protobuf messages\<close>

record pbTransaction =
  pb_Type :: u64
  pb_Nonce :: u64
  pb_GasPrice :: "H256 option"
  pb_Gas :: u64
  pb_FeePerGas :: "H256 option"
  pb_PriorityFeePerGas :: "H256 option"
  pb_Value :: "H256 option"
  pb_Data :: bytes
  pb_Sign :: bytes
  pb_To :: "H160 option"
  pb_From :: "H160 option"
  pb_ChainID :: u64
  pb_Hash :: "H256 option"
  pb_R :: "H256 option"
  pb_S :: "H256 option"
  pb_V :: "H256 option"

primrec pb_chain_id :: "TxData \<Rightarrow> u64 res" where
  "pb_chain_id (TxLegacy t) = Ok 0"
| "pb_chain_id (TxAccessList t) = bnd (nonnil (at_ChainID t)) (\<lambda>id. Ok (Uint64 id))"
| "pb_chain_id (TxDynamicFee t) = bnd (nonnil (dt_ChainID t)) (\<lambda>id. Ok (Uint64 id))"

primrec pb_fees :: "TxData \<Rightarrow> (H256 option \<times> H256 option) res" where
  "pb_fees (TxLegacy t) = Ok (None, None)"
| "pb_fees (TxAccessList t) = Ok (None, None)"
| "pb_fees (TxDynamicFee t) =
     bnd (nonnil (dt_GasFeeCap t)) (\<lambda>cap. bnd (nonnil (dt_GasTipCap t)) (\<lambda>tip.
     Ok (Some (ConvertUint256IntToH256 cap), Some (ConvertUint256IntToH256 tip))))"

text \<open>The message without the hash, as \<open>Marshal\<close> builds it.\<close>

definition pb_message :: "TxData \<Rightarrow> pbTransaction res" where
  "pb_message t =
     bnd (pb_chain_id t) (\<lambda>chain.
     bnd (nonnil (tx_gasPrice t)) (\<lambda>price.
     bnd (nonnil (tx_value t)) (\<lambda>amount.
     bnd (nonnil (tx_from t)) (\<lambda>from.
     bnd (pb_fees t) (\<lambda>(cap, tip).
     let (v, r, s) = rawSignatureValues t
     in Ok \<lparr>pb_Type = ucast (txType t), pb_Nonce = tx_nonce t, pb_GasPrice = Some (ConvertUint256IntToH256 price),
            pb_Gas = tx_gas t, pb_FeePerGas = cap, pb_PriorityFeePerGas = tip,
            pb_Value = Some (ConvertUint256IntToH256 amount), pb_Data = tx_data t, pb_Sign = tx_sign t,
            pb_To = map_option ConvertAddressToH160 (tx_to t), pb_From = Some (ConvertAddressToH160 from),
            pb_ChainID = chain, pb_Hash = None, pb_R = map_option ConvertUint256IntToH256 r,
            pb_S = map_option ConvertUint256IntToH256 s, pb_V = map_option ConvertUint256IntToH256 v\<rparr>)))))"

definition ToProtoMessage :: "lib \<Rightarrow> Transaction \<Rightarrow> (Transaction \<times> pbTransaction) res" where
  "ToProtoMessage L tx =
     bnd (pb_message (inner tx)) (\<lambda>pb.
     let (tx, h) = tx_Hash L tx in Ok (tx, pb\<lparr>pb_Hash := Some (ConvertHashToH256 h)\<rparr>))"

definition pb_number :: "H256 option \<Rightarrow> u256 option res" where
  "pb_number h = bnd (ConvertH256ToUint256Int h) (\<lambda>x. Ok (Some x))"

definition pb_signature :: "H256 option \<Rightarrow> u256 option res" where
  "pb_signature h = (case h of None \<Rightarrow> Ok None | Some _ \<Rightarrow> pb_number h)"

text \<open>The zero address stands for no recipient.\<close>

definition pb_recipient :: "H160 option \<Rightarrow> address option res" where
  "pb_recipient h =
     (case h of
        None \<Rightarrow> Ok None
      | Some _ \<Rightarrow> bnd (ConvertH160ToPAddress h) (\<lambda>a. Ok (if a = 0 then None else Some a)))"

definition pb_signatures :: "pbTransaction \<Rightarrow> (u256 option \<times> u256 option \<times> u256 option) res" where
  "pb_signatures pb =
     bnd (pb_signature (pb_V pb)) (\<lambda>v. bnd (pb_signature (pb_R pb)) (\<lambda>r. bnd (pb_signature (pb_S pb)) (\<lambda>s. Ok (v, r, s))))"

definition pb_data :: "pbTransaction \<Rightarrow> TxData res" where
  "pb_data pb =
     (if pb_Type pb = ucast LegacyTxType then
        bnd (pb_recipient (pb_To pb)) (\<lambda>dst.
        bnd (ConvertH160ToPAddress (pb_From pb)) (\<lambda>from.
        bnd (pb_number (pb_GasPrice pb)) (\<lambda>price.
        bnd (pb_number (pb_Value pb)) (\<lambda>amount.
        bnd (pb_signatures pb) (\<lambda>(v, r, s).
        Ok (TxLegacy \<lparr>lt_Nonce = pb_Nonce pb, lt_GasPrice = price, lt_Gas = pb_Gas pb, lt_To = dst, lt_From = Some from,
              lt_Value = amount, lt_Data = pb_Data pb, lt_V = v, lt_R = r, lt_S = s, lt_Sign = pb_Sign pb\<rparr>))))))
      else if pb_Type pb = ucast AccessListTxType then
        bnd (pb_number (pb_GasPrice pb)) (\<lambda>price.
        bnd (pb_number (pb_Value pb)) (\<lambda>amount.
        bnd (pb_signatures pb) (\<lambda>(v, r, s).
        bnd (pb_recipient (pb_To pb)) (\<lambda>dst.
        bnd (ConvertH160ToPAddress (pb_From pb)) (\<lambda>from.
        Ok (TxAccessList \<lparr>at_ChainID = Some (SetUint64 (pb_ChainID pb)), at_Nonce = pb_Nonce pb, at_GasPrice = price,
              at_Gas = pb_Gas pb, at_To = dst, at_From = Some from, at_Value = amount, at_Data = pb_Data pb,
              at_AccessList = [], at_Sign = pb_Sign pb, at_V = v, at_R = r, at_S = s\<rparr>))))))
      else if pb_Type pb = ucast DynamicFeeTxType then
        bnd (pb_number (pb_FeePerGas pb)) (\<lambda>cap.
        bnd (pb_number (pb_PriorityFeePerGas pb)) (\<lambda>tip.
        bnd (pb_number (pb_Value pb)) (\<lambda>amount.
        bnd (pb_signatures pb) (\<lambda>(v, r, s).
        bnd (pb_recipient (pb_To pb)) (\<lambda>dst.
        bnd (ConvertH160ToPAddress (pb_From pb)) (\<lambda>from.
        Ok (TxDynamicFee \<lparr>dt_ChainID = Some (SetUint64 (pb_ChainID pb)), dt_Nonce = pb_Nonce pb, dt_GasTipCap = tip,
              dt_GasFeeCap = cap, dt_Gas = pb_Gas pb, dt_To = dst, dt_From = Some from, dt_Value = amount,
              dt_Data = pb_Data pb, dt_AccessList = [], dt_Sign = pb_Sign pb, dt_V = v, dt_R = r, dt_S = s\<rparr>)))))))
      else Panic NilDereference)"

text \<open>The hash of the message is read and compared with the hash of the data; nothing depends on the
  outcome.\<close>

definition txDataFromProtoMessage :: "pbTransaction \<Rightarrow> TxData res" where
  "txDataFromProtoMessage pb = bnd (pb_data pb) (\<lambda>t. bnd (ConvertH256ToHash (pb_Hash pb)) (\<lambda>_. Ok t))"

definition FromProtoMessage :: "pbTransaction \<Rightarrow> Transaction res" where
  "FromProtoMessage pb = bnd (txDataFromProtoMessage pb) NewTx"

text \<open>The serialisation of messages is that of the protobuf library. \<open>Unmarshal\<close> keeps the caches of
  the transaction it fills.\<close>

record protobuf =
  proto_Marshal :: "pbTransaction \<Rightarrow> bytes option"
  proto_Unmarshal :: "bytes \<Rightarrow> pbTransaction option"

definition tx_Marshal :: "protobuf \<Rightarrow> Transaction \<Rightarrow> bytes option res" where
  "tx_Marshal P tx = bnd (pb_message (inner tx)) (\<lambda>pb. Ok (proto_Marshal P pb))"

definition tx_Unmarshal :: "protobuf \<Rightarrow> bytes \<Rightarrow> Transaction \<Rightarrow> (Transaction \<times> bool) res" where
  "tx_Unmarshal P b tx =
     (case proto_Unmarshal P b of
        None \<Rightarrow> Ok (tx, False)
      | Some pb \<Rightarrow> bnd (txDataFromProtoMessage pb) (\<lambda>t. Ok (tx\<lparr>inner := t\<rparr>, True)))"

text \<open>The root of a list of transactions hashes their serialisations one after the other.\<close>

primrec derive_bytes :: "protobuf \<Rightarrow> Transaction list \<Rightarrow> bytes res" where
  "derive_bytes P [] = Ok []"
| "derive_bytes P (tx # txs) =
     bnd (tx_Marshal P tx) (\<lambda>b. bnd (derive_bytes P txs) (\<lambda>bs. Ok ((case b of None \<Rightarrow> [] | Some b \<Rightarrow> b) @ bs)))"

definition DeriveSha :: "lib \<Rightarrow> protobuf \<Rightarrow> Transaction list \<Rightarrow> hash res" where
  "DeriveSha L P txs = bnd (derive_bytes P txs) (\<lambda>b. Ok (keccak L b))"

section \<open>Messages\<close>

definition NewMessage ::
  "address \<Rightarrow> address option \<Rightarrow> u64 \<Rightarrow> u256 option \<Rightarrow> u64 \<Rightarrow> u256 option \<Rightarrow> u256 option \<Rightarrow> u256 option \<Rightarrow> bytes
     \<Rightarrow> AccessTuples \<Rightarrow> bool \<Rightarrow> bool \<Rightarrow> Message res" where
  "NewMessage from dst nonce amount gasLimit gasPrice feeCap tip cd al checkNonce isFree =
     bnd (nonnil amount) (\<lambda>amount.
     let orZero = (\<lambda>x. case x of None \<Rightarrow> 0 | Some v \<Rightarrow> v)
     in Ok \<lparr>msg_to = dst, msg_from = from, msg_nonce = nonce, msg_amount = amount, msg_gasLimit = gasLimit,
            msg_gasPrice = orZero gasPrice, msg_feeCap = orZero feeCap, msg_tip = orZero tip, msg_data = cd,
            msg_accessList = al, msg_checkNonce = checkNonce, msg_isFree = isFree\<rparr>)"

definition AsMessage :: "Transaction \<Rightarrow> u256 option \<Rightarrow> Message res" where
  "AsMessage tx baseFee =
     (let t = inner tx
      in bnd (nonnil (tx_gasPrice t)) (\<lambda>price.
         bnd (nonnil (tx_gasFeeCap t)) (\<lambda>cap.
         bnd (nonnil (tx_gasTipCap t)) (\<lambda>tip.
         bnd (nonnil (tx_value t)) (\<lambda>amount.
         let gasPrice = (case baseFee of None \<Rightarrow> price | Some fee \<Rightarrow> if tip + fee > cap then cap else tip + fee)
         in bnd (nonnil (tx_from t)) (\<lambda>from.
            Ok \<lparr>msg_to = tx_to t, msg_from = from, msg_nonce = tx_nonce t, msg_amount = amount, msg_gasLimit = tx_gas t,
                msg_gasPrice = gasPrice, msg_feeCap = cap, msg_tip = tip, msg_data = tx_data t,
                msg_accessList = tx_accessList t, msg_checkNonce = False, msg_isFree = False\<rparr>))))))"

end
