(* ===== verification/Signing.thy ===== *)
theory Signing
  imports Transactions
begin

text \<open>Signers and signatures of transactions (\<^verbatim>\<open>common/transaction/transaction_signing.go\<close>, with the
  checks of \<^verbatim>\<open>common/crypto\<close>). Big integers are integers, and the secp256k1 package a parameter.\<close>

record curve =
  sec_Sign :: "bytes \<Rightarrow> bytes \<Rightarrow> bytes option"
  sec_RecoverPubkey :: "bytes \<Rightarrow> bytes \<Rightarrow> bytes option"

datatype sig_error = ErrInvalidSig | ErrTxTypeNotSupported | ErrInvalidChainId | RecoverFailed | InvalidPublicKey

section \<open>Signature values\<close>

definition SignatureLength :: nat where "SignatureLength = 65"

definition secp256k1N :: u256 where
  "secp256k1N = 0xfffffffffffffffffffffffffffffffebaaedce6af48a03bbfd25e8cd0364141"

definition secp256k1halfN :: u256 where "secp256k1halfN = secp256k1N div 2"

definition ValidateSignatureValues :: "u8 \<Rightarrow> u256 \<Rightarrow> u256 \<Rightarrow> bool \<Rightarrow> bool" where
  "ValidateSignatureValues v r s homestead =
     (if r = 0 \<or> s = 0 then False
      else if homestead \<and> s > secp256k1halfN then False
      else r < secp256k1N \<and> s < secp256k1N \<and> (v = 0 \<or> v = 1))"

definition decodeSignature :: "bytes \<Rightarrow> (int \<times> int \<times> int) res" where
  "decodeSignature sig =
     (if length sig \<noteq> SignatureLength then Panic Impossible
      else Ok (int (be_val (take 32 sig)), int (be_val (take 32 (drop 32 sig))), int (unat (sig ! 64 + 27))))"

text \<open>The bytes of a big integer, right-aligned in 32 bytes.\<close>

definition padded32 :: "int \<Rightarrow> bytes res" where
  "padded32 x =
     (let n = byte_len (nat \<bar>x\<bar>)
      in if n > 32 then Panic SliceBounds else Ok (be_bytes 32 (nat \<bar>x\<bar>)))"

definition recoverPlain :: "lib \<Rightarrow> curve \<Rightarrow> hash \<Rightarrow> int option \<Rightarrow> int option \<Rightarrow> int option \<Rightarrow> bool \<Rightarrow> (sig_error + address) res" where
  "recoverPlain L C sighash R S Vb homestead =
     bnd (nonnil Vb) (\<lambda>Vb.
     if bit_len (nat \<bar>Vb\<bar>) > 8 then Ok (Inl ErrInvalidSig)
     else
       let V = ucast (of_nat (nat \<bar>Vb\<bar>) - 27 :: u64)
       in bnd (nonnil R) (\<lambda>R. bnd (nonnil S) (\<lambda>S.
          if \<not> ValidateSignatureValues V (of_int R) (of_int S) homestead then Ok (Inl ErrInvalidSig)
          else
            bnd (padded32 R) (\<lambda>r. bnd (padded32 S) (\<lambda>s.
            case sec_RecoverPubkey C (hash_bytes sighash) (r @ s @ [V]) of
              None \<Rightarrow> Ok (Inl RecoverFailed)
            | Some pub \<Rightarrow>
                if length pub = 0 \<or> pub ! 0 \<noteq> 4 then Ok (Inl InvalidPublicKey)
                else Ok (Inr (ucast (keccak L (drop 1 pub)))))))))"

section \<open>Signers\<close>

definition NewEIP155Signer :: "int option \<Rightarrow> EIP155" where
  "NewEIP155Signer chain =
     (let id = (case chain of None \<Rightarrow> 0 | Some c \<Rightarrow> c) in \<lparr>chainId = id, chainIdMul = id * 2\<rparr>)"

definition NewEIP2930Signer :: "int option \<Rightarrow> Signer" where
  "NewEIP2930Signer chain = Eip2930Signer (NewEIP155Signer chain)"

definition NewLondonSigner :: "int option \<Rightarrow> Signer" where
  "NewLondonSigner chain = LondonSigner (NewEIP155Signer chain)"

definition LatestSignerForChainID :: "int option \<Rightarrow> Signer" where
  "LatestSignerForChainID chain = (if chain = None then HomesteadSigner else NewLondonSigner chain)"

definition MakeSigner :: "ChainConfig \<Rightarrow> u64 \<Rightarrow> Signer" where
  "MakeSigner cc blockNumber =
     (if cfg_IsLondon cc blockNumber then NewLondonSigner (cc_ChainID cc)
      else if isForked (BerlinBlock cc) blockNumber then NewEIP2930Signer (cc_ChainID cc)
      else if cfg_IsEip1559FeeCollector cc blockNumber then EIP155Signer (NewEIP155Signer (cc_ChainID cc))
      else if isForked (HomesteadBlock cc) blockNumber then HomesteadSigner
      else FrontierSigner)"

primrec signer_ChainID :: "Signer \<Rightarrow> int option" where
  "signer_ChainID FrontierSigner = None"
| "signer_ChainID HomesteadSigner = None"
| "signer_ChainID (EIP155Signer s) = Some (chainId s)"
| "signer_ChainID (Eip2930Signer s) = Some (chainId s)"
| "signer_ChainID (LondonSigner s) = Some (chainId s)"

fun signer_Equal :: "Signer \<Rightarrow> Signer \<Rightarrow> bool" where
  "signer_Equal FrontierSigner FrontierSigner = True"
| "signer_Equal HomesteadSigner HomesteadSigner = True"
| "signer_Equal (EIP155Signer s) (EIP155Signer t) = (chainId t = chainId s)"
| "signer_Equal (Eip2930Signer s) (Eip2930Signer t) = (chainId t = chainId s)"
| "signer_Equal (LondonSigner s) (LondonSigner t) = (chainId t = chainId s)"
| "signer_Equal _ _ = False"

section \<open>What is signed\<close>

definition frontier_hash :: "lib \<Rightarrow> TxData \<Rightarrow> hash" where
  "frontier_hash L t =
     RlpHash L (RList
       [RUint (tx_nonce t), RUint256 (tx_gasPrice t), RUint (tx_gas t), address_rval (tx_to t), RUint256 (tx_value t),
        RBytes (tx_data t)])"

definition eip155_hash :: "lib \<Rightarrow> EIP155 \<Rightarrow> TxData \<Rightarrow> hash" where
  "eip155_hash L s t =
     RlpHash L (RList
       [RUint (tx_nonce t), RUint256 (tx_gasPrice t), RUint (tx_gas t), address_rval (tx_to t), RUint256 (tx_value t),
        RBytes (tx_data t), RBigInt (Some (chainId s)), RUint 0, RUint 0])"

definition eip2930_hash :: "lib \<Rightarrow> EIP155 \<Rightarrow> TxData \<Rightarrow> hash" where
  "eip2930_hash L s t =
     (if txType t = LegacyTxType then eip155_hash L s t
      else if txType t = AccessListTxType then
        PrefixedRlpHash L (txType t) (RList
          [RBigInt (Some (chainId s)), RUint (tx_nonce t), RUint256 (tx_gasPrice t), RUint (tx_gas t), address_rval (tx_to t),
           RUint256 (tx_value t), RBytes (tx_data t), access_rval (tx_accessList t)])
      else 0)"

definition london_hash :: "lib \<Rightarrow> EIP155 \<Rightarrow> TxData \<Rightarrow> hash" where
  "london_hash L s t =
     (if txType t \<noteq> DynamicFeeTxType then eip2930_hash L s t
      else
        PrefixedRlpHash L (txType t) (RList
          [RBigInt (Some (chainId s)), RUint (tx_nonce t), RUint256 (tx_gasTipCap t), RUint256 (tx_gasFeeCap t),
           RUint (tx_gas t), address_rval (tx_to t), RUint256 (tx_value t), RBytes (tx_data t), access_rval (tx_accessList t)]))"

primrec signer_Hash :: "lib \<Rightarrow> Signer \<Rightarrow> TxData \<Rightarrow> hash" where
  "signer_Hash L FrontierSigner t = frontier_hash L t"
| "signer_Hash L HomesteadSigner t = frontier_hash L t"
| "signer_Hash L (EIP155Signer s) t = eip155_hash L s t"
| "signer_Hash L (Eip2930Signer s) t = eip2930_hash L s t"
| "signer_Hash L (LondonSigner s) t = london_hash L s t"

section \<open>Signing\<close>

definition tx_chain_unset_or :: "u256 option \<Rightarrow> EIP155 \<Rightarrow> bool res" where
  "tx_chain_unset_or chain s = bnd (nonnil chain) (\<lambda>id. Ok (id = 0 \<or> id = of_int (chainId s)))"

text \<open>The values \<open>R\<close>, \<open>S\<close>, \<open>V\<close> of a signature in the format \<open>R\<close>, \<open>S\<close>, recovery id.\<close>

definition frontier_values :: "TxData \<Rightarrow> bytes \<Rightarrow> (sig_error + (int \<times> int \<times> int)) res" where
  "frontier_values t sig =
     (if txType t \<noteq> LegacyTxType then Ok (Inl ErrTxTypeNotSupported)
      else bnd (decodeSignature sig) (\<lambda>rsv. Ok (Inr rsv)))"

definition eip155_values :: "EIP155 \<Rightarrow> TxData \<Rightarrow> bytes \<Rightarrow> (sig_error + (int \<times> int \<times> int)) res" where
  "eip155_values s t sig =
     (if txType t \<noteq> LegacyTxType then Ok (Inl ErrTxTypeNotSupported)
      else bnd (decodeSignature sig) (\<lambda>(R, S, V).
        Ok (Inr (R, S, if chainId s \<noteq> 0 then int (unat (sig ! 64 + 35)) + chainIdMul s else V))))"

definition typed_values :: "u256 option \<Rightarrow> EIP155 \<Rightarrow> bytes \<Rightarrow> (sig_error + (int \<times> int \<times> int)) res" where
  "typed_values chain s sig =
     bnd (tx_chain_unset_or chain s) (\<lambda>ok.
     if \<not> ok then Ok (Inl ErrInvalidChainId)
     else bnd (decodeSignature sig) (\<lambda>(R, S, _). Ok (Inr (R, S, int (unat (sig ! 64))))))"

definition eip2930_values :: "EIP155 \<Rightarrow> TxData \<Rightarrow> bytes \<Rightarrow> (sig_error + (int \<times> int \<times> int)) res" where
  "eip2930_values s t sig =
     (case t of
        TxLegacy _ \<Rightarrow> eip155_values s t sig
      | TxAccessList txdata \<Rightarrow> typed_values (at_ChainID txdata) s sig
      | TxDynamicFee _ \<Rightarrow> Ok (Inl ErrTxTypeNotSupported))"

definition london_values :: "EIP155 \<Rightarrow> TxData \<Rightarrow> bytes \<Rightarrow> (sig_error + (int \<times> int \<times> int)) res" where
  "london_values s t sig =
     (case t of TxDynamicFee txdata \<Rightarrow> typed_values (dt_ChainID txdata) s sig | _ \<Rightarrow> eip2930_values s t sig)"

primrec SignatureValues :: "Signer \<Rightarrow> TxData \<Rightarrow> bytes \<Rightarrow> (sig_error + (int \<times> int \<times> int)) res" where
  "SignatureValues FrontierSigner t sig = frontier_values t sig"
| "SignatureValues HomesteadSigner t sig = frontier_values t sig"
| "SignatureValues (EIP155Signer s) t sig = eip155_values s t sig"
| "SignatureValues (Eip2930Signer s) t sig = eip2930_values s t sig"
| "SignatureValues (LondonSigner s) t sig = london_values s t sig"

definition WithSignature :: "Signer \<Rightarrow> bytes \<Rightarrow> Transaction \<Rightarrow> (sig_error + Transaction) res" where
  "WithSignature signer sig tx =
     bnd (SignatureValues signer (inner tx) sig) (\<lambda>vals. case vals of
        Inl e \<Rightarrow> Ok (Inl e)
      | Inr (r, s, v) \<Rightarrow>
          bnd (tx_copy (inner tx)) (\<lambda>cpy.
          Ok (Inr (fresh_tx (setSignatureValues (map_option of_int (signer_ChainID signer))
                    (Some (of_int v)) (Some (of_int r)) (Some (of_int s)) cpy)))))"

definition PaddedBigBytes :: "nat \<Rightarrow> nat \<Rightarrow> bytes" where
  "PaddedBigBytes x n = (if bit_len x div 8 \<ge> n then be_bytes (byte_len x) x else be_bytes n x)"

text \<open>\<open>None\<close> is an error of the signing library.\<close>

definition crypto_Sign :: "curve \<Rightarrow> hash \<Rightarrow> nat \<Rightarrow> bytes option" where
  "crypto_Sign C h prv = sec_Sign C (hash_bytes h) (PaddedBigBytes prv 32)"

definition SignTx :: "lib \<Rightarrow> curve \<Rightarrow> Signer \<Rightarrow> nat \<Rightarrow> Transaction \<Rightarrow> (sig_error + Transaction) option res" where
  "SignTx L C signer prv tx =
     (case crypto_Sign C (signer_Hash L signer (inner tx)) prv of
        None \<Rightarrow> Ok None
      | Some sig \<Rightarrow> bnd (WithSignature signer sig tx) (\<lambda>r. Ok (Some r)))"

definition SignNewTx :: "lib \<Rightarrow> curve \<Rightarrow> Signer \<Rightarrow> nat \<Rightarrow> TxData \<Rightarrow> (sig_error + Transaction) option res" where
  "SignNewTx L C signer prv t = bnd (NewTx t) (SignTx L C signer prv)"

section \<open>Senders\<close>

definition isProtectedV :: "int \<Rightarrow> bool" where
  "isProtectedV V =
     (if bit_len (nat \<bar>V\<bar>) \<le> 8 then
        let v = of_nat (nat \<bar>V\<bar>) :: u64 in v \<noteq> 27 \<and> v \<noteq> 28 \<and> v \<noteq> 1 \<and> v \<noteq> 0
      else True)"

definition ToBig :: "u256 option \<Rightarrow> int option" where
  "ToBig x = map_option uint x"

primrec Protected :: "TxData \<Rightarrow> bool" where
  "Protected (TxLegacy t) = (case ToBig (lt_V t) of None \<Rightarrow> False | Some V \<Rightarrow> isProtectedV V)"
| "Protected (TxAccessList t) = True"
| "Protected (TxDynamicFee t) = True"

definition same_chain :: "EIP155 \<Rightarrow> TxData \<Rightarrow> bool res" where
  "same_chain s t = bnd (tx_chainID t) (\<lambda>id. bnd (nonnil id) (\<lambda>id. Ok (id = of_int (chainId s))))"

definition plain_Sender :: "lib \<Rightarrow> curve \<Rightarrow> bool \<Rightarrow> TxData \<Rightarrow> (sig_error + address) res" where
  "plain_Sender L C homestead t =
     (if txType t \<noteq> LegacyTxType then Ok (Inl ErrTxTypeNotSupported)
      else let (v, r, s) = rawSignatureValues t
           in recoverPlain L C (frontier_hash L t) (ToBig r) (ToBig s) (ToBig v) homestead)"

text \<open>The last steps of the signers with a chain id: the chain check and the recovery.\<close>

definition chain_Sender :: "lib \<Rightarrow> curve \<Rightarrow> EIP155 \<Rightarrow> hash \<Rightarrow> int \<Rightarrow> TxData \<Rightarrow> (sig_error + address) res" where
  "chain_Sender L C s h V1 t =
     bnd (same_chain s t) (\<lambda>ok.
     if \<not> ok then Ok (Inl ErrInvalidChainId)
     else let (_, r, s) = rawSignatureValues t in recoverPlain L C h (ToBig r) (ToBig s) (Some V1) True)"

definition eip155_Sender :: "lib \<Rightarrow> curve \<Rightarrow> EIP155 \<Rightarrow> TxData \<Rightarrow> (sig_error + address) res" where
  "eip155_Sender L C s t =
     (if txType t \<noteq> LegacyTxType then Ok (Inl ErrTxTypeNotSupported)
      else if \<not> Protected t then plain_Sender L C True t
      else bnd (nonnil (fst (rawSignatureValues t))) (\<lambda>V.
        chain_Sender L C s (eip155_hash L s t) (uint V - chainIdMul s - 8) t))"

definition eip2930_Sender :: "lib \<Rightarrow> curve \<Rightarrow> EIP155 \<Rightarrow> TxData \<Rightarrow> (sig_error + address) res" where
  "eip2930_Sender L C s t =
     (if txType t = LegacyTxType \<and> \<not> Protected t then plain_Sender L C True t
      else if txType t = LegacyTxType then
        bnd (nonnil (fst (rawSignatureValues t))) (\<lambda>V. chain_Sender L C s (eip2930_hash L s t) (uint V - chainIdMul s - 8) t)
      else if txType t = AccessListTxType then
        bnd (nonnil (fst (rawSignatureValues t))) (\<lambda>V. chain_Sender L C s (eip2930_hash L s t) (uint V + 27) t)
      else Ok (Inl ErrTxTypeNotSupported))"

definition london_Sender :: "lib \<Rightarrow> curve \<Rightarrow> EIP155 \<Rightarrow> TxData \<Rightarrow> (sig_error + address) res" where
  "london_Sender L C s t =
     (if txType t \<noteq> DynamicFeeTxType then eip2930_Sender L C s t
      else bnd (nonnil (fst (rawSignatureValues t))) (\<lambda>V. chain_Sender L C s (london_hash L s t) (uint V + 27) t))"

primrec signer_Sender :: "lib \<Rightarrow> curve \<Rightarrow> Signer \<Rightarrow> TxData \<Rightarrow> (sig_error + address) res" where
  "signer_Sender L C FrontierSigner t = plain_Sender L C False t"
| "signer_Sender L C HomesteadSigner t = plain_Sender L C True t"
| "signer_Sender L C (EIP155Signer s) t = eip155_Sender L C s t"
| "signer_Sender L C (Eip2930Signer s) t = eip2930_Sender L C s t"
| "signer_Sender L C (LondonSigner s) t = london_Sender L C s t"

definition Sender :: "lib \<Rightarrow> curve \<Rightarrow> Signer \<Rightarrow> Transaction \<Rightarrow> (Transaction \<times> (sig_error + address)) res" where
  "Sender L C signer tx =
     (case from_cache tx of
        Some sc \<Rightarrow>
          if signer_Equal (sc_signer sc) signer then Ok (tx, Inr (sc_from sc))
          else bnd (signer_Sender L C signer (inner tx)) (\<lambda>r. case r of
                 Inl e \<Rightarrow> Ok (tx, Inl e)
               | Inr a \<Rightarrow> Ok (tx\<lparr>from_cache := Some \<lparr>sc_signer = signer, sc_from = a\<rparr>\<rparr>, Inr a))
      | None \<Rightarrow>
          bnd (signer_Sender L C signer (inner tx)) (\<lambda>r. case r of
             Inl e \<Rightarrow> Ok (tx, Inl e)
           | Inr a \<Rightarrow> Ok (tx\<lparr>from_cache := Some \<lparr>sc_signer = signer, sc_from = a\<rparr>\<rparr>, Inr a)))"

end
