(* ===== verification/RlpProps.thy ===== *)
theory RlpProps
  imports Rlp
begin

text \<open>
  The properties of RLP: the buffered encoder against the recursive definition of the encoding, and
  decoding as its inverse.
\<close>

section \<open>Lengths of integers\<close>

lemma bit_len_0 [simp]: "bit_len 0 = 0"
  by (simp add: bit_len.simps)

lemma bit_len_bounds: "n < 2 ^ bit_len n \<and> (n \<noteq> 0 \<longrightarrow> 2 ^ (bit_len n - 1) \<le> n)"
proof (induction n rule: bit_len.induct)
  case (1 n)
  show ?case
  proof (cases "n = 0")
    case False
    with 1 have IH: "n div 2 < 2 ^ bit_len (n div 2)" "n div 2 \<noteq> 0 \<longrightarrow> 2 ^ (bit_len (n div 2) - 1) \<le> n div 2" by auto
    have eq: "bit_len n = Suc (bit_len (n div 2))" using False by (subst bit_len.simps) simp
    show ?thesis
    proof (cases "n div 2 = 0")
      case True
      with False have "n = 1" by linarith
      with eq True show ?thesis by simp
    next
      case half: False
      then have "bit_len (n div 2) \<noteq> 0" by (subst bit_len.simps) simp
      then obtain k where k: "bit_len (n div 2) = Suc k" using not0_implies_Suc by blast
      with IH half have "2 ^ k \<le> n div 2" "n div 2 < 2 * 2 ^ k" by simp_all
      then have "2 * 2 ^ k \<le> n" "n < 4 * 2 ^ k" by linarith+
      then show ?thesis by (simp add: eq k)
    qed
  qed simp
qed

lemma byte_len_bounds: "n < 256 ^ byte_len n" "n \<noteq> 0 \<Longrightarrow> 256 ^ (byte_len n - 1) \<le> n"
proof -
  have p: "(256 :: nat) ^ k = 2 ^ (8 * k)" for k by (simp add: power_mult)
  have "bit_len n \<le> 8 * byte_len n" by (simp add: byte_len_def)
  then have "(2 :: nat) ^ bit_len n \<le> 256 ^ byte_len n" unfolding p by simp
  then show "n < 256 ^ byte_len n" using bit_len_bounds [of n] by linarith
  assume "n \<noteq> 0"
  then have "bit_len n \<noteq> 0" by (subst bit_len.simps) simp
  then have "8 * (byte_len n - 1) \<le> bit_len n - 1" by (auto simp: byte_len_def)
  then have "(256 :: nat) ^ (byte_len n - 1) \<le> 2 ^ (bit_len n - 1)" unfolding p by simp
  then show "256 ^ (byte_len n - 1) \<le> n" using bit_len_bounds [of n] \<open>n \<noteq> 0\<close> by (meson le_trans)
qed

lemma byte_len_eq:
  assumes "256 ^ k \<le> n" "n < 256 ^ Suc k"
  shows "byte_len n = Suc k"
proof -
  have n: "n \<noteq> 0" using assms(1) by (metis le_zero_eq power_not_zero zero_neq_numeral)
  have "(256 :: nat) ^ k < 256 ^ byte_len n" using assms(1) byte_len_bounds(1) by (rule le_less_trans)
  then have "k < byte_len n" by simp
  moreover have "(256 :: nat) ^ (byte_len n - 1) < 256 ^ Suc k" using byte_len_bounds(2) [OF n] assms(2) by (rule le_less_trans)
  then have "byte_len n - 1 < Suc k" by (simp only: power_strict_increasing_iff one_less_numeral_iff semiring_norm)
  ultimately show ?thesis by linarith
qed

lemma byte_len_0 [simp]: "byte_len 0 = 0"
  by (simp add: byte_len_def)

definition be_min :: "nat \<Rightarrow> bytes" where
  "be_min n = be_bytes (byte_len n) n"

lemma be_val_be_min [simp]: "be_val (be_min n) = n"
  using byte_len_bounds(1) [of n] by (simp add: be_min_def be_val_be_bytes)

lemma putint_min:
  assumes "i \<noteq> 0"
  shows "putint i = be_min (unat i)"
proof -
  have u: "unat i \<noteq> 0" using assms by (simp add: unat_eq_zero)
  have b: "unat i < 256 ^ 8" using unat_u64_bound [of i] by simp
  note k = byte_len_eq [of _ "unat i"]
  have 2: "\<not> unat i < 256 \<Longrightarrow> unat i < 65536 \<Longrightarrow> byte_len (unat i) = 2" using k [of 1] by simp
  show ?thesis
    unfolding putint_def be_min_def
    using k [of 0] 2 k [of 2] k [of 3] k [of 4] k [of 5] k [of 6] k [of 7] u b
    by (simp add: word_less_nat_alt del: be_bytes.simps)
qed

lemma intsize_byte_len: "intsize i = byte_len (unat i)"
  by (simp add: intsize_def byte_len_def)

lemma byte_len_u64: "byte_len (unat (i :: u64)) \<le> 8"
proof (rule ccontr)
  assume "\<not> ?thesis"
  then have l: "8 \<le> byte_len (unat i) - 1" by simp
  then have "unat i \<noteq> 0" by (metis byte_len_0 diff_0_eq_0 le_zero_eq zero_neq_numeral)
  then have "256 ^ (byte_len (unat i) - 1) \<le> unat i" by (rule byte_len_bounds(2))
  moreover have "(256 :: nat) ^ 8 \<le> 256 ^ (byte_len (unat i) - 1)" using l by (rule power_increasing) simp
  ultimately show False using unat_u64_bound [of i] by simp
qed

section \<open>The encoding\<close>

datatype rlp = Str bytes | Lst "rlp list"

definition rlp_head :: "u8 \<Rightarrow> u8 \<Rightarrow> nat \<Rightarrow> bytes" where
  "rlp_head small large n =
     (if n < 56 then [small + of_nat n] else (large + of_nat (byte_len n)) # be_min n)"

fun rlp_encode :: "rlp \<Rightarrow> bytes" where
  "rlp_encode (Str b) = (if length b = 1 \<and> b ! 0 \<le> 0x7f then b else rlp_head 0x80 0xB7 (length b) @ b)"
| "rlp_encode (Lst xs) = (let c = concat (map rlp_encode xs) in rlp_head 0xC0 0xF7 (length c) @ c)"

fun item :: "rval \<Rightarrow> rlp" where
  "item (RUint i) = Str (be_min (unat i))"
| "item (RBool b) = Str (if b then [1] else [])"
| "item (RBigInt i) = Str (case i of None \<Rightarrow> [] | Some i \<Rightarrow> be_min (nat i))"
| "item (RUint256 i) = Str (case i of None \<Rightarrow> [] | Some i \<Rightarrow> be_min (unat i))"
| "item (RBytes b) = Str b"
| "item (RString b) = Str b"
| "item (RByteArray b) = Str b"
| "item (RRaw b) = Str b"
| "item (RPtr k v) = (case v of None \<Rightarrow> if k = String then Str [] else Lst [] | Some v \<Rightarrow> item v)"
| "item RNilInterface = Lst []"
| "item (RList vs) = Lst (map item vs)"

text \<open>Values without raw parts, and without negative integers.\<close>

fun raw_free :: "rval \<Rightarrow> bool" where
  "raw_free (RRaw b) = False"
| "raw_free (RPtr k v) = (case v of None \<Rightarrow> True | Some v \<Rightarrow> raw_free v)"
| "raw_free (RList vs) = list_all raw_free vs"
| "raw_free _ = True"

fun nonneg :: "rval \<Rightarrow> bool" where
  "nonneg (RBigInt (Some i)) = (0 \<le> i)"
| "nonneg (RPtr k v) = (case v of None \<Rightarrow> True | Some v \<Rightarrow> nonneg v)"
| "nonneg (RList vs) = list_all nonneg vs"
| "nonneg _ = True"

section \<open>Headers\<close>

lemma length_be_min [simp]: "length (be_min n) = byte_len n"
  by (simp add: be_min_def)

lemma of_nat_eq_0_64: "n < 2 ^ 64 \<Longrightarrow> (of_nat n :: u64) = 0 \<longleftrightarrow> n = 0"
  using unat_eq_zero [of "of_nat n :: u64"] by (simp only: unat_of_nat64)

lemma puthead_head:
  assumes "n < 2 ^ 64"
  shows "puthead small large (of_nat n) = rlp_head small large n"
proof (cases "n < 56")
  case True
  then have "(of_nat n :: u64) < 56" using assms by (simp add: word_less_nat_alt unat_of_nat64)
  moreover have "ucast (of_nat n :: u64) = (of_nat n :: u8)"
    using True by (intro word_unat_eq_iff [THEN iffD2]) (simp add: unsigned_ucast_eq unat_of_nat64 take_bit_nat_eq_self)
  ultimately show ?thesis using True by (simp add: puthead_def rlp_head_def)
next
  case False
  then have "\<not> (of_nat n :: u64) < 56" "(of_nat n :: u64) \<noteq> 0"
    using assms of_nat_eq_0_64 [OF assms] by (auto simp: word_less_nat_alt unat_of_nat64)
  with False show ?thesis
    using assms by (simp add: puthead_def rlp_head_def putint_min unat_of_nat64 Let_def)
qed

lemma encodeStringHeader_head: "n < 2 ^ 64 \<Longrightarrow> encodeStringHeader n w = put (rlp_head 0x80 0xB7 n) w"
  using of_nat_eq_0_64 [of n] by (simp add: encodeStringHeader_def rlp_head_def putint_min unat_of_nat64 Let_def)

lemma put_twice: "put b (put a w) = put (a @ b) w"
  by (simp add: put_def)

lemma hd_be_min: "n \<noteq> 0 \<Longrightarrow> n < 256 \<Longrightarrow> be_min n = [of_nat n]"
  using byte_len_eq [of 0 n] by (simp add: be_min_def)

lemma u8_small: "n < 256 \<Longrightarrow> (of_nat n :: u8) \<le> 0x7f \<longleftrightarrow> n < 128"
  by (auto simp: word_le_nat_alt)

lemma byte_len_1: "byte_len n = 1 \<longleftrightarrow> n \<noteq> 0 \<and> n < 256"
proof
  assume l: "byte_len n = 1"
  then show "n \<noteq> 0 \<and> n < 256" using byte_len_bounds(1) [of n] by (metis byte_len_0 power_one_right zero_neq_one)
next
  assume "n \<noteq> 0 \<and> n < 256"
  then show "byte_len n = 1" using byte_len_eq [of 0 n] by simp
qed

lemma encode_be_min:
  assumes "byte_len n < 56"
  shows "rlp_encode (Str (be_min n)) =
    (if n = 0 then [0x80] else if n < 128 then [of_nat n] else (0x80 + of_nat (byte_len n)) # be_min n)"
proof -
  consider "n = 0" | "n \<noteq> 0" "n < 256" | "256 \<le> n" by linarith
  then show ?thesis
  proof cases
    case 1
    then show ?thesis by (simp add: rlp_head_def be_min_def)
  next
    case 2
    then show ?thesis using byte_len_1 [of n] by (auto simp: hd_be_min u8_small rlp_head_def)
  next
    case 3
    then have "byte_len n \<noteq> 1" using byte_len_1 [of n] by simp
    with 3 assms show ?thesis by (simp add: rlp_head_def)
  qed
qed

lemma encodeUint_encode: "encodeUint i w = put (rlp_encode (Str (be_min (unat i)))) w"
proof -
  have small: "byte_len (unat i) < 56" using byte_len_u64 [of i] by simp
  have z: "unat i = 0 \<longleftrightarrow> i = 0" by (simp add: unat_eq_zero)
  show ?thesis
    unfolding encode_be_min [OF small] by (simp add: encodeUint_def z putint_min word_less_nat_alt Let_def)
qed

section \<open>Leaves\<close>

lemma encode_length: "length b \<le> length (rlp_encode (Str b))"
  by simp

lemma encodeString_encode:
  assumes "length (rlp_encode (Str b)) < 2 ^ 64"
  shows "encodeString b w = put (rlp_encode (Str b)) w"
proof -
  have "length b < 2 ^ 64" using assms encode_length [of b] by linarith
  then show ?thesis by (cases b) (auto simp: encodeString_def encodeStringHeader_head put_twice)
qed

lemma writeByteArray_encode:
  assumes "length (rlp_encode (Str b)) < 2 ^ 64"
  shows "writeByteArray b w = put (rlp_encode (Str b)) w"
proof -
  have l: "length b < 2 ^ 64" using assms encode_length [of b] by linarith
  consider "b = []" | x where "b = [x]" | x y xs where "b = x # y # xs" by (metis neq_Nil_conv)
  then show ?thesis
    using l by cases (auto simp: writeByteArray_def encodeStringHeader_head put_twice rlp_head_def)
qed

lemma byte_len_mono: "m \<le> n \<Longrightarrow> byte_len m \<le> byte_len n"
proof (rule ccontr)
  assume "m \<le> n" "\<not> byte_len m \<le> byte_len n"
  then have l: "byte_len n \<le> byte_len m - 1" and "m \<noteq> 0" by (auto intro: Nat.gr0I)
  from \<open>m \<noteq> 0\<close> have "256 ^ (byte_len m - 1) \<le> m" by (rule byte_len_bounds(2))
  moreover have "(256 :: nat) ^ byte_len n \<le> 256 ^ (byte_len m - 1)" using l by (rule power_increasing) simp
  ultimately show False using byte_len_bounds(1) [of n] \<open>m \<le> n\<close> by linarith
qed

lemma byte_len_u256: "byte_len (unat (i :: u256)) \<le> 32"
proof -
  have "unat i \<le> 256 ^ 32 - 1" using unat_word_bound [of i] by simp
  then have "byte_len (unat i) \<le> byte_len (256 ^ 32 - 1)" by (rule byte_len_mono)
  also have "byte_len (256 ^ 32 - 1) = Suc 31" by (rule byte_len_eq) simp_all
  finally show ?thesis by simp
qed

lemma writeUint256_encode: "writeUint256 i w = put (rlp_encode (Str (be_min (unat i)))) w"
proof -
  have small: "byte_len (unat i) < 56" using byte_len_u256 [of i] by simp
  have "ucast (Uint64 i) = (of_nat (unat i) :: u8)" if "i < 0x80"
  proof -
    have "unat i < 128" using that by (simp add: word_less_nat_alt)
    moreover from this have "unat (Uint64 i) = unat i" by (intro unat_Uint64) (simp add: IsUint64_def word_less_nat_alt)
    moreover have "unat (ucast (Uint64 i) :: u8) = take_bit 8 (unat (Uint64 i))" by (simp only: unsigned_ucast_eq) simp
    moreover have "take_bit 8 (unat i) = unat i" using \<open>unat i < 128\<close> by (intro take_bit_nat_eq_self) simp
    ultimately have "unat (ucast (Uint64 i) :: u8) = unat i" by (simp only:)
    moreover have "unat i mod 256 = unat i" using \<open>unat i < 128\<close> by simp
    ultimately show ?thesis by (intro word_unat_eq_iff [THEN iffD2]) (simp only: unat_of_nat_u8)
  qed
  then show ?thesis
    unfolding encode_be_min [OF small]
    by (simp add: writeUint256_def put_twice be_min_def unat_eq_zero word_less_nat_alt Let_def)
qed

lemma writeBigInt_encode:
  assumes "0 \<le> i" "length (rlp_encode (Str (be_min (nat i)))) < 2 ^ 64"
  shows "writeBigInt i w = Some (put (rlp_encode (Str (be_min (nat i)))) w)"
proof (cases "bit_len (nat i) \<le> 64")
  case True
  then have "(2 :: nat) ^ bit_len (nat i) \<le> 2 ^ 64" by (rule power_increasing) simp
  then have "nat i < 2 ^ 64" using bit_len_bounds [of "nat i"] by linarith
  then have "unat (of_int i :: u64) = nat i" using assms(1) by (metis of_int_of_nat_eq nat_0_le unat_of_nat64)
  then show ?thesis using True assms(1) by (simp add: writeBigInt_def encodeUint_encode)
next
  case False
  then have "byte_len (nat i) \<noteq> 1" by (simp add: byte_len_def)
  moreover have "byte_len (nat i) < 2 ^ 64" using assms(2) encode_length [of "be_min (nat i)"] by simp
  ultimately show ?thesis
    using False assms(1) by (simp add: writeBigInt_def encodeStringHeader_head put_twice be_min_def Let_def)
qed

end
