(* ===== verification/RlpDecode.thy ===== *)
theory RlpDecode
  imports RlpProps
begin

text \<open>
  Decoding: \<open>Split\<close> accepts exactly the encodings, and takes them apart.
\<close>

section \<open>Sizes\<close>

lemma be_bytes_first: "be_bytes (Suc k) v ! 0 = of_nat (v div 256 ^ k)"
proof (induction k arbitrary: v)
  case (Suc k)
  have "be_bytes (Suc (Suc k)) v ! 0 = be_bytes (Suc k) (v div 256) ! 0"
    unfolding be_bytes.simps(2) [of "Suc k"] by (simp add: nth_append)
  also have "\<dots> = of_nat (v div 256 ^ Suc k)" unfolding Suc.IH by (simp add: div_mult2_eq)
  finally show ?case .
qed simp

lemma be_min_first: "n \<noteq> 0 \<Longrightarrow> be_min n \<noteq> [] \<and> be_min n ! 0 \<noteq> 0"
proof -
  assume n: "n \<noteq> 0"
  then have "byte_len n \<noteq> 0" using byte_len_bounds(1) [of n] by (cases "byte_len n") simp_all
  then obtain k where k: "byte_len n = Suc k" using not0_implies_Suc by blast
  then have "256 ^ k \<le> n" "n < 256 ^ Suc k" using byte_len_bounds [of n] n by simp_all
  then have "1 \<le> n div 256 ^ k" "n div 256 ^ k < 256"
    by (simp_all add: div_greater_zero_iff Suc_le_eq less_mult_imp_div_less)
  then have "(of_nat (n div 256 ^ k) :: u8) \<noteq> 0"
    using unat_of_nat_u8 [of "n div 256 ^ k"] by (metis mod_less not_one_le_zero unat_0)
  then show ?thesis using be_bytes_first [of k n] by (simp add: be_min_def k del: be_bytes.simps) (auto simp: k)
qed

lemma be_val_bounds: "xs \<noteq> [] \<Longrightarrow> xs ! 0 \<noteq> 0 \<Longrightarrow> 256 ^ (length xs - 1) \<le> be_val xs \<and> be_val xs < 256 ^ length xs"
proof (induction xs rule: rev_induct)
  case (snoc x xs)
  have v: "be_val (xs @ [x]) = be_val xs * 256 + unat x" by (simp add: be_val_def be_val_acc_append)
  have x: "unat x < 256" using unat_word_bound [of x] by simp
  show ?case
  proof (cases "xs = []")
    case True
    then have "x \<noteq> 0" using snoc.prems by simp
    then have "1 \<le> unat x" by (simp add: unat_gt_0 Suc_le_eq)
    then show ?thesis using x True by (simp add: be_val_def)
  next
    case False
    then have "xs ! 0 \<noteq> 0" using snoc.prems by (simp add: nth_append)
    from snoc.IH [OF False this] have IH: "256 ^ (length xs - 1) \<le> be_val xs" "be_val xs < 256 ^ length xs" by simp_all
    obtain k where k: "length xs = Suc k" using False by (cases xs) simp_all
    have "256 ^ Suc k \<le> be_val xs * 256 + unat x" using IH(1) by (simp add: k)
    moreover have "be_val xs * 256 + unat x < 256 ^ Suc (Suc k)" using IH(2) x by (simp add: k)
    ultimately show ?thesis by (simp add: v k)
  qed
qed simp

lemma be_bytes_be_val: "be_bytes (length xs) (be_val xs) = xs"
proof (induction xs rule: rev_induct)
  case (snoc x xs)
  have v: "be_val (xs @ [x]) = be_val xs * 256 + unat x" by (simp add: be_val_def be_val_acc_append)
  have x: "unat x < 256" using unat_word_bound [of x] by simp
  then have "be_val (xs @ [x]) div 256 = be_val xs" by (simp add: v)
  moreover have "(of_nat (be_val (xs @ [x])) :: u8) = x"
  proof (rule word_unat_eq_iff [THEN iffD2])
    have "(be_val xs * 256 + unat x) mod 256 = unat x" using x by simp
    then show "unat (of_nat (be_val (xs @ [x])) :: u8) = unat x" by (simp only: unat_of_nat_u8 v)
  qed
  ultimately show ?case using snoc by simp
qed simp

lemma be_min_be_val: "xs \<noteq> [] \<Longrightarrow> xs ! 0 \<noteq> 0 \<Longrightarrow> be_min (be_val xs) = xs \<and> byte_len (be_val xs) = length xs"
proof -
  assume a: "xs \<noteq> []" "xs ! 0 \<noteq> 0"
  obtain k where k: "length xs = Suc k" using a(1) by (cases xs) simp_all
  have "byte_len (be_val xs) = Suc k" using be_val_bounds [OF a] by (intro byte_len_eq) (simp_all add: k)
  then show ?thesis using be_bytes_be_val [of xs] by (simp add: be_min_def k)
qed

text \<open>\<open>readSize\<close> accepts exactly the shortest representations of sizes from 56 on.\<close>

lemma readSize_exact:
  assumes "0 < l" "l \<le> 8"
  shows "readSize b l = Inr sz \<longleftrightarrow> 56 \<le> unat sz \<and> byte_len (unat sz) = l \<and> take l b = be_min (unat sz)"
proof
  assume r: "readSize b l = Inr sz"
  then have l: "l \<le> length b" and sz: "sz = of_nat (be_val (take l b))" "\<not> sz < 56" "b ! 0 \<noteq> 0"
    by (auto simp: readSize_def Let_def split: if_splits)
  have ne: "take l b \<noteq> []" "take l b ! 0 \<noteq> 0" using assms(1) l sz(3) by auto
  have len: "length (take l b) = l" using l by simp
  have "be_val (take l b) < 256 ^ l" using be_val_bounds [OF ne] by (simp only: len)
  also have "\<dots> \<le> (256 :: nat) ^ 8" using assms(2) by (rule power_increasing) simp
  finally have "unat sz = be_val (take l b)" unfolding sz(1) by (intro unat_of_nat64) simp
  then show "56 \<le> unat sz \<and> byte_len (unat sz) = l \<and> take l b = be_min (unat sz)"
    using be_min_be_val [OF ne] sz(2) len by (simp add: word_less_nat_alt)
next
  assume a: "56 \<le> unat sz \<and> byte_len (unat sz) = l \<and> take l b = be_min (unat sz)"
  then have first: "take l b ! 0 \<noteq> 0" using be_min_first [of "unat sz"] by simp
  have "length (take l b) = l" using a by simp
  then have "l \<le> length b" by simp
  moreover have "b ! 0 \<noteq> 0" using first assms(1) by simp
  ultimately show "readSize b l = Inr sz" using a by (simp add: readSize_def Let_def word_less_nat_alt)
qed

lemma readSize_bound:
  assumes "0 < l" "l \<le> 8" "readSize b l = Inr sz"
  shows "l \<le> length b"
  using assms by (auto simp: readSize_def split: if_splits)

section \<open>Kinds\<close>

text \<open>The encoding of content of a kind; \<open>None\<close> when that kind does not encode it.\<close>

definition framed :: "Kind \<Rightarrow> bytes \<Rightarrow> bytes option" where
  "framed k c =
     (case k of
        Byte \<Rightarrow> if length c = 1 \<and> c ! 0 \<le> 0x7f then Some c else None
      | String \<Rightarrow> if length c = 1 \<and> c ! 0 \<le> 0x7f then None else Some (rlp_head 0x80 0xB7 (length c) @ c)
      | List \<Rightarrow> Some (rlp_head 0xC0 0xF7 (length c) @ c))"

text \<open>\<open>readKind\<close> on natural numbers.\<close>

definition fits :: "nat \<Rightarrow> Kind \<Rightarrow> nat \<Rightarrow> nat \<Rightarrow> rlp_error + (Kind \<times> u64 \<times> u64)" where
  "fits len k t c = (if c > len - t then Inl ErrValueTooLarge else Inr (k, of_nat t, of_nat c))"

lemma fit_fits:
  assumes "length buf < 2 ^ 63" "unat t \<le> length buf"
  shows "fit_kind buf k t c = fits (length buf) k (unat t) (unat c)"
proof -
  have "unat (of_nat (length buf) :: u64) = length buf" using assms(1) by (intro unat_of_nat64) simp
  then have "unat (of_nat (length buf) - t) = length buf - unat t" using assms(2) by (simp add: unat_sub word_le_nat_alt)
  then show ?thesis by (simp add: fits_def fit_kind_def word_less_nat_alt)
qed

lemma unat_minus_tag: "tag \<le> x \<Longrightarrow> unat (x - tag) = unat x - unat tag" for x tag :: u8
  by (simp add: unat_sub)

lemma unat_ucast_u8: "unat (ucast (x :: u8) :: u64) = unat x"
proof -
  have "unat x < 256" using unat_word_bound [of x] by simp
  then show ?thesis by (simp only: unsigned_ucast_eq) (simp add: take_bit_nat_eq_self)
qed

lemma unat_tagsize: "unat (ucast (x :: u8) + 1 :: u64) = unat x + 1"
proof -
  have "unat x < 256" using unat_word_bound [of x] by simp
  then show ?thesis by (subst unat_add_no_wrap) (simp_all add: unat_ucast_u8)
qed

lemma readKind_nat:
  assumes len: "length (x # xs) < 2 ^ 63"
  shows "readKind (x # xs) =
    (let long = (\<lambda>k l. case readSize xs l of Inl e \<Rightarrow> Inl e | Inr sz \<Rightarrow> fits (length (x # xs)) k (l + 1) (unat sz))
     in if unat x < 128 then fits (length (x # xs)) Byte 0 1
        else if unat x < 184 then
          if unat x = 129 \<and> xs \<noteq> [] \<and> unat (xs ! 0) < 128 then Inl ErrCanonSize
          else fits (length (x # xs)) String 1 (unat x - 128)
        else if unat x < 192 then long String (unat x - 183)
        else if unat x < 248 then fits (length (x # xs)) List 1 (unat x - 192)
        else long List (unat x - 247))"
proof -
  have x: "unat x < 256" using unat_word_bound [of x] by simp
  have long: "long_kind (x # xs) k (x - tag) =
      (case readSize xs (unat x - unat tag) of Inl e \<Rightarrow> Inl e | Inr sz \<Rightarrow> fits (length (x # xs)) k (unat x - unat tag + 1) (unat sz))"
    if t: "unat tag < unat x" "unat x \<le> unat tag + 8" for tag k
  proof -
    have u: "unat (x - tag) = unat x - unat tag" using t by (intro unat_minus_tag) (simp add: word_le_nat_alt)
    show ?thesis
    proof (cases "readSize xs (unat x - unat tag)")
      case (Inr sz)
      have "unat x - unat tag \<le> length xs" using readSize_bound [OF _ _ Inr] t by simp
      then have "unat (ucast (x - tag) + 1 :: u64) \<le> length (x # xs)" by (simp add: unat_tagsize u)
      from fit_fits [OF len this] Inr show ?thesis by (simp add: long_kind_def u unat_tagsize)
    qed (simp add: long_kind_def u)
  qed
  have small: "fit_kind (x # xs) k 1 (ucast (x - tag)) = fits (length (x # xs)) k 1 (unat x - unat tag)"
    if "unat tag \<le> unat x" for tag k
    using that by (subst fit_fits [OF len]) (simp_all add: unat_ucast_u8 unat_minus_tag word_le_nat_alt)
  have byte: "fit_kind (x # xs) Byte 0 1 = fits (length (x # xs)) Byte 0 1"
    by (subst fit_fits [OF len]) simp_all
  have one: "x - 0x80 = 1 \<longleftrightarrow> unat x = 129" if "128 \<le> unat x"
    using that unat_minus_tag [of "0x80" x] by (auto simp: word_le_nat_alt word_unat_eq_iff)
  consider "unat x < 128" | "128 \<le> unat x" "unat x < 184" | "184 \<le> unat x" "unat x < 192" | "192 \<le> unat x" "unat x < 248"
    | "248 \<le> unat x" by linarith
  then show ?thesis
  proof cases
    case 1
    then show ?thesis by (simp add: readKind_def byte word_less_nat_alt)
  next
    case 2
    then show ?thesis using small [of "0x80" String] one by (simp add: readKind_def word_less_nat_alt)
  next
    case 3
    then show ?thesis using long [of "0xB7" String] by (simp add: readKind_def word_less_nat_alt cong: sum.case_cong)
  next
    case 4
    then show ?thesis using small [of "0xC0" List] by (simp add: readKind_def word_less_nat_alt)
  next
    case 5
    then show ?thesis using long [of "0xF7" List] x by (simp add: readKind_def word_less_nat_alt cong: sum.case_cong)
  qed
qed

lemma tag_back: "unat tag \<le> unat x \<Longrightarrow> tag + of_nat (unat x - unat tag) = x" for x tag :: u8
  by (simp add: of_nat_diff)

lemma tag_forth: "unat tag + n < 256 \<Longrightarrow> unat (tag + of_nat n :: u8) = unat tag + n" for tag :: u8
  by (subst unat_add_no_wrap) simp_all

lemma fits_Inr: "fits len k t c = Inr r \<longleftrightarrow> c \<le> len - t \<and> r = (k, of_nat t, of_nat c)"
  by (auto simp: fits_def)

lemma long_sound:
  assumes "readSize xs (unat x - unat tag) = Inr sz" "unat tag < unat x" "unat x \<le> unat tag + 8"
    and "unat sz \<le> length xs - (unat x - unat tag)"
  shows "\<exists>c rest. x # xs = (rlp_head small tag (length c) @ c) @ rest \<and> length c = unat sz \<and> 56 \<le> length c \<and>
    unat x - unat tag + 1 = length (rlp_head small tag (length c))"
proof -
  define l where "l = unat x - unat tag"
  have sz: "56 \<le> unat sz" "byte_len (unat sz) = l" "take l xs = be_min (unat sz)"
    using readSize_exact [of l xs sz] assms(1-3) by (auto simp: l_def)
  define c where "c = take (unat sz) (drop l xs)"
  have len: "length c = unat sz" using assms(4) by (simp add: c_def l_def)
  have "xs = take l xs @ c @ drop (unat sz) (drop l xs)" unfolding c_def by (simp only: append_take_drop_id)
  moreover have "tag + of_nat l = x" unfolding l_def using assms(2) by (intro tag_back) simp
  ultimately have "x # xs = (rlp_head small tag (length c) @ c) @ drop (unat sz) (drop l xs)"
    using sz len by (simp add: rlp_head_def)
  then show ?thesis
    using sz len by (rule_tac exI [of _ c], rule_tac exI [of _ "drop (unat sz) (drop l xs)"]) (auto simp: rlp_head_def l_def)
qed

lemma small_sound:
  assumes "unat tag \<le> unat x" "unat x < unat tag + 56" "unat x - unat tag \<le> length xs"
  shows "\<exists>c rest. x # xs = (rlp_head tag large (length c) @ c) @ rest \<and> length c = unat x - unat tag \<and>
    1 = length (rlp_head tag large (length c)) \<and> (length c \<noteq> 0 \<longrightarrow> c ! 0 = xs ! 0)"
proof -
  define c where "c = take (unat x - unat tag) xs"
  have "length c = unat x - unat tag" using assms(3) by (simp add: c_def)
  then show ?thesis using assms tag_back [OF assms(1)]
    by (rule_tac exI [of _ c], rule_tac exI [of _ "drop (unat x - unat tag) xs"]) (auto simp: rlp_head_def c_def)
qed

lemma u8_bounds: "unat (0x80 :: u8) = 128" "unat (0xB7 :: u8) = 183" "unat (0xC0 :: u8) = 192" "unat (0xF7 :: u8) = 247"
  by simp_all

lemma kind_sound:
  assumes "readKind b = Inr (k, t, cs)" "length b < 2 ^ 63"
  shows "\<exists>c e rest. framed k c = Some e \<and> b = e @ rest \<and> unat t = length e - length c \<and> unat cs = length c"
proof (cases b)
  case Nil
  then show ?thesis using assms(1) by (simp add: readKind_def)
next
  case (Cons x xs)
  have len: "length (x # xs) < 2 ^ 63" using assms(2) Cons by simp
  note r = assms(1) [unfolded Cons readKind_nat [OF len] Let_def]
  have x: "unat x < 256" using unat_word_bound [of x] by simp
  have of: "unat (of_nat n :: u64) = n" if "n \<le> length (x # xs)" for n using that len by (intro unat_of_nat64) simp
  consider "unat x < 128" | "128 \<le> unat x" "unat x < 184" | "184 \<le> unat x" "unat x < 192" | "192 \<le> unat x" "unat x < 248"
    | "248 \<le> unat x" by linarith
  then show ?thesis
  proof cases
    case 1
    then have "k = Byte" "t = 0" "cs = 1" using r by (auto simp: fits_Inr)
    with 1 Cons show ?thesis by (rule_tac exI [of _ "[x]"]) (simp add: framed_def word_le_nat_alt)
  next
    case 2
    with r have *: "unat x - 128 \<le> length xs" "k = String" "t = of_nat 1" "cs = of_nat (unat x - 128)"
        "\<not> (unat x = 129 \<and> xs \<noteq> [] \<and> unat (xs ! 0) < 128)"
      by (auto simp: fits_Inr split: if_splits)
    have "unat x < 128 + 56" using 2 by simp
    from small_sound [of "0x80" x xs "0xB7", unfolded u8_bounds, OF 2(1) this *(1)] obtain c rest where c: "x # xs = (rlp_head 0x80 0xB7 (length c) @ c) @ rest"
        "length c = unat x - 128" "1 = length (rlp_head 0x80 0xB7 (length c))" "length c \<noteq> 0 \<longrightarrow> c ! 0 = xs ! 0"
      by blast
    have "\<not> (length c = 1 \<and> c ! 0 \<le> 0x7f)" using *(1,5) c(2,4) 2 by (auto simp: word_le_nat_alt)
    then have "framed String c = Some (rlp_head 0x80 0xB7 (length c) @ c)" by (auto simp: framed_def)
    then show ?thesis using * c Cons of [of "unat x - 128"] by (rule_tac exI [of _ c]) auto
  next
    case 3
    with r obtain sz where sz: "readSize xs (unat x - 183) = Inr sz" "unat sz \<le> length xs - (unat x - 183)" "k = String"
        "t = of_nat (unat x - 183 + 1)" "cs = of_nat (unat sz)"
      by (auto simp: fits_Inr split: sum.splits)
    have "183 < unat x" "unat x \<le> 183 + 8" using 3 by simp_all
    from long_sound [of xs x "0xB7" sz "0x80", unfolded u8_bounds, OF sz(1) this sz(2)] obtain c rest where c: "x # xs = (rlp_head 0x80 0xB7 (length c) @ c) @ rest"
        "length c = unat sz" "56 \<le> length c" "unat x - 183 + 1 = length (rlp_head 0x80 0xB7 (length c))"
      by blast
    then have "framed String c = Some (rlp_head 0x80 0xB7 (length c) @ c)" by (simp add: framed_def)
    moreover have "unat t = unat x - 183 + 1" unfolding sz(4) using c(1,4) by (intro of) simp
    ultimately show ?thesis using sz c Cons by (rule_tac exI [of _ c]) auto
  next
    case 4
    with r have *: "unat x - 192 \<le> length xs" "k = List" "t = of_nat 1" "cs = of_nat (unat x - 192)" by (auto simp: fits_Inr)
    have "unat x < 192 + 56" using 4 by simp
    from small_sound [of "0xC0" x xs "0xF7", unfolded u8_bounds, OF 4(1) this *(1)] obtain c rest where c: "x # xs = (rlp_head 0xC0 0xF7 (length c) @ c) @ rest"
        "length c = unat x - 192" "1 = length (rlp_head 0xC0 0xF7 (length c))"
      by blast
    have "framed List c = Some (rlp_head 0xC0 0xF7 (length c) @ c)" by (simp add: framed_def)
    moreover have "unat t = 1" unfolding *(3) by simp
    ultimately show ?thesis using * c Cons of [of "unat x - 192"] by (rule_tac exI [of _ c]) auto
  next
    case 5
    with r obtain sz where sz: "readSize xs (unat x - 247) = Inr sz" "unat sz \<le> length xs - (unat x - 247)" "k = List"
        "t = of_nat (unat x - 247 + 1)" "cs = of_nat (unat sz)"
      by (auto simp: fits_Inr split: sum.splits)
    have "247 < unat x" "unat x \<le> 247 + 8" using 5 x by simp_all
    from long_sound [of xs x "0xF7" sz "0xC0", unfolded u8_bounds, OF sz(1) this sz(2)] obtain c rest where c: "x # xs = (rlp_head 0xC0 0xF7 (length c) @ c) @ rest"
        "length c = unat sz" "56 \<le> length c" "unat x - 247 + 1 = length (rlp_head 0xC0 0xF7 (length c))"
      by blast
    then have "framed List c = Some (rlp_head 0xC0 0xF7 (length c) @ c)" by (simp add: framed_def)
    moreover have "unat t = unat x - 247 + 1" unfolding sz(4) using c(1,4) by (intro of) simp
    ultimately show ?thesis using sz c Cons by (rule_tac exI [of _ c]) auto
  qed
qed

lemma kind_small:
  assumes "n < 56" "n \<le> length xs" "length (x # xs) < 2 ^ 63"
  shows "x = 0x80 + of_nat n \<Longrightarrow> \<not> (n = 1 \<and> unat (xs ! 0) < 128) \<Longrightarrow> readKind (x # xs) = Inr (String, 1, of_nat n)"
    and "x = 0xC0 + of_nat n \<Longrightarrow> readKind (x # xs) = Inr (List, 1, of_nat n)"
proof -
  have u: "x = 0x80 + of_nat n \<Longrightarrow> unat x = 128 + n" "x = 0xC0 + of_nat n \<Longrightarrow> unat x = 192 + n"
    using assms(1) tag_forth [of "0x80" n] tag_forth [of "0xC0" n] by simp_all
  show "readKind (x # xs) = Inr (String, 1, of_nat n)" if x: "x = 0x80 + of_nat n" "\<not> (n = 1 \<and> unat (xs ! 0) < 128)"
    using u(1) [OF x(1)] x(2) assms unfolding readKind_nat [OF assms(3)] by (auto simp: fits_def)
  show "readKind (x # xs) = Inr (List, 1, of_nat n)" if x: "x = 0xC0 + of_nat n"
    using u(2) [OF x] assms unfolding readKind_nat [OF assms(3)] by (simp add: fits_def)
qed

lemma kind_long:
  assumes n: "56 \<le> n" "n < 2 ^ 63" and len: "length ((tag + of_nat (byte_len n)) # be_min n @ xs) < 2 ^ 63" "n \<le> length xs"
  shows "tag = 0xB7 \<Longrightarrow> readKind ((tag + of_nat (byte_len n)) # be_min n @ xs) = Inr (String, of_nat (byte_len n + 1), of_nat n)"
    and "tag = 0xF7 \<Longrightarrow> readKind ((tag + of_nat (byte_len n)) # be_min n @ xs) = Inr (List, of_nat (byte_len n + 1), of_nat n)"
proof -
  define l where "l = byte_len n"
  have u: "unat (of_nat n :: u64) = n" using n(2) by (intro unat_of_nat64) simp
  have l: "0 < l" "l \<le> 8" using byte_len_u64 [of "of_nat n"] be_min_first [of n] n(1)
    by (auto simp: l_def u simp flip: length_be_min)
  have "readSize (be_min n @ xs) l = Inr (of_nat n)"
    using readSize_exact [OF l, of "be_min n @ xs" "of_nat n"] n(1) by (simp add: u l_def)
  moreover have "unat (0xB7 + of_nat l :: u8) = 183 + l" "unat (0xF7 + of_nat l :: u8) = 247 + l"
    using tag_forth [of "0xB7" l] tag_forth [of "0xF7" l] l by simp_all
  ultimately show "tag = 0xB7 \<Longrightarrow> readKind ((tag + of_nat (byte_len n)) # be_min n @ xs) = Inr (String, of_nat (byte_len n + 1), of_nat n)"
    "tag = 0xF7 \<Longrightarrow> readKind ((tag + of_nat (byte_len n)) # be_min n @ xs) = Inr (List, of_nat (byte_len n + 1), of_nat n)"
    using l len unfolding readKind_nat [OF len(1)] unfolding l_def [symmetric] by (auto simp: fits_def u l_def)
qed

lemma kind_complete:
  assumes "framed k c = Some e" "length (e @ rest) < 2 ^ 63"
  shows "readKind (e @ rest) = Inr (k, of_nat (length e - length c), of_nat (length c))"
proof (cases "k = Byte")
  case True
  then obtain x where x: "c = [x]" "e = [x]" "unat x < 128" using assms(1)
    by (cases c) (auto simp: framed_def word_le_nat_alt split: if_splits)
  then have "length (x # rest) < 2 ^ 63" using assms(2) by simp
  with x show ?thesis by (simp add: readKind_nat True fits_def)
next
  case False
  define small where "small = (if k = List then 0xC0 else 0x80 :: u8)"
  define large where "large = (if k = List then 0xF7 else 0xB7 :: u8)"
  have e: "e = rlp_head small large (length c) @ c" and s: "k = String \<Longrightarrow> \<not> (length c = 1 \<and> c ! 0 \<le> 0x7f)"
    using assms(1) False by (auto simp: framed_def small_def large_def split: Kind.splits if_splits)
  have k: "k = String \<or> k = List" using False by (cases k) simp_all
  show ?thesis
  proof (cases "length c < 56")
    case True
    then have b: "e @ rest = (small + of_nat (length c)) # c @ rest" by (simp add: e rlp_head_def)
    have "\<not> (length c = 1 \<and> unat ((c @ rest) ! 0) < 128)" if "k = String"
      using s [OF that] by (cases c) (auto simp: word_le_nat_alt)
    then show ?thesis
      using kind_small [OF True, of "c @ rest" "small + of_nat (length c)"] k assms(2) True
      unfolding b by (auto simp: small_def e rlp_head_def)
  next
    case long: False
    then have b: "e @ rest = (large + of_nat (byte_len (length c))) # be_min (length c) @ c @ rest" by (simp add: e rlp_head_def)
    have "length c < 2 ^ 63" using assms(2) by (simp add: e)
    with kind_long [of "length c" large "c @ rest"] k assms(2) long show ?thesis
      unfolding b by (auto simp: large_def e rlp_head_def)
  qed
qed

section \<open>Splitting\<close>

lemma Split_framed:
  assumes "framed k c = Some e" "length (e @ rest) < 2 ^ 63"
  shows "Split (e @ rest) = Ok (Inr (k, c, rest))"
proof -
  obtain h where h: "e = h @ c" using assms(1)
    by (cases k) (auto simp: framed_def split: if_splits)
  have "unat (of_nat (length h) :: u64) = length h" "unat (of_nat (length h) + of_nat (length c) :: u64) = length h + length c"
    using assms(2) h unat_of_nat64 [of "length h"] unat_of_nat64 [of "length h + length c"] by simp_all
  then show ?thesis unfolding Split_def kind_complete [OF assms] by (simp add: h slice_def)
qed

text \<open>C12. \<open>Split\<close> is the inverse of the encoding, on every input a Go slice can hold: it never panics, and
  it returns a kind, a content and a rest exactly when the input is the one encoding of that
  content as that kind, followed by the rest. In particular what it accepts is canonical.\<close>

theorem rlp_split_exact:
  assumes "length b < 2 ^ 63"
  shows "(\<exists>r. Split b = Ok r) \<and>
    (\<forall>k c rest. Split b = Ok (Inr (k, c, rest)) \<longleftrightarrow> (\<exists>e. framed k c = Some e \<and> b = e @ rest))"
proof (cases "readKind b")
  case (Inl err)
  have "\<not> (framed k c = Some e \<and> b = e @ rest)" for k c e rest
    using kind_complete [of k c e rest] assms Inl by auto
  then show ?thesis using Inl by (auto simp: Split_def)
next
  case (Inr r)
  then obtain k t cs where "readKind b = Inr (k, t, cs)" by (cases r) auto
  from kind_sound [OF this assms] obtain c e rest where e: "framed k c = Some e" "b = e @ rest" by blast
  have split: "Split b = Ok (Inr (k, c, rest))" unfolding e(2) by (rule Split_framed [OF e(1) assms [unfolded e(2)]])
  have only: "(k', c', rest') = (k, c, rest)" if f: "framed k' c' = Some e'" and b: "b = e' @ rest'" for k' c' e' rest'
  proof -
    have "Split b = Ok (Inr (k', c', rest'))" unfolding b by (rule Split_framed [OF f assms [unfolded b]])
    with split show ?thesis by simp
  qed
  have "Split b = Ok (Inr (k', c', rest')) \<longleftrightarrow> (\<exists>e. framed k' c' = Some e \<and> b = e @ rest')" for k' c' rest'
  proof
    assume "Split b = Ok (Inr (k', c', rest'))"
    with split have "k' = k" "c' = c" "rest' = rest" by simp_all
    then show "\<exists>e. framed k' c' = Some e \<and> b = e @ rest'" using e by (intro exI [of _ e] conjI) simp_all
  next
    assume "\<exists>e. framed k' c' = Some e \<and> b = e @ rest'"
    then have "(k', c', rest') = (k, c, rest)" by (elim exE conjE) (rule only)
    then show "Split b = Ok (Inr (k', c', rest'))" using split by simp
  qed
  then show ?thesis using split by (intro conjI exI allI) auto
qed

theorem rlp_split_exact_witness:
  "Split [0x83, 1, 2, 3, 9] = Ok (Inr (String, [1, 2, 3], [9])) \<and> (\<forall>k c rest. Split [0x81, 5] \<noteq> Ok (Inr (k, c, rest)))"
proof -
  have "framed String [1, 2, 3] = Some [0x83, 1, 2, 3]" by (simp add: framed_def rlp_head_def)
  moreover have "[0x83, 1, 2, 3, 9] = [0x83, 1, 2, 3] @ [9 :: u8]" by simp
  ultimately have "Split [0x83, 1, 2, 3, 9] = Ok (Inr (String, [1, 2, 3], [9]))"
    using rlp_split_exact [of "[0x83, 1, 2, 3, 9]"] by fastforce
  moreover have "readKind [0x81, 5] = Inl ErrCanonSize" by code_simp
  ultimately show ?thesis by (simp add: Split_def)
qed

section \<open>Counting and iterating\<close>

definition is_frame :: "bytes \<Rightarrow> bool" where
  "is_frame e \<longleftrightarrow> (\<exists>k c. framed k c = Some e)"

lemma framed_pos: "framed k c = Some e \<Longrightarrow> 0 < length e"
  by (cases k) (auto simp: framed_def rlp_head_def split: if_splits)

lemma is_frame_pos: "is_frame e \<Longrightarrow> 0 < length e"
  unfolding is_frame_def by (elim exE) (rule framed_pos)

lemma framed_le: "framed k c = Some e \<Longrightarrow> length c \<le> length e"
  by (cases k) (auto simp: framed_def split: if_splits)

lemma readKind_frame:
  assumes "readKind b = Inr (k, t, cs)" "length b < 2 ^ 63"
  obtains e rest where "is_frame e" "b = e @ rest" "unat (t + cs) = length e"
proof -
  from kind_sound [OF assms] obtain c e rest where e: "framed k c = Some e" "b = e @ rest"
      "unat t = length e - length c" "unat cs = length c" by blast
  have "unat t + unat cs = length e" using e framed_le [OF e(1)] by simp
  moreover from this have "unat (t + cs) = unat t + unat cs"
    using assms(2) e(2) by (intro unat_add_no_wrap) simp
  ultimately show thesis using that e by (auto simp: is_frame_def)
qed

lemma frame_readKind:
  assumes "is_frame e" "length (e @ rest) < 2 ^ 63"
  obtains k t cs where "readKind (e @ rest) = Inr (k, t, cs)" "unat (t + cs) = length e"
proof -
  obtain k c where f: "framed k c = Some e" using assms(1) by (auto simp: is_frame_def)
  have "unat (of_nat (length e - length c) + of_nat (length c) :: u64) = length e"
    using framed_le [OF f] assms(2) unat_of_nat64 [of "length e"] by (simp flip: of_nat_add)
  with kind_complete [OF f assms(2)] show thesis by (rule that)
qed

lemma slice_rest: "slice (e @ rest) (length e) (length (e @ rest)) = Some rest"
  by (simp add: slice_def)

lemma count_total:
  assumes "length b \<le> n" "length b < 2 ^ 63"
  shows "\<exists>r. count_values n i b = Ok r"
  using assms
proof (induction n arbitrary: i b)
  case (Suc n)
  show ?case
  proof (cases "b = [] \<or> (\<exists>e. readKind b = Inl e)")
    case False
    then obtain k t cs where k: "readKind b = Inr (k, t, cs)" by (cases "readKind b") auto
    from readKind_frame [OF k Suc.prems(2)] obtain e rest where e: "is_frame e" "b = e @ rest" "unat (t + cs) = length e" .
    have "length rest \<le> n" "length rest < 2 ^ 63" 
      using Suc.prems e(2) is_frame_pos [OF e(1)] by (simp_all del: length_greater_0_conv)
    then have "\<exists>r. count_values n (i + 1) rest = Ok r" by (rule Suc.IH)
    then show ?thesis using k e False slice_rest [of e rest] by simp
  qed (auto split: if_splits)
qed simp

lemma count_step:
  assumes "is_frame e" "length (e @ rest) < 2 ^ 63"
  shows "count_values (Suc n) i (e @ rest) = count_values n (i + 1) rest"
proof -
  from frame_readKind [OF assms] obtain k t cs where k: "readKind (e @ rest) = Inr (k, t, cs)" "unat (t + cs) = length e" .
  then show ?thesis using is_frame_pos [OF assms(1)] slice_rest [of e rest] by simp
qed

lemma count_frames:
  assumes "\<forall>e \<in> set es. is_frame e" "length (concat es) \<le> n" "length (concat es) < 2 ^ 63"
  shows "count_values n i (concat es) = Ok (Inr (i + length es))"
  using assms
proof (induction es arbitrary: n i)
  case Nil
  then show ?case by (cases n) simp_all
next
  case (Cons e es)
  have "0 < length e" using Cons.prems(1) is_frame_pos by simp
  then obtain m where m: "n = Suc m" using Cons.prems(2) by (cases n) simp_all
  have "length (concat es) \<le> m"
    using Cons.prems(2) \<open>0 < length e\<close> m by (simp del: length_greater_0_conv)
  then show ?case using Cons.IH [of m "i + 1"] Cons.prems count_step [of e "concat es" m i] m by simp
qed

lemma count_sound:
  assumes "count_values n i b = Ok (Inr m)" "length b < 2 ^ 63"
  shows "\<exists>es. i + length es = m \<and> concat es = b \<and> (\<forall>e \<in> set es. is_frame e)"
  using assms
proof (induction n arbitrary: i b)
  case 0
  then show ?case by (intro exI [of _ "[]"]) (simp split: if_splits)
next
  case (Suc n)
  show ?case
  proof (cases "b = []")
    case True
    then show ?thesis using Suc.prems by (intro exI [of _ "[]"]) simp
  next
    case False
    then obtain k t cs where k: "readKind b = Inr (k, t, cs)" using Suc.prems by (cases "readKind b") auto
    from readKind_frame [OF k Suc.prems(2)] obtain e rest where e: "is_frame e" "b = e @ rest" "unat (t + cs) = length e" .
    have "count_values n (i + 1) rest = Ok (Inr m)" using Suc.prems count_step [of e rest n i] e by simp
    from Suc.IH [OF this] Suc.prems(2) e(2) obtain es where "i + 1 + length es = m" "concat es = rest" "\<forall>e \<in> set es. is_frame e"
      by auto
    then show ?thesis using e by (intro exI [of _ "e # es"]) simp
  qed
qed

text \<open>C13. \<open>CountValues\<close> always returns: it neither panics nor runs on, since every value it accepts takes at least
  one byte. It answers \<open>m\<close> exactly for the inputs that are \<open>m\<close> canonical encodings one after the
  other, and an error for every other input.\<close>

theorem CountValues_exact:
  assumes "length b < 2 ^ 63"
  shows "(\<exists>r. CountValues b = Ok r) \<and>
    (\<forall>m. CountValues b = Ok (Inr m) \<longleftrightarrow> (\<exists>es. length es = m \<and> concat es = b \<and> (\<forall>e \<in> set es. is_frame e)))"
proof (intro conjI allI iffI)
  show "\<exists>r. CountValues b = Ok r" unfolding CountValues_def by (rule count_total) (use assms in simp_all)
next
  fix m assume "CountValues b = Ok (Inr m)"
  then show "\<exists>es. length es = m \<and> concat es = b \<and> (\<forall>e \<in> set es. is_frame e)"
    unfolding CountValues_def using count_sound [of "length b" 0 b m] assms by simp
next
  fix m assume "\<exists>es. length es = m \<and> concat es = b \<and> (\<forall>e \<in> set es. is_frame e)"
  then obtain es where "length es = m" "concat es = b" "\<forall>e \<in> set es. is_frame e" by (elim exE conjE) (rule that)
  then show "CountValues b = Ok (Inr m)"
    unfolding CountValues_def using count_frames [of es "length b" 0] assms by simp
qed

theorem CountValues_exact_witness: "CountValues [5, 0x82, 7, 8, 0xC0] = Ok (Inr 3)"
proof -
  have "framed Byte [5] = Some [5]" "framed String [7, 8] = Some [0x82, 7, 8]" "framed List [] = Some [0xC0]"
    by (simp_all add: framed_def rlp_head_def)
  then have "is_frame [5]" "is_frame [0x82, 7, 8]" "is_frame [0xC0]"
    unfolding is_frame_def by (metis, metis, metis)
  then have "\<exists>es. length es = 3 \<and> concat es = [5, 0x82, 7, 8, 0xC0] \<and> (\<forall>e \<in> set es. is_frame e)"
    by (intro exI [of _ "[[5], [0x82, 7, 8], [0xC0]]"]) simp
  then show ?thesis using CountValues_exact [of "[5, 0x82, 7, 8, 0xC0]"] by simp
qed

text \<open>An iterator over a list whose next item is malformed answers true, moves nowhere, and so answers true for
  ever: a caller that loops on \<open>Next\<close> must look at the error.\<close>

lemma iterator_stuck:
  assumes "it_data it \<noteq> []" "readKind (it_data it) = Inl e"
  shows "it_Next it = Ok (it\<lparr>it_next := [], it_err := Some e\<rparr>, True)"
  using assms by (simp add: it_Next_def slice_def)

lemma iterator_step:
  assumes "is_frame e" "it_data it = e @ rest" "length (it_data it) < 2 ^ 63"
  shows "it_Next it = Ok (it\<lparr>it_next := e, it_data := rest, it_err := None\<rparr>, True)"
proof -
  from frame_readKind [OF assms(1), of rest] assms(2,3) obtain k t cs
    where k: "readKind (e @ rest) = Inr (k, t, cs)" "unat (t + cs) = length e" by auto
  then show ?thesis using is_frame_pos [OF assms(1)] by (simp add: it_Next_def assms(2) slice_def)
qed

end
