(* ===== verification/TransactionProps.thy ===== *)
theory TransactionProps
  imports Signing RlpDecode
begin

text \<open>Properties of transactions: what survives the protobuf message, which transactions cannot be copied,
  effective tips, and that the sender of a signed transaction is the owner of the key.\<close>

section \<open>Copies\<close>

text \<open>A nil number and zero are written alike, so a copy has the hash of the original.\<close>

fun zeroed :: "rval \<Rightarrow> rval" where
  "zeroed (RUint256 x) = RUint256 (number_copy x)"
| "zeroed v = v"

lemma number_copy_idem [simp]: "number_copy (number_copy x) = number_copy x"
  by (simp add: number_copy_def)

lemma write_zeroed: "write_val (zeroed v) w = write_val v w"
  by (cases "(v, w)" rule: write_val.cases) (simp_all add: number_copy_def writeUint256_def)

lemma write_all_zeroed: "write_vals (map zeroed vs) w = write_vals vs w"
proof (induction vs arbitrary: w)
  case (Cons v vs)
  then show ?case by (cases "write_val v w") (simp_all add: write_zeroed)
qed simp

lemma Encode_zeroed: "map zeroed xs = map zeroed ys \<Longrightarrow> Encode (RList xs) = Encode (RList ys)"
  using write_all_zeroed [of xs] write_all_zeroed [of ys] by (simp add: Encode_def split: prod.split)

lemma RlpHash_zeroed:
  assumes "map zeroed xs = map zeroed ys"
  shows "RlpHash L (RList xs) = RlpHash L (RList ys)" "PrefixedRlpHash L p (RList xs) = PrefixedRlpHash L p (RList ys)"
  using Encode_zeroed [OF assms] by (simp_all add: RlpHash_def PrefixedRlpHash_def)

lemma access_list_copyE:
  assumes "access_list_copy t = Ok c"
  obtains "at_V t = None" "at_R t = None" "at_S t = None"
    "c = t\<lparr>at_ChainID := number_copy (at_ChainID t), at_GasPrice := number_copy (at_GasPrice t),
        at_Value := number_copy (at_Value t), at_Sign := []\<rparr>"
  using assms by (cases t) (auto simp: access_list_copy_def bnd_eq_Ok set_nil_def split: option.splits)

lemma copy_keeps_hash:
  assumes "tx_copy t = Ok t'"
  shows "data_hash L t' = data_hash L t"
  using assms
  by (cases t) (auto simp: legacy_copy_def dynamic_fee_copy_def access_rval_def address_rval_def bnd_eq_Ok
      elim!: access_list_copyE intro!: RlpHash_zeroed)

lemma copy_keeps_hashes:
  assumes "tx_copy t = Ok t'"
  shows "signer_Hash L signer t' = signer_Hash L signer t"
  using assms
  by (cases t; cases signer)
    (auto simp: legacy_copy_def dynamic_fee_copy_def access_rval_def address_rval_def bnd_eq_Ok
      frontier_hash_def eip155_hash_def eip2930_hash_def london_hash_def
      elim!: access_list_copyE intro!: RlpHash_zeroed)

section \<open>Signing and recovering\<close>

text \<open>A signature as the secp256k1 package produces it: 65 bytes, both halves in range and the second one
  in the lower half, the recovery id 0 or 1.\<close>

definition sig_r :: "bytes \<Rightarrow> nat" where "sig_r sig = be_val (take 32 sig)"
definition sig_s :: "bytes \<Rightarrow> nat" where "sig_s sig = be_val (take 32 (drop 32 sig))"

definition good_sig :: "bytes \<Rightarrow> bool" where
  "good_sig sig \<longleftrightarrow>
     length sig = 65 \<and> 0 < sig_r sig \<and> sig_r sig < unat secp256k1N \<and> 0 < sig_s sig \<and> sig_s sig \<le> unat secp256k1halfN \<and>
     (sig ! 64 = 0 \<or> sig ! 64 = 1)"

definition signs_and_recovers :: "curve \<Rightarrow> bytes \<Rightarrow> bytes \<Rightarrow> bool" where
  "signs_and_recovers C key pub \<longleftrightarrow>
     pub \<noteq> [] \<and> pub ! 0 = 4 \<and>
     (\<forall>d. length d = 32 \<longrightarrow> (\<exists>sig. sec_Sign C d key = Some sig \<and> good_sig sig \<and> sec_RecoverPubkey C d sig = Some pub))"

lemma be_val_less: "be_val xs < 256 ^ length xs"
  using be_val_be_bytes [of "length xs" "be_val xs"] by (metis be_bytes_be_val mod_less_divisor zero_less_numeral zero_less_power)

lemma padded32_half:
  assumes "length xs = 32"
  shows "padded32 (int (be_val xs)) = Ok xs"
proof -
  have l: "be_val xs < 256 ^ 32" using be_val_less [of xs] assms by simp
  then have "byte_len (be_val xs) \<le> byte_len (256 ^ 32 - 1)" by (intro byte_len_mono) simp
  also have "\<dots> \<le> 32" using byte_len_eq [of 31 "256 ^ 32 - 1"] by simp
  finally show ?thesis using be_bytes_be_val [of xs] assms by (simp add: padded32_def)
qed

lemma sig_parts:
  assumes "good_sig sig"
  shows "take 32 sig @ take 32 (drop 32 sig) @ [sig ! 64] = sig" "length (take 32 sig) = 32" "length (take 32 (drop 32 sig)) = 32"
proof -
  have l: "length sig = 65" using assms by (simp add: good_sig_def)
  then have "drop 64 sig = [sig ! 64]" by (intro nth_equalityI) simp_all
  moreover have "sig = take 32 sig @ take 32 (drop 32 sig) @ drop 64 sig"
    by (metis append_take_drop_id drop_drop numeral_Bit0 numeral_plus_numeral add.commute)
  ultimately show "take 32 sig @ take 32 (drop 32 sig) @ [sig ! 64] = sig" by simp
qed (use assms in \<open>simp_all add: good_sig_def\<close>)

lemma bit_len_27 [simp]: "bit_len 27 = 5" "bit_len 28 = 5"
  by (simp_all add: bit_len.simps)

lemma sig_values:
  assumes "good_sig sig"
  shows "unat (of_nat (sig_r sig) :: u256) = sig_r sig" "unat (of_nat (sig_s sig) :: u256) = sig_s sig"
  using be_val_less [of "take 32 sig"] be_val_less [of "take 32 (drop 32 sig)"] sig_parts(2,3) [OF assms]
  by (simp_all add: sig_r_def sig_s_def unat_of_nat)

lemma good_sig_valid:
  assumes "good_sig sig"
  shows "ValidateSignatureValues (sig ! 64) (of_nat (sig_r sig)) (of_nat (sig_s sig)) homestead"
proof -
  have "unat secp256k1halfN < unat secp256k1N" by (simp add: secp256k1halfN_def secp256k1N_def)
  moreover have "(of_nat (sig_r sig) :: u256) \<noteq> 0" "(of_nat (sig_s sig) :: u256) \<noteq> 0"
    using sig_values [OF assms] assms by (auto simp: good_sig_def)
  ultimately show ?thesis
    using assms sig_values [OF assms] by (auto simp: ValidateSignatureValues_def good_sig_def word_less_nat_alt)
qed

lemma recover_good:
  assumes "good_sig sig" "sec_RecoverPubkey C (hash_bytes h) sig = Some pub" "pub \<noteq> []" "pub ! 0 = 4"
    and "v = 27 + int (unat (sig ! 64))"
  shows "recoverPlain L C h (Some (int (sig_r sig))) (Some (int (sig_s sig))) (Some v) homestead =
    Ok (Inr (ucast (keccak L (drop 1 pub))))"
proof -
  have pad: "padded32 (int (sig_r sig)) = Ok (take 32 sig)" "padded32 (int (sig_s sig)) = Ok (take 32 (drop 32 sig))"
    using padded32_half sig_parts(2,3) [OF assms(1)] by (simp_all add: sig_r_def sig_s_def)
  have b: "bit_len (nat \<bar>v\<bar>) \<le> 8" "ucast (of_nat (nat \<bar>v\<bar>) - 27 :: u64) = sig ! 64"
    using assms(1,5) by (auto simp: good_sig_def)
  show ?thesis
    using b good_sig_valid [OF assms(1)] assms(2-4) sig_parts(1) [OF assms(1)]
    unfolding recoverPlain_def by (simp add: pad Let_def)
qed

text \<open>The chain id of a signer, and the transactions it can sign: access-list transactions that carry no
  signature yet, typed transactions for this chain or for none.\<close>

definition chain_ok :: "EIP155 \<Rightarrow> bool" where
  "chain_ok s \<longleftrightarrow> chainIdMul s = 2 * chainId s \<and> 0 < chainId s \<and> 2 * chainId s + 36 < 2 ^ 256"

definition for_chain :: "EIP155 \<Rightarrow> u256 option \<Rightarrow> bool" where
  "for_chain s c \<longleftrightarrow> c = Some 0 \<or> c = Some (of_int (chainId s))"

definition unsigned_access_list :: "AccessListTx \<Rightarrow> bool" where
  "unsigned_access_list t \<longleftrightarrow> at_V t = None \<and> at_R t = None \<and> at_S t = None"

fun signable :: "Signer \<Rightarrow> TxData \<Rightarrow> bool" where
  "signable FrontierSigner (TxLegacy t) = True"
| "signable HomesteadSigner (TxLegacy t) = True"
| "signable (EIP155Signer s) (TxLegacy t) = chain_ok s"
| "signable (Eip2930Signer s) (TxLegacy t) = chain_ok s"
| "signable (Eip2930Signer s) (TxAccessList t) = (unsigned_access_list t \<and> for_chain s (at_ChainID t))"
| "signable (LondonSigner s) (TxLegacy t) = chain_ok s"
| "signable (LondonSigner s) (TxAccessList t) = (unsigned_access_list t \<and> for_chain s (at_ChainID t))"
| "signable (LondonSigner s) (TxDynamicFee t) = for_chain s (dt_ChainID t)"
| "signable _ _ = False"

text \<open>The \<open>V\<close> that goes into the transaction.\<close>

fun signature_v :: "Signer \<Rightarrow> TxData \<Rightarrow> bytes \<Rightarrow> int" where
  "signature_v FrontierSigner t sig = 27 + int (unat (sig ! 64))"
| "signature_v HomesteadSigner t sig = 27 + int (unat (sig ! 64))"
| "signature_v (EIP155Signer s) t sig = 35 + int (unat (sig ! 64)) + chainIdMul s"
| "signature_v (Eip2930Signer s) (TxLegacy t) sig = 35 + int (unat (sig ! 64)) + chainIdMul s"
| "signature_v (LondonSigner s) (TxLegacy t) sig = 35 + int (unat (sig ! 64)) + chainIdMul s"
| "signature_v _ _ sig = int (unat (sig ! 64))"

lemmas values_defs = frontier_values_def eip155_values_def typed_values_def eip2930_values_def london_values_def
  tx_chain_unset_or_def for_chain_def chain_ok_def

lemmas type_defs [simp] = LegacyTxType_def AccessListTxType_def DynamicFeeTxType_def

lemma decode_good:
  assumes "good_sig sig"
  shows "decodeSignature sig = Ok (int (sig_r sig), int (sig_s sig), 27 + int (unat (sig ! 64)))"
    "unat (sig ! 64 + 35) = 35 + unat (sig ! 64)"
  using assms by (auto simp: decodeSignature_def SignatureLength_def good_sig_def sig_r_def sig_s_def)

lemma SignatureValues_good:
  assumes "good_sig sig" "signable signer t"
  shows "SignatureValues signer t sig = Ok (Inr (int (sig_r sig), int (sig_s sig), signature_v signer t sig))"
  using assms(2) by (cases "(signer, t)" rule: signable.cases) (auto simp: values_defs decode_good [OF assms(1)])

lemma signable_copies: "signable signer t \<Longrightarrow> \<exists>c. tx_copy t = Ok c \<and> signable signer c"
  by (cases "(signer, t)" rule: signable.cases)
    (auto simp: access_list_copy_def dynamic_fee_copy_def unsigned_access_list_def set_nil_def Let_def number_copy_def for_chain_def)

lemma setSignature_hash: "signer_Hash L signer (setSignatureValues c v r s t) = signer_Hash L signer t"
  by (cases t; cases signer) (simp_all add: frontier_hash_def eip155_hash_def eip2930_hash_def london_hash_def)

text \<open>The \<open>V\<close> of a replay-protected signature: it is protected and gives the chain id back.\<close>

lemma bit_len_byte:
  assumes "bit_len n \<le> 8"
  shows "n < 256"
proof -
  have "n < 2 ^ bit_len n" using bit_len_bounds by blast
  also have "\<dots> \<le> 2 ^ 8" using assms by (intro power_increasing) simp_all
  finally show ?thesis by simp
qed

lemma protected_v:
  assumes "chain_ok s" "k = 0 \<or> k = 1" and v: "v = (of_int (35 + int k + chainIdMul s) :: u256)"
  shows "uint v = 35 + int k + chainIdMul s" "isProtectedV (uint v)" "DeriveChainId (Some v) = Ok (of_int (chainId s))"
proof -
  define n where "n = nat (chainId s)"
  have n: "chainId s = int n" "chainIdMul s = 2 * int n" "0 < n" "2 * n + 36 < 2 ^ 256"
    using assms(1) by (auto simp: n_def chain_ok_def)
  have "v = of_nat (35 + k + 2 * n)" by (simp add: v n)
  moreover have "35 + k + 2 * n < 2 ^ 256" using n(4) assms(2) by auto
  ultimately have u: "unat v = 35 + k + 2 * n" using unat_of_nat256 by blast
  then show uv: "uint v = 35 + int k + chainIdMul s" using n by (simp add: uint_nat)
  show "isProtectedV (uint v)"
  proof (cases "bit_len (nat \<bar>uint v\<bar>) \<le> 8")
    case True
    have nv: "nat \<bar>uint v\<bar> = 35 + k + 2 * n" using uv n by simp
    from bit_len_byte [OF True] have "unat (of_nat (nat \<bar>uint v\<bar>) :: u64) = 35 + k + 2 * n" unfolding nv by (intro unat_of_nat64) simp
    then show ?thesis using n(3) by (auto simp: isProtectedV_def Let_def)
  qed (simp add: isProtectedV_def)
  have half: "(35 + k + 2 * n - 35) div 2 = n" using assms(2) by auto
  have "unat (if IsUint64 v then (let v = Uint64 v in if v = 27 \<or> v = 28 then 0 else SetUint64 ((v - 35) div 2))
      else (v - 35) div 2) = n"
  proof (cases "IsUint64 v")
    case True
    then have w: "unat (Uint64 v) = 35 + k + 2 * n" using u by (simp add: IsUint64_def unat_Uint64)
    then have "unat (Uint64 v - 35) = 35 + k + 2 * n - 35" by (simp add: unat_sub word_le_nat_alt)
    moreover have "Uint64 v \<noteq> 27" "Uint64 v \<noteq> 28" using w n(3) by auto
    ultimately show ?thesis using True half by (simp add: unat_div)
  next
    case False
    have "unat (v - 35) = 35 + k + 2 * n - 35" using u by (simp add: unat_sub word_le_nat_alt)
    then show ?thesis using False half by (simp add: unat_div)
  qed
  then show "DeriveChainId (Some v) = Ok (of_int (chainId s))"
    using unat_of_nat256 [of n] n(4) unfolding DeriveChainId_def n(1) by (simp add: word_unat_eq_iff)
qed

lemma setSignature_simps [simp]:
  "txType (setSignatureValues c v r s t) = txType t"
  "rawSignatureValues (setSignatureValues c v r s t) = (v, r, s)"
  "frontier_hash L (setSignatureValues c v r s t) = frontier_hash L t"
  "eip155_hash L e (setSignatureValues c v r s t) = eip155_hash L e t"
  "eip2930_hash L e (setSignatureValues c v r s t) = eip2930_hash L e t"
  "london_hash L e (setSignatureValues c v r s t) = london_hash L e t"
  by (cases t; simp add: frontier_hash_def eip155_hash_def eip2930_hash_def london_hash_def)+

lemma ToBig_signed:
  assumes "good_sig sig"
  shows "ToBig (Some (of_nat (sig_r sig))) = Some (int (sig_r sig))" "ToBig (Some (of_nat (sig_s sig))) = Some (int (sig_s sig))"
  using sig_values [OF assms] by (simp_all add: ToBig_def uint_nat)

lemma recovery_id:
  assumes "good_sig sig"
  shows "uint (of_int (27 + int (unat (sig ! 64))) :: u256) = 27 + int (unat (sig ! 64))"
    "uint (of_int (int (unat (sig ! 64))) :: u256) = int (unat (sig ! 64))" "unat (sig ! 64) = 0 \<or> unat (sig ! 64) = 1"
  using assms by (auto simp: good_sig_def)

definition with_sig :: "Signer \<Rightarrow> bytes \<Rightarrow> int \<Rightarrow> TxData \<Rightarrow> TxData" where
  "with_sig signer sig v t =
     setSignatureValues (map_option of_int (signer_ChainID signer)) (Some (of_int v))
       (Some (of_nat (sig_r sig))) (Some (of_nat (sig_s sig))) t"

lemma with_sig_simps [simp]:
  "txType (with_sig signer sig v t) = txType t"
  "rawSignatureValues (with_sig signer sig v t) = (Some (of_int v), Some (of_nat (sig_r sig)), Some (of_nat (sig_s sig)))"
  "frontier_hash L (with_sig signer sig v t) = frontier_hash L t"
  "eip155_hash L e (with_sig signer sig v t) = eip155_hash L e t"
  "eip2930_hash L e (with_sig signer sig v t) = eip2930_hash L e t"
  "london_hash L e (with_sig signer sig v t) = london_hash L e t"
  by (simp_all add: with_sig_def)

text \<open>A public key recovered from a signature by its owner.\<close>

definition recovers :: "curve \<Rightarrow> hash \<Rightarrow> bytes \<Rightarrow> bytes \<Rightarrow> bool" where
  "recovers C h sig pub \<longleftrightarrow> good_sig sig \<and> sec_RecoverPubkey C (hash_bytes h) sig = Some pub \<and> pub \<noteq> [] \<and> pub ! 0 = 4"

definition owner :: "lib \<Rightarrow> bytes \<Rightarrow> address" where
  "owner L pub = ucast (keccak L (drop 1 pub))"

lemma recover_signed:
  assumes "recovers C h sig pub" "V1 = 27 + int (unat (sig ! 64))"
  shows "recoverPlain L C h (ToBig (Some (of_nat (sig_r sig)))) (ToBig (Some (of_nat (sig_s sig)))) (Some V1) homestead = Ok (Inr (owner L pub))"
  using assms recover_good [of sig C h pub V1 L homestead] ToBig_signed [of sig] by (simp add: recovers_def owner_def)

lemma plain_Sender_signed:
  assumes "recovers C (frontier_hash L t) sig pub" "txType t = LegacyTxType"
  shows "plain_Sender L C homestead (with_sig signer sig (27 + int (unat (sig ! 64))) t) = Ok (Inr (owner L pub))"
proof -
  have "ToBig (Some (of_int (27 + int (unat (sig ! 64))))) = Some (27 + int (unat (sig ! 64)))"
    using recovery_id(1) [of sig] assms(1) by (simp add: ToBig_def recovers_def)
  then show ?thesis using recover_signed [OF assms(1) refl] assms(2) by (simp add: plain_Sender_def)
qed

lemma chain_Sender_signed:
  assumes "recovers C h sig pub" "V1 = 27 + int (unat (sig ! 64))" "same_chain e (with_sig signer sig v t) = Ok True"
  shows "chain_Sender L C e h V1 (with_sig signer sig v t) = Ok (Inr (owner L pub))"
  using recover_signed [OF assms(1,2)] assms(3) by (simp add: chain_Sender_def)

lemma legacy_Sender_signed:
  assumes "recovers C h sig pub" "chain_ok e" "v = 35 + int (unat (sig ! 64)) + chainIdMul e"
  shows "chain_Sender L C e h (uint (of_int v :: u256) - chainIdMul e - 8) (with_sig signer sig v (TxLegacy x)) = Ok (Inr (owner L pub))"
    and "Protected (with_sig signer sig v (TxLegacy x))"
proof -
  have "unat (sig ! 64) = 0 \<or> unat (sig ! 64) = 1" using assms(1) recovery_id(3) by (simp add: recovers_def)
  note p = protected_v [OF assms(2) this, of "of_int v", unfolded assms(3), OF refl, folded assms(3)]
  have "same_chain e (with_sig signer sig v (TxLegacy x)) = Ok True" using p(3) by (simp add: same_chain_def with_sig_def)
  then show "chain_Sender L C e h (uint (of_int v :: u256) - chainIdMul e - 8) (with_sig signer sig v (TxLegacy x)) = Ok (Inr (owner L pub))"
    using p(1) by (intro chain_Sender_signed [OF assms(1)]) (simp_all add: assms(3))
  show "Protected (with_sig signer sig v (TxLegacy x))" using p(2) by (simp add: with_sig_def ToBig_def)
qed

lemma typed_Sender_signed:
  assumes "recovers C h sig pub" "signer_ChainID signer = Some (chainId e)" "v = int (unat (sig ! 64))" "txType t \<noteq> LegacyTxType"
  shows "chain_Sender L C e h (uint (of_int v :: u256) + 27) (with_sig signer sig v t) = Ok (Inr (owner L pub))"
proof (rule chain_Sender_signed [OF assms(1)])
  show "uint (of_int v :: u256) + 27 = 27 + int (unat (sig ! 64))"
    using recovery_id(2) [of sig] assms(1,3) by (simp add: recovers_def)
  show "same_chain e (with_sig signer sig v t) = Ok True"
    using assms(2,4) by (cases t) (simp_all add: same_chain_def with_sig_def)
qed

lemma london_hash_older [simp]:
  "london_hash L s (TxLegacy t) = eip2930_hash L s (TxLegacy t)"
  "london_hash L s (TxAccessList u) = eip2930_hash L s (TxAccessList u)"
  by (simp_all add: london_hash_def)

lemma Sender_signed:
  assumes "recovers C (signer_Hash L signer t) sig pub" "signable signer t"
  shows "signer_Sender L C signer (with_sig signer sig (signature_v signer t sig) t) = Ok (Inr (owner L pub))"
  using assms plain_Sender_signed [of C L t sig pub] legacy_Sender_signed [OF assms(1)]
    typed_Sender_signed [OF assms(1), of signer _ "int (unat (sig ! 64))" t]
  by (cases "(signer, t)" rule: signable.cases)
    (simp_all add: eip155_Sender_def eip2930_Sender_def london_Sender_def del: One_nat_def)

text \<open>C38. The sender recovered from a signed transaction is the owner of the key. For every signer and every
  transaction it can sign, \<open>SignTx\<close> succeeds and \<open>Sender\<close> with the same signer returns the address of the
  public key, the second time from the cache. The signing package is assumed to return signatures
  in range, with a low second half and recovery id 0 or 1, from which it recovers the key.\<close>

theorem signed_tx_recovers:
  assumes "signs_and_recovers C (PaddedBigBytes prv 32) pub" and "signable signer (inner tx)"
  shows "\<exists>tx1 tx2. SignTx L C signer prv tx = Ok (Some (Inr tx1)) \<and>
    Sender L C signer tx1 = Ok (tx2, Inr (ucast (keccak L (drop 1 pub)))) \<and>
    Sender L C signer tx2 = Ok (tx2, Inr (ucast (keccak L (drop 1 pub))))"
proof -
  define h where "h = signer_Hash L signer (inner tx)"
  have "length (hash_bytes h) = 32" by (simp add: hash_bytes_def)
  then obtain sig where sig: "crypto_Sign C h prv = Some sig" "recovers C h sig pub"
    using assms(1) unfolding signs_and_recovers_def crypto_Sign_def recovers_def by blast
  have g: "good_sig sig" using sig(2) by (simp add: recovers_def)
  obtain c where c: "tx_copy (inner tx) = Ok c" "signable signer c" using signable_copies [OF assms(2)] by blast
  have v: "signature_v signer (inner tx) sig = signature_v signer c sig"
    using c(1) by (cases "inner tx"; cases signer) (auto simp: bnd_eq_Ok)
  define t where "t = with_sig signer sig (signature_v signer c sig) c"
  have "SignTx L C signer prv tx = Ok (Some (Inr (fresh_tx t)))"
    using sig(1) SignatureValues_good [OF g assms(2)] c(1)
    by (simp add: SignTx_def h_def [symmetric] WithSignature_def t_def with_sig_def v)
  moreover have "signer_Hash L signer c = h" using copy_keeps_hashes [OF c(1)] by (simp add: h_def)
  then have "signer_Sender L C signer t = Ok (Inr (owner L pub))"
    unfolding t_def using sig(2) c(2) by (intro Sender_signed) simp_all
  moreover have "signer_Equal signer signer" by (cases signer) simp_all
  ultimately show ?thesis by (auto simp: Sender_def fresh_tx_def owner_def)
qed

definition demo_curve :: curve where
  "demo_curve =
     \<lparr>sec_Sign = (\<lambda>_ _. Some (be_bytes 32 1 @ be_bytes 32 1 @ [0])), sec_RecoverPubkey = (\<lambda>_ _. Some [4, 7])\<rparr>"

definition demo_tx :: TxData where
  "demo_tx = TxDynamicFee
     \<lparr>dt_ChainID = Some 0, dt_Nonce = 3, dt_GasTipCap = Some 1, dt_GasFeeCap = Some 2, dt_Gas = 21000, dt_To = Some 9,
      dt_From = Some 5, dt_Value = Some 0, dt_Data = [], dt_AccessList = [], dt_Sign = [], dt_V = None, dt_R = None, dt_S = None\<rparr>"

lemma demo_curve_ok: "signs_and_recovers demo_curve key [4, 7]"
proof -
  have "good_sig (be_bytes 32 1 @ be_bytes 32 1 @ [0])"
    by (simp add: good_sig_def sig_r_def sig_s_def be_val_be_bytes secp256k1N_def secp256k1halfN_def nth_append del: be_bytes.simps)
  then show ?thesis by (simp add: signs_and_recovers_def demo_curve_def)
qed

theorem signed_tx_recovers_witness:
  "\<exists>tx1 tx2. SignTx \<lparr>keccak = (\<lambda>_. 77), marshalAccount = (\<lambda>_. []), unmarshalAccount = (\<lambda>_. Inl [])\<rparr> demo_curve
       (NewLondonSigner (Some 94)) 5 (fresh_tx demo_tx) = Ok (Some (Inr tx1)) \<and>
     Sender \<lparr>keccak = (\<lambda>_. 77), marshalAccount = (\<lambda>_. []), unmarshalAccount = (\<lambda>_. Inl [])\<rparr> demo_curve
       (NewLondonSigner (Some 94)) tx1 = Ok (tx2, Inr 77)"
proof -
  have "signable (NewLondonSigner (Some 94)) (inner (fresh_tx demo_tx))"
    by (simp add: NewLondonSigner_def demo_tx_def fresh_tx_def for_chain_def)
  from signed_tx_recovers [OF demo_curve_ok this, where L = "\<lparr>keccak = (\<lambda>_. 77), marshalAccount = (\<lambda>_. []), unmarshalAccount = (\<lambda>_. Inl [])\<rparr>" and prv = 5]
  show ?thesis by (elim exE conjE) auto
qed

section \<open>Protobuf messages\<close>

text \<open>The transactions a message can carry: all parts it dereferences are there, the recipient is not the
  zero address, the access list is empty and the chain id fits in 64 bits.\<close>

definition has_message :: "TxData \<Rightarrow> bool" where
  "has_message t \<longleftrightarrow> tx_gasPrice t \<noteq> None \<and> tx_value t \<noteq> None \<and> tx_from t \<noteq> None \<and>
     (case t of TxLegacy _ \<Rightarrow> True | TxAccessList a \<Rightarrow> at_ChainID a \<noteq> None
        | TxDynamicFee d \<Rightarrow> dt_ChainID d \<noteq> None \<and> dt_GasTipCap d \<noteq> None)"

definition portable :: "TxData \<Rightarrow> bool" where
  "portable t \<longleftrightarrow> has_message t \<and> tx_to t \<noteq> Some 0 \<and> tx_accessList t = [] \<and>
     (case t of TxLegacy _ \<Rightarrow> True | TxAccessList a \<Rightarrow> IsUint64 (the (at_ChainID a)) | TxDynamicFee d \<Rightarrow> IsUint64 (the (dt_ChainID d)))"

lemma SetUint64_Uint64: "IsUint64 x \<Longrightarrow> SetUint64 (Uint64 x) = x"
  by (simp add: word_unat_eq_iff unat_Uint64 IsUint64_def)

lemma pb_numbers [simp]:
  "pb_number (Some (ConvertUint256IntToH256 x)) = Ok (Some x)"
  "pb_signature (map_option ConvertUint256IntToH256 y) = Ok y"
  by (simp_all add: pb_number_def pb_signature_def split: option.split)

lemma pb_recipient_of [simp]: "a \<noteq> Some 0 \<Longrightarrow> pb_recipient (map_option ConvertAddressToH160 a) = Ok a"
  by (cases a) (simp_all add: pb_recipient_def)

lemma pb_data_hash [simp]: "pb_data (pb\<lparr>pb_Hash := h\<rparr>) = pb_data pb"
  by (simp add: pb_data_def pb_signatures_def)

lemma message_back:
  assumes "portable t"
  obtains pb where "pb_message t = Ok pb" "pb_data pb = Ok t" "pb_Hash pb = None"
proof (cases t)
  case (TxLegacy l)
  with assms that show ?thesis
    by (cases l) (auto simp: portable_def has_message_def pb_message_def pb_data_def pb_signatures_def)
next
  case (TxAccessList a)
  with assms that show ?thesis
    by (cases a) (auto simp: portable_def has_message_def pb_message_def pb_data_def pb_signatures_def SetUint64_Uint64)
next
  case (TxDynamicFee d)
  with assms that show ?thesis
    by (cases d) (auto simp: portable_def has_message_def pb_message_def pb_data_def pb_signatures_def SetUint64_Uint64)
qed

text \<open>C39. A portable transaction (the fields of its message set, no access list, a recipient other
  than the zero address, a chain id of 64 bits) survives its message: what \<open>FromProtoMessage\<close> makes of
  the message of \<open>ToProtoMessage\<close> is \<open>NewTx\<close> of the same data; if that does not panic, the hash of the new
  transaction is that of the data; and \<open>Unmarshal\<close>
  of \<open>Marshal\<close> gives exactly the data back, signature bytes included. The protobuf library is
  assumed to read back the message it wrote.\<close>

theorem tx_proto_roundtrip:
  assumes "portable (inner tx)" and "\<forall>m. pb_message (inner tx) = Ok m \<longrightarrow> (\<exists>b. proto_Marshal P m = Some b \<and> proto_Unmarshal P b = Some m)"
  shows "(\<exists>tx1 pb. ToProtoMessage L tx = Ok (tx1, pb) \<and> inner tx1 = inner tx \<and> FromProtoMessage pb = NewTx (inner tx)) \<and>
    (\<forall>tx2. NewTx (inner tx) = Ok tx2 \<longrightarrow> snd (tx_Hash L tx2) = data_hash L (inner tx)) \<and>
    (\<exists>b. tx_Marshal P tx = Ok (Some b) \<and> (\<forall>tx0. tx_Unmarshal P b tx0 = Ok (tx0\<lparr>inner := inner tx\<rparr>, True)))"
proof (intro conjI allI impI)
  obtain pb where pb: "pb_message (inner tx) = Ok pb" "pb_data pb = Ok (inner tx)" "pb_Hash pb = None" using message_back [OF assms(1)] .
  show "\<exists>tx1 pb. ToProtoMessage L tx = Ok (tx1, pb) \<and> inner tx1 = inner tx \<and> FromProtoMessage pb = NewTx (inner tx)"
    using pb by (auto simp: ToProtoMessage_def FromProtoMessage_def txDataFromProtoMessage_def tx_Hash_def Let_def split: option.split)
  obtain b where "proto_Marshal P pb = Some b" "proto_Unmarshal P b = Some pb" using assms(2) pb(1) by blast
  then show "\<exists>b. tx_Marshal P tx = Ok (Some b) \<and> (\<forall>tx0. tx_Unmarshal P b tx0 = Ok (tx0\<lparr>inner := inner tx\<rparr>, True))"
    using pb by (auto simp: tx_Marshal_def tx_Unmarshal_def txDataFromProtoMessage_def ConvertH256ToHash_def)
next
  fix tx2 assume "NewTx (inner tx) = Ok tx2"
  then show "snd (tx_Hash L tx2) = data_hash L (inner tx)"
    by (auto simp: NewTx_def bnd_eq_Ok fresh_tx_def tx_Hash_def copy_keeps_hash Let_def)
qed

definition demo_access_list :: AccessListTx where
  "demo_access_list =
     \<lparr>at_ChainID = Some 94, at_Nonce = 0, at_GasPrice = Some 1, at_Gas = 21000, at_To = Some 9, at_From = Some 5,
      at_Value = Some 0, at_Data = [], at_AccessList = [], at_Sign = [], at_V = Some 1, at_R = Some 1, at_S = Some 1\<rparr>"

definition demo_protobuf :: protobuf where
  "demo_protobuf =
     \<lparr>proto_Marshal = (\<lambda>_. Some [1]), proto_Unmarshal = (\<lambda>_. case pb_message demo_tx of Ok m \<Rightarrow> Some m | _ \<Rightarrow> None)\<rparr>"

theorem tx_proto_roundtrip_witness:
  "(\<exists>tx1 pb. ToProtoMessage \<lparr>keccak = (\<lambda>_. 77), marshalAccount = (\<lambda>_. []), unmarshalAccount = (\<lambda>_. Inl [])\<rparr> (fresh_tx demo_tx)
       = Ok (tx1, pb) \<and> FromProtoMessage pb = NewTx demo_tx) \<and>
   tx_Unmarshal demo_protobuf [1] (fresh_tx (TxAccessList demo_access_list)) = Ok (fresh_tx demo_tx, True)"
proof -
  have "portable (inner (fresh_tx demo_tx))" by (simp add: portable_def has_message_def demo_tx_def IsUint64_def fresh_tx_def)
  moreover have "\<forall>m. pb_message (inner (fresh_tx demo_tx)) = Ok m \<longrightarrow>
      (\<exists>b. proto_Marshal demo_protobuf m = Some b \<and> proto_Unmarshal demo_protobuf b = Some m)"
    by (simp add: demo_protobuf_def fresh_tx_def)
  moreover have "tx_Marshal demo_protobuf (fresh_tx demo_tx) = Ok (Some b) \<Longrightarrow> b = [1]" for b
    by (auto simp: tx_Marshal_def demo_protobuf_def bnd_eq_Ok)
  ultimately show ?thesis
    using tx_proto_roundtrip [of "fresh_tx demo_tx" demo_protobuf "\<lparr>keccak = (\<lambda>_. 77), marshalAccount = (\<lambda>_. []), unmarshalAccount = (\<lambda>_. Inl [])\<rparr>"]
    by (auto simp: fresh_tx_def)
qed

lemma pb_recipient_any: "pb_recipient (map_option ConvertAddressToH160 a) = Ok (if a = Some 0 then None else a)"
  by (cases a) (simp_all add: pb_recipient_def)

lemma access_list_message:
  assumes "has_message (TxAccessList t)"
  obtains pb a where "pb_message (TxAccessList t) = Ok pb" "pb_data pb = Ok (TxAccessList a)" "at_V a = at_V t" "at_R a = at_R t" "at_S a = at_S t"
  using assms by (cases t) (auto simp: has_message_def pb_message_def pb_data_def pb_signatures_def pb_recipient_any)

lemma NewTx_access_list:
  "at_V t \<noteq> None \<or> at_R t \<noteq> None \<or> at_S t \<noteq> None \<Longrightarrow> NewTx (TxAccessList t) = Panic NilDereference"
  by (auto simp: NewTx_def access_list_copy_def set_nil_def Let_def split: option.split)

text \<open>C40. A signed access-list transaction cannot be received: \<open>copy\<close> writes its signature values through
  nil pointers, so \<open>NewTx\<close> of its data, and with it \<open>FromProtoMessage\<close> of its message, panics.\<close>

theorem signed_access_list_panics:
  assumes "at_V t \<noteq> None \<or> at_R t \<noteq> None \<or> at_S t \<noteq> None" and "has_message (TxAccessList t)"
  shows "NewTx (TxAccessList t) = Panic NilDereference \<and>
    (\<exists>tx1 pb. ToProtoMessage L (fresh_tx (TxAccessList t)) = Ok (tx1, pb) \<and> FromProtoMessage pb = Panic NilDereference)"
proof
  show "NewTx (TxAccessList t) = Panic NilDereference" by (rule NewTx_access_list [OF assms(1)])
  show "\<exists>tx1 pb. ToProtoMessage L (fresh_tx (TxAccessList t)) = Ok (tx1, pb) \<and> FromProtoMessage pb = Panic NilDereference"
  proof -
    obtain pb a where "pb_message (TxAccessList t) = Ok pb" "pb_data pb = Ok (TxAccessList a)" "at_V a = at_V t" "at_R a = at_R t" "at_S a = at_S t"
      using access_list_message [OF assms(2)] .
    then show ?thesis using NewTx_access_list [of a] assms(1)
      by (auto simp: ToProtoMessage_def fresh_tx_def tx_Hash_def FromProtoMessage_def txDataFromProtoMessage_def Let_def)
  qed
qed

theorem signed_access_list_panics_witness: "NewTx (TxAccessList demo_access_list) = Panic NilDereference"
proof -
  have "at_V demo_access_list \<noteq> None \<or> at_R demo_access_list \<noteq> None \<or> at_S demo_access_list \<noteq> None"
    "has_message (TxAccessList demo_access_list)" by (simp_all add: demo_access_list_def has_message_def)
  from signed_access_list_panics [OF this] show ?thesis by blast
qed

text \<open>A recipient that is the zero address is read back as no recipient: the call becomes a contract
  creation.\<close>

lemma zero_recipient_lost: "pb_recipient (map_option ConvertAddressToH160 (Some 0)) = Ok None"
  by (simp add: pb_recipient_def)

section \<open>Effective tips\<close>

text \<open>\<open>uint256Min\<close> returns the larger of its arguments. So the effective tip of a transaction is the larger
  of its tip cap and of what the base fee leaves of its fee cap: it is never below the cap that is
  meant to bound it.\<close>

theorem effective_tip_is_max:
  assumes "tx_gasTipCap (inner tx) = Some tip" and "tx_gasFeeCap (inner tx) = Some cap"
  shows "EffectiveGasTip tx (Some fee) = Ok (Some (max tip (cap - fee)), cap < fee)"
  using assms by (auto simp: EffectiveGasTip_def uint256Min_def u256_Cmp_def max_def)

theorem effective_tip_is_max_witness:
  "EffectiveGasTip (fresh_tx demo_tx) (Some 0) = Ok (Some 2, False) \<and> tx_gasTipCap demo_tx = Some 1"
  using effective_tip_is_max [of "fresh_tx demo_tx" 1 2 0] by (simp add: demo_tx_def fresh_tx_def max_def)

end
