(* ===== verification/ProcessProps.thy ===== *)
theory ProcessProps
  imports Processor FeeProps
begin

text \<open>Gas accounting of a block: what \<open>Process\<close> reports agrees with the header, with the receipts and with
  the gas pool.\<close>

section \<open>One transaction\<close>

lemma AsMessage_sat: "sat (\<lambda>msg. msg_gasLimit msg = tx_gas (inner tx)) (AsMessage tx fee)"
  by (auto simp: AsMessage_def Let_def split: option.split)

lemma NewEVMBlockContext_sat:
  "sat (\<lambda>bc. \<exists>n. h_Number header = Some n \<and> BlockNumber bc = Uint64 n) (NewEVMBlockContext header bh eng author)"
  by (auto simp: NewEVMBlockContext_def split: option.split)

lemma NewEVM_sat:
  assumes "ExtraEips cfg = []" "rules_ok (rules cc (BlockNumber bc))"
  shows "sat (\<lambda>(E, jt, ev). chainRules E = rules cc (BlockNumber bc) \<and> instructionSet (chainRules E) = Ok jt) (NewEVM pf bc txc s cc cfg)"
proof -
  obtain jt where "instructionSet (rules cc (BlockNumber bc)) = Ok jt"
    using instructionSet_ok [of "undefined\<lparr>chainRules := rules cc (BlockNumber bc)\<rparr>"] assms(2) by auto
  then show ?thesis by (simp add: NewEVM_def NewEVMInterpreter_def Let_def assms(1))
qed

text \<open>The transaction took \<open>g\<close> gas from the pool and says so in its receipt.\<close>

definition applied :: "Transaction \<Rightarrow> block_state \<Rightarrow> block_state \<times> 'w \<times> (process_error + (Receipt option \<times> bytes)) \<Rightarrow> bool" where
  "applied tx bs res \<longleftrightarrow> (case res of
       (bs', _, Inl _) \<Rightarrow> True
     | (bs', _, Inr (receipt, _)) \<Rightarrow>
         (\<exists>r. receipt = Some r \<and> unat (bs_gp bs') + unat (rcpt_GasUsed r) = unat (bs_gp bs) \<and>
            unat (rcpt_GasUsed r) \<le> unat (tx_gas (inner tx)) \<and>
            bs_usedGas bs' = bs_usedGas bs + rcpt_GasUsed r \<and> CumulativeGasUsed r = bs_usedGas bs'))"

lemma CreateBloom_fine: "fine (CreateBloom L rs)"
  using CreateBloom_total [of L rs] by (elim exE conjE) simp

lemma make_receipt_sat:
  "sat (\<lambda>r. rcpt_GasUsed r = UsedGas res \<and> CumulativeGasUsed r = used) (make_receipt E header tx msg res used s)"
  by (simp add: make_receipt_def Let_def CreateBloom_fine)

lemma finish_transaction_ok:
  assumes "\<not> NoReceipts cfg" "unat (bs_gp bs') + unat (UsedGas result) = unat (bs_gp bs)" "bs_usedGas bs' = bs_usedGas bs"
    and "unat (UsedGas result) \<le> unat (tx_gas (inner tx))"
  shows "sat (applied tx bs) (finish_transaction pf W header tx E cfg msg result bs' w)"
  using assms
  by (auto simp: finish_transaction_def Let_def applied_def intro!: sat_mono [OF make_receipt_sat] split: option.split prod.split)

lemma run_transaction_ok:
  assumes run: "\<And>txc. run_ok fuel (Run (run_loop fuel jt (E\<lparr>txContext := txc\<rparr>)))"
    and "unat (tx_gas (inner tx)) < fuel" "\<not> Parlia cc" "\<not> NoReceipts cfg" and g: "msg_gasLimit msg = tx_gas (inner tx)"
  shows "sat (applied tx bs) (run_transaction fuel pf cc W header tx E jt ev cfg msg bs w)"
proof -
  let ?E = "E\<lparr>txContext := NewEVMTxContext msg\<rparr>"
  have "sat (accounted ?E msg (ev\<lparr>ibs := bs_ibs bs\<rparr>) (bs_gp bs))
      (ApplyMessage (Run (run_loop fuel jt ?E)) cc (pf_addresses pf) ?E msg (ev\<lparr>ibs := bs_ibs bs\<rparr>) (bs_gp bs) True False)"
    using assms(2,3) g by (intro ApplyMessage_ok [OF run]) simp_all
  then show ?thesis
    unfolding run_transaction_def evm_Reset_def Let_def prod.case sat_bnd
    by (rule sat_mono) (use assms(4) g in \<open>auto simp: accounted_def applied_def intro!: finish_transaction_ok split: sum.splits\<close>)
qed

lemma applyTransaction_ok:
  assumes "\<And>txc. run_ok fuel (Run (run_loop fuel jt (E\<lparr>txContext := txc\<rparr>)))"
    and "unat (tx_gas (inner tx)) < fuel" "\<not> Parlia cc" "\<not> NoReceipts cfg"
  shows "sat (applied tx bs) (applyTransaction fuel pf cc eng W header tx E jt ev cfg bs w)"
  unfolding applyTransaction_def sat_bnd
  by (rule sat_mono [OF AsMessage_sat])
    (auto simp: SetCheckNonce_def SetIsFree_def Let_def intro!: run_transaction_ok [OF assms])

lemma table_runs:
  assumes "rules_ok (chainRules E)" "instructionSet (chainRules E) = Ok jt"
  shows "run_ok fuel (Run (run_loop fuel jt (E\<lparr>txContext := txc\<rparr>)))"
proof -
  have "rules_ok (chainRules (E\<lparr>txContext := txc\<rparr>))" using assms(1) by simp
  from vm_ok [OF this] assms(2) have "table_ok (E\<lparr>txContext := txc\<rparr>) jt" by auto
  then show ?thesis by (rule interpreter_ok)
qed

lemma ApplyTransaction_ok:
  assumes "\<And>n. h_Number header = Some n \<Longrightarrow> rules_ok (rules cc (Uint64 n))"
    and "unat (tx_gas (inner tx)) < fuel" "\<not> Parlia cc" "\<not> NoReceipts cfg" "ExtraEips cfg = []"
  shows "sat (applied tx bs) (ApplyTransaction fuel pf cc bh eng author W header tx cfg bs w)"
proof -
  have "sat (applied tx bs) (bnd (NewEVM pf bc txc (bs_ibs bs) cc cfg) (\<lambda>(E, jt, ev). applyTransaction fuel pf cc eng W header tx E jt ev cfg bs w))"
    if r: "rules_ok (rules cc (BlockNumber bc))" for bc txc
    unfolding sat_bnd
    by (rule sat_mono [OF NewEVM_sat [OF assms(5) r]]) (use r assms(2-4) in \<open>auto intro!: applyTransaction_ok table_runs\<close>)
  then show ?thesis
    unfolding ApplyTransaction_def using assms(1)
    by (subst sat_bnd, intro sat_mono [OF NewEVMBlockContext_sat]) fastforce
qed

section \<open>A block\<close>

lemma process_config_simps [simp]: "NoReceipts process_config = False" "ExtraEips process_config = []"
  by (simp_all add: process_config_def)

definition gas_sum :: "Receipt list \<Rightarrow> nat" where
  "gas_sum rs = sum_list (map (\<lambda>r. unat (rcpt_GasUsed r)) rs)"

text \<open>The receipts of a list of transactions: one for each, within its gas limit, with the running total.\<close>

definition receipts_ok :: "Transaction list \<Rightarrow> nat \<Rightarrow> Receipt list \<Rightarrow> bool" where
  "receipts_ok txs used rs \<longleftrightarrow>
     length rs = length txs \<and>
     (\<forall>i < length rs. unat (rcpt_GasUsed (rs ! i)) \<le> unat (tx_gas (inner (txs ! i))) \<and>
        unat (CumulativeGasUsed (rs ! i)) = used + gas_sum (take (Suc i) rs))"

lemma receipts_ok_Nil [simp]: "receipts_ok [] used []"
  by (simp add: receipts_ok_def)

lemma receipts_ok_Cons:
  assumes "receipts_ok txs (used + unat (rcpt_GasUsed r)) rs"
    and "unat (rcpt_GasUsed r) \<le> unat (tx_gas (inner tx))" "unat (CumulativeGasUsed r) = used + unat (rcpt_GasUsed r)"
  shows "receipts_ok (tx # txs) used (r # rs)"
  using assms by (auto simp: receipts_ok_def gas_sum_def less_Suc_eq_0_disj)

definition block_ok :: "Transaction list \<Rightarrow> block_state \<Rightarrow> process_error + (block_state \<times> Receipt list) \<Rightarrow> bool" where
  "block_ok txs bs r \<longleftrightarrow> (case r of
       Inl _ \<Rightarrow> True
     | Inr (bs', rs) \<Rightarrow>
         unat (bs_gp bs') + gas_sum rs = unat (bs_gp bs) \<and> unat (bs_usedGas bs') = unat (bs_usedGas bs) + gas_sum rs \<and>
         receipts_ok txs (unat (bs_usedGas bs)) rs)"

lemma applied_usedGas:
  assumes "bs_usedGas bs' = bs_usedGas bs + g" "unat (bs_gp bs') + unat g = unat (bs_gp bs)" "unat (bs_usedGas bs) + unat (bs_gp bs) < 2 ^ 64"
  shows "unat (bs_usedGas bs') = unat (bs_usedGas bs) + unat g"
proof -
  have "unat (bs_usedGas bs) + unat g < 2 ^ 64" using assms(2,3) by linarith
  then show ?thesis unfolding assms(1) by (intro unat_add_no_wrap) simp
qed

lemma process_txs_ok:
  assumes "\<And>n. h_Number (blk_header b) = Some n \<Longrightarrow> rules_ok (rules cc (Uint64 n))" and "\<not> Parlia cc"
    and "\<forall>tx \<in> set txs. unat (tx_gas (inner tx)) < fuel" and "unat (bs_usedGas bs) + unat (bs_gp bs) < 2 ^ 64"
  shows "sat (block_ok txs bs) (process_txs fuel pf cc bh eng b i txs bs)"
  using assms(3,4)
proof (induction txs arbitrary: i bs)
  case Nil
  then show ?case by (simp add: block_ok_def gas_sum_def)
next
  case (Cons tx txs)
  define bs0 where "bs0 = bs\<lparr>bs_ibs := prepare_tx (snd (tx_Hash (pf_lib pf) tx)) (blk_hash b) i (bs_ibs bs)\<rparr>"
  have bs0: "bs_gp bs0 = bs_gp bs" "bs_usedGas bs0 = bs_usedGas bs" by (simp_all add: bs0_def)
  have rest: "sat (\<lambda>rest. block_ok (tx # txs) bs (case rest of Inl e \<Rightarrow> Inl e | Inr (bs'', rs) \<Rightarrow> Inr (bs'', r # rs)))
      (process_txs fuel pf cc bh eng b (i + 1) txs bs')"
    if "applied tx bs0 (bs', w, Inr (Some r, ret))" for bs' r ret and w :: unit
  proof -
    have a: "unat (bs_gp bs') + unat (rcpt_GasUsed r) = unat (bs_gp bs)" "unat (rcpt_GasUsed r) \<le> unat (tx_gas (inner tx))"
        "bs_usedGas bs' = bs_usedGas bs + rcpt_GasUsed r" "CumulativeGasUsed r = bs_usedGas bs'"
      using that by (simp_all add: applied_def bs0)
    note u = applied_usedGas [OF a(3,1) Cons.prems(2)]
    have "sat (block_ok txs bs') (process_txs fuel pf cc bh eng b (i + 1) txs bs')"
      using Cons.prems u a(1) by (intro Cons.IH) simp_all
    then show ?thesis
      by (rule sat_mono) (use u a in \<open>auto simp: block_ok_def gas_sum_def intro!: receipts_ok_Cons split: sum.splits\<close>)
  qed
  have "sat (applied tx bs0)
      (ApplyTransaction fuel pf cc bh (Some eng) None NoopWriter (blk_header b) tx process_config bs0 ())"
    using Cons.prems(1) assms(1,2) by (intro ApplyTransaction_ok) simp_all
  then show ?case
    unfolding process_txs.simps Let_def bs0_def [symmetric] sat_bnd
  proof (rule sat_mono)
    fix res :: "block_state \<times> unit \<times> (process_error + (Receipt option \<times> bytes))"
    assume res: "applied tx bs0 res"
    obtain bs' w e where r: "res = (bs', w, e)" by (cases res)
    show "sat (block_ok (tx # txs) bs) (case res of (bs, _, r) \<Rightarrow> case r of
           Inl e \<Rightarrow> Ok (Inl e)
         | Inr (receipt, _) \<Rightarrow>
             bnd (process_txs fuel pf cc bh eng b (i + 1) txs bs) (\<lambda>rest. case rest of
                Inl e \<Rightarrow> Ok (Inl e)
              | Inr (bs, receipts) \<Rightarrow> Ok (Inr (bs, (case receipt of None \<Rightarrow> [] | Some r \<Rightarrow> [r]) @ receipts))))"
    proof (cases e)
      case (Inl x)
      then show ?thesis by (simp add: r block_ok_def)
    next
      case (Inr y)
      obtain rc ret where y: "y = (Some rc, ret)" using res by (cases y) (auto simp: r Inr applied_def)
      show ?thesis using rest [of bs' w rc ret] res
        by (auto simp: r Inr y elim!: sat_mono split: sum.split prod.split)
    qed
  qed
qed

text \<open>C6. On a chain without the Parlia engine, processing a block with more fuel than the gas limit of
  each transaction does not run out of fuel, and no nested frame indexes outside its stack or memory
  (a panic, if any, is of another kind). When it succeeds, the gas it reports is that of the
  header, is the sum of the gas of the receipts and is at most the gas limit of the block; there is
  one receipt for each transaction, within the gas limit of the transaction, and its cumulative gas
  is the sum over the receipts up to it.\<close>

theorem process_accounts_gas:
  assumes "h_Number (blk_header b) = Some num" and "rules_ok (rules cc (Uint64 num))" and "\<not> Parlia cc"
    and "\<forall>tx \<in> set (blk_txs b). unat (tx_gas (inner tx)) < fuel"
  shows "case Process fuel pf cc eng b s bh of
      Ok (Inr p) \<Rightarrow>
        pr_usedGas p = h_GasUsed (blk_header b) \<and> unat (pr_usedGas p) \<le> unat (h_GasLimit (blk_header b)) \<and>
        unat (pr_usedGas p) = sum_list (map (\<lambda>r. unat (rcpt_GasUsed r)) (pr_receipts p)) \<and>
        length (pr_receipts p) = length (blk_txs b) \<and>
        (\<forall>i < length (blk_txs b).
           unat (rcpt_GasUsed (pr_receipts p ! i)) \<le> unat (tx_gas (inner (blk_txs b ! i))) \<and>
           unat (CumulativeGasUsed (pr_receipts p ! i)) =
             sum_list (map (\<lambda>r. unat (rcpt_GasUsed r)) (take (Suc i) (pr_receipts p))))
    | Ok (Inl e) \<Rightarrow> True
    | Panic x \<Rightarrow> x \<noteq> StackIndex \<and> x \<noteq> MemoryIndex
    | NoFuel \<Rightarrow> False"
proof -
  let ?good = "\<lambda>p. pr_usedGas p = h_GasUsed (blk_header b) \<and> unat (pr_usedGas p) \<le> unat (h_GasLimit (blk_header b)) \<and>
      unat (pr_usedGas p) = gas_sum (pr_receipts p) \<and> receipts_ok (blk_txs b) 0 (pr_receipts p)"
  have "unat (h_GasLimit (blk_header b)) < 2 ^ 64" using unat_u64_bound by simp
  then have txs: "sat (block_ok (blk_txs b) \<lparr>bs_gp = h_GasLimit (blk_header b), bs_usedGas = 0, bs_ibs = s'\<rparr>)
      (process_txs fuel pf cc bh eng b 0 (blk_txs b) \<lparr>bs_gp = h_GasLimit (blk_header b), bs_usedGas = 0, bs_ibs = s'\<rparr>)" for s'
    using assms by (intro process_txs_ok) auto
  have "sat (case_sum (\<lambda>_. True) ?good) (Process fuel pf cc eng b s bh)"
    unfolding Process_def Let_def
    by (auto simp: gp_AddGas_def assms(1) intro!: sat_mono [OF txs] split: sum.split prod.split)
      (auto simp: block_ok_def)
  then show ?thesis
    unfolding sat_def gas_sum_def receipts_ok_def by (auto split: res.splits sum.splits)
qed

definition demo_platform :: platform where
  "demo_platform =
     \<lparr>pf_lib = demo_lib, pf_u256 = env_u256 demo_env, pf_tables = tables demo_env, pf_addresses = demo_addresses,
      pf_cancelled = (\<lambda>_. False), pf_slots = (\<lambda>_. []), pf_increases = (\<lambda>_. []), pf_dirties = (\<lambda>_. []), pf_logs = (\<lambda>_. [])\<rparr>"

definition demo_engine :: engine where
  "demo_engine = \<lparr>Author = h_Coinbase, is_bor = False, Finalize = (\<lambda>_ _ s. (s, Inr Map.empty))\<rparr>"

definition demo_legacy :: TxData where
  "demo_legacy = TxLegacy
     \<lparr>lt_Nonce = 0, lt_GasPrice = Some 2000, lt_Gas = 21000, lt_To = Some 9, lt_From = Some 5, lt_Value = Some 0, lt_Data = [],
      lt_V = None, lt_R = None, lt_S = None, lt_Sign = []\<rparr>"

definition demo_block :: "TxData list \<Rightarrow> Block" where
  "demo_block ts = \<lparr>blk_header = demo_header\<lparr>h_GasUsed := 0\<rparr>, blk_txs = map fresh_tx ts, blk_hash = 1\<rparr>"

theorem process_accounts_gas_witness:
  "Process 21001 demo_platform demo_config demo_engine (demo_block [demo_legacy]) (NewState demo_reader) (\<lambda>_. 0) \<noteq> NoFuel \<and>
   (\<exists>p. Process 1 demo_platform demo_config demo_engine (demo_block []) (NewState demo_reader) (\<lambda>_. 0) = Ok (Inr p) \<and>
      pr_usedGas p = 0)"
proof
  have num: "h_Number (blk_header (demo_block ts)) = Some 20" for ts by (simp add: demo_block_def demo_header_def)
  have rules: "rules_ok (rules demo_config (Uint64 20))"
    by (simp add: rules_ok_def rules_def demo_config_def isForked_def big_Uint64_def Uint64_def cfg_IsLondon_def cfg_IsPetersburg_def
        cfg_IsSpuriousDragon_def cfg_IsEip1559FeeCollector_def)
  have np: "\<not> Parlia demo_config" by (simp add: demo_config_def)
  have "\<forall>tx \<in> set (blk_txs (demo_block [demo_legacy])). unat (tx_gas (inner tx)) < 21001"
    by (simp add: demo_block_def demo_legacy_def fresh_tx_def)
  note ok = process_accounts_gas [OF num rules np this, where pf = demo_platform and eng = demo_engine and s = "NewState demo_reader" and bh = "\<lambda>_. 0"]
  show "Process 21001 demo_platform demo_config demo_engine (demo_block [demo_legacy]) (NewState demo_reader) (\<lambda>_. 0) \<noteq> NoFuel"
  proof
    assume n: "Process 21001 demo_platform demo_config demo_engine (demo_block [demo_legacy]) (NewState demo_reader) (\<lambda>_. 0) = NoFuel"
    show False using ok unfolding n by simp
  qed
  show "\<exists>p. Process 1 demo_platform demo_config demo_engine (demo_block []) (NewState demo_reader) (\<lambda>_. 0) = Ok (Inr p) \<and> pr_usedGas p = 0"
    by (simp add: Process_def demo_block_def demo_header_def gp_AddGas_def demo_engine_def demo_config_def Let_def)
qed

end
