(* ===== verification/Clique.thy ===== *)
theory Clique
  imports Signing Fees "HOL-Library.AList"
begin

text \<open>The proof-of-authority engine: voting snapshots (\<^verbatim>\<open>internal/consensus/apoa/snapshot.go\<close>, of which
  \<^verbatim>\<open>apos/snapshot.go\<close> is a copy) and the verification of headers (\<^verbatim>\<open>apoa.go\<close>). The signers are a set, the
  recent signers an association list with one entry for each block. The hash of a header is that
  of its JSON text and a parameter; the cache of recovered signers is left out.\<close>

datatype clique_error =
    errUnknownBlock
  | errFutureBlock
  | errInvalidCheckpointBeneficiary
  | errInvalidVote
  | errInvalidCheckpointVote
  | errMissingVanity
  | errMissingSignature
  | errExtraSigners
  | errInvalidCheckpointSigners
  | errMismatchingCheckpointSigners
  | errInvalidMixDigest
  | errInvalidDifficulty
  | errInvalidGasLimit
  | errInvalidGasUsed
  | errWrongDifficulty
  | errInvalidTimestamp
  | errInvalidVotingChain
  | errUnauthorizedSigner
  | errRecentlySigned
  | errRecoverFailed
  | errInvalidBaseFee
  | errFees fee_error
  | errUnknownAncestor
  | errSealingPaused
  | errSignFailed

section \<open>The signer of a header\<close>

definition extraVanity :: nat where "extraVanity = 32"
definition extraSeal :: nat where "extraSeal = 65"
definition nonceAuthVote :: u64 where "nonceAuthVote = 0xffffffffffffffff"
definition nonceDropVote :: u64 where "nonceDropVote = 0"
definition diffInTurn :: u256 where "diffInTurn = 2"
definition diffNoTurn :: u256 where "diffNoTurn = 1"

definition EmptyUncleHash :: hash where
  "EmptyUncleHash = 0x1dcc4de8dec75d7aab85b567b6ccd41ad312451b948a7413f0a142fd40d49347"

text \<open>The list that is signed, with the seal cut off the extra data. Extra data that is too short is a
  panic, as is an encoding error.\<close>

definition sig_header :: "Header \<Rightarrow> rval" where
  "sig_header h = RList
     ([RByteArray (hash_bytes (h_ParentHash h)), RByteArray (hash_bytes EmptyUncleHash), RByteArray (address_bytes (h_Coinbase h)),
       RByteArray (hash_bytes (h_Root h)), RByteArray (hash_bytes (h_TxHash h)), RByteArray (hash_bytes (h_ReceiptHash h)),
       RByteArray (h_Bloom h), RBigInt (ToBig (h_Difficulty h)), RBigInt (ToBig (h_Number h)), RUint (h_GasLimit h),
       RUint (h_GasUsed h), RUint (h_Time h), RBytes (take (length (h_Extra h) - SignatureLength) (h_Extra h)),
       RByteArray (hash_bytes (h_MixDigest h)), RByteArray (be_bytes 8 (unat (h_Nonce h)))]
      @ (case h_BaseFee h of None \<Rightarrow> [] | Some fee \<Rightarrow> [RBigInt (Some (uint fee))]))"

definition encodeSigHeader :: "Header \<Rightarrow> bytes res" where
  "encodeSigHeader h =
     (if length (h_Extra h) < SignatureLength then Panic SliceBounds else of_opt Impossible (Encode (sig_header h)))"

definition SealHash :: "lib \<Rightarrow> Header \<Rightarrow> hash res" where
  "SealHash L h = bnd (encodeSigHeader h) (\<lambda>b. Ok (keccak L b))"

definition header_signer :: "lib \<Rightarrow> curve \<Rightarrow> Header \<Rightarrow> (clique_error + address) res" where
  "header_signer L C h =
     (if length (h_Extra h) < extraSeal then Ok (Inl errMissingSignature)
      else bnd (SealHash L h) (\<lambda>sh.
        case sec_RecoverPubkey C (hash_bytes sh) (drop (length (h_Extra h) - extraSeal) (h_Extra h)) of
          None \<Rightarrow> Ok (Inl errRecoverFailed)
        | Some pubkey \<Rightarrow>
            if length pubkey = 0 then Panic SliceBounds else Ok (Inr (ucast (keccak L (drop 1 pubkey))))))"

section \<open>Snapshots\<close>

record Vote =
  vote_Signer :: address
  vote_Block :: u64
  vote_Address :: address
  vote_Authorize :: bool

record Tally =
  tally_Authorize :: bool
  tally_Votes :: int

record VoteSnapshot =
  vs_Number :: u64
  vs_Hash :: hash
  Signers :: "address set"
  Recents :: "(u64 \<times> address) list"
  Votes :: "Vote list"
  Tallies :: "address \<rightharpoonup> Tally"

definition newSnapshot :: "u64 \<Rightarrow> hash \<Rightarrow> address list \<Rightarrow> VoteSnapshot" where
  "newSnapshot number h signers =
     \<lparr>vs_Number = number, vs_Hash = h, Signers = set signers, Recents = [], Votes = [], Tallies = Map.empty\<rparr>"

definition validVote :: "address \<Rightarrow> bool \<Rightarrow> VoteSnapshot \<Rightarrow> bool" where
  "validVote a authorize s \<longleftrightarrow> a \<in> Signers s \<and> \<not> authorize \<or> a \<notin> Signers s \<and> authorize"

definition cast :: "address \<Rightarrow> bool \<Rightarrow> VoteSnapshot \<Rightarrow> VoteSnapshot \<times> bool" where
  "cast a authorize s =
     (if \<not> validVote a authorize s then (s, False)
      else
        (s\<lparr>Tallies := (Tallies s)(a \<mapsto>
            (case Tallies s a of
               Some old \<Rightarrow> old\<lparr>tally_Votes := tally_Votes old + 1\<rparr>
             | None \<Rightarrow> \<lparr>tally_Authorize = authorize, tally_Votes = 1\<rparr>))\<rparr>, True))"

definition uncast :: "address \<Rightarrow> bool \<Rightarrow> VoteSnapshot \<Rightarrow> VoteSnapshot \<times> bool" where
  "uncast a authorize s =
     (case Tallies s a of
        None \<Rightarrow> (s, False)
      | Some tally \<Rightarrow>
          if tally_Authorize tally \<noteq> authorize then (s, False)
          else if tally_Votes tally > 1 then
            (s\<lparr>Tallies := (Tallies s)(a \<mapsto> tally\<lparr>tally_Votes := tally_Votes tally - 1\<rparr>)\<rparr>, True)
          else (s\<lparr>Tallies := (Tallies s)(a := None)\<rparr>, True))"

text \<open>The loop that discards the previous vote of a signer on an account, and the ones that discard the
  votes of a signer and the votes on an account. \<open>pre\<close> holds the votes already passed.\<close>

fun discard_previous :: "address \<Rightarrow> address \<Rightarrow> Vote list \<Rightarrow> Vote list \<Rightarrow> VoteSnapshot \<Rightarrow> VoteSnapshot" where
  "discard_previous signer a pre [] s = s"
| "discard_previous signer a pre (v # vs) s =
     (if vote_Signer v = signer \<and> vote_Address v = a then
        (fst (uncast (vote_Address v) (vote_Authorize v) s))\<lparr>Votes := pre @ vs\<rparr>
      else discard_previous signer a (pre @ [v]) vs s)"

fun discard_cast_by :: "address \<Rightarrow> Vote list \<Rightarrow> Vote list \<Rightarrow> VoteSnapshot \<Rightarrow> VoteSnapshot" where
  "discard_cast_by a pre [] s = s\<lparr>Votes := pre\<rparr>"
| "discard_cast_by a pre (v # vs) s =
     (if vote_Signer v = a then discard_cast_by a pre vs (fst (uncast (vote_Address v) (vote_Authorize v) s))
      else discard_cast_by a (pre @ [v]) vs s)"

fun discard_about :: "address \<Rightarrow> Vote list \<Rightarrow> Vote list" where
  "discard_about a [] = []"
| "discard_about a (v # vs) = (if vote_Address v = a then discard_about a vs else v # discard_about a vs)"

definition signer_limit :: "VoteSnapshot \<Rightarrow> u64" where
  "signer_limit s = of_nat (card (Signers s) div 2 + 1)"

definition forget_recent :: "u64 \<Rightarrow> VoteSnapshot \<Rightarrow> VoteSnapshot" where
  "forget_recent number s =
     (if number \<ge> signer_limit s then s\<lparr>Recents := AList.delete (number - signer_limit s) (Recents s)\<rparr> else s)"

text \<open>The vote passed: the account joins or leaves the signers.\<close>

definition settle :: "u64 \<Rightarrow> address \<Rightarrow> VoteSnapshot \<Rightarrow> VoteSnapshot" where
  "settle number a s =
     (case Tallies s a of
        None \<Rightarrow> s
      | Some tally \<Rightarrow>
          if tally_Votes tally > int (card (Signers s) div 2) then
            let s = (if tally_Authorize tally then s\<lparr>Signers := insert a (Signers s)\<rparr>
                     else
                       let s = forget_recent number (s\<lparr>Signers := Signers s - {a}\<rparr>)
                       in discard_cast_by a [] (Votes s) s)
            in s\<lparr>Votes := discard_about a (Votes s), Tallies := (Tallies s)(a := None)\<rparr>
          else s)"

definition nonce_vote :: "u64 \<Rightarrow> bool option" where
  "nonce_vote n = (if n = nonceAuthVote then Some True else if n = nonceDropVote then Some False else None)"

definition clear_votes :: "u64 \<Rightarrow> u64 \<Rightarrow> VoteSnapshot \<Rightarrow> VoteSnapshot" where
  "clear_votes epoch number s = (if number mod epoch = 0 then s\<lparr>Votes := [], Tallies := Map.empty\<rparr> else s)"

definition tally_vote :: "u64 \<Rightarrow> address \<Rightarrow> address \<Rightarrow> bool \<Rightarrow> VoteSnapshot \<Rightarrow> VoteSnapshot" where
  "tally_vote number signer a authorize s =
     (let (s, ok) = cast a authorize s
      in if ok then s\<lparr>Votes := Votes s @ [\<lparr>vote_Signer = signer, vote_Block = number, vote_Address = a, vote_Authorize = authorize\<rparr>]\<rparr>
         else s)"

definition apply_header ::
  "u64 \<Rightarrow> (Header \<Rightarrow> (clique_error + address) res) \<Rightarrow> Header \<Rightarrow> VoteSnapshot \<Rightarrow> (clique_error + VoteSnapshot) res" where
  "apply_header epoch ecrecover h s =
     bnd (nonnil (h_Number h)) (\<lambda>num.
     let number = Uint64 num
     in if epoch = 0 then Panic DivideByZero
        else
          let s = forget_recent number (clear_votes epoch number s)
          in bnd (ecrecover h) (\<lambda>r. case r of
               Inl e \<Rightarrow> Ok (Inl e)
             | Inr signer \<Rightarrow>
                 if signer \<notin> Signers s then Ok (Inl errUnauthorizedSigner)
                 else if signer \<in> set (map snd (Recents s)) then Ok (Inl errRecentlySigned)
                 else
                   let s = s\<lparr>Recents := AList.update number signer (Recents s)\<rparr>;
                       s = discard_previous signer (h_Coinbase h) [] (Votes s) s
                   in (case nonce_vote (h_Nonce h) of
                         None \<Rightarrow> Ok (Inl errInvalidVote)
                       | Some authorize \<Rightarrow>
                           Ok (Inr (settle number (h_Coinbase h) (tally_vote number signer (h_Coinbase h) authorize s))))))"

fun apply_headers ::
  "u64 \<Rightarrow> (Header \<Rightarrow> (clique_error + address) res) \<Rightarrow> Header list \<Rightarrow> VoteSnapshot \<Rightarrow> (clique_error + VoteSnapshot) res" where
  "apply_headers epoch ecrecover [] s = Ok (Inr s)"
| "apply_headers epoch ecrecover (h # hs) s =
     bnd (apply_header epoch ecrecover h s) (\<lambda>r. case r of Inl e \<Rightarrow> Ok (Inl e) | Inr s \<Rightarrow> apply_headers epoch ecrecover hs s)"

text \<open>Whether the number of each header is the successor of the one before.\<close>

fun voting_chain :: "Header list \<Rightarrow> bool res" where
  "voting_chain (h # h' # hs) =
     bnd (nonnil (h_Number h')) (\<lambda>m. bnd (nonnil (h_Number h)) (\<lambda>n.
     if Uint64 m \<noteq> Uint64 n + 1 then Ok False else voting_chain (h' # hs)))"
| "voting_chain _ = Ok True"

definition snap_apply ::
  "u64 \<Rightarrow> (Header \<Rightarrow> (clique_error + address) res) \<Rightarrow> (Header \<Rightarrow> hash) \<Rightarrow> Header list \<Rightarrow> VoteSnapshot \<Rightarrow> (clique_error + VoteSnapshot) res" where
  "snap_apply epoch ecrecover header_hash hs s =
     (if length hs = 0 then Ok (Inr s)
      else bnd (voting_chain hs) (\<lambda>ok.
        if \<not> ok then Ok (Inl errInvalidVotingChain)
        else bnd (nonnil (h_Number (hd hs))) (\<lambda>n.
          if Uint64 n \<noteq> vs_Number s + 1 then Ok (Inl errInvalidVotingChain)
          else bnd (apply_headers epoch ecrecover hs s) (\<lambda>r. case r of
            Inl e \<Rightarrow> Ok (Inl e)
          | Inr sn \<Rightarrow>
              Ok (Inr (sn\<lparr>vs_Number := vs_Number sn + of_nat (length hs), vs_Hash := header_hash (last hs)\<rparr>))))))"

definition snap_signers :: "VoteSnapshot \<Rightarrow> address list" where
  "snap_signers s = sorted_list_of_set (Signers s)"

fun offset_of :: "address \<Rightarrow> address list \<Rightarrow> nat" where
  "offset_of a [] = 0"
| "offset_of a (x # xs) = (if x = a then 0 else Suc (offset_of a xs))"

definition inturn :: "u64 \<Rightarrow> address \<Rightarrow> VoteSnapshot \<Rightarrow> bool res" where
  "inturn number signer s =
     (let sigs = snap_signers s
      in if length sigs = 0 then Panic DivideByZero
         else Ok (number mod of_nat (length sigs) = of_nat (offset_of signer sigs)))"

definition calcDifficulty :: "VoteSnapshot \<Rightarrow> address \<Rightarrow> u256 res" where
  "calcDifficulty s signer = bnd (inturn (vs_Number s + 1) signer s) (\<lambda>b. Ok (if b then diffInTurn else diffNoTurn))"

end
