(* ===== verification/Authority.thy ===== *)
theory Authority
  imports Clique
begin

text \<open>The proof-of-authority engines on top of the voting snapshots: collecting a snapshot, verifying
  and preparing headers and sealing (\<^verbatim>\<open>internal/consensus/apoa/apoa.go\<close>, and \<^verbatim>\<open>apos/apos.go\<close> where it
  differs). The databases hold snapshots and do not fail; the eviction of the snapshot cache, the
  clock, the hash of headers and the curve are parameters.\<close>

definition FullImmutabilityThreshold :: nat where [param_defs]: "FullImmutabilityThreshold = 90000"
definition checkpointInterval :: u64 where "checkpointInterval = 1024"
definition apos_checkpointInterval :: u64 where "apos_checkpointInterval = 2048"
definition epochLength :: u64 where "epochLength = 30000"
definition mergeSignMinTime :: u64 where "mergeSignMinTime = 4"

record poa_lib =
  poa_hashes :: lib
  poa_curve :: curve
  header_hash :: "Header \<Rightarrow> hash"
  arc_Add :: "hash \<Rightarrow> VoteSnapshot \<Rightarrow> (hash \<rightharpoonup> VoteSnapshot) \<Rightarrow> (hash \<rightharpoonup> VoteSnapshot)"
  time_Now :: u64

record ChainHeaderReader =
  chain_GetHeader :: "hash \<Rightarrow> u256 \<Rightarrow> Header option"
  chain_GetHeaderByNumber :: "u256 \<Rightarrow> Header option"

text \<open>The proposals are listed in the order in which the map is enumerated. The interval at which
  snapshots are written to the database is a constant of the engine.\<close>

record Apoa =
  c_Period :: u64
  c_Epoch :: u64
  c_recents :: "hash \<rightharpoonup> VoteSnapshot"
  c_disk :: "hash \<rightharpoonup> VoteSnapshot"
  c_proposals :: "(address \<times> bool) list"
  c_signer :: address
  fakeDiff :: bool
  c_interval :: u64

definition NewApoa :: "u64 \<Rightarrow> u64 \<Rightarrow> (hash \<rightharpoonup> VoteSnapshot) \<Rightarrow> Apoa" where
  "NewApoa period epoch disk =
     \<lparr>c_Period = period, c_Epoch = (if epoch = 0 then epochLength else epoch), c_recents = Map.empty, c_disk = disk,
      c_proposals = [], c_signer = 0, fakeDiff = False, c_interval = checkpointInterval\<rparr>"

definition NewAPos :: "u64 \<Rightarrow> u64 \<Rightarrow> (hash \<rightharpoonup> VoteSnapshot) \<Rightarrow> Apoa" where
  "NewAPos period epoch disk = (NewApoa period epoch disk)\<lparr>c_interval := apos_checkpointInterval\<rparr>"

definition Authorize :: "address \<Rightarrow> Apoa \<Rightarrow> Apoa" where
  "Authorize a c = c\<lparr>c_signer := a\<rparr>"

definition Propose :: "address \<Rightarrow> bool \<Rightarrow> Apoa \<Rightarrow> Apoa" where
  "Propose a auth c = c\<lparr>c_proposals := AList.update a auth (c_proposals c)\<rparr>"

definition Discard :: "address \<Rightarrow> Apoa \<Rightarrow> Apoa" where
  "Discard a c = c\<lparr>c_proposals := AList.delete a (c_proposals c)\<rparr>"

definition Author :: "poa_lib \<Rightarrow> Header \<Rightarrow> (clique_error + address) res" where
  "Author P h = header_signer (poa_hashes P) (poa_curve P) h"

section \<open>Collecting a snapshot\<close>

text \<open>The signers a checkpoint lists in its extra data. The length is divided towards zero.\<close>

definition checkpoint_signers :: "bytes \<Rightarrow> address list res" where
  "checkpoint_signers extra =
     (if length extra + 20 \<le> extraVanity + extraSeal then Panic SliceBounds
      else Ok (map (\<lambda>i. BytesToAddress (take 20 (drop (extraVanity + i * 20) extra)))
                 [0..<(length extra - (extraVanity + extraSeal)) div 20]))"

definition trusted_checkpoint :: "ChainHeaderReader \<Rightarrow> u64 \<Rightarrow> u64 \<Rightarrow> nat \<Rightarrow> Header option res" where
  "trusted_checkpoint ch epoch number piled =
     (let h = chain_GetHeaderByNumber ch (ucast (number - 1))
      in if number = 0 then Ok (chain_GetHeaderByNumber ch 0)
         else if epoch = 0 then Panic DivideByZero
         else Ok (if number mod epoch = 0 \<and> (piled > FullImmutabilityThreshold \<or> h = None)
                  then chain_GetHeaderByNumber ch (ucast number) else None))"

text \<open>The next header on the way back, from the explicit parents or the database, with the parents that
  are left.\<close>

definition previous_header ::
  "poa_lib \<Rightarrow> ChainHeaderReader \<Rightarrow> u64 \<Rightarrow> hash \<Rightarrow> Header list \<Rightarrow> (clique_error + Header \<times> Header list) res" where
  "previous_header P ch number h parents =
     (if parents \<noteq> [] then
        let header = last parents
        in if header_hash P header \<noteq> h then Ok (Inl errUnknownBlock)
           else bnd (nonnil (h_Number header)) (\<lambda>n.
             if Uint64 n \<noteq> number then Ok (Inl errUnknownBlock) else Ok (Inr (header, butlast parents)))
      else
        (case chain_GetHeader ch h (ucast number) of
           None \<Rightarrow> Ok (Inl errUnknownBlock)
         | Some header \<Rightarrow> Ok (Inr (header, parents))))"

fun gather ::
  "nat \<Rightarrow> poa_lib \<Rightarrow> ChainHeaderReader \<Rightarrow> Apoa \<Rightarrow> u64 \<Rightarrow> hash \<Rightarrow> Header list \<Rightarrow> Header list
     \<Rightarrow> (Apoa \<times> (clique_error + VoteSnapshot \<times> Header list)) res" where
  "gather 0 P ch c number h parents headers = NoFuel"
| "gather (Suc fuel) P ch c number h parents headers =
     (case c_recents c h of
        Some s \<Rightarrow> Ok (c, Inr (s, headers))
      | None \<Rightarrow>
          (case (if number mod c_interval c = 0 then c_disk c h else None) of
             Some s \<Rightarrow> Ok (c, Inr (s, headers))
           | None \<Rightarrow>
               bnd (trusted_checkpoint ch (c_Epoch c) number (length headers)) (\<lambda>checkpoint.
               case checkpoint of
                 Some cp \<Rightarrow>
                   bnd (checkpoint_signers (h_Extra cp)) (\<lambda>signers.
                   let s = newSnapshot number (header_hash P cp) signers
                   in Ok (c\<lparr>c_disk := (c_disk c)(header_hash P cp \<mapsto> s)\<rparr>, Inr (s, headers)))
               | None \<Rightarrow>
                   bnd (previous_header P ch number h parents) (\<lambda>r. case r of
                     Inl e \<Rightarrow> Ok (c, Inl e)
                   | Inr (header, parents) \<Rightarrow>
                       gather fuel P ch c (number - 1) (h_ParentHash header) parents (headers @ [header])))))"

definition snapshot ::
  "nat \<Rightarrow> poa_lib \<Rightarrow> ChainHeaderReader \<Rightarrow> u64 \<Rightarrow> hash \<Rightarrow> Header list \<Rightarrow> Apoa \<Rightarrow> (Apoa \<times> (clique_error + VoteSnapshot)) res" where
  "snapshot fuel P ch number h parents c =
     bnd (gather fuel P ch c number h parents []) (\<lambda>(c, r). case r of
       Inl e \<Rightarrow> Ok (c, Inl e)
     | Inr (s, headers) \<Rightarrow>
         bnd (snap_apply (c_Epoch c) (Author P) (header_hash P) (rev headers) s) (\<lambda>r. case r of
           Inl e \<Rightarrow> Ok (c, Inl e)
         | Inr s \<Rightarrow>
             let c = c\<lparr>c_recents := arc_Add P (vs_Hash s) s (c_recents c)\<rparr>
             in Ok ((if vs_Number s mod c_interval c = 0 \<and> length headers > 0
                     then c\<lparr>c_disk := (c_disk c)(vs_Hash s \<mapsto> s)\<rparr> else c), Inr s)))"

section \<open>Verifying a header\<close>

text \<open>The checks of a header alone; the flag says whether the mix digest is looked at.\<close>

definition verify_fields :: "bool \<Rightarrow> u64 \<Rightarrow> u64 \<Rightarrow> Header \<Rightarrow> clique_error option res" where
  "verify_fields mix epoch now h =
     bnd (nonnil (h_Number h)) (\<lambda>num.
     let number = Uint64 num;
         checkpoint = (number mod epoch = 0);
         signersBytes = length (h_Extra h) - extraVanity - extraSeal
     in if num = 0 then Ok (Some errUnknownBlock)
        else if h_Time h > now then Ok (Some errFutureBlock)
        else if epoch = 0 then Panic DivideByZero
        else if checkpoint \<and> h_Coinbase h \<noteq> 0 then Ok (Some errInvalidCheckpointBeneficiary)
        else if h_Nonce h \<noteq> nonceAuthVote \<and> h_Nonce h \<noteq> nonceDropVote then Ok (Some errInvalidVote)
        else if checkpoint \<and> h_Nonce h \<noteq> nonceDropVote then Ok (Some errInvalidCheckpointVote)
        else if length (h_Extra h) < extraVanity then Ok (Some errMissingVanity)
        else if length (h_Extra h) < extraVanity + extraSeal then Ok (Some errMissingSignature)
        else if \<not> checkpoint \<and> signersBytes \<noteq> 0 then Ok (Some errExtraSigners)
        else if checkpoint \<and> signersBytes mod 20 \<noteq> 0 then Ok (Some errInvalidCheckpointSigners)
        else if mix \<and> h_MixDigest h \<noteq> 0 then Ok (Some errInvalidMixDigest)
        else
          bnd (if number > 0 then bnd (nonnil (h_Difficulty h)) (\<lambda>d. Ok (d = 0 \<or> d \<noteq> diffInTurn \<and> d \<noteq> diffNoTurn)) else Ok False)
            (\<lambda>bad. if bad then Ok (Some errInvalidDifficulty)
                   else if h_GasLimit h > MaxGasLimit then Ok (Some errInvalidGasLimit)
                   else Ok None))"

definition verifySeal :: "poa_lib \<Rightarrow> bool \<Rightarrow> VoteSnapshot \<Rightarrow> Header \<Rightarrow> clique_error option res" where
  "verifySeal P fake s h =
     bnd (nonnil (h_Number h)) (\<lambda>num.
     let number = Uint64 num
     in if number = 0 then Ok (Some errUnknownBlock)
        else bnd (Author P h) (\<lambda>r. case r of
          Inl e \<Rightarrow> Ok (Some e)
        | Inr signer \<Rightarrow>
            if signer \<notin> Signers s then Ok (Some errUnauthorizedSigner)
            else if list_ex (\<lambda>(seen, recent). recent = signer \<and> seen > number - signer_limit s) (Recents s)
              then Ok (Some errRecentlySigned)
            else if fake then Ok None
            else bnd (inturn number signer s) (\<lambda>turn. bnd (nonnil (h_Difficulty h)) (\<lambda>d.
              Ok (if d \<noteq> (if turn then diffInTurn else diffNoTurn) then Some errWrongDifficulty else None)))))"

definition checkpoint_matches :: "VoteSnapshot \<Rightarrow> Header \<Rightarrow> bool res" where
  "checkpoint_matches s h =
     (if length (h_Extra h) < extraSeal then Panic SliceBounds
      else bnd (of_opt SliceBounds (slice (h_Extra h) extraVanity (length (h_Extra h) - extraSeal))) (\<lambda>b.
        Ok (b = concat (map address_bytes (snap_signers s)))))"

definition verifyCascadingFields ::
  "nat \<Rightarrow> poa_lib \<Rightarrow> ChainHeaderReader \<Rightarrow> (Header \<Rightarrow> Header \<Rightarrow> clique_error option res) \<Rightarrow> Header \<Rightarrow> Header list \<Rightarrow> Apoa
     \<Rightarrow> (Apoa \<times> clique_error option) res" where
  "verifyCascadingFields fuel P ch fees h parents c =
     bnd (nonnil (h_Number h)) (\<lambda>num.
     let number = Uint64 num
     in if number = 0 then Ok (c, None)
        else
          (case (if parents \<noteq> [] then Some (last parents) else chain_GetHeader ch (h_ParentHash h) (ucast (number - 1))) of
             None \<Rightarrow> Ok (c, Some errUnknownBlock)
           | Some parent \<Rightarrow>
               bnd (nonnil (h_Number parent)) (\<lambda>pnum.
               if Uint64 pnum \<noteq> number - 1 \<or> header_hash P parent \<noteq> h_ParentHash h then Ok (c, Some errUnknownBlock)
               else if h_Time parent + c_Period c > h_Time h then Ok (c, Some errInvalidTimestamp)
               else if h_GasUsed h > h_GasLimit h then Ok (c, Some errInvalidGasUsed)
               else bnd (fees parent h) (\<lambda>e. case e of
                 Some e \<Rightarrow> Ok (c, Some e)
               | None \<Rightarrow>
                   bnd (snapshot fuel P ch (number - 1) (h_ParentHash h) parents c) (\<lambda>(c, r). case r of
                     Inl e \<Rightarrow> Ok (c, Some e)
                   | Inr s \<Rightarrow>
                       if c_Epoch c = 0 then Panic DivideByZero
                       else bnd (if number mod c_Epoch c = 0 then checkpoint_matches s h else Ok True) (\<lambda>ok.
                         if \<not> ok then Ok (c, Some errMismatchingCheckpointSigners)
                         else bnd (verifySeal P (fakeDiff c) s h) (\<lambda>e. Ok (c, e))))))))"

definition verifyHeader ::
  "nat \<Rightarrow> poa_lib \<Rightarrow> ChainHeaderReader \<Rightarrow> Header \<Rightarrow> Header list \<Rightarrow> Apoa \<Rightarrow> (Apoa \<times> clique_error option) res" where
  "verifyHeader fuel P ch h parents c =
     bnd (verify_fields True (c_Epoch c) (time_Now P) h) (\<lambda>e. case e of
       Some e \<Rightarrow> Ok (c, Some e)
     | None \<Rightarrow> verifyCascadingFields fuel P ch (\<lambda>parent header. Ok None) h parents c)"

text \<open>The variant of APOS: no mix digest, and the gas limit and the base fee against the parent.\<close>

definition apos_fees :: "ChainConfig \<Rightarrow> Header \<Rightarrow> Header \<Rightarrow> clique_error option res" where
  "apos_fees cc parent h =
     bnd (nonnil (h_Number h)) (\<lambda>num.
     if \<not> cfg_IsLondon cc (Uint64 num) then
       if h_BaseFee h \<noteq> None then Ok (Some errInvalidBaseFee)
       else Ok (map_option errFees (VerifyGaslimit (h_GasLimit parent) (h_GasLimit h)))
     else bnd (VerifyEip1559Header cc parent h) (\<lambda>e. Ok (map_option errFees e)))"

definition apos_verifyHeader ::
  "nat \<Rightarrow> poa_lib \<Rightarrow> ChainHeaderReader \<Rightarrow> ChainConfig \<Rightarrow> Header \<Rightarrow> Header list \<Rightarrow> Apoa \<Rightarrow> (Apoa \<times> clique_error option) res" where
  "apos_verifyHeader fuel P ch cc h parents c =
     bnd (verify_fields False (c_Epoch c) (time_Now P) h) (\<lambda>e. case e of
       Some e \<Rightarrow> Ok (c, Some e)
     | None \<Rightarrow> verifyCascadingFields fuel P ch (apos_fees cc) h parents c)"

fun verify_batch ::
  "nat \<Rightarrow> poa_lib \<Rightarrow> ChainHeaderReader \<Rightarrow> Header list \<Rightarrow> Header list \<Rightarrow> Apoa \<Rightarrow> (Apoa \<times> clique_error option list) res" where
  "verify_batch fuel P ch seen [] c = Ok (c, [])"
| "verify_batch fuel P ch seen (h # hs) c =
     bnd (verifyHeader fuel P ch h seen c) (\<lambda>(c, e).
     bnd (verify_batch fuel P ch (seen @ [h]) hs c) (\<lambda>(c, es). Ok (c, e # es)))"

definition VerifyHeaders :: "nat \<Rightarrow> poa_lib \<Rightarrow> ChainHeaderReader \<Rightarrow> Header list \<Rightarrow> Apoa \<Rightarrow> (Apoa \<times> clique_error option list) res" where
  "VerifyHeaders fuel P ch hs c = verify_batch fuel P ch [] hs c"

section \<open>Preparing and sealing\<close>

text \<open>The vote of the next block: one of the proposals that make sense, chosen by a random number.\<close>

definition choose_vote :: "nat \<Rightarrow> (address \<times> bool) list \<Rightarrow> VoteSnapshot \<Rightarrow> Header \<Rightarrow> Header" where
  "choose_vote rand proposals s h =
     (let addresses = map fst (filter (\<lambda>(a, auth). validVote a auth s) proposals)
      in if length addresses > 0 then
           let a = addresses ! (rand mod length addresses)
           in h\<lparr>h_Coinbase := a, h_Nonce := (if map_of proposals a = Some True then nonceAuthVote else nonceDropVote)\<rparr>
         else h)"

definition prepare_extra :: "bool \<Rightarrow> VoteSnapshot \<Rightarrow> bytes \<Rightarrow> bytes" where
  "prepare_extra checkpoint s extra =
     take extraVanity (extra @ replicate (extraVanity - length extra) 0)
     @ (if checkpoint then concat (map address_bytes (snap_signers s)) else []) @ replicate extraSeal 0"

text \<open>The fields that depend on the snapshot.\<close>

definition prepare_fields :: "nat \<Rightarrow> u64 \<Rightarrow> Apoa \<Rightarrow> VoteSnapshot \<Rightarrow> Header \<Rightarrow> Header res" where
  "prepare_fields rand number c s h =
     (if c_Epoch c = 0 then Panic DivideByZero
      else
        let h = (if number mod c_Epoch c \<noteq> 0 then choose_vote rand (c_proposals c) s h else h)
        in bnd (calcDifficulty s (c_signer c)) (\<lambda>d.
           Ok (h\<lparr>h_Difficulty := Some d, h_Extra := prepare_extra (number mod c_Epoch c = 0) s (h_Extra h), h_MixDigest := 0\<rparr>)))"

text \<open>\<open>Prepare\<close> writes to the header also when it fails. The engines differ in the earliest time they
  allow and in the number of the parent: APOA subtracts one from the number of the header itself.\<close>

definition prepare_header ::
  "bool \<Rightarrow> u64 \<Rightarrow> nat \<Rightarrow> nat \<Rightarrow> poa_lib \<Rightarrow> ChainHeaderReader \<Rightarrow> Header \<Rightarrow> Apoa \<Rightarrow> (Apoa \<times> Header \<times> clique_error option) res" where
  "prepare_header in_place earliest rand fuel P ch h c =
     (let h = h\<lparr>h_Coinbase := 0, h_Nonce := 0\<rparr>
      in bnd (nonnil (h_Number h)) (\<lambda>num.
         let number = Uint64 num
         in bnd (snapshot fuel P ch (number - 1) (h_ParentHash h) [] c) (\<lambda>(c, r). case r of
              Inl e \<Rightarrow> Ok (c, h, Some e)
            | Inr s \<Rightarrow>
                bnd (prepare_fields rand number c s h) (\<lambda>h.
                let h = (if in_place then h\<lparr>h_Number := Some (num - 1)\<rparr> else h)
                in case chain_GetHeader ch (h_ParentHash h) (num - 1) of
                     None \<Rightarrow> Ok (c, h, Some errUnknownAncestor)
                   | Some parent \<Rightarrow>
                       Ok (c, h\<lparr>h_Time := max (h_Time parent + c_Period c) earliest\<rparr>, None)))))"

definition Prepare ::
  "nat \<Rightarrow> nat \<Rightarrow> poa_lib \<Rightarrow> ChainHeaderReader \<Rightarrow> Header \<Rightarrow> Apoa \<Rightarrow> (Apoa \<times> Header \<times> clique_error option) res" where
  "Prepare rand fuel P = prepare_header True (time_Now P) rand fuel P"

definition apos_Prepare ::
  "nat \<Rightarrow> nat \<Rightarrow> poa_lib \<Rightarrow> ChainHeaderReader \<Rightarrow> Header \<Rightarrow> Apoa \<Rightarrow> (Apoa \<times> Header \<times> clique_error option) res" where
  "apos_Prepare rand fuel P = prepare_header False (time_Now P + mergeSignMinTime) rand fuel P"

text \<open>Sealing: the header with the signature in its extra data, which is sent once the time of the header
  has come. The waiting is not modelled.\<close>

definition may_seal :: "u64 \<Rightarrow> address \<Rightarrow> VoteSnapshot \<Rightarrow> clique_error option" where
  "may_seal number signer s =
     (if signer \<notin> Signers s then Some errUnauthorizedSigner
      else if list_ex (\<lambda>(seen, recent). recent = signer \<and> (number < signer_limit s \<or> seen > number - signer_limit s)) (Recents s)
        then Some errRecentlySigned
      else None)"

definition Seal ::
  "nat \<Rightarrow> poa_lib \<Rightarrow> ChainHeaderReader \<Rightarrow> (address \<Rightarrow> bytes \<Rightarrow> bytes option) \<Rightarrow> Header \<Rightarrow> Transaction list \<Rightarrow> Apoa
     \<Rightarrow> (Apoa \<times> (clique_error + Header)) res" where
  "Seal fuel P ch signFn h txs c =
     bnd (nonnil (h_Number h)) (\<lambda>num.
     let number = Uint64 num
     in if number = 0 then Ok (c, Inl errUnknownBlock)
        else if c_Period c = 0 \<and> length txs = 0 then Ok (c, Inl errSealingPaused)
        else bnd (snapshot fuel P ch (number - 1) (h_ParentHash h) [] c) (\<lambda>(c, r). case r of
          Inl e \<Rightarrow> Ok (c, Inl e)
        | Inr s \<Rightarrow>
            (case may_seal number (c_signer c) s of
               Some e \<Rightarrow> Ok (c, Inl e)
             | None \<Rightarrow>
                 bnd (nonnil (h_Difficulty h)) (\<lambda>_.
                 bnd (encodeSigHeader h) (\<lambda>msg.
                 case signFn (c_signer c) msg of
                   None \<Rightarrow> Ok (c, Inl errSignFailed)
                 | Some sig \<Rightarrow>
                     if length (h_Extra h) < extraSeal then Panic SliceBounds
                     else Ok (c, Inr (h\<lparr>h_Extra := copy_at (h_Extra h) (length (h_Extra h) - extraSeal) extraSeal sig\<rparr>)))))))"

definition CalcDifficulty :: "nat \<Rightarrow> poa_lib \<Rightarrow> ChainHeaderReader \<Rightarrow> Header \<Rightarrow> Apoa \<Rightarrow> (Apoa \<times> u256) res" where
  "CalcDifficulty fuel P ch parent c =
     bnd (nonnil (h_Number parent)) (\<lambda>num.
     bnd (snapshot fuel P ch (Uint64 num) (header_hash P parent) [] c) (\<lambda>(c, r). case r of
       Inl e \<Rightarrow> Ok (c, 0)
     | Inr s \<Rightarrow> bnd (calcDifficulty s (c_signer c)) (\<lambda>d. Ok (c, d))))"

end
