(* ===== verification/CliqueProps.thy ===== *)
theory CliqueProps
  imports Authority RlpProps
begin

text \<open>Voting on the signers: the tallies of a snapshot are the recount of its votes, the signers change
  by majority, and no signer signs twice within the limit.\<close>

section \<open>Recounting\<close>

definition votes_on :: "address \<Rightarrow> Vote list \<Rightarrow> Vote list" where
  "votes_on a vs = filter (\<lambda>v. vote_Address v = a) vs"

definition recount :: "address set \<Rightarrow> Vote list \<Rightarrow> address \<rightharpoonup> Tally" where
  "recount S vs = (\<lambda>a. if votes_on a vs = [] then None
     else Some \<lparr>tally_Authorize = (a \<notin> S), tally_Votes = int (length (votes_on a vs))\<rparr>)"

definition sound_vote :: "address set \<Rightarrow> Vote \<Rightarrow> bool" where
  "sound_vote S v \<longleftrightarrow> vote_Signer v \<in> S \<and> vote_Authorize v = (vote_Address v \<notin> S)"

definition ballot :: "Vote \<Rightarrow> address \<times> address" where
  "ballot v = (vote_Signer v, vote_Address v)"

definition snap_ok :: "VoteSnapshot \<Rightarrow> bool" where
  "snap_ok s \<longleftrightarrow> finite (Signers s) \<and> distinct (map ballot (Votes s)) \<and> list_all (sound_vote (Signers s)) (Votes s) \<and>
     Tallies s = recount (Signers s) (Votes s) \<and> distinct (map fst (Recents s)) \<and> distinct (map snd (Recents s))"

lemma votes_on_simps [simp]:
  "votes_on a [] = []"
  "votes_on a (v # vs) = (if vote_Address v = a then v # votes_on a vs else votes_on a vs)"
  "votes_on a (vs @ ws) = votes_on a vs @ votes_on a ws"
  by (simp_all add: votes_on_def)

lemma recount_eq:
  "recount S vs a = (if votes_on a vs = [] then None
     else Some \<lparr>tally_Authorize = (a \<notin> S), tally_Votes = int (length (votes_on a vs))\<rparr>)"
  by (simp add: recount_def)

lemma uncast_recount:
  assumes "Tallies s = recount S (pre @ v # post)" and "vote_Authorize v = (vote_Address v \<notin> S)"
  shows "fst (uncast (vote_Address v) (vote_Authorize v) s) = s\<lparr>Tallies := recount S (pre @ post)\<rparr>"
proof -
  define a where "a = vote_Address v"
  have c: "length (votes_on a (pre @ v # post)) = Suc (length (votes_on a (pre @ post)))" by (simp add: a_def)
  have other: "(recount S (pre @ v # post))(a := recount S (pre @ post) a) = recount S (pre @ post)"
    by (rule ext) (simp add: a_def recount_eq)
  have t: "Tallies s a = Some \<lparr>tally_Authorize = (a \<notin> S), tally_Votes = int (Suc (length (votes_on a (pre @ post))))\<rparr>"
    unfolding assms(1) recount_eq c by (simp add: a_def)
  show ?thesis
  proof (cases "votes_on a (pre @ post) = []")
    case True
    then show ?thesis using t other assms(1,2) unfolding a_def [symmetric] uncast_def by (simp add: recount_eq [of S "pre @ post" a] del: votes_on_simps)
  next
    case False
    then have "length (votes_on a (pre @ post)) > 0" by simp
    then show ?thesis using t other assms(1,2) False unfolding a_def [symmetric] uncast_def by (simp add: recount_eq [of S "pre @ post" a] del: votes_on_simps)
  qed
qed

lemma uncast_frame [simp]:
  "Signers (fst (uncast a b s)) = Signers s" "Recents (fst (uncast a b s)) = Recents s" "Votes (fst (uncast a b s)) = Votes s"
  "vs_Number (fst (uncast a b s)) = vs_Number s" "vs_Hash (fst (uncast a b s)) = vs_Hash s"
  by (auto simp: uncast_def split: option.split)

lemma discard_cast_by_recount:
  assumes "Tallies s = recount S (pre @ vs)" and "list_all (\<lambda>v. vote_Authorize v = (vote_Address v \<notin> S)) vs"
  shows "discard_cast_by a pre vs s =
    s\<lparr>Votes := pre @ filter (\<lambda>v. vote_Signer v \<noteq> a) vs, Tallies := recount S (pre @ filter (\<lambda>v. vote_Signer v \<noteq> a) vs)\<rparr>"
  using assms
proof (induction vs arbitrary: pre s)
  case Nil
  then show ?case by simp
next
  case (Cons v vs)
  show ?case
  proof (cases "vote_Signer v = a")
    case True
    have "fst (uncast (vote_Address v) (vote_Authorize v) s) = s\<lparr>Tallies := recount S (pre @ vs)\<rparr>"
      using Cons.prems by (intro uncast_recount) simp_all
    then show ?thesis using True Cons.prems Cons.IH [of "s\<lparr>Tallies := recount S (pre @ vs)\<rparr>" pre] by simp
  next
    case False
    then show ?thesis using Cons.prems Cons.IH [of s "pre @ [v]"] by simp
  qed
qed

lemma discard_about_filter: "discard_about a vs = filter (\<lambda>v. vote_Address v \<noteq> a) vs"
  by (induction vs) simp_all

text \<open>The vote of the same ballot is dropped; without one nothing changes.\<close>

lemma discard_previous_recount:
  assumes "Tallies s = recount S (pre @ vs)" and "list_all (\<lambda>v. vote_Authorize v = (vote_Address v \<notin> S)) vs"
    and "distinct (map ballot vs)" and "Votes s = pre @ vs"
  shows "discard_previous x a pre vs s =
    s\<lparr>Votes := pre @ filter (\<lambda>v. ballot v \<noteq> (x, a)) vs, Tallies := recount S (pre @ filter (\<lambda>v. ballot v \<noteq> (x, a)) vs)\<rparr>"
  using assms
proof (induction vs arbitrary: pre)
  case Nil
  then show ?case by simp
next
  case (Cons v vs)
  show ?case
  proof (cases "ballot v = (x, a)")
    case True
    have u: "fst (uncast (vote_Address v) (vote_Authorize v) s) = s\<lparr>Tallies := recount S (pre @ vs)\<rparr>"
      using Cons.prems by (intro uncast_recount) simp_all
    have "filter (\<lambda>v. ballot v \<noteq> (x, a)) vs = vs" using Cons.prems(3) True by (intro filter_True) force
    then show ?thesis using True u by (simp add: ballot_def)
  next
    case False
    then show ?thesis using Cons.prems Cons.IH [of "pre @ [v]"] by (auto simp: ballot_def)
  qed
qed

section \<open>Applying a header\<close>

lemma clear_votes_frame [simp]:
  "Signers (clear_votes e n s) = Signers s" "Recents (clear_votes e n s) = Recents s"
  by (simp_all add: clear_votes_def)

lemma forget_recent_frame [simp]:
  "Signers (forget_recent n s) = Signers s" "Votes (forget_recent n s) = Votes s" "Tallies (forget_recent n s) = Tallies s"
  by (simp_all add: forget_recent_def)

lemma distinct_snd_delete: "distinct (map snd al) \<Longrightarrow> distinct (map snd (AList.delete k al))"
  by (simp add: AList.delete_eq distinct_map_filter)

lemma update_fresh:
  "v \<notin> snd ` set al \<Longrightarrow> distinct (map snd al) \<Longrightarrow> distinct (map snd (AList.update k v al)) \<and> snd ` set (AList.update k v al) \<subseteq> insert v (snd ` set al)"
  by (induction al) (auto split: if_splits)

lemma snap_ok_forget: "snap_ok s \<Longrightarrow> snap_ok (forget_recent n s)"
  by (simp add: snap_ok_def forget_recent_def distinct_delete distinct_snd_delete)

lemma snap_ok_clear: "snap_ok s \<Longrightarrow> snap_ok (clear_votes e n s)"
  by (simp add: snap_ok_def clear_votes_def recount_def)

lemma snap_ok_sign: "snap_ok s \<Longrightarrow> x \<notin> snd ` set (Recents s) \<Longrightarrow> snap_ok (s\<lparr>Recents := AList.update n x (Recents s)\<rparr>)"
  by (simp add: snap_ok_def distinct_update update_fresh)

lemma sound_votes: "list_all (sound_vote S) vs \<Longrightarrow> list_all (\<lambda>v. vote_Authorize v = (vote_Address v \<notin> S)) vs"
  by (simp add: list_all_iff sound_vote_def)

lemma sound_filter: "list_all P vs \<Longrightarrow> list_all P (filter Q vs)"
  by (simp add: list_all_iff)

lemma discard_previous_ok:
  assumes "snap_ok s"
  shows "discard_previous x a [] (Votes s) s =
    s\<lparr>Votes := filter (\<lambda>v. ballot v \<noteq> (x, a)) (Votes s), Tallies := recount (Signers s) (filter (\<lambda>v. ballot v \<noteq> (x, a)) (Votes s))\<rparr>"
  using assms discard_previous_recount [of s "Signers s" "[]" "Votes s" x a] by (simp add: snap_ok_def sound_votes)

lemma snap_ok_filter:
  "snap_ok s \<Longrightarrow> snap_ok (s\<lparr>Votes := filter P (Votes s), Tallies := recount (Signers s) (filter P (Votes s))\<rparr>)"
  by (simp add: snap_ok_def distinct_map_filter sound_filter)

lemma tally_vote_frame [simp]: "Signers (tally_vote n x a b s) = Signers s" "Recents (tally_vote n x a b s) = Recents s"
  by (simp_all add: tally_vote_def cast_def)

lemma tally_vote_votes:
  "Votes (tally_vote n x a b s) =
     Votes s @ (if validVote a b s then [\<lparr>vote_Signer = x, vote_Block = n, vote_Address = a, vote_Authorize = b\<rparr>] else [])"
  by (simp add: tally_vote_def cast_def)

lemma snap_ok_tally:
  assumes "snap_ok s" and "x \<in> Signers s" and "(x, a) \<notin> ballot ` set (Votes s)"
  shows "snap_ok (tally_vote n x a b s)"
proof (cases "validVote a b s")
  case True
  define v where "v = \<lparr>vote_Signer = x, vote_Block = n, vote_Address = a, vote_Authorize = b\<rparr>"
  have b: "b = (a \<notin> Signers s)" using True by (auto simp: validVote_def)
  have "Tallies (tally_vote n x a b s) = recount (Signers s) (Votes s @ [v])"
    using True assms(1) by (auto simp: tally_vote_def cast_def snap_ok_def recount_def v_def b)
  then show ?thesis using assms True
    by (simp add: snap_ok_def tally_vote_votes v_def [symmetric]) (simp add: v_def ballot_def sound_vote_def b)
next
  case False
  then show ?thesis using assms(1) by (simp add: tally_vote_def cast_def)
qed

text \<open>What passing a vote does.\<close>

definition passes :: "address \<Rightarrow> VoteSnapshot \<Rightarrow> bool" where
  "passes a s \<longleftrightarrow> length (votes_on a (Votes s)) > card (Signers s) div 2"

definition toggle :: "address \<Rightarrow> address set \<Rightarrow> address set" where
  "toggle a S = (if a \<in> S then S - {a} else insert a S)"

lemma recount_other: "(\<And>x. x \<noteq> a \<Longrightarrow> (x \<in> S) = (x \<in> S')) \<Longrightarrow>
    (recount S vs)(a := None) = recount S' (filter (\<lambda>v. vote_Address v \<noteq> a) vs)"
proof (rule ext)
  fix x
  assume S: "\<And>x. x \<noteq> a \<Longrightarrow> (x \<in> S) = (x \<in> S')"
  have "votes_on x (filter (\<lambda>v. vote_Address v \<noteq> a) vs) = (if x = a then [] else votes_on x vs)"
    by (induction vs) auto
  then show "((recount S vs)(a := None)) x = recount S' (filter (\<lambda>v. vote_Address v \<noteq> a) vs) x"
    using S [of x] by (simp add: recount_eq)
qed

lemma settle_ok:
  assumes "snap_ok s"
  shows "snap_ok (settle n a s) \<and> Signers (settle n a s) = (if passes a s then toggle a (Signers s) else Signers s)"
proof (cases "passes a s")
  case False
  then show ?thesis using assms by (auto simp: settle_def snap_ok_def recount_eq passes_def)
next
  case True
  define vs where "vs = (if a \<in> Signers s then filter (\<lambda>v. vote_Signer v \<noteq> a) (Votes s) else Votes s)"
  define base where "base = (if a \<in> Signers s then forget_recent n (s\<lparr>Signers := toggle a (Signers s)\<rparr>) else s\<lparr>Signers := toggle a (Signers s)\<rparr>)"
  have t: "Tallies s a = Some \<lparr>tally_Authorize = (a \<notin> Signers s), tally_Votes = int (length (votes_on a (Votes s)))\<rparr>"
    using assms True by (auto simp: snap_ok_def passes_def recount_eq)
  have "settle n a s = base\<lparr>Votes := filter (\<lambda>v. vote_Address v \<noteq> a) vs, Tallies := (recount (Signers s) vs)(a := None)\<rparr>"
  proof (cases "a \<in> Signers s")
    case True
    have "discard_cast_by a [] (Votes s) base =
        base\<lparr>Votes := filter (\<lambda>v. vote_Signer v \<noteq> a) (Votes s), Tallies := recount (Signers s) (filter (\<lambda>v. vote_Signer v \<noteq> a) (Votes s))\<rparr>"
      using assms True discard_cast_by_recount [of base "Signers s" "[]" "Votes s" a]
      by (simp add: base_def snap_ok_def sound_votes)
    with True \<open>passes a s\<close> t show ?thesis
      by (simp add: settle_def passes_def discard_about_filter vs_def base_def toggle_def Let_def)
  next
    case False
    with \<open>passes a s\<close> t assms show ?thesis
      by (simp add: settle_def passes_def discard_about_filter vs_def base_def toggle_def Let_def snap_ok_def)
  qed
  moreover have "(recount (Signers s) vs)(a := None) = recount (toggle a (Signers s)) (filter (\<lambda>v. vote_Address v \<noteq> a) vs)"
    by (rule recount_other) (simp add: toggle_def)
  moreover have "list_all (sound_vote (toggle a (Signers s))) (filter (\<lambda>v. vote_Address v \<noteq> a) vs)"
    using assms by (auto simp: snap_ok_def vs_def list_all_iff sound_vote_def toggle_def)
  ultimately show ?thesis using assms True
    by (auto simp: snap_ok_def base_def vs_def toggle_def distinct_map_filter forget_recent_def distinct_delete distinct_snd_delete)
qed

text \<open>The snapshot a header is counted on: recents and votes are cleaned, and the signer is recorded.\<close>

definition signed_by :: "u64 \<Rightarrow> u64 \<Rightarrow> address \<Rightarrow> address \<Rightarrow> VoteSnapshot \<Rightarrow> VoteSnapshot" where
  "signed_by epoch n x a s =
     (let s = forget_recent n (clear_votes epoch n s);
          vs = filter (\<lambda>v. ballot v \<noteq> (x, a)) (Votes s)
      in s\<lparr>Recents := AList.update n x (Recents s), Votes := vs, Tallies := recount (Signers s) vs\<rparr>)"

lemma apply_header_elim:
  assumes "apply_header epoch rec h s = Ok (Inr s')" and "snap_ok s"
  obtains num x b where "h_Number h = Some num" "epoch \<noteq> 0" "rec h = Ok (Inr x)" "x \<in> Signers s"
    "x \<notin> snd ` set (Recents (forget_recent (Uint64 num) s))" "nonce_vote (h_Nonce h) = Some b"
    "s' = settle (Uint64 num) (h_Coinbase h) (tally_vote (Uint64 num) x (h_Coinbase h) b (signed_by epoch (Uint64 num) x (h_Coinbase h) s))"
proof -
  obtain num where num: "h_Number h = Some num" using assms(1) by (cases "h_Number h") (auto simp: apply_header_def)
  define s1 where "s1 = forget_recent (Uint64 num) (clear_votes epoch (Uint64 num) s)"
  obtain x where x: "epoch \<noteq> 0" "rec h = Ok (Inr x)" "x \<in> Signers s1" "x \<notin> snd ` set (Recents s1)"
    using assms(1) num unfolding s1_def apply_header_def by (auto simp: Let_def bnd_Inr split: if_splits)
  define s2 where "s2 = s1\<lparr>Recents := AList.update (Uint64 num) x (Recents s1)\<rparr>"
  have ok: "snap_ok s2" using assms(2) x(4) unfolding s2_def s1_def by (intro snap_ok_sign snap_ok_forget snap_ok_clear)
  obtain b where b: "nonce_vote (h_Nonce h) = Some b"
    "s' = settle (Uint64 num) (h_Coinbase h) (tally_vote (Uint64 num) x (h_Coinbase h) b (discard_previous x (h_Coinbase h) [] (Votes s2) s2))"
    using assms(1) num x unfolding s2_def s1_def apply_header_def by (auto simp: Let_def bnd_Inr split: if_splits option.splits)
  have "discard_previous x (h_Coinbase h) [] (Votes s2) s2 = signed_by epoch (Uint64 num) x (h_Coinbase h) s"
    unfolding discard_previous_ok [OF ok] by (simp add: signed_by_def s2_def s1_def Let_def)
  moreover have "Recents s1 = Recents (forget_recent (Uint64 num) s)" by (simp add: s1_def forget_recent_def signer_limit_def)
  ultimately show thesis using that num x b by (simp add: s1_def)
qed

lemma signed_by_ok:
  assumes "snap_ok s" and "x \<notin> snd ` set (Recents (forget_recent n s))"
  shows "snap_ok (signed_by epoch n x a s) \<and> Signers (signed_by epoch n x a s) = Signers s \<and>
    Recents (signed_by epoch n x a s) = AList.update n x (Recents (forget_recent n s)) \<and>
    (x, a) \<notin> ballot ` set (Votes (signed_by epoch n x a s)) \<and> set (Votes (signed_by epoch n x a s)) \<subseteq> set (Votes s)"
proof -
  define s1 where "s1 = forget_recent n (clear_votes epoch n s)"
  have r: "Recents s1 = Recents (forget_recent n s)" by (simp add: s1_def forget_recent_def signer_limit_def)
  have "snap_ok (s1\<lparr>Recents := AList.update n x (Recents s1)\<rparr>)"
    using assms r unfolding s1_def by (intro snap_ok_sign snap_ok_forget snap_ok_clear) simp_all
  then have "snap_ok (signed_by epoch n x a s)"
    using snap_ok_filter [of "s1\<lparr>Recents := AList.update n x (Recents s1)\<rparr>" "\<lambda>v. ballot v \<noteq> (x, a)"]
    by (simp add: signed_by_def s1_def Let_def)
  then show ?thesis using r by (auto simp: signed_by_def s1_def Let_def clear_votes_def)
qed

lemma discard_cast_by_votes: "set (Votes (discard_cast_by a pre vs s)) \<subseteq> set pre \<union> set vs"
  by (induction vs arbitrary: pre s) (fastforce split: if_splits)+

lemma settle_votes: "set (Votes (settle n a s)) \<subseteq> set (Votes s)"
proof -
  have d: "set (Votes (discard_cast_by a [] (Votes s) t)) \<subseteq> set (Votes s)" for t
    using discard_cast_by_votes [of a "[]" "Votes s" t] by simp
  show ?thesis using d [THEN subsetD]
    by (auto simp: settle_def Let_def discard_about_filter split: option.split if_splits)
qed

section \<open>Chains of headers\<close>

lemma apply_header_ok: "apply_header epoch rec h s = Ok (Inr s') \<Longrightarrow> snap_ok s \<Longrightarrow> snap_ok s'"
  using settle_ok snap_ok_tally signed_by_ok by (elim apply_header_elim) metis+

lemma apply_headers_ok: "apply_headers epoch rec hs s = Ok (Inr s') \<Longrightarrow> snap_ok s \<Longrightarrow> snap_ok s'"
  by (induction hs arbitrary: s) (auto simp: bnd_Inr dest: apply_header_ok)

lemma snap_ok_new [simp]: "snap_ok (newSnapshot n hh sg)"
  by (simp add: snap_ok_def newSnapshot_def recount_def)

lemma apply_headers_snoc:
  "apply_headers epoch rec (hs @ [h]) s = Ok (Inr s') \<longleftrightarrow>
     (\<exists>t. apply_headers epoch rec hs s = Ok (Inr t) \<and> apply_header epoch rec h t = Ok (Inr s'))"
  by (induction hs arbitrary: s) (auto simp: bnd_Inr)

lemma apply_headers_append:
  "apply_headers epoch rec (hs @ hs') s = Ok (Inr s') \<longleftrightarrow>
     (\<exists>t. apply_headers epoch rec hs s = Ok (Inr t) \<and> apply_headers epoch rec hs' t = Ok (Inr s'))"
  by (induction hs arbitrary: s) (auto simp: bnd_Inr)

text \<open>A vote of a snapshot was cast by a header of the chain.\<close>

definition casts :: "(Header \<Rightarrow> (clique_error + address) res) \<Rightarrow> Header \<Rightarrow> address \<Rightarrow> address \<Rightarrow> bool \<Rightarrow> bool" where
  "casts rec h x a b \<longleftrightarrow> rec h = Ok (Inr x) \<and> h_Coinbase h = a \<and> nonce_vote (h_Nonce h) = Some b"

definition backed :: "(Header \<Rightarrow> (clique_error + address) res) \<Rightarrow> Header list \<Rightarrow> Vote \<Rightarrow> bool" where
  "backed rec hs v \<longleftrightarrow> list_ex (\<lambda>h. casts rec h (vote_Signer v) (vote_Address v) (vote_Authorize v)) hs"

lemma backed_mono: "backed rec hs v \<Longrightarrow> backed rec (hs @ hs') v"
  by (simp add: backed_def)

text \<open>Before the vote of a header is settled: the snapshot is sound, its votes are backed and the signers
  are those of the parent.\<close>

lemma apply_header_votes:
  assumes "apply_header epoch rec h s = Ok (Inr s')" and "snap_ok s" and "list_all (backed rec hs) (Votes s)"
  obtains n t where "s' = settle n (h_Coinbase h) t" "snap_ok t" "Signers t = Signers s" "list_all (backed rec (hs @ [h])) (Votes t)"
proof -
  obtain num x b where h: "rec h = Ok (Inr x)" "x \<in> Signers s" "x \<notin> snd ` set (Recents (forget_recent (Uint64 num) s))"
    "nonce_vote (h_Nonce h) = Some b"
    "s' = settle (Uint64 num) (h_Coinbase h) (tally_vote (Uint64 num) x (h_Coinbase h) b (signed_by epoch (Uint64 num) x (h_Coinbase h) s))"
    using assms(1,2) by (rule apply_header_elim)
  define t where "t = signed_by epoch (Uint64 num) x (h_Coinbase h) s"
  have t: "snap_ok t" "Signers t = Signers s" "(x, h_Coinbase h) \<notin> ballot ` set (Votes t)" "set (Votes t) \<subseteq> set (Votes s)"
    using signed_by_ok [OF assms(2) h(3), of epoch "h_Coinbase h"] by (simp_all add: t_def)
  have "list_all (backed rec (hs @ [h])) (Votes t)" using t(4) assms(3) backed_mono by (fastforce simp: list_all_iff)
  moreover have "backed rec (hs @ [h]) \<lparr>vote_Signer = x, vote_Block = Uint64 num, vote_Address = h_Coinbase h, vote_Authorize = b\<rparr>"
    using h(1,4) by (simp add: backed_def casts_def)
  ultimately have "list_all (backed rec (hs @ [h])) (Votes (tally_vote (Uint64 num) x (h_Coinbase h) b t))"
    by (simp add: tally_vote_votes)
  then show thesis using that h(5) t h(2) snap_ok_tally [of t x "h_Coinbase h" "Uint64 num" b] by (simp add: t_def)
qed

lemma apply_headers_votes:
  "apply_headers epoch rec hs (newSnapshot n hh sg) = Ok (Inr s) \<Longrightarrow> list_all (backed rec hs) (Votes s)"
proof (induction hs arbitrary: s rule: rev_induct)
  case Nil
  then show ?case by (auto simp: newSnapshot_def)
next
  case (snoc h hs)
  then obtain t where t: "apply_headers epoch rec hs (newSnapshot n hh sg) = Ok (Inr t)" "apply_header epoch rec h t = Ok (Inr s)"
    by (auto simp: apply_headers_snoc)
  have "snap_ok t" using apply_headers_ok [OF t(1)] by simp
  then show ?case using apply_header_votes [OF t(2) _ snoc.IH [OF t(1)]] settle_votes
    by (metis list_all_iff subsetD)
qed

lemma distinct_voters:
  assumes "snap_ok s"
  shows "card (vote_Signer ` set (votes_on a (Votes s))) = length (votes_on a (Votes s))"
proof -
  have d: "distinct (map ballot (votes_on a (Votes s)))" using assms by (simp add: snap_ok_def votes_on_def distinct_map_filter)
  have "map ballot (votes_on a (Votes s)) = map (\<lambda>x. (x, a)) (map vote_Signer (votes_on a (Votes s)))"
    by (simp add: votes_on_def ballot_def)
  then have "distinct (map vote_Signer (votes_on a (Votes s)))" using d by (metis distinct_map)
  then show ?thesis by (metis distinct_card length_map set_map)
qed

section \<open>Properties\<close>

text \<open>C16. The tallies of a voting snapshot are exact. A fresh snapshot and every snapshot that \<open>apply\<close> makes of a
  sound one are sound: each tally is the number of recorded votes on its account, no signer has two
  votes on an account, every vote was cast by a current signer and would change the account, and no
  signer is twice among the recent ones.\<close>

theorem snapshot_tallies_exact:
  "snap_ok (newSnapshot n hh sg) \<and>
   (snap_ok s \<and> snap_apply epoch rec hash hs s = Ok (Inr s') \<longrightarrow> snap_ok s')"
proof -
  have "snap_ok s'" if ok: "snap_ok s" and ap: "snap_apply epoch rec hash hs s = Ok (Inr s')"
  proof (cases "hs = []")
    case False
    then obtain t where "apply_headers epoch rec hs s = Ok (Inr t)" "Signers s' = Signers t" "Votes s' = Votes t" "Tallies s' = Tallies t"
      "Recents s' = Recents t"
      using ap by (auto simp: snap_apply_def bnd_Inr bnd_eq_Ok [of "voting_chain hs"] bnd_eq_Ok [of "nonnil x" for x] split: if_splits)
    then show ?thesis using apply_headers_ok [OF _ ok] by (simp add: snap_ok_def)
  qed (use ok ap in \<open>simp add: snap_apply_def\<close>)
  then show ?thesis by simp
qed

text \<open>C14. The set of signers changes by majority only. Where a header changes the signers that earlier headers
  built from a trusted list, it adds or removes the account it names, and more than half of the
  current signers have signed headers of the chain that ask for exactly this change.\<close>

theorem signers_change_by_majority:
  assumes "apply_headers epoch rec hs (newSnapshot n hh sg) = Ok (Inr s)"
    and "apply_header epoch rec h s = Ok (Inr s')" and "Signers s' \<noteq> Signers s"
  shows "Signers s' = (if h_Coinbase h \<in> Signers s then Signers s - {h_Coinbase h} else insert (h_Coinbase h) (Signers s)) \<and>
    (\<exists>V \<subseteq> Signers s. card (Signers s) < 2 * card V \<and>
       (\<forall>x \<in> V. \<exists>h' \<in> set (hs @ [h]). rec h' = Ok (Inr x) \<and> h_Coinbase h' = h_Coinbase h \<and>
          nonce_vote (h_Nonce h') = Some (h_Coinbase h \<notin> Signers s)))"
proof -
  have ok: "snap_ok s" using apply_headers_ok [OF assms(1)] by simp
  obtain m t where t: "s' = settle m (h_Coinbase h) t" "snap_ok t" "Signers t = Signers s" "list_all (backed rec (hs @ [h])) (Votes t)"
    using apply_header_votes [OF assms(2) ok apply_headers_votes [OF assms(1)]] .
  define V where "V = vote_Signer ` set (votes_on (h_Coinbase h) (Votes t))"
  have p: "passes (h_Coinbase h) t" "Signers s' = toggle (h_Coinbase h) (Signers s)"
    using settle_ok [OF t(2)] assms(3) t(1,3) by (metis (full_types))+
  have "card (Signers s) < 2 * card V" using p(1) distinct_voters [OF t(2)] t(3) by (simp add: passes_def V_def)
  moreover have "V \<subseteq> Signers s" using t(2,3) by (auto simp: V_def votes_on_def snap_ok_def list_all_iff sound_vote_def)
  moreover have "\<exists>h' \<in> set (hs @ [h]). rec h' = Ok (Inr x) \<and> h_Coinbase h' = h_Coinbase h \<and>
      nonce_vote (h_Nonce h') = Some (h_Coinbase h \<notin> Signers s)" if x: "x \<in> V" for x
  proof -
    obtain v where v: "v \<in> set (Votes t)" "vote_Address v = h_Coinbase h" "vote_Signer v = x" using x by (auto simp: V_def votes_on_def)
    then have "vote_Authorize v = (h_Coinbase h \<notin> Signers s)" using t(2,3) by (auto simp: snap_ok_def list_all_iff sound_vote_def)
    then show ?thesis using v t(4) by (auto simp: list_all_iff list_ex_iff backed_def casts_def)
  qed
  ultimately show ?thesis using p(2) by (auto simp: toggle_def)
qed

section \<open>Recent signers\<close>

lemma delete_keeps: "(m, y) \<in> set al \<Longrightarrow> m \<noteq> k \<Longrightarrow> (m, y) \<in> set (AList.delete k al)"
  by (auto simp: AList.delete_eq)

lemma update_keeps: "(m, y) \<in> set al \<Longrightarrow> m \<noteq> k \<Longrightarrow> (m, y) \<in> set (AList.update k v al)"
  by (induction al) auto

lemma update_adds: "(k, v) \<in> set (AList.update k v al)"
  by (induction al) auto

lemma unat_signer_limit: "card (Signers s) < 2 ^ 64 \<Longrightarrow> unat (signer_limit s) = card (Signers s) div 2 + 1"
  unfolding signer_limit_def by (intro unat_of_nat64) simp

text \<open>An entry is kept while fewer than \<open>L\<close> blocks have passed.\<close>

lemma forget_keeps:
  assumes "(m, y) \<in> set (Recents s)" and "card (Signers s) < 2 ^ 64" and "L \<le> card (Signers s) div 2 + 1" and "unat n < unat m + L"
  shows "(m, y) \<in> set (Recents (forget_recent n s))"
proof (cases "signer_limit s \<le> n")
  case True
  have "m \<noteq> n - signer_limit s"
    using True assms(3,4) unat_signer_limit [OF assms(2)] by (auto simp: unat_sub word_le_nat_alt)
  then show ?thesis using True assms(1) by (simp add: forget_recent_def delete_keeps)
qed (use assms(1) in \<open>simp add: forget_recent_def\<close>)

lemma discard_cast_by_frame [simp]:
  "Recents (discard_cast_by a pre vs s) = Recents s" "Signers (discard_cast_by a pre vs s) = Signers s"
  by (induction vs arbitrary: pre s) simp_all

lemma settle_keeps:
  assumes "(m, y) \<in> set (Recents s)" and "card (Signers (settle n a s)) < 2 ^ 64"
    and "L \<le> card (Signers (settle n a s)) div 2 + 1" and "unat n < unat m + L"
  shows "(m, y) \<in> set (Recents (settle n a s))"
proof -
  have "Recents (settle n a s) = Recents s \<or> Recents (settle n a s) = Recents (forget_recent n (s\<lparr>Signers := Signers (settle n a s)\<rparr>))"
    by (auto simp: settle_def Let_def split: option.split)
  then show ?thesis using assms forget_keeps [of m y "s\<lparr>Signers := Signers (settle n a s)\<rparr>" L n] by auto
qed

lemma apply_header_recents:
  assumes "apply_header epoch rec h s = Ok (Inr s')" and "snap_ok s" and "h_Number h = Some num"
    and "card (Signers s) < 2 ^ 64" "L \<le> card (Signers s) div 2 + 1"
    and "card (Signers s') < 2 ^ 64" "L \<le> card (Signers s') div 2 + 1"
    and "(m, y) \<in> set (Recents s) \<and> m \<noteq> Uint64 num \<or> m = Uint64 num \<and> rec h = Ok (Inr y)"
    and "unat (Uint64 num) < unat m + L"
  shows "(m, y) \<in> set (Recents s')"
proof -
  obtain x b where h: "rec h = Ok (Inr x)" "x \<notin> snd ` set (Recents (forget_recent (Uint64 num) s))"
    "s' = settle (Uint64 num) (h_Coinbase h) (tally_vote (Uint64 num) x (h_Coinbase h) b (signed_by epoch (Uint64 num) x (h_Coinbase h) s))"
    using assms(1,2) by (rule apply_header_elim) (use assms(3) in simp)
  have "(m, y) \<in> set (AList.update (Uint64 num) x (Recents (forget_recent (Uint64 num) s)))"
    using assms(8) h(1) forget_keeps [OF _ assms(4,5,9)] update_keeps update_adds by fastforce
  then show ?thesis using signed_by_ok [OF assms(2) h(2), of epoch "h_Coinbase h"] assms(6,7,9)
    unfolding h(3) by (intro settle_keeps [of m y _ "Uint64 num" "h_Coinbase h" L]) simp_all
qed

text \<open>A run of headers with consecutive numbers, on which the signers number at least \<open>n\<close>.\<close>

definition numbered :: "nat \<Rightarrow> Header list \<Rightarrow> bool" where
  "numbered b hs \<longleftrightarrow> b + length hs < 2 ^ 64 \<and> (\<forall>i < length hs. h_Number (hs ! i) = Some (of_nat (b + i)))"

definition signers_at_least ::
  "u64 \<Rightarrow> (Header \<Rightarrow> (clique_error + address) res) \<Rightarrow> nat \<Rightarrow> Header list \<Rightarrow> VoteSnapshot \<Rightarrow> bool" where
  "signers_at_least epoch rec n hs s \<longleftrightarrow>
     (\<forall>k \<le> length hs. \<forall>t. apply_headers epoch rec (take k hs) s = Ok (Inr t) \<longrightarrow> n \<le> card (Signers t) \<and> card (Signers t) < 2 ^ 64)"

lemma signers_at_least_prefix:
  assumes "signers_at_least epoch rec n (hs @ hs') s"
  shows "signers_at_least epoch rec n hs s"
  unfolding signers_at_least_def
proof (intro allI impI)
  fix k t
  assume k: "k \<le> length hs" "apply_headers epoch rec (take k hs) s = Ok (Inr t)"
  then have "take k (hs @ hs') = take k hs" "k \<le> length (hs @ hs')" by simp_all
  then show "n \<le> card (Signers t) \<and> card (Signers t) < 2 ^ 64" using assms k(2) unfolding signers_at_least_def by metis
qed

lemma numbered_prefix: "numbered b (hs @ hs') \<Longrightarrow> numbered b hs"
  by (auto simp: numbered_def nth_append split: if_splits)

lemma recents_kept:
  assumes "apply_headers epoch rec hs s = Ok (Inr t)" and "snap_ok s" and "numbered b hs" and "signers_at_least epoch rec n hs s"
    and "i < length hs" and "rec (hs ! i) = Ok (Inr x)" and "length hs \<le> i + (n div 2 + 1)"
  shows "(of_nat (b + i), x) \<in> set (Recents t)"
  using assms
proof (induction hs arbitrary: t rule: rev_induct)
  case Nil
  then show ?case by simp
next
  case (snoc h hs)
  obtain t0 where t0: "apply_headers epoch rec hs s = Ok (Inr t0)" "apply_header epoch rec h t0 = Ok (Inr t)"
    using snoc.prems(1) by (auto simp: apply_headers_snoc)
  have n0: "n \<le> card (Signers t0)" "card (Signers t0) < 2 ^ 64"
    using snoc.prems(4) t0(1) unfolding signers_at_least_def by (auto dest!: spec [of _ "length hs"])
  have n1: "n \<le> card (Signers t)" "card (Signers t) < 2 ^ 64"
    using snoc.prems(1,4) unfolding signers_at_least_def by (auto dest!: spec [of _ "length (hs @ [h])"])
  have num: "h_Number h = Some (of_nat (b + length hs))" using snoc.prems(3) by (auto simp: numbered_def)
  have u: "unat (Uint64 (of_nat (b + length hs))) = b + length hs"
    unfolding Uint64_of_nat using snoc.prems(3) by (intro unat_of_nat64) (simp add: numbered_def)
  have m: "unat (of_nat (b + i) :: u64) = b + i" using snoc.prems(3,5) by (intro unat_of_nat64) (simp add: numbered_def)
  have old: "(of_nat (b + i), x) \<in> set (Recents t0)" if "i < length hs"
    using that snoc.prems snoc.IH [OF t0(1) snoc.prems(2) numbered_prefix signers_at_least_prefix] by (simp add: nth_append)
  have "(of_nat (b + i), x) \<in> set (Recents t0) \<and> of_nat (b + i) \<noteq> Uint64 (of_nat (b + length hs)) \<or>
      of_nat (b + i) = Uint64 (of_nat (b + length hs)) \<and> rec h = Ok (Inr x)"
  proof (cases "i < length hs")
    case True
    then show ?thesis using old m u by (metis add_left_cancel nat_neq_iff)
  next
    case False
    then have "i = length hs" using snoc.prems(5) by simp
    then show ?thesis using m u snoc.prems(6) by (metis nth_append_length word_unat_eq_iff)
  qed
  moreover have "unat (Uint64 (of_nat (b + length hs))) < unat (of_nat (b + i) :: u64) + (n div 2 + 1)"
    unfolding u m using snoc.prems(7) by simp
  ultimately show ?case
    using n0 n1 apply_headers_ok [OF t0(1) snoc.prems(2)]
    by (intro apply_header_recents [OF t0(2) _ num, where L = "n div 2 + 1"]) (simp_all add: div_le_mono)
qed

text \<open>C15. A signer waits for the others. On a chain of consecutive headers, on which there are always at least
  \<open>n\<close> signers, two headers of the same signer are more than \<open>n div 2\<close> blocks apart.\<close>

theorem signer_waits:
  assumes "apply_headers epoch rec hs s = Ok (Inr t)" and "snap_ok s" and "numbered b hs" and "signers_at_least epoch rec n hs s"
    and "i < j" and "j < length hs" and "rec (hs ! i) = Ok (Inr x)" and "rec (hs ! j) = Ok (Inr x)"
  shows "n div 2 < j - i"
proof (rule ccontr)
  assume close: "\<not> n div 2 < j - i"
  have split: "hs = (take j hs @ [hs ! j]) @ drop (Suc j) hs" using assms(6) by (simp add: id_take_nth_drop)
  have "\<exists>t. apply_headers epoch rec (take j hs @ [hs ! j]) s = Ok (Inr t)"
    using assms(1) apply_headers_append [of epoch rec "take j hs @ [hs ! j]" "drop (Suc j) hs" s t] split by metis
  then obtain t0 t1 where t0: "apply_headers epoch rec (take j hs) s = Ok (Inr t0)" "apply_header epoch rec (hs ! j) t0 = Ok (Inr t1)"
    by (auto simp: apply_headers_snoc)
  have pre: "numbered b (take j hs)" "signers_at_least epoch rec n (take j hs) s"
    using assms(3,4) numbered_prefix [of b "take j hs" "drop j hs"] signers_at_least_prefix [of epoch rec n "take j hs" "drop j hs"] by simp_all
  have kept: "(of_nat (b + i), x) \<in> set (Recents t0)"
    using assms(5-7) close by (intro recents_kept [OF t0(1) assms(2) pre]) simp_all
  have n: "n \<le> card (Signers t0)" "card (Signers t0) < 2 ^ 64"
    using assms(4,6) t0(1) unfolding signers_at_least_def by (auto dest!: spec [of _ j])
  have num: "h_Number (hs ! j) = Some (of_nat (b + j))" using assms(3,6) by (simp add: numbered_def)
  have u: "unat (of_nat (b + k) :: u64) = b + k" if "k < length hs" for k
    using that assms(3) by (intro unat_of_nat64) (simp add: numbered_def)
  have "x \<notin> snd ` set (Recents (forget_recent (Uint64 (of_nat (b + j))) t0))"
    using t0(2) apply_headers_ok [OF t0(1) assms(2)] by (rule apply_header_elim) (use num assms(8) in simp)
  moreover have "(of_nat (b + i), x) \<in> set (Recents (forget_recent (Uint64 (of_nat (b + j))) t0))"
    using n close assms(5,6) u [of i] u [of j]
    by (intro forget_keeps [OF kept n(2), where L = "n div 2 + 1"]) (simp_all add: div_le_mono Uint64_of_nat del: of_nat_add)
  ultimately show False by force
qed

section \<open>Witnesses\<close>

text \<open>Three signers; the signer of a header is named by the length of its extra data.\<close>

definition demo_signed :: "nat \<Rightarrow> nat \<Rightarrow> address \<Rightarrow> bool \<Rightarrow> Header" where
  "demo_signed n x a b =
     \<lparr>h_ParentHash = 0, h_Coinbase = a, h_Root = 0, h_TxHash = 0, h_ReceiptHash = 0, h_Bloom = [], h_Difficulty = Some 1,
      h_Number = Some (of_nat n), h_GasLimit = 0, h_GasUsed = 0, h_Time = 0, h_MixDigest = 0,
      h_Nonce = (if b then nonceAuthVote else nonceDropVote), h_Extra = replicate x 0, h_BaseFee = None, h_Signature = []\<rparr>"

definition demo_recover :: "Header \<Rightarrow> (clique_error + address) res" where
  "demo_recover h = Ok (Inr (of_nat (length (h_Extra h))))"

definition demo_snapshot :: VoteSnapshot where
  "demo_snapshot = newSnapshot 0 0 [1, 2, 3]"

definition demo_voted :: VoteSnapshot where
  "demo_voted = demo_snapshot\<lparr>Recents := [(1, 1)],
     Votes := [\<lparr>vote_Signer = 1, vote_Block = 1, vote_Address = 9, vote_Authorize = True\<rparr>],
     Tallies := [9 \<mapsto> \<lparr>tally_Authorize = True, tally_Votes = 1\<rparr>]\<rparr>"

definition demo_joined :: VoteSnapshot where
  "demo_joined = demo_snapshot\<lparr>Signers := {9, 1, 2, 3}, Recents := [(1, 1), (2, 2)]\<rparr>"

lemmas demo_clique = demo_signed_def demo_recover_def demo_snapshot_def demo_voted_def demo_joined_def newSnapshot_def
  apply_header_def Uint64_def clear_votes_def forget_recent_def signer_limit_def nonce_vote_def nonceAuthVote_def nonceDropVote_def
  tally_vote_def cast_def validVote_def settle_def

lemma demo_first: "apply_header 100 demo_recover (demo_signed 1 1 9 True) demo_snapshot = Ok (Inr demo_voted)"
  by (simp add: demo_clique)

lemma demo_second: "apply_header 100 demo_recover (demo_signed 2 2 9 True) demo_voted = Ok (Inr demo_joined)"
  by (simp add: demo_clique)

lemma demo_sound [simp]: "snap_ok demo_snapshot"
  by (simp add: demo_snapshot_def)

theorem snapshot_tallies_exact_witness:
  "snap_ok demo_snapshot \<and>
   (\<exists>t. snap_apply 100 demo_recover (\<lambda>h. 7) [demo_signed 1 1 9 True, demo_signed 2 2 9 True] demo_snapshot = Ok (Inr t) \<and>
      snap_ok t \<and> Signers t = {9, 1, 2, 3})"
proof -
  have "snap_apply 100 demo_recover (\<lambda>h. 7) [demo_signed 1 1 9 True, demo_signed 2 2 9 True] demo_snapshot
      = Ok (Inr (demo_joined\<lparr>vs_Number := 2, vs_Hash := 7\<rparr>))"
    by (simp add: snap_apply_def demo_first demo_second) (simp add: demo_clique)
  then show ?thesis
    using snapshot_tallies_exact [of 0 0 "[1]" demo_snapshot 100 demo_recover "\<lambda>h. 7" "[demo_signed 1 1 9 True, demo_signed 2 2 9 True]"]
    by (auto simp: demo_joined_def)
qed

theorem signers_change_by_majority_witness:
  "\<exists>V \<subseteq> {1, 2, 3}. 3 < 2 * card V \<and>
     (\<forall>x \<in> V. \<exists>h' \<in> {demo_signed 1 1 9 True, demo_signed 2 2 9 True}. demo_recover h' = Ok (Inr x) \<and> nonce_vote (h_Nonce h') = Some True)"
proof -
  have "9 \<in> Signers demo_joined" "9 \<notin> Signers demo_voted" by (simp_all add: demo_clique)
  then have s: "Signers demo_voted = {1, 2, 3}" "Signers demo_joined \<noteq> Signers demo_voted" by (simp add: demo_clique, metis)
  have c: "card {1, 2, 3 :: address} = 3" by simp
  show ?thesis
    using signers_change_by_majority [of 100 demo_recover "[demo_signed 1 1 9 True]" 0 0 "[1, 2, 3]" demo_voted "demo_signed 2 2 9 True" demo_joined]
      demo_first demo_second s c
    by (auto simp: demo_snapshot_def demo_signed_def)
qed

definition demo_rounds :: "Header list" where
  "demo_rounds = [demo_signed 1 1 0 False, demo_signed 2 2 0 False, demo_signed 3 1 0 False]"

lemma demo_rounds_apply:
  "apply_headers 100 demo_recover (take 1 demo_rounds) demo_snapshot = Ok (Inr (demo_snapshot\<lparr>Recents := [(1, 1)]\<rparr>))"
  "apply_headers 100 demo_recover (take 2 demo_rounds) demo_snapshot = Ok (Inr (demo_snapshot\<lparr>Recents := [(1, 1), (2, 2)]\<rparr>))"
  "apply_headers 100 demo_recover (take 3 demo_rounds) demo_snapshot = Ok (Inr (demo_snapshot\<lparr>Recents := [(2, 2), (3, 1)]\<rparr>))"
  by (simp_all add: demo_rounds_def demo_clique)

theorem signer_waits_witness:
  "demo_recover (demo_rounds ! 0) = demo_recover (demo_rounds ! 2) \<and> (3 :: nat) div 2 < 2 - 0"
proof -
  have three: "k = 0 \<or> k = 1 \<or> k = 2 \<or> k = 3" if "k \<le> 3" for k :: nat using that by arith
  have none: "apply_headers 100 demo_recover (take 0 demo_rounds) demo_snapshot = Ok (Inr (demo_snapshot\<lparr>Recents := []\<rparr>))"
    by (simp add: demo_snapshot_def newSnapshot_def)
  have "\<exists>r. apply_headers 100 demo_recover (take k demo_rounds) demo_snapshot = Ok (Inr (demo_snapshot\<lparr>Recents := r\<rparr>))" if "k \<le> 3" for k
    using three [OF that] none demo_rounds_apply by (elim disjE) blast+
  moreover have "card (Signers demo_snapshot) = 3" by (simp add: demo_snapshot_def newSnapshot_def)
  moreover have "length demo_rounds = 3" by (simp add: demo_rounds_def)
  ultimately have "signers_at_least 100 demo_recover 3 demo_rounds demo_snapshot"
    unfolding signers_at_least_def by (intro allI impI) (fastforce dest: spec)
  moreover have "numbered 1 demo_rounds" by (auto simp: numbered_def demo_rounds_def demo_signed_def less_Suc_eq)
  moreover have "demo_recover (demo_rounds ! 0) = Ok (Inr 1)" "demo_recover (demo_rounds ! 2) = Ok (Inr 1)" "length demo_rounds = 3"
    by (simp_all add: demo_rounds_def demo_recover_def demo_signed_def)
  ultimately show ?thesis
    using signer_waits [of 100 demo_recover demo_rounds demo_snapshot "demo_snapshot\<lparr>Recents := [(2, 2), (3, 1)]\<rparr>" 1 3 0 2 1] demo_rounds_apply(3)
    by simp
qed

end
