(* ===== verification/RlpEncode.thy ===== *)
theory RlpEncode
  imports RlpProps
begin

text \<open>
  The buffered encoder produces the encoding: list headers kept aside with their offsets and written
  between the string data at the end give the recursively defined bytes.
\<close>

section \<open>Splicing\<close>

lemma take_drop_split: "p \<le> q \<Longrightarrow> q \<le> r \<Longrightarrow> take (r - p) (drop p s) = take (q - p) (drop p s) @ take (r - q) (drop q s)"
proof -
  assume "p \<le> q" "q \<le> r"
  then show ?thesis using take_add [of "q - p" "r - q" "drop p s"] by simp
qed

lemma write_heads_advance:
  assumes "\<forall>h \<in> set hs. q \<le> lh_offset h" "p \<le> q"
  shows "write_heads hs s p = take (q - p) (drop p s) @ write_heads hs s q"
proof (cases hs)
  case Nil
  have "drop p s = take (q - p) (drop p s) @ drop q s"
    using assms(2) append_take_drop_id [of "q - p" "drop p s"] by simp
  then show ?thesis by (simp add: Nil)
next
  case (Cons h hs')
  with assms(1) have o: "q \<le> lh_offset h" by simp
  show ?thesis
  proof (cases "p < lh_offset h")
    case True
    then show ?thesis using o assms(2) take_drop_split [OF assms(2) o, of s] by (auto simp: Cons)
  next
    case False
    with o assms(2) have "p = q" by simp
    then show ?thesis by simp
  qed
qed

text \<open>\<open>adds e w w'\<close>: from \<open>w\<close> to \<open>w'\<close> the encoder has added what splices to \<open>e\<close>.\<close>

definition adds :: "bytes \<Rightarrow> encbuf \<Rightarrow> encbuf \<Rightarrow> bool" where
  "adds e w w' \<longleftrightarrow> (\<exists>d hs. str w' = str w @ d \<and> lheads w' = lheads w @ hs \<and> lhsize w' + length d = lhsize w + length e \<and>
     lhsize w \<le> lhsize w' \<and> sorted (map lh_offset hs) \<and>
     (\<forall>h \<in> set hs. length (str w) \<le> lh_offset h \<and> lh_offset h \<le> length (str w')) \<and>
     (\<forall>more post. (\<forall>h \<in> set more. length (str w') \<le> lh_offset h) \<longrightarrow>
        write_heads (hs @ more) (str w' @ post) (length (str w)) = e @ write_heads more (str w' @ post) (length (str w'))))"

lemma adds_put: "adds b w (put b w)"
  unfolding adds_def
proof (intro exI conjI)
  show "\<forall>more post. (\<forall>h \<in> set more. length (str (put b w)) \<le> lh_offset h) \<longrightarrow>
      write_heads ([] @ more) (str (put b w) @ post) (length (str w)) =
      b @ write_heads more (str (put b w) @ post) (length (str (put b w)))"
  proof (intro allI impI)
    fix more :: "listhead list" and post assume "\<forall>h \<in> set more. length (str (put b w)) \<le> lh_offset h"
    from write_heads_advance [OF this, of "length (str w)" "str (put b w) @ post"]
    show "write_heads ([] @ more) (str (put b w) @ post) (length (str w)) =
        b @ write_heads more (str (put b w) @ post) (length (str (put b w)))"
      by (simp add: put_def)
  qed
qed (simp_all add: put_def)

lemma adds_nil: "adds [] w w"
  using adds_put [of "[]" w] by (simp add: put_def)

lemma adds_append:
  assumes "adds e1 w w1" "adds e2 w1 w2"
  shows "adds (e1 @ e2) w w2"
proof -
  obtain d1 hs1 where 1: "str w1 = str w @ d1" "lheads w1 = lheads w @ hs1" "lhsize w1 + length d1 = lhsize w + length e1"
    "lhsize w \<le> lhsize w1" "sorted (map lh_offset hs1)" "\<forall>h \<in> set hs1. length (str w) \<le> lh_offset h \<and> lh_offset h \<le> length (str w1)"
    "\<And>more post. (\<forall>h \<in> set more. length (str w1) \<le> lh_offset h) \<Longrightarrow>
      write_heads (hs1 @ more) (str w1 @ post) (length (str w)) = e1 @ write_heads more (str w1 @ post) (length (str w1))"
    using assms(1) unfolding adds_def by blast
  obtain d2 hs2 where 2: "str w2 = str w1 @ d2" "lheads w2 = lheads w1 @ hs2" "lhsize w2 + length d2 = lhsize w1 + length e2"
    "lhsize w1 \<le> lhsize w2" "sorted (map lh_offset hs2)" "\<forall>h \<in> set hs2. length (str w1) \<le> lh_offset h \<and> lh_offset h \<le> length (str w2)"
    "\<And>more post. (\<forall>h \<in> set more. length (str w2) \<le> lh_offset h) \<Longrightarrow>
      write_heads (hs2 @ more) (str w2 @ post) (length (str w1)) = e2 @ write_heads more (str w2 @ post) (length (str w2))"
    using assms(2) unfolding adds_def by blast
  show ?thesis unfolding adds_def
  proof (intro exI conjI)
    show "str w2 = str w @ d1 @ d2" "lheads w2 = lheads w @ hs1 @ hs2" using 1 2 by simp_all
    show "lhsize w2 + length (d1 @ d2) = lhsize w + length (e1 @ e2)" "lhsize w \<le> lhsize w2" using 1 2 by simp_all
    show "sorted (map lh_offset (hs1 @ hs2))" using 1(5,6) 2(5,6) by (fastforce simp: sorted_append)
    show "\<forall>h \<in> set (hs1 @ hs2). length (str w) \<le> lh_offset h \<and> lh_offset h \<le> length (str w2)"
      using 1(1,6) 2(1,6) by fastforce
    show "\<forall>more post. (\<forall>h \<in> set more. length (str w2) \<le> lh_offset h) \<longrightarrow>
        write_heads ((hs1 @ hs2) @ more) (str w2 @ post) (length (str w)) =
        (e1 @ e2) @ write_heads more (str w2 @ post) (length (str w2))"
    proof (intro allI impI)
      fix more :: "listhead list" and post assume m: "\<forall>h \<in> set more. length (str w2) \<le> lh_offset h"
      then have "\<forall>h \<in> set (hs2 @ more). length (str w1) \<le> lh_offset h" using 2(1,6) by fastforce
      from 1(7) [OF this, of "d2 @ post"] 2(7) [OF m, of post] 2(1)
      show "write_heads ((hs1 @ hs2) @ more) (str w2 @ post) (length (str w)) =
          (e1 @ e2) @ write_heads more (str w2 @ post) (length (str w2))" by simp
    qed
  qed
qed

lemma length_rlp_head:
  "n < 2 ^ 64 \<Longrightarrow> length (rlp_head small large n) = (if n < 56 then 1 else 1 + intsize (of_nat n))"
  by (simp add: rlp_head_def intsize_byte_len unat_of_nat64)

lemma adds_list:
  assumes "adds c (fst (enc_list w)) w1" "length c < 2 ^ 64"
  shows "adds (rlp_head 0xC0 0xF7 (length c) @ c) w (listEnd (snd (enc_list w)) w1)"
proof -
  let ?w0 = "fst (enc_list w)" and ?h0 = "\<lparr>lh_offset = length (str w), lh_size = lhsize w\<rparr>"
  have w0: "str ?w0 = str w" "lheads ?w0 = lheads w @ [?h0]" "lhsize ?w0 = lhsize w" "snd (enc_list w) = length (lheads w)"
    by (simp_all add: enc_list_def)
  obtain d hs where 1: "str w1 = str w @ d" "lheads w1 = (lheads w @ [?h0]) @ hs" "lhsize w1 + length d = lhsize w + length c"
    "lhsize w \<le> lhsize w1" "sorted (map lh_offset hs)" "\<forall>h \<in> set hs. length (str w) \<le> lh_offset h \<and> lh_offset h \<le> length (str w1)"
    "\<And>more post. (\<forall>h \<in> set more. length (str w1) \<le> lh_offset h) \<Longrightarrow>
      write_heads (hs @ more) (str w1 @ post) (length (str w)) = c @ write_heads more (str w1 @ post) (length (str w1))"
    using assms(1) unfolding adds_def w0 by blast
  define h where "h = ?h0\<lparr>lh_size := length c\<rparr>"
  let ?w2 = "listEnd (snd (enc_list w)) w1"
  have "enc_size w1 - length (str w) - lhsize w = length c" using 1(1,3,4) by (simp add: enc_size_def)
  then have w2: "str ?w2 = str w1" "lheads ?w2 = lheads w @ h # hs"
    "lhsize ?w2 = lhsize w1 + length (rlp_head 0xC0 0xF7 (length c))"
    using 1(2) assms(2) by (simp_all add: listEnd_def w0(4) nth_append Let_def h_def length_rlp_head)
  have h: "lh_offset h = length (str w)" "head_encode h = rlp_head 0xC0 0xF7 (length c)"
    using assms(2) by (simp_all add: h_def head_encode_def puthead_head)
  show ?thesis unfolding adds_def w2
  proof (intro exI conjI)
    show "str w1 = str w @ d" "lheads w @ h # hs = lheads w @ h # hs" using 1 by simp_all
    show "lhsize w1 + length (rlp_head 0xC0 0xF7 (length c)) + length d = lhsize w + length (rlp_head 0xC0 0xF7 (length c) @ c)"
      "lhsize w \<le> lhsize w1 + length (rlp_head 0xC0 0xF7 (length c))" using 1(3,4) by simp_all
    show "sorted (map lh_offset (h # hs))" using 1(5,6) h by simp
    show "\<forall>g \<in> set (h # hs). length (str w) \<le> lh_offset g \<and> lh_offset g \<le> length (str w1)" using 1(1,6) h by simp
    show "\<forall>more post. (\<forall>g \<in> set more. length (str w1) \<le> lh_offset g) \<longrightarrow>
        write_heads ((h # hs) @ more) (str w1 @ post) (length (str w)) =
        (rlp_head 0xC0 0xF7 (length c) @ c) @ write_heads more (str w1 @ post) (length (str w1))"
      using 1(7) h by simp
  qed
qed

section \<open>The encoder\<close>

lemma write_val_adds:
  shows "raw_free v \<Longrightarrow> nonneg v \<Longrightarrow> length (rlp_encode (item v)) < 2 ^ 64 \<Longrightarrow>
      \<exists>w'. write_val v w = Some w' \<and> adds (rlp_encode (item v)) w w'"
    and "list_all raw_free vs \<Longrightarrow> list_all nonneg vs \<Longrightarrow> length (concat (map rlp_encode (map item vs))) < 2 ^ 64 \<Longrightarrow>
      \<exists>w'. write_vals vs w = Some w' \<and> adds (concat (map rlp_encode (map item vs))) w w'"
proof (induction v w and vs w rule: write_val_write_vals.induct)
  case (1 i w)
  then show ?case by (simp add: encodeUint_encode adds_put del: rlp_encode.simps)
next
  case (2 b w)
  have "rlp_encode (item (RBool b)) = [if b then 1 else 0x80]" by (simp add: rlp_head_def)
  then show ?case by (simp add: adds_put del: rlp_encode.simps)
next
  case (3 w)
  have "rlp_encode (item (RBigInt None)) = [0x80]" by (simp add: rlp_head_def)
  then show ?case by (simp add: adds_put del: rlp_encode.simps)
next
  case (4 i w)
  then show ?case by (simp add: writeBigInt_encode adds_put del: rlp_encode.simps)
next
  case (5 w)
  have "rlp_encode (item (RUint256 None)) = [0x80]" by (simp add: rlp_head_def)
  then show ?case by (simp add: adds_put del: rlp_encode.simps)
next
  case (6 i w)
  then show ?case by (simp add: writeUint256_encode adds_put del: rlp_encode.simps)
next
  case (7 b w)
  then show ?case by (simp add: encodeString_encode adds_put del: rlp_encode.simps)
next
  case (8 b w)
  then show ?case by (simp add: encodeString_encode adds_put del: rlp_encode.simps)
next
  case (9 b w)
  then show ?case by (simp add: writeByteArray_encode adds_put del: rlp_encode.simps)
next
  case (11 k w)
  have s: "rlp_encode (Str []) = [0x80]" and l: "rlp_encode (Lst []) = rlp_head 0xC0 0xF7 0" by (simp_all add: rlp_head_def)
  show ?case
  proof (cases "k = String")
    case True
    then show ?thesis by (simp add: s adds_put del: rlp_encode.simps)
  next
    case False
    have "adds (rlp_encode (Lst [])) w (listEnd (snd (enc_list w)) (fst (enc_list w)))"
      using adds_list [OF adds_nil, of w] by (simp add: l)
    with False show ?thesis by (simp add: case_prod_beta del: rlp_encode.simps)
  qed
next
  case (13 w)
  have "rlp_encode (item RNilInterface) = [0xC0]" by (simp add: rlp_head_def)
  then show ?case by (simp add: adds_put del: rlp_encode.simps)
next
  case (14 vs w)
  let ?c = "concat (map rlp_encode (map item vs))"
  have e: "rlp_encode (item (RList vs)) = rlp_head 0xC0 0xF7 (length ?c) @ ?c" by (simp add: Let_def comp_def)
  then have c: "length ?c < 2 ^ 64" using 14(4) by simp
  obtain w' where w': "write_vals vs (fst (enc_list w)) = Some w'" "adds ?c (fst (enc_list w)) w'"
    using 14(1) [OF prod.collapse] 14(2,3) c by auto
  then have "write_val (RList vs) w = Some (listEnd (snd (enc_list w)) w')" by (simp add: case_prod_beta)
  with adds_list [OF w'(2) c] show ?case unfolding e by blast
next
  case (16 v vs w)
  from 16(3,4) have v: "raw_free v" "nonneg v" "list_all raw_free vs" "list_all nonneg vs" by simp_all
  have l: "length (rlp_encode (item v)) < 2 ^ 64" "length (concat (map rlp_encode (map item vs))) < 2 ^ 64" using 16(5) by simp_all
  obtain w1 where 1: "write_val v w = Some w1" "adds (rlp_encode (item v)) w w1" using 16(1) [OF v(1,2) l(1)] by blast
  obtain w2 where 2: "write_vals vs w1 = Some w2" "adds (concat (map rlp_encode (map item vs))) w1 w2"
    using 16(2) [OF 1(1) v(3,4) l(2)] by blast
  show ?case using 1 2 adds_append [OF 1(2) 2(2)] by simp
qed (simp_all add: adds_nil del: rlp_encode.simps)

lemma writeBigInt_None [simp]: "writeBigInt i w = None \<longleftrightarrow> i < 0"
  by (simp add: writeBigInt_def Let_def)

lemma write_val_None:
  shows "write_val v w = None \<longleftrightarrow> \<not> nonneg v" and "write_vals vs w = None \<longleftrightarrow> \<not> list_all nonneg vs"
proof (induction v w and vs w rule: write_val_write_vals.induct)
  case (16 v vs w)
  then show ?case by (cases "write_val v w") auto
next
  case (14 vs w)
  from 14 [OF prod.collapse] show ?case by (simp add: case_prod_beta)
qed auto

lemma sorted_offsets:
  "sorted (map lh_offset (h # hs)) \<Longrightarrow> \<forall>g \<in> set hs. lh_offset h \<le> lh_offset g"
  by simp

lemma take_copy_at: "pos + length src \<le> length out \<Longrightarrow> take (pos + length src) (copy_at out pos (length src) src) = take pos out @ src"
  by (simp add: copy_at_def)

lemma copy_heads_spec:
  "sorted (map lh_offset hs) \<Longrightarrow> \<forall>h \<in> set hs. strpos \<le> lh_offset h \<and> lh_offset h \<le> length s \<Longrightarrow> strpos \<le> length s \<Longrightarrow>
   length out = pos + length (write_heads hs s strpos) \<Longrightarrow>
   copy_heads hs s strpos pos out = Ok (take pos out @ write_heads hs s strpos)"
proof (induction hs arbitrary: strpos pos out)
  case Nil
  then have "length out - pos = length (drop strpos s)" by simp
  then show ?case using Nil by (simp add: slice_def copy_at_def)
next
  case (Cons h hs)
  define src where "src = take (lh_offset h - strpos) (drop strpos s)"
  define enc where "enc = head_encode h"
  have o: "strpos \<le> lh_offset h" "lh_offset h \<le> length s" using Cons.prems(2) by simp_all
  then have sl: "slice s strpos (lh_offset h) = Some src" and ls: "length src = lh_offset h - strpos"
    by (simp_all add: slice_def src_def)
  have w: "write_heads (h # hs) s strpos = src @ enc @ write_heads hs s (lh_offset h)"
  proof (cases "strpos < lh_offset h")
    case False
    with o have "strpos = lh_offset h" by simp
    then show ?thesis by (simp add: src_def enc_def)
  qed (simp add: src_def enc_def)
  have len: "length out = pos + length src + length enc + length (write_heads hs s (lh_offset h))"
    using Cons.prems(4) unfolding w by simp
  define out1 where "out1 = copy_at out pos (length src) src"
  define out2 where "out2 = copy_at out1 (pos + length src) (length enc) enc"
  have n: "min (length out - pos) (length src) = length src" using len by simp
  have sp: "strpos + length src = lh_offset h" using ls o(1) by simp
  have l1: "length out1 = length out" using len by (simp add: out1_def)
  have fits: "pos + length src + length enc \<le> length out1" using len l1 by simp
  have l2: "length out2 = length out" using len l1 by (simp add: out2_def)
  have "take (pos + length src) out1 = take pos out @ src" unfolding out1_def using len by (intro take_copy_at) simp
  moreover have "take (pos + length src + length enc) out2 = take (pos + length src) out1 @ enc"
    unfolding out2_def using len l1 by (intro take_copy_at) simp
  moreover have "copy_heads hs s (lh_offset h) (pos + length src + length enc) out2 =
      Ok (take (pos + length src + length enc) out2 @ write_heads hs s (lh_offset h))"
    using Cons.prems o len l2 by (intro Cons.IH) (auto simp: sorted_offsets)
  moreover have "copy_heads (h # hs) s strpos pos out = copy_heads hs s (lh_offset h) (pos + length src + length enc) out2"
    unfolding copy_heads.simps sl of_opt_simps bnd_simps Let_def n enc_def [symmetric] out1_def [symmetric] sp out2_def [symmetric]
    using fits by (simp only: if_True)
  ultimately show ?case unfolding w by simp
qed

lemma toWriter_adds:
  assumes "adds e enc_reset w"
  shows "toWriter w = e" and "toBytes w = Ok e"
proof -
  obtain hs where hs: "lheads w = hs" "lhsize w + length (str w) = length e" "sorted (map lh_offset hs)"
    "\<forall>h \<in> set hs. 0 \<le> lh_offset h \<and> lh_offset h \<le> length (str w)"
    "\<And>more post. (\<forall>h \<in> set more. length (str w) \<le> lh_offset h) \<Longrightarrow>
      write_heads (hs @ more) (str w @ post) 0 = e @ write_heads more (str w @ post) (length (str w))"
    using assms by (auto simp: adds_def enc_reset_def)
  have wr: "write_heads hs (str w) 0 = e" using hs(5) [of "[]" "[]"] by simp
  then show "toWriter w = e" by (simp add: toWriter_def hs(1))
  show "toBytes w = Ok e"
    unfolding toBytes_def hs(1) using copy_heads_spec [OF hs(3,4), of "replicate (enc_size w) 0" 0] hs(2) wr
    by (simp add: enc_size_def)
qed

text \<open>C11. The encoder, which keeps the list headers beside the string data and splices them in, writes
  the recursively defined RLP encoding of a value of any nesting, to a writer and into the array
  it allocates, which has exactly the right size. It fails exactly for values that contain a
  negative integer. Raw parts are excluded, and encodings of 2^64 bytes.\<close>

theorem rlp_encoder_correct:
  assumes "raw_free v" and "length (rlp_encode (item v)) < 2 ^ 64"
  shows "Encode v = (if nonneg v then Some (rlp_encode (item v)) else None) \<and>
    EncodeToBytes v = Ok (if nonneg v then Some (rlp_encode (item v)) else None)"
proof (cases "nonneg v")
  case True
  obtain w where "write_val v enc_reset = Some w" "adds (rlp_encode (item v)) enc_reset w"
    using write_val_adds(1) [OF assms(1) True assms(2)] by blast
  with toWriter_adds [OF this(2)] show ?thesis using True by (simp add: Encode_def EncodeToBytes_def del: rlp_encode.simps)
next
  case False
  then have "write_val v enc_reset = None" by (simp add: write_val_None)
  with False show ?thesis by (simp add: Encode_def EncodeToBytes_def)
qed

theorem rlp_encoder_correct_witness:
  "Encode (RList [RUint 5, RList [RBytes [0x80], RUint 1024], RBigInt (Some 0)]) =
     Some [0xC8, 0x05, 0xC5, 0x81, 0x80, 0x82, 0x04, 0x00, 0x80]"
proof -
  let ?v = "RList [RUint 5, RList [RBytes [0x80], RUint 1024], RBigInt (Some 0)]"
  have "rlp_encode (item ?v) = [0xC8, 0x05, 0xC5, 0x81, 0x80, 0x82, 0x04, 0x00, 0x80]" by code_simp
  then show ?thesis using rlp_encoder_correct [of ?v] by (simp del: rlp_encode.simps item.simps)
qed

end
