(* ===== verification/AuthorityProps.thy ===== *)
theory AuthorityProps
  imports CliqueProps RlpEncode StateProps
begin

text \<open>Properties of the proof-of-authority engines: collecting a snapshot ends, what the engine seals
  passes its own verification, and two places where the code does not do what it means to.\<close>

section \<open>Termination\<close>

lemma bnd_returns: "m \<noteq> NoFuel \<Longrightarrow> (\<And>x. m = Ok x \<Longrightarrow> f x \<noteq> NoFuel) \<Longrightarrow> bnd m f \<noteq> NoFuel"
  by (auto simp: bnd_eq_NoFuel)

lemma Author_returns [simp]: "Author P h \<noteq> NoFuel"
  by (auto simp: Author_def header_signer_def SealHash_def encodeSigHeader_def bnd_eq_NoFuel split: option.splits if_splits)

lemma apply_header_returns: "(\<And>h. rec h \<noteq> NoFuel) \<Longrightarrow> apply_header epoch rec h s \<noteq> NoFuel"
  by (auto simp: apply_header_def Let_def bnd_eq_NoFuel split: sum.splits option.splits)

lemma apply_headers_returns: "(\<And>h. rec h \<noteq> NoFuel) \<Longrightarrow> apply_headers epoch rec hs s \<noteq> NoFuel"
  by (induction hs arbitrary: s) (auto simp: bnd_eq_NoFuel apply_header_returns split: sum.splits)

lemma voting_chain_returns [simp]: "voting_chain hs \<noteq> NoFuel"
  by (induction hs rule: voting_chain.induct) (auto simp: bnd_eq_NoFuel)

lemma snap_apply_returns: "(\<And>h. rec h \<noteq> NoFuel) \<Longrightarrow> snap_apply epoch rec hash hs s \<noteq> NoFuel"
  by (auto simp: snap_apply_def bnd_eq_NoFuel apply_headers_returns split: sum.splits)

text \<open>Every round of the search goes back one block, and the genesis block is found at the latest.\<close>

lemma gather_returns:
  "chain_GetHeaderByNumber ch 0 = Some g \<Longrightarrow> unat number < fuel \<Longrightarrow> gather fuel P ch c number h parents headers \<noteq> NoFuel"
proof (induction fuel arbitrary: number h parents headers)
  case (Suc fuel)
  show ?case
  proof (cases "number = 0")
    case True
    with Suc.prems(1) show ?thesis
      by (auto simp: trusted_checkpoint_def checkpoint_signers_def Let_def bnd_eq_NoFuel split: option.splits)
  next
    case False
    then have "0 < unat number" by (simp add: unat_gt_0)
    then have "unat (number - 1) < fuel" using Suc.prems(2) False by (simp add: unat_minus_one)
    then show ?thesis using Suc.IH [OF Suc.prems(1)] False
      by (auto simp: trusted_checkpoint_def previous_header_def checkpoint_signers_def Let_def bnd_eq_NoFuel split: option.splits sum.splits prod.splits)
  qed
qed simp

lemma snapshot_returns:
  assumes "chain_GetHeaderByNumber ch 0 = Some g" and "unat number < fuel"
  shows "snapshot fuel P ch number h parents c \<noteq> NoFuel"
  using gather_returns [OF assms] snap_apply_returns [of "Author P"]
  by (auto simp: snapshot_def Let_def bnd_eq_NoFuel split: sum.splits)

lemma inturn_returns [simp]: "inturn n x s \<noteq> NoFuel"
  by (simp add: inturn_def Let_def)

lemma verifySeal_returns [simp]: "verifySeal P fake s h \<noteq> NoFuel"
  by (auto simp: verifySeal_def Let_def bnd_eq_NoFuel split: sum.splits)

lemma verify_fields_returns [simp]: "verify_fields mix epoch now h \<noteq> NoFuel"
  by (auto simp: verify_fields_def Let_def bnd_eq_NoFuel split: if_splits)

lemma verifyCascadingFields_returns:
  assumes "chain_GetHeaderByNumber ch 0 = Some g" and "h_Number h = Some num" and "unat (Uint64 num - 1) < fuel"
    and "\<And>p. fees p h \<noteq> NoFuel"
  shows "verifyCascadingFields fuel P ch fees h parents c \<noteq> NoFuel"
  using assms(2,4) snapshot_returns [OF assms(1,3)]
  by (auto simp: verifyCascadingFields_def checkpoint_matches_def Let_def bnd_eq_NoFuel split: option.splits sum.splits if_splits)

lemma apos_fees_returns [simp]: "apos_fees cc p h \<noteq> NoFuel"
  by (auto simp: apos_fees_def VerifyEip1559Header_def parent_gas_limit_def CalcBaseFee_def big_Div_def Let_def bnd_eq_NoFuel split: option.splits)

text \<open>C18. Verifying a header ends. With more fuel than the number of the parent, in a chain that has its genesis
  block, neither engine runs out of fuel when it verifies, prepares or seals the header: the search
  for a snapshot goes back at most to the genesis block.\<close>

theorem engine_returns:
  assumes "chain_GetHeaderByNumber ch 0 = Some g" and "h_Number h = Some num" and "unat (Uint64 num - 1) < fuel"
  shows "verifyHeader fuel P ch h parents c \<noteq> NoFuel \<and> apos_verifyHeader fuel P ch cc h parents c \<noteq> NoFuel \<and>
    Prepare rand fuel P ch h c \<noteq> NoFuel \<and> apos_Prepare rand fuel P ch h c \<noteq> NoFuel \<and> Seal fuel P ch signFn h txs c \<noteq> NoFuel"
proof (intro conjI)
  note s = snapshot_returns [OF assms(1,3)]
  note v = verifyCascadingFields_returns [OF assms]
  show "verifyHeader fuel P ch h parents c \<noteq> NoFuel" using v by (auto simp: verifyHeader_def bnd_eq_NoFuel split: option.splits)
  show "apos_verifyHeader fuel P ch cc h parents c \<noteq> NoFuel" using v by (auto simp: apos_verifyHeader_def bnd_eq_NoFuel split: option.splits)
  have p: "prepare_header b e rand fuel P ch h c \<noteq> NoFuel" for b e
    using s assms(2) by (auto simp: prepare_header_def prepare_fields_def calcDifficulty_def Let_def bnd_eq_NoFuel split: sum.splits option.splits)
  then show "Prepare rand fuel P ch h c \<noteq> NoFuel" "apos_Prepare rand fuel P ch h c \<noteq> NoFuel" by (simp_all add: Prepare_def apos_Prepare_def)
  show "Seal fuel P ch signFn h txs c \<noteq> NoFuel"
    using s assms(2) by (auto simp: Seal_def encodeSigHeader_def Let_def bnd_eq_NoFuel split: sum.splits option.splits if_splits)
qed

section \<open>Sealing\<close>

lemma encodeSigHeader_seal:
  assumes "length (h_Extra h) \<ge> extraSeal" and "length sig = extraSeal"
  shows "encodeSigHeader (h\<lparr>h_Extra := copy_at (h_Extra h) (length (h_Extra h) - extraSeal) extraSeal sig\<rparr>) = encodeSigHeader h"
proof -
  define n where "n = length (h_Extra h) - extraSeal"
  have "n + extraSeal \<le> length (h_Extra h)" "SignatureLength = extraSeal" using assms(1) by (simp_all add: n_def SignatureLength_def extraSeal_def)
  then have "take n (copy_at (h_Extra h) n extraSeal sig) = take n (h_Extra h)" "length (copy_at (h_Extra h) n extraSeal sig) = length (h_Extra h)"
    by (simp_all add: copy_at_def Let_def)
  then show ?thesis using \<open>SignatureLength = extraSeal\<close> by (simp add: encodeSigHeader_def sig_header_def n_def)
qed

lemma gather_frame: "when_ok (\<lambda>(c', r). \<exists>d. c' = c\<lparr>c_disk := d\<rparr>) (gather fuel P ch c number h parents headers)"
proof (induction fuel arbitrary: number h parents headers)
  case (Suc fuel)
  have "\<exists>d. c = c\<lparr>c_disk := d\<rparr>" by (rule exI [of _ "c_disk c"]) simp
  then show ?case using Suc.IH
    by (auto simp: Let_def intro!: when_okI split: option.split sum.split prod.split)
qed simp

lemma snapshot_frame:
  "when_ok (\<lambda>(c', r). c_signer c' = c_signer c \<and> c_Epoch c' = c_Epoch c \<and> c_Period c' = c_Period c \<and> fakeDiff c' = fakeDiff c)
     (snapshot fuel P ch number h parents c)"
  unfolding snapshot_def when_ok_simps
  by (rule when_ok_mono [OF gather_frame]) (auto simp: Let_def when_ok_all split: sum.split)

text \<open>The signing function returns signatures from which the curve recovers the key of the account.\<close>

definition signs_for :: "poa_lib \<Rightarrow> (address \<Rightarrow> bytes \<Rightarrow> bytes option) \<Rightarrow> address \<Rightarrow> bool" where
  "signs_for P signFn a \<longleftrightarrow>
     (\<forall>msg sig. signFn a msg = Some sig \<longrightarrow> length sig = extraSeal \<and>
        (\<exists>pub. sec_RecoverPubkey (poa_curve P) (hash_bytes (keccak (poa_hashes P) msg)) sig = Some pub \<and> pub \<noteq> [] \<and>
           ucast (keccak (poa_hashes P) (drop 1 pub)) = a))"

lemma sealed_author:
  assumes "length (h_Extra h) \<ge> extraSeal" and "length sig = extraSeal" and "encodeSigHeader h = Ok msg"
    and "sec_RecoverPubkey (poa_curve P) (hash_bytes (keccak (poa_hashes P) msg)) sig = Some pub" and "pub \<noteq> []"
  shows "Author P (h\<lparr>h_Extra := copy_at (h_Extra h) (length (h_Extra h) - extraSeal) extraSeal sig\<rparr>) =
    Ok (Inr (ucast (keccak (poa_hashes P) (drop 1 pub))))"
proof -
  define n where "n = length (h_Extra h) - extraSeal"
  have n: "n + extraSeal = length (h_Extra h)" using assms(1) by (simp add: n_def)
  then have d: "drop n (copy_at (h_Extra h) n extraSeal sig) = sig" using assms(2) by (simp add: copy_at_def Let_def)
  have l: "length (copy_at (h_Extra h) n extraSeal sig) = length (h_Extra h)" using n by simp
  show ?thesis using assms encodeSigHeader_seal [OF assms(1,2)] d l
    by (simp add: Author_def header_signer_def SealHash_def n_def)
qed

text \<open>C17. What the engine seals passes verification. If the difficulty of a header is the one \<open>Prepare\<close> computes on
  the snapshot of its parent, and the signing function signs for the signer of the engine, then a
  header that \<open>Seal\<close> returns is recovered as signed by that signer and passes \<open>verifySeal\<close> on the
  snapshot: it is authorised, has not signed recently and has the right difficulty.\<close>

theorem sealed_header_verifies:
  assumes "Seal fuel P ch signFn h txs c = Ok (c', Inr h')" and "h_Number h = Some num"
    and "snapshot fuel P ch (Uint64 num - 1) (h_ParentHash h) [] c = Ok (c1, Inr s)" and "vs_Number s = Uint64 num - 1"
    and "calcDifficulty s (c_signer c) = Ok d" and "h_Difficulty h = Some d" and "signs_for P signFn (c_signer c)"
  shows "Author P h' = Ok (Inr (c_signer c)) \<and> verifySeal P (fakeDiff c') s h' = Ok None"
proof -
  have f: "c_signer c1 = c_signer c" using snapshot_frame [of c fuel P ch "Uint64 num - 1" "h_ParentHash h" "[]"] assms(3) by simp
  note seal = assms(1) [unfolded Seal_def Let_def]
  have z: "Uint64 num \<noteq> 0" "\<not> (c_Period c = 0 \<and> length txs = 0)" using seal assms(2) by (auto split: if_splits)
  have may: "may_seal (Uint64 num) (c_signer c) s = None"
    using seal assms(2,3) z f by (cases "may_seal (Uint64 num) (c_signer c) s") (simp_all split: if_splits)
  obtain msg where msg: "encodeSigHeader h = Ok msg"
    using seal assms(2,3,6) z f may by (cases "encodeSigHeader h") (simp_all split: if_splits)
  obtain sig where sig: "signFn (c_signer c) msg = Some sig"
    using seal assms(2,3,6) z f may msg by (cases "signFn (c_signer c) msg") (simp_all split: if_splits)
  have "extraSeal \<le> length (h_Extra h) \<and> h' = h\<lparr>h_Extra := copy_at (h_Extra h) (length (h_Extra h) - extraSeal) extraSeal sig\<rparr>"
    using seal assms(2,3,6) z f may msg sig by (cases "length (h_Extra h) < extraSeal") (simp_all split: if_splits)
  note m = z(1) may msg sig conjunct1 [OF this] conjunct2 [OF this]
  obtain pub where "length sig = extraSeal" "sec_RecoverPubkey (poa_curve P) (hash_bytes (keccak (poa_hashes P) msg)) sig = Some pub"
    "pub \<noteq> []" "ucast (keccak (poa_hashes P) (drop 1 pub)) = c_signer c"
    using assms(7) m(4) unfolding signs_for_def by blast
  then have a: "Author P h' = Ok (Inr (c_signer c))" using sealed_author [OF m(5) _ m(3)] m(6) by simp
  obtain turn where "inturn (Uint64 num) (c_signer c) s = Ok turn" "d = (if turn then diffInTurn else diffNoTurn)"
    using assms(4,5) by (auto simp: calcDifficulty_def bnd_eq_Ok)
  moreover have "c_signer c \<in> Signers s"
    "\<not> list_ex (\<lambda>(seen, recent). recent = c_signer c \<and> seen > Uint64 num - signer_limit s) (Recents s)"
    using m(2) by (auto simp: may_seal_def list_ex_iff split: if_splits)
  ultimately show ?thesis using a assms(2,6) m(1,6) by (simp add: verifySeal_def)
qed

section \<open>Deviations\<close>

text \<open>C20. A header whose number is a positive multiple of 2^64 is accepted without a parent and without a
  valid seal: the zero test looks at the 256-bit number and the rest of the verification at its low
  64 bits, which are those of the genesis block.\<close>

theorem multiple_of_2_64_accepted:
  assumes "h_Number h = Some num" and "num \<noteq> 0" and "Uint64 num = 0" and "c_Epoch c \<noteq> 0"
    and "h_Time h \<le> time_Now P" and "h_Coinbase h = 0" and "h_Nonce h = 0" and "length (h_Extra h) = extraVanity + extraSeal"
    and "h_MixDigest h = 0" and "h_GasLimit h \<le> MaxGasLimit"
  shows "verifyHeader fuel P ch h parents c = Ok (c, None)"
  using assms by (simp add: verifyHeader_def verify_fields_def verifyCascadingFields_def nonceDropVote_def not_less)

text \<open>C22. \<open>Prepare\<close> of APOA takes one from the number of the header it prepares, whenever it gets as far as
  looking up the parent; that of APOS leaves the number alone.\<close>

theorem apoa_prepare_decrements:
  assumes "h_Number h = Some num"
  shows "(Prepare rand fuel P ch h c = Ok (c', h', None) \<longrightarrow> h_Number h' = Some (num - 1)) \<and>
    (apos_Prepare rand fuel P ch h c = Ok (c', h', None) \<longrightarrow> h_Number h' = Some num)"
proof -
  have vote: "h_Number (choose_vote r ps s h) = h_Number h" for r ps s h by (simp add: choose_vote_def Let_def)
  have fields: "when_ok (\<lambda>h'. h_Number h' = h_Number h) (prepare_fields r n c s h)" for r n c s h
    by (auto simp: prepare_fields_def vote Let_def intro!: when_okI)
  have "when_ok (\<lambda>(c', h', e). e = None \<longrightarrow> h_Number h' = Some (if b then num - 1 else num)) (prepare_header b t rand fuel P ch h c)" for b t
    unfolding prepare_header_def Let_def when_ok_simps
    apply (intro allI impI, rule when_ok_all)
    apply (clarsimp split: sum.split)
    apply (intro conjI impI; rule when_ok_mono [OF fields])
    using assms by (auto split: option.split)
  from this [of True] this [of False] show ?thesis by (auto simp: Prepare_def apos_Prepare_def dest: when_okD)
qed

section \<open>Witnesses\<close>

text \<open>A chain with a single signer, whose snapshot is in the cache. The curve recovers the same key from
  every signature.\<close>

lemma encodeSigHeader_ok:
  assumes "SignatureLength \<le> length (h_Extra h)"
  shows "\<exists>msg. encodeSigHeader h = Ok msg"
proof -
  have "nonneg (RBigInt (ToBig x))" for x by (cases x) (simp_all add: ToBig_def)
  then have "nonneg (sig_header h)" by (auto simp: sig_header_def split: option.split)
  then have "write_val (sig_header h) enc_reset \<noteq> None" using write_val_None by blast
  then show ?thesis using assms by (auto simp: encodeSigHeader_def Encode_def)
qed

definition demo_poa :: poa_lib where
  "demo_poa =
     \<lparr>poa_hashes = demo_lib, poa_curve = \<lparr>sec_Sign = (\<lambda>_ _. None), sec_RecoverPubkey = (\<lambda>_ _. Some [4, 7])\<rparr>,
      header_hash = (\<lambda>h. 5), arc_Add = (\<lambda>h s m. m(h \<mapsto> s)), time_Now = 100\<rparr>"

definition demo_apoa :: Apoa where
  "demo_apoa = (Authorize 8 (NewApoa 0 0 Map.empty))\<lparr>c_recents := [5 \<mapsto> newSnapshot 0 5 [8]]\<rparr>"

definition demo_next :: Header where
  "demo_next = (demo_signed 1 97 0 False)\<lparr>h_ParentHash := 5, h_Difficulty := Some 2\<rparr>"

definition demo_chain :: ChainHeaderReader where
  "demo_chain = \<lparr>chain_GetHeader = (\<lambda>h n. Some (demo_signed 0 97 0 False)), chain_GetHeaderByNumber = (\<lambda>n. Some (demo_signed 0 97 0 False))\<rparr>"

lemma demo_snapshot_of: "snapshot 1 demo_poa demo_chain 0 5 [] demo_apoa = Ok (demo_apoa, Inr (newSnapshot 0 5 [8]))"
  by (simp add: snapshot_def demo_apoa_def snap_apply_def demo_poa_def newSnapshot_def Let_def)

theorem engine_returns_witness:
  "verifyHeader 1 demo_poa demo_chain demo_next [] demo_apoa \<noteq> NoFuel \<and> unat (Uint64 1 - 1) < (1 :: nat)"
  using engine_returns [of demo_chain "demo_signed 0 97 0 False" demo_next 1 1 demo_poa "[]" demo_apoa undefined 0 "\<lambda>_ _. None" "[]"]
  by (simp add: demo_chain_def demo_next_def demo_signed_def Uint64_def)

theorem sealed_header_verifies_witness:
  "\<exists>c' h'. Seal 1 demo_poa demo_chain (\<lambda>a msg. Some (replicate 65 1)) demo_next [fresh_tx (TxLegacy undefined)] demo_apoa = Ok (c', Inr h') \<and>
     Author demo_poa h' = Ok (Inr 8) \<and> verifySeal demo_poa False (newSnapshot 0 5 [8]) h' = Ok None"
proof -
  let ?f = "\<lambda>a msg. Some (replicate 65 1)" and ?txs = "[fresh_tx (TxLegacy undefined)]" and ?s = "newSnapshot 0 5 [8]"
  have h: "h_Number demo_next = Some 1" "h_ParentHash demo_next = 5" "h_Difficulty demo_next = Some 2" "length (h_Extra demo_next) = 97"
    by (simp_all add: demo_next_def demo_signed_def)
  obtain msg where msg: "encodeSigHeader demo_next = Ok msg"
    using encodeSigHeader_ok [of demo_next] h(4) by (auto simp: SignatureLength_def)
  have may: "may_seal 1 8 ?s = None" by (simp add: may_seal_def newSnapshot_def)
  have sig: "c_signer demo_apoa = 8" "fakeDiff demo_apoa = False" by (simp_all add: demo_apoa_def Authorize_def NewApoa_def)
  obtain h' where seal: "Seal 1 demo_poa demo_chain ?f demo_next ?txs demo_apoa = Ok (demo_apoa, Inr h')"
    using h msg may sig demo_snapshot_of by (simp add: Seal_def Uint64_def extraSeal_def)
  have "signs_for demo_poa ?f 8" by (simp add: signs_for_def demo_poa_def extraSeal_def demo_lib_def)
  moreover have "calcDifficulty ?s 8 = Ok 2" by (simp add: calcDifficulty_def inturn_def snap_signers_def newSnapshot_def diffInTurn_def)
  ultimately show ?thesis
    using sealed_header_verifies [of 1 demo_poa demo_chain ?f demo_next ?txs demo_apoa demo_apoa h' 1 demo_apoa ?s 2] seal h sig demo_snapshot_of
    by (auto simp: Uint64_def newSnapshot_def)
qed

theorem multiple_of_2_64_accepted_witness:
  "verifyHeader 0 demo_poa demo_chain ((demo_signed 0 97 0 False)\<lparr>h_Number := Some (2 ^ 64)\<rparr>) [] demo_apoa = Ok (demo_apoa, None)"
  by (rule multiple_of_2_64_accepted [of _ "2 ^ 64"])
    (simp_all add: demo_signed_def demo_apoa_def NewApoa_def Authorize_def demo_poa_def nonceDropVote_def extraVanity_def extraSeal_def
      epochLength_def MaxGasLimit_def Uint64_def)

theorem apoa_prepare_decrements_witness:
  "\<exists>c' h'. Prepare 0 1 demo_poa demo_chain demo_next demo_apoa = Ok (c', h', None) \<and> h_Number h' = Some 0"
proof -
  have h: "h_Number demo_next = Some 1" "h_ParentHash demo_next = 5" by (simp_all add: demo_next_def demo_signed_def)
  have "calcDifficulty (newSnapshot 0 5 [8]) 8 = Ok 2" by (simp add: calcDifficulty_def inturn_def snap_signers_def newSnapshot_def diffInTurn_def)
  moreover have "c_signer demo_apoa = 8" "c_Epoch demo_apoa = 30000" "c_proposals demo_apoa = []"
    by (simp_all add: demo_apoa_def Authorize_def NewApoa_def epochLength_def)
  ultimately obtain c' h' where "Prepare 0 1 demo_poa demo_chain demo_next demo_apoa = Ok (c', h', None)"
    using h demo_snapshot_of by (simp add: Prepare_def prepare_header_def prepare_fields_def choose_vote_def Uint64_def demo_chain_def)
  then show ?thesis using apoa_prepare_decrements [OF h(1), of 0 1 demo_poa demo_chain demo_apoa c' h'] by auto
qed

end
