(* ===== verification/Rewards.thy ===== *)
theory Rewards
  imports IntraBlockState Rlp Fees Transactions "HOL-Library.List_Lexorder"
begin

text \<open>What the APOS engine adds when a block is finalised: rewards of the verifiers
  (\<^verbatim>\<open>internal/consensus/apos/consensus.go\<close>, \<^verbatim>\<open>reward.go\<close>) and the roots it writes into the header
  (\<^verbatim>\<open>modules/state/intra_block_state.go\<close>). Go maps are maps with the order of their enumeration as an
  argument.\<close>

section \<open>State roots\<close>

definition NilHash :: hash where
  "NilHash = 0xc5d2460186f7233c927e7db2dcc703c0e500b653ca82273b7bfad8045d85a470"

definition root_item :: "StateAccount \<Rightarrow> rval" where
  "root_item d = RList
     [RUint (ucast (Incarnation d)), RUint256 (Some (Balance d)), RUint (Nonce d), RBool (Initialised d),
      RByteArray (hash_bytes (CodeHash d)), RByteArray (hash_bytes (Root d))]"

fun root_bytes :: "lib \<Rightarrow> address list \<Rightarrow> IntraBlockState \<Rightarrow> (IntraBlockState \<times> bytes) res" where
  "root_bytes L [] s = Ok (s, [])"
| "root_bytes L (a # as) s =
     (let s = getStateObject L a s
      in bnd (nonnil (stateObjects s a)) (\<lambda>so.
         bnd (of_opt Impossible (Encode (root_item (data so)))) (\<lambda>b.
         bnd (root_bytes L as s) (\<lambda>(s, bs). Ok (s, b @ bs)))))"

definition GenerateRootHash :: "lib \<Rightarrow> IntraBlockState \<Rightarrow> (IntraBlockState \<times> hash) res" where
  "GenerateRootHash L s =
     (if stateObjectsDirty s = {} then Ok (s, NilHash)
      else bnd (root_bytes L (sorted_list_of_set (stateObjectsDirty s)) s) (\<lambda>(s, bs). Ok (s, keccak L bs)))"

text \<open>The root of the state before the block: the items of the snapshot sorted by key and the new codes
  sorted by hash. \<open>addrs\<close> enumerates the live objects, \<open>keys\<close> the codes.\<close>

definition EncodeBeforeState :: "Item list \<Rightarrow> (hash \<times> bytes) list \<Rightarrow> bytes res" where
  "EncodeBeforeState items codes =
     of_opt Impossible (Encode (RList
       (concat (map (\<lambda>i. [RBytes (Key i), RBytes (Value i)]) items) @
        concat (map (\<lambda>(h, c). [RByteArray (hash_bytes h), RBytes c]) codes))))"

definition BeforeStateRoot :: "lib \<Rightarrow> address list \<Rightarrow> hash list \<Rightarrow> IntraBlockState \<Rightarrow> (IntraBlockState \<times> hash) res" where
  "BeforeStateRoot L addrs keys s =
     (case snap s of
        None \<Rightarrow> Ok (s, 0)
      | Some sn \<Rightarrow>
          if None \<in> set (Items sn) then Panic NilDereference
          else
            let items = sort_key Key (map the (Items sn));
                s = s\<lparr>snap := Some (sn\<lparr>Items := map Some items\<rparr>)\<rparr>
            in bnd (CodeHashes addrs s) (\<lambda>s.
               let m = (case codeMap s of None \<Rightarrow> Map.empty | Some m \<Rightarrow> m);
                   codes = map (\<lambda>h. (h, case m h of Some (Some c) \<Rightarrow> c | _ \<Rightarrow> [])) (sort keys)
               in bnd (EncodeBeforeState items codes) (\<lambda>b. Ok (s, keccak L b))))"

section \<open>Accumulating rewards\<close>

record Reward =
  rewardLimit :: u256
  rewardEpoch :: u256

definition newReward :: "u64 \<Rightarrow> int \<Rightarrow> Reward" where
  "newReward RewardEpoch RewardLimit = \<lparr>rewardLimit = word_of_int RewardLimit, rewardEpoch = ucast RewardEpoch\<rparr>"

text \<open>What the chain knows: the verifiers of a block, where a missing block is nil, the reward per block and
  the largest reward per epoch of a deposit, and the reward that was not paid yet.\<close>

record reward_chain =
  block_verifiers :: "u256 \<Rightarrow> string + address list option"
  GetDepositInfo :: "address \<Rightarrow> u256 option \<times> u256 option"
  GetAccountRewardUnpaid :: "address \<Rightarrow> string + u256 option"

text \<open>Deposits that were looked up are kept in a map, which is left out.\<close>

fun add_verifiers :: "reward_chain \<Rightarrow> address list \<Rightarrow> (address \<rightharpoonup> u256) \<Rightarrow> (address \<rightharpoonup> u256)" where
  "add_verifiers ch [] m = m"
| "add_verifiers ch (v # vs) m =
     (case GetDepositInfo ch v of
        (Some low, Some most) \<Rightarrow>
          add_verifiers ch vs (m(v \<mapsto> Min256 ((case m v of None \<Rightarrow> 0 | Some r \<Rightarrow> r) + low) most))
      | _ \<Rightarrow> add_verifiers ch vs m)"

fun add_blocks ::
  "nat \<Rightarrow> reward_chain \<Rightarrow> u256 \<Rightarrow> u256 \<Rightarrow> (address \<rightharpoonup> u256) \<Rightarrow> (string + (address \<rightharpoonup> u256)) res" where
  "add_blocks 0 ch endNumber currentNr m = NoFuel"
| "add_blocks (Suc fuel) ch endNumber currentNr m =
     (if currentNr \<ge> endNumber then
        (case block_verifiers ch currentNr of
           Inl e \<Rightarrow> Ok (Inl e)
         | Inr block \<Rightarrow>
             bnd (nonnil block) (\<lambda>vs. add_blocks fuel ch endNumber (currentNr - 1) (add_verifiers ch vs m)))
      else Ok (Inr m))"

fun pay_out ::
  "reward_chain \<Rightarrow> u256 \<Rightarrow> address list \<Rightarrow> (address \<rightharpoonup> u256) \<Rightarrow> (address \<rightharpoonup> u256) \<Rightarrow> string + (address \<rightharpoonup> u256) \<times> (address \<rightharpoonup> u256)" where
  "pay_out ch limit [] pay unpay = Inr (pay, unpay)"
| "pay_out ch limit (a # as) pay unpay =
     (case GetAccountRewardUnpaid ch a of
        Inl e \<Rightarrow> Inl e
      | Inr lastSedi \<Rightarrow>
          let amount = (case pay a of None \<Rightarrow> 0 | Some r \<Rightarrow> r) + (case lastSedi of None \<Rightarrow> 0 | Some v \<Rightarrow> v)
          in if amount \<ge> limit then pay_out ch limit as (pay(a \<mapsto> amount)) (unpay(a \<mapsto> 0))
             else pay_out ch limit as (pay(a \<mapsto> 0)) (unpay(a \<mapsto> amount)))"

definition AccumulateRewards ::
  "nat \<Rightarrow> ((address \<rightharpoonup> u256) \<Rightarrow> address list) \<Rightarrow> Reward \<Rightarrow> u256 \<Rightarrow> reward_chain
     \<Rightarrow> (string + (address \<rightharpoonup> u256) \<times> (address \<rightharpoonup> u256)) res" where
  "AccumulateRewards fuel order r number ch =
     bnd (add_blocks fuel ch (number - rewardEpoch r) (number - 1) Map.empty) (\<lambda>x. case x of
       Inl e \<Rightarrow> Ok (Inl e)
     | Inr m \<Rightarrow> Ok (pay_out ch (rewardLimit r) (order m) m Map.empty))"

section \<open>Finalising a block\<close>

definition hex_digit :: "nat \<Rightarrow> u8" where
  "hex_digit n = of_nat (if n < 10 then 48 + n else 87 + n)"

definition address_hex :: "address \<Rightarrow> bytes" where
  "address_hex a = [48, 120] @ concat (map (\<lambda>b. [hex_digit (unat b div 16), hex_digit (unat b mod 16)]) (address_bytes a))"

definition checksumHex :: "lib \<Rightarrow> address \<Rightarrow> bytes" where
  "checksumHex L a =
     (let buf = address_hex a;
          h = hash_bytes (keccak L (drop 2 buf));
          nibble = (\<lambda>i. let b = unat (h ! ((i - 2) div 2)) in if i mod 2 = 0 then b div 16 else b mod 16)
      in map (\<lambda>i. if i \<ge> 2 \<and> buf ! i > 57 \<and> nibble i > 7 then buf ! i - 32 else buf ! i) [0..<length buf])"

text \<open>Rewards are sorted by address text, the largest first.\<close>

definition sort_rewards :: "lib \<Rightarrow> (address \<times> u256) list \<Rightarrow> (address \<times> u256) list" where
  "sort_rewards L rs = rev (sort_key (\<lambda>(a, _). checksumHex L a) rs)"

fun credit_rewards :: "lib \<Rightarrow> (address \<rightharpoonup> u256) \<Rightarrow> address list \<Rightarrow> IntraBlockState \<Rightarrow> IntraBlockState \<times> (address \<times> u256) list" where
  "credit_rewards L pay [] s = (s, [])"
| "credit_rewards L pay (a # as) s =
     (case pay a of
        None \<Rightarrow> credit_rewards L pay as s
      | Some v \<Rightarrow>
          if v > 0 then
            let (s, exist) = Exist L a s;
                s = (if exist then s else CreateAccount L a False s);
                (s, rs) = credit_rewards L pay as (AddBalance L a v s)
            in (s, (a, v) # rs)
          else credit_rewards L pay as s)"

definition isWrongStateRootBlockNumber :: "u256 \<Rightarrow> bool" where
  "isWrongStateRootBlockNumber n \<longleftrightarrow>
     Uint64 n \<in> {1288400, 1299200, 1310000, 1320800, 1331600, 1342400, 1353200, 1364000, 1374800, 1385600, 1396400, 1407200, 1418000,
       1428800, 1439600, 1450400}"

text \<open>\<open>RewardEpoch\<close> and \<open>RewardLimit\<close> are those of the engine configuration; a remainder by zero is zero.\<close>

definition reward_due :: "ChainConfig \<Rightarrow> u64 \<Rightarrow> u256 \<Rightarrow> bool res" where
  "reward_due cc RewardEpoch number =
     (if \<not> isForked (BeijingBlock cc) (Uint64 number) then Ok False
      else bnd (nonnil (BeijingBlock cc)) (\<lambda>beijing.
        Ok ((number - word_of_int beijing) mod ucast RewardEpoch = 0 \<or> RewardEpoch = 0)))"

definition doReward ::
  "nat \<Rightarrow> lib \<Rightarrow> ((address \<rightharpoonup> u256) \<Rightarrow> address list) \<Rightarrow> (IntraBlockState \<Rightarrow> address list) \<Rightarrow> ChainConfig \<Rightarrow> u64 \<Rightarrow> int \<Rightarrow> reward_chain
     \<Rightarrow> Header \<Rightarrow> IntraBlockState \<Rightarrow> (IntraBlockState \<times> (string + (address \<times> u256) list \<times> (address \<rightharpoonup> u256))) res" where
  "doReward fuel L order dirty_order cc RewardEpoch RewardLimit ch header s =
     bnd (nonnil (h_Number header)) (\<lambda>number.
     bnd (reward_due cc RewardEpoch number) (\<lambda>due.
     if \<not> due then Ok (s, Inr ([], Map.empty))
     else bnd (AccumulateRewards fuel order (newReward RewardEpoch RewardLimit) number ch) (\<lambda>r. case r of
       Inl e \<Rightarrow> Ok (s, Inl e)
     | Inr (pay, unpay) \<Rightarrow>
         let (s, rewards) = credit_rewards L pay (order pay) s;
             s = (if isWrongStateRootBlockNumber number then s else SoftFinalise (dirty_order s) s)
         in Ok (s, Inr (sort_rewards L rewards, unpay)))))"

definition apos_Finalize ::
  "nat \<Rightarrow> lib \<Rightarrow> ((address \<rightharpoonup> u256) \<Rightarrow> address list) \<Rightarrow> (IntraBlockState \<Rightarrow> address list) \<Rightarrow> (IntraBlockState \<Rightarrow> address list) \<Rightarrow>
     (IntraBlockState \<Rightarrow> hash list) \<Rightarrow> ChainConfig \<Rightarrow> u64 \<Rightarrow> int \<Rightarrow> reward_chain \<Rightarrow> Header \<Rightarrow> IntraBlockState
     \<Rightarrow> (Header \<times> IntraBlockState \<times> (string + (address \<times> u256) list \<times> (address \<rightharpoonup> u256))) res" where
  "apos_Finalize fuel L order dirty_order objects codes cc RewardEpoch RewardLimit ch header s =
     bnd (doReward fuel L order dirty_order cc RewardEpoch RewardLimit ch header s) (\<lambda>(s, r). case r of
       Inl e \<Rightarrow> Ok (header, s, Inl e)
     | Inr rewards \<Rightarrow>
         bnd (GenerateRootHash L s) (\<lambda>(s, root).
         bnd (BeforeStateRoot L (objects s) (codes s) s) (\<lambda>(s, before).
         Ok (header\<lparr>h_Root := root, h_MixDigest := before\<rparr>, s, Inr rewards))))"

end
