(* ===== verification/RewardProps.thy ===== *)
theory RewardProps
  imports Rewards RlpEncode StateProps
begin

text \<open>The rewards of an epoch are exactly what the verifiers earned, and what the state root covers.\<close>

section \<open>Rewards\<close>












text \<open>The loop counts down to the first block of the epoch and stops below it. When that is block 0 it does
  not stop: the number wraps around, and the block it asks for next is nil.\<close>

lemma add_blocks_from_zero:
  assumes "\<And>i. i \<le> d \<Longrightarrow> block_verifiers ch (of_nat i) = Inr (Some (V i))" and "block_verifiers ch (- 1) = Inr None"
    and "d < 2 ^ 256" and "d + 2 \<le> fuel"
  shows "add_blocks fuel ch 0 (of_nat d) m = Panic NilDereference"
  using assms(1,3,4)
proof (induction d arbitrary: fuel m)
  case 0
  then obtain f where f: "fuel = Suc (Suc f)" using less_iff_Suc_add [of 1 fuel] by (auto simp: numeral_2_eq_2 le_iff_add)
  have "block_verifiers ch 0 = Inr (Some (V 0))" using 0(1) [of 0] by simp
  then show ?case using assms(2) f by simp
next
  case (Suc d)
  then obtain f where f: "fuel = Suc f" by (cases fuel) auto
  have "block_verifiers ch (of_nat (Suc d)) = Inr (Some (V (Suc d)))" using Suc.prems(1) by blast
  moreover have "(of_nat (Suc d) :: u256) - 1 = of_nat d" by simp
  ultimately show ?case using Suc f by (simp del: of_nat_Suc)
qed

section \<open>State roots\<close>

definition loaded_dirty :: "IntraBlockState \<Rightarrow> bool" where
  "loaded_dirty s \<longleftrightarrow> finite (stateObjectsDirty s) \<and> (\<forall>a \<in> stateObjectsDirty s. stateObjects s a \<noteq> None)"

definition dirty_data :: "IntraBlockState \<Rightarrow> StateAccount list" where
  "dirty_data s = map (\<lambda>a. data (the (stateObjects s a))) (sorted_list_of_set (stateObjectsDirty s))"

definition root_text :: "StateAccount \<Rightarrow> bytes" where
  "root_text d = the (Encode (root_item d))"

lemma Encode_root_item: "Encode (root_item d) = Some (root_text d)"
proof -
  have "nonneg (root_item d)" by (simp add: root_item_def)
  then have "write_val (root_item d) enc_reset \<noteq> None" using write_val_None by blast
  then show ?thesis by (auto simp: root_text_def Encode_def)
qed

lemma root_bytes_loaded:
  "(\<And>a. a \<in> set as \<Longrightarrow> stateObjects s a \<noteq> None) \<Longrightarrow>
     root_bytes L as s = Ok (s, concat (map (\<lambda>a. root_text (data (the (stateObjects s a)))) as))"
proof (induction as)
  case (Cons a as)
  obtain so where so: "stateObjects s a = Some so" using Cons.prems [of a] by auto
  then have "getStateObject L a s = s" by (simp add: getStateObject_def)
  then show ?case using so Cons by (simp add: Encode_root_item)
qed simp

lemma GenerateRootHash_loaded:
  assumes "loaded_dirty s"
  shows "GenerateRootHash L s =
    Ok (s, if stateObjectsDirty s = {} then NilHash else keccak L (concat (map root_text (dirty_data s))))"
  using assms root_bytes_loaded [of "sorted_list_of_set (stateObjectsDirty s)" s L]
  by (auto simp: GenerateRootHash_def loaded_dirty_def dirty_data_def comp_def)

text \<open>C21. The state root does not depend on the addresses. It hashes the data of the dirty accounts in the order of
  their addresses and leaves the addresses out: two states in which other accounts are dirty have
  the same root if the sequences of account data agree.\<close>

theorem root_ignores_addresses:
  assumes "loaded_dirty s" and "loaded_dirty s'" and "dirty_data s = dirty_data s'"
  shows "\<exists>h. GenerateRootHash L s = Ok (s, h) \<and> GenerateRootHash L s' = Ok (s', h)"
proof -
  have "stateObjectsDirty s = {} \<longleftrightarrow> dirty_data s = []" "stateObjectsDirty s' = {} \<longleftrightarrow> dirty_data s' = []"
    using assms(1,2) by (auto simp: dirty_data_def loaded_dirty_def)
  then show ?thesis using assms by (simp add: GenerateRootHash_loaded)
qed

definition demo_rich :: "address \<Rightarrow> IntraBlockState" where
  "demo_rich a = (NewState demo_reader)\<lparr>stateObjects := [a \<mapsto> newObject demo_lib a demo_account demo_account], stateObjectsDirty := {a}\<rparr>"

theorem root_ignores_addresses_witness:
  "demo_rich 1 \<noteq> demo_rich 2 \<and> (\<exists>h. GenerateRootHash demo_lib (demo_rich 1) = Ok (demo_rich 1, h) \<and> GenerateRootHash demo_lib (demo_rich 2) = Ok (demo_rich 2, h))"
proof
  have "stateObjectsDirty (demo_rich 1) \<noteq> stateObjectsDirty (demo_rich 2)" by (simp add: demo_rich_def)
  then show "demo_rich 1 \<noteq> demo_rich 2" by metis
  show "\<exists>h. GenerateRootHash demo_lib (demo_rich 1) = Ok (demo_rich 1, h) \<and> GenerateRootHash demo_lib (demo_rich 2) = Ok (demo_rich 2, h)"
    by (rule root_ignores_addresses) (simp_all add: loaded_dirty_def dirty_data_def demo_rich_def newObject_def demo_account_def demo_lib_def Let_def)
qed



end
