(* ===== verification/Absint.thy ===== *)
theory Absint
  imports JumpTable
begin

text \<open>
  The control-flow certificates of \<open>internal/vm\<close>: the abstract values, stacks and states of
  \<open>absint_cfg.go\<close> and the certificate checker of \<open>absint_cfg_proof_check.go\<close>. An abstract
  stack lists its values from the top; an abstract state is a list of stacks without
  duplicates. A certificate gives, for every basic block, the abstract states at its entry and
  its exit, as texts.

  The text of a 256-bit value is written and read by the library of the integers: \<open>unmarshal\<close>
  is its \<open>UnmarshalText\<close> (\<open>None\<close> an error) and \<open>marshal\<close> its \<open>MarshalText\<close>. \<open>log.Fatal\<close> ends
  the process and is the panic \<open>Impossible\<close>. Go strings are byte lists. A pointer of a
  certificate is taken to be set. A map from program counters to \<open>true\<close> is the list of its
  keys without duplicates.
\<close>

section \<open>Values\<close>

text \<open>\<open>AbsValue\<close> is a union tagged by its kind: the program counter belongs to \<open>TopValue\<close> only
  and the word to \<open>ConcreteValue\<close> only.\<close>

datatype AbsValueKind = BotValue | TopValue | InvalidValue | ConcreteValue

fun kind_hash :: "AbsValueKind \<Rightarrow> u64" where
  "kind_hash BotValue = 0"
| "kind_hash TopValue = 1"
| "kind_hash InvalidValue = 2"
| "kind_hash ConcreteValue = 3"

datatype AbsValue = AbsBot | AbsTop int | AbsInvalid | AbsConcrete u256

fun kind :: "AbsValue \<Rightarrow> AbsValueKind" where
  "kind AbsBot = BotValue"
| "kind (AbsTop _) = TopValue"
| "kind AbsInvalid = InvalidValue"
| "kind (AbsConcrete _) = ConcreteValue"

definition AbsValue_Eq :: "AbsValue \<Rightarrow> AbsValue \<Rightarrow> bool" where
  "AbsValue_Eq c0 c1 \<longleftrightarrow>
     (if kind c0 \<noteq> kind c1 then False
      else case (c0, c1) of (AbsConcrete v, AbsConcrete w) \<Rightarrow> v = w | _ \<Rightarrow> True)"

text \<open>The limbs of a 256-bit value, the least significant first.\<close>

definition limb :: "nat \<Rightarrow> u256 \<Rightarrow> u64" where
  "limb i v = ucast (drop_bit (64 * i) v)"

definition uint256Hash :: "u256 \<Rightarrow> u64" where
  "uint256Hash e = 19 * limb 0 e + 23 * limb 1 e + 29 * limb 2 e * 37 * limb 3 e"

definition AbsValue_hash :: "AbsValue \<Rightarrow> u64" where
  "AbsValue_hash c =
     47 * kind_hash (kind c) + (case c of AbsConcrete v \<Rightarrow> 57 * uint256Hash v | _ \<Rightarrow> 0)"

definition top_text :: bytes where
  "top_text = [0xE2, 0x8A, 0xA4]"

definition invalid_text :: bytes where
  "invalid_text = [0x78]"

definition Stringify :: "(u256 \<Rightarrow> bytes) \<Rightarrow> AbsValue \<Rightarrow> bytes res" where
  "Stringify marshal c =
     (case c of
        AbsInvalid \<Rightarrow> Ok invalid_text
      | AbsTop _ \<Rightarrow> Ok top_text
      | AbsConcrete v \<Rightarrow> Ok (marshal v)
      | AbsBot \<Rightarrow> Panic Impossible)"

definition AbsValueDestringify :: "(bytes \<Rightarrow> u256 option) \<Rightarrow> bytes \<Rightarrow> AbsValue res" where
  "AbsValueDestringify unmarshal s =
     (if s = top_text then Ok (AbsTop (- 1))
      else if s = invalid_text then Ok AbsInvalid
      else if take 2 s = [0x30, 0x78]
           then bnd (of_opt Impossible (unmarshal s)) (\<lambda>i. Ok (AbsConcrete i))
      else Panic Impossible)"

section \<open>Stacks\<close>

record astack =
  avalues :: "AbsValue list"
  ahash :: u64

definition stack_hash :: "AbsValue list \<Rightarrow> u64" where
  "stack_hash vs = sum_list (map (\<lambda>(k, e). of_nat k * AbsValue_hash e) (enumerate 0 vs))"

definition updateHash :: "astack \<Rightarrow> astack" where
  "updateHash s = s\<lparr>ahash := stack_hash (avalues s)\<rparr>"

definition newStack :: astack where
  "newStack = updateHash \<lparr>avalues = [], ahash = 0\<rparr>"

definition astack_Push :: "AbsValue \<Rightarrow> astack \<Rightarrow> astack" where
  "astack_Push v s = updateHash (s\<lparr>avalues := v # avalues s\<rparr>)"

definition astack_Pop :: "astack \<Rightarrow> (AbsValue \<times> astack) res" where
  "astack_Pop s =
     (case avalues s of
        [] \<Rightarrow> Panic SliceBounds
      | v # vs \<Rightarrow> Ok (v, updateHash (s\<lparr>avalues := vs\<rparr>)))"

definition astack_Eq :: "astack \<Rightarrow> astack \<Rightarrow> bool" where
  "astack_Eq s s1 \<longleftrightarrow>
     (if ahash s \<noteq> ahash s1 then False
      else if length (avalues s) \<noteq> length (avalues s1) then False
      else list_all (\<lambda>i. AbsValue_Eq (avalues s ! i) (avalues s1 ! i)) [0 ..< length (avalues s)])"

definition hasIndices :: "int list \<Rightarrow> astack \<Rightarrow> bool" where
  "hasIndices is s \<longleftrightarrow> list_all (\<lambda>i. i < int (length (avalues s))) is"

definition value_at :: "int \<Rightarrow> astack \<Rightarrow> AbsValue res" where
  "value_at i s =
     (if 0 \<le> i \<and> i < int (length (avalues s)) then Ok (avalues s ! nat i) else Panic SliceBounds)"

section \<open>States\<close>

record astate =
  stackset :: "astack list"
  anlyCounter :: int
  worklistLen :: int

definition emptyState :: astate where
  "emptyState = \<lparr>stackset = [], anlyCounter = - 1, worklistLen = - 1\<rparr>"

definition botState :: astate where
  "botState = emptyState\<lparr>stackset := [newStack]\<rparr>"

definition astate_Add :: "astack \<Rightarrow> astate \<Rightarrow> astate" where
  "astate_Add s st =
     (if list_ex (\<lambda>existing. astack_Eq existing s) (stackset st) then st
      else st\<lparr>stackset := stackset st @ [s]\<rparr>)"

definition astate_Leq :: "astate \<Rightarrow> astate \<Rightarrow> bool" where
  "astate_Leq st0 st1 \<longleftrightarrow>
     list_all (\<lambda>s0. list_ex (\<lambda>s1. astack_Eq s0 s1) (stackset st1)) (stackset st0)"

definition astate_Eq :: "astate \<Rightarrow> astate \<Rightarrow> bool" where
  "astate_Eq st0 st1 \<longleftrightarrow> astate_Leq st0 st1 \<and> astate_Leq st1 st0"

definition astate_Lub :: "astate \<Rightarrow> astate \<Rightarrow> astate" where
  "astate_Lub st0 st1 = fold astate_Add (stackset st1) (fold astate_Add (stackset st0) emptyState)"

section \<open>Certificates\<close>

record CfgProofState =
  st_Pc :: int
  Stacks :: "bytes list list"

record CfgProofBlock =
  Entry :: CfgProofState
  Exit :: CfgProofState
  Preds :: "int list"
  Succs :: "int list"

record CfgProof =
  Blocks :: "CfgProofBlock list"

definition isValid :: "CfgProof \<Rightarrow> bool" where
  "isValid p = True"

fun each :: "('a \<Rightarrow> 'b res) \<Rightarrow> 'a list \<Rightarrow> 'b list res" where
  "each f [] = Ok []"
| "each f (x # xs) = bnd (f x) (\<lambda>y. bnd (each f xs) (\<lambda>ys. Ok (y # ys)))"

definition StringifyAState :: "(u256 \<Rightarrow> bytes) \<Rightarrow> astate \<Rightarrow> bytes list list res" where
  "StringifyAState marshal st = each (\<lambda>s. each (Stringify marshal) (avalues s)) (stackset st)"

fun into_stacks :: "(bytes \<Rightarrow> u256 option) \<Rightarrow> bytes list list \<Rightarrow> astate \<Rightarrow> astate res" where
  "into_stacks unmarshal [] st = Ok st"
| "into_stacks unmarshal (stack # ststr) st =
     bnd (each (AbsValueDestringify unmarshal) stack) (\<lambda>vs.
     into_stacks unmarshal ststr (astate_Add (updateHash \<lparr>avalues = vs, ahash = 0\<rparr>) st))"

definition intoAState :: "(bytes \<Rightarrow> u256 option) \<Rightarrow> bytes list list \<Rightarrow> astate res" where
  "intoAState unmarshal ststr = into_stacks unmarshal ststr \<lparr>stackset = [], anlyCounter = 0, worklistLen = 0\<rparr>"

section \<open>Abstract semantics\<close>

record CfgOpSem =
  sem_isPush :: bool
  sem_isDup :: bool
  sem_isSwap :: bool
  sem_numBytes :: int
  sem_opNum :: int
  sem_numPush :: int
  sem_numPop :: int

type_synonym CfgAbsSem = "OpCode \<Rightarrow> CfgOpSem option"

definition opSem :: "operation \<Rightarrow> CfgOpSem" where
  "opSem op =
     \<lparr>sem_isPush = isPush op, sem_isDup = isDup op, sem_isSwap = isSwap op,
      sem_numBytes = (if isPush op then opNum op + 1 else 1),
      sem_opNum = opNum op, sem_numPush = numPush op, sem_numPop = numPop op\<rparr>"

definition table_sem :: "JumpTable \<Rightarrow> CfgAbsSem" where
  "table_sem jt = (\<lambda>c. map_option opSem (jt c))"

definition NewCfgAbsSem :: "CfgAbsSem res" where
  "NewCfgAbsSem = bnd newIstanbulInstructionSet (\<lambda>jt. Ok (table_sem jt))"

definition getPushValue :: "bytes \<Rightarrow> int \<Rightarrow> CfgOpSem \<Rightarrow> u256 res" where
  "getPushValue code0 pc0 opsem0 =
     (let codeLen = int (length code0);
          pushByteSize = sem_opNum opsem0;
          startMin = (if pc0 + 1 \<ge> codeLen then codeLen else pc0 + 1);
          endMin = (if startMin + pushByteSize \<ge> codeLen then codeLen else startMin + pushByteSize)
      in if 0 \<le> startMin \<and> startMin \<le> endMin
         then bnd (of_opt SliceBounds (slice code0 (nat startMin) (nat endMin))) (\<lambda>d. Ok (SetBytes d))
         else Panic SliceBounds)"

definition isJumpDest :: "bytes \<Rightarrow> u256 \<Rightarrow> bool" where
  "isJumpDest code0 v \<longleftrightarrow>
     (if \<not> IsUint64 v then False
      else if unat (Uint64 v) \<ge> length code0 then False
      else code0 ! unat (Uint64 v) = JUMPDEST)"

definition isFF :: "u256 \<Rightarrow> bool" where
  "isFF u \<longleftrightarrow> IsUint64 u \<and> Uint64 u = 4294967295"

definition opcode_at :: "bytes \<Rightarrow> int \<Rightarrow> OpCode res" where
  "opcode_at code0 pc0 =
     (if 0 \<le> pc0 \<and> pc0 < int (length code0) then Ok (code0 ! nat pc0) else Panic SliceBounds)"

text \<open>The jump edges: \<open>None\<close> when a stack has an unknown target on top.\<close>

fun jump_edges :: "bytes \<Rightarrow> astack list \<Rightarrow> int list \<Rightarrow> int list option" where
  "jump_edges code0 [] succs = Some succs"
| "jump_edges code0 (s # ss) succs =
     (if hasIndices [0] s then
        case avalues s ! 0 of
          AbsTop _ \<Rightarrow> None
        | AbsConcrete v \<Rightarrow>
            jump_edges code0 ss
              (if isJumpDest code0 v then List.insert (go_int (Uint64 v)) succs else succs)
        | _ \<Rightarrow> jump_edges code0 ss succs
      else jump_edges code0 ss succs)"

definition resolveCheck ::
  "CfgAbsSem \<Rightarrow> bytes \<Rightarrow> astate \<Rightarrow> int \<Rightarrow> (int list \<times> int list) option res" where
  "resolveCheck sem code0 st0 pc0 =
     bnd (opcode_at code0 pc0) (\<lambda>opcode.
     case sem opcode of
       None \<Rightarrow> Ok (Some ([], []))
     | Some opsem \<Rightarrow>
         (case (if opcode = JUMP \<or> opcode = JUMPI then jump_edges code0 (stackset st0) [] else Some []) of
            None \<Rightarrow> Ok None
          | Some jumps \<Rightarrow>
              Ok (Some
                (if opcode \<noteq> JUMP \<and> pc0 < int (length code0) - sem_numBytes opsem
                 then List.insert (pc0 + sem_numBytes opsem) jumps else jumps,
                 jumps))))"

text \<open>Along a jump edge, a stack whose top is another target is dropped.\<close>

definition off_edge :: "astack \<Rightarrow> int \<Rightarrow> bool \<Rightarrow> bool" where
  "off_edge s pc1 isJump \<longleftrightarrow>
     isJump \<and>
       (if \<not> hasIndices [0] s then True
        else case avalues s ! 0 of AbsConcrete v \<Rightarrow> IsUint64 v \<and> go_int (Uint64 v) \<noteq> pc1 | _ \<Rightarrow> False)"

fun pop_times :: "nat \<Rightarrow> astack \<Rightarrow> astack res" where
  "pop_times 0 s = Ok s"
| "pop_times (Suc n) s = bnd (astack_Pop s) (\<lambda>(_, s). pop_times n s)"

text \<open>The effect of one instruction on one stack; \<open>None\<close> where the instruction would underflow.
  \<open>isdest\<close> recognises jump destinations and \<open>pushed\<close> is the operand of a push.\<close>

definition post_stack ::
  "(u256 \<Rightarrow> bool) \<Rightarrow> CfgOpSem \<Rightarrow> OpCode \<Rightarrow> int \<Rightarrow> u256 res \<Rightarrow> astack \<Rightarrow> astack option res" where
  "post_stack isdest opsem0 op0 pc0 pushed stack0 =
     (if sem_isPush opsem0 then
        bnd pushed (\<lambda>v.
        Ok (Some (astack_Push (if isdest v \<or> isFF v then AbsConcrete v else AbsInvalid) stack0)))
      else if sem_isDup opsem0 then
        if \<not> hasIndices [sem_opNum opsem0 - 1] stack0 then Ok None
        else bnd (value_at (sem_opNum opsem0 - 1) stack0) (\<lambda>v. Ok (Some (astack_Push v stack0)))
      else if sem_isSwap opsem0 then
        if \<not> hasIndices [0, sem_opNum opsem0] stack0 then Ok None
        else
          bnd (value_at 0 stack0) (\<lambda>a. bnd (value_at (sem_opNum opsem0) stack0) (\<lambda>b.
          Ok (Some (updateHash (stack0\<lparr>avalues := (avalues stack0)[0 := b, nat (sem_opNum opsem0) := a]\<rparr>)))))
      else if op0 = AND then
        if \<not> hasIndices [0, 1] stack0 then Ok None
        else
          bnd (astack_Pop stack0) (\<lambda>(a, s). bnd (astack_Pop s) (\<lambda>(b, s).
          Ok (Some (astack_Push
            (case (a, b) of (AbsConcrete v, AbsConcrete w) \<Rightarrow> AbsConcrete (and v w) | _ \<Rightarrow> AbsTop pc0) s))))
      else if op0 = PC then
        Ok (Some (astack_Push (AbsConcrete (SetUint64 (of_int pc0))) stack0))
      else if \<not> hasIndices [sem_numPop opsem0 - 1] stack0 then Ok None
      else
        bnd (pop_times (nat (sem_numPop opsem0)) stack0) (\<lambda>s.
        Ok (Some (updateHash ((astack_Push (AbsTop pc0) ^^ nat (sem_numPush opsem0)) s)))))"

fun post_stacks :: "(astack \<Rightarrow> astack option res) \<Rightarrow> int \<Rightarrow> bool \<Rightarrow> astack list \<Rightarrow> astate \<Rightarrow> astate res" where
  "post_stacks f pc1 isJump [] st1 = Ok st1"
| "post_stacks f pc1 isJump (s # ss) st1 =
     (if off_edge s pc1 isJump then post_stacks f pc1 isJump ss st1
      else bnd (f s) (\<lambda>r.
        post_stacks f pc1 isJump ss (case r of None \<Rightarrow> st1 | Some s1 \<Rightarrow> astate_Add s1 st1)))"

definition postCheck :: "CfgAbsSem \<Rightarrow> bytes \<Rightarrow> astate \<Rightarrow> int \<Rightarrow> int \<Rightarrow> bool \<Rightarrow> astate res" where
  "postCheck sem code0 st0 pc0 pc1 isJump =
     bnd (opcode_at code0 pc0) (\<lambda>op0.
     post_stacks
       (\<lambda>s. bnd (of_opt NilDereference (sem op0)) (\<lambda>opsem0.
          post_stack (isJumpDest code0) opsem0 op0 pc0 (getPushValue code0 pc0 opsem0) s))
       pc1 isJump (stackset st0) emptyState)"

section \<open>The checker\<close>

type_synonym preLub = "int \<Rightarrow> astate list"

fun add_posts :: "(int \<Rightarrow> astate res) \<Rightarrow> int list \<Rightarrow> preLub \<Rightarrow> preLub res" where
  "add_posts f [] pre = Ok pre"
| "add_posts f (pc1 # succs) pre = bnd (f pc1) (\<lambda>st. add_posts f succs (pre(pc1 := pre pc1 @ [st])))"

text \<open>The walk through a block from \<open>pc0\<close>; \<open>None\<close> where the checker returns false.\<close>

function check_block ::
  "(bytes \<Rightarrow> u256 option) \<Rightarrow> CfgAbsSem \<Rightarrow> bytes \<Rightarrow> CfgProofBlock \<Rightarrow> astate \<Rightarrow> int \<Rightarrow> preLub \<Rightarrow> preLub option res" where
  "check_block unmarshal sem code0 block st pc0 pre =
     (if \<not> pc0 \<le> st_Pc (Exit block) then Ok (Some pre)
      else
        bnd (if pc0 = st_Pc (Exit block)
             then bnd (intoAState unmarshal (Stacks (Exit block))) (\<lambda>ex. Ok (astate_Eq st ex))
             else Ok True) (\<lambda>same.
        if \<not> same then Ok None
        else bnd (resolveCheck sem code0 st pc0) (\<lambda>r.
          case r of
            None \<Rightarrow> Ok None
          | Some (succs, jumps) \<Rightarrow>
              if pc0 = st_Pc (Exit block) then
                if set succs \<noteq> set (Succs block) then Ok None
                else bnd (add_posts (\<lambda>pc1. postCheck sem code0 st pc0 pc1 (pc1 \<in> set jumps)) succs pre)
                       (\<lambda>pre. Ok (Some pre))
              else if length succs \<noteq> 1 then Ok None
              else if pc0 \<ge> hd succs \<or> hd succs > st_Pc (Exit block) then Ok None
              else bnd (postCheck sem code0 st pc0 (hd succs) False) (\<lambda>st1.
                     check_block unmarshal sem code0 block st1 (hd succs) pre))))"
  by pat_completeness auto

termination
  by (relation "measure (\<lambda>(unmarshal, sem, code0, block, st, pc0, pre). nat (st_Pc (Exit block) + 1 - pc0))") auto

declare check_block.simps [simp del]

fun check_blocks ::
  "(bytes \<Rightarrow> u256 option) \<Rightarrow> CfgAbsSem \<Rightarrow> bytes \<Rightarrow> CfgProofBlock list \<Rightarrow> preLub \<Rightarrow> preLub option res" where
  "check_blocks unmarshal sem code0 [] pre = Ok (Some pre)"
| "check_blocks unmarshal sem code0 (block # bs) pre =
     bnd (intoAState unmarshal (Stacks (Entry block))) (\<lambda>st.
     bnd (check_block unmarshal sem code0 block st (st_Pc (Entry block)) pre) (\<lambda>r.
     case r of None \<Rightarrow> Ok None | Some pre \<Rightarrow> check_blocks unmarshal sem code0 bs pre))"

definition inferredEntry :: "preLub \<Rightarrow> CfgProofBlock \<Rightarrow> astate" where
  "inferredEntry pre block =
     (if st_Pc (Entry block) = 0 then botState
      else fold (\<lambda>preSt lub. astate_Lub lub preSt) (pre (st_Pc (Entry block))) emptyState)"

fun check_entries :: "(bytes \<Rightarrow> u256 option) \<Rightarrow> preLub \<Rightarrow> CfgProofBlock list \<Rightarrow> bool res" where
  "check_entries unmarshal pre [] = Ok True"
| "check_entries unmarshal pre (block # bs) =
     bnd (intoAState unmarshal (Stacks (Entry block))) (\<lambda>st.
     if \<not> astate_Eq (inferredEntry pre block) st then Ok False
     else check_entries unmarshal pre bs)"

definition CheckCfg :: "(bytes \<Rightarrow> u256 option) \<Rightarrow> bytes \<Rightarrow> CfgProof \<Rightarrow> bool res" where
  "CheckCfg unmarshal code0 p =
     bnd NewCfgAbsSem (\<lambda>sem.
     if \<not> isValid p then Ok False
     else bnd (check_blocks unmarshal sem code0 (Blocks p) (\<lambda>_. [])) (\<lambda>r.
       case r of None \<Rightarrow> Ok False | Some pre \<Rightarrow> check_entries unmarshal pre (Blocks p)))"

end
