(* ===== verification/AbsintSound.thy ===== *)
theory AbsintSound
  imports Absint
begin

text \<open>
  The soundness of the certificate checker. \<open>moves\<close> is what a contract can do at the level of
  program counters and operand stacks; an abstract stack covers the concrete stacks it stands
  for. Every edge the checker resolves and every state it computes covers the moves, so an
  accepted certificate covers every state a contract reaches.
\<close>

section \<open>Moves\<close>

text \<open>An instruction with no rule of its own replaces its operands by results of any value.\<close>

inductive moves :: "CfgAbsSem \<Rightarrow> bytes \<Rightarrow> int \<times> u256 list \<Rightarrow> int \<times> u256 list \<Rightarrow> bool"
  for sem :: CfgAbsSem and code0 :: bytes where
  Push: "opcode_at code0 p = Ok c \<Longrightarrow> sem c = Some s \<Longrightarrow> sem_isPush s \<Longrightarrow> getPushValue code0 p s = Ok v \<Longrightarrow>
     p + sem_numBytes s < int (length code0) \<Longrightarrow> moves sem code0 (p, k) (p + sem_numBytes s, v # k)"
| Dup: "opcode_at code0 p = Ok c \<Longrightarrow> sem c = Some s \<Longrightarrow> sem_isDup s \<Longrightarrow> sem_opNum s = int n \<Longrightarrow> 1 \<le> n \<Longrightarrow> n \<le> length k \<Longrightarrow>
     p + 1 < int (length code0) \<Longrightarrow> moves sem code0 (p, k) (p + 1, k ! (n - 1) # k)"
| Swap: "opcode_at code0 p = Ok c \<Longrightarrow> sem c = Some s \<Longrightarrow> sem_isSwap s \<Longrightarrow> sem_opNum s = int n \<Longrightarrow> n < length k \<Longrightarrow>
     p + 1 < int (length code0) \<Longrightarrow> moves sem code0 (p, k) (p + 1, k[0 := k ! n, n := k ! 0])"
| And: "opcode_at code0 p = Ok AND \<Longrightarrow> p + 1 < int (length code0) \<Longrightarrow>
     moves sem code0 (p, a # b # k) (p + 1, and a b # k)"
| Pc: "opcode_at code0 p = Ok PC \<Longrightarrow> p + 1 < int (length code0) \<Longrightarrow>
     moves sem code0 (p, k) (p + 1, SetUint64 (of_int p) # k)"
| Jump: "opcode_at code0 p = Ok JUMP \<Longrightarrow> isJumpDest code0 d \<Longrightarrow> moves sem code0 (p, d # k) (uint d, k)"
| Jumpi: "opcode_at code0 p = Ok JUMPI \<Longrightarrow> isJumpDest code0 d \<Longrightarrow> moves sem code0 (p, d # x # k) (uint d, k)"
| Fall: "opcode_at code0 p = Ok JUMPI \<Longrightarrow> p + 1 < int (length code0) \<Longrightarrow> moves sem code0 (p, d # x # k) (p + 1, k)"
| Other: "opcode_at code0 p = Ok c \<Longrightarrow> c \<notin> {JUMP, JUMPI, AND, PC} \<Longrightarrow> sem c = Some s \<Longrightarrow>
     \<not> sem_isPush s \<Longrightarrow> \<not> sem_isDup s \<Longrightarrow> \<not> sem_isSwap s \<Longrightarrow>
     sem_numPop s = int (length xs) \<Longrightarrow> sem_numPush s = int (length ys) \<Longrightarrow>
     p + 1 < int (length code0) \<Longrightarrow> moves sem code0 (p, xs @ k) (p + 1, ys @ k)"

text \<open>What the checker's table has to say of the instructions with a rule of their own.\<close>

definition plain :: "nat \<Rightarrow> CfgOpSem \<Rightarrow> bool" where
  "plain n s \<longleftrightarrow> \<not> sem_isPush s \<and> \<not> sem_isDup s \<and> \<not> sem_isSwap s \<and> sem_numPop s = int n \<and> sem_numPush s = 0"

definition sem_wf :: "CfgAbsSem \<Rightarrow> bool" where
  "sem_wf sem \<longleftrightarrow>
     (\<forall>c s. sem c = Some s \<longrightarrow> \<not> (sem_isPush s \<and> (sem_isDup s \<or> sem_isSwap s)) \<and> \<not> (sem_isDup s \<and> sem_isSwap s) \<and>
        (\<not> sem_isPush s \<longrightarrow> sem_numBytes s = 1) \<and>
        (sem_isPush s \<or> sem_isDup s \<or> sem_isSwap s \<longrightarrow> c \<notin> {JUMP, JUMPI, AND, PC})) \<and>
     (\<exists>s. sem JUMP = Some s \<and> plain 1 s) \<and> (\<exists>s. sem JUMPI = Some s \<and> plain 2 s) \<and>
     sem AND \<noteq> None \<and> sem PC \<noteq> None"

section \<open>Covering\<close>

fun covers_value :: "bytes \<Rightarrow> AbsValue \<Rightarrow> u256 \<Rightarrow> bool" where
  "covers_value code0 AbsBot v = False"
| "covers_value code0 (AbsTop _) v = True"
| "covers_value code0 AbsInvalid v = (\<not> isJumpDest code0 v)"
| "covers_value code0 (AbsConcrete w) v = (v = w)"

definition covers_stack :: "bytes \<Rightarrow> astack \<Rightarrow> u256 list \<Rightarrow> bool" where
  "covers_stack code0 s k = list_all2 (covers_value code0) (avalues s) k"

definition covers_state :: "bytes \<Rightarrow> astate \<Rightarrow> u256 list \<Rightarrow> bool" where
  "covers_state code0 st k = list_ex (\<lambda>s. covers_stack code0 s k) (stackset st)"

lemma covers_hash [simp]: "covers_stack code0 (updateHash s) k = covers_stack code0 s k"
  by (simp add: covers_stack_def updateHash_def)

lemma covers_Push [simp]:
  "covers_stack code0 (astack_Push a s) (v # k) \<longleftrightarrow> covers_value code0 a v \<and> covers_stack code0 s k"
  by (simp add: covers_stack_def astack_Push_def updateHash_def)

lemma covers_value_Eq: "AbsValue_Eq a b \<Longrightarrow> covers_value code0 a v \<Longrightarrow> covers_value code0 b v"
  by (cases a; cases b) (auto simp: AbsValue_Eq_def)

lemma covers_stack_Eq: "astack_Eq s s1 \<Longrightarrow> covers_stack code0 s k \<Longrightarrow> covers_stack code0 s1 k"
  by (auto simp: astack_Eq_def covers_stack_def list_all2_conv_all_nth list_all_iff split: if_splits)
    (metis atLeastLessThan_iff covers_value_Eq zero_le)

lemma AbsValue_Eq_sym: "AbsValue_Eq a b = AbsValue_Eq b a"
  by (cases a; cases b) (auto simp: AbsValue_Eq_def)

lemma astack_Eq_sym: "astack_Eq s t = astack_Eq t s"
  by (auto simp: astack_Eq_def AbsValue_Eq_sym)

lemma covers_Add:
  "covers_state code0 (astate_Add s st) k \<longleftrightarrow> covers_state code0 st k \<or> covers_stack code0 s k"
  by (auto simp: covers_state_def astate_Add_def list_ex_iff) (metis astack_Eq_sym covers_stack_Eq)

lemma covers_fold_Add:
  "covers_state code0 (fold astate_Add ss st) k \<longleftrightarrow>
     covers_state code0 st k \<or> list_ex (\<lambda>s. covers_stack code0 s k) ss"
  by (induction ss arbitrary: st) (auto simp: covers_Add)

lemma covers_empty [simp]: "\<not> covers_state code0 emptyState k"
  by (simp add: covers_state_def emptyState_def)

lemma covers_bot [simp]: "covers_state code0 botState k \<longleftrightarrow> k = []"
  by (simp add: covers_state_def botState_def newStack_def covers_stack_def updateHash_def)

lemma covers_Lub:
  "covers_state code0 (astate_Lub a b) k \<longleftrightarrow> covers_state code0 a k \<or> covers_state code0 b k"
  by (simp add: astate_Lub_def covers_fold_Add) (simp add: covers_state_def)

lemma covers_Leq: "astate_Leq a b \<Longrightarrow> covers_state code0 a k \<Longrightarrow> covers_state code0 b k"
  by (auto simp: astate_Leq_def covers_state_def list_all_iff list_ex_iff) (metis covers_stack_Eq)

lemma covers_Eq: "astate_Eq a b \<Longrightarrow> covers_state code0 a k = covers_state code0 b k"
  by (auto simp: astate_Eq_def dest: covers_Leq)

lemma covers_lubs:
  "covers_state code0 (fold (\<lambda>p lub. astate_Lub lub p) ps st) k \<longleftrightarrow>
     covers_state code0 st k \<or> (\<exists>p\<in>set ps. covers_state code0 p k)"
  by (induction ps arbitrary: st) (auto simp: covers_Lub)

section \<open>One instruction\<close>

lemma covers_length: "covers_stack code0 s k \<Longrightarrow> length (avalues s) = length k"
  by (simp add: covers_stack_def list_all2_lengthD)

lemma covers_Pop:
  assumes "covers_stack code0 s (v # k)"
  obtains a s1 where "astack_Pop s = Ok (a, s1)" "covers_value code0 a v" "covers_stack code0 s1 k"
  using assms by (auto simp: covers_stack_def astack_Pop_def updateHash_def list_all2_Cons2)

lemma covers_pop_times:
  "covers_stack code0 s (xs @ k) \<Longrightarrow> \<exists>s1. pop_times (length xs) s = Ok s1 \<and> covers_stack code0 s1 k"
proof (induction xs arbitrary: s)
  case (Cons x xs)
  then obtain a s1 where "astack_Pop s = Ok (a, s1)" "covers_stack code0 s1 (xs @ k)"
    by (auto elim: covers_Pop)
  then show ?case using Cons.IH by simp
qed simp

lemma covers_push_tops:
  "covers_stack code0 s k \<Longrightarrow> covers_stack code0 ((astack_Push (AbsTop q) ^^ length ys) s) (ys @ k)"
  by (induction ys) simp_all

lemma covers_generic:
  assumes "covers_stack code0 s (xs @ k)" and "c \<notin> {AND, PC}"
    and "\<not> sem_isPush o0" "\<not> sem_isDup o0" "\<not> sem_isSwap o0"
    and "sem_numPop o0 = int (length xs)" "sem_numPush o0 = int (length ys)"
  shows "\<exists>s1. post_stack isdest o0 c p v s = Ok (Some s1) \<and> covers_stack code0 s1 (ys @ k)"
proof -
  obtain s1 where "pop_times (length xs) s = Ok s1" "covers_stack code0 s1 k"
    using covers_pop_times [OF assms(1)] by auto
  moreover have "hasIndices [int (length xs) - 1] s"
    using covers_length [OF assms(1)] by (simp add: hasIndices_def)
  ultimately show ?thesis using assms(2-7) covers_push_tops [of code0 s1 k ys p] by (simp add: post_stack_def)
qed

lemma covers_nth:
  "covers_stack code0 s k \<Longrightarrow> n < length k \<Longrightarrow>
     value_at (int n) s = Ok (avalues s ! n) \<and> covers_value code0 (avalues s ! n) (k ! n)"
  by (simp add: covers_stack_def value_at_def list_all2_conv_all_nth)

lemma covers_swap:
  assumes "covers_stack code0 s k" and "n < length k"
  shows "covers_stack code0 (s\<lparr>avalues := (avalues s)[0 := avalues s ! n, n := avalues s ! 0]\<rparr>) (k[0 := k ! n, n := k ! 0])"
proof -
  have "0 < length k" using assms(2) by linarith
  then show ?thesis using assms unfolding covers_stack_def
    by (auto intro!: list_all2_update_cong intro: list_all2_nthD2)
qed

text \<open>Whatever the instruction, the effect on a covering stack covers the effect on the stack.\<close>

lemma post_stack_sound:
  assumes "moves sem code0 (p, k) (p', k')" and "sem_wf sem" and "covers_stack code0 s k"
    and "opcode_at code0 p = Ok c" and "sem c = Some o0"
  shows "\<exists>s1. post_stack (isJumpDest code0) o0 c p (getPushValue code0 p o0) s = Ok (Some s1) \<and> covers_stack code0 s1 k'"
  using assms(1)
proof cases
  case (Push c' o1 v)
  with assms(3-5) show ?thesis by (simp add: post_stack_def)
next
  case (Dup c' o1 n)
  with assms(2-5) have "\<not> sem_isPush o0" by (auto simp: sem_wf_def)
  with Dup assms(3-5) covers_nth [OF assms(3), of "n - 1"] show ?thesis
    by (simp add: post_stack_def hasIndices_def covers_length [OF assms(3)] of_nat_diff)
next
  case (Swap c' o1 n)
  with assms(2-5) have "\<not> sem_isPush o0" "\<not> sem_isDup o0" "0 < length k" by (auto simp: sem_wf_def)
  with Swap assms(3-5) covers_nth [OF assms(3), of n] covers_nth [OF assms(3), of 0] covers_swap [OF assms(3)] show ?thesis
    by (simp add: post_stack_def hasIndices_def covers_length [OF assms(3)])
next
  case (And a b r)
  with assms(2,4,5) have flags: "\<not> sem_isPush o0" "\<not> sem_isDup o0" "\<not> sem_isSwap o0" "c = AND" by (auto simp: sem_wf_def)
  from And(1) assms(3) obtain x y s1 s2 where "astack_Pop s = Ok (x, s1)" "astack_Pop s1 = Ok (y, s2)"
    "covers_value code0 x a" "covers_value code0 y b" "covers_stack code0 s2 r"
    by (metis covers_Pop)
  with flags And(1,3) covers_length [OF assms(3)] show ?thesis
    by (cases x; cases y) (auto simp: post_stack_def hasIndices_def)
next
  case Pc
  with assms(2-5) have "\<not> sem_isPush o0" "\<not> sem_isDup o0" "\<not> sem_isSwap o0" "c = PC" by (auto simp: sem_wf_def)
  with Pc assms(3) show ?thesis by (simp add: post_stack_def opcode_defs)
next
  case (Jump d)
  with assms(2,4,5) have "plain 1 o0" "c \<notin> {AND, PC}" by (auto simp: sem_wf_def opcode_defs)
  with Jump assms(3) covers_generic [of code0 s "[d]" k' c o0 "[]"] show ?thesis by (simp add: plain_def)
next
  case (Jumpi d x)
  with assms(2,4,5) have "plain 2 o0" "c \<notin> {AND, PC}" by (auto simp: sem_wf_def opcode_defs)
  with Jumpi assms(3) covers_generic [of code0 s "[d, x]" k' c o0 "[]"] show ?thesis by (simp add: plain_def)
next
  case (Fall d x)
  with assms(2,4,5) have "plain 2 o0" "c \<notin> {AND, PC}" by (auto simp: sem_wf_def opcode_defs)
  with Fall assms(3) covers_generic [of code0 s "[d, x]" k' c o0 "[]"] show ?thesis by (simp add: plain_def)
next
  case (Other c' o1 xs ys r)
  with assms(4,5) covers_generic [of code0 s xs r c o0 ys] assms(3) show ?thesis by simp
qed

section \<open>Edges\<close>

lemma isJumpDest_lt: "isJumpDest code0 d \<Longrightarrow> unat d < length code0 \<and> code0 ! unat d = JUMPDEST"
  by (auto simp: isJumpDest_def unat_Uint64 split: if_splits)

text \<open>A target inside a code of less than \<open>2^63\<close> bytes is the same number as an \<open>int\<close>.\<close>

lemma go_int_dest:
  assumes "isJumpDest code0 d" and "length code0 < 2 ^ 63"
  shows "go_int (Uint64 d) = uint d"
proof -
  have "IsUint64 d" using assms(1) by (auto simp: isJumpDest_def split: if_splits)
  then have u: "unat (Uint64 d) = unat d" by (rule unat_Uint64)
  then have "unat (Uint64 d) < 2 ^ 63" using isJumpDest_lt [OF assms(1)] assms(2) by simp
  then have "go_int (Uint64 d) = int (unat (Uint64 d))" by (rule go_int_small)
  then show ?thesis using u by simp
qed

lemma jump_edges_mono: "jump_edges code0 ss acc = Some js \<Longrightarrow> set acc \<subseteq> set js"
proof (induction ss arbitrary: acc)
  case (Cons s ss)
  then show ?case
    by (auto split: if_splits AbsValue.splits dest!: Cons.IH)
qed simp

lemma jump_edges_cover:
  assumes "jump_edges code0 ss acc = Some js" and "s \<in> set ss" and "covers_stack code0 s (d # k)"
    and "isJumpDest code0 d"
  shows "go_int (Uint64 d) \<in> set js"
  using assms(1,2)
proof (induction ss arbitrary: acc)
  case (Cons t ss)
  show ?case
  proof (cases "t = s")
    case True
    from assms(3) obtain a where a: "avalues s ! 0 = a" "covers_value code0 a d" "hasIndices [0] s"
      by (auto simp: covers_stack_def hasIndices_def list_all2_Cons2)
    with True Cons.prems(1) assms(4) show ?thesis
      by (cases a) (auto dest!: jump_edges_mono)
  next
    case False
    with Cons.prems show ?thesis
      by (auto split: if_splits AbsValue.splits intro: Cons.IH)
  qed
qed simp

lemma jump_edges_dests:
  "jump_edges code0 ss acc = Some js \<Longrightarrow> q \<in> set js \<Longrightarrow> q \<in> set acc \<or> (\<exists>d. isJumpDest code0 d \<and> q = go_int (Uint64 d))"
proof (induction ss arbitrary: acc)
  case (Cons s ss)
  then show ?case
    by (auto split: if_splits AbsValue.splits dest!: Cons.IH)
qed simp

lemma resolve_sound:
  assumes "resolveCheck sem code0 st p = Ok (Some (succs, jumps))" and "moves sem code0 (p, k) (p', k')"
    and "sem_wf sem" and "covers_state code0 st k" and "length code0 < 2 ^ 63"
  shows "p' \<in> set succs"
proof -
  obtain c where c: "opcode_at code0 p = Ok c" using assms(1) by (auto simp: resolveCheck_def bnd_eq_Ok)
  have known: "sem c \<noteq> None" using assms(2) c assms(3) by cases (auto simp: sem_wf_def)
  then obtain o0 where o0: "sem c = Some o0" by auto
  obtain s where s: "s \<in> set (stackset st)" "covers_stack code0 s k"
    using assms(4) by (auto simp: covers_state_def list_ex_iff)
  have fall: "p' \<in> set succs" if "c \<noteq> JUMP" "p' = p + sem_numBytes o0" "p' < int (length code0)"
    using assms(1) c o0 that by (auto simp: resolveCheck_def split: option.splits if_splits)
  have jump: "p' \<in> set succs" if "c \<in> {JUMP, JUMPI}" "isJumpDest code0 d" "p' = uint d" "k = d # r" for d r
    using assms(1) c o0 that s go_int_dest [OF that(2) assms(5)] jump_edges_cover [of code0 "stackset st" "[]" _ s d r]
    by (auto simp: resolveCheck_def split: option.splits if_splits)
  have one: "sem_numBytes o0 = 1" if "\<not> sem_isPush o0" using assms(3) o0 that by (auto simp: sem_wf_def)
  have flags: "\<not> sem_isPush o0" if "sem_isDup o0 \<or> sem_isSwap o0 \<or> c \<in> {JUMP, JUMPI, AND, PC}"
    using assms(3) o0 that unfolding sem_wf_def by blast
  have not_jump: "c \<noteq> JUMP" if "sem_isDup o0 \<or> sem_isSwap o0 \<or> sem_isPush o0 \<or> c \<in> {JUMPI, AND, PC}"
    using assms(3) o0 that unfolding sem_wf_def by (auto simp: opcode_defs)
  from assms(2) show ?thesis
  proof cases
    case (Push c' o1 v)
    then show ?thesis using c o0 fall not_jump by auto
  next
    case (Other c' o1 xs ys r)
    then show ?thesis using c o0 one fall by auto
  next
    case (Jump d)
    then show ?thesis using c by (intro jump [of d k']) auto
  next
    case (Jumpi d x)
    then show ?thesis using c by (intro jump [of d "x # k'"]) auto
  qed (use c o0 one flags not_jump fall in auto)
qed

lemma post_stacks_mono:
  "post_stacks f q isJump ss st = Ok st' \<Longrightarrow> covers_state code0 st k \<Longrightarrow> covers_state code0 st' k"
  by (induction ss arbitrary: st) (auto simp: bnd_eq_Ok covers_Add split: if_splits option.splits)

lemma post_stacks_cover:
  "post_stacks f q isJump ss st = Ok st' \<Longrightarrow> s \<in> set ss \<Longrightarrow> \<not> off_edge s q isJump \<Longrightarrow> f s = Ok (Some s1) \<Longrightarrow>
     covers_stack code0 s1 k \<Longrightarrow> covers_state code0 st' k"
  by (induction ss arbitrary: st)
    (auto simp: bnd_eq_Ok covers_Add split: if_splits intro: post_stacks_mono)

text \<open>A move along an edge that is marked as a jump goes to the word on top of the stack.\<close>

lemma post_sound:
  assumes "postCheck sem code0 st p p' isJump = Ok st1" and "moves sem code0 (p, k) (p', k')"
    and "sem_wf sem" and "covers_state code0 st k"
    and jump: "isJump \<Longrightarrow> \<exists>d r. k = d # r \<and> go_int (Uint64 d) = p'"
  shows "covers_state code0 st1 k'"
proof -
  obtain c where c: "opcode_at code0 p = Ok c" using assms(1) by (auto simp: postCheck_def bnd_eq_Ok)
  obtain o0 where o0: "sem c = Some o0" using assms(2) c assms(3) by cases (auto simp: sem_wf_def)
  obtain s where s: "s \<in> set (stackset st)" "covers_stack code0 s k"
    using assms(4) by (auto simp: covers_state_def list_ex_iff)
  obtain s1 where s1: "post_stack (isJumpDest code0) o0 c p (getPushValue code0 p o0) s = Ok (Some s1)"
    "covers_stack code0 s1 k'"
    using post_stack_sound [OF assms(2,3) s(2) c o0] by auto
  have "\<not> off_edge s p' isJump"
  proof
    assume off: "off_edge s p' isJump"
    then obtain d r where "k = d # r" "go_int (Uint64 d) = p'" using jump by (auto simp: off_edge_def)
    with s(2) off show False
      by (auto simp: off_edge_def hasIndices_def covers_stack_def list_all2_Cons2 split: AbsValue.splits)
  qed
  with s s1 assms(1) c o0 show ?thesis by (auto simp: postCheck_def elim!: post_stacks_cover)
qed

section \<open>Blocks\<close>

text \<open>No conditional jump is followed by a jump destination, and the code does not start with one.
  The checker does not ask for it; without it a fall-through is mistaken for a jump, or a jump
  back to the start goes unseen.\<close>

definition separated :: "bytes \<Rightarrow> bool" where
  "separated code0 \<longleftrightarrow>
     code0 \<noteq> [] \<and> code0 ! 0 \<noteq> JUMPDEST \<and>
     list_all (\<lambda>i. \<not> (code0 ! i = JUMPI \<and> code0 ! (i + 1) = JUMPDEST)) [0 ..< length code0 - 1]"

lemma add_posts_mono: "add_posts f qs pre = Ok pre' \<Longrightarrow> set (pre q) \<subseteq> set (pre' q)"
proof (induction qs arbitrary: pre)
  case (Cons r qs)
  then obtain st where "add_posts f qs (pre(r := pre r @ [st])) = Ok pre'" by (auto simp: bnd_eq_Ok)
  from Cons.IH [OF this] show ?case by (auto split: if_splits)
qed simp

lemma add_posts_in:
  "add_posts f qs pre = Ok pre' \<Longrightarrow> q \<in> set qs \<Longrightarrow> \<exists>st. f q = Ok st \<and> st \<in> set (pre' q)"
proof (induction qs arbitrary: pre)
  case (Cons r qs)
  then obtain st where st: "f r = Ok st" "add_posts f qs (pre(r := pre r @ [st])) = Ok pre'" by (auto simp: bnd_eq_Ok)
  show ?case
  proof (cases "q = r")
    case True
    then show ?thesis using st add_posts_mono [OF st(2), of r] by auto
  next
    case False
    then show ?thesis using Cons.IH [OF st(2)] Cons.prems(2) by auto
  qed
qed simp

text \<open>What one round of the walk through a block checks, at its exit and before it.\<close>

lemma check_block_exit:
  assumes "check_block U sem code0 b st p pre = Ok (Some pre')" and "p = st_Pc (Exit b)"
  obtains succs jumps where "resolveCheck sem code0 st p = Ok (Some (succs, jumps))" "set succs = set (Succs b)"
    "add_posts (\<lambda>q. postCheck sem code0 st p q (q \<in> set jumps)) succs pre = Ok pre'"
proof -
  obtain ex r where "intoAState U (Stacks (Exit b)) = Ok ex" "resolveCheck sem code0 st p = Ok r"
    using assms by (subst (asm) check_block.simps) (auto simp: bnd_eq_Ok split: if_splits)
  with assms that show ?thesis
    by (subst (asm) check_block.simps) (cases r, auto simp: bnd_eq_Ok split: if_splits)
qed

lemma check_block_inner:
  assumes "check_block U sem code0 b st p pre = Ok (Some pre')" and "p < st_Pc (Exit b)"
  obtains q jumps st1 where "resolveCheck sem code0 st p = Ok (Some ([q], jumps))" "p < q" "q \<le> st_Pc (Exit b)"
    "postCheck sem code0 st p q False = Ok st1" "check_block U sem code0 b st1 q pre = Ok (Some pre')"
proof -
  obtain succs jumps where r: "resolveCheck sem code0 st p = Ok (Some (succs, jumps))" and "length succs = 1"
    and *: "p < hd succs" "hd succs \<le> st_Pc (Exit b)"
      "bnd (postCheck sem code0 st p (hd succs) False) (\<lambda>st1. check_block U sem code0 b st1 (hd succs) pre) = Ok (Some pre')"
    using assms by (subst (asm) check_block.simps) (auto simp: bnd_eq_Ok split: if_splits option.splits)
  then obtain q where "succs = [q]" by (cases succs) auto
  with r * that show ?thesis by (auto simp: bnd_eq_Ok)
qed

lemma check_block_mono:
  "check_block U sem code0 b st p pre = Ok (Some pre') \<Longrightarrow> set (pre q) \<subseteq> set (pre' q)"
proof (induction U sem code0 b st p pre rule: check_block.induct)
  case (1 U sem code0 b st p pre)
  consider "st_Pc (Exit b) < p" | "p = st_Pc (Exit b)" | "p < st_Pc (Exit b)" by linarith
  then show ?case
  proof cases
    case 1
    with "1.prems" show ?thesis by (subst (asm) check_block.simps) simp
  next
    case 2
    then show ?thesis using check_block_exit [OF "1.prems"] add_posts_mono by metis
  next
    case 3
    from "1.prems" obtain r jumps st1 where r: "resolveCheck sem code0 st p = Ok (Some ([r], jumps))" "p < r" "r \<le> st_Pc (Exit b)"
      "postCheck sem code0 st p r False = Ok st1" "check_block U sem code0 b st1 r pre = Ok (Some pre')"
      by (rule check_block_inner [OF _ 3])
    show ?thesis by (rule "1.IH" [of True _ "([r], jumps)" "[r]" jumps]) (use 3 r in auto)
  qed
qed

lemma separated_jumpi:
  "separated code0 \<Longrightarrow> opcode_at code0 p = Ok JUMPI \<Longrightarrow> p + 1 < int (length code0) \<Longrightarrow> code0 ! nat (p + 1) \<noteq> JUMPDEST"
  by (auto simp: separated_def opcode_at_def list_all_iff nat_add_distrib split: if_splits)

text \<open>An edge the checker marks as a jump is only taken by jumping.\<close>

lemma marked_is_jump:
  assumes "resolveCheck sem code0 st p = Ok (Some (succs, jumps))" and "moves sem code0 (p, k) (p', k')"
    and "p' \<in> set jumps" and "separated code0" and "length code0 < 2 ^ 63" and "sem_wf sem"
  shows "\<exists>d r. k = d # r \<and> go_int (Uint64 d) = p'"
proof -
  obtain c where c1: "opcode_at code0 p = Ok c" using assms(1) by (auto simp: resolveCheck_def bnd_eq_Ok)
  then have c: "opcode_at code0 p = Ok c" "c \<in> {JUMP, JUMPI}" and js: "jump_edges code0 (stackset st) [] = Some jumps"
    using assms(1,3) by (auto simp: resolveCheck_def split: option.splits if_splits)
  obtain d where d: "isJumpDest code0 d" "p' = go_int (Uint64 d)" using jump_edges_dests [OF js assms(3)] by auto
  then have dest: "code0 ! nat p' = JUMPDEST" using go_int_dest [OF d(1) assms(5)] isJumpDest_lt [OF d(1)] by simp
  have flags: "\<not> sem_isPush o0 \<and> \<not> sem_isDup o0 \<and> \<not> sem_isSwap o0" if "sem c = Some o0" for o0
    using assms(6) c(2) that unfolding sem_wf_def by blast
  from assms(2) show ?thesis
  proof cases
    case (Fall x y)
    then show ?thesis using separated_jumpi [OF assms(4), of p] dest by simp
  qed (use c flags go_int_dest [OF _ assms(5)] in \<open>auto simp: opcode_defs\<close>)
qed

section \<open>Certificates\<close>

text \<open>The conditions the comment on \<open>isValid\<close> lists and the soundness needs: a block starts at 0, no
  block ends before it starts, and every successor is the start of a block.\<close>

definition documented :: "CfgProof \<Rightarrow> bool" where
  "documented p \<longleftrightarrow>
     list_ex (\<lambda>b. st_Pc (Entry b) = 0) (Blocks p) \<and>
     list_all (\<lambda>b. st_Pc (Entry b) \<le> st_Pc (Exit b)) (Blocks p) \<and>
     list_all (\<lambda>b. list_all (\<lambda>q. list_ex (\<lambda>b'. st_Pc (Entry b') = q) (Blocks p)) (Succs b)) (Blocks p)"

lemma check_blocks_each:
  "check_blocks U sem code0 bs pre = Ok (Some preF) \<Longrightarrow>
     (\<forall>q. set (pre q) \<subseteq> set (preF q)) \<and>
     (\<forall>b\<in>set bs. \<exists>st pr pr'. intoAState U (Stacks (Entry b)) = Ok st \<and>
        check_block U sem code0 b st (st_Pc (Entry b)) pr = Ok (Some pr') \<and> (\<forall>q. set (pr' q) \<subseteq> set (preF q)))"
proof (induction bs arbitrary: pre)
  case (Cons b bs)
  then obtain st pre1 where b: "intoAState U (Stacks (Entry b)) = Ok st"
    "check_block U sem code0 b st (st_Pc (Entry b)) pre = Ok (Some pre1)" and bs: "check_blocks U sem code0 bs pre1 = Ok (Some preF)"
    by (auto simp: bnd_eq_Ok split: option.splits)
  note IH = Cons.IH [OF bs]
  have "set (pre q) \<subseteq> set (preF q)" for q using check_block_mono [OF b(2), of q] IH by blast
  then show ?case using IH b by auto
qed simp

lemma check_entries_each:
  "check_entries U preF bs = Ok True \<Longrightarrow> b \<in> set bs \<Longrightarrow>
     \<exists>st. intoAState U (Stacks (Entry b)) = Ok st \<and> astate_Eq (inferredEntry preF b) st"
  by (induction bs) (auto simp: bnd_eq_Ok split: if_splits)

text \<open>A state of the contract is inside a block: the checker walks through the block from there
  with an abstract state that covers the stack.\<close>

definition inside ::
  "(bytes \<Rightarrow> u256 option) \<Rightarrow> CfgAbsSem \<Rightarrow> bytes \<Rightarrow> CfgProof \<Rightarrow> preLub \<Rightarrow> CfgProofBlock \<Rightarrow> int \<times> u256 list \<Rightarrow> bool" where
  "inside U sem code0 p preF b x \<longleftrightarrow>
     b \<in> set (Blocks p) \<and> st_Pc (Entry b) \<le> fst x \<and> fst x \<le> st_Pc (Exit b) \<and>
     (\<exists>st pr pr'. check_block U sem code0 b st (fst x) pr = Ok (Some pr') \<and>
        (\<forall>q. set (pr' q) \<subseteq> set (preF q)) \<and> covers_state code0 st (snd x))"

lemma inside_moves:
  assumes "inside U sem code0 p preF b (q, k)" and "moves sem code0 (q, k) (q', k')"
    and wf: "sem_wf sem" "length code0 < 2 ^ 63" "separated code0"
  shows "q < q' \<and> inside U sem code0 p preF b (q', k') \<or>
     q = st_Pc (Exit b) \<and> q' \<in> set (Succs b) \<and> (\<exists>st\<in>set (preF q'). covers_state code0 st k')"
proof -
  obtain st pr pr' where b: "b \<in> set (Blocks p)" "st_Pc (Entry b) \<le> q" "q \<le> st_Pc (Exit b)"
    and st: "check_block U sem code0 b st q pr = Ok (Some pr')" "\<forall>r. set (pr' r) \<subseteq> set (preF r)" "covers_state code0 st k"
    using assms(1) by (auto simp: inside_def)
  show ?thesis
  proof (cases "q = st_Pc (Exit b)")
    case True
    then obtain succs jumps where r: "resolveCheck sem code0 st q = Ok (Some (succs, jumps))" "set succs = set (Succs b)"
      "add_posts (\<lambda>r. postCheck sem code0 st q r (r \<in> set jumps)) succs pr = Ok pr'"
      by (rule check_block_exit [OF st(1)])
    have q': "q' \<in> set succs" by (rule resolve_sound [OF r(1) assms(2) wf(1) st(3) wf(2)])
    then obtain st1 where st1: "postCheck sem code0 st q q' (q' \<in> set jumps) = Ok st1" "st1 \<in> set (pr' q')"
      using add_posts_in [OF r(3)] by blast
    have "covers_state code0 st1 k'"
      by (rule post_sound [OF st1(1) assms(2) wf(1) st(3)], rule marked_is_jump [OF r(1) assms(2) _ wf(3,2,1)])
    then show ?thesis using True q' r(2) st1(2) st(2) by auto
  next
    case False
    then obtain r jumps st1 where r: "resolveCheck sem code0 st q = Ok (Some ([r], jumps))" "q < r" "r \<le> st_Pc (Exit b)"
      "postCheck sem code0 st q r False = Ok st1" "check_block U sem code0 b st1 r pr = Ok (Some pr')"
      using b(3) check_block_inner [OF st(1)] by (metis order_le_imp_less_or_eq)
    have "q' = r" using resolve_sound [OF r(1) assms(2) wf(1) st(3) wf(2)] by simp
    moreover have "covers_state code0 st1 k'"
      using post_sound [OF _ assms(2) wf(1) st(3)] r(4) calculation by blast
    ultimately show ?thesis using r b st(2) unfolding inside_def by auto
  qed
qed

section \<open>Texts of states\<close>

text \<open>Reading the text of a state back gives the state up to the program counters of unknown values, for states as the
  analysis makes them: no bottom values, and hashes that are up to date.\<close>

definition printable :: "astate \<Rightarrow> bool" where
  "printable st \<longleftrightarrow> list_all (\<lambda>s. AbsBot \<notin> set (avalues s) \<and> ahash s = stack_hash (avalues s)) (stackset st)"

lemma stack_hash_Eq: "list_all2 AbsValue_Eq vs ws \<Longrightarrow> stack_hash vs = stack_hash ws"
proof -
  assume eq: "list_all2 AbsValue_Eq vs ws"
  have "AbsValue_hash a = AbsValue_hash b" if "AbsValue_Eq a b" for a b
    using that by (cases a; cases b) (auto simp: AbsValue_Eq_def AbsValue_hash_def)
  then have "map AbsValue_hash vs = map AbsValue_hash ws"
    using eq by (auto simp: list_all2_conv_all_nth intro!: nth_equalityI)
  moreover have "stack_hash us = sum_list (map (\<lambda>(k, h). of_nat k * h) (enumerate 0 (map AbsValue_hash us)))" for us
    by (auto simp: stack_hash_def enumerate_eq_zip zip_map2 intro!: arg_cong [of _ _ sum_list])
  ultimately show ?thesis by metis
qed

lemma astack_Eq_iff:
  assumes "ahash s = stack_hash (avalues s)" "ahash t = stack_hash (avalues t)"
  shows "astack_Eq s t \<longleftrightarrow> list_all2 AbsValue_Eq (avalues s) (avalues t)"
proof -
  have "list_all2 AbsValue_Eq (avalues s) (avalues t) \<longleftrightarrow> length (avalues s) = length (avalues t) \<and>
      list_all (\<lambda>i. AbsValue_Eq (avalues s ! i) (avalues t ! i)) [0 ..< length (avalues s)]"
    by (auto simp: list_all_iff list_all2_conv_all_nth)
  then show ?thesis using assms stack_hash_Eq [of "avalues s" "avalues t"] unfolding astack_Eq_def by metis
qed

lemma astack_Eq_trans:
  assumes "astack_Eq a b" and "astack_Eq b c"
  shows "astack_Eq a c"
proof -
  have "AbsValue_Eq x z" if "AbsValue_Eq x y" "AbsValue_Eq y z" for x y z
    using that by (cases x; cases y; cases z) (auto simp: AbsValue_Eq_def)
  then show ?thesis using assms by (auto simp: astack_Eq_def list_all_iff split: if_splits)
qed

lemma astack_Eq_refl: "astack_Eq s s"
  by (auto simp: astack_Eq_def AbsValue_Eq_def list_all_iff split: AbsValue.splits)

lemma value_text_roundtrip:
  assumes "\<And>v. unmarshal (marshal v) = Some v" and "\<And>v. take 2 (marshal v) = [0x30, 0x78]" and "a \<noteq> AbsBot"
  shows "\<exists>t b. Stringify marshal a = Ok t \<and> AbsValueDestringify unmarshal t = Ok b \<and> AbsValue_Eq a b"
proof -
  have "marshal v \<noteq> top_text" "marshal v \<noteq> invalid_text" for v
    using assms(2) [of v] by (auto simp: top_text_def invalid_text_def)
  with assms show ?thesis
    by (cases a) (auto simp: Stringify_def AbsValueDestringify_def AbsValue_Eq_def top_text_def invalid_text_def)
qed

lemma stack_text_roundtrip:
  assumes "\<And>v. unmarshal (marshal v) = Some v" and "\<And>v. take 2 (marshal v) = [0x30, 0x78]" and "AbsBot \<notin> set vs"
  shows "\<exists>ts ws. each (Stringify marshal) vs = Ok ts \<and> each (AbsValueDestringify unmarshal) ts = Ok ws \<and>
    list_all2 AbsValue_Eq vs ws"
  using assms(3)
proof (induction vs)
  case (Cons a vs)
  then have "a \<noteq> AbsBot" by auto
  from value_text_roundtrip [of unmarshal marshal, OF assms(1,2) this] Cons show ?case by force
qed simp

text \<open>\<open>Add\<close> keeps, up to equality, exactly the stacks it is given.\<close>

lemma Add_cases: "set (stackset (astate_Add s st)) \<subseteq> insert s (set (stackset st)) \<and>
    set (stackset st) \<subseteq> set (stackset (astate_Add s st)) \<and> (\<exists>t\<in>set (stackset (astate_Add s st)). astack_Eq s t)"
proof (cases "list_ex (\<lambda>e. astack_Eq e s) (stackset st)")
  case True
  then obtain t where "t \<in> set (stackset st)" "astack_Eq s t" unfolding list_ex_iff by (metis astack_Eq_sym)
  with True show ?thesis by (auto simp: astate_Add_def)
next
  case False
  then show ?thesis by (auto simp: astate_Add_def astack_Eq_refl)
qed

lemma state_text_roundtrip_from:
  assumes "\<And>v. unmarshal (marshal v) = Some v" and "\<And>v. take 2 (marshal v) = [0x30, 0x78]"
    and "list_all (\<lambda>s. AbsBot \<notin> set (avalues s) \<and> ahash s = stack_hash (avalues s)) ss"
  shows "\<exists>ts st'. each (\<lambda>s. each (Stringify marshal) (avalues s)) ss = Ok ts \<and> into_stacks unmarshal ts st = Ok st' \<and>
    set (stackset st) \<subseteq> set (stackset st') \<and> (\<forall>s\<in>set ss. \<exists>t\<in>set (stackset st'). astack_Eq s t) \<and>
    (\<forall>t\<in>set (stackset st'). t \<in> set (stackset st) \<or> (\<exists>s\<in>set ss. astack_Eq t s))"
  using assms(3)
proof (induction ss arbitrary: st)
  case (Cons s ss)
  have "AbsBot \<notin> set (avalues s)" using Cons.prems by simp
  from stack_text_roundtrip [of unmarshal marshal, OF assms(1,2) this]
  obtain ts ws where s: "each (Stringify marshal) (avalues s) = Ok ts" "each (AbsValueDestringify unmarshal) ts = Ok ws"
    "list_all2 AbsValue_Eq (avalues s) ws" by blast
  let ?t = "updateHash \<lparr>avalues = ws, ahash = 0\<rparr>"
  have eq: "astack_Eq s ?t" using s(3) Cons.prems by (subst astack_Eq_iff) (simp_all add: updateHash_def)
  have prems: "list_all (\<lambda>s. AbsBot \<notin> set (avalues s) \<and> ahash s = stack_hash (avalues s)) ss" using Cons.prems by simp
  obtain tss st' where st': "each (\<lambda>s. each (Stringify marshal) (avalues s)) ss = Ok tss"
    "into_stacks unmarshal tss (astate_Add ?t st) = Ok st'" "set (stackset (astate_Add ?t st)) \<subseteq> set (stackset st')"
    "\<forall>s\<in>set ss. \<exists>t\<in>set (stackset st'). astack_Eq s t"
    "\<forall>t\<in>set (stackset st'). t \<in> set (stackset (astate_Add ?t st)) \<or> (\<exists>s\<in>set ss. astack_Eq t s)"
    using Cons.IH [OF prems, of "astate_Add ?t st"] by blast
  note add = Add_cases [of ?t st]
  have "\<exists>t\<in>set (stackset st'). astack_Eq s t" using add st'(3) eq astack_Eq_trans by blast
  moreover have "t \<in> set (stackset st) \<or> (\<exists>s'\<in>set (s # ss). astack_Eq t s')" if "t \<in> set (stackset st')" for t
  proof -
    have "t = ?t \<or> t \<in> set (stackset st) \<or> (\<exists>s\<in>set ss. astack_Eq t s)" using st'(5) that add by blast
    moreover have "astack_Eq ?t s" using eq by (simp add: astack_Eq_sym)
    ultimately show ?thesis by auto
  qed
  moreover have "each (\<lambda>s. each (Stringify marshal) (avalues s)) (s # ss) = Ok (ts # tss)"
    "into_stacks unmarshal (ts # tss) st = Ok st'" using s st'(1,2) by simp_all
  moreover have "set (stackset st) \<subseteq> set (stackset st')" using add st'(3) by blast
  ultimately show ?case using st'(4) by (intro exI [of _ "ts # tss"] exI [of _ st']) simp
qed simp

lemma state_text_roundtrip:
  assumes "\<And>v. unmarshal (marshal v) = Some v" and "\<And>v. take 2 (marshal v) = [0x30, 0x78]" and "printable st"
  shows "\<exists>ts st'. StringifyAState marshal st = Ok ts \<and> intoAState unmarshal ts = Ok st' \<and> astate_Eq st st'"
proof -
  obtain ts st' where "each (\<lambda>s. each (Stringify marshal) (avalues s)) (stackset st) = Ok ts"
    "into_stacks unmarshal ts \<lparr>stackset = [], anlyCounter = 0, worklistLen = 0\<rparr> = Ok st'"
    and eq: "\<forall>s\<in>set (stackset st). \<exists>t\<in>set (stackset st'). astack_Eq s t" "\<forall>t\<in>set (stackset st'). \<exists>s\<in>set (stackset st). astack_Eq t s"
    using state_text_roundtrip_from [of unmarshal marshal, OF assms(1,2) assms(3) [unfolded printable_def],
        of "\<lparr>stackset = [], anlyCounter = 0, worklistLen = 0\<rparr>"] by auto
  moreover have "astate_Eq st st'" using eq unfolding astate_Eq_def astate_Leq_def list_all_iff list_ex_iff by blast
  ultimately show ?thesis by (simp add: StringifyAState_def intoAState_def)
qed

end
