(* ===== verification/StackFlow.thy ===== *)
theory StackFlow
  imports InstrSafe
begin

text \<open>
  What the instructions do to the program counter and the operand stack. Apart from pushes,
  duplications, swaps and jumps, an instruction that lets the frame go on replaces the operands
  its table entry announces by the results it announces and leaves the rest of the stack, the
  program counter and the code alone; computing its dynamic gas touches none of them.
\<close>

section \<open>Gas functions\<close>

definition same_flow :: "machine \<Rightarrow> machine \<Rightarrow> bool" where
  "same_flow m m' \<longleftrightarrow> pc m' = pc m \<and> stk m' = stk m \<and> Code (ctr m') = Code (ctr m)"

lemma same_flow_refl [simp]: "same_flow m m"
  by (simp add: same_flow_def)

lemma same_flow_upd [simp]:
  "same_flow m (m'\<lparr>mem := x\<rparr>) = same_flow m m'" "same_flow m (m'\<lparr>evm := e\<rparr>) = same_flow m m'"
  "same_flow m (set_ibs s m') = same_flow m m'" "same_flow m (stdo f m') = same_flow m m'"
  by (simp_all add: same_flow_def set_ibs_def stdo_def)

definition quiet :: "gasFunc \<Rightarrow> bool" where
  "quiet dyn \<longleftrightarrow> (\<forall>E m sz. when_ok (\<lambda>(m', cost, err). same_flow m m') (dyn E m sz))"

definition quiet_from :: "machine \<Rightarrow> gasresult \<Rightarrow> bool" where
  "quiet_from m r \<longleftrightarrow> when_ok (\<lambda>(m', cost, err). same_flow m m') r"

lemma quietI: "(\<And>E m sz. quiet_from m (dyn E m sz)) \<Longrightarrow> quiet dyn"
  by (simp add: quiet_def quiet_from_def)

lemma quiet_from_ends [intro!]:
  "same_flow m m' \<Longrightarrow> quiet_from m (gasret g m')" "same_flow m m' \<Longrightarrow> quiet_from m (gaserr e m')"
  by (simp_all add: quiet_from_def gasret_def gaserr_def)

lemma quiet_from_checked [intro!]:
  "same_flow m m' \<Longrightarrow> (\<And>g. quiet_from m (k g)) \<Longrightarrow> quiet_from m (checked p m' k)"
  by (auto simp: checked_def)

lemma quiet_from_memgas [intro!]:
  "same_flow m m' \<Longrightarrow> (\<And>g mm. quiet_from m (k g (m'\<lparr>mem := mm\<rparr>))) \<Longrightarrow> quiet_from m (memgas m' sz k)"
  by (auto simp: memgas_def Let_def split: prod.split option.split)

lemma quiet_from_back [intro!]:
  "(\<And>v. quiet_from m (k v)) \<Longrightarrow> quiet_from m (nth_back n m' k)"
  by (simp add: nth_back_def quiet_from_def) (simp add: when_ok_def split: res.split)

lemma quiet_from_reads [intro!]:
  "(\<And>v s. quiet_from m (k v (set_ibs s m'))) \<Longrightarrow> quiet_from m (stread_res f m' k)"
  "(\<And>v s. quiet_from m (k' v (set_ibs s m'))) \<Longrightarrow> quiet_from m (stread g m' k')"
  unfolding stread_res_def stread_def quiet_from_def
  by (cases "f (m_ibs m')"; cases "g (m_ibs m')"; auto simp: when_okI when_ok_mono Let_def)+

lemma quiet_from_charge [intro!]: "same_flow m m' \<Longrightarrow> quiet_from m (charge_call E g m')"
  unfolding charge_call_def by (auto simp: Let_def split: prod.split option.split)

lemma quiet_from_new_account [intro!]:
  "(\<And>g. quiet_from m (k g m')) \<Longrightarrow> (\<And>g s. quiet_from m (k g (set_ibs s m'))) \<Longrightarrow>
     quiet_from m (new_account_gas E b a m' k)"
  unfolding new_account_gas_def by auto

named_theorems flow_facts

lemma quiet_memory [flow_facts]:
  "quiet (memoryCopierGas n)" "quiet (makeGasLog w)" "quiet gasKeccak256" "quiet pureMemoryGascost"
  "quiet gasCreate2" "quiet gasExpFrontier" "quiet gasExpEIP160"
  unfolding memoryCopierGas_def makeGasLog_def gasKeccak256_def pureMemoryGascost_def gasCreate2_def gasExpFrontier_def gasExpEIP160_def Let_def
  by (auto intro!: quietI)

lemma quiet_aliases [flow_facts]:
  "quiet gasCallDataCopy" "quiet gasCodeCopy" "quiet gasExtCodeCopy" "quiet gasReturnDataCopy" "quiet gasReturn"
  "quiet gasRevert" "quiet gasMLoad" "quiet gasMStore8" "quiet gasMStore" "quiet gasCreate"
  by (simp_all add: gasCallDataCopy_def gasCodeCopy_def gasExtCodeCopy_def gasReturnDataCopy_def gasReturn_def
      gasRevert_def gasMLoad_def gasMStore8_def gasMStore_def gasCreate_def flow_facts)

lemma quiet_sstore [flow_facts]: "quiet gasSStore" "quiet gasSStoreEIP2200"
  unfolding gasSStore_def gasSStoreEIP2200_def Let_def
  by (auto intro!: quietI)

lemma quiet_calls [flow_facts]: "quiet gasCall" "quiet gasCallCode" "quiet gasDelegateCall" "quiet gasStaticCall"
  unfolding gasCall_def gasCallCode_def gasDelegateCall_def gasStaticCall_def Let_def
  by (auto intro!: quietI)

lemma quiet_selfdestruct [flow_facts]: "quiet gasSelfdestruct"
  by (rule quietI, unfold gasSelfdestruct_def empty_and_pays_def selfdestruct_refund_def Let_def)
    (auto simp: stread_def split: prod.split)

section \<open>Instructions\<close>

definition flow_post :: "nat \<Rightarrow> nat \<Rightarrow> machine \<Rightarrow> machine \<times> bytes \<times> evm_error option \<Rightarrow> bool" where
  "flow_post p q m r \<longleftrightarrow>
     (case r of (m', ret, err) \<Rightarrow>
        err = None \<longrightarrow>
          pc m' = pc m \<and> Code (ctr m') = Code (ctr m) \<and> Len (stk m') + p = Len (stk m) + q \<and>
          drop q (top_first (stk m')) = drop p (top_first (stk m)))"

definition flows :: "executionFunc \<Rightarrow> nat \<Rightarrow> nat \<Rightarrow> bool" where
  "flows ex p q \<longleftrightarrow> (\<forall>C E m. p \<le> Len (stk m) \<longrightarrow> when_ok (flow_post p q m) (ex C E m))"

lemma flowsI:
  assumes "\<And>C E m xs. p \<le> length xs \<Longrightarrow> stk m = mkStack xs \<Longrightarrow> when_ok (flow_post p q m) (ex C E m)"
  shows "flows ex p q"
  unfolding flows_def using assms stack_cases by metis

lemma at_least:
  "Suc n \<le> length xs \<longleftrightarrow> (\<exists>a ys. xs = a # ys \<and> n \<le> length ys)"
  "numeral k \<le> length xs \<longleftrightarrow> (\<exists>a ys. xs = a # ys \<and> pred_numeral k \<le> length ys)"
  by (cases xs; simp add: numeral_eq_Suc)+

lemmas flow_defs = flow_post_def opret_def operr_def pop_def peek_def settop_def push_def binary_def unary_def
  set_ibs_def stdo_def push_ptr_def mem_ptr_def mem_copy_def mem_put_def

lemma when_ok_reads:
  "when_ok P (stread f m k) \<longleftrightarrow> when_ok P (k (snd (f (m_ibs m))) (set_ibs (fst (f (m_ibs m))) m))"
  "when_ok P (stread_res f' m k') \<longleftrightarrow> when_ok (\<lambda>(s, v). when_ok P (k' v (set_ibs s m))) (f' (m_ibs m))"
  by (simp_all add: stread_def stread_res_def Let_def case_prod_beta')

lemma when_ok_if: "when_ok P (if b then x else y) \<longleftrightarrow> (if b then when_ok P x else when_ok P y)"
  by simp

lemma when_ok_True [simp]: "when_ok (\<lambda>_. True) r"
  by (cases r) simp_all

lemma flows_stack [flow_facts]:
  "flows opAdd 2 1" "flows opSub 2 1" "flows opMul 2 1" "flows opDiv 2 1" "flows opSdiv 2 1" "flows opMod 2 1"
  "flows opSmod 2 1" "flows opExp 2 1" "flows opSignExtend 2 1" "flows opLt 2 1" "flows opGt 2 1" "flows opSlt 2 1"
  "flows opSgt 2 1" "flows opEq 2 1" "flows opOr 2 1" "flows opXor 2 1" "flows opByte 2 1"
  "flows opSHL 2 1" "flows opSHR 2 1" "flows opSAR 2 1" "flows opNot 1 1" "flows opIszero 1 1"
  "flows opAddmod 3 1" "flows opMulmod 3 1" "flows opPop 1 0" "flows opBlockhash 1 1"
  by (rule flowsI, auto simp: at_least instr_defs flow_defs Uint64WithOverflow_def Let_def)+

lemma flows_push [flow_facts]:
  "flows opAddress 0 1" "flows opOrigin 0 1" "flows opCaller 0 1" "flows opCallDataSize 0 1" "flows opCodeSize 0 1"
  "flows opReturnDataSize 0 1" "flows opCoinbase 0 1" "flows opTimestamp 0 1" "flows opNumber 0 1"
  "flows opGasLimit 0 1" "flows opChainID 0 1" "flows opMsize 0 1" "flows opGas 0 1" "flows opJumpdest 0 0"
  "flows opSelfBalance 0 1" "flows opDifficulty 0 1" "flows opCallValue 0 1" "flows opGasprice 0 1"
  by (rule flowsI, auto simp: instr_defs flow_defs when_ok_reads FromBig_def Let_def
      split: prod.splits option.splits)+

lemma flows_memory [flow_facts]:
  "flows opKeccak256 2 1" "flows opCallDataCopy 3 0" "flows opCodeCopy 3 0" "flows opExtCodeCopy 4 0"
  "flows opReturnDataCopy 3 0" "flows opCallDataLoad 1 1" "flows opMload 1 1" "flows opMstore 2 0" "flows opMstore8 2 0"
  by (rule flowsI, clarsimp simp: at_least, simp add: instr_defs flow_defs when_ok_reads Uint64WithOverflow_def Let_def,
      (intro impI conjI when_ok_all)?, (auto split: prod.split intro!: when_ok_all)?)+

lemma flows_state [flow_facts]:
  "flows opBalance 1 1" "flows opExtCodeSize 1 1" "flows opExtCodeHash 1 1" "flows opSload 1 1" "flows opSstore 2 0"
  by (rule flowsI, clarsimp simp: at_least, simp add: instr_defs flow_defs when_ok_reads,
      (intro impI conjI when_ok_all)?, (auto split: prod.split intro!: when_ok_all)?)+

text \<open>Instructions that never let the frame go on.\<close>

lemma flows_ends [flow_facts]:
  "flows opStop p q" "flows opUndefined p q" "flows opReturn 2 0" "flows opRevert 2 0" "flows opSelfdestruct 1 0"
  by (rule flowsI, (clarsimp simp: at_least)?, simp add: instr_defs flow_defs when_ok_reads Let_def,
      (intro impI conjI when_ok_all)?, (auto split: prod.split intro!: when_ok_all)?)+

lemma flows_log [flow_facts]: "flows (makeLog n) (n + 2) 0"
  by (rule flowsI, clarsimp simp: at_least, simp add: makeLog_def flow_defs pop_topics_eq)

lemma flow_finish_call [simp]:
  assumes "drop p (top_first (stk m)) = ys" and "Len (stk m) = p + length ys"
  shows "when_ok (flow_post p (Suc 0) m) (finish_call off sz (m\<lparr>stk := mkStack ys\<rparr>) r)"
  using assms by (auto simp: finish_call_def push_def add_gas_def set_returnData_def flow_post_def Let_def
      split: prod.split intro!: when_ok_all)

lemma flows_calls [flow_facts]:
  "flows opCall 7 1" "flows opCallCode 7 1" "flows opDelegateCall 6 1" "flows opStaticCall 6 1"
  by (rule flowsI, clarsimp simp: at_least,
      simp add: opCall_def opCallCode_def opDelegateCall_def opStaticCall_def flow_defs when_ok_if Let_def)+

lemma flow_finish_create [simp]:
  assumes "drop p (top_first (stk m)) = ys" and "Len (stk m) = p + length ys" and "Code c = Code (ctr m)"
  shows "when_ok (flow_post p (Suc 0) m) (finish_create res g e (m\<lparr>ctr := c, evm := ev, stk := mkStack (v # ys)\<rparr>))"
  using assms by (auto simp: finish_create_def opret_def add_gas_def set_returnData_def flow_post_def Let_def)

lemma Code_UseGas [simp]: "Code (fst (UseGas g c)) = Code c"
  by (simp add: UseGas_def)

lemma flows_create [flow_facts]: "flows opCreate 3 1" "flows opCreate2 4 1"
  by (rule flowsI, clarsimp simp: at_least,
      simp add: opCreate_def opCreate2_def flow_defs when_ok_if Let_def case_prod_beta')+

section \<open>Tables\<close>

text \<open>What the flow of control needs of the entry of an opcode.\<close>

definition entry_kind :: "OpCode \<Rightarrow> operation \<Rightarrow> bool" where
  "entry_kind c op \<longleftrightarrow>
     (isPush op \<or> isDup op \<or> isSwap op \<longrightarrow> c \<notin> {JUMP, JUMPI, AND, PC}) \<and>
     (c = STOP \<longrightarrow> halting (execute op)) \<and>
     (if isPush op then
        \<not> isDup op \<and> \<not> isSwap op \<and>
        (\<exists>n. 1 \<le> n \<and> n \<le> 32 \<and> opNum op = int n \<and>
           execute op = (if n = 1 then opPush1 else makePush (of_nat n) (int n)))
      else if isDup op then \<not> isSwap op \<and> (\<exists>n. 1 \<le> n \<and> opNum op = int n \<and> execute op = makeDup n)
      else if isSwap op then \<exists>n. opNum op = int n \<and> execute op = makeSwap n
      else if c = JUMP then execute op = opJump \<and> numPop op = 1 \<and> numPush op = 0
      else if c = JUMPI then execute op = opJumpi \<and> numPop op = 2 \<and> numPush op = 0
      else if c = AND then execute op = opAnd \<and> numPop op = 2
      else if c = PC then execute op = opPc
      else \<exists>p q. numPop op = int p \<and> numPush op = int q \<and> flows (execute op) p q)"

definition entry_flow :: "OpCode \<Rightarrow> operation \<Rightarrow> bool" where
  "entry_flow c op \<longleftrightarrow> entry_kind c op \<and> (\<forall>dyn. dynamicGas op = Some dyn \<longrightarrow> quiet dyn)"

definition table_flow :: "JumpTable \<Rightarrow> bool" where
  "table_flow jt \<longleftrightarrow> (\<forall>c. \<exists>op. jt c = Some op \<and> entry_flow c op)"

lemma entry_kind_upd [simp]:
  "entry_kind c (op\<lparr>maxStack_of := x\<rparr>) = entry_kind c op" "entry_kind c (op\<lparr>constantGas := g\<rparr>) = entry_kind c op"
  "entry_kind c (op\<lparr>dynamicGas := d\<rparr>) = entry_kind c op"
  unfolding entry_kind_def by simp_all

lemma entry_flow_upd [simp]:
  "entry_flow c (op\<lparr>maxStack_of := x\<rparr>) = entry_flow c op" "entry_flow c (set_const g op) = entry_flow c op"
  "entry_flow c op \<Longrightarrow> quiet dyn \<Longrightarrow> entry_flow c (set_dyn dyn op)"
  by (simp_all add: entry_flow_def set_const_def set_dyn_def)

lemma entry_flow_simple:
  assumes "flows ex p q" and "c \<notin> {STOP, JUMP, JUMPI, AND, PC}"
  shows "entry_flow c (simple ex g (int p) (int q))"
    and "quiet dyn \<Longrightarrow> entry_flow c (dynamic ex g (Some dyn) (int p) (int q) ms)"
  using assms by (auto simp: entry_flow_def entry_kind_def simple_def dynamic_def)

lemma entry_flow_numeral:
  assumes "c \<notin> {STOP, JUMP, JUMPI, AND, PC}" and "0 \<le> a" "0 \<le> b" and "flows ex (nat a) (nat b)"
  shows "entry_flow c (simple ex g a b)" and "quiet dyn \<Longrightarrow> entry_flow c (dynamic ex g (Some dyn) a b ms)"
  using entry_flow_simple [OF assms(4,1)] assms(2,3) by simp_all

lemma entry_flow_control:
  "entry_flow STOP (simple opStop g 0 0)" "entry_flow JUMP (simple opJump g 1 0)" "entry_flow JUMPI (simple opJumpi g 2 0)"
  "entry_flow AND (simple opAnd g 2 1)" "entry_flow PC (simple opPc g 0 1)"
  using flows_ends(1) [of 0 0] halting_facts(1) by (auto simp: entry_flow_def entry_kind_def simple_def opcode_defs)

lemmas flow_simps = flow_facts [simplified]

lemma frontier_flow_basic:
  "list_all (\<lambda>(c, op). entry_flow c op)
     (frontier_arithmetic @ frontier_comparison @ frontier_environment @ frontier_block @ frontier_flow)"
  unfolding frontier_arithmetic_def frontier_comparison_def frontier_environment_def frontier_block_def frontier_flow_def
  by (simp add: entry_flow_control, intro conjI entry_flow_numeral) (simp_all add: flow_simps opcode_defs)

lemma push_entries_flow:
  assumes "1 \<le> n" "n \<le> 32" and "PUSH n \<notin> {STOP, JUMP, JUMPI, AND, PC}"
    and "execute op = (if n = 1 then opPush1 else makePush (of_nat n) (int n))"
    and "isPush op" "\<not> isDup op" "\<not> isSwap op" "opNum op = int n" "dynamicGas op = None"
  shows "entry_flow (PUSH n) op"
  using assms by (auto simp: entry_flow_def entry_kind_def)

lemma frontier_flow_push: "list_all (\<lambda>(c, op). entry_flow c op) (frontier_push1 @ frontier_push_short @ frontier_push_long)"
proof -
  have "PUSH n \<notin> {STOP, JUMP, JUMPI, AND, PC}" if "n \<in> set [1 ..< 33]" for n
    using that by (simp add: upt_conv_Cons opcode_defs) auto
  then show ?thesis
    by (auto simp: frontier_push1_def frontier_push_short_def frontier_push_long_def push_entry_def list_all_iff simple_def
        intro!: push_entries_flow)
qed

lemma frontier_flow_dup: "list_all (\<lambda>(c, op). entry_flow c op) (frontier_dup @ frontier_swap)"
proof -
  have "DUP n \<notin> {STOP, JUMP, JUMPI, AND, PC} \<and> SWAP n \<notin> {STOP, JUMP, JUMPI, AND, PC}" if "n \<in> set [1 ..< 17]" for n
    using that by (simp add: upt_conv_Cons opcode_defs) auto
  then show ?thesis
    by (auto simp: frontier_dup_def frontier_swap_def list_all_iff simple_def entry_flow_def entry_kind_def)
qed

lemma frontier_flow_system: "list_all (\<lambda>(c, op). entry_flow c op) (frontier_log @ frontier_system)"
proof -
  have "LOG n \<notin> {STOP, JUMP, JUMPI, AND, PC}" if "n \<in> set [0 ..< 5]" for n
    using that by (simp add: upt_conv_Cons opcode_defs) auto
  then have "list_all (\<lambda>(c, op). entry_flow c op) frontier_log"
    using entry_flow_simple(2) [OF flows_log _ quiet_memory(2)]
    by (auto simp: frontier_log_def list_all_iff add.commute)
  then show ?thesis unfolding frontier_system_def
    by (simp, intro conjI entry_flow_numeral) (simp_all add: flow_simps opcode_defs)
qed

lemma frontier_flows:
  assumes "(c, op) \<in> set frontier_table"
  shows "entry_flow c op"
  using assms frontier_flow_basic frontier_flow_push frontier_flow_dup frontier_flow_system
  unfolding frontier_table_def by (auto simp: list_all_iff)

section \<open>The instruction sets up to Istanbul\<close>

text \<open>A property of tables that the updates of the table keep.\<close>

definition keeps :: "(JumpTable \<Rightarrow> bool) \<Rightarrow> (JumpTable \<Rightarrow> JumpTable res) \<Rightarrow> bool" where
  "keeps P f \<longleftrightarrow> (\<forall>jt. P jt \<longrightarrow> when_ok P (f jt))"

lemma keeps_updates: "list_all (keeps P) fs \<Longrightarrow> keeps P (updates fs)"
proof (induction fs)
  case (Cons f fs)
  then show ?case by (auto simp: keeps_def intro: when_ok_mono)
qed (simp add: keeps_def)

lemma keeps_bnd: "when_ok P r \<Longrightarrow> keeps P f \<Longrightarrow> when_ok P (bnd r f)"
  by (auto simp: keeps_def intro: when_ok_mono)

lemma keeps_flow_set: "entry_flow c op \<Longrightarrow> keeps table_flow (set_op c op)"
  by (simp add: keeps_def set_op_def table_flow_def)

lemma keeps_flow_upd: "(\<And>op. entry_flow c op \<Longrightarrow> entry_flow c (f op)) \<Longrightarrow> keeps table_flow (upd_op c f)"
  by (auto simp: keeps_def upd_op_def table_flow_def) (metis option.inject)

lemma keeps_flow_validate: "keeps table_flow validateAndFillMaxStack"
  by (auto simp: keeps_def validateAndFillMaxStack_def table_flow_def fill_def) (metis entry_flow_upd(1) option.simps(9))

lemma frontier_set_flow: "when_ok table_flow newFrontierInstructionSet"
proof -
  let ?jt = "\<lambda>i. case map_of frontier_table i of None \<Rightarrow> Some (simple opUndefined 0 0 0) | Some op \<Rightarrow> Some op"
  have known: "c \<notin> {STOP, JUMP, JUMPI, AND, PC}" if "map_of frontier_table c = None" for c
    using that unfolding map_of_eq_None_iff frontier_table_def frontier_arithmetic_def frontier_comparison_def frontier_flow_def by auto
  have "table_flow ?jt" unfolding table_flow_def
  proof
    fix c
    show "\<exists>op. ?jt c = Some op \<and> entry_flow c op"
    proof (cases "map_of frontier_table c")
      case None
      then show ?thesis using known [OF None] by (auto intro!: entry_flow_numeral flow_facts)
    next
      case (Some op)
      then show ?thesis using frontier_flows [OF map_of_SomeD [OF Some]] by simp
    qed
  qed
  then show ?thesis using keeps_flow_validate unfolding newFrontierInstructionSet_def keeps_def by blast
qed

lemmas keeps_flow_rules = keeps_flow_set keeps_flow_upd keeps_flow_validate entry_flow_numeral

lemma enables_flow: "keeps table_flow enable1344" "keeps table_flow enable1884" "keeps table_flow enable2200"
  unfolding enable1344_def enable1884_def enable2200_def
  by (rule keeps_updates, simp, (intro conjI keeps_flow_rules)?, (simp_all add: flow_simps opcode_defs)?)+

lemmas until_istanbul = newIstanbulInstructionSet_def newConstantinopleInstructionSet_def
  newByzantiumInstructionSet_def newSpuriousDragonInstructionSet_def newTangerineWhistleInstructionSet_def
  newHomesteadInstructionSet_def

lemma istanbul_flow: "when_ok table_flow newIstanbulInstructionSet"
  unfolding until_istanbul
  by (intro keeps_bnd frontier_set_flow keeps_updates; simp; intro conjI enables_flow keeps_flow_rules)
    (simp_all add: flow_simps opcode_defs)

text \<open>An entry of the Frontier table that no later update touches is the entry of the Istanbul table.\<close>

definition has_entry :: "OpCode \<Rightarrow> operation \<Rightarrow> JumpTable \<Rightarrow> bool" where
  "has_entry c op jt \<longleftrightarrow> (\<exists>x. jt c = Some (op\<lparr>maxStack_of := x\<rparr>))"

lemma keeps_entry:
  "c' \<noteq> c \<Longrightarrow> keeps (has_entry c op) (set_op c' op')" "c' \<noteq> c \<Longrightarrow> keeps (has_entry c op) (upd_op c' f)"
  "keeps (has_entry c op) validateAndFillMaxStack"
  by (auto simp: keeps_def has_entry_def set_op_def upd_op_def validateAndFillMaxStack_def fill_def)

definition updated :: "OpCode list" where
  "updated = [DELEGATECALL, BALANCE, EXTCODESIZE, SLOAD, EXTCODECOPY, CALL, CALLCODE, EXP, STATICCALL, RETURNDATASIZE,
     RETURNDATACOPY, REVERT, SHL, SHR, SAR, EXTCODEHASH, CREATE2, CHAINID, SELFBALANCE, SSTORE]"

lemma istanbul_entry:
  assumes "map_of frontier_table c = Some op" and "c \<notin> set updated"
  shows "when_ok (has_entry c op) newIstanbulInstructionSet"
proof -
  have c: "keeps (has_entry c op) (set_op c' op')" "keeps (has_entry c op) (upd_op c' f)" if "c' \<in> set updated" for c' op' f
    using that assms(2) keeps_entry(1,2) by metis+
  have "has_entry c op (\<lambda>i. case map_of frontier_table i of None \<Rightarrow> Some (simple opUndefined 0 0 0) | Some op \<Rightarrow> Some op)"
    unfolding has_entry_def using assms(1) by (auto intro: exI [of _ "maxStack_of op"])
  then have f: "when_ok (has_entry c op) newFrontierInstructionSet"
    using keeps_entry(3) unfolding newFrontierInstructionSet_def keeps_def by blast
  show ?thesis unfolding until_istanbul enable1344_def enable1884_def enable2200_def
    by (intro keeps_bnd f keeps_updates; simp; intro conjI keeps_updates; simp add: c keeps_entry(3) updated_def)
qed

end
