(* ===== verification/CfgProps.thy ===== *)
theory CfgProps
  imports AbsintSound StackFlow EvmProps
begin

text \<open>
  The certificate checker against the interpreter: a step of the interpreter with the table
  the checker reads is a move, so an accepted certificate covers every run of the contract.
\<close>

section \<open>Steps are moves\<close>

lemma use_dynamic_flow:
  assumes "use_dynamic op E m = Ok (m', None)" and q: "\<And>dyn. dynamicGas op = Some dyn \<Longrightarrow> quiet dyn"
  shows "same_flow m m'"
proof -
  have "when_ok (\<lambda>(m', err). err = None \<longrightarrow> same_flow m m') (use_dynamic op E m)"
  proof (cases "dynamicGas op")
    case (Some dyn)
    then have quiet: "when_ok (\<lambda>(m', cost, err). same_flow m m') (dyn E m sz)" for sz using q by (simp add: quiet_def)
    show ?thesis
    proof (cases "memory_size op (stk m)")
      case (Ok x)
      obtain sz over where "x = (sz, over)" by (cases x)
      with Ok Some show ?thesis
        by (simp add: use_dynamic_def) (auto simp: Let_def UseGas_def same_flow_def intro!: when_ok_mono [OF quiet])
    qed (use Some in \<open>simp_all add: use_dynamic_def\<close>)
  qed (simp add: use_dynamic_def)
  then show ?thesis using assms(1) by simp
qed

text \<open>A round of the loop that goes on has executed the instruction at the program counter.\<close>

lemma step_executes:
  assumes "step C jt E m = Ok (Continue m' r)" and "table_flow jt"
  obtains op m1 m2 where "jt (GetOp (pc m) (ctr m)) = Some op" "entry_kind (GetOp (pc m) (ctr m)) op" "same_flow m m1"
    "numPop op \<le> int (Len (stk m1))" "execute op C E m1 = Ok (m2, r, None)" "m' = m2\<lparr>pc := pc m2 + 1\<rparr>"
proof -
  obtain op where op: "jt (GetOp (pc m) (ctr m)) = Some op" "entry_flow (GetOp (pc m) (ctr m)) op"
    using assms(2) by (auto simp: table_flow_def)
  define m0 where "m0 = m\<lparr>ctr := fst (UseGas (constantGas op) (ctr m))\<rparr>"
  have m0: "same_flow m m0" by (simp add: m0_def same_flow_def)
  from assms(1) op(1) obtain m1 where m1: "use_dynamic op E m0 = Ok (m1, None)"
    and len: "numPop op \<le> int (Len (stk m))"
    and ex: "bnd (execute op C E m1) (\<lambda>(m, res, err).
        case err of Some e \<Rightarrow> Ok (Break m res e) | None \<Rightarrow> Ok (Continue (m\<lparr>pc := pc m + 1\<rparr>) res)) = Ok (Continue m' r)"
    by (auto simp: step_def m0_def bnd_eq_Ok Let_def split: prod.splits if_splits option.splits)
  have "same_flow m0 m1" by (rule use_dynamic_flow [OF m1]) (use op(2) in \<open>simp add: entry_flow_def\<close>)
  then have same: "same_flow m m1" using m0 by (simp add: same_flow_def)
  moreover obtain m2 where "execute op C E m1 = Ok (m2, r, None)" "m' = m2\<lparr>pc := pc m2 + 1\<rparr>"
    using ex by (auto simp: bnd_eq_Ok split: prod.splits option.splits)
  moreover have "numPop op \<le> int (Len (stk m1))" using len same by (simp add: same_flow_def)
  ultimately show ?thesis using that op by (auto simp: entry_flow_def)
qed

abbreviation at :: "machine \<Rightarrow> int \<times> u256 list" where
  "at m \<equiv> (int (unat (pc m)), top_first (stk m))"

text \<open>What an instruction has to show: it keeps the code, and a next instruction inside the code is reached by
  a move.\<close>

definition moved :: "CfgAbsSem \<Rightarrow> machine \<Rightarrow> machine \<Rightarrow> bool" where
  "moved sem m m2 \<longleftrightarrow>
     Code (ctr m2) = Code (ctr m) \<and>
     (unat (pc m2 + 1) < length (Code (ctr m)) \<longrightarrow>
        moves sem (Code (ctr m)) (at m) (int (unat (pc m2 + 1)), top_first (stk m2)))"

lemma next_pc: "unat (p :: u64) < length cd \<Longrightarrow> length cd < 2 ^ 63 \<Longrightarrow> n \<le> 64 \<Longrightarrow> unat (p + of_nat n) = unat p + n"
  by (subst unat_add_no_wrap) (auto simp: unat_of_nat64)

lemma moved_push:
  assumes "makePush (of_nat n) (int n) C E m = Ok (m2, r, None)" and n: "1 \<le> n" "n \<le> 32"
    and cd: "unat (pc m) < length (Code (ctr m))" "length (Code (ctr m)) < 2 ^ 63"
    and s: "opcode_at (Code (ctr m)) (int (unat (pc m))) = Ok c" "sem c = Some s" "sem_isPush s" "sem_opNum s = int n"
      "sem_numBytes s = int n + 1"
  shows "moved sem m m2"
proof -
  define p where "p = unat (pc m)"
  define cd0 where "cd0 = Code (ctr m)"
  have lt0: "p < length cd0" "length cd0 < 2 ^ 63" using cd by (simp_all add: p_def cd0_def)
  have p1: "unat (pc m + 1) = p + 1" using next_pc [OF cd, of 1] by (simp add: p_def)
  then have go: "go_int (pc m + 1) = int p + 1" using lt0 by (subst go_int_small) auto
  have m2: "Code (ctr m2) = cd0" "pc m2 = pc m + of_nat n"
    using assms(1) by (auto simp: makePush_def Let_def bnd_eq_Ok opret_def push_def cd0_def split: if_splits)
  have next_p: "unat (pc m2 + 1) = p + (n + 1)"
    using next_pc [OF cd, of "n + 1"] n by (simp add: m2(2) p_def add.assoc add.commute add.left_commute)
  have "moves sem cd0 (int p, top_first (stk m)) (int (p + (n + 1)), top_first (stk m2))" if lt: "p + (n + 1) < length cd0"
  proof -
    let ?v = "SetBytes (take n (drop (p + 1) cd0))"
    have sl: "slice cd0 (nat (int p + 1)) (nat (int p + 1 + int n)) = Some (take n (drop (p + 1) cd0))"
      using lt by (simp add: slice_def nat_add_distrib)
    have "RightPadBytes (take n (drop (p + 1) cd0)) (int n) = take n (drop (p + 1) cd0)"
      using lt by (simp add: RightPadBytes_int)
    then have "top_first (stk m2) = ?v # top_first (stk m)"
      using assms(1) lt sl by (auto simp: makePush_def go cd0_def [symmetric] Let_def opret_def push_def Push_def top_first_def)
    moreover have "getPushValue cd0 (int p) s = Ok ?v"
      using lt sl s(4) by (simp add: getPushValue_def Let_def)
    ultimately show ?thesis using moves.Push [of cd0 "int p" c sem s ?v "top_first (stk m)"] s lt
      by (simp add: p_def [symmetric] cd0_def [symmetric] add.commute add.left_commute)
  qed
  then show ?thesis using m2 next_p by (simp add: moved_def p_def cd0_def)
qed

text \<open>The instructions that leave the program counter alone.\<close>

lemma movedI:
  assumes "Code (ctr m2) = Code (ctr m)" "pc m2 = pc m" and cd: "unat (pc m) < length (Code (ctr m))" "length (Code (ctr m)) < 2 ^ 63"
    and "int (unat (pc m)) + 1 < int (length (Code (ctr m))) \<Longrightarrow>
       moves sem (Code (ctr m)) (at m) (int (unat (pc m)) + 1, top_first (stk m2))"
  shows "moved sem m m2"
proof -
  have "unat (pc m + 1) = unat (pc m) + 1" using next_pc [OF cd, of 1] by simp
  then have "int (unat (pc m2 + 1)) = int (unat (pc m)) + 1" using assms(2) by simp
  then show ?thesis using assms(1,5) unfolding moved_def by (metis of_nat_less_iff)
qed

lemma moved_flows:
  assumes "flows ex p q" and "ex C E m = Ok (m2, r, None)" and "p \<le> Len (stk m)"
    and cd: "unat (pc m) < length (Code (ctr m))" "length (Code (ctr m)) < 2 ^ 63"
    and c: "opcode_at (Code (ctr m)) (int (unat (pc m))) = Ok c" "c \<notin> {JUMP, JUMPI, AND, PC}" "sem c = Some s"
      "\<not> sem_isPush s" "\<not> sem_isDup s" "\<not> sem_isSwap s" "sem_numPop s = int p" "sem_numPush s = int q"
  shows "moved sem m m2"
proof -
  let ?k = "top_first (stk m)" and ?k2 = "top_first (stk m2)"
  have "flow_post p q m (m2, r, None)" using assms(1-3) unfolding flows_def by (metis when_okD)
  then have m2: "pc m2 = pc m" "Code (ctr m2) = Code (ctr m)" "length ?k2 + p = length ?k + q" "drop q ?k2 = drop p ?k"
    by (simp_all add: flow_post_def Len_top_first)
  have "p \<le> length ?k" "q \<le> length ?k2" using assms(3) m2(3) by (auto simp: Len_top_first)
  then have "length (take p ?k) = p" "length (take q ?k2) = q" by simp_all
  then show ?thesis
    using moves.Other [where sem = sem, OF c(1-6), of "take p ?k" "take q ?k2" "drop p ?k"] c(7,8) m2
    by (intro movedI [OF m2(2,1) cd]) (metis append_take_drop_id)
qed

lemma moved_jump_to:
  assumes "jump_to d m = Ok (m2, r, None)"
  shows "isJumpDest (Code (ctr m)) d" "Code (ctr m2) = Code (ctr m)" "stk m2 = stk m" "int (unat (pc m2 + 1)) = uint d"
proof -
  obtain u c jd where v: "validJumpdest d (ctr m) (jds (evm m)) = Ok (True, u, c, jd)"
    and m2: "m2 = m\<lparr>ctr := c, evm := (evm m)\<lparr>jds := jd\<rparr>, pc := Uint64 d - 1\<rparr>"
    using assms by (auto simp: jump_to_def bnd_eq_Ok opret_def operr_def Let_def split: if_splits)
  have d: "IsUint64 d" "unat (Uint64 d) < length (Code (ctr m))" "Code (ctr m) ! unat (Uint64 d) = JUMPDEST"
    and code0: "Code c = Code (ctr m)"
    using v by (auto simp: validJumpdest_def Uint64WithOverflow_def isCode_def bnd_eq_Ok split: if_splits)
  then show "isJumpDest (Code (ctr m)) d" by (simp add: isJumpDest_def)
  show "Code (ctr m2) = Code (ctr m)" "stk m2 = stk m" using code0 by (simp_all add: m2)
  show "int (unat (pc m2 + 1)) = uint d" using d(1) by (simp add: m2 unat_Uint64 flip: uint_nat)
qed

lemma moved_jump:
  assumes "opJump C E m = Ok (m2, r, None)" and "opcode_at (Code (ctr m)) (int (unat (pc m))) = Ok JUMP"
  shows "moved sem m m2"
proof -
  obtain k where k: "stk m = mkStack k" by (rule stack_cases)
  with assms(1) obtain d ks where d: "k = d # ks" "jump_to d (m\<lparr>stk := mkStack ks\<rparr>) = Ok (m2, r, None)"
    by (cases k) (auto simp: opJump_def pop_def)
  note j = moved_jump_to [OF d(2), simplified]
  show ?thesis using moves.Jump [OF assms(2) j(1), of sem ks] j k d(1) by (simp add: moved_def)
qed

lemma moved_jumpi:
  assumes "opJumpi C E m = Ok (m2, r, None)" and cd: "unat (pc m) < length (Code (ctr m))" "length (Code (ctr m)) < 2 ^ 63"
    and c: "opcode_at (Code (ctr m)) (int (unat (pc m))) = Ok JUMPI"
  shows "moved sem m m2"
proof -
  obtain k where k: "stk m = mkStack k" by (rule stack_cases)
  with assms(1) obtain d x ks where d: "k = d # x # ks"
    and r: "(if x \<noteq> 0 then jump_to d (m\<lparr>stk := mkStack ks\<rparr>) else opret (m\<lparr>stk := mkStack ks\<rparr>)) = Ok (m2, r, None)"
    by (cases k; cases "tl k") (auto simp: opJumpi_def pop_def split: if_splits)
  show ?thesis
  proof (cases "x = 0")
    case True
    then have "m2 = m\<lparr>stk := mkStack ks\<rparr>" using r by (simp add: opret_def)
    then show ?thesis using moves.Fall [OF c, of sem d x ks] k d by (intro movedI [OF _ _ cd]) simp_all
  next
    case False
    then have "jump_to d (m\<lparr>stk := mkStack ks\<rparr>) = Ok (m2, r, None)" using r by simp
    note j = moved_jump_to [OF this, simplified]
    show ?thesis using moves.Jumpi [OF c j(1), of sem x ks] j k d by (simp add: moved_def)
  qed
qed

lemma moved_dup:
  assumes "makeDup n C E m = Ok (m2, r, None)" and cd: "unat (pc m) < length (Code (ctr m))" "length (Code (ctr m)) < 2 ^ 63"
    and c: "opcode_at (Code (ctr m)) (int (unat (pc m))) = Ok c" "sem c = Some s" "sem_isDup s" "sem_opNum s = int n"
  shows "moved sem m m2"
proof -
  obtain k where k: "stk m = mkStack k" by (rule stack_cases)
  with assms(1) have "1 \<le> n" "n \<le> length k" "m2 = m\<lparr>stk := mkStack (k ! (n - 1) # k)\<rparr>"
    by (auto simp: makeDup_def Dup_mkStack opret_def split: if_splits)
  then show ?thesis using moves.Dup [where sem = sem, OF c, of k] k by (intro movedI [OF _ _ cd]) simp_all
qed

lemma moved_swap:
  assumes "makeSwap n C E m = Ok (m2, r, None)" and cd: "unat (pc m) < length (Code (ctr m))" "length (Code (ctr m)) < 2 ^ 63"
    and c: "opcode_at (Code (ctr m)) (int (unat (pc m))) = Ok c" "sem c = Some s" "sem_isSwap s" "sem_opNum s = int n"
  shows "moved sem m m2"
proof -
  obtain k where k: "stk m = mkStack k" by (rule stack_cases)
  with assms(1) have n: "n < length k" and "m2 = m\<lparr>stk := mkStack (k[n := k ! 0, 0 := k ! n])\<rparr>"
    by (auto simp: makeSwap_def Swap_mkStack opret_def split: if_splits)
  moreover have "k[n := k ! 0, 0 := k ! n] = k[0 := k ! n, n := k ! 0]"
    by (cases "n = 0") (simp_all add: list_update_swap)
  ultimately show ?thesis using moves.Swap [where sem = sem, OF c n] k by (intro movedI [OF _ _ cd]) simp_all
qed

lemma moved_and_pc:
  assumes cd: "unat (pc m) < length (Code (ctr m))" "length (Code (ctr m)) < 2 ^ 63"
  shows "opAnd C E m = Ok (m2, r, None) \<Longrightarrow> opcode_at (Code (ctr m)) (int (unat (pc m))) = Ok AND \<Longrightarrow> moved sem m m2"
    and "opPc C E m = Ok (m2, r, None) \<Longrightarrow> opcode_at (Code (ctr m)) (int (unat (pc m))) = Ok PC \<Longrightarrow> moved sem m m2"
proof -
  obtain k where k: "stk m = mkStack k" by (rule stack_cases)
  {
    assume "opAnd C E m = Ok (m2, r, None)" and c: "opcode_at (Code (ctr m)) (int (unat (pc m))) = Ok AND"
    with k obtain a b ks where "k = a # b # ks" "m2 = m\<lparr>stk := mkStack (and a b # ks)\<rparr>"
      by (cases k; cases "tl k") (auto simp: opAnd_def binary_def pop_def peek_def opret_def settop_def)
    then show "moved sem m m2" using moves.And [OF c, of sem a b ks] k by (intro movedI [OF _ _ cd]) simp_all
  }
  {
    assume "opPc C E m = Ok (m2, r, None)" and c: "opcode_at (Code (ctr m)) (int (unat (pc m))) = Ok PC"
    with k have "m2 = m\<lparr>stk := mkStack (SetUint64 (pc m) # k)\<rparr>" by (simp add: opPc_def opret_def push_def)
    then show "moved sem m m2" using moves.Pc [OF c, of sem k] k by (intro movedI [OF _ _ cd]) simp_all
  }
qed

lemma executed_moves:
  assumes kind: "entry_kind c op" and ex: "execute op C E m = Ok (m2, r, None)" and "jt c = Some op"
    and len: "numPop op \<le> int (Len (stk m))"
    and cd: "unat (pc m) < length (Code (ctr m))" "length (Code (ctr m)) < 2 ^ 63"
    and c: "opcode_at (Code (ctr m)) (int (unat (pc m))) = Ok c"
  shows "moved (table_sem jt) m m2"
proof -
  have s: "table_sem jt c = Some (opSem op)" using assms(3) by (simp add: table_sem_def)
  consider (push) "isPush op" | (dup) "\<not> isPush op" "isDup op" | (swap) "\<not> isPush op" "\<not> isDup op" "isSwap op"
    | (plain) "\<not> isPush op" "\<not> isDup op" "\<not> isSwap op" by blast
  then show ?thesis
  proof cases
    case push
    then obtain n where n: "1 \<le> n" "n \<le> 32" "opNum op = int n"
      "execute op = (if n = 1 then opPush1 else makePush (of_nat n) (int n))"
      using kind by (auto simp: entry_kind_def)
    have "makePush (of_nat n) (int n) C E m = Ok (m2, r, None)"
    proof (cases "n = 1")
      case True
      have "opPush1 C E m = makePush 1 1 C E m" using cd by (intro opPush1_is_makePush) simp_all
      then show ?thesis using True n(4) ex by simp
    next
      case False
      then show ?thesis using n(4) ex by simp
    qed
    then show ?thesis by (rule moved_push [where sem = "table_sem jt", OF _ n(1,2) cd c s]) (simp_all add: opSem_def push n(3))
  next
    case dup
    then obtain n where n: "opNum op = int n" "execute op = makeDup n" using kind by (auto simp: entry_kind_def)
    show ?thesis by (rule moved_dup [where sem = "table_sem jt", OF _ cd c s]) (use n dup ex in \<open>simp_all add: opSem_def\<close>)
  next
    case swap
    then obtain n where n: "opNum op = int n" "execute op = makeSwap n" using kind by (auto simp: entry_kind_def)
    show ?thesis by (rule moved_swap [where sem = "table_sem jt", OF _ cd c s]) (use n swap ex in \<open>simp_all add: opSem_def\<close>)
  next
    case plain
    note flags = plain and kind' = kind [unfolded entry_kind_def]
    consider (jump) "c = JUMP" | (jumpi) "c = JUMPI" | (conj) "c = AND" | (counter) "c = PC"
      | (other) "c \<notin> {JUMP, JUMPI, AND, PC}" by blast
    then show ?thesis
    proof cases
      case jump
      then have "execute op = opJump" using flags kind' by simp
      then show ?thesis using moved_jump ex c jump by metis
    next
      case jumpi
      then have "execute op = opJumpi" using flags kind' by (simp add: opcode_defs)
      then show ?thesis using moved_jumpi [OF _ cd] ex c jumpi by metis
    next
      case conj
      then have "execute op = opAnd" using flags kind' by (simp add: opcode_defs)
      then show ?thesis using moved_and_pc(1) [OF cd] ex c conj by metis
    next
      case counter
      then have "execute op = opPc" using flags kind' by (simp add: opcode_defs)
      then show ?thesis using moved_and_pc(2) [OF cd] ex c counter by metis
    next
      case other
      then obtain p q where pq: "numPop op = int p" "numPush op = int q" "flows (execute op) p q"
        using flags kind' by auto
      show ?thesis
        by (rule moved_flows [where sem = "table_sem jt", OF pq(3) ex _ cd c other s]) (use pq flags len in \<open>simp_all add: opSem_def\<close>)
    qed
  qed
qed

lemma opcode_GetOp: "unat i < length (Code c) \<Longrightarrow> opcode_at (Code c) (int (unat i)) = Ok (GetOp i c)"
  by (simp only: opcode_at_def GetOp_def nat_int of_nat_less_iff of_nat_0_le_iff if_True simp_thms)

lemma step_moves:
  assumes "step C jt E m = Ok (Continue m' r)" and "table_flow jt" and "length (Code (ctr m)) < 2 ^ 63"
  shows "unat (pc m) < length (Code (ctr m))" "Code (ctr m') = Code (ctr m)"
    "unat (pc m') < length (Code (ctr m)) \<Longrightarrow> moves (table_sem jt) (Code (ctr m)) (at m) (at m')"
proof -
  obtain op m1 m2 where op: "jt (GetOp (pc m) (ctr m)) = Some op" "entry_kind (GetOp (pc m) (ctr m)) op"
    and same: "same_flow m m1" and len: "numPop op \<le> int (Len (stk m1))" and ex: "execute op C E m1 = Ok (m2, r, None)"
    and m': "m' = m2\<lparr>pc := pc m2 + 1\<rparr>"
    by (rule step_executes [OF assms(1,2)])
  have m1: "pc m1 = pc m" "stk m1 = stk m" "Code (ctr m1) = Code (ctr m)" using same by (simp_all add: same_flow_def)
  show lt: "unat (pc m) < length (Code (ctr m))"
  proof (rule ccontr)
    assume "\<not> ?thesis"
    then have "GetOp (pc m) (ctr m) = STOP" by (simp add: GetOp_def)
    then have "halting (execute op)" using op(2) unfolding entry_kind_def by blast
    with ex show False by (simp add: halting_def)
  qed
  have "moved (table_sem jt) m1 m2"
    using executed_moves [where jt = jt, OF op(2) ex op(1) len] lt assms(3) opcode_GetOp [OF lt] by (simp add: m1)
  then show "Code (ctr m') = Code (ctr m)"
    and "unat (pc m') < length (Code (ctr m)) \<Longrightarrow> moves (table_sem jt) (Code (ctr m)) (at m) (at m')"
    by (simp_all add: moved_def m1 m')
qed

lemma table_sem_wf:
  assumes "table_flow jt"
  shows "sem_wf (table_sem jt)"
proof -
  have e: "\<exists>op. jt c = Some op \<and> entry_kind c op" for c using assms by (auto simp: table_flow_def entry_flow_def)
  have plain: "\<not> isPush op \<and> \<not> isDup op \<and> \<not> isSwap op" if "entry_kind c op" "c \<in> {JUMP, JUMPI, AND, PC}" for c op
    using that unfolding entry_kind_def by blast
  have "\<exists>s. table_sem jt JUMP = Some s \<and> plain 1 s"
  proof -
    obtain op where op: "jt JUMP = Some op" "entry_kind JUMP op" using e by blast
    then have "numPop op = 1 \<and> numPush op = 0" using plain [OF op(2)] by (simp add: entry_kind_def)
    then show ?thesis using op(1) plain [OF op(2)] by (simp add: table_sem_def plain_def opSem_def)
  qed
  moreover have "\<exists>s. table_sem jt JUMPI = Some s \<and> plain 2 s"
  proof -
    obtain op where op: "jt JUMPI = Some op" "entry_kind JUMPI op" using e by blast
    then have "numPop op = 2 \<and> numPush op = 0" using plain [OF op(2)] by (simp add: entry_kind_def opcode_defs)
    then show ?thesis using op(1) plain [OF op(2)] by (simp add: table_sem_def plain_def opSem_def)
  qed
  moreover have "table_sem jt c \<noteq> None" for c using e [of c] by (auto simp: table_sem_def)
  moreover have "\<not> (sem_isPush s \<and> (sem_isDup s \<or> sem_isSwap s)) \<and> \<not> (sem_isDup s \<and> sem_isSwap s) \<and>
      (\<not> sem_isPush s \<longrightarrow> sem_numBytes s = 1) \<and> (sem_isPush s \<or> sem_isDup s \<or> sem_isSwap s \<longrightarrow> c \<notin> {JUMP, JUMPI, AND, PC})"
    if "table_sem jt c = Some s" for c s
  proof -
    obtain op where op: "jt c = Some op" "entry_kind c op" using e by blast
    then have s: "s = opSem op" using that by (simp add: table_sem_def)
    have "\<not> (isPush op \<and> (isDup op \<or> isSwap op)) \<and> \<not> (isDup op \<and> isSwap op)"
      using op(2) unfolding entry_kind_def by presburger
    then show ?thesis using plain [OF op(2)] by (auto simp: s opSem_def)
  qed
  ultimately show ?thesis unfolding sem_wf_def by blast
qed

lemma table_sem_bytes:
  assumes "table_flow jt" and "table_sem jt c = Some s"
  shows "0 < sem_numBytes s"
proof -
  obtain op where op: "jt c = Some op" "entry_kind c op" using assms(1) by (auto simp: table_flow_def entry_flow_def)
  then have "isPush op \<Longrightarrow> 0 \<le> opNum op" by (auto simp: entry_kind_def)
  then show ?thesis using assms(2) op(1) by (auto simp: table_sem_def opSem_def)
qed

section \<open>Runs are covered\<close>

text \<open>The rounds of the interpreter's loop from one frame.\<close>

inductive runs :: "callctx \<Rightarrow> JumpTable \<Rightarrow> env \<Rightarrow> machine \<Rightarrow> machine \<Rightarrow> bool"
  for C :: callctx and jt :: JumpTable and E :: env and m0 :: machine where
  Start: "runs C jt E m0 m0"
| Round: "runs C jt E m0 m \<Longrightarrow> step C jt E m = Ok (Continue m' r) \<Longrightarrow> runs C jt E m0 m'"

lemma start_inside:
  assumes "check_blocks U sem code0 (Blocks p) (\<lambda>_. []) = Ok (Some preF)" and "check_entries U preF (Blocks p) = Ok True"
    and "documented p"
  shows "\<exists>b. inside U sem code0 p preF b (0, [])"
proof -
  obtain b where b: "b \<in> set (Blocks p)" "st_Pc (Entry b) = 0" "0 \<le> st_Pc (Exit b)"
    using assms(3) by (auto simp: documented_def list_ex_iff list_all_iff)
  obtain st pr pr' where st: "intoAState U (Stacks (Entry b)) = Ok st" "check_block U sem code0 b st 0 pr = Ok (Some pr')"
    "\<forall>q. set (pr' q) \<subseteq> set (preF q)"
    using check_blocks_each [OF assms(1)] b by auto
  moreover have "astate_Eq botState st"
    using check_entries_each [OF assms(2) b(1)] st(1) b(2) by (auto simp: inferredEntry_def)
  then have "covers_state code0 st []" using covers_Eq [of botState st code0 "[]"] by simp
  ultimately show ?thesis unfolding inside_def using b by (intro exI [of _ b]) auto
qed

lemma entered_inside:
  assumes "check_blocks U sem code0 (Blocks p) (\<lambda>_. []) = Ok (Some preF)" and "check_entries U preF (Blocks p) = Ok True"
    and "documented p" and "b \<in> set (Blocks p)" "q \<in> set (Succs b)" "q \<noteq> 0" and "st0 \<in> set (preF q)" "covers_state code0 st0 k"
  shows "\<exists>b'. inside U sem code0 p preF b' (q, k)"
proof -
  obtain b' where b': "b' \<in> set (Blocks p)" "st_Pc (Entry b') = q" "q \<le> st_Pc (Exit b')"
    using assms(3-5) unfolding documented_def list_ex_iff list_all_iff by metis
  obtain st pr pr' where st: "intoAState U (Stacks (Entry b')) = Ok st" "check_block U sem code0 b' st q pr = Ok (Some pr')"
    "\<forall>r. set (pr' r) \<subseteq> set (preF r)"
    using check_blocks_each [OF assms(1)] b' by auto
  have "astate_Eq (inferredEntry preF b') st" using check_entries_each [OF assms(2) b'(1)] st(1) by auto
  moreover have "covers_state code0 (inferredEntry preF b') k"
    using assms(6-8) b'(2) by (auto simp: inferredEntry_def covers_lubs)
  ultimately have "covers_state code0 st k" using covers_Eq by blast
  then show ?thesis using b' st by (auto simp: inside_def)
qed

text \<open>No move leads back to the start of a code that does not start with a jump destination.\<close>

lemma moves_positive:
  assumes "moves sem code0 (q, k) (q', k')" and "separated code0" and "\<And>c s. sem c = Some s \<Longrightarrow> 0 < sem_numBytes s"
  shows "q' \<noteq> 0"
proof -
  have q: "0 \<le> q" using assms(1) by cases (auto simp: opcode_at_def split: if_splits)
  have dest: "uint d \<noteq> 0" if "isJumpDest code0 d" for d
  proof
    assume "uint d = 0"
    then have "d = 0" by (simp add: word_uint_eq_iff)
    then show False using isJumpDest_lt [OF that] assms(2) by (simp add: separated_def)
  qed
  from assms(1) show ?thesis
  proof cases
    case (Push c s v)
    then have "0 < sem_numBytes s" using assms(3) by blast
    then show ?thesis using Push q by simp
  qed (use q dest in auto)
qed

lemma CheckCfg_accepts:
  assumes "CheckCfg U code0 p = Ok True" and "newIstanbulInstructionSet = Ok jt"
  obtains preF where "check_blocks U (table_sem jt) code0 (Blocks p) (\<lambda>_. []) = Ok (Some preF)"
    "check_entries U preF (Blocks p) = Ok True"
proof -
  have check: "bnd (check_blocks U (table_sem jt) code0 (Blocks p) (\<lambda>_. [])) (\<lambda>r.
      case r of None \<Rightarrow> Ok False | Some pre \<Rightarrow> check_entries U pre (Blocks p)) = Ok True"
    using assms(1) unfolding CheckCfg_def NewCfgAbsSem_def isValid_def assms(2) by simp
  then obtain r where "check_blocks U (table_sem jt) code0 (Blocks p) (\<lambda>_. []) = Ok r" by (auto simp: bnd_eq_Ok)
  with check that show ?thesis by (cases r) auto
qed

lemma runs_inside:
  assumes "runs C jt E m0 m" and jt: "table_flow jt" and start: "pc m0 = 0" "stk m0 = NewStack"
    and check: "check_blocks U (table_sem jt) (Code (ctr m0)) (Blocks p) (\<lambda>_. []) = Ok (Some preF)"
      "check_entries U preF (Blocks p) = Ok True" "documented p"
    and code0: "length (Code (ctr m0)) < 2 ^ 63" "separated (Code (ctr m0))"
  shows "Code (ctr m) = Code (ctr m0) \<and>
    (unat (pc m) < length (Code (ctr m0)) \<longrightarrow> (\<exists>b. inside U (table_sem jt) (Code (ctr m0)) p preF b (at m)))"
  using assms(1)
proof induction
  case Start
  have "at m0 = (0, [])" using start by (simp add: NewStack_def top_first_def)
  then show ?case using start_inside [OF check] by metis
next
  case (Round m m' r)
  let ?sem = "table_sem jt" and ?cd = "Code (ctr m0)"
  have cd: "Code (ctr m) = ?cd" using Round.IH by simp
  note s = step_moves [OF Round.hyps(2) jt, unfolded cd, OF code0(1)]
  obtain b where b: "inside U ?sem ?cd p preF b (at m)" using Round.IH s(1) by blast
  have "\<exists>b. inside U ?sem ?cd p preF b (at m')" if lt: "unat (pc m') < length ?cd"
  proof -
    note mv = s(3) [OF lt]
    have pos: "int (unat (pc m')) \<noteq> 0" by (rule moves_positive [OF mv code0(2) table_sem_bytes [OF jt]])
    from inside_moves [OF b mv table_sem_wf [OF jt] code0] show ?thesis
    proof (elim disjE conjE bexE)
      fix st assume "int (unat (pc m')) \<in> set (Succs b)" "st \<in> set (preF (int (unat (pc m'))))"
        "covers_state ?cd st (top_first (stk m'))"
      moreover have "b \<in> set (Blocks p)" using b by (simp add: inside_def)
      ultimately show ?thesis using entered_inside [OF check _ _ pos] by blast
    qed blast
  qed
  then show ?case using s(2) by simp
qed

text \<open>C29. Accepted control-flow certificates are sound: a certificate the checker accepts for a contract whose code neither starts
  with a jump destination nor has one right after a conditional jump, and that meets the
  conditions its documentation lists, has every transfer of control of every run of the
  interpreter: the instruction is inside a block, and the next instruction of the code follows in
  the same block or is one of its successors.\<close>

theorem accepted_certificate_sound:
  assumes "newIstanbulInstructionSet = Ok jt" and "CheckCfg unmarshal (Code (ctr m0)) p = Ok True" and "documented p"
    and "separated (Code (ctr m0))" and "length (Code (ctr m0)) < 2 ^ 63" and "pc m0 = 0" and "stk m0 = NewStack"
    and "runs C jt E m0 m" and "step C jt E m = Ok (Continue m' r)" and "unat (pc m') < length (Code (ctr m0))"
  shows "\<exists>b\<in>set (Blocks p). st_Pc (Entry b) \<le> int (unat (pc m)) \<and> int (unat (pc m)) \<le> st_Pc (Exit b) \<and>
    (pc m < pc m' \<and> int (unat (pc m')) \<le> st_Pc (Exit b) \<or>
     int (unat (pc m)) = st_Pc (Exit b) \<and> int (unat (pc m')) \<in> set (Succs b))"
proof -
  let ?sem = "table_sem jt" and ?cd = "Code (ctr m0)"
  have jt: "table_flow jt" by (rule when_okD [OF istanbul_flow assms(1)])
  obtain preF where check: "check_blocks unmarshal ?sem ?cd (Blocks p) (\<lambda>_. []) = Ok (Some preF)"
    "check_entries unmarshal preF (Blocks p) = Ok True"
    by (rule CheckCfg_accepts [OF assms(2,1)])
  note inv = runs_inside [OF assms(8) jt assms(6,7) check assms(3,5,4)]
  have cd: "Code (ctr m) = ?cd" using inv by simp
  note s = step_moves [OF assms(9) jt, unfolded cd, OF assms(5)]
  obtain b where b: "inside unmarshal ?sem ?cd p preF b (at m)" using inv s(1) by blast
  from inside_moves [OF b s(3) [OF assms(10)] table_sem_wf [OF jt] assms(5,4)] show ?thesis
    using b unfolding inside_def by (intro bexI [of _ b]) (auto simp: word_less_def)
qed

section \<open>A certificate\<close>

text \<open>The entries of four instructions in the Istanbul table.\<close>

lemma frontier_entry: "(c, op) \<in> set frontier_table \<Longrightarrow> map_of frontier_table c = Some op"
  using frontier_distinct by (rule map_of_is_SomeI)

lemma istanbul_entries:
  assumes "newIstanbulInstructionSet = Ok jt"
  shows "has_entry 0x60 ((simple opPush1 GasFastestStep 0 1)\<lparr>isPush := True, opNum := 1\<rparr>) jt"
    and "has_entry 0x56 (simple opJump GasMidStep 1 0) jt"
    and "has_entry 0x5b (simple opJumpdest JumpdestGas 0 0) jt"
    and "has_entry 0 (simple opStop 0 0 0) jt"
  by (rule when_okD [OF istanbul_entry [OF frontier_entry] assms],
      simp add: frontier_table_def frontier_arithmetic_def frontier_flow_def frontier_push1_def opcode_defs,
      simp add: updated_def opcode_defs)+

lemma istanbul_filled: "newIstanbulInstructionSet = Ok jt \<Longrightarrow> jt c = Some op \<Longrightarrow> maxStack_of op = maxStack (numPop op) (numPush op)"
  using istanbul_reach unfolding reach_def filled_def by (metis res.inject)

lemma has_entry_sem: "has_entry c op jt \<Longrightarrow> table_sem jt c = Some (opSem op)"
  by (auto simp: has_entry_def table_sem_def) (simp add: opSem_def)

lemma istanbul_sems:
  assumes "newIstanbulInstructionSet = Ok jt"
  shows "table_sem jt 0x60 = Some \<lparr>sem_isPush = True, sem_isDup = False, sem_isSwap = False, sem_numBytes = 2,
      sem_opNum = 1, sem_numPush = 1, sem_numPop = 0\<rparr>"
    and "table_sem jt 0x56 = Some \<lparr>sem_isPush = False, sem_isDup = False, sem_isSwap = False, sem_numBytes = 1,
      sem_opNum = 0, sem_numPush = 0, sem_numPop = 1\<rparr>"
    and "table_sem jt 0x5b = Some \<lparr>sem_isPush = False, sem_isDup = False, sem_isSwap = False, sem_numBytes = 1,
      sem_opNum = 0, sem_numPush = 0, sem_numPop = 0\<rparr>"
    and "table_sem jt 0 = Some \<lparr>sem_isPush = False, sem_isDup = False, sem_isSwap = False, sem_numBytes = 1,
      sem_opNum = 0, sem_numPush = 0, sem_numPop = 0\<rparr>"
  using istanbul_entries [OF assms, THEN has_entry_sem] by (simp_all add: opSem_def simple_def)

lemma check_block_next:
  assumes "pc0 < st_Pc (Exit b)" "resolveCheck sem code0 st pc0 = Ok (Some ([q], js))" "pc0 < q" "q \<le> st_Pc (Exit b)"
    "postCheck sem code0 st pc0 q False = Ok st1"
  shows "check_block U sem code0 b st pc0 pre = check_block U sem code0 b st1 q pre"
  using assms by (subst check_block.simps) simp

lemma check_block_last:
  assumes "pc0 = st_Pc (Exit b)" "intoAState U (Stacks (Exit b)) = Ok ex" "astate_Eq st ex"
    "resolveCheck sem code0 st pc0 = Ok (Some (succs, js))" "set succs = set (Succs b)"
    "add_posts (\<lambda>q. postCheck sem code0 st pc0 q (q \<in> set js)) succs pre = Ok pre'"
  shows "check_block U sem code0 b st pc0 pre = Ok (Some pre')"
  using assms by (subst check_block.simps) simp

text \<open>Texts of the values 0 and 4.\<close>

definition demo_unmarshal :: "bytes \<Rightarrow> u256 option" where
  "demo_unmarshal s = (if s = [0x30, 0x78, 0x34] then Some 4 else if s = [0x30, 0x78, 0x30] then Some 0 else None)"

definition demo_cert :: CfgProof where
  "demo_cert = \<lparr>Blocks =
     [\<lparr>Entry = \<lparr>st_Pc = 0, Stacks = [[]]\<rparr>, Exit = \<lparr>st_Pc = 2, Stacks = [[[0x30, 0x78, 0x34]]]\<rparr>, Preds = [], Succs = [4]\<rparr>,
      \<lparr>Entry = \<lparr>st_Pc = 4, Stacks = [[]]\<rparr>, Exit = \<lparr>st_Pc = 5, Stacks = [[]]\<rparr>, Preds = [2], Succs = []\<rparr>]\<rparr>"

text \<open>The state with one stack.\<close>

abbreviation only :: "int \<Rightarrow> AbsValue list \<Rightarrow> Absint.astate" where
  "only i vs \<equiv> \<lparr>stackset = [\<lparr>avalues = vs, ahash = stack_hash vs\<rparr>], anlyCounter = i, worklistLen = i\<rparr>"

lemmas absint_defs = resolveCheck_def postCheck_def opcode_at_def post_stack_def getPushValue_def isJumpDest_def isFF_def
  off_edge_def hasIndices_def value_at_def astack_Push_def astack_Pop_def updateHash_def astate_Add_def
  emptyState_def List.insert_def opcode_defs Let_def

lemma only_Eq [simp]: "astate_Eq (only i vs) (only j vs)"
  by (auto simp: astate_Eq_def astate_Leq_def astack_Eq_def AbsValue_Eq_def list_all_iff split: AbsValue.splits)

lemma only_bot: "botState = only (- 1) []"
  by (simp add: botState_def emptyState_def newStack_def updateHash_def)

lemma demo_code_absint:
  assumes "newIstanbulInstructionSet = Ok jt"
  shows "resolveCheck (table_sem jt) demo_code (only i []) 0 = Ok (Some ([2], []))"
    "postCheck (table_sem jt) demo_code (only i []) 0 2 False = Ok (only (- 1) [AbsConcrete 4])"
    "resolveCheck (table_sem jt) demo_code (only i [AbsConcrete 4]) 2 = Ok (Some ([4], [4]))"
    "postCheck (table_sem jt) demo_code (only i [AbsConcrete 4]) 2 4 True = Ok (only (- 1) [])"
    "resolveCheck (table_sem jt) demo_code (only i []) 4 = Ok (Some ([5], []))"
    "postCheck (table_sem jt) demo_code (only i []) 4 5 False = Ok (only (- 1) [])"
    "resolveCheck (table_sem jt) demo_code (only i []) 5 = Ok (Some ([], []))"
proof -
  have w: "IsUint64 4" "Uint64 4 = 4" "go_int 4 = 4" "SetBytes [4] = 4"
    by (simp_all add: IsUint64_def Uint64_def go_int_def SetBytes_def be_val_def)
  note all = absint_defs istanbul_sems [OF assms] w
  show "resolveCheck (table_sem jt) demo_code (only i []) 0 = Ok (Some ([2], []))"
    by (simp add: all demo_code_def)
  show "postCheck (table_sem jt) demo_code (only i []) 0 2 False = Ok (only (- 1) [AbsConcrete 4])"
    by (simp add: all demo_code_def slice_def)
  show "resolveCheck (table_sem jt) demo_code (only i [AbsConcrete 4]) 2 = Ok (Some ([4], [4]))"
    by (simp add: all demo_code_def)
  show "postCheck (table_sem jt) demo_code (only i [AbsConcrete 4]) 2 4 True = Ok (only (- 1) [])"
    by (simp add: all demo_code_def)
  show "resolveCheck (table_sem jt) demo_code (only i []) 4 = Ok (Some ([5], []))"
    by (simp add: all demo_code_def)
  show "postCheck (table_sem jt) demo_code (only i []) 4 5 False = Ok (only (- 1) [])"
    by (simp add: all demo_code_def)
  show "resolveCheck (table_sem jt) demo_code (only i []) 5 = Ok (Some ([], []))"
    by (simp add: all demo_code_def)
qed

lemma into_texts:
  "intoAState demo_unmarshal [[]] = Ok (only 0 [])"
  "intoAState demo_unmarshal [[[0x30, 0x78, 0x34]]] = Ok (only 0 [AbsConcrete 4])"
  "intoAState demo_unmarshal [[[0x30, 0x78, 0x30], invalid_text]] = Ok (only 0 [AbsConcrete 0, AbsInvalid])"
  by (simp_all add: intoAState_def astate_Add_def updateHash_def AbsValueDestringify_def top_text_def invalid_text_def
      demo_unmarshal_def)

lemma CheckCfg_eq:
  assumes "newIstanbulInstructionSet = Ok jt"
  shows "CheckCfg U code0 p = bnd (check_blocks U (table_sem jt) code0 (Blocks p) (\<lambda>_. [])) (\<lambda>r.
      case r of None \<Rightarrow> Ok False | Some pre \<Rightarrow> check_entries U pre (Blocks p))"
  unfolding CheckCfg_def NewCfgAbsSem_def isValid_def assms by simp

lemma demo_cert_accepted:
  assumes "newIstanbulInstructionSet = Ok jt"
  shows "CheckCfg demo_unmarshal demo_code demo_cert = Ok True"
proof -
  note code_facts = demo_code_absint [OF assms]
  let ?sem = "table_sem jt" and ?pre = "(\<lambda>_. [])(4 := [only (- 1) []]) :: preLub"
  define b1 b2 where "b1 = Blocks demo_cert ! 0" and "b2 = Blocks demo_cert ! 1"
  have bs: "Blocks demo_cert = [b1, b2]" by (simp add: b1_def b2_def demo_cert_def)
  have b: "Entry b1 = \<lparr>st_Pc = 0, Stacks = [[]]\<rparr>" "Exit b1 = \<lparr>st_Pc = 2, Stacks = [[[0x30, 0x78, 0x34]]]\<rparr>" "Succs b1 = [4]"
    "Entry b2 = \<lparr>st_Pc = 4, Stacks = [[]]\<rparr>" "Exit b2 = \<lparr>st_Pc = 5, Stacks = [[]]\<rparr>" "Succs b2 = []"
    by (simp_all add: b1_def b2_def demo_cert_def)
  have "check_block demo_unmarshal ?sem demo_code b1 (only 0 []) 0 (\<lambda>_. []) =
      check_block demo_unmarshal ?sem demo_code b1 (only (- 1) [AbsConcrete 4]) 2 (\<lambda>_. [])"
    by (rule check_block_next [OF _ code_facts(1) _ _ code_facts(2)]) (simp_all add: b)
  also have "\<dots> = Ok (Some ?pre)"
    by (rule check_block_last [OF _ _ only_Eq code_facts(3)]) (simp_all add: b into_texts code_facts(4))
  finally have 1: "check_block demo_unmarshal ?sem demo_code b1 (only 0 []) 0 (\<lambda>_. []) = Ok (Some ?pre)" .
  have "check_block demo_unmarshal ?sem demo_code b2 (only 0 []) 4 ?pre =
      check_block demo_unmarshal ?sem demo_code b2 (only (- 1) []) 5 ?pre"
    by (rule check_block_next [OF _ code_facts(5) _ _ code_facts(6)]) (simp_all add: b)
  also have "\<dots> = Ok (Some ?pre)"
    by (rule check_block_last [OF _ _ only_Eq code_facts(7)]) (simp_all add: b into_texts)
  finally have "check_blocks demo_unmarshal ?sem demo_code (Blocks demo_cert) (\<lambda>_. []) = Ok (Some ?pre)"
    using 1 by (simp add: bs b into_texts)
  moreover have "astate_Lub emptyState (only (- 1) []) = only (- 1) []"
    by (simp add: astate_Lub_def astate_Add_def emptyState_def)
  then have "check_entries demo_unmarshal ?pre (Blocks demo_cert) = Ok True"
    by (simp add: bs b into_texts inferredEntry_def only_bot)
  ultimately show ?thesis by (simp add: CheckCfg_eq [OF assms])
qed

theorem accepted_certificate_sound_witness:
  "\<exists>jt m'. newIstanbulInstructionSet = Ok jt \<and> step idle jt demo_env (demo_frame []) = Ok (Continue m' []) \<and> pc m' = 2 \<and>
     (\<exists>b\<in>set (Blocks demo_cert). st_Pc (Entry b) \<le> 0 \<and> 2 \<le> st_Pc (Exit b))"
proof -
  obtain jt where jt: "newIstanbulInstructionSet = Ok jt" using istanbul_reach by (auto simp: reach_def)
  obtain op where op: "jt 0x60 = Some op" "execute op = opPush1" "constantGas op = GasFastestStep" "dynamicGas op = None"
    "numPop op = 0" "numPush op = 1"
    using istanbul_entries(1) [OF jt] by (auto simp: has_entry_def simple_def)
  define m' where "m' = (demo_frame [])\<lparr>ctr := (ctr (demo_frame []))\<lparr>Gas := 4997\<rparr>, stk := mkStack [SetUint64 4], pc := 2\<rparr>"
  have frame0: "pc (demo_frame []) = 0" "Gas demo_contract = 5000" "Code (ctr (demo_frame [])) = demo_code"
    by (simp_all add: demo_frame_def frame_def demo_contract_def NewContract_def Let_def)
  have st: "step idle jt demo_env (demo_frame []) = Ok (Continue m' [])"
    using op istanbul_filled [OF jt op(1)] frame0
    by (simp add: step_def use_dynamic_def GetOp_def demo_code_def UseGas_def maxStack_def StackLimit_def GasFastestStep_def
        opPush1_def opret_def push_def m'_def Let_def)
  have ok: "documented demo_cert" "separated demo_code" "CheckCfg demo_unmarshal demo_code demo_cert = Ok True"
    using demo_cert_accepted [OF jt] by (simp_all add: documented_def demo_cert_def separated_def demo_code_def opcode_defs)
  have "\<exists>b\<in>set (Blocks demo_cert). st_Pc (Entry b) \<le> 0 \<and> 2 \<le> st_Pc (Exit b)"
    using accepted_certificate_sound [OF jt, of demo_unmarshal "demo_frame []" demo_cert idle demo_env "demo_frame []" m' "[]"]
      ok st frame0
    by (auto simp: NewStack_mkStack runs.Start m'_def demo_cert_def demo_code_def)
  then show ?thesis using jt st by (intro exI [of _ jt] exI [of _ m']) (simp add: m'_def)
qed

section \<open>What the checker misses\<close>

text \<open>The empty certificate is accepted for every code.\<close>

lemma empty_certificate_accepted: "CheckCfg U code0 \<lparr>Blocks = []\<rparr> = Ok True"
proof -
  obtain jt where "newIstanbulInstructionSet = Ok jt" using istanbul_reach by (auto simp: reach_def)
  then show ?thesis by (simp add: CheckCfg_eq)
qed

text \<open>A loop that starts at 0 and pushes 1 in every round.\<close>

definition loop_code :: bytes where
  "loop_code = [0x5b, 0x60, 1, 0x60, 0, 0x56]"

definition loop_cert :: CfgProof where
  "loop_cert = \<lparr>Blocks =
     [\<lparr>Entry = \<lparr>st_Pc = 0, Stacks = [[]]\<rparr>, Exit = \<lparr>st_Pc = 5, Stacks = [[[0x30, 0x78, 0x30], invalid_text]]\<rparr>,
       Preds = [5], Succs = [0]\<rparr>]\<rparr>"

definition loop_frame :: machine where
  "loop_frame = frame ((fst (NewContract (AccountRef 1) (AccountRef 2) (Some 0) 5000 True Map.empty))\<lparr>Code := loop_code\<rparr>) [] demo_evm"

lemma loop_code_absint:
  assumes "newIstanbulInstructionSet = Ok jt"
  shows "resolveCheck (table_sem jt) loop_code (only i []) 0 = Ok (Some ([1], []))"
    "postCheck (table_sem jt) loop_code (only i []) 0 1 False = Ok (only (- 1) [])"
    "resolveCheck (table_sem jt) loop_code (only i []) 1 = Ok (Some ([3], []))"
    "postCheck (table_sem jt) loop_code (only i []) 1 3 False = Ok (only (- 1) [AbsInvalid])"
    "resolveCheck (table_sem jt) loop_code (only i [AbsInvalid]) 3 = Ok (Some ([5], []))"
    "postCheck (table_sem jt) loop_code (only i [AbsInvalid]) 3 5 False = Ok (only (- 1) [AbsConcrete 0, AbsInvalid])"
    "resolveCheck (table_sem jt) loop_code (only i [AbsConcrete 0, AbsInvalid]) 5 = Ok (Some ([0], [0]))"
    "postCheck (table_sem jt) loop_code (only i [AbsConcrete 0, AbsInvalid]) 5 0 True = Ok (only (- 1) [AbsInvalid])"
proof -
  have w: "IsUint64 0" "Uint64 0 = 0" "go_int 0 = 0" "SetBytes [0] = 0" "IsUint64 1" "Uint64 1 = 1" "SetBytes [1] = 1"
    by (simp_all add: IsUint64_def Uint64_def go_int_def SetBytes_def be_val_def)
  note all = absint_defs istanbul_sems [OF assms] w loop_code_def slice_def
  show "resolveCheck (table_sem jt) loop_code (only i []) 0 = Ok (Some ([1], []))" by (simp add: all)
  show "postCheck (table_sem jt) loop_code (only i []) 0 1 False = Ok (only (- 1) [])" by (simp add: all)
  show "resolveCheck (table_sem jt) loop_code (only i []) 1 = Ok (Some ([3], []))" by (simp add: all)
  show "postCheck (table_sem jt) loop_code (only i []) 1 3 False = Ok (only (- 1) [AbsInvalid])" by (simp add: all)
  show "resolveCheck (table_sem jt) loop_code (only i [AbsInvalid]) 3 = Ok (Some ([5], []))" by (simp add: all)
  show "postCheck (table_sem jt) loop_code (only i [AbsInvalid]) 3 5 False = Ok (only (- 1) [AbsConcrete 0, AbsInvalid])"
    by (simp add: all)
  show "resolveCheck (table_sem jt) loop_code (only i [AbsConcrete 0, AbsInvalid]) 5 = Ok (Some ([0], [0]))" by (simp add: all)
  show "postCheck (table_sem jt) loop_code (only i [AbsConcrete 0, AbsInvalid]) 5 0 True = Ok (only (- 1) [AbsInvalid])"
    by (simp add: all)
qed

lemma loop_cert_accepted:
  assumes "newIstanbulInstructionSet = Ok jt"
  shows "CheckCfg demo_unmarshal loop_code loop_cert = Ok True"
proof -
  note code_facts = loop_code_absint [OF assms]
  let ?check = "check_block demo_unmarshal (table_sem jt) loop_code" and ?pre = "(\<lambda>_. []) :: preLub"
  define b where "b = Blocks loop_cert ! 0"
  have bs: "Blocks loop_cert = [b]" by (simp add: b_def loop_cert_def)
  have b: "Entry b = \<lparr>st_Pc = 0, Stacks = [[]]\<rparr>" "Succs b = [0]"
    "Exit b = \<lparr>st_Pc = 5, Stacks = [[[0x30, 0x78, 0x30], invalid_text]]\<rparr>"
    by (simp_all add: b_def loop_cert_def)
  have "?check b (only 0 []) 0 ?pre = ?check b (only (- 1) []) 1 ?pre"
    by (rule check_block_next [OF _ code_facts(1) _ _ code_facts(2)]) (simp_all add: b)
  also have "\<dots> = ?check b (only (- 1) [AbsInvalid]) 3 ?pre"
    by (rule check_block_next [OF _ code_facts(3) _ _ code_facts(4)]) (simp_all add: b)
  also have "\<dots> = ?check b (only (- 1) [AbsConcrete 0, AbsInvalid]) 5 ?pre"
    by (rule check_block_next [OF _ code_facts(5) _ _ code_facts(6)]) (simp_all add: b)
  also have "\<dots> = Ok (Some (?pre(0 := [only (- 1) [AbsInvalid]])))"
    by (rule check_block_last [OF _ _ only_Eq code_facts(7)]) (simp_all add: b into_texts code_facts(8))
  finally show ?thesis by (simp add: CheckCfg_eq [OF assms] bs b into_texts inferredEntry_def only_bot)
qed

text \<open>The loop between two instructions.\<close>

definition loop_at :: "u64 \<Rightarrow> u64 \<Rightarrow> u256 list \<Rightarrow> machine" where
  "loop_at g p xs = loop_frame\<lparr>ctr := (ctr loop_frame)\<lparr>Gas := g\<rparr>, stk := mkStack xs, pc := p\<rparr>"

lemma loop_at_simps [simp]:
  "pc (loop_at g p xs) = p" "stk (loop_at g p xs) = mkStack xs" "Gas (ctr (loop_at g p xs)) = g"
  "Code (ctr (loop_at g p xs)) = loop_code" "skipAnalysis (ctr (loop_at g p xs))"
  "(loop_at g p xs)\<lparr>stk := mkStack ys\<rparr> = loop_at g p ys" "(loop_at g p xs)\<lparr>pc := q\<rparr> = loop_at g q xs"
  "(loop_at g p xs)\<lparr>ctr := (ctr (loop_at g p xs))\<lparr>Gas := h\<rparr>\<rparr> = loop_at h p xs"
  by (simp_all add: loop_at_def loop_frame_def frame_def NewContract_def)

lemma loop_start: "loop_frame = loop_at 5000 0 []"
  by (simp add: loop_at_def loop_frame_def frame_def NewContract_def NewStack_mkStack Let_def)

lemma loop_steps:
  assumes jt: "newIstanbulInstructionSet = Ok jt"
  shows "step idle jt demo_env (loop_at 5000 0 []) = Ok (Continue (loop_at 4999 1 []) [])"
    "step idle jt demo_env (loop_at 4999 1 []) = Ok (Continue (loop_at 4996 3 [1]) [])"
    "step idle jt demo_env (loop_at 4996 3 [1]) = Ok (Continue (loop_at 4993 5 [0, 1]) [])"
    "step idle jt demo_env (loop_at 4993 5 [0, 1]) = Ok (Continue (loop_at 4985 0 [1]) [])"
proof -
  obtain push where push: "jt 0x60 = Some push" "execute push = opPush1" "constantGas push = GasFastestStep" "dynamicGas push = None"
    "numPop push = 0" "numPush push = 1"
    using istanbul_entries(1) [OF jt] by (auto simp: has_entry_def simple_def)
  obtain jump where jump: "jt 0x56 = Some jump" "execute jump = opJump" "constantGas jump = GasMidStep" "dynamicGas jump = None"
    "numPop jump = 1" "numPush jump = 0"
    using istanbul_entries(2) [OF jt] by (auto simp: has_entry_def simple_def)
  obtain dest where dest: "jt 0x5b = Some dest" "execute dest = opJumpdest" "constantGas dest = JumpdestGas" "dynamicGas dest = None"
    "numPop dest = 0" "numPush dest = 0"
    using istanbul_entries(3) [OF jt] by (auto simp: has_entry_def simple_def)
  note max = istanbul_filled [OF jt push(1)] istanbul_filled [OF jt jump(1)] istanbul_filled [OF jt dest(1)]
  note run = step_def use_dynamic_def GetOp_def loop_code_def UseGas_def maxStack_def StackLimit_def GasFastestStep_def
    GasMidStep_def JumpdestGas_def opret_def push_def Let_def SetUint64_def
  show "step idle jt demo_env (loop_at 5000 0 []) = Ok (Continue (loop_at 4999 1 []) [])"
    using dest max by (simp add: run opJumpdest_def)
  show "step idle jt demo_env (loop_at 4999 1 []) = Ok (Continue (loop_at 4996 3 [1]) [])"
    using push max by (simp add: run opPush1_def)
  show "step idle jt demo_env (loop_at 4996 3 [1]) = Ok (Continue (loop_at 4993 5 [0, 1]) [])"
    using push max by (simp add: run opPush1_def)
  show "step idle jt demo_env (loop_at 4993 5 [0, 1]) = Ok (Continue (loop_at 4985 0 [1]) [])"
    using jump max by (simp add: run opJump_def pop_def jump_to_def validJumpdest_def Uint64WithOverflow_def IsUint64_def Uint64_def
        JUMPDEST_def)
qed

text \<open>C30. The checker does not see a jump back to the start of the code: there is a certificate that meets the documented
  conditions and is accepted, and a run of the interpreter that comes back to program counter 0
  with a stack its entry state does not cover.\<close>

theorem jump_to_start_missed:
  "\<exists>jt m st. newIstanbulInstructionSet = Ok jt \<and> documented loop_cert \<and>
     CheckCfg demo_unmarshal (Code (ctr loop_frame)) loop_cert = Ok True \<and>
     intoAState demo_unmarshal (Stacks (Entry (hd (Blocks loop_cert)))) = Ok st \<and> st_Pc (Entry (hd (Blocks loop_cert))) = 0 \<and>
     runs idle jt demo_env loop_frame m \<and> pc m = 0 \<and> \<not> covers_state loop_code st (top_first (stk m))"
proof -
  obtain jt where jt: "newIstanbulInstructionSet = Ok jt" using istanbul_reach by (auto simp: reach_def)
  note steps = loop_steps [OF jt]
  have "runs idle jt demo_env loop_frame (loop_at 4985 0 [1])"
    using runs.Round [OF runs.Round [OF runs.Round [OF runs.Round [OF runs.Start steps(1)] steps(2)] steps(3)] steps(4)]
    by (simp add: loop_start)
  moreover have "intoAState demo_unmarshal (Stacks (Entry (hd (Blocks loop_cert)))) = Ok (only 0 [])"
    by (simp add: loop_cert_def into_texts)
  moreover have "\<not> covers_state loop_code (only 0 []) (top_first (stk (loop_at 4985 0 [1])))"
    by (simp add: covers_state_def covers_stack_def)
  moreover have "documented loop_cert" "st_Pc (Entry (hd (Blocks loop_cert))) = 0"
    by (simp_all add: documented_def loop_cert_def)
  moreover have "CheckCfg demo_unmarshal (Code (ctr loop_frame)) loop_cert = Ok True"
    using loop_cert_accepted [OF jt] by (simp add: loop_start)
  ultimately show ?thesis using jt loop_at_simps(1) by blast
qed

end
