(* ===== verification/Spec2Isabelle.thy ===== *)
theory Spec2Isabelle
  imports EvmProps FeeProps TransitionGas Bloom TransactionProps ProcessProps AuthorityProps RewardProps
    CfgProps
begin

text \<open>
  Verification of the execution core of the N42 chain client (Go sources under \<open>src/\<close>): the
  Ethereum virtual machine, the journalled world state it runs on, the transition of a message
  and of a block, transactions and their signatures, RLP and bloom filters, fees, the
  proof-of-authority engines with their rewards, and the checker of control-flow certificates.

  \<^bold>\<open>The program.\<close> A block is executed transaction by transaction
  (\<open>internal/state_processor.go\<close>): a transaction becomes a message from the sender it names
  (\<open>common/transaction\<close>; the recovery of the sender from the signature is a separate operation, modelled
  in \<open>Signing\<close>, which the processor does not call), and the message is applied
  (\<open>internal/state_transition.go\<close>): gas is bought, the message runs in an \<open>EVM\<close>
  (\<open>internal/vm/evm.go\<close>), what is left is refunded and the fee is paid. The interpreter
  (\<open>interpreter.go\<close>) runs bytecode with an instruction table (\<open>jump_table.go\<close>, \<open>eips.go\<close>) chosen
  from the rules of the block (\<open>params/config.go\<close>). An instruction works on the stack and memory
  of its frame (\<open>stack.go\<close>, \<open>memory.go\<close>), on the contract that runs (\<open>contract.go\<close>) and on the
  world state (\<open>modules/state\<close>), which caches accounts over a database reader and journals every
  change, so that a failed frame is undone. The logs of a transaction go into its receipt and
  bloom filter (\<open>common/block\<close>). Headers are made and verified by the engines APOA and APOS
  (\<open>internal/consensus\<close>): signers vote on the set of signers, take turns, and APOS rewards the
  verifiers of blocks at the end of an epoch.

  \<^bold>\<open>How the model is made.\<close> A struct is a record with the fields of the source, an enumeration or
  interface with known implementations a datatype. \<open>uintN\<close> is an \<open>N\<close>-bit word and wraps as in
  Go; \<open>int\<close> is an integer, with the conversion from \<open>uint64\<close> written out. A function that may
  panic returns \<open>'a res\<close>: a value, a panic with its reason, or out of fuel; Go errors are values
  in the result. State is passed and returned. Pointers are options where the code meets nil.
  Code outside \<open>src/\<close> is an argument: the hash functions and the curve, the arithmetic of
  \<open>uint256\<close> the instructions call, the precompiled contracts, the database readers and the chain
  of headers, the protobuf encoder, the clock, and the order in which Go enumerates a map. What a
  theorem needs of them is among its hypotheses.

  \<^bold>\<open>Theories.\<close>
  \<^item> \<open>Prelude\<close>: word types, the result type of code that may panic and the rules for reasoning
    about results, byte strings and slices.
  \<^item> \<open>Params\<close>, \<open>Opcodes\<close>: \<open>params/protocol_params.go\<close>, \<open>internal/vm/opcodes.go\<close>. \<open>IntMath\<close>:
    \<open>common/math/integer.go\<close>, \<open>common/types/bytes.go\<close>.
  \<^item> \<open>EvmStack\<close>, \<open>EvmCommon\<close>, \<open>EvmMemory\<close>, \<open>Contract\<close>: the data of a frame. The locale \<open>lifo\<close> is
    what instructions rely on; the slice of \<open>stack.go\<close> implements it.
  \<^item> \<open>AccessList\<close>, \<open>StateObject\<close>, \<open>IntraBlockState\<close>: the world state with its journal.
    \<open>StateView\<close> is the abstract state its callers see, \<open>StateRevert\<close> shows that undoing a journal
    entry implements the undo on the abstract state, \<open>StateFrames\<close> follows nested frames, and
    \<open>StateProps\<close> states what a failed frame restores, two cases in which it does not, and, through
    the locale \<open>warm_set\<close>, which accounts and slots are warm.
  \<^item> \<open>EvmTypes\<close>, \<open>GasTable\<close>, \<open>Instructions\<close>, \<open>JumpTable\<close>, \<open>Evm\<close>, \<open>Interpreter\<close>: the machine, with
    one definition per gas function, instruction and instruction set. \<open>InstrSafe\<close>, \<open>GasSafe\<close>,
    \<open>TableSafe\<close>, \<open>TableSets\<close>, \<open>RunSafe\<close>: what every instruction, gas function, table entry, round
    and run respects. \<open>VmProps\<close>, \<open>EvmProps\<close>: termination, bounds, restored frames, the invariant
    of the loop, jump destinations and the extra EIPs.
  \<^item> \<open>ChainConfig\<close>, \<open>ChainProps\<close>: fork predicates, rules, fork order and compatible
    configurations (\<open>params/config.go\<close>). \<open>Fees\<close>, \<open>FeeProps\<close>: gas limits and base fees
    (\<open>consensus/misc\<close>, \<open>miner/gasLimit.go\<close>); the miner's header passes the verification.
  \<^item> \<open>Transition\<close>, \<open>TransitionProps\<close>, \<open>TransitionGas\<close>: one message: intrinsic gas, the checks that
    accept it, and the gas it takes from the pool, uses and returns.
  \<^item> \<open>WireTypes\<close>, \<open>Transactions\<close>, \<open>Signing\<close>, \<open>TransactionProps\<close>: the transaction kinds, their
    messages and signatures; a signed transaction gives back its sender and survives its message.
  \<^item> \<open>Processor\<close>, \<open>ProcessProps\<close>: the transactions of a block, with receipts and gas accounts.
  \<^item> \<open>Bloom\<close>: filters never miss an item, through the locale \<open>item_filter\<close>. \<open>Rlp\<close>, \<open>RlpProps\<close>,
    \<open>RlpEncode\<close>, \<open>RlpDecode\<close>: the buffered encoder writes the encoding, decoding is its inverse.
  \<^item> \<open>Clique\<close>, \<open>CliqueProps\<close>: voting snapshots (\<open>apoa/snapshot.go\<close>): tallies are a recount of the
    votes, signers change by majority, no signer signs twice within the limit. \<open>Authority\<close>,
    \<open>AuthorityProps\<close>: the engines (\<open>apoa.go\<close>, \<open>apos.go\<close>): what they seal passes verification.
    \<open>Rewards\<close>, \<open>RewardProps\<close>: the rewards of an epoch and the state roots (\<open>apos/consensus.go\<close>).
  \<^item> \<open>Absint\<close>: control-flow certificates and their checker (\<open>absint_cfg.go\<close>,
    \<open>absint_cfg_proof_check.go\<close>). \<open>AbsintSound\<close>: the abstract semantics covers the moves of a
    contract. \<open>StackFlow\<close>: what every instruction up to Istanbul does to program counter and stack.
    \<open>CfgProps\<close>: rounds of the interpreter are moves, hence accepted certificates are sound, and a
    jump the checker misses.

  \<^bold>\<open>Fuel.\<close> The interpreter calls itself through the instructions that call. Its fuel is enough when
  it exceeds the gas: a round that goes on burns gas, and a nested call gets less than its caller
  had. Any two such amounts give the same result. The search for a voting snapshot goes back one
  header at a time, at most to the genesis block, so the number of the parent bounds it. The loop
  over the blocks of an epoch takes at most as many rounds as the epoch is long. All other loops
  are recursions that are shown to end.

  \<^bold>\<open>Hypotheses worth knowing.\<close> Code has less than \<open>2^63\<close> bytes, as every Go slice. Theorems about
  the whole machine ask that rules with the access-list prices include the earlier fork they build
  on. A configuration accepted by \<open>CheckConfigForkOrder\<close> gives this when its chain id is not the
  exempted 77, its fork blocks are 64-bit numbers and it has no Prague time, which is not checked.
  The failed frame that is shown to restore the state starts without pending balance increases and
  does not self-destruct; \<open>StateProps\<close> shows what happens otherwise. The soundness of
  certificates asks for the conditions the documentation of \<open>isValid\<close> lists, which the code does
  not check, and that no jump destination starts the code or follows a conditional jump.

  \<^bold>\<open>Not modelled.\<close> Databases, networking, RPC, node start-up and the services around them are I/O and
  concurrency. The block chain, the fork choice, block validation and the transaction pool work on
  the database, on caches behind locks, on timers and on event feeds. Cryptography, protobuf and
  bindings are generated or vendored code and appear as parameters. Of RLP the reflection over Go
  types is left out, of the engines the merge of BLS signatures and the storage of snapshots as
  JSON, of the certificates the worklist analysis that produces them and their compressed JSON.
  Tracers, loggers and printing do not change what is computed.
\<close>

end
